(* ===== verification/Prelude.thy ===== *)
theory Prelude
  imports Main "HOL-Library.AList" "HOL-Library.Sublist"
begin

text \<open>
  Shared material of the development: the error type of the backend and the result type
  \<open>error + 'a\<close>, sequencing of fallible steps (\<open>bindE\<close>), database tables as association
  lists with unique keys, and the integer sums over them that the money theorems use.

  Collections: \<open>res_simps\<close> inverts a step that returned a value, \<open>table_simps\<close> rewrites
  lookups and sums of updated tables.
\<close>

named_theorems res_simps \<open>inversion of fallible steps\<close>
named_theorems table_simps \<open>lookups and sums over updated tables\<close>

section \<open>Errors and fallible steps\<close>

type_synonym id = string

text \<open>
  The exceptions the services throw: the NestJS exceptions with their message, the
  application exception with its error code, a plain \<open>Error\<close>, and the two errors the
  database client raises (an update whose row is missing, a violated unique constraint).
\<close>

datatype error =
    BadRequest string
  | NotFound string
  | Forbidden string
  | AppException string
  | PlainError string
  | RecordNotFound
  | UniqueViolation

type_synonym 'a res = "error + 'a"

definition bindE :: "'e + 'a \<Rightarrow> ('a \<Rightarrow> 'e + 'b) \<Rightarrow> 'e + 'b" where
  "bindE m f = (case m of Inl e \<Rightarrow> Inl e | Inr x \<Rightarrow> f x)"

lemma bindE_Inl [simp]: "bindE (Inl e) f = Inl e"
  by (simp add: bindE_def)

lemma bindE_Inr [simp]: "bindE (Inr x) f = f x"
  by (simp add: bindE_def)

lemma bindE_eq_Inr [res_simps]: "bindE m f = Inr y \<longleftrightarrow> (\<exists>x. m = Inr x \<and> f x = Inr y)"
  by (cases m) auto

lemma bindE_eq_Inl: "bindE m f = Inl e \<longleftrightarrow> m = Inl e \<or> (\<exists>x. m = Inr x \<and> f x = Inl e)"
  by (cases m) auto

lemma if_Inl_eq_Inr [res_simps]: "(if b then Inl e else m) = Inr y \<longleftrightarrow> \<not> b \<and> m = Inr y"
  by auto

lemma if_Inl_eq_Inr' [res_simps]: "(if b then m else Inl e) = Inr y \<longleftrightarrow> b \<and> m = Inr y"
  by auto

text \<open>The loop over a list whose body may throw: the first error ends it.\<close>

fun foldE :: "('a \<Rightarrow> 's \<Rightarrow> 'e + 's) \<Rightarrow> 'a list \<Rightarrow> 's \<Rightarrow> 'e + 's" where
  "foldE f [] s = Inr s"
| "foldE f (x # xs) s = bindE (f x s) (foldE f xs)"

lemma foldE_invariant:
  assumes "\<And>x s s'. x \<in> set xs \<Longrightarrow> f x s = Inr s' \<Longrightarrow> P s \<Longrightarrow> P s'"
    and "foldE f xs s = Inr s'" and "P s"
  shows "P s'"
  using assms
proof (induction xs arbitrary: s)
  case Nil
  then show ?case by simp
next
  case (Cons x xs)
  from Cons.prems(2) obtain t where t: "f x s = Inr t" "foldE f xs t = Inr s'"
    by (auto simp: res_simps)
  have "P t" using Cons.prems(1,3) t(1) by auto
  then show ?case using Cons.IH Cons.prems(1) t(2) by auto
qed

text \<open>
  A database transaction: its body runs on the current state and its writes are kept when
  it returns; when it throws, they are rolled back.
\<close>

definition transaction :: "('s \<Rightarrow> 'e + ('a \<times> 's)) \<Rightarrow> 's \<Rightarrow> ('e + 'a) \<times> 's" where
  "transaction body s = (case body s of Inl e \<Rightarrow> (Inl e, s) | Inr (a, s') \<Rightarrow> (Inr a, s'))"

lemma transaction_Inl: "body s = Inl e \<Longrightarrow> transaction body s = (Inl e, s)"
  by (simp add: transaction_def)

lemma transaction_Inr: "body s = Inr (a, s') \<Longrightarrow> transaction body s = (Inr a, s')"
  by (simp add: transaction_def)

lemma transaction_cases:
  obtains (rolled_back) e where "body s = Inl e" "transaction body s = (Inl e, s)"
    | (committed) a s' where "body s = Inr (a, s')" "transaction body s = (Inr a, s')"
  by (cases "body s") (auto simp: transaction_def)

section \<open>Strings\<close>

text \<open>JavaScript's \<open>includes\<close>: does \<open>p\<close> occur in \<open>s\<close>?\<close>

fun str_includes :: "string \<Rightarrow> string \<Rightarrow> bool" where
  "str_includes [] p = (p = [])"
| "str_includes (c # cs) p = (prefix p (c # cs) \<or> str_includes cs p)"

lemma str_includes_prefix: "prefix p s \<Longrightarrow> str_includes s p"
  by (cases s) auto

text \<open>\<open>BigInt.prototype.toString\<close>: decimal digits, with a minus sign for negative values.\<close>

definition digit_char :: "nat \<Rightarrow> char" where
  "digit_char n = char_of (48 + n)"

fun show_nat :: "nat \<Rightarrow> string" where
  "show_nat n = (if n < 10 then [digit_char n] else show_nat (n div 10) @ [digit_char (n mod 10)])"

declare show_nat.simps [simp del]

definition show_int :: "int \<Rightarrow> string" where
  "show_int z = (if z < 0 then CHR ''-'' # show_nat (nat (- z)) else show_nat (nat z))"

section \<open>JSON values\<close>

text \<open>The payloads written to audit rows, outbox events and ledger metadata.\<close>

datatype json =
    JNull
  | JBool bool
  | JNum int
  | JStr string
  | JObj "(string \<times> json) list"

fun json_get :: "json \<Rightarrow> string \<Rightarrow> json option" where
  "json_get (JObj fs) k = map_of fs k"
| "json_get _ k = None"

definition jstr_opt :: "string option \<Rightarrow> json" where
  "jstr_opt x = (case x of None \<Rightarrow> JNull | Some s \<Rightarrow> JStr s)"

section \<open>Tables\<close>

text \<open>
  A table is an association list from primary keys to rows, oldest row first. Its keys are
  distinct in every state that satisfies the components' invariants.
\<close>

type_synonym ('k, 'v) table = "('k \<times> 'v) list"

abbreviation keys :: "('k, 'v) table \<Rightarrow> 'k list" where
  "keys t \<equiv> List.map fst t"

abbreviation row :: "('k, 'v) table \<Rightarrow> 'k \<Rightarrow> 'v option" where
  "row t k \<equiv> map_of t k"

text \<open>\<open>update({ where: { id } })\<close>: raises when the row is missing.\<close>

definition update_row :: "'k \<Rightarrow> ('v \<Rightarrow> 'v) \<Rightarrow> ('k, 'v) table \<Rightarrow> ('k, 'v) table res" where
  "update_row k f t =
     (case row t k of None \<Rightarrow> Inl RecordNotFound | Some v \<Rightarrow> Inr (AList.update k (f v) t))"

text \<open>\<open>updateMany({ where })\<close>: rewrites the matching rows and reports how many there were.\<close>

definition update_many ::
    "('k \<Rightarrow> 'v \<Rightarrow> bool) \<Rightarrow> ('v \<Rightarrow> 'v) \<Rightarrow> ('k, 'v) table \<Rightarrow> nat \<times> ('k, 'v) table" where
  "update_many p f t =
     (length (filter (\<lambda>(k, v). p k v) t), map (\<lambda>(k, v). (k, if p k v then f v else v)) t)"

text \<open>\<open>create\<close>: the new row is the youngest.\<close>

definition insert_row :: "'k \<Rightarrow> 'v \<Rightarrow> ('k, 'v) table \<Rightarrow> ('k, 'v) table" where
  "insert_row k v t = t @ [(k, v)]"

definition tsum :: "('k \<Rightarrow> 'v \<Rightarrow> int) \<Rightarrow> ('k, 'v) table \<Rightarrow> int" where
  "tsum f t = (\<Sum>(k, v)\<leftarrow>t. f k v)"

lemma tsum_simps [simp]:
  "tsum f [] = 0"
  "tsum f ((k, v) # t) = f k v + tsum f t"
  "tsum f (t @ u) = tsum f t + tsum f u"
  by (simp_all add: tsum_def)

lemma tsum_insert_row [table_simps]: "tsum f (insert_row k v t) = tsum f t + f k v"
  by (simp add: insert_row_def)

lemma keys_update [simp]: "row t k \<noteq> None \<Longrightarrow> keys (AList.update k v t) = keys t"
  by (induction t) (auto split: if_splits)

lemma row_update [table_simps]: "row (AList.update k v t) k' = (if k' = k then Some v else row t k')"
  by (simp add: update_conv')

lemma row_insert_row [table_simps]:
  "row t k = None \<Longrightarrow> row (insert_row k v t) k' = (if k' = k then Some v else row t k')"
  by (induction t) (auto simp: insert_row_def)

lemma row_None_iff: "row t k = None \<longleftrightarrow> k \<notin> set (keys t)"
  by (auto simp: map_of_eq_None_iff)

lemma tsum_update [table_simps]:
  "distinct (keys t) \<Longrightarrow> row t k = Some v \<Longrightarrow>
     tsum f (AList.update k w t) = tsum f t - f k v + f k w"
proof (induction t)
  case Nil
  then show ?case by simp
next
  case (Cons p t)
  obtain a b where p: "p = (a, b)" by (cases p)
  show ?case
  proof (cases "a = k")
    case True
    with Cons.prems p show ?thesis by auto
  next
    case False
    with Cons p show ?thesis by (auto split: if_splits)
  qed
qed

lemma tsum_nonneg: "(\<And>k v. (k, v) \<in> set t \<Longrightarrow> 0 \<le> f k v) \<Longrightarrow> 0 \<le> tsum f t"
  by (induction t) auto

lemma tsum_cong: "(\<And>k v. (k, v) \<in> set t \<Longrightarrow> f k v = g k v) \<Longrightarrow> tsum f t = tsum g t"
  by (induction t) auto

lemma update_row_eq_Inr [res_simps]:
  "update_row k f t = Inr t' \<longleftrightarrow> (\<exists>v. row t k = Some v \<and> t' = AList.update k (f v) t)"
  by (auto simp: update_row_def split: option.splits)

lemma keys_insert_row [simp]: "keys (insert_row k v t) = keys t @ [k]"
  by (simp add: insert_row_def)

lemma keys_update_many [simp]: "keys (snd (update_many p f t)) = keys t"
  by (induction t) (auto simp: update_many_def)

lemma row_update_many [table_simps]:
  "row (snd (update_many p f t)) k =
     map_option (\<lambda>v. if p k v then f v else v) (row t k)"
  by (induction t) (auto simp: update_many_def)

text \<open>The claim idiom: an update of one row, by its key and a condition on its value.\<close>

lemma update_many_key_count:
  "distinct (keys t) \<Longrightarrow>
     fst (update_many (\<lambda>k v. k = key \<and> p v) f t) =
       (case row t key of Some v \<Rightarrow> if p v then 1 else 0 | None \<Rightarrow> 0)"
proof (induction t)
  case Nil
  then show ?case by (simp add: update_many_def)
next
  case (Cons a t)
  obtain k v where a: "a = (k, v)" by (cases a)
  have none: "row t key = None" if "k = key"
    using Cons.prems that a by (simp add: row_None_iff)
  show ?case using Cons a none by (auto simp: update_many_def split: option.splits)
qed

lemma tsum_update_many:
  "tsum g (snd (update_many p f t)) =
     tsum (\<lambda>k v. if p k v then g k (f v) else g k v) t"
  by (induction t) (auto simp: update_many_def)

lemma update_many_none: "\<forall>(k, v) \<in> set t. \<not> p k v \<Longrightarrow> update_many p f t = (0, t)"
  by (induction t) (auto simp: update_many_def)

lemma update_many_single:
  assumes "distinct (keys t)" and "row t k = Some v" and "p k v" and "\<And>k' v'. p k' v' \<Longrightarrow> k' = k"
  shows "update_many p f t = (1, AList.update k (f v) t)"
  using assms(1,2)
proof (induction t)
  case Nil
  then show ?case by simp
next
  case (Cons a t)
  obtain k' v' where a: "a = (k', v')" by (cases a)
  show ?case
  proof (cases "k' = k")
    case True
    then have "v' = v" using Cons.prems(2) a by simp
    have no: "\<not> p k'' v''" if m: "(k'', v'') \<in> set t" for k'' v''
    proof
      assume "p k'' v''"
      then have "k'' = k'" using assms(4) True by simp
      moreover have "k'' \<in> set (keys t)" using imageI [OF m, of fst] by simp
      ultimately show False using Cons.prems(1) a by simp
    qed
    have "update_many p f t = (0, t)" by (rule update_many_none) (use no in blast)
    then show ?thesis using a True \<open>v' = v\<close> assms(3) by (simp add: update_many_def)
  next
    case False
    then have "\<not> p k' v'" using assms(4) [of k' v'] by blast
    then show ?thesis using Cons.IH Cons.prems a False by (simp add: update_many_def)
  qed
qed

lemma row_Some_mem: "row t k = Some v \<Longrightarrow> (k, v) \<in> set t"
  by (rule map_of_SomeD)

lemma mem_row: "distinct (keys t) \<Longrightarrow> (k, v) \<in> set t \<Longrightarrow> row t k = Some v"
  by (rule map_of_is_SomeI)

lemma AList_update_update [simp]: "AList.update k v' (AList.update k v t) = AList.update k v' t"
  by (induction t) auto

text \<open>The claim of one row, counted: a key and a condition on the row.\<close>

lemma claim_cases:
  assumes "distinct (keys t)" and "\<And>k' v'. p k' v' \<Longrightarrow> k' = k"
  obtains (claimed) v where "row t k = Some v" "p k v" "update_many p f t = (1, AList.update k (f v) t)"
    | (lost) "\<And>v. row t k = Some v \<Longrightarrow> \<not> p k v" "update_many p f t = (0, t)"
proof (cases "\<exists>v. row t k = Some v \<and> p k v")
  case True
  then obtain v where v: "row t k = Some v" "p k v" by blast
  show ?thesis by (rule that(1) [OF v update_many_single [where p = p, OF assms(1) v assms(2)]])
next
  case False
  have "\<not> p k' v'" if "(k', v') \<in> set t" for k' v'
    using False assms(2) [of k' v'] mem_row [OF assms(1) that] by auto
  then have "update_many p f t = (0, t)" by (intro update_many_none) blast
  then show ?thesis using False by (intro that(2)) auto
qed

end
