(* ===== verification/Schema.thy ===== *)
theory Schema
  imports Prelude
begin

text \<open>
  The data model of the backend, from \<^verbatim>\<open>backend/prisma/schema.prisma\<close>: its enums as
  datatypes (a prefix per enum keeps the constructors apart), the rows of its tables as
  records without their primary key, and the two states the services work on.

  \<^item> \<open>bank\<close> holds what the ledger service owns: users, wallets, wallet accounts and ledger
    entries, and the source of the random identifiers (\<open>crypto.randomUUID\<close> and the
    \<open>@default(uuid())\<close> columns): the sequence \<open>uuid_seq\<close> of values it will yield and how
    many have been drawn.
  \<^item> \<open>db\<close> is the whole database: the bank and the tables of the marketplace, and the
    process memory the services keep beside it: the cache of ban verdicts (\<open>vac_cache\<close>) and the
    delivery checker's maps (\<open>backoff_until\<close>, \<open>rate_limit_hits\<close>, \<open>next_check\<close>). No transaction
    rolls them back because they are only written outside of one.

  Money columns are integers (minor units), dates are integers (milliseconds since the
  epoch), JSON columns are \<open>json\<close> values. Rows of the event tables (status events, audit,
  outbox, poll events) are appended in order and carry no identifier, since nothing reads it.
\<close>

section \<open>Enums\<close>

datatype user_role = UR_SELLER | UR_BUYER | UR_ADMIN

datatype user_status = US_ACTIVE | US_SELL_BLOCK | US_BUY_BLOCK | US_SUSPENDED

datatype asset_status =
  IA_AVAILABLE | IA_LISTED | IA_RESERVED | IA_SOLD | IA_BLOCKED | IA_REMOVED

datatype lot_status = LS_DRAFT | LS_ACTIVE | LS_RESERVED | LS_SOLD | LS_CANCELED | LS_BLOCKED

datatype order_status =
    OS_CREATED | OS_PAYMENT_RESERVED | OS_WAITING_TRADE | OS_TRADE_CONFIRMED
  | OS_SETTLEMENT_HOLD | OS_COMPLETED | OS_FAILED | OS_DISPUTE | OS_CANCELED

datatype trade_op_status =
  TS_WAITING | TS_CONFIRMED | TS_DELIVERY_VERIFIED | TS_FAILED_SAFE | TS_FAILED_DISPUTE | TS_TIMEOUT

datatype account_type = AT_AVAILABLE | AT_HOLD | AT_FROZEN

instantiation account_type :: enum
begin

definition enum_account_type :: "account_type list" where
  "enum_account_type = [AT_AVAILABLE, AT_HOLD, AT_FROZEN]"

definition enum_all_account_type :: "(account_type \<Rightarrow> bool) \<Rightarrow> bool" where
  "enum_all_account_type P \<longleftrightarrow> P AT_AVAILABLE \<and> P AT_HOLD \<and> P AT_FROZEN"

definition enum_ex_account_type :: "(account_type \<Rightarrow> bool) \<Rightarrow> bool" where
  "enum_ex_account_type P \<longleftrightarrow> P AT_AVAILABLE \<or> P AT_HOLD \<or> P AT_FROZEN"

instance
proof
  show univ: "(UNIV :: account_type set) = set enum_class.enum"
    unfolding enum_account_type_def using account_type.exhaust by auto
  show "distinct (enum_class.enum :: account_type list)" by (simp add: enum_account_type_def)
  show "enum_class.enum_all P \<longleftrightarrow> Ball UNIV P" for P :: "account_type \<Rightarrow> bool"
    unfolding univ by (simp add: enum_all_account_type_def enum_account_type_def)
  show "enum_class.enum_ex P \<longleftrightarrow> Bex UNIV P" for P :: "account_type \<Rightarrow> bool"
    unfolding univ by (simp add: enum_ex_account_type_def enum_account_type_def)
qed

end

datatype ledger_entry_type =
    LE_DEPOSIT | LE_HOLD_RESERVE | LE_HOLD_RELEASE | LE_SETTLEMENT_SELLER
  | LE_SETTLEMENT_PLATFORM_COMMISSION | LE_REFUND | LE_WITHDRAWAL | LE_WITHDRAWAL_REFUND
  | LE_WITHDRAW | LE_WITHDRAW_FEE | LE_MANUAL_ADJUSTMENT

datatype intent_status = PI_PENDING | PI_SUCCEEDED | PI_FAILED | PI_EXPIRED

datatype withdrawal_status =
  WR_PENDING_REVIEW | WR_APPROVED | WR_PROCESSING | WR_PAID | WR_REJECTED | WR_FAILED

datatype task_status = TT_CREATED | TT_DISPATCHED | TT_ACKED | TT_FAILED | TT_EXPIRED

datatype task_phase =
    TP_ACKED | TP_TRADE_PAGE_OPENED | TP_OFFER_DRAFTED | TP_ITEM_SELECTED | TP_OFFER_SUBMITTED
  | TP_CONFIRM_PENDING | TP_OFFER_SENT | TP_OFFER_FAILED

datatype sync_status = SY_SUCCESS | SY_FAILED | SY_PARTIAL

datatype buy_request_status = BR_OPEN | BR_CANCELED | BR_FULFILLED | BR_EXPIRED

section \<open>Rows\<close>

record user =
  u_steam_id :: "string option"
  u_username :: string
  u_role :: user_role
  u_status :: user_status
  u_trade_url :: "string option"

record ledger_entry =
  le_id :: id
  le_wallet :: id
  le_order :: "id option"
  le_hold :: "id option"
  le_type :: ledger_entry_type
  le_amount :: int
  le_key :: string
  le_group :: "id option"
  le_meta :: json

record item_definition =
  i_market_hash_name :: string
  i_slug :: "string option"
  i_base_market_hash_name :: "string option"
  i_catalog_seeded :: bool
  i_available_wears :: "string list"
  i_weapon :: "string option"
  i_rarity :: "string option"
  i_icon_url :: "string option"

record asset =
  a_owner :: id
  a_item :: id
  a_external_id :: string
  a_status :: asset_status
  a_tradable :: bool
  a_marketable :: bool
  a_trade_lock_until :: "int option"
  a_float_value :: "string option"
  a_paint_seed :: "int option"
  a_wear :: "string option"
  a_stickers :: "json list option"

record lot =
  l_seller :: id
  l_asset :: id
  l_status :: lot_status
  l_price :: int
  l_commission :: int
  l_seller_receive :: int
  l_reserved_by :: "id option"

text \<open>\<open>LotListingSnapshot\<close>: one per lot, so its table is keyed by the lot.\<close>

record listing_snapshot =
  sn_external_id :: string
  sn_market_hash_name :: string
  sn_weapon :: "string option"
  sn_rarity :: "string option"
  sn_icon_url :: "string option"
  sn_float_value :: "string option"
  sn_paint_seed :: "int option"
  sn_wear :: "string option"
  sn_stickers :: "json list option"
  sn_tradable :: bool
  sn_marketable :: bool

record order =
  o_lot :: id
  o_buyer :: id
  o_seller :: id
  o_status :: order_status
  o_amount :: int
  o_hold_amount :: int
  o_created_at :: int

record hold =
  h_order :: id
  h_wallet :: id
  h_amount :: int
  h_captured :: int
  h_released :: int
  h_settlement_until :: "int option"
  h_settlement_released_at :: "int option"

text \<open>What was seen of an inventory, and both inventories before a trade (\<open>AssetObservation\<close>,
  \<open>InventoryObservation\<close> and \<open>InventoryBaseline\<close> of \<^verbatim>\<open>trades/inventory-observation.ts\<close>).\<close>

record asset_observation =
  oa_asset_id :: string
  oa_context :: string
  oa_app :: int
  oa_class :: string
  oa_instance :: string
  oa_name :: string
  oa_float :: "string option"
  oa_seed :: "int option"
  oa_stickers :: "json list"

record inventory_observation =
  io_fetched_at :: int
  io_assets :: "asset_observation list"

record inventory_baseline =
  ib_seller :: inventory_observation
  ib_buyer :: inventory_observation
  ib_original :: asset_observation

record trade_op =
  t_order :: id
  t_status :: trade_op_status
  t_provider_ref :: "string option"
  t_fail_reason :: "string option"
  t_offer_id :: "string option"
  t_expected_asset :: "string option"
  t_mode :: "string option"
  t_stage :: string
  t_next_verification :: "int option"
  t_delivery_proof :: json
  t_trade_binding :: "string option"
  t_baseline :: "inventory_baseline option"
  t_last_checked :: "int option"
  t_check_count :: int
  t_next_preparation :: "int option"
  t_lease_until :: "int option"
  t_lease_token :: "string option"

record trade_task =
  k_order :: id
  k_trade_op :: id
  k_type :: string
  k_status :: task_status
  k_phase :: "task_phase option"
  k_dedup_key :: string
  k_idempotency_key :: string
  k_payload :: json
  k_attempts :: int
  k_max_attempts :: int
  k_next_attempt :: "int option"
  k_expires_at :: int
  k_send_started_at :: "int option"
  k_lease_device :: "id option"
  k_lease_until :: "int option"
  k_lease_version :: int
  k_last_error :: "string option"
  k_created_at :: int

record buy_request =
  br_buyer :: id
  br_item :: id
  br_max_price :: "int option"
  br_quantity :: int
  br_filled :: int
  br_reserved :: "int option"
  br_status :: buy_request_status
  br_created_at :: int
  br_last_lot :: "id option"
  br_last_price :: "int option"

record withdrawal_request =
  w_user :: id
  w_amount :: int
  w_fee :: int
  w_net :: int
  w_to_address :: string
  w_payment_method :: string
  w_status :: withdrawal_status
  w_gateway_ref :: "string option"
  w_payout_tx_hash :: "string option"
  w_idempotency_key :: string
  w_reviewed_by :: "id option"
  w_reject_reason :: "string option"
  w_created_at :: int
  w_paid_at :: "int option"

record payment_event =
  pe_id :: id
  pe_provider :: string
  pe_event_type :: string
  pe_user :: id
  pe_amount :: int
  pe_payload :: json
  pe_processed_at :: "int option"

record payment_intent =
  in_user :: id
  in_provider :: string
  in_amount :: "int option"
  in_status :: intent_status
  in_provider_ref :: "string option"
  in_deposit_address :: "string option"
  in_meta :: json

record crypto_deposit =
  cd_address :: string
  cd_wallet_index :: int

record 'status status_event =
  ev_entity :: id
  ev_from :: "'status option"
  ev_to :: 'status
  ev_actor :: "id option"
  ev_reason :: "string option"

record audit_row =
  au_actor :: "id option"
  au_entity_type :: string
  au_entity_id :: id
  au_action :: string
  au_reason :: "string option"
  au_before :: json
  au_after :: json
  au_key :: "string option"

record outbox_row =
  ob_event :: string
  ob_aggregate_type :: string
  ob_aggregate :: id
  ob_payload :: json

record poll_event =
  po_trade_op :: id
  po_offer_status :: "string option"
  po_outcome :: string
  po_strategy :: "string option"
  po_error :: "string option"

record verification_snapshot =
  vs_order :: id
  vs_source :: string
  vs_observed :: string
  vs_expected :: "string option"
  vs_match :: bool
  vs_payload :: json

record trade_ack =
  ta_order :: id
  ta_user :: id
  ta_role :: string
  ta_type :: string
  ta_offer :: "string option"
  ta_key :: string

record sync_run =
  sr_user :: id
  sr_steam_id :: string
  sr_status :: sync_status
  sr_item_count :: int
  sr_fetched_at :: int
  sr_expires_at :: int
  sr_error_code :: "string option"

record allow_entry =
  al_enabled :: bool
  al_max_order :: "int option"

datatype ban_verdict = Ban_clear | Ban_vac | Ban_game

section \<open>States\<close>

record bank =
  users :: "(id, user) table"
  wallets :: "(id, id) table"
  accounts :: "(id \<times> account_type, int) table"
  entries :: "ledger_entry list"
  uuid_seq :: "nat \<Rightarrow> id"
  uuid_next :: nat

record db =
  bank :: bank
  items :: "(id, item_definition) table"
  assets :: "(id, asset) table"
  lots :: "(id, lot) table"
  snapshots :: "(id, listing_snapshot) table"
  orders :: "(id, order) table"
  holds :: "(id, hold) table"
  trade_ops :: "(id, trade_op) table"
  trade_tasks :: "(id, trade_task) table"
  buy_requests :: "(id, buy_request) table"
  withdrawals :: "(id, withdrawal_request) table"
  payment_events :: "(string, payment_event) table"
  payment_intents :: "(string, payment_intent) table"
  crypto_deposits :: "(id, crypto_deposit) table"
  allowlist :: "(string, allow_entry) table"
  daily_stats :: "(string, int \<times> int) table"
  mapping_leases :: "(string, id) table"
  sync_runs :: "(id, sync_run) table"
  rollout_allowlist :: "(string, bool) table"
  vac_cache :: "(string, ban_verdict \<times> int) table"
  backoff_until :: "(id, int) table"
  rate_limit_hits :: "(id, nat) table"
  next_check :: "(id, int) table"
  order_events :: "order_status status_event list"
  lot_events :: "lot_status status_event list"
  trade_events :: "(trade_op_status status_event \<times> string option) list"
  poll_events :: "poll_event list"
  verification_snapshots :: "(id \<times> verification_snapshot) list"
  trade_acks :: "(id \<times> trade_ack) list"
  audit :: "audit_row list"
  outbox :: "outbox_row list"

text \<open>Drawing a random identifier.\<close>

definition draw :: "bank \<Rightarrow> id \<times> bank" where
  "draw b = (uuid_seq b (uuid_next b), b\<lparr>uuid_next := Suc (uuid_next b)\<rparr>)"

definition draw_db :: "db \<Rightarrow> id \<times> db" where
  "draw_db d = (let (i, b) = draw (bank d) in (i, d\<lparr>bank := b\<rparr>))"

text \<open>The names the API and the JSON payloads use for the statuses.\<close>

fun order_status_name :: "order_status \<Rightarrow> string" where
  "order_status_name OS_CREATED = ''CREATED''"
| "order_status_name OS_PAYMENT_RESERVED = ''PAYMENT_RESERVED''"
| "order_status_name OS_WAITING_TRADE = ''WAITING_TRADE''"
| "order_status_name OS_TRADE_CONFIRMED = ''TRADE_CONFIRMED''"
| "order_status_name OS_SETTLEMENT_HOLD = ''SETTLEMENT_HOLD''"
| "order_status_name OS_COMPLETED = ''COMPLETED''"
| "order_status_name OS_FAILED = ''FAILED''"
| "order_status_name OS_DISPUTE = ''DISPUTE''"
| "order_status_name OS_CANCELED = ''CANCELED''"

fun trade_status_name :: "trade_op_status \<Rightarrow> string" where
  "trade_status_name TS_WAITING = ''WAITING''"
| "trade_status_name TS_CONFIRMED = ''CONFIRMED''"
| "trade_status_name TS_DELIVERY_VERIFIED = ''DELIVERY_VERIFIED''"
| "trade_status_name TS_FAILED_SAFE = ''FAILED_SAFE''"
| "trade_status_name TS_FAILED_DISPUTE = ''FAILED_DISPUTE''"
| "trade_status_name TS_TIMEOUT = ''TIMEOUT''"

definition json_status :: "order_status \<Rightarrow> json" where
  "json_status s = JStr (order_status_name s)"

definition json_trade_status :: "trade_op_status \<Rightarrow> json" where
  "json_trade_status s = JStr (trade_status_name s)"

text \<open>Event rows and the two append-only logs.\<close>

definition append_audit :: "audit_row \<Rightarrow> db \<Rightarrow> db" where
  "append_audit a d = d\<lparr>audit := audit d @ [a]\<rparr>"

definition append_outbox :: "outbox_row \<Rightarrow> db \<Rightarrow> db" where
  "append_outbox o_row d = d\<lparr>outbox := outbox d @ [o_row]\<rparr>"

text \<open>The replay check most handlers start with: an audit row with this action and key.\<close>

definition find_audit :: "string \<Rightarrow> id \<Rightarrow> string \<Rightarrow> string \<Rightarrow> db \<Rightarrow> bool" where
  "find_audit entity_type entity_id action key d \<longleftrightarrow>
     (\<exists>a \<in> set (audit d). au_entity_type a = entity_type \<and> au_entity_id a = entity_id
        \<and> au_action a = action \<and> au_key a = Some key)"

text \<open>The states before anything happened, given the identifiers that will be drawn.\<close>

definition empty_bank :: "(nat \<Rightarrow> id) \<Rightarrow> bank" where
  "empty_bank f = \<lparr>users = [], wallets = [], accounts = [], entries = [], uuid_seq = f, uuid_next = 0\<rparr>"

definition empty_db :: "(nat \<Rightarrow> id) \<Rightarrow> db" where
  "empty_db f = \<lparr>bank = empty_bank f, items = [], assets = [], lots = [], snapshots = [], orders = [], holds = [],
     trade_ops = [], trade_tasks = [], buy_requests = [], withdrawals = [], payment_events = [],
     payment_intents = [], crypto_deposits = [], allowlist = [], daily_stats = [], mapping_leases = [], sync_runs = [],
     rollout_allowlist = [], vac_cache = [], backoff_until = [], rate_limit_hits = [], next_check = [],
     order_events = [], lot_events = [], trade_events = [], poll_events = [], verification_snapshots = [],
     trade_acks = [], audit = [], outbox = []\<rparr>"

text \<open>A sequence of distinct identifiers, for concrete states.\<close>

definition demo_ids :: "nat \<Rightarrow> id" where
  "demo_ids n = replicate n CHR ''x''"

lemma demo_ids_inj: "inj demo_ids"
  by (auto simp: inj_def demo_ids_def dest: arg_cong [of _ _ length])

end
