(* ===== verification/Ledger.thy ===== *)
theory Ledger
  imports Schema
begin

text \<open>
  \<^verbatim>\<open>backend/src/wallet/ledger.service.ts\<close>: the wallet accounts and the journal of ledger
  entries. Every operation of \<open>LedgerService\<close> is one definition of the same name, from the
  bank to an error or its result and the new bank. An operation runs in the caller's
  transaction or in its own; either way its writes are lost when it throws, which the result
  type says: an error carries no state. (\<open>ensureUserWallet\<close> commits the empty accounts it
  creates on its own connection; here they are created together with the operation.)

  The result of an operation is the group identifier and the entries of the group, as
  \<open>LedgerOperationResult\<close>; amounts are kept as integers instead of decimal strings.
\<close>

record op_result =
  res_group :: id
  res_entries :: "(id \<times> ledger_entry_type \<times> int) list"

definition platform_steam_id :: string where
  "platform_steam_id = ''steam_platform_system''"

section \<open>Wallets and accounts\<close>

definition find_wallet :: "bank \<Rightarrow> id \<Rightarrow> id option" where
  "find_wallet b u = map_option fst (find (\<lambda>(w, u'). u' = u) (wallets b))"

definition ensure_account :: "id \<Rightarrow> account_type \<Rightarrow> bank \<Rightarrow> bank" where
  "ensure_account w t b =
     (case row (accounts b) (w, t) of
        None \<Rightarrow> b\<lparr>accounts := insert_row (w, t) 0 (accounts b)\<rparr>
      | Some _ \<Rightarrow> b)"

definition ensure_wallet_accounts :: "id \<Rightarrow> bank \<Rightarrow> bank" where
  "ensure_wallet_accounts w b =
     ensure_account w AT_FROZEN (ensure_account w AT_HOLD (ensure_account w AT_AVAILABLE b))"

definition ensure_user_wallet :: "id \<Rightarrow> bank \<Rightarrow> id \<times> bank" where
  "ensure_user_wallet u b =
     (case find_wallet b u of
        Some w \<Rightarrow> (w, ensure_wallet_accounts w b)
      | None \<Rightarrow>
          let (w, b) = draw b;
              b = b\<lparr>wallets := insert_row w u (wallets b)\<rparr>
          in (w, ensure_wallet_accounts w b))"

definition ensure_platform_wallet :: "bank \<Rightarrow> id \<times> bank" where
  "ensure_platform_wallet b =
     (case find (\<lambda>(i, u). u_steam_id u = Some platform_steam_id) (users b) of
        Some (p, _) \<Rightarrow> ensure_user_wallet p b
      | None \<Rightarrow>
          let (p, b) = draw b;
              b = b\<lparr>users := insert_row p
                     \<lparr>u_steam_id = Some platform_steam_id, u_username = ''platform_system'',
                      u_role = UR_ADMIN, u_status = US_ACTIVE, u_trade_url = None\<rparr> (users b)\<rparr>
          in ensure_user_wallet p b)"

definition set_balance :: "id \<Rightarrow> account_type \<Rightarrow> int \<Rightarrow> bank \<Rightarrow> bank" where
  "set_balance w t v b = b\<lparr>accounts := AList.update (w, t) v (accounts b)\<rparr>"

text \<open>\<open>getAccountBalance\<close>, the conditional decrement of \<open>debitAccount\<close>, and the increment
  the operations do with \<open>walletAccount.update\<close>.\<close>

fun account_type_name :: "account_type \<Rightarrow> string" where
  "account_type_name AT_AVAILABLE = ''AVAILABLE''"
| "account_type_name AT_HOLD = ''HOLD''"
| "account_type_name AT_FROZEN = ''FROZEN''"

definition get_account_balance :: "bank \<Rightarrow> id \<Rightarrow> account_type \<Rightarrow> int res" where
  "get_account_balance b w t =
     (case row (accounts b) (w, t) of
        None \<Rightarrow> Inl (NotFound (''Wallet account '' @ account_type_name t @ '' not found''))
      | Some v \<Rightarrow> Inr v)"

definition debit_account :: "id \<Rightarrow> account_type \<Rightarrow> int \<Rightarrow> bank \<Rightarrow> bank res" where
  "debit_account w t amount b =
     (case row (accounts b) (w, t) of
        Some v \<Rightarrow>
          if amount \<le> v then Inr (set_balance w t (v - amount) b)
          else Inl (BadRequest ''Insufficient available balance for debit'')
      | None \<Rightarrow> Inl (BadRequest ''Insufficient available balance for debit''))"

definition credit_account :: "id \<Rightarrow> account_type \<Rightarrow> int \<Rightarrow> bank \<Rightarrow> bank res" where
  "credit_account w t amount b =
     (case row (accounts b) (w, t) of
        None \<Rightarrow> Inl RecordNotFound
      | Some v \<Rightarrow> Inr (set_balance w t (v + amount) b))"

definition get_available_balance :: "id \<Rightarrow> bank \<Rightarrow> (int \<times> bank) res" where
  "get_available_balance u b =
     (let (w, b) = ensure_user_wallet u b
      in bindE (get_account_balance b w AT_AVAILABLE) (\<lambda>v. Inr (v, b)))"

section \<open>The journal\<close>

text \<open>\<open>ledgerEntry.create\<close>, with the unique constraint on wallet and idempotency key.\<close>

definition create_entry ::
    "id \<Rightarrow> id option \<Rightarrow> id option \<Rightarrow> ledger_entry_type \<Rightarrow> int \<Rightarrow> string \<Rightarrow> id \<Rightarrow> json \<Rightarrow> bank
      \<Rightarrow> (ledger_entry \<times> bank) res" where
  "create_entry w oid hid ty amount key g meta b =
     (if \<exists>e \<in> set (entries b). le_wallet e = w \<and> le_key e = key then Inl UniqueViolation
      else
        let (i, b) = draw b;
            e = \<lparr>le_id = i, le_wallet = w, le_order = oid, le_hold = hid, le_type = ty,
                 le_amount = amount, le_key = key, le_group = Some g, le_meta = meta\<rparr>
        in Inr (e, b\<lparr>entries := entries b @ [e]\<rparr>))"

definition entry_view :: "ledger_entry \<Rightarrow> id \<times> ledger_entry_type \<times> int" where
  "entry_view e = (le_id e, le_type e, le_amount e)"

definition find_existing_operation :: "bank \<Rightarrow> id \<Rightarrow> string \<Rightarrow> op_result option" where
  "find_existing_operation b w key =
     (case find (\<lambda>e. le_wallet e = w \<and> le_key e = key) (entries b) of
        None \<Rightarrow> None
      | Some e \<Rightarrow>
          Some \<lparr>res_group = (case le_group e of Some g \<Rightarrow> g | None \<Rightarrow> le_id e),
                res_entries = map entry_view (filter (\<lambda>r. le_group r = le_group e) (entries b))\<rparr>)"

section \<open>Deposits and withdrawals\<close>

text \<open>The metadata of a withdrawal entry spreads the caller's fields last, so they override the
  fixed ones: in an association list they come first.\<close>

definition apply_deposit :: "id \<Rightarrow> int \<Rightarrow> string \<Rightarrow> json option \<Rightarrow> bank \<Rightarrow> (op_result \<times> bank) res" where
  "apply_deposit w amount key meta b =
     (case find_existing_operation b w key of
        Some r \<Rightarrow> Inr (r, b)
      | None \<Rightarrow>
          let (g, b) = draw b
          in bindE (credit_account w AT_AVAILABLE amount b) (\<lambda>b.
             bindE (create_entry w None None LE_DEPOSIT amount key g
                      (case meta of Some m \<Rightarrow> m | None \<Rightarrow> JObj [(''source'', JStr ''mock'')]) b) (\<lambda>(e, b).
             Inr (\<lparr>res_group = g, res_entries = [entry_view e]\<rparr>, b))))"

definition deposit :: "id \<Rightarrow> int \<Rightarrow> string \<Rightarrow> json option \<Rightarrow> bank \<Rightarrow> (op_result \<times> bank) res" where
  "deposit u amount key meta b =
     (if amount \<le> 0 then Inl (BadRequest ''Deposit amount must be positive'')
      else
        let (w, b) = ensure_user_wallet u b
        in apply_deposit w amount key meta b)"

definition mock_deposit :: "id \<Rightarrow> int \<Rightarrow> string \<Rightarrow> bank \<Rightarrow> (op_result \<times> bank) res" where
  "mock_deposit u amount key = deposit u amount key (Some (JObj [(''source'', JStr ''mock'')]))"

definition withdraw ::
    "id \<Rightarrow> int \<Rightarrow> int \<Rightarrow> int \<Rightarrow> string \<Rightarrow> id \<Rightarrow> bool \<Rightarrow> (string \<times> json) list \<Rightarrow> bank
      \<Rightarrow> (op_result \<times> bank) res" where
  "withdraw u amount fee net key request_id from_frozen meta b =
     (if amount \<le> 0 \<or> fee < 0 \<or> net \<le> 0
      then Inl (BadRequest ''Withdrawal amounts must be positive'')
      else if net + fee \<noteq> amount
      then Inl (BadRequest ''Withdrawal amounts are not balanced'')
      else
        let (w, b) = ensure_user_wallet u b;
            t = (if from_frozen then AT_FROZEN else AT_AVAILABLE)
        in case find_existing_operation b w key of
             Some r \<Rightarrow> Inr (r, b)
           | None \<Rightarrow>
               bindE (get_account_balance b w t) (\<lambda>balance.
               if balance < amount then Inl (BadRequest ''Insufficient balance for withdrawal'')
               else
                 let (g, b) = draw b
                 in bindE (debit_account w t amount b) (\<lambda>b.
                    bindE (create_entry w None None LE_WITHDRAW (- net) key g
                             (JObj (meta @ [(''withdrawalRequestId'', JStr request_id),
                                            (''netMinor'', JStr (show_int net))])) b) (\<lambda>(we, b).
                    bindE (create_entry w None None LE_WITHDRAW_FEE (- fee) (key @ '':fee'') g
                             (JObj [(''withdrawalRequestId'', JStr request_id),
                                    (''feeMinor'', JStr (show_int fee))]) b) (\<lambda>(fe, b).
                    Inr (\<lparr>res_group = g, res_entries = [entry_view we, entry_view fe]\<rparr>, b))))))"

definition freeze_for_withdrawal :: "id \<Rightarrow> int \<Rightarrow> bank \<Rightarrow> bank res" where
  "freeze_for_withdrawal u amount b =
     (if amount \<le> 0 then Inl (BadRequest ''Freeze amount must be positive'')
      else
        let (w, b) = ensure_user_wallet u b
        in bindE (get_account_balance b w AT_AVAILABLE) (\<lambda>available.
           if available < amount then Inl (BadRequest ''Insufficient available balance'')
           else
             bindE (debit_account w AT_AVAILABLE amount b) (\<lambda>b.
             credit_account w AT_FROZEN amount b)))"

definition release_withdraw_hold :: "id \<Rightarrow> int \<Rightarrow> bank \<Rightarrow> bank res" where
  "release_withdraw_hold u amount b =
     (if amount \<le> 0 then Inl (BadRequest ''Release amount must be positive'')
      else
        let (w, b) = ensure_user_wallet u b
        in bindE (get_account_balance b w AT_FROZEN) (\<lambda>frozen.
           if frozen < amount then Inl (BadRequest ''Insufficient frozen balance to release'')
           else
             bindE (debit_account w AT_FROZEN amount b) (\<lambda>b.
             credit_account w AT_AVAILABLE amount b)))"

definition refund_withdrawal ::
    "id \<Rightarrow> int \<Rightarrow> string \<Rightarrow> string \<Rightarrow> id \<Rightarrow> bank \<Rightarrow> (op_result \<times> bank) res" where
  "refund_withdrawal u amount key reason request_id b =
     (if amount \<le> 0 then Inl (BadRequest ''Refund amount must be positive'')
      else
        let (w, b) = ensure_user_wallet u b
        in case find_existing_operation b w key of
             Some r \<Rightarrow> Inr (r, b)
           | None \<Rightarrow>
               let (g, b) = draw b
               in bindE (credit_account w AT_AVAILABLE amount b) (\<lambda>b.
                  bindE (create_entry w None None LE_MANUAL_ADJUSTMENT amount key g
                           (JObj [(''reason'', JStr reason), (''withdrawalRequestId'', JStr request_id),
                                  (''action'', JStr ''withdrawal_refund'')]) b) (\<lambda>(e, b).
                  Inr (\<lparr>res_group = g, res_entries = [entry_view e]\<rparr>, b))))"

section \<open>Holds\<close>

definition reserve_purchase_hold ::
    "id \<Rightarrow> id \<Rightarrow> id \<Rightarrow> int \<Rightarrow> string \<Rightarrow> bank \<Rightarrow> (op_result \<times> bank) res" where
  "reserve_purchase_hold buyer order_id hold_id amount key b =
     (if amount \<le> 0 then Inl (BadRequest ''Hold amount must be positive'')
      else
        let (w, b) = ensure_user_wallet buyer b
        in case find_existing_operation b w key of
             Some r \<Rightarrow> Inr (r, b)
           | None \<Rightarrow>
               bindE (get_account_balance b w AT_AVAILABLE) (\<lambda>available.
               if available < amount then Inl (BadRequest ''Insufficient available balance'')
               else
                 let (g, b) = draw b
                 in bindE (debit_account w AT_AVAILABLE amount b) (\<lambda>b.
                    bindE (credit_account w AT_HOLD amount b) (\<lambda>b.
                    bindE (create_entry w (Some order_id) (Some hold_id) LE_HOLD_RESERVE (- amount) key g
                             (JObj [(''direction'', JStr ''available_to_hold''),
                                    (''amountMinor'', JStr (show_int amount))]) b) (\<lambda>(e, b).
                    Inr (\<lparr>res_group = g, res_entries = [entry_view e]\<rparr>, b))))))"

definition reserve_buy_request_hold ::
    "id \<Rightarrow> id \<Rightarrow> int \<Rightarrow> string \<Rightarrow> bank \<Rightarrow> (op_result \<times> bank) res" where
  "reserve_buy_request_hold buyer request_id amount key b =
     (if amount \<le> 0 then Inl (BadRequest ''Buy request hold amount must be positive'')
      else
        let (w, b) = ensure_user_wallet buyer b
        in case find_existing_operation b w key of
             Some r \<Rightarrow> Inr (r, b)
           | None \<Rightarrow>
               bindE (get_account_balance b w AT_AVAILABLE) (\<lambda>available.
               if available < amount then Inl (BadRequest ''Insufficient available balance'')
               else
                 let (g, b) = draw b
                 in bindE (debit_account w AT_AVAILABLE amount b) (\<lambda>b.
                    bindE (credit_account w AT_HOLD amount b) (\<lambda>b.
                    bindE (create_entry w None None LE_HOLD_RESERVE (- amount) key g
                             (JObj [(''direction'', JStr ''available_to_hold''),
                                    (''buyRequestId'', JStr request_id),
                                    (''amountMinor'', JStr (show_int amount))]) b) (\<lambda>(e, b).
                    Inr (\<lparr>res_group = g, res_entries = [entry_view e]\<rparr>, b))))))"

definition release_buy_request_hold ::
    "id \<Rightarrow> id \<Rightarrow> int \<Rightarrow> string \<Rightarrow> bank \<Rightarrow> (op_result \<times> bank) res" where
  "release_buy_request_hold buyer request_id amount key b =
     (if amount \<le> 0 then Inl (BadRequest ''Buy request release amount must be positive'')
      else
        let (w, b) = ensure_user_wallet buyer b
        in case find_existing_operation b w key of
             Some r \<Rightarrow> Inr (r, b)
           | None \<Rightarrow>
               bindE (get_account_balance b w AT_HOLD) (\<lambda>held.
               if held < amount then Inl (BadRequest ''Insufficient hold balance to release'')
               else
                 let (g, b) = draw b
                 in bindE (debit_account w AT_HOLD amount b) (\<lambda>b.
                    bindE (credit_account w AT_AVAILABLE amount b) (\<lambda>b.
                    bindE (create_entry w None None LE_HOLD_RELEASE amount key g
                             (JObj [(''direction'', JStr ''hold_to_available''),
                                    (''buyRequestId'', JStr request_id),
                                    (''amountMinor'', JStr (show_int amount))]) b) (\<lambda>(e, b).
                    Inr (\<lparr>res_group = g, res_entries = [entry_view e]\<rparr>, b))))))"

definition settle_sale ::
    "id \<Rightarrow> id \<Rightarrow> id \<Rightarrow> id \<Rightarrow> int \<Rightarrow> int \<Rightarrow> int \<Rightarrow> string \<Rightarrow> bank \<Rightarrow> (op_result \<times> bank) res" where
  "settle_sale buyer seller order_id hold_id total_amount seller_receive commission key b =
     (if seller_receive + commission \<noteq> total_amount
      then Inl (BadRequest ''Settlement amounts are not balanced'')
      else
        let (bw, b) = ensure_user_wallet buyer b;
            (sw, b) = ensure_user_wallet seller b;
            (pw, b) = ensure_platform_wallet b
        in case find_existing_operation b bw key of
             Some r \<Rightarrow> Inr (r, b)
           | None \<Rightarrow>
               bindE (get_account_balance b bw AT_HOLD) (\<lambda>held.
               if held < total_amount then Inl (BadRequest ''Insufficient hold balance for settlement'')
               else
                 let (g, b) = draw b
                 in bindE (debit_account bw AT_HOLD total_amount b) (\<lambda>b.
                    bindE (credit_account sw AT_AVAILABLE seller_receive b) (\<lambda>b.
                    bindE (credit_account pw AT_AVAILABLE commission b) (\<lambda>b.
                    bindE (create_entry bw (Some order_id) (Some hold_id) LE_HOLD_RESERVE (- total_amount) key g
                             (JObj [(''action'', JStr ''settlement_capture'')]) b) (\<lambda>(be, b).
                    bindE (create_entry sw (Some order_id) (Some hold_id) LE_SETTLEMENT_SELLER
                             seller_receive (key @ '':seller'') g JNull b) (\<lambda>(se, b).
                    bindE (create_entry pw (Some order_id) (Some hold_id) LE_SETTLEMENT_PLATFORM_COMMISSION
                             commission (key @ '':platform'') g JNull b) (\<lambda>(pe, b).
                    Inr (\<lparr>res_group = g,
                          res_entries = [entry_view be, entry_view se, entry_view pe]\<rparr>, b)))))))))"

definition refund_hold ::
    "id \<Rightarrow> id \<Rightarrow> id \<Rightarrow> int \<Rightarrow> string \<Rightarrow> bank \<Rightarrow> (op_result \<times> bank) res" where
  "refund_hold buyer order_id hold_id amount key b =
     (if amount \<le> 0 then Inl (BadRequest ''Refund amount must be positive'')
      else
        let (w, b) = ensure_user_wallet buyer b
        in case find_existing_operation b w key of
             Some r \<Rightarrow> Inr (r, b)
           | None \<Rightarrow>
               bindE (get_account_balance b w AT_HOLD) (\<lambda>held.
               if held < amount then Inl (BadRequest ''Insufficient hold balance for refund'')
               else
                 let (g, b) = draw b
                 in bindE (debit_account w AT_HOLD amount b) (\<lambda>b.
                    bindE (credit_account w AT_AVAILABLE amount b) (\<lambda>b.
                    bindE (create_entry w (Some order_id) (Some hold_id) LE_REFUND amount key g
                             (JObj [(''direction'', JStr ''hold_to_available'')]) b) (\<lambda>(e, b).
                    Inr (\<lparr>res_group = g, res_entries = [entry_view e]\<rparr>, b))))))"

section \<open>Manual adjustments\<close>

text \<open>\<open>manualAdjustment\<close> also writes the audit row of the correction, so it works on the
  whole database.\<close>

definition adjust_wallet ::
    "id \<Rightarrow> int \<Rightarrow> string \<Rightarrow> id \<Rightarrow> string \<Rightarrow> bank \<Rightarrow> ((op_result \<times> (id \<times> id) option) \<times> bank) res" where
  "adjust_wallet target amount reason actor key b =
     (if amount = 0 then Inl (BadRequest ''Adjustment amount cannot be zero'')
      else
        let (w, b) = ensure_user_wallet target b
        in case find_existing_operation b w key of
             Some r \<Rightarrow> Inr ((r, None), b)
           | None \<Rightarrow>
               bindE (if amount < 0
                      then bindE (get_account_balance b w AT_AVAILABLE) (\<lambda>available.
                             if available < - amount
                             then Inl (BadRequest ''Insufficient available balance for negative adjustment'')
                             else Inr ())
                      else Inr ()) (\<lambda>_.
               let (g, b) = draw b
               in bindE (if amount < 0 then debit_account w AT_AVAILABLE (- amount) b
                         else credit_account w AT_AVAILABLE amount b) (\<lambda>b.
                  bindE (create_entry w None None LE_MANUAL_ADJUSTMENT amount key g
                           (JObj [(''reason'', JStr reason), (''actorUserId'', JStr actor)]) b) (\<lambda>(e, b).
                  Inr ((\<lparr>res_group = g, res_entries = [entry_view e]\<rparr>, Some (w, le_id e)), b)))))"

definition manual_adjustment ::
    "id \<Rightarrow> int \<Rightarrow> string \<Rightarrow> id \<Rightarrow> string \<Rightarrow> db \<Rightarrow> (op_result \<times> db) res" where
  "manual_adjustment target amount reason actor key d =
     bindE (adjust_wallet target amount reason actor key (bank d)) (\<lambda>((r, posted), b).
     let d = d\<lparr>bank := b\<rparr>
     in case posted of
          None \<Rightarrow> Inr (r, d)
        | Some (w, entry_id) \<Rightarrow>
            Inr (r, append_audit
              \<lparr>au_actor = Some actor, au_entity_type = ''wallet'', au_entity_id = w,
               au_action = ''MANUAL_ADJUSTMENT'', au_reason = Some reason, au_before = JNull,
               au_after = JObj [(''amountMinor'', JStr (show_int amount)), (''entryId'', JStr entry_id)],
               au_key = Some key\<rparr> d))"

end
