(* ===== verification/LedgerPosting.thy ===== *)
theory LedgerPosting
  imports Ledger
begin

text \<open>
  What the ledger promises: every operation either replays a recorded operation or performs a
  \<^emph>\<open>posting\<close>, a list of changes of account balances together with the journal entries that
  record it. \<open>posts b ds es b'\<close> is the abstract specification of a step of the ledger, and the
  operations of \<open>Ledger\<close> are shown to refine it here.

  The interface the operations are built on, debit and credit of one account, is the locale
  \<open>account_store\<close>; its client lemma is that a transfer between two accounts conserves money.
\<close>

section \<open>Observations\<close>

definition bal :: "bank \<Rightarrow> id \<Rightarrow> account_type \<Rightarrow> int" where
  "bal b w t = (case row (accounts b) (w, t) of Some v \<Rightarrow> v | None \<Rightarrow> 0)"

definition total_money :: "bank \<Rightarrow> int" where
  "total_money b = tsum (\<lambda>_ v. v) (accounts b)"

text \<open>Account keys are unique (\<open>@@unique([walletId, type])\<close>) and no balance is negative.\<close>

definition accounts_ok :: "bank \<Rightarrow> bool" where
  "accounts_ok b \<longleftrightarrow> distinct (keys (accounts b)) \<and> (\<forall>w t. 0 \<le> bal b w t)"

definition is_capture :: "ledger_entry \<Rightarrow> bool" where
  "is_capture e \<longleftrightarrow> le_type e = LE_HOLD_RESERVE
     \<and> json_get (le_meta e) ''action'' = Some (JStr ''settlement_capture'')"

text \<open>
  The journal's reading of a wallet: its spendable money (available plus frozen) is the sum of
  its entries except the capture of a hold, which moves money that was reserved before; its
  held money is the sum of the entries that move the hold account.
\<close>

definition spendable_part :: "id \<Rightarrow> ledger_entry \<Rightarrow> int" where
  "spendable_part w e = (if le_wallet e = w \<and> \<not> is_capture e then le_amount e else 0)"

definition held_part :: "id \<Rightarrow> ledger_entry \<Rightarrow> int" where
  "held_part w e =
     (if le_wallet e = w \<and> le_type e \<in> {LE_HOLD_RESERVE, LE_HOLD_RELEASE, LE_REFUND}
      then (if is_capture e then le_amount e else - le_amount e) else 0)"

definition journal_spendable :: "bank \<Rightarrow> id \<Rightarrow> int" where
  "journal_spendable b w = sum_list (map (spendable_part w) (entries b))"

definition journal_held :: "bank \<Rightarrow> id \<Rightarrow> int" where
  "journal_held b w = sum_list (map (held_part w) (entries b))"

text \<open>Money enters and leaves the platform only through these entries.\<close>

definition external_part :: "ledger_entry \<Rightarrow> int" where
  "external_part e =
     (if le_type e \<in> {LE_DEPOSIT, LE_WITHDRAW, LE_WITHDRAW_FEE, LE_MANUAL_ADJUSTMENT}
      then le_amount e else 0)"

definition journal_external :: "bank \<Rightarrow> int" where
  "journal_external b = sum_list (map external_part (entries b))"

definition journal_agrees :: "bank \<Rightarrow> bool" where
  "journal_agrees b \<longleftrightarrow>
     (\<forall>w. bal b w AT_AVAILABLE + bal b w AT_FROZEN = journal_spendable b w
        \<and> bal b w AT_HOLD = journal_held b w)"

section \<open>The interface of the accounts\<close>

locale account_store =
  fixes balance :: "'s \<Rightarrow> 'k \<Rightarrow> int option"
    and debit :: "'k \<Rightarrow> int \<Rightarrow> 's \<Rightarrow> 's res"
    and credit :: "'k \<Rightarrow> int \<Rightarrow> 's \<Rightarrow> 's res"
    and money :: "'s \<Rightarrow> int"
    and wf :: "'s \<Rightarrow> bool"
  assumes debit_ok: "debit k a s = Inr s' \<Longrightarrow>
      \<exists>v. balance s k = Some v \<and> a \<le> v \<and> balance s' = (balance s)(k \<mapsto> v - a)"
    and debit_progress: "balance s k = Some v \<Longrightarrow> a \<le> v \<Longrightarrow> \<exists>s'. debit k a s = Inr s'"
    and credit_ok: "credit k a s = Inr s' \<Longrightarrow>
      \<exists>v. balance s k = Some v \<and> balance s' = (balance s)(k \<mapsto> v + a)"
    and credit_progress: "balance s k = Some v \<Longrightarrow> \<exists>s'. credit k a s = Inr s'"
    and debit_money: "wf s \<Longrightarrow> debit k a s = Inr s' \<Longrightarrow> money s' = money s - a"
    and credit_money: "wf s \<Longrightarrow> credit k a s = Inr s' \<Longrightarrow> money s' = money s + a"
    and debit_wf: "wf s \<Longrightarrow> debit k a s = Inr s' \<Longrightarrow> wf s'"
    and credit_wf: "wf s \<Longrightarrow> 0 \<le> a \<Longrightarrow> credit k a s = Inr s' \<Longrightarrow> wf s'"
begin

lemma transfer_conserves:
  assumes "wf s" and "0 \<le> a"
    and "bindE (debit k a s) (credit k' a) = Inr s'"
  shows "money s' = money s \<and> wf s'"
proof -
  from assms(3) obtain t where t: "debit k a s = Inr t" "credit k' a t = Inr s'"
    by (auto simp: res_simps)
  have "wf t" by (rule debit_wf [OF assms(1) t(1)])
  then show ?thesis
    using debit_money [OF assms(1) t(1)] credit_money [OF _ t(2)] credit_wf [OF _ assms(2) t(2)]
    by simp
qed

lemma transfer_effect:
  assumes "k \<noteq> k'" and "bindE (debit k a s) (credit k' a) = Inr s'"
  shows "\<exists>v v'. balance s k = Some v \<and> balance s k' = Some v' \<and> a \<le> v
           \<and> balance s' = (balance s)(k \<mapsto> v - a, k' \<mapsto> v' + a)"
proof -
  from assms(2) obtain t where t: "debit k a s = Inr t" "credit k' a t = Inr s'"
    by (auto simp: res_simps)
  show ?thesis using debit_ok [OF t(1)] credit_ok [OF t(2)] assms(1) by auto
qed

lemma transfer_progress:
  assumes "balance s k = Some v" and "a \<le> v" and "balance s k' = Some v'"
  shows "\<exists>s'. bindE (debit k a s) (credit k' a) = Inr s'"
proof -
  obtain t where t: "debit k a s = Inr t" using debit_progress [OF assms(1,2)] by blast
  from debit_ok [OF t] obtain x where "balance t = (balance s)(k \<mapsto> x)" by auto
  then have "balance t k' \<noteq> None" using assms(3) by auto
  then obtain s' where "credit k' a t = Inr s'" using credit_progress by blast
  with t show ?thesis by simp
qed

end

section \<open>The bank's accounts\<close>

lemma row_set_balance [table_simps]:
  "row (accounts (set_balance w t v b)) k = (if k = (w, t) then Some v else row (accounts b) k)"
  by (auto simp: set_balance_def row_update)

lemma bal_set_balance [simp]:
  "bal (set_balance w t v b) w' t' = (if w' = w \<and> t' = t then v else bal b w' t')"
  by (simp add: bal_def row_set_balance)

lemma set_balance_frame [simp]:
  "entries (set_balance w t v b) = entries b"
  "wallets (set_balance w t v b) = wallets b"
  "users (set_balance w t v b) = users b"
  "uuid_seq (set_balance w t v b) = uuid_seq b"
  "uuid_next (set_balance w t v b) = uuid_next b"
  by (simp_all add: set_balance_def)

lemma keys_set_balance [simp]:
  "row (accounts b) (w, t) \<noteq> None \<Longrightarrow> keys (accounts (set_balance w t v b)) = keys (accounts b)"
  by (simp add: set_balance_def)

lemma total_money_set_balance:
  "distinct (keys (accounts b)) \<Longrightarrow> row (accounts b) (w, t) = Some u \<Longrightarrow>
     total_money (set_balance w t v b) = total_money b - u + v"
  by (simp add: total_money_def set_balance_def tsum_update)

lemma debit_account_eq_Inr [res_simps]:
  "debit_account w t a b = Inr b' \<longleftrightarrow>
     (\<exists>v. row (accounts b) (w, t) = Some v \<and> a \<le> v \<and> b' = set_balance w t (v - a) b)"
  by (auto simp: debit_account_def split: option.splits if_splits)

lemma credit_account_eq_Inr [res_simps]:
  "credit_account w t a b = Inr b' \<longleftrightarrow>
     (\<exists>v. row (accounts b) (w, t) = Some v \<and> b' = set_balance w t (v + a) b)"
  by (auto simp: credit_account_def split: option.splits)

lemma get_account_balance_eq_Inr [res_simps]:
  "get_account_balance b w t = Inr v \<longleftrightarrow> row (accounts b) (w, t) = Some v"
  by (auto simp: get_account_balance_def split: option.splits)

lemma accounts_okI_set_balance:
  "accounts_ok b \<Longrightarrow> row (accounts b) (w, t) = Some u \<Longrightarrow> 0 \<le> v \<Longrightarrow>
     accounts_ok (set_balance w t v b)"
  by (auto simp: accounts_ok_def)

lemma bal_row: "row (accounts b) (w, t) = Some v \<Longrightarrow> bal b w t = v"
  by (simp add: bal_def)

interpretation bank_accounts: account_store
  "\<lambda>b. row (accounts b)"
  "\<lambda>(w, t). debit_account w t"
  "\<lambda>(w, t). credit_account w t"
  total_money accounts_ok
proof (unfold_locales, goal_cases)
  case (1 k a s s')
  then show ?case
    by (cases k) (auto simp: res_simps fun_eq_iff row_set_balance)
next
  case (2 s k v a)
  then show ?case by (cases k) (auto simp: res_simps)
next
  case (3 k a s s')
  then show ?case by (cases k) (auto simp: res_simps fun_eq_iff row_set_balance)
next
  case (4 s k v a)
  then show ?case by (cases k) (auto simp: res_simps)
next
  case (5 s k a s')
  then show ?case by (cases k) (auto simp: res_simps total_money_set_balance accounts_ok_def)
next
  case (6 s k a s')
  then show ?case by (cases k) (auto simp: res_simps total_money_set_balance accounts_ok_def)
next
  case (7 s k a s')
  then show ?case by (cases k) (auto simp: res_simps intro: accounts_okI_set_balance)
next
  case (8 s a k s')
  obtain w t where k: "k = (w, t)" by (cases k)
  with 8 obtain v where v: "row (accounts s) (w, t) = Some v" "s' = set_balance w t (v + a) s"
    by (auto simp: res_simps)
  have "0 \<le> v" using 8(1) bal_row [OF v(1)] by (auto simp: accounts_ok_def)
  with 8 v show ?case by (auto intro: accounts_okI_set_balance)
qed

section \<open>Postings\<close>

type_synonym delta = "id \<times> account_type \<times> int"

definition delta_at :: "id \<Rightarrow> account_type \<Rightarrow> delta list \<Rightarrow> int" where
  "delta_at w t ds = (\<Sum>(w', t', a)\<leftarrow>ds. if w' = w \<and> t' = t then a else 0)"

definition delta_sum :: "delta list \<Rightarrow> int" where
  "delta_sum ds = (\<Sum>(w, t, a)\<leftarrow>ds. a)"

lemma delta_simps [simp]:
  "delta_at w t [] = 0"
  "delta_at w t ((w', t', a) # ds) = (if w' = w \<and> t' = t then a else 0) + delta_at w t ds"
  "delta_at w t (ds @ ds') = delta_at w t ds + delta_at w t ds'"
  "delta_sum [] = 0"
  "delta_sum ((w', t', a) # ds) = a + delta_sum ds"
  "delta_sum (ds @ ds') = delta_sum ds + delta_sum ds'"
  by (simp_all add: delta_at_def delta_sum_def)

definition posts :: "bank \<Rightarrow> delta list \<Rightarrow> ledger_entry list \<Rightarrow> bank \<Rightarrow> bool" where
  "posts b ds es b' \<longleftrightarrow>
     (accounts_ok b \<longrightarrow> accounts_ok b' \<and> total_money b' = total_money b + delta_sum ds)
     \<and> (\<forall>w t. bal b' w t = bal b w t + delta_at w t ds)
     \<and> entries b' = entries b @ es"

text \<open>A posting is coherent when its journal entries explain its balance changes.\<close>

definition coherent :: "delta list \<Rightarrow> ledger_entry list \<Rightarrow> bool" where
  "coherent ds es \<longleftrightarrow>
     (\<forall>w. delta_at w AT_AVAILABLE ds + delta_at w AT_FROZEN ds = sum_list (map (spendable_part w) es)
        \<and> delta_at w AT_HOLD ds = sum_list (map (held_part w) es))
     \<and> delta_sum ds = sum_list (map external_part es)"

lemma coherent_Nil [simp]: "coherent [] []"
  by (simp add: coherent_def)

lemma posts_refl [intro]: "posts b [] [] b"
  by (simp add: posts_def)

lemma posts_trans:
  "posts b ds es b' \<Longrightarrow> posts b' ds' es' b'' \<Longrightarrow> posts b (ds @ ds') (es @ es') b''"
  by (auto simp: posts_def)

lemma posts_trans_silent: "posts b [] [] b' \<Longrightarrow> posts b' ds es b'' \<Longrightarrow> posts b ds es b''"
  using posts_trans [of b "[]" "[]" b' ds es b''] by simp

lemma posts_journal:
  assumes "posts b ds es b'" and "coherent ds es" and "journal_agrees b"
  shows "journal_agrees b'"
  using assms
  by (auto simp: posts_def coherent_def journal_agrees_def journal_spendable_def journal_held_def
      algebra_simps)

lemma posts_external:
  assumes "posts b ds es b'" and "coherent ds es" and "accounts_ok b" and "total_money b = journal_external b"
  shows "total_money b' = journal_external b'"
  using assms by (auto simp: posts_def coherent_def journal_external_def)

lemma posts_accounts_ok: "posts b ds es b' \<Longrightarrow> accounts_ok b \<Longrightarrow> accounts_ok b'"
  by (simp add: posts_def)

lemma posts_total: "posts b ds es b' \<Longrightarrow> accounts_ok b \<Longrightarrow> total_money b' = total_money b + delta_sum ds"
  by (simp add: posts_def)

lemma posts_bal: "posts b ds es b' \<Longrightarrow> bal b' w t = bal b w t + delta_at w t ds"
  by (simp add: posts_def)

subsection \<open>The building blocks are postings\<close>

lemma posts_draw: "draw b = (i, b') \<Longrightarrow> posts b [] [] b'"
  by (auto simp: draw_def posts_def accounts_ok_def total_money_def bal_def)

lemma posts_ensure_account: "posts b [] [] (ensure_account w t b)"
proof (cases "row (accounts b) (w, t)")
  case None
  then have "bal (ensure_account w t b) w' t' = bal b w' t'" for w' t'
    by (auto simp: ensure_account_def bal_def row_insert_row)
  moreover have "total_money (ensure_account w t b) = total_money b"
    using None by (simp add: ensure_account_def total_money_def tsum_insert_row)
  moreover have "distinct (keys (accounts b)) \<Longrightarrow> distinct (keys (accounts (ensure_account w t b)))"
    using None by (simp add: ensure_account_def) (simp add: row_None_iff)
  ultimately show ?thesis using None by (simp add: posts_def accounts_ok_def ensure_account_def)
next
  case (Some v)
  then show ?thesis by (simp add: ensure_account_def posts_refl)
qed

lemma posts_ensure_wallet_accounts: "posts b [] [] (ensure_wallet_accounts w b)"
  unfolding ensure_wallet_accounts_def
  by (rule posts_trans_silent [OF posts_ensure_account])
     (rule posts_trans_silent [OF posts_ensure_account posts_ensure_account])

lemma posts_wallets [simp]: "posts b ds es (b'\<lparr>wallets := ws\<rparr>) = posts b ds es b'"
  by (simp add: posts_def accounts_ok_def total_money_def bal_def)

lemma posts_users [simp]: "posts b ds es (b'\<lparr>users := us\<rparr>) = posts b ds es b'"
  by (simp add: posts_def accounts_ok_def total_money_def bal_def)

lemma posts_ensure_user_wallet:
  assumes "ensure_user_wallet u b = (w, b')"
  shows "posts b [] [] b'"
proof (cases "find_wallet b u")
  case None
  obtain i b1 where d: "draw b = (i, b1)" by (cases "draw b")
  have "posts b [] [] (b1\<lparr>wallets := insert_row i u (wallets b1)\<rparr>)"
    using posts_draw [OF d] by simp
  from posts_trans_silent [OF this posts_ensure_wallet_accounts [of _ i]] show ?thesis
    using assms None d by (auto simp: ensure_user_wallet_def)
next
  case (Some v)
  then show ?thesis using assms posts_ensure_wallet_accounts
    by (auto simp: ensure_user_wallet_def)
qed

lemma posts_ensure_platform_wallet:
  assumes "ensure_platform_wallet b = (w, b')"
  shows "posts b [] [] b'"
proof (cases "find (\<lambda>(i, u). u_steam_id u = Some platform_steam_id) (users b)")
  case None
  obtain i b1 where d: "draw b = (i, b1)" by (cases "draw b")
  define b2 where "b2 = b1\<lparr>users := insert_row i
                     \<lparr>u_steam_id = Some platform_steam_id, u_username = ''platform_system'',
                      u_role = UR_ADMIN, u_status = US_ACTIVE, u_trade_url = None\<rparr> (users b1)\<rparr>"
  have "posts b [] [] b2" using posts_draw [OF d] by (simp add: b2_def)
  moreover have "ensure_user_wallet i b2 = (w, b')"
    using assms None d by (simp add: ensure_platform_wallet_def b2_def)
  ultimately show ?thesis by (blast intro: posts_trans_silent posts_ensure_user_wallet)
next
  case (Some p)
  then show ?thesis using assms posts_ensure_user_wallet
    by (cases p) (auto simp: ensure_platform_wallet_def)
qed

lemma posts_debit: "debit_account w t a b = Inr b' \<Longrightarrow> posts b [(w, t, - a)] [] b'"
  using bank_accounts.debit_wf [of b "(w, t)" a b'] bank_accounts.debit_money [of b "(w, t)" a b']
  by (auto simp: posts_def res_simps bal_row)

lemma posts_credit: "credit_account w t a b = Inr b' \<Longrightarrow> 0 \<le> a \<Longrightarrow> posts b [(w, t, a)] [] b'"
  using bank_accounts.credit_wf [of b a "(w, t)" b'] bank_accounts.credit_money [of b "(w, t)" a b']
  by (auto simp: posts_def res_simps bal_row)

lemma create_entry_eq_Inr [res_simps]:
  "create_entry w oid hid ty amount key g meta b = Inr (e, b') \<longleftrightarrow>
     (\<forall>x \<in> set (entries b). \<not> (le_wallet x = w \<and> le_key x = key))
     \<and> e = \<lparr>le_id = fst (draw b), le_wallet = w, le_order = oid, le_hold = hid, le_type = ty,
             le_amount = amount, le_key = key, le_group = Some g, le_meta = meta\<rparr>
     \<and> b' = (snd (draw b))\<lparr>entries := entries b @ [e]\<rparr>"
  by (auto simp: create_entry_def Let_def draw_def)

lemma posts_entry: "create_entry w oid hid ty amount key g meta b = Inr (e, b') \<Longrightarrow> posts b [] [e] b'"
  by (auto simp: create_entry_def draw_def Let_def posts_def accounts_ok_def total_money_def bal_def
      split: if_splits)

text \<open>A transfer between two accounts of one wallet, the shape of every hold operation.\<close>

lemma posts_transfer:
  "debit_account w t a b = Inr b1 \<Longrightarrow> credit_account w t' a b1 = Inr b2 \<Longrightarrow> 0 \<le> a \<Longrightarrow>
     posts b [(w, t, - a), (w, t', a)] [] b2"
  using posts_trans [OF posts_debit posts_credit] by fastforce

end
