(* ===== verification/LedgerRefinement.thy ===== *)
theory LedgerRefinement
  imports LedgerPosting
begin

text \<open>
  Every operation of the ledger either replays what its idempotency key recorded or is a fresh
  posting: \<open>fresh_op b w key r ds es b'\<close> says that it changes the balances by \<open>ds\<close>, appends
  the entries \<open>es\<close> under one new group, the first of them carrying the wallet and the key, and
  that the result \<open>r\<close> describes exactly those entries. The lemmas \<open>*_cases\<close> give, per
  operation, the two ways it can succeed; \<open>exec_op\<close> collects the operations in one type, for
  the theorems about all of them and about runs.
\<close>

section \<open>Fresh postings and replays\<close>

definition ids_ok :: "bank \<Rightarrow> bool" where
  "ids_ok b \<longleftrightarrow> inj (uuid_seq b)
     \<and> (\<forall>e \<in> set (entries b). \<forall>g. le_group e = Some g \<longrightarrow> g \<in> uuid_seq b ` {..<uuid_next b})"

definition same_frame :: "bank \<Rightarrow> bank \<Rightarrow> bool" where
  "same_frame b b' \<longleftrightarrow> wallets b' = wallets b \<and> users b' = users b \<and> uuid_seq b' = uuid_seq b
     \<and> uuid_next b \<le> uuid_next b'
     \<and> (\<forall>k. row (accounts b') k = None \<longleftrightarrow> row (accounts b) k = None)"

definition fresh_op ::
    "bank \<Rightarrow> id \<Rightarrow> string \<Rightarrow> op_result \<Rightarrow> delta list \<Rightarrow> ledger_entry list \<Rightarrow> bank \<Rightarrow> bool" where
  "fresh_op b w key r ds es b' \<longleftrightarrow>
     posts b ds es b' \<and> same_frame b b' \<and> uuid_next b < uuid_next b'
     \<and> res_group r = uuid_seq b (uuid_next b) \<and> es \<noteq> [] \<and> le_wallet (hd es) = w \<and> le_key (hd es) = key
     \<and> (\<forall>e \<in> set es. le_group e = Some (res_group r)) \<and> res_entries r = map entry_view es"

lemma same_frame_refl [simp]: "same_frame b b"
  by (simp add: same_frame_def)

lemma same_frame_trans: "same_frame b b' \<Longrightarrow> same_frame b' b'' \<Longrightarrow> same_frame b b''"
  by (auto simp: same_frame_def)

lemma same_frame_draw: "draw b = (i, b') \<Longrightarrow> same_frame b b' \<and> i = uuid_seq b (uuid_next b)
    \<and> uuid_next b' = Suc (uuid_next b)"
  by (auto simp: draw_def same_frame_def)

lemma same_frame_debit: "debit_account w t a b = Inr b' \<Longrightarrow> same_frame b b'"
  by (auto simp: res_simps same_frame_def row_set_balance split: if_splits)

lemma same_frame_credit: "credit_account w t a b = Inr b' \<Longrightarrow> same_frame b b'"
  by (auto simp: res_simps same_frame_def row_set_balance split: if_splits)

lemma same_frame_entry: "create_entry w oid hid ty amount key g meta b = Inr (e, b') \<Longrightarrow> same_frame b b'"
  by (auto simp: create_entry_def draw_def same_frame_def Let_def split: if_splits)

lemma create_entry_fields:
  assumes "create_entry w oid hid ty amount key g meta b = Inr (e, b')"
  shows "le_wallet e = w" "le_order e = oid" "le_hold e = hid" "le_type e = ty" "le_amount e = amount"
    "le_key e = key" "le_group e = Some g" "le_meta e = meta"
  using assms by (simp_all add: res_simps)

lemmas step_frames = same_frame_debit same_frame_credit same_frame_entry

text \<open>Assembling a fresh posting from the new group, the account movements and the entries.\<close>

lemma fresh_opI:
  assumes "draw b = (g, b1)" and "posts b1 ds es b'" and "same_frame b1 b'"
    and "es \<noteq> []" "le_wallet (hd es) = w" "le_key (hd es) = key"
    and "\<forall>e \<in> set es. le_group e = Some g" and "r = \<lparr>res_group = g, res_entries = map entry_view es\<rparr>"
  shows "fresh_op b w key r ds es b'"
proof -
  have d: "same_frame b b1" "g = uuid_seq b (uuid_next b)" "uuid_next b1 = Suc (uuid_next b)"
    using same_frame_draw [OF assms(1)] by auto
  have "posts b ds es b'" by (rule posts_trans_silent [OF posts_draw [OF assms(1)] assms(2)])
  moreover have "uuid_next b < uuid_next b'" using assms(3) d(3) by (simp add: same_frame_def)
  moreover have "same_frame b b'" by (rule same_frame_trans [OF d(1) assms(3)])
  ultimately show ?thesis using assms d(2) by (simp add: fresh_op_def)
qed

lemma fresh_op_posts: "fresh_op b w key r ds es b' \<Longrightarrow> posts b ds es b'"
  by (simp add: fresh_op_def)

text \<open>The common body of the four hold operations: check, move, record.\<close>

lemma hold_move_fresh:
  assumes "bindE (get_account_balance b w t) (\<lambda>x. if x < a then Inl err
       else let (g, b) = draw b
            in bindE (debit_account w t a b) (\<lambda>b. bindE (credit_account w t' a b) (\<lambda>b.
               bindE (create_entry w oid hid ty amount key g meta b) (\<lambda>(e, b).
               Inr (\<lparr>res_group = g, res_entries = [entry_view e]\<rparr>, b))))) = Inr (r, b')"
    and "0 < a"
  shows "a \<le> bal b w t
     \<and> (\<exists>e. fresh_op b w key r [(w, t, - a), (w, t', a)] [e] b' \<and> le_wallet e = w \<and> le_order e = oid
          \<and> le_hold e = hid \<and> le_type e = ty \<and> le_amount e = amount \<and> le_meta e = meta)"
proof -
  obtain g b1 where d: "draw b = (g, b1)" by (cases "draw b")
  from assms d obtain b2 b3 e where *: "row (accounts b) (w, t) \<noteq> None" "a \<le> bal b w t"
    "debit_account w t a b1 = Inr b2" "credit_account w t' a b2 = Inr b3"
    "create_entry w oid hid ty amount key g meta b3 = Inr (e, b')"
    "r = \<lparr>res_group = g, res_entries = [entry_view e]\<rparr>"
    by (auto simp: res_simps bal_row)
  have "posts b1 ([(w, t, - a), (w, t', a)] @ []) ([] @ [e]) b'"
    using assms(2) by (intro posts_trans [OF posts_transfer [OF *(3,4)] posts_entry [OF *(5)]]) simp
  moreover have "same_frame b1 b'"
    by (rule same_frame_trans [OF same_frame_debit [OF *(3)]
          same_frame_trans [OF same_frame_credit [OF *(4)] same_frame_entry [OF *(5)]]])
  ultimately have "fresh_op b w key r [(w, t, - a), (w, t', a)] [e] b'"
    using *(6) by (intro fresh_opI [OF d]) (simp_all add: create_entry_fields [OF *(5)])
  with *(2) create_entry_fields [OF *(5)] show ?thesis by blast
qed

lemma credit_fresh:
  assumes "(let (g, b) = draw b
       in bindE (credit_account w t a b) (\<lambda>b.
          bindE (create_entry w oid hid ty amount key g meta b) (\<lambda>(e, b).
          Inr (\<lparr>res_group = g, res_entries = [entry_view e]\<rparr>, b)))) = Inr (r, b')"
    and "0 \<le> a"
  shows "\<exists>e. fresh_op b w key r [(w, t, a)] [e] b' \<and> le_wallet e = w \<and> le_order e = oid
          \<and> le_hold e = hid \<and> le_type e = ty \<and> le_amount e = amount \<and> le_meta e = meta"
proof -
  obtain g b1 where d: "draw b = (g, b1)" by (cases "draw b")
  from assms d obtain b2 e where *: "credit_account w t a b1 = Inr b2"
    "create_entry w oid hid ty amount key g meta b2 = Inr (e, b')"
    "r = \<lparr>res_group = g, res_entries = [entry_view e]\<rparr>"
    by (auto simp: bindE_eq_Inr)
  have "posts b1 ([(w, t, a)] @ []) ([] @ [e]) b'"
    using assms(2) by (intro posts_trans [OF posts_credit [OF *(1)] posts_entry [OF *(2)]])
  moreover have "same_frame b1 b'"
    by (rule same_frame_trans [OF same_frame_credit [OF *(1)] same_frame_entry [OF *(2)]])
  ultimately have "fresh_op b w key r [(w, t, a)] [e] b'"
    using *(3) by (intro fresh_opI [OF d]) (simp_all add: create_entry_fields [OF *(2)])
  with create_entry_fields [OF *(2)] show ?thesis by blast
qed

section \<open>The operations\<close>

lemma deposit_cases:
  assumes "deposit u a key meta b = Inr (r, b')" and "ensure_user_wallet u b = (w, b0)"
  obtains (replayed) "find_existing_operation b0 w key = Some r" "b' = b0"
    | (posted) e where "find_existing_operation b0 w key = None" "0 < a"
        "fresh_op b0 w key r [(w, AT_AVAILABLE, a)] [e] b'"
        "le_wallet e = w" "le_type e = LE_DEPOSIT" "le_amount e = a"
proof (cases "find_existing_operation b0 w key")
  case None
  with assms have a: "0 < a" by (auto simp: deposit_def split: if_splits)
  with None assms have "\<exists>e. fresh_op b0 w key r [(w, AT_AVAILABLE, a)] [e] b' \<and> le_wallet e = w
      \<and> le_order e = None \<and> le_hold e = None \<and> le_type e = LE_DEPOSIT \<and> le_amount e = a
      \<and> le_meta e = (case meta of Some m \<Rightarrow> m | None \<Rightarrow> JObj [(''source'', JStr ''mock'')])"
    by (intro credit_fresh) (auto simp: deposit_def apply_deposit_def)
  with None a that(2) show ?thesis by blast
next
  case (Some x)
  with assms that(1) show ?thesis
    by (auto simp: deposit_def apply_deposit_def split: if_splits)
qed

lemma refund_withdrawal_cases:
  assumes "refund_withdrawal u a key reason req b = Inr (r, b')" and "ensure_user_wallet u b = (w, b0)"
  obtains (replayed) "find_existing_operation b0 w key = Some r" "b' = b0"
    | (posted) e where "find_existing_operation b0 w key = None" "0 < a"
        "fresh_op b0 w key r [(w, AT_AVAILABLE, a)] [e] b'"
        "le_wallet e = w" "le_type e = LE_MANUAL_ADJUSTMENT" "le_amount e = a"
proof (cases "find_existing_operation b0 w key")
  case None
  with assms have a: "0 < a" by (auto simp: refund_withdrawal_def split: if_splits)
  with None assms have "\<exists>e. fresh_op b0 w key r [(w, AT_AVAILABLE, a)] [e] b' \<and> le_wallet e = w
      \<and> le_order e = None \<and> le_hold e = None \<and> le_type e = LE_MANUAL_ADJUSTMENT \<and> le_amount e = a
      \<and> le_meta e = JObj [(''reason'', JStr reason), (''withdrawalRequestId'', JStr req),
                                  (''action'', JStr ''withdrawal_refund'')]"
    by (intro credit_fresh) (auto simp: refund_withdrawal_def)
  with None a that(2) show ?thesis by blast
next
  case (Some x)
  with assms that(1) show ?thesis by (auto simp: refund_withdrawal_def split: if_splits)
qed

lemma reserve_purchase_hold_cases:
  assumes "reserve_purchase_hold u oid hid a key b = Inr (r, b')" and "ensure_user_wallet u b = (w, b0)"
  obtains (replayed) "find_existing_operation b0 w key = Some r" "b' = b0"
    | (posted) e where "find_existing_operation b0 w key = None" "0 < a" "a \<le> bal b0 w AT_AVAILABLE"
        "fresh_op b0 w key r [(w, AT_AVAILABLE, - a), (w, AT_HOLD, a)] [e] b'"
        "le_wallet e = w" "le_order e = Some oid" "le_hold e = Some hid" "le_type e = LE_HOLD_RESERVE"
        "le_amount e = - a" "\<not> is_capture e"
proof (cases "find_existing_operation b0 w key")
  case None
  with assms have a: "0 < a" by (auto simp: reserve_purchase_hold_def split: if_splits)
  note move = hold_move_fresh [where b = b0 and w = w and t = AT_AVAILABLE and a = a
      and t' = AT_HOLD and oid = "Some oid" and hid = "Some hid" and ty = LE_HOLD_RESERVE
      and amount = "- a" and key = key and r = r and b' = b' and err = "BadRequest ''Insufficient available balance''"
      and meta = "JObj [(''direction'', JStr ''available_to_hold''), (''amountMinor'', JStr (show_int a))]"]
  from None a assms move that(2) show ?thesis
    by (auto simp: reserve_purchase_hold_def is_capture_def)
next
  case (Some x)
  with assms that(1) show ?thesis by (auto simp: reserve_purchase_hold_def split: if_splits)
qed

lemma reserve_buy_request_hold_cases:
  assumes "reserve_buy_request_hold u req a key b = Inr (r, b')" and "ensure_user_wallet u b = (w, b0)"
  obtains (replayed) "find_existing_operation b0 w key = Some r" "b' = b0"
    | (posted) e where "find_existing_operation b0 w key = None" "0 < a" "a \<le> bal b0 w AT_AVAILABLE"
        "fresh_op b0 w key r [(w, AT_AVAILABLE, - a), (w, AT_HOLD, a)] [e] b'"
        "le_wallet e = w" "le_type e = LE_HOLD_RESERVE" "le_amount e = - a" "\<not> is_capture e"
proof (cases "find_existing_operation b0 w key")
  case None
  with assms have a: "0 < a" by (auto simp: reserve_buy_request_hold_def split: if_splits)
  note move = hold_move_fresh [where b = b0 and w = w and t = AT_AVAILABLE and a = a
      and t' = AT_HOLD and oid = None and hid = None and ty = LE_HOLD_RESERVE
      and amount = "- a" and key = key and r = r and b' = b' and err = "BadRequest ''Insufficient available balance''"
      and meta = "JObj [(''direction'', JStr ''available_to_hold''), (''buyRequestId'', JStr req),
                        (''amountMinor'', JStr (show_int a))]"]
  from None a assms move that(2) show ?thesis
    by (auto simp: reserve_buy_request_hold_def is_capture_def)
next
  case (Some x)
  with assms that(1) show ?thesis by (auto simp: reserve_buy_request_hold_def split: if_splits)
qed

lemma release_buy_request_hold_cases:
  assumes "release_buy_request_hold u req a key b = Inr (r, b')" and "ensure_user_wallet u b = (w, b0)"
  obtains (replayed) "find_existing_operation b0 w key = Some r" "b' = b0"
    | (posted) e where "find_existing_operation b0 w key = None" "0 < a" "a \<le> bal b0 w AT_HOLD"
        "fresh_op b0 w key r [(w, AT_HOLD, - a), (w, AT_AVAILABLE, a)] [e] b'"
        "le_wallet e = w" "le_type e = LE_HOLD_RELEASE" "le_amount e = a"
proof (cases "find_existing_operation b0 w key")
  case None
  with assms have a: "0 < a" by (auto simp: release_buy_request_hold_def split: if_splits)
  note move = hold_move_fresh [where b = b0 and w = w and t = AT_HOLD and a = a
      and t' = AT_AVAILABLE and oid = None and hid = None and ty = LE_HOLD_RELEASE
      and amount = a and key = key and r = r and b' = b' and err = "BadRequest ''Insufficient hold balance to release''"
      and meta = "JObj [(''direction'', JStr ''hold_to_available''), (''buyRequestId'', JStr req),
                        (''amountMinor'', JStr (show_int a))]"]
  from None a assms move that(2) show ?thesis
    by (auto simp: release_buy_request_hold_def)
next
  case (Some x)
  with assms that(1) show ?thesis by (auto simp: release_buy_request_hold_def split: if_splits)
qed

lemma refund_hold_cases:
  assumes "refund_hold u oid hid a key b = Inr (r, b')" and "ensure_user_wallet u b = (w, b0)"
  obtains (replayed) "find_existing_operation b0 w key = Some r" "b' = b0"
    | (posted) e where "find_existing_operation b0 w key = None" "0 < a" "a \<le> bal b0 w AT_HOLD"
        "fresh_op b0 w key r [(w, AT_HOLD, - a), (w, AT_AVAILABLE, a)] [e] b'"
        "le_wallet e = w" "le_order e = Some oid" "le_hold e = Some hid" "le_type e = LE_REFUND"
        "le_amount e = a"
proof (cases "find_existing_operation b0 w key")
  case None
  with assms have a: "0 < a" by (auto simp: refund_hold_def split: if_splits)
  note move = hold_move_fresh [where b = b0 and w = w and t = AT_HOLD and a = a
      and t' = AT_AVAILABLE and oid = "Some oid" and hid = "Some hid" and ty = LE_REFUND
      and amount = a and key = key and r = r and b' = b' and err = "BadRequest ''Insufficient hold balance for refund''"
      and meta = "JObj [(''direction'', JStr ''hold_to_available'')]"]
  from None a assms move that(2) show ?thesis
    by (auto simp: refund_hold_def)
next
  case (Some x)
  with assms that(1) show ?thesis by (auto simp: refund_hold_def split: if_splits)
qed

text \<open>The operations with two or three entries, and the two that write no entry.\<close>

lemma withdraw_cases:
  assumes "withdraw u a fee net key req frozen meta b = Inr (r, b')"
    and "ensure_user_wallet u b = (w, b0)"
  obtains (replayed) "find_existing_operation b0 w key = Some r" "b' = b0"
    | (posted) we fe where "find_existing_operation b0 w key = None"
        "a \<le> bal b0 w (if frozen then AT_FROZEN else AT_AVAILABLE)" "net + fee = a" "0 < net" "0 \<le> fee"
        "fresh_op b0 w key r [(w, if frozen then AT_FROZEN else AT_AVAILABLE, - a)] [we, fe] b'"
        "le_wallet we = w" "le_type we = LE_WITHDRAW" "le_amount we = - net"
        "le_wallet fe = w" "le_type fe = LE_WITHDRAW_FEE" "le_amount fe = - fee" "le_key fe = key @ '':fee''"
proof (cases "find_existing_operation b0 w key")
  case None
  define t where "t = (if frozen then AT_FROZEN else AT_AVAILABLE)"
  obtain g b1 where d: "draw b0 = (g, b1)" by (cases "draw b0")
  from None assms d obtain b2 b3 we fe where *: "net + fee = a" "0 < net" "0 \<le> fee" "a \<le> bal b0 w t"
    "debit_account w t a b1 = Inr b2"
    "create_entry w None None LE_WITHDRAW (- net) key g (JObj (meta @
        [(''withdrawalRequestId'', JStr req), (''netMinor'', JStr (show_int net))])) b2 = Inr (we, b3)"
    "create_entry w None None LE_WITHDRAW_FEE (- fee) (key @ '':fee'') g (JObj
        [(''withdrawalRequestId'', JStr req), (''feeMinor'', JStr (show_int fee))]) b3 = Inr (fe, b')"
    "r = \<lparr>res_group = g, res_entries = [entry_view we, entry_view fe]\<rparr>"
    by (auto simp: withdraw_def Let_def bindE_eq_Inr if_Inl_eq_Inr get_account_balance_eq_Inr bal_row
        simp flip: t_def split: if_splits)
  have "posts b1 ([(w, t, - a)] @ [] @ []) ([] @ [we] @ [fe]) b'"
    by (intro posts_trans [OF posts_debit [OF *(5)] posts_trans [OF posts_entry [OF *(6)] posts_entry [OF *(7)]]])
  moreover have "same_frame b1 b'"
    by (rule same_frame_trans [OF same_frame_debit [OF *(5)]
          same_frame_trans [OF same_frame_entry [OF *(6)] same_frame_entry [OF *(7)]]])
  ultimately have "fresh_op b0 w key r [(w, t, - a)] [we, fe] b'"
    using *(8) by (intro fresh_opI [OF d]) (simp_all add: create_entry_fields [OF *(6)] create_entry_fields [OF *(7)])
  with None * create_entry_fields [OF *(6)] create_entry_fields [OF *(7)] that(2) show ?thesis
    unfolding t_def by blast
next
  case (Some x)
  with assms that(1) show ?thesis by (auto simp: withdraw_def Let_def split: if_splits)
qed

lemma settle_sale_cases:
  assumes "settle_sale buyer seller oid hid total_amount s c key b = Inr (r, b')"
    and "ensure_user_wallet buyer b = (bw, b0)" "ensure_user_wallet seller b0 = (sw, b1)"
    and "ensure_platform_wallet b1 = (pw, b2)" and "0 \<le> s" "0 \<le> c"
  obtains (replayed) "find_existing_operation b2 bw key = Some r" "b' = b2"
    | (posted) be se pe where "find_existing_operation b2 bw key = None"
        "total_amount \<le> bal b2 bw AT_HOLD" "s + c = total_amount"
        "fresh_op b2 bw key r [(bw, AT_HOLD, - total_amount), (sw, AT_AVAILABLE, s), (pw, AT_AVAILABLE, c)]
           [be, se, pe] b'"
        "le_wallet be = bw" "is_capture be" "le_amount be = - total_amount"
        "le_wallet se = sw" "le_type se = LE_SETTLEMENT_SELLER" "le_amount se = s"
        "le_wallet pe = pw" "le_type pe = LE_SETTLEMENT_PLATFORM_COMMISSION" "le_amount pe = c"
        "le_key se = key @ '':seller''" "le_key pe = key @ '':platform''"
proof (cases "find_existing_operation b2 bw key")
  case None
  obtain g b3 where d: "draw b2 = (g, b3)" by (cases "draw b2")
  from None assms(1-4) d obtain b4 b5 b6 b7 b8 be se pe where *: "s + c = total_amount"
    "total_amount \<le> bal b2 bw AT_HOLD"
    "debit_account bw AT_HOLD total_amount b3 = Inr b4"
    "credit_account sw AT_AVAILABLE s b4 = Inr b5" "credit_account pw AT_AVAILABLE c b5 = Inr b6"
    "create_entry bw (Some oid) (Some hid) LE_HOLD_RESERVE (- total_amount) key g
       (JObj [(''action'', JStr ''settlement_capture'')]) b6 = Inr (be, b7)"
    "create_entry sw (Some oid) (Some hid) LE_SETTLEMENT_SELLER s (key @ '':seller'') g JNull b7 = Inr (se, b8)"
    "create_entry pw (Some oid) (Some hid) LE_SETTLEMENT_PLATFORM_COMMISSION c (key @ '':platform'') g JNull b8
       = Inr (pe, b')"
    "r = \<lparr>res_group = g, res_entries = [entry_view be, entry_view se, entry_view pe]\<rparr>"
    by (auto simp: settle_sale_def Let_def bindE_eq_Inr if_Inl_eq_Inr get_account_balance_eq_Inr bal_row
        split: if_splits)
  note fields = create_entry_fields [OF *(6)] create_entry_fields [OF *(7)] create_entry_fields [OF *(8)]
  have "posts b3 ([(bw, AT_HOLD, - total_amount)] @ [(sw, AT_AVAILABLE, s)] @ [(pw, AT_AVAILABLE, c)] @ [] @ [] @ [])
          ([] @ [] @ [] @ [be] @ [se] @ [pe]) b'"
    using assms(5,6) by (intro posts_trans [OF posts_debit [OF *(3)]] posts_trans [OF posts_credit [OF *(4)]]
        posts_trans [OF posts_credit [OF *(5)]] posts_trans [OF posts_entry [OF *(6)]]
        posts_trans [OF posts_entry [OF *(7)]] posts_entry [OF *(8)])
  moreover have "same_frame b3 b'"
    by (intro same_frame_trans [OF same_frame_debit [OF *(3)]] same_frame_trans [OF same_frame_credit [OF *(4)]]
        same_frame_trans [OF same_frame_credit [OF *(5)]] same_frame_trans [OF same_frame_entry [OF *(6)]]
        same_frame_trans [OF same_frame_entry [OF *(7)]] same_frame_entry [OF *(8)])
  ultimately have "fresh_op b2 bw key r
      [(bw, AT_HOLD, - total_amount), (sw, AT_AVAILABLE, s), (pw, AT_AVAILABLE, c)] [be, se, pe] b'"
    using *(9) by (intro fresh_opI [OF d]) (simp_all add: fields)
  moreover have "is_capture be" by (simp add: is_capture_def fields)
  ultimately show ?thesis using None * fields that(2) by blast
next
  case (Some x)
  with assms that(1) show ?thesis by (auto simp: settle_sale_def Let_def split: if_splits)
qed

lemma adjust_wallet_cases:
  assumes "adjust_wallet u a reason actor key b = Inr ((r, posted), b')"
    and "ensure_user_wallet u b = (w, b0)"
  obtains (replayed) "find_existing_operation b0 w key = Some r" "b' = b0" "posted = None"
    | (posted) e where "find_existing_operation b0 w key = None" "a \<noteq> 0" "posted = Some (w, le_id e)"
        "0 \<le> bal b0 w AT_AVAILABLE + a \<or> 0 < a"
        "fresh_op b0 w key r [(w, AT_AVAILABLE, a)] [e] b'"
        "le_wallet e = w" "le_type e = LE_MANUAL_ADJUSTMENT" "le_amount e = a"
proof (cases "find_existing_operation b0 w key")
  case None
  obtain g b1 where d: "draw b0 = (g, b1)" by (cases "draw b0")
  let ?move = "if a < 0 then debit_account w AT_AVAILABLE (- a) b1 else credit_account w AT_AVAILABLE a b1"
  from None assms d obtain b2 e where *: "a \<noteq> 0" "?move = Inr b2"
    "create_entry w None None LE_MANUAL_ADJUSTMENT a key g
       (JObj [(''reason'', JStr reason), (''actorUserId'', JStr actor)]) b2 = Inr (e, b')"
    "r = \<lparr>res_group = g, res_entries = [entry_view e]\<rparr>" "posted = Some (w, le_id e)"
    by (auto simp: adjust_wallet_def Let_def bindE_eq_Inr split: if_splits)
  have bal1: "bal b1 w AT_AVAILABLE = bal b0 w AT_AVAILABLE" using posts_bal [OF posts_draw [OF d]] by simp
  have move: "posts b1 [(w, AT_AVAILABLE, a)] [] b2" "same_frame b1 b2"
      "0 \<le> bal b0 w AT_AVAILABLE + a \<or> 0 < a"
    using *(1,2) posts_debit [of w AT_AVAILABLE "- a" b1 b2] posts_credit [of w AT_AVAILABLE a b1 b2]
      same_frame_debit [of w AT_AVAILABLE "- a" b1 b2] same_frame_credit [of w AT_AVAILABLE a b1 b2] bal1
    by (auto simp: debit_account_eq_Inr bal_row split: if_splits)
  have "posts b1 ([(w, AT_AVAILABLE, a)] @ []) ([] @ [e]) b'"
    by (intro posts_trans [OF move(1) posts_entry [OF *(3)]])
  moreover have "same_frame b1 b'" by (rule same_frame_trans [OF move(2) same_frame_entry [OF *(3)]])
  ultimately have "fresh_op b0 w key r [(w, AT_AVAILABLE, a)] [e] b'"
    using *(4) by (intro fresh_opI [OF d]) (simp_all add: create_entry_fields [OF *(3)])
  with None *(1,5) move(3) create_entry_fields [OF *(3)] that(2) show ?thesis by blast
next
  case (Some x)
  with assms that(1) show ?thesis by (auto simp: adjust_wallet_def Let_def split: if_splits)
qed

lemma freeze_for_withdrawal_posts:
  assumes "freeze_for_withdrawal u a b = Inr b'" and "ensure_user_wallet u b = (w, b0)"
  shows "posts b0 [(w, AT_AVAILABLE, - a), (w, AT_FROZEN, a)] [] b'" "same_frame b0 b'" "0 < a"
    "a \<le> bal b0 w AT_AVAILABLE"
proof -
  from assms obtain b1 where *: "0 < a" "a \<le> bal b0 w AT_AVAILABLE" "debit_account w AT_AVAILABLE a b0 = Inr b1"
    "credit_account w AT_FROZEN a b1 = Inr b'"
    by (auto simp: freeze_for_withdrawal_def bindE_eq_Inr get_account_balance_eq_Inr bal_row split: if_splits)
  show "posts b0 [(w, AT_AVAILABLE, - a), (w, AT_FROZEN, a)] [] b'"
    using * by (intro posts_transfer [OF *(3,4)]) simp
  show "same_frame b0 b'" by (rule same_frame_trans [OF same_frame_debit [OF *(3)] same_frame_credit [OF *(4)]])
  show "0 < a" "a \<le> bal b0 w AT_AVAILABLE" using * by auto
qed

lemma release_withdraw_hold_posts:
  assumes "release_withdraw_hold u a b = Inr b'" and "ensure_user_wallet u b = (w, b0)"
  shows "posts b0 [(w, AT_FROZEN, - a), (w, AT_AVAILABLE, a)] [] b'" "same_frame b0 b'" "0 < a"
    "a \<le> bal b0 w AT_FROZEN"
proof -
  from assms obtain b1 where *: "0 < a" "a \<le> bal b0 w AT_FROZEN" "debit_account w AT_FROZEN a b0 = Inr b1"
    "credit_account w AT_AVAILABLE a b1 = Inr b'"
    by (auto simp: release_withdraw_hold_def bindE_eq_Inr get_account_balance_eq_Inr bal_row split: if_splits)
  show "posts b0 [(w, AT_FROZEN, - a), (w, AT_AVAILABLE, a)] [] b'"
    using * by (intro posts_transfer [OF *(3,4)]) simp
  show "same_frame b0 b'" by (rule same_frame_trans [OF same_frame_debit [OF *(3)] same_frame_credit [OF *(4)]])
  show "0 < a" "a \<le> bal b0 w AT_FROZEN" using * by auto
qed

end
