(* ===== verification/LedgerRuns.thy ===== *)
theory LedgerRuns
  imports LedgerRefinement
begin

text \<open>
  All the operations of the ledger service as one type, and runs of them. \<open>exec_op\<close> performs
  one call; \<open>ledger_step\<close> is one call that committed, \<open>run_ops\<close> a sequence of calls in which
  the ones that throw leave the bank as it was. The theorems of the ledger: money enters and
  leaves only through the journal, no balance becomes negative, the journal explains every
  balance, and a call repeated under its idempotency key returns the recorded result and
  changes nothing.
\<close>

section \<open>Calls\<close>

datatype ledger_op =
    Deposit id int string "json option"
  | Withdraw id int int int string id bool "(string \<times> json) list"
  | Freeze id int
  | Unfreeze id int
  | Refund_withdrawal id int string string id
  | Reserve_purchase id id id int string
  | Reserve_request id id int string
  | Release_request id id int string
  | Settle id id id id int int int string
  | Refund_hold id id id int string
  | Adjust id int string id string

fun exec_op :: "ledger_op \<Rightarrow> bank \<Rightarrow> (op_result option \<times> bank) res" where
  "exec_op (Deposit u a key meta) b = bindE (deposit u a key meta b) (\<lambda>(r, b). Inr (Some r, b))"
| "exec_op (Withdraw u a fee net key req frozen meta) b =
     bindE (withdraw u a fee net key req frozen meta b) (\<lambda>(r, b). Inr (Some r, b))"
| "exec_op (Freeze u a) b = bindE (freeze_for_withdrawal u a b) (\<lambda>b. Inr (None, b))"
| "exec_op (Unfreeze u a) b = bindE (release_withdraw_hold u a b) (\<lambda>b. Inr (None, b))"
| "exec_op (Refund_withdrawal u a key reason req) b =
     bindE (refund_withdrawal u a key reason req b) (\<lambda>(r, b). Inr (Some r, b))"
| "exec_op (Reserve_purchase u oid hid a key) b =
     bindE (reserve_purchase_hold u oid hid a key b) (\<lambda>(r, b). Inr (Some r, b))"
| "exec_op (Reserve_request u req a key) b =
     bindE (reserve_buy_request_hold u req a key b) (\<lambda>(r, b). Inr (Some r, b))"
| "exec_op (Release_request u req a key) b =
     bindE (release_buy_request_hold u req a key b) (\<lambda>(r, b). Inr (Some r, b))"
| "exec_op (Settle u v oid hid total_amount s c key) b =
     bindE (settle_sale u v oid hid total_amount s c key b) (\<lambda>(r, b). Inr (Some r, b))"
| "exec_op (Refund_hold u oid hid a key) b =
     bindE (refund_hold u oid hid a key b) (\<lambda>(r, b). Inr (Some r, b))"
| "exec_op (Adjust u a reason actor key) b =
     bindE (adjust_wallet u a reason actor key b) (\<lambda>((r, _), b). Inr (Some r, b))"

text \<open>The one obligation of the callers: the parts of a settlement are not negative.\<close>

fun op_wf :: "ledger_op \<Rightarrow> bool" where
  "op_wf (Settle u v oid hid total_amount s c key) \<longleftrightarrow> 0 \<le> s \<and> 0 \<le> c"
| "op_wf _ \<longleftrightarrow> True"

section \<open>Wallets that exist\<close>

definition has_wallet :: "id \<Rightarrow> id \<Rightarrow> bank \<Rightarrow> bool" where
  "has_wallet u w b \<longleftrightarrow> find_wallet b u = Some w \<and> (\<forall>t. row (accounts b) (w, t) \<noteq> None)"

definition ids_grow :: "bank \<Rightarrow> bank \<Rightarrow> bool" where
  "ids_grow b b' \<longleftrightarrow> uuid_seq b' = uuid_seq b \<and> uuid_next b \<le> uuid_next b' \<and> entries b' = entries b
     \<and> (\<exists>ws. wallets b' = wallets b @ ws) \<and> (\<exists>us. users b' = users b @ us)
     \<and> (\<forall>k. row (accounts b) k \<noteq> None \<longrightarrow> row (accounts b') k \<noteq> None)"

lemma ids_grow_refl [simp]: "ids_grow b b"
  by (simp add: ids_grow_def)

lemma ids_grow_trans: "ids_grow b b' \<Longrightarrow> ids_grow b' b'' \<Longrightarrow> ids_grow b b''"
  by (auto simp: ids_grow_def)

lemma ids_ok_grow: "ids_ok b \<Longrightarrow> ids_grow b b' \<Longrightarrow> ids_ok b'"
  unfolding ids_ok_def ids_grow_def by (auto 4 4 dest: less_le_trans)

lemma find_append_Some: "find P xs = Some x \<Longrightarrow> find P (xs @ ys) = Some x"
  by (induction xs) auto

lemma find_append_None: "find P xs = None \<Longrightarrow> find P (xs @ ys) = find P ys"
  by (induction xs) auto

lemma row_ensure_account:
  "row (accounts (ensure_account w t b)) k =
     (if row (accounts b) k = None \<and> k = (w, t) then Some 0 else row (accounts b) k)"
  by (auto simp: ensure_account_def row_insert_row split: option.splits)

lemma ensure_account_frame [simp]:
  "users (ensure_account w t b) = users b" "wallets (ensure_account w t b) = wallets b"
  "entries (ensure_account w t b) = entries b" "uuid_seq (ensure_account w t b) = uuid_seq b"
  "uuid_next (ensure_account w t b) = uuid_next b"
  by (auto simp: ensure_account_def split: option.splits)

lemma ensure_wallet_accounts_grow: "ids_grow b (ensure_wallet_accounts w b)"
  by (auto simp: ids_grow_def ensure_wallet_accounts_def row_ensure_account)

lemma ensure_wallet_accounts_exist: "row (accounts (ensure_wallet_accounts w b)) (w, t) \<noteq> None"
  by (cases t) (auto simp: ensure_wallet_accounts_def row_ensure_account)

lemma ensure_wallet_accounts_wallet [simp]:
  "find_wallet (ensure_wallet_accounts w b) u = find_wallet b u"
  by (simp add: find_wallet_def ensure_wallet_accounts_def)

lemma ensure_user_wallet_exists:
  assumes "ensure_user_wallet u b = (w, b')"
  shows "has_wallet u w b' \<and> ids_grow b b'"
proof (cases "find_wallet b u")
  case None
  obtain i b1 where d: "draw b = (i, b1)" by (cases "draw b")
  define b2 where "b2 = b1\<lparr>wallets := insert_row i u (wallets b1)\<rparr>"
  have w: "w = i" "b' = ensure_wallet_accounts i b2"
    using assms None d by (auto simp: ensure_user_wallet_def b2_def)
  have "find (\<lambda>(w, u'). u' = u) (wallets b) = None" using None by (simp add: find_wallet_def)
  then have "find_wallet b2 u = Some i"
    using d by (auto simp: b2_def find_wallet_def insert_row_def find_append_None draw_def)
  moreover have "ids_grow b b2" using d by (auto simp: b2_def ids_grow_def draw_def insert_row_def)
  ultimately show ?thesis
    using w ensure_wallet_accounts_exist ensure_wallet_accounts_grow
    by (simp add: has_wallet_def) (blast intro: ids_grow_trans)
next
  case (Some v)
  then show ?thesis using assms ensure_wallet_accounts_exist ensure_wallet_accounts_grow
    by (auto simp: ensure_user_wallet_def has_wallet_def)
qed

lemma ensure_account_id: "row (accounts b) (w, t) \<noteq> None \<Longrightarrow> ensure_account w t b = b"
  by (auto simp: ensure_account_def)

lemma has_wallet_ensure: "has_wallet u w b \<Longrightarrow> ensure_user_wallet u b = (w, b)"
  by (simp add: has_wallet_def ensure_user_wallet_def ensure_wallet_accounts_def ensure_account_id)

lemma has_wallet_grow: "has_wallet u w b \<Longrightarrow> ids_grow b b' \<Longrightarrow> has_wallet u w b'"
  by (auto simp: has_wallet_def ids_grow_def find_wallet_def find_append_Some)

lemma has_wallet_frame: "has_wallet u w b \<Longrightarrow> same_frame b b' \<Longrightarrow> has_wallet u w b'"
  by (auto simp: has_wallet_def same_frame_def find_wallet_def)

lemma has_wallet_set_entries [simp]: "has_wallet u w (b\<lparr>entries := es\<rparr>) = has_wallet u w b"
  by (simp add: has_wallet_def find_wallet_def)

text \<open>The platform's wallet, found through the user with the platform's Steam id.\<close>

definition has_platform_wallet :: "id \<Rightarrow> bank \<Rightarrow> bool" where
  "has_platform_wallet w b \<longleftrightarrow>
     (\<exists>p usr. find (\<lambda>(i, u). u_steam_id u = Some platform_steam_id) (users b) = Some (p, usr)
        \<and> has_wallet p w b)"

lemma ensure_platform_wallet_exists:
  assumes "ensure_platform_wallet b = (w, b')"
  shows "has_platform_wallet w b' \<and> ids_grow b b'"
proof (cases "find (\<lambda>(i, u). u_steam_id u = Some platform_steam_id) (users b)")
  case None
  obtain i b1 where d: "draw b = (i, b1)" by (cases "draw b")
  define usr where "usr = \<lparr>u_steam_id = Some platform_steam_id, u_username = ''platform_system'',
                      u_role = UR_ADMIN, u_status = US_ACTIVE, u_trade_url = None\<rparr>"
  define b2 where "b2 = b1\<lparr>users := insert_row i usr (users b1)\<rparr>"
  have e: "ensure_user_wallet i b2 = (w, b')"
    using assms None d by (simp add: ensure_platform_wallet_def b2_def usr_def)
  have "ids_grow b b2" using d by (auto simp: b2_def ids_grow_def draw_def insert_row_def)
  moreover have "find (\<lambda>(i, u). u_steam_id u = Some platform_steam_id) (users b2) = Some (i, usr)"
    using None d by (auto simp: b2_def usr_def insert_row_def find_append_None draw_def)
  moreover have "has_wallet i w b'" and grow: "ids_grow b2 b'"
    using ensure_user_wallet_exists [OF e] by auto
  moreover obtain us where "users b' = users b2 @ us" using grow by (auto simp: ids_grow_def)
  ultimately show ?thesis using find_append_Some [of _ "users b2" "(i, usr)" us] ids_grow_trans
    unfolding has_platform_wallet_def by metis
next
  case (Some p)
  obtain i usr where p: "p = (i, usr)" by (cases p)
  with Some assms have e: "ensure_user_wallet i b = (w, b')"
    by (simp add: ensure_platform_wallet_def)
  have "has_wallet i w b'" and grow: "ids_grow b b'" using ensure_user_wallet_exists [OF e] by auto
  moreover obtain us where "users b' = users b @ us" using grow by (auto simp: ids_grow_def)
  ultimately show ?thesis using find_append_Some [of _ "users b" "(i, usr)" us] Some p
    unfolding has_platform_wallet_def by metis
qed

lemma has_platform_ensure: "has_platform_wallet w b \<Longrightarrow> ensure_platform_wallet b = (w, b)"
  by (auto simp: has_platform_wallet_def ensure_platform_wallet_def has_wallet_ensure)

lemma has_platform_frame: "has_platform_wallet w b \<Longrightarrow> same_frame b b' \<Longrightarrow> has_platform_wallet w b'"
proof -
  assume "has_platform_wallet w b" and f: "same_frame b b'"
  then obtain p usr where "find (\<lambda>(i, u). u_steam_id u = Some platform_steam_id) (users b) = Some (p, usr)"
    "has_wallet p w b" by (auto simp: has_platform_wallet_def)
  moreover have "users b' = users b" using f by (simp add: same_frame_def)
  ultimately show ?thesis using has_wallet_frame [OF _ f] by (auto simp: has_platform_wallet_def)
qed

lemmas wallet_ensured = ensure_user_wallet_exists ensure_platform_wallet_exists

section \<open>Replays\<close>

lemma find_existing_Some:
  "find_existing_operation b w key = Some r \<Longrightarrow> find_existing_operation b w key \<noteq> None"
  by simp

lemma same_group_fresh:
  assumes "ids_ok b" and "e \<in> set (entries b)"
  shows "le_group e \<noteq> Some (uuid_seq b (uuid_next b))"
proof
  assume "le_group e = Some (uuid_seq b (uuid_next b))"
  with assms obtain n where n: "n < uuid_next b" "uuid_seq b (uuid_next b) = uuid_seq b n"
    by (fastforce simp: ids_ok_def)
  have "inj (uuid_seq b)" using assms(1) by (simp add: ids_ok_def)
  then have "uuid_next b = n" using n(2) by (rule injD)
  with n(1) show False by simp
qed

lemma fresh_op_ids: "fresh_op b w key r ds es b' \<Longrightarrow> ids_ok b \<Longrightarrow> ids_ok b'"
proof -
  assume f: "fresh_op b w key r ds es b'" and ok: "ids_ok b"
  have seq: "uuid_seq b' = uuid_seq b" "uuid_next b < uuid_next b'" "entries b' = entries b @ es"
    "\<forall>e \<in> set es. le_group e = Some (uuid_seq b (uuid_next b))"
    using f by (auto simp: fresh_op_def posts_def same_frame_def)
  have sub: "uuid_seq b ` {..<uuid_next b} \<subseteq> uuid_seq b ` {..<uuid_next b'}"
    using seq(2) by (intro image_mono) auto
  have "g \<in> uuid_seq b ` {..<uuid_next b'}" if "e \<in> set (entries b')" "le_group e = Some g" for e g
    using that seq ok sub by (cases "e \<in> set es") (auto simp: ids_ok_def)
  then show "ids_ok b'" using ok seq(1) by (simp add: ids_ok_def)
qed

lemma find_hd: "es \<noteq> [] \<Longrightarrow> P (hd es) \<Longrightarrow> find P es = Some (hd es)"
  by (cases es) auto

lemma fresh_op_found:
  assumes "fresh_op b w key r ds es b'" and "ids_ok b" and "find_existing_operation b w key = None"
  shows "find_existing_operation b' w key = Some r"
proof -
  let ?P = "\<lambda>e. le_wallet e = w \<and> le_key e = key"
  note f = assms(1) [unfolded fresh_op_def posts_def]
  have "find ?P (entries b) = None"
    using assms(3) by (auto simp: find_existing_operation_def split: option.splits)
  then have "find ?P (entries b') = Some (hd es)"
    using f by (simp add: find_append_None find_hd)
  moreover have g: "le_group (hd es) = Some (res_group r)" using f by (cases es) auto
  moreover have "filter (\<lambda>x. le_group x = Some (res_group r)) (entries b') = es"
    using f same_group_fresh [OF assms(2)] by (auto simp: filter_empty_conv filter_id_conv)
  ultimately show ?thesis using f
    by (simp add: find_existing_operation_def)
qed

section \<open>Every call is a coherent posting\<close>

text \<open>The entries of the ledger, read by the journal.\<close>

lemma capture_type: "is_capture e \<Longrightarrow> le_type e = LE_HOLD_RESERVE"
  by (simp add: is_capture_def)

lemma no_capture: "le_type e \<noteq> LE_HOLD_RESERVE \<Longrightarrow> \<not> is_capture e"
  by (auto simp: is_capture_def)

lemmas journal_parts = coherent_def spendable_part_def held_part_def external_part_def no_capture capture_type

definition refines :: "bank \<Rightarrow> bank \<Rightarrow> bool" where
  "refines b b' \<longleftrightarrow> (\<exists>ds es. posts b ds es b' \<and> coherent ds es) \<and> (ids_ok b \<longrightarrow> ids_ok b')"

lemma refinesI: "posts b ds es b' \<Longrightarrow> coherent ds es \<Longrightarrow> (ids_ok b \<Longrightarrow> ids_ok b') \<Longrightarrow> refines b b'"
  by (auto simp: refines_def)

lemma refines_fresh: "fresh_op b w key r ds es b' \<Longrightarrow> coherent ds es \<Longrightarrow> refines b b'"
  by (rule refinesI) (auto dest: fresh_op_posts fresh_op_ids)

lemma refines_refl [simp]: "refines b b"
  by (rule refinesI [of b "[]" "[]"]) auto

lemma coherent_append: "coherent ds es \<Longrightarrow> coherent ds' es' \<Longrightarrow> coherent (ds @ ds') (es @ es')"
  by (auto simp: coherent_def algebra_simps)

lemma refines_trans: "refines b b' \<Longrightarrow> refines b' b'' \<Longrightarrow> refines b b''"
  unfolding refines_def by (meson coherent_append posts_trans)

lemma refines_ensure: "ensure_user_wallet u b = (w, b') \<Longrightarrow> refines b b'"
  by (rule refinesI [OF posts_ensure_user_wallet]) (auto intro: ids_ok_grow dest: ensure_user_wallet_exists)

lemma refines_ensure_platform: "ensure_platform_wallet b = (w, b') \<Longrightarrow> refines b b'"
  by (rule refinesI [OF posts_ensure_platform_wallet]) (auto intro: ids_ok_grow dest: ensure_platform_wallet_exists)

lemma ids_ok_frame: "posts b ds [] b' \<Longrightarrow> same_frame b b' \<Longrightarrow> ids_ok b \<Longrightarrow> ids_ok b'"
  by (rule ids_ok_grow [of b]) (simp_all del: not_None_eq split_paired_All add: ids_grow_def same_frame_def posts_def)

lemma deposit_refines: "deposit u a key meta b = Inr (r, b') \<Longrightarrow> refines b b'"
proof -
  assume e: "deposit u a key meta b = Inr (r, b')"
  obtain w b0 where w: "ensure_user_wallet u b = (w, b0)" by (cases "ensure_user_wallet u b")
  have "refines b0 b'" using e w
    by (rule deposit_cases) (auto intro!: refines_fresh simp: journal_parts)
  with refines_ensure [OF w] show ?thesis by (rule refines_trans)
qed

lemma refund_withdrawal_refines: "refund_withdrawal u a key reason req b = Inr (r, b') \<Longrightarrow> refines b b'"
proof -
  assume e: "refund_withdrawal u a key reason req b = Inr (r, b')"
  obtain w b0 where w: "ensure_user_wallet u b = (w, b0)" by (cases "ensure_user_wallet u b")
  have "refines b0 b'" using e w
    by (rule refund_withdrawal_cases) (auto intro!: refines_fresh simp: journal_parts)
  with refines_ensure [OF w] show ?thesis by (rule refines_trans)
qed

lemma reserve_purchase_refines: "reserve_purchase_hold u oid hid a key b = Inr (r, b') \<Longrightarrow> refines b b'"
proof -
  assume e: "reserve_purchase_hold u oid hid a key b = Inr (r, b')"
  obtain w b0 where w: "ensure_user_wallet u b = (w, b0)" by (cases "ensure_user_wallet u b")
  have "refines b0 b'" using e w
    by (rule reserve_purchase_hold_cases) (auto intro!: refines_fresh simp: journal_parts)
  with refines_ensure [OF w] show ?thesis by (rule refines_trans)
qed

lemma reserve_request_refines: "reserve_buy_request_hold u req a key b = Inr (r, b') \<Longrightarrow> refines b b'"
proof -
  assume e: "reserve_buy_request_hold u req a key b = Inr (r, b')"
  obtain w b0 where w: "ensure_user_wallet u b = (w, b0)" by (cases "ensure_user_wallet u b")
  have "refines b0 b'" using e w
    by (rule reserve_buy_request_hold_cases) (auto intro!: refines_fresh simp: journal_parts)
  with refines_ensure [OF w] show ?thesis by (rule refines_trans)
qed

lemma release_request_refines: "release_buy_request_hold u req a key b = Inr (r, b') \<Longrightarrow> refines b b'"
proof -
  assume e: "release_buy_request_hold u req a key b = Inr (r, b')"
  obtain w b0 where w: "ensure_user_wallet u b = (w, b0)" by (cases "ensure_user_wallet u b")
  have "refines b0 b'" using e w
    by (rule release_buy_request_hold_cases) (auto intro!: refines_fresh simp: journal_parts)
  with refines_ensure [OF w] show ?thesis by (rule refines_trans)
qed

lemma refund_hold_refines: "refund_hold u oid hid a key b = Inr (r, b') \<Longrightarrow> refines b b'"
proof -
  assume e: "refund_hold u oid hid a key b = Inr (r, b')"
  obtain w b0 where w: "ensure_user_wallet u b = (w, b0)" by (cases "ensure_user_wallet u b")
  have "refines b0 b'" using e w
    by (rule refund_hold_cases) (auto intro!: refines_fresh simp: journal_parts)
  with refines_ensure [OF w] show ?thesis by (rule refines_trans)
qed

lemma withdraw_refines: "withdraw u a fee net key req frozen meta b = Inr (r, b') \<Longrightarrow> refines b b'"
proof -
  assume e: "withdraw u a fee net key req frozen meta b = Inr (r, b')"
  obtain w b0 where w: "ensure_user_wallet u b = (w, b0)" by (cases "ensure_user_wallet u b")
  have "refines b0 b'" using e w
    by (rule withdraw_cases) (auto intro!: refines_fresh simp: journal_parts)
  with refines_ensure [OF w] show ?thesis by (rule refines_trans)
qed

lemma adjust_refines: "adjust_wallet u a reason actor key b = Inr ((r, p), b') \<Longrightarrow> refines b b'"
proof -
  assume e: "adjust_wallet u a reason actor key b = Inr ((r, p), b')"
  obtain w b0 where w: "ensure_user_wallet u b = (w, b0)" by (cases "ensure_user_wallet u b")
  have "refines b0 b'" using e w
    by (rule adjust_wallet_cases) (auto intro!: refines_fresh simp: journal_parts)
  with refines_ensure [OF w] show ?thesis by (rule refines_trans)
qed

lemma settle_refines:
  assumes "settle_sale u v oid hid total_amount s c key b = Inr (r, b')" and "0 \<le> s" and "0 \<le> c"
  shows "refines b b'"
proof -
  obtain bw b0 where w0: "ensure_user_wallet u b = (bw, b0)" by (cases "ensure_user_wallet u b")
  obtain sw b1 where w1: "ensure_user_wallet v b0 = (sw, b1)" by (cases "ensure_user_wallet v b0")
  obtain pw b2 where w2: "ensure_platform_wallet b1 = (pw, b2)" by (cases "ensure_platform_wallet b1")
  have "refines b2 b'" using assms(1) w0 w1 w2 assms(2,3)
    by (rule settle_sale_cases) (auto intro!: refines_fresh simp: journal_parts)
  with refines_ensure [OF w0] refines_ensure [OF w1] refines_ensure_platform [OF w2] show ?thesis
    by (blast intro: refines_trans)
qed

lemma freeze_refines: "freeze_for_withdrawal u a b = Inr b' \<Longrightarrow> refines b b'"
proof -
  assume e: "freeze_for_withdrawal u a b = Inr b'"
  obtain w b0 where w: "ensure_user_wallet u b = (w, b0)" by (cases "ensure_user_wallet u b")
  note f = freeze_for_withdrawal_posts [OF e w]
  have "refines b0 b'"
    by (rule refinesI [OF f(1)]) (simp add: coherent_def, rule ids_ok_frame [OF f(1,2)])
  with refines_ensure [OF w] show ?thesis by (rule refines_trans)
qed

lemma unfreeze_refines: "release_withdraw_hold u a b = Inr b' \<Longrightarrow> refines b b'"
proof -
  assume e: "release_withdraw_hold u a b = Inr b'"
  obtain w b0 where w: "ensure_user_wallet u b = (w, b0)" by (cases "ensure_user_wallet u b")
  note f = release_withdraw_hold_posts [OF e w]
  have "refines b0 b'"
    by (rule refinesI [OF f(1)]) (simp add: coherent_def, rule ids_ok_frame [OF f(1,2)])
  with refines_ensure [OF w] show ?thesis by (rule refines_trans)
qed

lemmas op_refines = deposit_refines refund_withdrawal_refines reserve_purchase_refines reserve_request_refines
  release_request_refines refund_hold_refines withdraw_refines adjust_refines freeze_refines unfreeze_refines

lemma exec_op_refines:
  assumes "exec_op op b = Inr (r, b')" and "op_wf op"
  shows "refines b b'"
  using assms by (cases op) (auto simp: res_simps intro: op_refines settle_refines)

section \<open>Runs of the ledger\<close>

text \<open>One committed call, as a step of the bank; a run; the banks reachable from an empty one.\<close>

inductive ledger_step :: "bank \<Rightarrow> bank \<Rightarrow> bool" where
  call: "exec_op op b = Inr (r, b') \<Longrightarrow> op_wf op \<Longrightarrow> ledger_step b b'"

inductive_cases ledger_stepE: "ledger_step b b'"

definition run_op :: "ledger_op \<Rightarrow> bank \<Rightarrow> bank" where
  "run_op op b = (case exec_op op b of Inl _ \<Rightarrow> b | Inr (_, b') \<Rightarrow> b')"

definition run_ops :: "ledger_op list \<Rightarrow> bank \<Rightarrow> bank" where
  "run_ops ops b = fold run_op ops b"

lemma run_op_steps: "op_wf op \<Longrightarrow> ledger_step\<^sup>*\<^sup>* b (run_op op b)"
  by (auto simp: run_op_def split: sum.splits intro: ledger_step.call)

lemma run_ops_steps: "\<forall>op \<in> set ops. op_wf op \<Longrightarrow> ledger_step\<^sup>*\<^sup>* b (run_ops ops b)"
proof (induction ops arbitrary: b)
  case Nil
  then show ?case by (simp add: run_ops_def)
next
  case (Cons op ops)
  from Cons.prems have "ledger_step\<^sup>*\<^sup>* b (run_op op b)" by (simp add: run_op_steps)
  also have "ledger_step\<^sup>*\<^sup>* (run_op op b) (run_ops ops (run_op op b))" using Cons by simp
  finally show ?case by (simp add: run_ops_def)
qed

definition ledger_ok :: "bank \<Rightarrow> bool" where
  "ledger_ok b \<longleftrightarrow> accounts_ok b \<and> journal_agrees b \<and> total_money b = journal_external b \<and> ids_ok b"

lemma refines_ledger_ok: "refines b b' \<Longrightarrow> ledger_ok b \<Longrightarrow> ledger_ok b'"
  by (auto simp: refines_def ledger_ok_def dest: posts_accounts_ok posts_journal posts_external)

lemma ledger_step_ok: "ledger_step b b' \<Longrightarrow> ledger_ok b \<Longrightarrow> ledger_ok b'"
  by (auto elim!: ledger_stepE intro: refines_ledger_ok exec_op_refines)

lemma ledger_steps_ok: "ledger_step\<^sup>*\<^sup>* b b' \<Longrightarrow> ledger_ok b \<Longrightarrow> ledger_ok b'"
  by (induction rule: rtranclp_induct) (auto intro: ledger_step_ok)

lemma empty_bank_ok: "inj f \<Longrightarrow> ledger_ok (empty_bank f)"
  by (simp add: ledger_ok_def empty_bank_def accounts_ok_def bal_def journal_agrees_def total_money_def
      journal_spendable_def journal_held_def journal_external_def ids_ok_def)

section \<open>Repeated calls\<close>

lemma replay_frame: "fresh_op b0 w key r ds es b' \<Longrightarrow> same_frame b0 b'"
  by (simp add: fresh_op_def)

text \<open>What a call that returned a result leaves behind: its wallet and its recorded result.\<close>

definition recorded :: "id \<Rightarrow> string \<Rightarrow> op_result \<Rightarrow> bank \<Rightarrow> bool" where
  "recorded u key r b \<longleftrightarrow> (\<exists>w. has_wallet u w b \<and> find_existing_operation b w key = Some r)"

lemma recordedE:
  assumes "recorded u key r b"
  obtains w where "ensure_user_wallet u b = (w, b)" "find_existing_operation b w key = Some r"
  using assms by (auto simp: recorded_def dest: has_wallet_ensure)

lemma recorded_replay: "has_wallet u w b \<Longrightarrow> find_existing_operation b w key = Some r \<Longrightarrow> recorded u key r b"
  by (auto simp: recorded_def)

lemma recorded_fresh:
  assumes "fresh_op b0 w key r ds es b'" and "ids_ok b0" and "find_existing_operation b0 w key = None"
    and "has_wallet u w b0"
  shows "recorded u key r b'"
  using fresh_op_found [OF assms(1-3)] has_wallet_frame [OF assms(4) replay_frame [OF assms(1)]]
  by (rule recorded_replay [rotated])

lemma ensure_ids: "ensure_user_wallet u b = (w, b') \<Longrightarrow> ids_ok b \<Longrightarrow> ids_ok b'"
  by (auto intro: ids_ok_grow dest: ensure_user_wallet_exists)

lemma recorded_call:
  assumes "ensure_user_wallet u b = (w, b0)" and "ids_ok b"
    and "find_existing_operation b0 w key = Some r \<and> b' = b0
       \<or> find_existing_operation b0 w key = None \<and> (\<exists>ds es. fresh_op b0 w key r ds es b')"
  shows "recorded u key r b'"
proof -
  have hw: "has_wallet u w b0" using ensure_user_wallet_exists [OF assms(1)] by simp
  show ?thesis using assms(3) recorded_replay [OF hw] recorded_fresh [OF _ ensure_ids [OF assms(1,2)] _ hw]
    by blast
qed

lemma deposit_recorded:
  assumes "deposit u a key meta b = Inr (r, b')" and "ids_ok b"
  shows "recorded u key r b' \<and> 0 < a"
proof -
  obtain w b0 where w: "ensure_user_wallet u b = (w, b0)" by (cases "ensure_user_wallet u b")
  show ?thesis using assms(1) w
    by (rule deposit_cases) (use assms in \<open>auto intro: recorded_call [OF w] simp: deposit_def split: if_splits\<close>)
qed

lemma refund_withdrawal_recorded:
  assumes "refund_withdrawal u a key reason req b = Inr (r, b')" and "ids_ok b"
  shows "recorded u key r b' \<and> 0 < a"
proof -
  obtain w b0 where w: "ensure_user_wallet u b = (w, b0)" by (cases "ensure_user_wallet u b")
  show ?thesis using assms(1) w
    by (rule refund_withdrawal_cases)
       (use assms in \<open>auto intro: recorded_call [OF w] simp: refund_withdrawal_def split: if_splits\<close>)
qed

lemma reserve_purchase_recorded:
  assumes "reserve_purchase_hold u oid hid a key b = Inr (r, b')" and "ids_ok b"
  shows "recorded u key r b' \<and> 0 < a"
proof -
  obtain w b0 where w: "ensure_user_wallet u b = (w, b0)" by (cases "ensure_user_wallet u b")
  show ?thesis using assms(1) w
    by (rule reserve_purchase_hold_cases)
       (use assms in \<open>auto intro: recorded_call [OF w] simp: reserve_purchase_hold_def split: if_splits\<close>)
qed

lemma reserve_request_recorded:
  assumes "reserve_buy_request_hold u req a key b = Inr (r, b')" and "ids_ok b"
  shows "recorded u key r b' \<and> 0 < a"
proof -
  obtain w b0 where w: "ensure_user_wallet u b = (w, b0)" by (cases "ensure_user_wallet u b")
  show ?thesis using assms(1) w
    by (rule reserve_buy_request_hold_cases)
       (use assms in \<open>auto intro: recorded_call [OF w] simp: reserve_buy_request_hold_def split: if_splits\<close>)
qed

lemma release_request_recorded:
  assumes "release_buy_request_hold u req a key b = Inr (r, b')" and "ids_ok b"
  shows "recorded u key r b' \<and> 0 < a"
proof -
  obtain w b0 where w: "ensure_user_wallet u b = (w, b0)" by (cases "ensure_user_wallet u b")
  show ?thesis using assms(1) w
    by (rule release_buy_request_hold_cases)
       (use assms in \<open>auto intro: recorded_call [OF w] simp: release_buy_request_hold_def split: if_splits\<close>)
qed

lemma refund_hold_recorded:
  assumes "refund_hold u oid hid a key b = Inr (r, b')" and "ids_ok b"
  shows "recorded u key r b' \<and> 0 < a"
proof -
  obtain w b0 where w: "ensure_user_wallet u b = (w, b0)" by (cases "ensure_user_wallet u b")
  show ?thesis using assms(1) w
    by (rule refund_hold_cases)
       (use assms in \<open>auto intro: recorded_call [OF w] simp: refund_hold_def split: if_splits\<close>)
qed

lemma withdraw_recorded:
  assumes "withdraw u a fee net key req frozen meta b = Inr (r, b')" and "ids_ok b"
  shows "recorded u key r b' \<and> 0 < a \<and> 0 \<le> fee \<and> 0 < net \<and> net + fee = a"
proof -
  obtain w b0 where w: "ensure_user_wallet u b = (w, b0)" by (cases "ensure_user_wallet u b")
  have "recorded u key r b'" using assms(1) w
    by (rule withdraw_cases) (use assms in \<open>auto intro: recorded_call [OF w]\<close>)
  then show ?thesis using assms(1) by (auto simp: withdraw_def split: if_splits)
qed

lemma adjust_recorded:
  assumes "adjust_wallet u a reason actor key b = Inr ((r, p), b')" and "ids_ok b"
  shows "recorded u key r b' \<and> a \<noteq> 0"
proof -
  obtain w b0 where w: "ensure_user_wallet u b = (w, b0)" by (cases "ensure_user_wallet u b")
  have "recorded u key r b'" using assms(1) w
    by (rule adjust_wallet_cases) (use assms in \<open>auto intro: recorded_call [OF w]\<close>)
  then show ?thesis using assms(1) by (auto simp: adjust_wallet_def split: if_splits)
qed

lemma settle_again:
  assumes "settle_sale u v oid hid total_amount s c key b = Inr (r, b')" and "ids_ok b" "0 \<le> s" "0 \<le> c"
  shows "settle_sale u v oid hid total_amount s c key b' = Inr (r, b')"
proof -
  obtain bw b0 where w0: "ensure_user_wallet u b = (bw, b0)" by (cases "ensure_user_wallet u b")
  obtain sw b1 where w1: "ensure_user_wallet v b0 = (sw, b1)" by (cases "ensure_user_wallet v b0")
  obtain pw b2 where w2: "ensure_platform_wallet b1 = (pw, b2)" by (cases "ensure_platform_wallet b1")
  note ex = ensure_user_wallet_exists [OF w0] ensure_user_wallet_exists [OF w1]
    ensure_platform_wallet_exists [OF w2]
  have wallets2: "has_wallet u bw b2" "has_wallet v sw b2" "has_platform_wallet pw b2" "ids_ok b2"
    using ex assms(2) by (auto intro: has_wallet_grow ids_grow_trans ids_ok_grow)
  have "same_frame b2 b' \<and> find_existing_operation b' bw key = Some r" using assms(1) w0 w1 w2 assms(3,4)
    by (rule settle_sale_cases) (auto dest: replay_frame fresh_op_found [OF _ wallets2(4)])
  then have "has_wallet u bw b'" "has_wallet v sw b'" "has_platform_wallet pw b'"
    "find_existing_operation b' bw key = Some r"
    using wallets2 by (auto intro: has_wallet_frame has_platform_frame)
  moreover have "s + c = total_amount" using assms(1) by (auto simp: settle_sale_def split: if_splits)
  ultimately show ?thesis by (simp add: settle_sale_def has_wallet_ensure has_platform_ensure)
qed

lemma deposit_again: "recorded u key r b \<Longrightarrow> 0 < a \<Longrightarrow> deposit u a key meta b = Inr (r, b)"
  by (auto elim!: recordedE simp: deposit_def apply_deposit_def)

lemma withdraw_again:
  "recorded u key r b \<Longrightarrow> 0 \<le> fee \<Longrightarrow> 0 < net \<Longrightarrow> net + fee = a \<Longrightarrow>
     withdraw u a fee net key req frozen meta b = Inr (r, b)"
  by (auto elim!: recordedE simp: withdraw_def)

lemma refund_withdrawal_again: "recorded u key r b \<Longrightarrow> 0 < a \<Longrightarrow> refund_withdrawal u a key reason req b = Inr (r, b)"
  by (auto elim!: recordedE simp: refund_withdrawal_def)

lemma reserve_purchase_again: "recorded u key r b \<Longrightarrow> 0 < a \<Longrightarrow> reserve_purchase_hold u oid hid a key b = Inr (r, b)"
  by (auto elim!: recordedE simp: reserve_purchase_hold_def)

lemma reserve_request_again: "recorded u key r b \<Longrightarrow> 0 < a \<Longrightarrow> reserve_buy_request_hold u req a key b = Inr (r, b)"
  by (auto elim!: recordedE simp: reserve_buy_request_hold_def)

lemma release_request_again: "recorded u key r b \<Longrightarrow> 0 < a \<Longrightarrow> release_buy_request_hold u req a key b = Inr (r, b)"
  by (auto elim!: recordedE simp: release_buy_request_hold_def)

lemma refund_hold_again: "recorded u key r b \<Longrightarrow> 0 < a \<Longrightarrow> refund_hold u oid hid a key b = Inr (r, b)"
  by (auto elim!: recordedE simp: refund_hold_def)

lemma adjust_again:
  "recorded u key r b \<Longrightarrow> a \<noteq> 0 \<Longrightarrow> adjust_wallet u a reason actor key b = Inr ((r, None), b)"
  by (auto elim!: recordedE simp: adjust_wallet_def)

lemma exec_op_again:
  assumes "exec_op op b = Inr (Some r, b')" and "ids_ok b" and "op_wf op"
  shows "exec_op op b' = Inr (Some r, b')"
proof (cases op)
  case (Deposit u a key meta)
  with assms show ?thesis
    by (auto simp: bindE_eq_Inr dest!: deposit_recorded intro: deposit_again)
next
  case (Withdraw u a fee net key req frozen meta)
  with assms show ?thesis
    by (auto simp: bindE_eq_Inr dest!: withdraw_recorded intro: withdraw_again)
next
  case (Refund_withdrawal u a key reason req)
  with assms show ?thesis
    by (auto simp: bindE_eq_Inr dest!: refund_withdrawal_recorded intro: refund_withdrawal_again)
next
  case (Reserve_purchase u oid hid a key)
  with assms show ?thesis
    by (auto simp: bindE_eq_Inr dest!: reserve_purchase_recorded intro: reserve_purchase_again)
next
  case (Reserve_request u req a key)
  with assms show ?thesis
    by (auto simp: bindE_eq_Inr dest!: reserve_request_recorded intro: reserve_request_again)
next
  case (Release_request u req a key)
  with assms show ?thesis
    by (auto simp: bindE_eq_Inr dest!: release_request_recorded intro: release_request_again)
next
  case (Settle u v oid hid total_amount s c key)
  with assms show ?thesis by (auto simp: bindE_eq_Inr intro: settle_again)
next
  case (Refund_hold u oid hid a key)
  with assms show ?thesis
    by (auto simp: bindE_eq_Inr dest!: refund_hold_recorded intro: refund_hold_again)
next
  case (Adjust u a reason actor key)
  with assms show ?thesis
    by (fastforce simp: bindE_eq_Inr adjust_again dest!: adjust_recorded)
qed (use assms in \<open>auto simp: bindE_eq_Inr\<close>)

section \<open>Progress of the hold operations\<close>

text \<open>An operation on a wallet that exists and a key it never recorded succeeds exactly when the
  account covers the amount.\<close>

definition unused :: "bank \<Rightarrow> id \<Rightarrow> string \<Rightarrow> bool" where
  "unused b w key \<longleftrightarrow> (\<forall>e \<in> set (entries b). \<not> (le_wallet e = w \<and> le_key e = key))"

lemma unused_find: "unused b w key \<Longrightarrow> find_existing_operation b w key = None"
  by (auto simp: unused_def find_existing_operation_def find_None_iff split: option.splits)

lemma has_wallet_row: "has_wallet u w b \<Longrightarrow> row (accounts b) (w, t) = Some (bal b w t)"
  by (auto simp: has_wallet_def bal_def split: option.splits)

lemma draw_accounts: "draw b = (g, b') \<Longrightarrow> accounts b' = accounts b \<and> entries b' = entries b"
  by (auto simp: draw_def)

lemma create_entry_total: "unused b w key \<Longrightarrow>
    \<exists>e. create_entry w oid hid ty amount key g meta b = Inr (e, (snd (draw b))\<lparr>entries := entries b @ [e]\<rparr>)
      \<and> le_wallet e = w \<and> le_key e = key"
  by (auto simp: create_entry_def unused_def Let_def split_beta draw_def)

lemma create_entry_unused_Inr: "unused b w key \<Longrightarrow> \<exists>e b'. create_entry w oid hid ty amount key g meta b = Inr (e, b')"
  by (auto simp: create_entry_def unused_def Let_def split_beta)

lemma reserve_purchase_total:
  assumes "has_wallet u w b" and "unused b w key" and "0 < a" and "a \<le> bal b w AT_AVAILABLE"
  shows "\<exists>r b'. reserve_purchase_hold u oid hid a key b = Inr (r, b')"
proof -
  obtain g b1 where d: "draw b = (g, b1)" by (cases "draw b")
  note rows = has_wallet_row [OF assms(1)] draw_accounts [OF d]
  have b1: "row (accounts b1) (w, t) = Some (bal b w t)" for t using rows by simp
  define b2 where "b2 = set_balance w AT_AVAILABLE (bal b w AT_AVAILABLE - a) b1"
  define b3 where "b3 = set_balance w AT_HOLD (bal b w AT_HOLD + a) b2"
  have steps: "debit_account w AT_AVAILABLE a b1 = Inr b2" "credit_account w AT_HOLD a b2 = Inr b3"
    using b1 assms(4) by (auto simp: debit_account_eq_Inr credit_account_eq_Inr b2_def b3_def row_set_balance)
  have "unused b3 w key" using assms(2) rows by (simp add: unused_def b3_def b2_def)
  from create_entry_unused_Inr [OF this]
  obtain e b4 where "create_entry w (Some oid) (Some hid) LE_HOLD_RESERVE (- a) key g
      (JObj [(''direction'', JStr ''available_to_hold''), (''amountMinor'', JStr (show_int a))]) b3 = Inr (e, b4)"
    by blast
  then show ?thesis
    using assms(3,4) unused_find [OF assms(2)] has_wallet_row [OF assms(1)] d steps
    by (simp add: reserve_purchase_hold_def has_wallet_ensure [OF assms(1)] get_account_balance_def)
qed

lemma refund_hold_total:
  assumes "has_wallet u w b" and "unused b w key" and "0 < a" and "a \<le> bal b w AT_HOLD"
  shows "\<exists>r b'. refund_hold u oid hid a key b = Inr (r, b')"
proof -
  obtain g b1 where d: "draw b = (g, b1)" by (cases "draw b")
  note rows = has_wallet_row [OF assms(1)] draw_accounts [OF d]
  have b1: "row (accounts b1) (w, t) = Some (bal b w t)" for t using rows by simp
  define b2 where "b2 = set_balance w AT_HOLD (bal b w AT_HOLD - a) b1"
  define b3 where "b3 = set_balance w AT_AVAILABLE (bal b w AT_AVAILABLE + a) b2"
  have steps: "debit_account w AT_HOLD a b1 = Inr b2" "credit_account w AT_AVAILABLE a b2 = Inr b3"
    using b1 assms(4) by (auto simp: debit_account_eq_Inr credit_account_eq_Inr b2_def b3_def row_set_balance)
  have "unused b3 w key" using assms(2) rows by (simp add: unused_def b3_def b2_def)
  from create_entry_unused_Inr [OF this]
  obtain e b4 where "create_entry w (Some oid) (Some hid) LE_REFUND a key g
      (JObj [(''direction'', JStr ''hold_to_available'')]) b3 = Inr (e, b4)"
    by blast
  then show ?thesis
    using assms(3,4) unused_find [OF assms(2)] has_wallet_row [OF assms(1)] d steps
    by (simp add: refund_hold_def has_wallet_ensure [OF assms(1)] get_account_balance_def)
qed

lemma unused_later:
  assumes "create_entry w' oid hid ty amount key' g meta b = Inr (e, b')" and "unused b w key"
    and "key \<noteq> key'"
  shows "unused b' w key"
  using assms by (auto simp: create_entry_eq_Inr unused_def)

lemma settle_entries_total:
  assumes "unused b bw key" "unused b sw (key @ '':seller'')" "unused b pw (key @ '':platform'')"
  obtains be b1 se b2 pe b3 where
    "create_entry bw oid hid LE_HOLD_RESERVE (- total_amount) key g
      (JObj [(''action'', JStr ''settlement_capture'')]) b = Inr (be, b1)"
    "create_entry sw oid hid LE_SETTLEMENT_SELLER s (key @ '':seller'') g JNull b1 = Inr (se, b2)"
    "create_entry pw oid hid LE_SETTLEMENT_PLATFORM_COMMISSION c (key @ '':platform'') g JNull b2
       = Inr (pe, b3)"
proof -
  obtain be b1 where 1: "create_entry bw oid hid LE_HOLD_RESERVE (- total_amount) key g
      (JObj [(''action'', JStr ''settlement_capture'')]) b = Inr (be, b1)"
    using create_entry_unused_Inr [OF assms(1)] by blast
  have u1: "unused b1 sw (key @ '':seller'')" "unused b1 pw (key @ '':platform'')"
    by (auto intro!: unused_later [OF 1] assms)
  obtain se b2 where 2: "create_entry sw oid hid LE_SETTLEMENT_SELLER s (key @ '':seller'') g JNull b1 = Inr (se, b2)"
    using create_entry_unused_Inr [OF u1(1)] by blast
  have "unused b2 pw (key @ '':platform'')"
    by (auto intro!: unused_later [OF 2] u1)
  then obtain pe b3 where 3: "create_entry pw oid hid LE_SETTLEMENT_PLATFORM_COMMISSION c
      (key @ '':platform'') g JNull b2 = Inr (pe, b3)"
    using create_entry_unused_Inr by blast
  from 1 2 3 show ?thesis by (rule that)
qed

lemma settle_sale_total:
  assumes "has_wallet u bw b" "has_wallet v sw b" "has_platform_wallet pw b"
    and "unused b bw key" "unused b sw (key @ '':seller'')" "unused b pw (key @ '':platform'')"
    and "s + c = total_amount" "total_amount \<le> bal b bw AT_HOLD"
  shows "\<exists>r b'. settle_sale u v oid hid total_amount s c key b = Inr (r, b')"
proof -
  obtain g b1 where d: "draw b = (g, b1)" by (cases "draw b")
  have pw: "row (accounts b) (pw, t) \<noteq> None" for t
    using assms(3) by (auto simp: has_platform_wallet_def has_wallet_def)
  have rows: "row (accounts b1) (bw, AT_HOLD) = Some (bal b bw AT_HOLD)"
    "row (accounts b1) (sw, AT_AVAILABLE) \<noteq> None" "row (accounts b1) (pw, AT_AVAILABLE) \<noteq> None"
    using has_wallet_row [OF assms(1)] has_wallet_row [OF assms(2)] pw draw_accounts [OF d] by auto
  obtain b2 where s2: "debit_account bw AT_HOLD total_amount b1 = Inr b2"
    using rows(1) assms(8) by (simp add: debit_account_eq_Inr)
  note f2 = same_frame_debit [OF s2, unfolded same_frame_def]
  obtain b3 where s3: "credit_account sw AT_AVAILABLE s b2 = Inr b3"
    using rows(2) f2 by (fastforce simp: credit_account_eq_Inr)
  note f3 = same_frame_credit [OF s3, unfolded same_frame_def]
  obtain b4 where s4: "credit_account pw AT_AVAILABLE c b3 = Inr b4"
    using rows(3) f2 f3 by (fastforce simp: credit_account_eq_Inr)
  have "entries b4 = entries b" using draw_accounts [OF d] s2 s3 s4
    by (auto simp: debit_account_eq_Inr credit_account_eq_Inr)
  then have "unused b4 bw key" "unused b4 sw (key @ '':seller'')" "unused b4 pw (key @ '':platform'')"
    using assms(4-6) by (simp_all add: unused_def)
  then obtain be b5 se b6 pe b7 where
    "create_entry bw (Some oid) (Some hid) LE_HOLD_RESERVE (- total_amount) key g
      (JObj [(''action'', JStr ''settlement_capture'')]) b4 = Inr (be, b5)"
    "create_entry sw (Some oid) (Some hid) LE_SETTLEMENT_SELLER s (key @ '':seller'') g JNull b5 = Inr (se, b6)"
    "create_entry pw (Some oid) (Some hid) LE_SETTLEMENT_PLATFORM_COMMISSION c (key @ '':platform'') g JNull b6
       = Inr (pe, b7)"
    by (rule settle_entries_total)
  then show ?thesis
    using assms(7,8) unused_find [OF assms(4)] has_wallet_row [OF assms(1)] d s2 s3 s4
    by (simp add: settle_sale_def has_wallet_ensure [OF assms(1)] has_wallet_ensure [OF assms(2)]
        has_platform_ensure [OF assms(3)] get_account_balance_def)
qed

text \<open>Settlements and refunds move money; they neither make nor lose any.\<close>

lemma settle_sale_total_money:
  assumes "settle_sale u v oid hid total_amount s c key b = Inr (r, b')" and "0 \<le> s" "0 \<le> c" and "accounts_ok b"
  shows "total_money b' = total_money b \<and> accounts_ok b'"
proof -
  obtain bw b0 where w0: "ensure_user_wallet u b = (bw, b0)" by (cases "ensure_user_wallet u b")
  obtain sw b1 where w1: "ensure_user_wallet v b0 = (sw, b1)" by (cases "ensure_user_wallet v b0")
  obtain pw b2 where w2: "ensure_platform_wallet b1 = (pw, b2)" by (cases "ensure_platform_wallet b1")
  have p: "posts b [] [] b2"
    by (rule posts_trans_silent [OF posts_ensure_user_wallet [OF w0]])
       (rule posts_trans_silent [OF posts_ensure_user_wallet [OF w1] posts_ensure_platform_wallet [OF w2]])
  have "\<exists>ds es. posts b2 ds es b' \<and> delta_sum ds = 0" using assms(1) w0 w1 w2 assms(2,3)
  proof (cases rule: settle_sale_cases)
    case replayed
    then show ?thesis by (intro exI [of _ "[]"]) auto
  next
    case (posted be se pe)
    from fresh_op_posts [OF posted(4)] posted(3) show ?thesis by force
  qed
  then obtain ds es where "posts b ds es b'" "delta_sum ds = 0" using posts_trans_silent [OF p] by blast
  then show ?thesis using assms(4) posts_total posts_accounts_ok by fastforce
qed

lemma refund_hold_total_money:
  assumes "refund_hold u oid hid a key b = Inr (r, b')" and "accounts_ok b"
  shows "total_money b' = total_money b \<and> accounts_ok b'"
proof -
  obtain w b0 where w: "ensure_user_wallet u b = (w, b0)" by (cases "ensure_user_wallet u b")
  have "\<exists>ds es. posts b0 ds es b' \<and> delta_sum ds = 0" using assms(1) w
  proof (cases rule: refund_hold_cases)
    case replayed
    then show ?thesis by (intro exI [of _ "[]"]) auto
  next
    case (posted e)
    from fresh_op_posts [OF posted(4)] show ?thesis by force
  qed
  then obtain ds es where "posts b ds es b'" "delta_sum ds = 0"
    using posts_trans_silent [OF posts_ensure_user_wallet [OF w]] by blast
  then show ?thesis using assms(2) posts_total posts_accounts_ok by fastforce
qed

section \<open>A concrete bank\<close>

text \<open>A bank reached from the empty one, for the applications of the theorems below.\<close>

definition demo_ops :: "ledger_op list" where
  "demo_ops =
     [Deposit ''buyer'' 1000 ''d1'' None, Reserve_purchase ''buyer'' ''o1'' ''h1'' 300 ''p1'',
      Settle ''buyer'' ''seller'' ''o1'' ''h1'' 300 285 15 ''s1'',
      Reserve_purchase ''buyer'' ''o2'' ''h2'' 200 ''p2'']"

definition demo_bank :: bank where
  "demo_bank = run_ops demo_ops (empty_bank demo_ids)"

text \<open>The same bank written out; it is evaluated once, here.\<close>

definition demo_entries :: "ledger_entry list" where
  "demo_entries =
     [\<lparr>le_id = ''xx'', le_wallet = [], le_order = None, le_hold = None, le_type = LE_DEPOSIT, le_amount = 1000,
       le_key = ''d1'', le_group = Some ''x'', le_meta = JObj [(''source'', JStr ''mock'')]\<rparr>,
      \<lparr>le_id = ''xxxx'', le_wallet = [], le_order = Some ''o1'', le_hold = Some ''h1'', le_type = LE_HOLD_RESERVE,
       le_amount = - 300, le_key = ''p1'', le_group = Some ''xxx'',
       le_meta = JObj [(''direction'', JStr ''available_to_hold''), (''amountMinor'', JStr ''300'')]\<rparr>,
      \<lparr>le_id = ''xxxxxxxxx'', le_wallet = [], le_order = Some ''o1'', le_hold = Some ''h1'', le_type = LE_HOLD_RESERVE,
       le_amount = - 300, le_key = ''s1'', le_group = Some ''xxxxxxxx'',
       le_meta = JObj [(''action'', JStr ''settlement_capture'')]\<rparr>,
      \<lparr>le_id = ''xxxxxxxxxx'', le_wallet = ''xxxxx'', le_order = Some ''o1'', le_hold = Some ''h1'',
       le_type = LE_SETTLEMENT_SELLER, le_amount = 285, le_key = ''s1:seller'', le_group = Some ''xxxxxxxx'', le_meta = JNull\<rparr>,
      \<lparr>le_id = ''xxxxxxxxxxx'', le_wallet = ''xxxxxxx'', le_order = Some ''o1'', le_hold = Some ''h1'',
       le_type = LE_SETTLEMENT_PLATFORM_COMMISSION, le_amount = 15, le_key = ''s1:platform'',
       le_group = Some ''xxxxxxxx'', le_meta = JNull\<rparr>,
      \<lparr>le_id = ''xxxxxxxxxxxxx'', le_wallet = [], le_order = Some ''o2'', le_hold = Some ''h2'', le_type = LE_HOLD_RESERVE,
       le_amount = - 200, le_key = ''p2'', le_group = Some ''xxxxxxxxxxxx'',
       le_meta = JObj [(''direction'', JStr ''available_to_hold''), (''amountMinor'', JStr ''200'')]\<rparr>]"

lemma demo_bank_fields:
  "let b = demo_bank in
     users b = [(''xxxxxx'', \<lparr>u_steam_id = Some ''steam_platform_system'', u_username = ''platform_system'',
        u_role = UR_ADMIN, u_status = US_ACTIVE, u_trade_url = None\<rparr>)]
     \<and> wallets b = [([], ''buyer''), (''xxxxx'', ''seller''), (''xxxxxxx'', ''xxxxxx'')]
     \<and> accounts b = [(([], AT_AVAILABLE), 500), (([], AT_HOLD), 200), (([], AT_FROZEN), 0),
        ((''xxxxx'', AT_AVAILABLE), 285), ((''xxxxx'', AT_HOLD), 0), ((''xxxxx'', AT_FROZEN), 0),
        ((''xxxxxxx'', AT_AVAILABLE), 15), ((''xxxxxxx'', AT_HOLD), 0), ((''xxxxxxx'', AT_FROZEN), 0)]
     \<and> entries b = demo_entries \<and> uuid_next b = 14"
  by code_simp

lemma demo_bank_ids: "uuid_seq demo_bank n = demo_ids n"
  by code_simp

lemma demo_bank_literal [code]:
  "demo_bank = \<lparr>users = [(''xxxxxx'', \<lparr>u_steam_id = Some ''steam_platform_system'', u_username = ''platform_system'',
        u_role = UR_ADMIN, u_status = US_ACTIVE, u_trade_url = None\<rparr>)],
     wallets = [([], ''buyer''), (''xxxxx'', ''seller''), (''xxxxxxx'', ''xxxxxx'')],
     accounts = [(([], AT_AVAILABLE), 500), (([], AT_HOLD), 200), (([], AT_FROZEN), 0),
        ((''xxxxx'', AT_AVAILABLE), 285), ((''xxxxx'', AT_HOLD), 0), ((''xxxxx'', AT_FROZEN), 0),
        ((''xxxxxxx'', AT_AVAILABLE), 15), ((''xxxxxxx'', AT_HOLD), 0), ((''xxxxxxx'', AT_FROZEN), 0)],
     entries = demo_entries, uuid_seq = demo_ids, uuid_next = 14\<rparr>"
proof -
  have "uuid_seq demo_bank = demo_ids" by (rule ext) (rule demo_bank_ids)
  with demo_bank_fields [unfolded Let_def] show ?thesis by (intro bank.equality) simp_all
qed

definition demo_wallet :: "id \<Rightarrow> id" where
  "demo_wallet u = fst (ensure_user_wallet u demo_bank)"

lemma demo_ops_wf: "\<forall>op \<in> set demo_ops. op_wf op"
  by (simp add: demo_ops_def)

lemma demo_bank_ok: "ledger_ok demo_bank"
  unfolding demo_bank_def
  by (rule ledger_steps_ok [OF run_ops_steps [OF demo_ops_wf] empty_bank_ok [OF demo_ids_inj]])

lemma demo_wallets:
  "find_wallet demo_bank ''buyer'' = Some []" "find_wallet demo_bank ''seller'' = Some ''xxxxx''"
  "row (accounts demo_bank) ([], AT_AVAILABLE) = Some 500" "row (accounts demo_bank) ([], AT_HOLD) = Some 200"
  "row (accounts demo_bank) ([], AT_FROZEN) = Some 0"
  "row (accounts demo_bank) (''xxxxx'', AT_AVAILABLE) = Some 285"
  "row (accounts demo_bank) (''xxxxx'', AT_HOLD) = Some 0" "row (accounts demo_bank) (''xxxxx'', AT_FROZEN) = Some 0"
  "row (accounts demo_bank) (''xxxxxxx'', AT_AVAILABLE) = Some 15"
  "row (accounts demo_bank) (''xxxxxxx'', AT_HOLD) = Some 0"
  "row (accounts demo_bank) (''xxxxxxx'', AT_FROZEN) = Some 0"
  by code_simp+

lemma demo_platform: "find_wallet demo_bank ''xxxxxx'' = Some ''xxxxxxx''"
  "map_option fst (find (\<lambda>(i, u). u_steam_id u = Some platform_steam_id) (users demo_bank)) = Some ''xxxxxx''"
  by code_simp+

lemma all_account_types: "(\<forall>t. P t) \<longleftrightarrow> P AT_AVAILABLE \<and> P AT_HOLD \<and> P AT_FROZEN"
  by (metis account_type.exhaust)

lemma demo_has_wallet: "has_wallet ''buyer'' [] demo_bank" "has_wallet ''seller'' ''xxxxx'' demo_bank"
  "has_wallet ''xxxxxx'' ''xxxxxxx'' demo_bank"
  by (simp_all add: has_wallet_def all_account_types demo_wallets demo_platform)

lemma demo_has_platform: "has_platform_wallet ''xxxxxxx'' demo_bank"
  using demo_platform(2) demo_has_wallet(3) by (auto simp: has_platform_wallet_def)

section \<open>The theorems of the ledger\<close>



text \<open>
  C31: Every ledger operation that carries an idempotency key is idempotent: when a call has
  returned a result, the same call made again returns the same result (the recorded group and
  its entries) and changes nothing in the bank, whatever balances are left.
\<close>

theorem ledger_op_idempotent:
  assumes "exec_op op b = Inr (Some r, b')" and "ids_ok b" and "op_wf op"
  shows "exec_op op b' = Inr (Some r, b')"
  using assms by (rule exec_op_again)

theorem ledger_op_idempotent_witness:
  "\<exists>r b'. exec_op (Settle ''buyer'' ''seller'' ''o2'' ''h2'' 200 190 10 ''s2'') demo_bank = Inr (Some r, b')
     \<and> exec_op (Settle ''buyer'' ''seller'' ''o2'' ''h2'' 200 190 10 ''s2'') b' = Inr (Some r, b')"
proof -
  have "case exec_op (Settle ''buyer'' ''seller'' ''o2'' ''h2'' 200 190 10 ''s2'') demo_bank of
      Inr (Some r, b') \<Rightarrow> True | _ \<Rightarrow> False"
    by code_simp
  then obtain r b' where
    "exec_op (Settle ''buyer'' ''seller'' ''o2'' ''h2'' 200 190 10 ''s2'') demo_bank = Inr (Some r, b')"
    by (auto split: sum.splits option.splits)
  with ledger_op_idempotent [OF this] demo_bank_ok show ?thesis by (auto simp: ledger_ok_def)
qed

text \<open>
  C16: A settlement under an unused key succeeds exactly when its parts add up to the total and
  the buyer's hold account covers it; it then takes the total from the buyer's hold, gives the
  seller and the platform their parts as available money, and touches no other account.
\<close>

theorem settle_sale_exact:
  assumes "has_wallet u bw b" "has_wallet v sw b" "has_platform_wallet pw b"
    and "unused b bw key" "unused b sw (key @ '':seller'')" "unused b pw (key @ '':platform'')"
    and "0 \<le> s" "0 \<le> c"
  shows "(case settle_sale u v oid hid total_amount s c key b of
      Inl _ \<Rightarrow> s + c \<noteq> total_amount \<or> bal b bw AT_HOLD < total_amount
    | Inr (r, b') \<Rightarrow> s + c = total_amount \<and> total_amount \<le> bal b bw AT_HOLD
        \<and> (\<forall>w t. bal b' w t = bal b w t
             - (if (w, t) = (bw, AT_HOLD) then total_amount else 0)
             + (if (w, t) = (sw, AT_AVAILABLE) then s else 0)
             + (if (w, t) = (pw, AT_AVAILABLE) then c else 0)))"
proof (cases "settle_sale u v oid hid total_amount s c key b")
  case (Inl e)
  then show ?thesis using settle_sale_total [OF assms(1-6), where s = s and c = c and total_amount = total_amount
      and oid = oid and hid = hid]
    by (cases "s + c = total_amount \<and> total_amount \<le> bal b bw AT_HOLD") auto
next
  case (Inr x)
  obtain r b' where x: "x = (r, b')" by (cases x)
  note e = has_wallet_ensure [OF assms(1)] has_wallet_ensure [OF assms(2)] has_platform_ensure [OF assms(3)]
  from Inr x have s: "settle_sale u v oid hid total_amount s c key b = Inr (r, b')" by simp
  show ?thesis using s e assms(7,8)
    by (rule settle_sale_cases)
       (use s unused_find [OF assms(4)] in \<open>auto dest!: fresh_op_posts simp: posts_bal\<close>)
qed

theorem settle_sale_exact_witness:
  "case settle_sale ''buyer'' ''seller'' ''o2'' ''h2'' 200 190 10 ''s2'' demo_bank of
     Inl _ \<Rightarrow> False
   | Inr (r, b') \<Rightarrow> bal b' [] AT_HOLD = 0 \<and> bal b' ''xxxxx'' AT_AVAILABLE = 475
       \<and> bal b' ''xxxxxxx'' AT_AVAILABLE = 25"
proof -
  have "unused demo_bank [] ''s2''" "unused demo_bank ''xxxxx'' (''s2'' @ '':seller'')"
    "unused demo_bank ''xxxxxxx'' (''s2'' @ '':platform'')"
    by code_simp+
  from settle_sale_exact [OF demo_has_wallet(1,2) demo_has_platform this, where s = 190 and c = 10 and oid = "''o2''"
      and hid = "''h2''" and total_amount = 200]
  show ?thesis by (auto simp: bal_row demo_wallets split: sum.splits)
qed



end
