(* ===== verification/HeldMoney.thy ===== *)
theory HeldMoney
  imports LedgerRuns
begin

text \<open>
  The money of a user, seen per user and not per wallet: \<open>accountb t u b\<close> is the balance of the
  account \<open>t\<close> of the user's wallet, and 0 before the wallet exists; \<open>heldb\<close> is its hold account. A bank whose identifiers are
  drawn once (\<open>bank_wf\<close>) gives every wallet one owner, so an operation on one user's wallet
  leaves what the others hold alone. These lemmas give the effect of every ledger operation on
  \<open>heldb\<close>; the wallets an operation creates on the way start empty.
\<close>

definition accountb :: "account_type \<Rightarrow> id \<Rightarrow> bank \<Rightarrow> int" where
  "accountb t u b = (case find_wallet b u of None \<Rightarrow> 0 | Some w \<Rightarrow> bal b w t)"

abbreviation heldb :: "id \<Rightarrow> bank \<Rightarrow> int" where
  "heldb \<equiv> accountb AT_HOLD"

definition seen_ids :: "bank \<Rightarrow> id set" where
  "seen_ids b = {w. row (wallets b) w \<noteq> None \<or> (\<exists>t. row (accounts b) (w, t) \<noteq> None)}"

definition bank_wf :: "bank \<Rightarrow> bool" where
  "bank_wf b \<longleftrightarrow> inj (uuid_seq b) \<and> distinct (keys (wallets b)) \<and> distinct (List.map snd (wallets b))
     \<and> (\<forall>n. uuid_next b \<le> n \<longrightarrow> uuid_seq b n \<notin> seen_ids b)"

definition bank_grows :: "bank \<Rightarrow> bank \<Rightarrow> bool" where
  "bank_grows b b' \<longleftrightarrow> uuid_seq b' = uuid_seq b \<and> uuid_next b \<le> uuid_next b'
     \<and> (\<forall>u w. has_wallet u w b \<longrightarrow> has_wallet u w b')"

lemma bank_grows_refl [simp]: "bank_grows b b"
  by (simp add: bank_grows_def)

lemma bank_grows_trans: "bank_grows b b' \<Longrightarrow> bank_grows b' b'' \<Longrightarrow> bank_grows b b''"
  by (auto simp: bank_grows_def)

lemma bank_grows_ids: "ids_grow b b' \<Longrightarrow> bank_grows b b'"
  using has_wallet_grow by (auto simp: bank_grows_def ids_grow_def)

lemma bank_grows_frame: "same_frame b b' \<Longrightarrow> bank_grows b b'"
  using has_wallet_frame by (auto simp: bank_grows_def same_frame_def)

section \<open>One owner per wallet\<close>

lemma find_wallet_mem: "find_wallet b u = Some w \<Longrightarrow> (w, u) \<in> set (wallets b)"
  by (auto simp: find_wallet_def find_Some_iff in_set_conv_nth split_beta) (metis prod.collapse fst_conv snd_conv)

lemma find_wallet_inj:
  assumes "distinct (keys (wallets b))" "find_wallet b u = Some w" "find_wallet b v = Some w"
  shows "u = v"
  using assms find_wallet_mem eq_key_imp_eq_value by metis

lemma accountb_has_wallet: "has_wallet u w b \<Longrightarrow> accountb t u b = bal b w t"
  by (simp add: has_wallet_def accountb_def)

lemma seen_ids_frame: "same_frame b b' \<Longrightarrow> seen_ids b' = seen_ids b"
  by (simp add: same_frame_def seen_ids_def)

lemma bank_wf_frame: "bank_wf b \<Longrightarrow> same_frame b b' \<Longrightarrow> bank_wf b'"
  using seen_ids_frame [of b b'] by (auto simp: bank_wf_def same_frame_def)

lemma bank_wf_unseen: "bank_wf b \<Longrightarrow> uuid_next b \<le> n \<Longrightarrow> bal b (uuid_seq b n) t = 0"
  by (fastforce simp: bank_wf_def seen_ids_def bal_def split: option.splits)

section \<open>Creating wallets\<close>

lemma seen_ids_ensure_account: "seen_ids (ensure_account w t b) \<subseteq> insert w (seen_ids b)"
  by (auto simp: seen_ids_def row_ensure_account split: if_splits)

lemma seen_ids_ensure_accounts: "seen_ids (ensure_wallet_accounts w b) \<subseteq> insert w (seen_ids b)"
  unfolding ensure_wallet_accounts_def using seen_ids_ensure_account by blast

lemma bank_wf_more_accounts:
  "bank_wf b \<Longrightarrow> \<forall>n. uuid_next b \<le> n \<longrightarrow> w \<noteq> uuid_seq b n \<Longrightarrow> bank_wf (ensure_wallet_accounts w b)"
  using seen_ids_ensure_accounts [of w b]
  by (auto simp: bank_wf_def ensure_wallet_accounts_def)

lemma ensure_user_wallet_held:
  assumes "ensure_user_wallet v b = (w, b')" and "bank_wf b"
  shows "bank_wf b' \<and> bank_grows b b' \<and> accountb t u b' = accountb t u b"
proof (cases "find_wallet b v")
  case (Some x)
  then have x: "w = x" "b' = ensure_wallet_accounts x b" using assms(1) by (auto simp: ensure_user_wallet_def)
  have "x \<in> seen_ids b"
    using find_wallet_mem [OF Some] weak_map_of_SomeI [of x v "wallets b"] by (auto simp: seen_ids_def)
  then have "\<forall>n. uuid_next b \<le> n \<longrightarrow> x \<noteq> uuid_seq b n" using assms(2) by (auto simp: bank_wf_def)
  from bank_wf_more_accounts [OF assms(2) this] have "bank_wf b'" using x(2) by simp
  moreover have "accountb t u b' = accountb t u b"
    using posts_bal [OF posts_ensure_wallet_accounts [of b x]] x by (simp add: accountb_def split: option.splits)
  moreover have "bank_grows b b'" using ensure_wallet_accounts_grow x by (auto intro: bank_grows_ids)
  ultimately show ?thesis by blast
next
  case None
  obtain i b1 where d: "draw b = (i, b1)" by (cases "draw b")
  have i: "i = uuid_seq b (uuid_next b)" "b1 = b\<lparr>uuid_next := Suc (uuid_next b)\<rparr>" using d by (auto simp: draw_def)
  define b2 where "b2 = b1\<lparr>wallets := insert_row i v (wallets b1)\<rparr>"
  have w: "w = i" "b' = ensure_wallet_accounts i b2"
    using assms(1) None d by (auto simp: ensure_user_wallet_def b2_def)
  have new: "i \<notin> seen_ids b" using assms(2) i(1) by (simp add: bank_wf_def)
  have later: "uuid_seq b n \<noteq> i" if "uuid_next b2 \<le> n" for n
    using assms(2) that i injD [of "uuid_seq b" n "uuid_next b"] by (auto simp: bank_wf_def b2_def)
  have seen2: "seen_ids b2 = insert i (seen_ids b)"
    using i(2) row_insert_row [of "wallets b" i v] new by (auto simp: b2_def seen_ids_def)
  have "distinct (keys (wallets b2))"
    using assms(2) new i(2) by (simp add: bank_wf_def b2_def seen_ids_def row_None_iff)
  moreover have "v \<notin> snd ` set (wallets b)"
    using None by (auto simp: find_wallet_def find_None_iff split_beta)
  then have "distinct (List.map snd (wallets b2))"
    using assms(2) i(2) by (auto simp: bank_wf_def b2_def insert_row_def)
  moreover have "uuid_seq b2 n \<notin> seen_ids b2" if "uuid_next b2 \<le> n" for n
    using assms(2) that later [OF that] i(2) seen2 by (simp add: bank_wf_def b2_def)
  ultimately have "bank_wf b2" using assms(2) i(2) by (simp add: bank_wf_def b2_def)
  moreover have "uuid_seq b2 = uuid_seq b" using i(2) by (simp add: b2_def)
  then have "\<forall>n. uuid_next b2 \<le> n \<longrightarrow> i \<noteq> uuid_seq b2 n" using later by metis
  ultimately have wf: "bank_wf b'" unfolding w(2) by (rule bank_wf_more_accounts)
  have bal: "bal b' x y = bal b x y" for x y
    using posts_bal [OF posts_ensure_wallet_accounts [of b2 i]] w(2) i(2) by (simp add: b2_def bal_def)
  have "find (\<lambda>(w, u'). u' = v) (wallets b) = None" using None by (simp add: find_wallet_def)
  then have fw: "find_wallet b' u = (if u = v then Some i else find_wallet b u)"
    using w(2) i(2)
    by (cases "find (\<lambda>(w, u'). u' = u) (wallets b)")
       (auto simp: b2_def find_wallet_def insert_row_def find_append_None find_append_Some ensure_wallet_accounts_def)
  have "bal b i t = 0" using bank_wf_unseen [OF assms(2), of "uuid_next b"] i(1) by simp
  then have "accountb t u b' = accountb t u b" using fw bal None by (auto simp: accountb_def split: option.splits)
  moreover have "bank_grows b b'"
    using ensure_user_wallet_exists [OF assms(1)] by (auto intro: bank_grows_ids)
  ultimately show ?thesis using wf by blast
qed

lemma ensure_platform_wallet_held:
  assumes "ensure_platform_wallet b = (w, b')" and "bank_wf b"
  shows "bank_wf b' \<and> bank_grows b b' \<and> accountb t u b' = accountb t u b"
proof (cases "find (\<lambda>(i, u). u_steam_id u = Some platform_steam_id) (users b)")
  case None
  obtain i b1 where d: "draw b = (i, b1)" by (cases "draw b")
  define usr where "usr = \<lparr>u_steam_id = Some platform_steam_id, u_username = ''platform_system'',
                      u_role = UR_ADMIN, u_status = US_ACTIVE, u_trade_url = None\<rparr>"
  define b2 where "b2 = b1\<lparr>users := insert_row i usr (users b1)\<rparr>"
  have e: "ensure_user_wallet i b2 = (w, b')"
    using assms None d by (simp add: ensure_platform_wallet_def b2_def usr_def)
  have "bank_wf b2" using assms(2) d by (auto simp: b2_def bank_wf_def draw_def seen_ids_def)
  note held = ensure_user_wallet_held [OF e this]
  have "bal b2 = bal b" "find_wallet b2 = find_wallet b"
    using d by (auto simp: b2_def draw_def find_wallet_def bal_def fun_eq_iff)
  then have "accountb t u b2 = accountb t u b" by (simp add: accountb_def split: option.splits)
  moreover have "bank_grows b b'"
    using ensure_platform_wallet_exists [OF assms(1)] by (auto intro: bank_grows_ids)
  ultimately show ?thesis using held by simp
next
  case (Some p)
  with assms show ?thesis
    by (cases p) (simp add: ensure_platform_wallet_def ensure_user_wallet_held)
qed

lemma ensure_entries: "ensure_user_wallet v b = (w, b') \<Longrightarrow> entries b' = entries b"
  using ensure_user_wallet_exists by (auto simp: ids_grow_def)

section \<open>Postings\<close>

lemma accountb_posts:
  assumes "posts b ds es b'" and "same_frame b b'"
  shows "accountb t u b' = accountb t u b + (case find_wallet b u of None \<Rightarrow> 0 | Some w \<Rightarrow> delta_at w t ds)"
proof -
  have "find_wallet b' u = find_wallet b u" using assms(2) by (simp add: same_frame_def find_wallet_def)
  then show ?thesis using posts_bal [OF assms(1)] by (simp add: accountb_def split: option.splits)
qed

text \<open>A posting that moves one account of one user's wallet only.\<close>

lemma accountb_posting:
  assumes f: "posts b ds es b'" "same_frame b b'" and "bank_wf b" and "has_wallet v w b"
    and "\<forall>w'. delta_at w' t ds = (if w' = w then a else 0)"
  shows "bank_wf b' \<and> bank_grows b b' \<and> accountb t u b' = accountb t u b + (if u = v then a else 0)"
proof -
  have v: "find_wallet b v = Some w" using assms(4) by (simp add: has_wallet_def)
  have "accountb t u b' = accountb t u b + (if u = v then a else 0)"
  proof (cases "find_wallet b u")
    case None
    with v have "u \<noteq> v" by auto
    with None show ?thesis using accountb_posts [OF f] by simp
  next
    case (Some x)
    then have "x = w \<longleftrightarrow> u = v"
      using find_wallet_inj [of b u w v] v assms(3) by (auto simp: bank_wf_def)
    with Some show ?thesis using accountb_posts [OF f] assms(5) by simp
  qed
  then show ?thesis using bank_wf_frame [OF assms(3) f(2)] bank_grows_frame [OF f(2)] by blast
qed

lemma accountb_fresh_op:
  assumes "fresh_op b x key r ds es b'" and "bank_wf b" and "has_wallet v w b"
    and "\<forall>w'. delta_at w' t ds = (if w' = w then a else 0)"
  shows "bank_wf b' \<and> bank_grows b b' \<and> accountb t u b' = accountb t u b + (if u = v then a else 0)"
proof -
  have "posts b ds es b'" "same_frame b b'" using assms(1) by (auto simp: fresh_op_def)
  from accountb_posting [OF this assms(2-4)] show ?thesis .
qed

lemma refund_held:
  assumes "refund_hold v oid hid a key b = Inr (r, b')" and "bank_wf b" and "has_wallet v w b" and "unused b w key"
  shows "bank_wf b' \<and> bank_grows b b' \<and> heldb u b' = heldb u b - (if u = v then a else 0)"
proof (cases rule: refund_hold_cases [OF assms(1) has_wallet_ensure [OF assms(3)]])
  case 1
  then show ?thesis using unused_find [OF assms(4)] by simp
next
  case (2 e)
  show ?thesis using accountb_fresh_op [OF 2(4) assms(2,3), of AT_HOLD "- a" u] by (cases "u = v") auto
qed

lemma reserve_purchase_held:
  assumes "reserve_purchase_hold v oid hid a key b = Inr (r, b')" and "bank_wf b" and "has_wallet v w b"
    and "unused b w key"
  shows "0 < a \<and> bank_wf b' \<and> bank_grows b b' \<and> heldb u b' = heldb u b + (if u = v then a else 0)"
proof (cases rule: reserve_purchase_hold_cases [OF assms(1) has_wallet_ensure [OF assms(3)]])
  case 1
  then show ?thesis using unused_find [OF assms(4)] by simp
next
  case (2 e)
  show ?thesis using accountb_fresh_op [OF 2(4) assms(2,3), of AT_HOLD a u] 2(2) by (simp cong: if_cong)
qed

lemma reserve_request_held:
  assumes "reserve_buy_request_hold v req a key b = Inr (r, b')" and "bank_wf b" and "has_wallet v w b"
    and "unused b w key"
  shows "bank_wf b' \<and> bank_grows b b' \<and> heldb u b' = heldb u b + (if u = v then a else 0)"
proof (cases rule: reserve_buy_request_hold_cases [OF assms(1) has_wallet_ensure [OF assms(3)]])
  case 1
  then show ?thesis using unused_find [OF assms(4)] by simp
next
  case (2 e)
  show ?thesis using accountb_fresh_op [OF 2(4) assms(2,3), of AT_HOLD a u] by (simp cong: if_cong)
qed

lemma release_request_held:
  assumes "release_buy_request_hold v req a key b = Inr (r, b')" and "bank_wf b" and "has_wallet v w b"
    and "unused b w key"
  shows "bank_wf b' \<and> bank_grows b b' \<and> heldb u b' = heldb u b - (if u = v then a else 0)"
proof (cases rule: release_buy_request_hold_cases [OF assms(1) has_wallet_ensure [OF assms(3)]])
  case 1
  then show ?thesis using unused_find [OF assms(4)] by simp
next
  case (2 e)
  show ?thesis using accountb_fresh_op [OF 2(4) assms(2,3), of AT_HOLD "- a" u] by (cases "u = v") auto
qed

lemma settle_held:
  assumes "settle_sale v s oid hid a x c key b = Inr (r, b')" and "bank_wf b" and "has_wallet v w b"
    and "unused b w key" and "0 \<le> x" "0 \<le> c"
  shows "bank_wf b' \<and> bank_grows b b' \<and> heldb u b' = heldb u b - (if u = v then a else 0)"
proof -
  obtain sw b1 where e1: "ensure_user_wallet s b = (sw, b1)" by (cases "ensure_user_wallet s b")
  obtain pw b2 where e2: "ensure_platform_wallet b1 = (pw, b2)" by (cases "ensure_platform_wallet b1")
  note h1 = ensure_user_wallet_held [OF e1 assms(2), of AT_HOLD u]
  note h2 = ensure_platform_wallet_held [OF e2, of AT_HOLD u]
  have ext: "bank_wf b2" "bank_grows b b2" "heldb u b2 = heldb u b"
    using h1 h2 bank_grows_trans by auto
  have "entries b2 = entries b"
    using ensure_entries [OF e1] ensure_platform_wallet_exists [OF e2] by (simp add: ids_grow_def)
  then have un: "find_existing_operation b2 w key = None"
    using assms(4) unused_find [of b2 w key] by (simp add: unused_def)
  have w2: "has_wallet v w b2" using ext(2) assms(3) by (simp add: bank_grows_def)
  show ?thesis
  proof (cases rule: settle_sale_cases [OF assms(1) has_wallet_ensure [OF assms(3)] e1 e2 assms(5,6)])
    case 1
    then show ?thesis using un by simp
  next
    case (2 be se pe)
    show ?thesis using accountb_fresh_op [OF 2(4) ext(1) w2, of AT_HOLD "- a" u] ext bank_grows_trans [OF ext(2), of b']
      by (cases "u = v") auto
  qed
qed

text \<open>The operations that move other accounts leave this one.\<close>

lemma held_quiet:
  assumes "ensure_user_wallet v b = (w, b0)" and "bank_wf b"
    and "posts b0 ds es b' \<and> same_frame b0 b' \<or> b' = b0" and "\<forall>w'. delta_at w' t ds = 0"
  shows "bank_wf b' \<and> bank_grows b b' \<and> accountb t u b' = accountb t u b"
proof -
  note h = ensure_user_wallet_held [OF assms(1,2), of t u]
  have "bank_wf b' \<and> bank_grows b0 b' \<and> accountb t u b' = accountb t u b0"
    using assms(3)
  proof
    assume f: "posts b0 ds es b' \<and> same_frame b0 b'"
    then show ?thesis using accountb_posts [of b0 ds es b' t u] assms(4) h bank_wf_frame bank_grows_frame
      by (auto split: option.splits)
  qed (use h in auto)
  then show ?thesis using h bank_grows_trans by auto
qed

end
