(* ===== verification/JsText.thy ===== *)
theory JsText
  imports Prelude
begin

text \<open>
  The string functions of JavaScript the services use, on strings of Latin-1 characters (the
  code units below 256, on which they are exact): white space, \<open>trim\<close>, \<open>toLowerCase\<close>,
  \<open>endsWith\<close>, and the replacements of the slug function.
\<close>

definition is_space :: "char \<Rightarrow> bool" where
  "is_space c \<longleftrightarrow> (let n = of_char c :: nat in 9 \<le> n \<and> n \<le> 13 \<or> n = 32 \<or> n = 160)"

definition js_trim :: "string \<Rightarrow> string" where
  "js_trim s = rev (dropWhile is_space (rev (dropWhile is_space s)))"

definition lower_char :: "char \<Rightarrow> char" where
  "lower_char c = (let n = of_char c :: nat in
     if 65 \<le> n \<and> n \<le> 90 \<or> 192 \<le> n \<and> n \<le> 222 \<and> n \<noteq> 215 then char_of (n + 32) else c)"

definition to_lower :: "string \<Rightarrow> string" where
  "to_lower = List.map lower_char"

definition ends_with :: "string \<Rightarrow> string \<Rightarrow> bool" where
  "ends_with s p = suffix p s"

definition is_lower_alnum :: "char \<Rightarrow> bool" where
  "is_lower_alnum c \<longleftrightarrow> (let n = of_char c :: nat in 97 \<le> n \<and> n \<le> 122 \<or> 48 \<le> n \<and> n \<le> 57)"

definition is_hex :: "char \<Rightarrow> bool" where
  "is_hex c \<longleftrightarrow> (let n = of_char c :: nat in 48 \<le> n \<and> n \<le> 57 \<or> 97 \<le> n \<and> n \<le> 102 \<or> 65 \<le> n \<and> n \<le> 70)"

definition dash :: char where
  "dash = CHR ''-''"

text \<open>\<open>replace(/\s*c\s*/g, r)\<close>: a run of white space is kept unless the mark follows it.\<close>

function replace_spaced :: "char \<Rightarrow> string \<Rightarrow> string \<Rightarrow> string" where
  "replace_spaced c r s =
     (let rest = dropWhile is_space s; spaces = takeWhile is_space s in
      case rest of
        [] \<Rightarrow> spaces
      | x # xs \<Rightarrow>
          if x = c then r @ replace_spaced c r (dropWhile is_space xs)
          else spaces @ x # replace_spaced c r xs)"
  by pat_completeness auto

lemma length_dropWhile_Cons: "dropWhile P s = x # xs \<Longrightarrow> length xs < length s"
  by (metis Suc_le_lessD length_Cons length_dropWhile_le)

termination replace_spaced
  by (relation "measure (\<lambda>(c, r, s). length s)")
     (auto dest!: sym [of "_ # _"] length_dropWhile_Cons intro: le_less_trans [OF length_dropWhile_le])

declare replace_spaced.simps [simp del]

text \<open>\<open>replace(/[^p]+/g, '-')\<close>: each maximal run of other characters becomes one dash.\<close>

fun squeeze :: "(char \<Rightarrow> bool) \<Rightarrow> bool \<Rightarrow> string \<Rightarrow> string" where
  "squeeze p in_run [] = []"
| "squeeze p in_run (c # cs) =
     (if p c then c # squeeze p False cs
      else if in_run then squeeze p True cs else dash # squeeze p True cs)"

definition strip_dashes :: "string \<Rightarrow> string" where
  "strip_dashes s = rev (dropWhile (\<lambda>c. c = dash) (rev (dropWhile (\<lambda>c. c = dash) s)))"

definition strip_end_dashes :: "string \<Rightarrow> string" where
  "strip_end_dashes s = rev (dropWhile (\<lambda>c. c = dash) (rev s))"

lemma dash_code: "of_char dash = (45 :: nat)"
  by (simp add: dash_def of_char_def)

lemma not_space_dash [simp]: "\<not> is_space dash" and not_alnum_dash [simp]: "\<not> is_lower_alnum dash"
  by (simp_all add: is_space_def is_lower_alnum_def dash_code)

lemma dropWhile_stays: "s \<noteq> [] \<Longrightarrow> \<not> P (hd s) \<Longrightarrow> dropWhile P s = s"
  by (cases s) auto

lemma js_trim_clean: "s \<noteq> [] \<Longrightarrow> \<not> is_space (hd s) \<Longrightarrow> \<not> is_space (last s) \<Longrightarrow> js_trim s = s"
  by (simp add: js_trim_def dropWhile_stays hd_rev)

lemma hd_dropWhile_not: "dropWhile P s \<noteq> [] \<Longrightarrow> \<not> P (hd (dropWhile P s))"
  by (rule hd_dropWhile)

lemma js_trim_ends: "js_trim s \<noteq> [] \<Longrightarrow> \<not> is_space (hd (js_trim s)) \<and> \<not> is_space (last (js_trim s))"
proof -
  let ?t = "dropWhile is_space s"
  assume ne: "js_trim s \<noteq> []"
  have t: "?t \<noteq> []"
  proof
    assume e: "?t = []"
    have "js_trim s = []" unfolding js_trim_def e by simp
    with ne show False by simp
  qed
  have d: "dropWhile is_space (rev ?t) \<noteq> []" using ne by (simp add: js_trim_def)
  have l: "\<not> is_space (last (js_trim s))" using hd_dropWhile [OF d] d by (simp add: js_trim_def last_rev)
  obtain z zs where z: "dropWhile is_space (rev ?t) = z # zs" "rev ?t = takeWhile is_space (rev ?t) @ z # zs"
    using d takeWhile_dropWhile_id [of is_space "rev ?t"] by (cases "dropWhile is_space (rev ?t)") auto
  then have "?t = rev (z # zs) @ rev (takeWhile is_space (rev ?t))"
    by (metis rev_append rev_rev_ident)
  then have "hd ?t = hd (rev (z # zs))" by (metis hd_append2 list.simps(3) rev_is_Nil_conv)
  then have "hd (js_trim s) = hd ?t" by (simp add: js_trim_def z(1))
  with hd_dropWhile [OF t] l show ?thesis by simp
qed

lemma js_trim_Nil [simp]: "js_trim [] = []"
  by (simp add: js_trim_def)

lemma js_trim_idem [simp]: "js_trim (js_trim s) = js_trim s"
  using js_trim_ends [of s] js_trim_clean [of "js_trim s"] by (cases "js_trim s = []") (simp_all del: not_Cons_self2)

end
