(* ===== verification/Environment.thy ===== *)
theory Environment
  imports Schema JsText
begin

text \<open>
  What surrounds the backend's handlers: the record \<open>world\<close> holds the environment variables and
  the functions of the platform and of other services that the handlers call. They are
  parameters of the model; nothing is assumed about them except where a lemma says so.

  \<^item> \<open>env\<close>: \<open>process.env\<close>.
  \<^item> \<open>js_number\<close>, \<open>js_bigint\<close>: \<open>Number(s)\<close> when that is finite and a whole number, and
    \<open>BigInt(s)\<close> unless it throws. Fractional settings are not modelled.
  \<^item> \<open>parse_url\<close>: \<open>new URL(s)\<close> unless it throws.
  \<^item> \<open>date_parse\<close>: \<open>Date.parse(s)\<close> in milliseconds, \<open>None\<close> for \<open>NaN\<close>.
  \<^item> \<open>verify_receipt\<close>: the trade provider's optional \<open>verifyTradeReceipt\<close>; it answers or throws.
  \<^item> \<open>fetch_bans\<close>: the response of the Steam ban service to a key and a Steam id, at each attempt,
    or the message of the failed request.
  \<^item> \<open>sha_bucket\<close>: the first 32 bits of the SHA-256 digest of an identifier.
  \<^item> \<open>verify_trade_offer\<close>: the trade provider's \<open>verifyTradeOffer\<close>; it answers or throws, and its
    refusal because of Steam's rate limit is told apart.
  \<^item> \<open>fetch_page\<close>: the page of a Steam inventory after a given asset, for a Steam id and a context:
    the status and the body of the response, or the code and the message of the error thrown.
  \<^item> \<open>random_tenths\<close>: \<open>Math.floor(Math.random() * n / 10)\<close> for a whole number \<open>n\<close>.

  The rest of the theory is the configuration the handlers read: \<^verbatim>\<open>providers/config.ts\<close>,
  \<^verbatim>\<open>trades/trade-verification.config.ts\<close>, \<^verbatim>\<open>extension/extension-*.config.ts\<close>,
  \<^verbatim>\<open>settlement/settlement.config.ts\<close> and \<^verbatim>\<open>settlement/settlement-hold.config.ts\<close>.
\<close>

text \<open>The response of the Steam ban service: its status and the rows it lists.\<close>

record player_ban =
  pb_vac :: bool
  pb_games :: "int option"

record ban_response =
  bn_ok :: bool
  bn_status :: int
  bn_players :: "player_ban list option"

record url =
  url_origin :: string
  url_hostname :: string
  url_username :: string
  url_password :: string
  url_pathname :: string
  url_params :: "(string \<times> string) list"

text \<open>\<open>TradeVerificationContext\<close> and \<open>TradeVerificationResult\<close>, as far as the handlers read them.\<close>

record receipt_query =
  rq_trade :: string
  rq_offer :: string
  rq_seller :: "string option"
  rq_buyer :: "string option"
  rq_asset :: string
  rq_binding :: "string option"

datatype offer_status =
  Offer_needs_confirmation | Offer_pending | Offer_accepted | Offer_declined | Offer_expired | Offer_unknown

record receipt =
  rc_status :: offer_status
  rc_reason :: "string option"
  rc_receipt_verified :: bool
  rc_offer_accepted :: bool
  rc_binding_verified :: bool
  rc_trade_id :: "string option"
  rc_identity_conflict :: bool
  rc_reversal :: bool
  rc_received_asset :: "string option"
  rc_received_context :: "string option"

text \<open>
  One page of a Steam inventory as received (\<open>SteamInventoryResponse\<close>), without the fields nothing
  reads. A missing field is \<open>None\<close>; a body that is no JSON is the empty object.
\<close>

record raw_asset =
  ra_appid :: int
  ra_context :: string
  ra_asset :: string
  ra_class :: string
  ra_instance :: string

record item_text =
  it_class :: string
  it_instance :: string
  it_market_hash_name :: "string option"
  it_icon :: "string option"
  it_icon_large :: "string option"
  it_tradable :: "int option"
  it_marketable :: "int option"
  it_cache_expiration :: "string option"
  it_tags :: "(string \<times> string option) list option"
  it_lines :: "string option list option"

record item_property =
  ip_id :: int
  ip_float :: "string option"
  ip_int :: "string option"

record inventory_page =
  pg_success :: "int option"
  pg_assets :: "raw_asset list option"
  pg_texts :: "item_text list option"
  pg_properties :: "(string \<times> item_property list option) list option"
  pg_more :: "int option"
  pg_last :: "string option"

text \<open>A read of a trade offer; it may be refused because of the rate limit, or fail.\<close>

record offer_query =
  oq_offer :: string
  oq_binding :: "string option"
  oq_seller :: "string option"
  oq_buyer :: "string option"
  oq_asset :: string

datatype offer_failure = Offer_rate_limited | Offer_request_failed

record world =
  env :: "string \<Rightarrow> string option"
  js_number :: "string \<Rightarrow> int option"
  js_bigint :: "string \<Rightarrow> int option"
  parse_url :: "string \<Rightarrow> url option"
  date_parse :: "string \<Rightarrow> int option"
  verify_receipt :: "(receipt_query \<Rightarrow> unit + receipt) option"
  fetch_bans :: "string \<Rightarrow> string \<Rightarrow> nat \<Rightarrow> string + ban_response"
  sha_bucket :: "id \<Rightarrow> int"
  verify_trade_offer :: "offer_query \<Rightarrow> offer_failure + receipt"
  fetch_page :: "string \<Rightarrow> string \<Rightarrow> string option \<Rightarrow> string option \<times> string + int \<times> inventory_page"
  random_tenths :: "int \<Rightarrow> int"

section \<open>Reading settings\<close>

definition flag :: "world \<Rightarrow> string \<Rightarrow> bool" where
  "flag w name \<longleftrightarrow> env w name = Some ''true''"

definition positive_setting :: "world \<Rightarrow> string \<Rightarrow> int \<Rightarrow> int" where
  "positive_setting w name fallback =
     (case env w name of
        None \<Rightarrow> fallback
      | Some s \<Rightarrow> (case js_number w s of Some n \<Rightarrow> if 0 < n then n else fallback | None \<Rightarrow> fallback))"

lemma positive_setting_pos: "0 < fallback \<Longrightarrow> 0 < positive_setting w name fallback"
  by (simp add: positive_setting_def split: option.splits)

definition is_digit :: "char \<Rightarrow> bool" where
  "is_digit c \<longleftrightarrow> (let n = of_char c :: nat in 48 \<le> n \<and> n \<le> 57)"

definition all_digits :: "string \<Rightarrow> bool" where
  "all_digits s \<longleftrightarrow> s \<noteq> [] \<and> list_all is_digit s"

definition digits_value :: "string \<Rightarrow> int" where
  "digits_value s = foldl (\<lambda>n c. 10 * n + (int (of_char c) - 48)) 0 s"

text \<open>Splitting at commas, trimming and dropping the empty parts: the sets of identifiers.\<close>

fun split_commas :: "string \<Rightarrow> string list" where
  "split_commas [] = [[]]"
| "split_commas (c # cs) =
     (if c = CHR '','' then [] # split_commas cs
      else case split_commas cs of [] \<Rightarrow> [[c]] | p # ps \<Rightarrow> (c # p) # ps)"

definition csv_set :: "string option \<Rightarrow> string list" where
  "csv_set raw =
     (case raw of
        None \<Rightarrow> []
      | Some s \<Rightarrow> filter (\<lambda>p. p \<noteq> []) (List.map js_trim (split_commas s)))"

section \<open>Providers and trade verification\<close>

definition steam_provider :: "world \<Rightarrow> string \<Rightarrow> bool" where
  "steam_provider w name \<longleftrightarrow> env w name = Some ''steam''"

datatype verification_mode = VM_off | VM_shadow | VM_live

definition trade_verification_mode :: "world \<Rightarrow> verification_mode" where
  "trade_verification_mode w =
     (let raw = to_lower (case env w ''TRADE_VERIFICATION_MODE'' of None \<Rightarrow> ''live'' | Some s \<Rightarrow> s) in
      if raw = ''off'' then VM_off else if raw = ''shadow'' then VM_shadow else VM_live)"

definition is_shadow_verification :: "world \<Rightarrow> bool" where
  "is_shadow_verification w \<longleftrightarrow> trade_verification_mode w = VM_shadow"

definition resolve_order_verification_mode :: "world \<Rightarrow> string" where
  "resolve_order_verification_mode w =
     (case trade_verification_mode w of
        VM_off \<Rightarrow> ''OFF'' | VM_shadow \<Rightarrow> ''SHADOW'' | VM_live \<Rightarrow> ''STEAM_POLL'')"

definition assert_shadow_config :: "world \<Rightarrow> unit res" where
  "assert_shadow_config w =
     (if \<not> is_shadow_verification w then Inr ()
      else if flag w ''ENABLE_REAL_SETTLEMENT''
      then Inl (PlainError ''ENABLE_REAL_SETTLEMENT must be false when TRADE_VERIFICATION_MODE=shadow'')
      else Inr ())"

section \<open>The extension\<close>

definition task_pipeline_enabled :: "world \<Rightarrow> bool" where
  "task_pipeline_enabled w = flag w ''ENABLE_EXTENSION_TASK_PIPELINE''"

definition task_max_attempts :: "world \<Rightarrow> int" where
  "task_max_attempts w = positive_setting w ''EXTENSION_TASK_MAX_ATTEMPTS'' 5"

definition task_ttl_ms :: "world \<Rightarrow> int" where
  "task_ttl_ms w = positive_setting w ''EXTENSION_TASK_TTL_MS'' 1800000"

definition ui_trade_flow_enabled :: "world \<Rightarrow> bool" where
  "ui_trade_flow_enabled w = flag w ''ENABLE_EXTENSION_UI_TRADE_FLOW''"

datatype rollout_stage = Stage_off | Stage_internal | Stage_allowlist | Stage_percent

definition rollout_stage :: "world \<Rightarrow> rollout_stage" where
  "rollout_stage w =
     (let raw = to_lower (case env w ''EXTENSION_ROLLOUT_STAGE'' of None \<Rightarrow> ''off'' | Some s \<Rightarrow> s) in
      if raw = ''internal'' then Stage_internal
      else if raw = ''allowlist'' then Stage_allowlist
      else if raw = ''percent'' then Stage_percent
      else Stage_off)"

definition rollout_inflight_grace :: "world \<Rightarrow> bool" where
  "rollout_inflight_grace w \<longleftrightarrow> env w ''EXTENSION_ROLLOUT_INFLIGHT_GRACE'' \<noteq> Some ''false''"

definition rollout_percent :: "world \<Rightarrow> int" where
  "rollout_percent w =
     (case (case env w ''EXTENSION_ROLLOUT_PERCENT'' of None \<Rightarrow> Some 0 | Some s \<Rightarrow> js_number w s) of
        None \<Rightarrow> 0
      | Some n \<Rightarrow> min 100 (max 0 n))"

lemma rollout_percent_bounds: "0 \<le> rollout_percent w \<and> rollout_percent w \<le> 100"
  by (auto simp: rollout_percent_def split: option.splits)

section \<open>Settlement\<close>

definition real_settlement_enabled :: "world \<Rightarrow> bool" where
  "real_settlement_enabled w = flag w ''ENABLE_REAL_SETTLEMENT''"

definition settlement_open_rollout :: "world \<Rightarrow> bool" where
  "settlement_open_rollout w \<longleftrightarrow> env w ''SETTLEMENT_ROLLOUT_MODE'' = Some ''open''"

definition proof_window_settlement :: "world \<Rightarrow> bool" where
  "proof_window_settlement w \<longleftrightarrow> env w ''SETTLEMENT_RELEASE_POLICY'' = Some ''proof_window''"

definition explicit_budget :: "string option \<Rightarrow> int" where
  "explicit_budget raw =
     (case raw of Some s \<Rightarrow> if all_digits s then digits_value s else 0 | None \<Rightarrow> 0)"

definition auto_settlement_max_order :: "world \<Rightarrow> int" where
  "auto_settlement_max_order w = explicit_budget (env w ''AUTO_SETTLEMENT_MAX_ORDER_MINOR'')"

definition auto_settlement_max_exposure :: "world \<Rightarrow> int" where
  "auto_settlement_max_exposure w = explicit_budget (env w ''AUTO_SETTLEMENT_MAX_EXPOSURE_MINOR'')"

definition env_allowlist_steam_ids :: "world \<Rightarrow> string list" where
  "env_allowlist_steam_ids w = csv_set (env w ''STEAM_SETTLEMENT_ALLOWLIST_STEAM_IDS'')"

definition parse_limit_minor :: "world \<Rightarrow> string option \<Rightarrow> int \<Rightarrow> int" where
  "parse_limit_minor w raw fallback =
     (case raw of
        None \<Rightarrow> fallback
      | Some s \<Rightarrow>
          if s = [] then fallback
          else case js_bigint w s of
                 None \<Rightarrow> fallback
               | Some v \<Rightarrow> if 0 < v then v else fallback)"

definition max_order_minor :: "world \<Rightarrow> int" where
  "max_order_minor w = parse_limit_minor w (env w ''STEAM_SETTLEMENT_MAX_ORDER_MINOR'') 50000"

definition max_daily_orders :: "world \<Rightarrow> int" where
  "max_daily_orders w = positive_setting w ''STEAM_SETTLEMENT_MAX_DAILY_ORDERS'' 3"

definition max_daily_volume_minor :: "world \<Rightarrow> int" where
  "max_daily_volume_minor w = parse_limit_minor w (env w ''STEAM_SETTLEMENT_MAX_DAILY_VOLUME_MINOR'') 150000"

definition day_ms :: int where
  "day_ms = 24 * 60 * 60 * 1000"

definition min_steam_protection_ms :: int where
  "min_steam_protection_ms = 8 * 24 * 60 * 60 * 1000"

definition settlement_hold_window_enabled :: "world \<Rightarrow> bool" where
  "settlement_hold_window_enabled w = flag w ''ENABLE_SETTLEMENT_HOLD_WINDOW''"

definition settlement_hold_days :: "world \<Rightarrow> int" where
  "settlement_hold_days w = positive_setting w ''SETTLEMENT_HOLD_DAYS'' 8"

definition settlement_hold_ms :: "world \<Rightarrow> int" where
  "settlement_hold_ms w = settlement_hold_days w * 24 * 60 * 60 * 1000"

definition steam_protection_ms :: "world \<Rightarrow> int" where
  "steam_protection_ms w = max min_steam_protection_ms (settlement_hold_ms w)"

definition settlement_release_batch_size :: "world \<Rightarrow> int" where
  "settlement_release_batch_size w = positive_setting w ''SETTLEMENT_RELEASE_BATCH_SIZE'' 50"

definition settlement_hold_enter_key :: "id \<Rightarrow> string" where
  "settlement_hold_enter_key i = ''settlement-hold-enter:'' @ i"

definition settlement_hold_release_key :: "id \<Rightarrow> string" where
  "settlement_hold_release_key i = ''settlement-release:'' @ i"

definition settlement_hold_reverse_key :: "id \<Rightarrow> string" where
  "settlement_hold_reverse_key i = ''settlement-hold-reverse:'' @ i"

section \<open>A concrete world\<close>

text \<open>Settlement is open, and Steam answers nothing; for the applications of the theorems.\<close>

definition demo_world :: world where
  "demo_world =
     \<lparr>env = (\<lambda>k. map_of
        [(''ENABLE_REAL_SETTLEMENT'', ''true''), (''SETTLEMENT_ROLLOUT_MODE'', ''open''),
         (''SETTLEMENT_RELEASE_POLICY'', ''proof_window''), (''AUTO_SETTLEMENT_MAX_ORDER_MINOR'', ''1000''),
         (''AUTO_SETTLEMENT_MAX_EXPOSURE_MINOR'', ''1000'')] k),
      js_number = (\<lambda>_. None), js_bigint = (\<lambda>_. None), parse_url = (\<lambda>_. None),
      date_parse = (\<lambda>s. if s = ''1970-01-01T00:00:00.000Z'' then Some 0
                         else if s = ''1970-01-09T00:00:00.000Z'' then Some 691200000 else None),
      verify_receipt = None, fetch_bans = (\<lambda>_ _ _. Inl ''''), sha_bucket = (\<lambda>_. 0),
      verify_trade_offer = (\<lambda>_. Inl Offer_request_failed), fetch_page = (\<lambda>_ _ _. Inl (None, '''')),
      random_tenths = (\<lambda>_. 0)\<rparr>"

end
