(* ===== verification/Accounts.thy ===== *)
theory Accounts
  imports Environment
begin

text \<open>
  Who may trade: Steam identifiers (\<^verbatim>\<open>common/steam-id.util.ts\<close>), trade URLs
  (\<^verbatim>\<open>users/trade-url.util.ts\<close>), the ban check with its cache (\<^verbatim>\<open>users/steam-vac.service.ts\<close>) and
  the rollout of the browser extension to sellers (\<^verbatim>\<open>extension/extension-rollout.service.ts\<close>).
  A call runs at one instant \<open>now\<close>: the pause between two attempts of a ban check is not modelled.
\<close>

section \<open>Steam identifiers\<close>

definition steam_id64_base :: int where
  "steam_id64_base = 76561197960265728"

definition starts_with :: "string \<Rightarrow> string \<Rightarrow> bool" where
  "starts_with p s \<longleftrightarrow> take (length p) s = p"

definition is_mock_steam_id :: "string option \<Rightarrow> bool" where
  "is_mock_steam_id s = (case s of None \<Rightarrow> False | Some s \<Rightarrow> starts_with ''steam_mock_'' s)"

definition is_real_steam_id :: "string option \<Rightarrow> bool" where
  "is_real_steam_id s =
     (case s of
        None \<Rightarrow> False
      | Some s \<Rightarrow> starts_with ''7656119'' s \<and> length s = 17 \<and> list_all is_digit (drop 7 s))"

definition steam_id64_to_account_id :: "string \<Rightarrow> string option" where
  "steam_id64_to_account_id s =
     (if \<not> is_real_steam_id (Some s) then None
      else let account = digits_value s - steam_id64_base
           in if account < 0 then None else Some (show_int account))"

definition account_id_to_steam_id64 :: "string \<Rightarrow> string option" where
  "account_id_to_steam_id64 s =
     (if \<not> all_digits s then None else Some (show_int (digits_value s + steam_id64_base)))"

section \<open>Trade URLs\<close>

definition is_word_char :: "char \<Rightarrow> bool" where
  "is_word_char c \<longleftrightarrow> is_lower_alnum (lower_char c) \<or> c = CHR ''_''"

definition param_values :: "string \<Rightarrow> url \<Rightarrow> string list" where
  "param_values name u = List.map snd (filter (\<lambda>(k, _). k = name) (url_params u))"

definition first_param :: "string \<Rightarrow> url \<Rightarrow> string option" where
  "first_param name u = map_of (url_params u) name"

definition is_valid_steam_trade_url :: "world \<Rightarrow> string \<Rightarrow> bool" where
  "is_valid_steam_trade_url w s =
     (let trimmed = js_trim s in
      if length trimmed < 10 then False
      else case parse_url w trimmed of
        None \<Rightarrow> False
      | Some u \<Rightarrow>
          if url_origin u \<noteq> ''https://steamcommunity.com'' \<or> url_username u \<noteq> [] \<or> url_password u \<noteq> [] then False
          else if url_pathname u \<noteq> ''/tradeoffer/new/'' then False
          else case (first_param ''partner'' u, first_param ''token'' u) of
            (Some partner, Some token) \<Rightarrow>
              all_digits partner \<and> 0 < digits_value partner \<and> digits_value partner \<le> 4294967295
              \<and> token \<noteq> [] \<and> list_all (\<lambda>c. is_word_char c \<or> c = CHR ''-'') token
              \<and> length (param_values ''partner'' u) = 1 \<and> length (param_values ''token'' u) = 1
          | _ \<Rightarrow> False)"

definition has_valid_trade_url :: "world \<Rightarrow> string option \<Rightarrow> bool" where
  "has_valid_trade_url w s =
     (case s of None \<Rightarrow> False | Some s \<Rightarrow> js_trim s \<noteq> [] \<and> is_valid_steam_trade_url w s)"

definition trade_url_partner :: "world \<Rightarrow> string \<Rightarrow> string option" where
  "trade_url_partner w s =
     (let trimmed = js_trim s in
      if \<not> is_valid_steam_trade_url w trimmed then None
      else case parse_url w trimmed of
        None \<Rightarrow> None
      | Some u \<Rightarrow> (case first_param ''partner'' u of
                     Some p \<Rightarrow> if all_digits p then Some p else None
                   | None \<Rightarrow> None))"

definition trade_url_matches_steam_id :: "world \<Rightarrow> string \<Rightarrow> string option \<Rightarrow> bool" where
  "trade_url_matches_steam_id w s steam_id =
     (if \<not> is_real_steam_id steam_id then True
      else case (trade_url_partner w s, steam_id64_to_account_id (the steam_id)) of
        (Some p, Some expected) \<Rightarrow> p = expected
      | _ \<Rightarrow> False)"

section \<open>Bans\<close>

definition vac_cache_ms :: int where
  "vac_cache_ms = 15 * 60 * 1000"

definition ban_check_attempts :: nat where
  "ban_check_attempts = 2"

definition is_vac_check_required :: "world \<Rightarrow> bool" where
  "is_vac_check_required w =
     (if env w ''VAC_CHECK_REQUIRED'' = Some ''true'' then True
      else if env w ''VAC_CHECK_REQUIRED'' = Some ''false'' then False
      else steam_provider w ''INVENTORY_PROVIDER'' \<or> steam_provider w ''AUTH_PROVIDER'')"

definition ban_api_key :: "world \<Rightarrow> string option" where
  "ban_api_key w =
     (case env w ''STEAM_WEB_API_KEY'' of
        None \<Rightarrow> None
      | Some k \<Rightarrow> if js_trim k = [] then None else Some (js_trim k))"

definition fetch_ban_verdict_once :: "world \<Rightarrow> string \<Rightarrow> string \<Rightarrow> nat \<Rightarrow> string + ban_verdict" where
  "fetch_ban_verdict_once w key steam_id attempt =
     (case fetch_bans w key steam_id attempt of
        Inl message \<Rightarrow> Inl message
      | Inr r \<Rightarrow>
          if \<not> bn_ok r then Inl (''ban check HTTP '' @ show_int (bn_status r))
          else case bn_players r of
            Some (p # _) \<Rightarrow>
              Inr (if pb_vac p then Ban_vac
                   else if 0 < (case pb_games p of None \<Rightarrow> 0 | Some n \<Rightarrow> n) then Ban_game
                   else Ban_clear)
          | _ \<Rightarrow> Inl ''Steam returned no ban data'')"

fun ban_attempts :: "world \<Rightarrow> string \<Rightarrow> string \<Rightarrow> nat list \<Rightarrow> ban_verdict option" where
  "ban_attempts w key steam_id [] = None"
| "ban_attempts w key steam_id (n # ns) =
     (case fetch_ban_verdict_once w key steam_id n of
        Inr v \<Rightarrow> Some v
      | Inl _ \<Rightarrow> ban_attempts w key steam_id ns)"

definition cached_verdict :: "int \<Rightarrow> string \<Rightarrow> db \<Rightarrow> ban_verdict option" where
  "cached_verdict now steam_id d =
     (case row (vac_cache d) steam_id of
        Some (v, expires) \<Rightarrow> if now < expires then Some v else None
      | None \<Rightarrow> None)"

definition resolve_ban_verdict :: "world \<Rightarrow> int \<Rightarrow> string \<Rightarrow> bool \<Rightarrow> db \<Rightarrow> ban_verdict res \<times> db" where
  "resolve_ban_verdict w now steam_id required d =
     (case cached_verdict now steam_id d of
        Some v \<Rightarrow> (Inr v, d)
      | None \<Rightarrow>
          (case ban_api_key w of
             None \<Rightarrow> (Inr Ban_clear, d)
           | Some key \<Rightarrow>
               (case ban_attempts w key steam_id [1..<Suc ban_check_attempts] of
                  Some v \<Rightarrow> (Inr v, d\<lparr>vac_cache := AList.update steam_id (v, now + vac_cache_ms) (vac_cache d)\<rparr>)
                | None \<Rightarrow>
                    (if required then Inl (AppException ''STEAM_BAN_CHECK_UNAVAILABLE'') else Inr Ban_clear, d))))"

definition assert_can_trade :: "world \<Rightarrow> int \<Rightarrow> string option \<Rightarrow> db \<Rightarrow> unit res \<times> db" where
  "assert_can_trade w now steam_id d =
     (case steam_id of
        None \<Rightarrow> (Inr (), d)
      | Some s \<Rightarrow>
          if js_trim s = [] then (Inr (), d)
          else if ban_api_key w = None
          then (if is_vac_check_required w then Inl (AppException ''STEAM_BAN_CHECK_UNAVAILABLE'') else Inr (), d)
          else case resolve_ban_verdict w now (js_trim s) (is_vac_check_required w) d of
            (Inl e, d) \<Rightarrow> (Inl e, d)
          | (Inr Ban_vac, d) \<Rightarrow> (Inl (AppException ''STEAM_VAC_BANNED''), d)
          | (Inr Ban_game, d) \<Rightarrow> (Inl (AppException ''STEAM_GAME_BANNED''), d)
          | (Inr Ban_clear, d) \<Rightarrow> (Inr (), d))"

section \<open>Rollout of the extension\<close>

datatype rollout_reason =
    RR_gating_disabled | RR_pipeline_disabled | RR_kill_switch | RR_stage_off | RR_internal_match
  | RR_allowlist_match | RR_percent_match | RR_percent_excluded | RR_not_internal
  | RR_not_allowlisted | RR_missing_steam_id

type_synonym rollout_decision = "bool \<times> rollout_reason"

definition rollout_enabled :: "world \<Rightarrow> bool" where
  "rollout_enabled w = flag w ''ENABLE_EXTENSION_ROLLOUT''"

definition rollout_kill_switch :: "world \<Rightarrow> bool" where
  "rollout_kill_switch w = flag w ''EXTENSION_ROLLOUT_KILL_SWITCH''"

definition evaluate_internal :: "world \<Rightarrow> id \<Rightarrow> string option \<Rightarrow> rollout_decision" where
  "evaluate_internal w seller steam_id =
     (if seller \<in> set (csv_set (env w ''EXTENSION_ROLLOUT_INTERNAL_USER_IDS''))
         \<or> (case steam_id of None \<Rightarrow> False
             | Some s \<Rightarrow> s \<in> set (csv_set (env w ''EXTENSION_ROLLOUT_INTERNAL_STEAM_IDS'')))
      then (True, RR_internal_match) else (False, RR_not_internal))"

definition evaluate_allowlist :: "world \<Rightarrow> string option \<Rightarrow> db \<Rightarrow> rollout_decision" where
  "evaluate_allowlist w steam_id d =
     (case steam_id of
        None \<Rightarrow> (False, RR_missing_steam_id)
      | Some s \<Rightarrow>
          if s = [] then (False, RR_missing_steam_id)
          else if s \<in> set (csv_set (env w ''EXTENSION_ROLLOUT_ALLOWLIST_STEAM_IDS''))
                \<or> row (rollout_allowlist d) s = Some True
          then (True, RR_allowlist_match) else (False, RR_not_allowlisted))"

definition in_percent_bucket :: "world \<Rightarrow> id \<Rightarrow> int \<Rightarrow> bool" where
  "in_percent_bucket w seller percent \<longleftrightarrow> sha_bucket w seller mod 100 < percent"

definition evaluate_percent :: "world \<Rightarrow> id \<Rightarrow> string option \<Rightarrow> db \<Rightarrow> rollout_decision" where
  "evaluate_percent w seller steam_id d =
     (let listed = evaluate_allowlist w steam_id d in
      if fst listed then listed
      else if rollout_percent w \<le> 0 then (False, RR_percent_excluded)
      else if in_percent_bucket w seller (rollout_percent w) then (True, RR_percent_match)
      else (False, RR_percent_excluded))"

definition should_create_task_for_seller :: "world \<Rightarrow> id \<Rightarrow> db \<Rightarrow> rollout_decision" where
  "should_create_task_for_seller w seller d =
     (let steam_id = (case row (users (bank d)) seller of None \<Rightarrow> None | Some u \<Rightarrow> u_steam_id u) in
      if \<not> task_pipeline_enabled w then (False, RR_pipeline_disabled)
      else if \<not> rollout_enabled w then (True, RR_gating_disabled)
      else if rollout_kill_switch w then (False, RR_kill_switch)
      else case rollout_stage w of
        Stage_off \<Rightarrow> (False, RR_stage_off)
      | Stage_internal \<Rightarrow> evaluate_internal w seller steam_id
      | Stage_allowlist \<Rightarrow> evaluate_allowlist w steam_id d
      | Stage_percent \<Rightarrow> evaluate_percent w seller steam_id d)"

definition active_task_statuses :: "task_status list" where
  "active_task_statuses = [TT_CREATED, TT_DISPATCHED, TT_ACKED]"

definition has_inflight_grace :: "world \<Rightarrow> id \<Rightarrow> db \<Rightarrow> bool" where
  "has_inflight_grace w oid d \<longleftrightarrow>
     rollout_inflight_grace w \<and> rollout_kill_switch w
     \<and> (case row (orders d) oid of None \<Rightarrow> False | Some ord \<Rightarrow> o_status ord = OS_WAITING_TRADE)
     \<and> (\<exists>(_, k) \<in> set (trade_tasks d). k_order k = oid \<and> k_status k \<in> set active_task_statuses)"

lemma assert_can_trade_frame:
  "snd (assert_can_trade w now s d) = d\<lparr>vac_cache := vac_cache (snd (assert_can_trade w now s d))\<rparr>"
  by (auto simp: assert_can_trade_def resolve_ban_verdict_def split: option.splits ban_verdict.splits
      prod.splits sum.splits if_splits)

end
