(* ===== verification/JsDate.thy ===== *)
theory JsDate
  imports Environment
begin

text \<open>
  \<open>Date.prototype.toISOString\<close> for the years 0 to 9999: milliseconds since the epoch to the
  proleptic Gregorian calendar and its text, and \<open>utcDayKey\<close>, the first ten characters.
\<close>

text \<open>Years that start in March, counted in eras of 400 years: the day of the year is then
  independent of leap days.\<close>

definition civil_from_days :: "int \<Rightarrow> int \<times> int \<times> int" where
  "civil_from_days days =
     (let z = days + 719468;
          era = z div 146097;
          doe = z mod 146097;
          yoe = (doe - doe div 1460 + doe div 36524 - doe div 146096) div 365;
          doy = doe - (365 * yoe + yoe div 4 - yoe div 100);
          mp = (5 * doy + 2) div 153;
          day = doy - (153 * mp + 2) div 5 + 1;
          month = (if mp < 10 then mp + 3 else mp - 9);
          year = yoe + era * 400 + (if month \<le> 2 then 1 else 0)
      in (year, month, day))"

definition pad :: "nat \<Rightarrow> int \<Rightarrow> string" where
  "pad n v = (let s = show_int v in replicate (n - length s) CHR ''0'' @ s)"

definition iso_string :: "int \<Rightarrow> string" where
  "iso_string ms =
     (let days = ms div 86400000; rest = ms mod 86400000;
          (y, m, d) = civil_from_days days
      in pad 4 y @ ''-'' @ pad 2 m @ ''-'' @ pad 2 d @ ''T''
         @ pad 2 (rest div 3600000) @ '':'' @ pad 2 (rest div 60000 mod 60) @ '':''
         @ pad 2 (rest div 1000 mod 60) @ ''.'' @ pad 3 (rest mod 1000) @ ''Z'')"

definition utc_day_key :: "int \<Rightarrow> string" where
  "utc_day_key ms = take 10 (iso_string ms)"

text \<open>\<open>/^\d{4}-\d\d-\d\dT\d\d:\d\d:\d\d\.\d{3}Z$/\<close>\<close>

definition instant_pattern :: string where
  "instant_pattern = ''dddd-dd-ddTdd:dd:dd.dddZ''"

definition is_instant :: "string \<Rightarrow> bool" where
  "is_instant s \<longleftrightarrow> list_all2 (\<lambda>p c. if p = CHR ''d'' then is_digit c else c = p) instant_pattern s"

lemma iso_string_epoch: "iso_string 0 = ''1970-01-01T00:00:00.000Z''"
  by code_simp

lemma iso_string_leap_day: "iso_string 1709164800000 = ''2024-02-29T00:00:00.000Z''"
  by code_simp

lemma is_instant_example: "is_instant ''2024-02-29T12:30:05.120Z''"
  by code_simp

end
