(* ===== verification/DeliveryProof.thy ===== *)
theory DeliveryProof
  imports JsDate
begin

text \<open>
  \<^verbatim>\<open>trades/durable-delivery-proof.ts\<close> and \<^verbatim>\<open>settlement/settlement-proof-policy.ts\<close>: when a
  stored JSON value counts as the proof that the goods of an order were delivered, and the
  instant until which Steam protects the trade.
\<close>

definition json_truthy :: "json option \<Rightarrow> bool" where
  "json_truthy v =
     (case v of
        None \<Rightarrow> False
      | Some JNull \<Rightarrow> False
      | Some (JBool b) \<Rightarrow> b
      | Some (JNum n) \<Rightarrow> n \<noteq> 0
      | Some (JStr s) \<Rightarrow> s \<noteq> []
      | Some (JObj _) \<Rightarrow> True)"

text \<open>The string a value is converted to, for \<open>Date.parse\<close> and \<open>RegExp.test\<close>.\<close>

definition json_to_string :: "json option \<Rightarrow> string" where
  "json_to_string v =
     (case v of
        None \<Rightarrow> ''undefined''
      | Some JNull \<Rightarrow> ''null''
      | Some (JBool b) \<Rightarrow> if b then ''true'' else ''false''
      | Some (JNum n) \<Rightarrow> show_int n
      | Some (JStr s) \<Rightarrow> s
      | Some (JObj _) \<Rightarrow> ''[object Object]'')"

definition steam_numeric_id :: "json option \<Rightarrow> bool" where
  "steam_numeric_id v =
     (case v of
        Some (JStr s) \<Rightarrow> s \<noteq> [] \<and> length s \<le> 20 \<and> list_all is_digit s \<and> hd s \<noteq> CHR ''0''
      | _ \<Rightarrow> False)"

record proof_anchors =
  an_order :: string
  an_offer :: string
  an_asset :: string
  an_seller :: string
  an_buyer :: string
  an_binding :: "string option"

definition has_binding :: "proof_anchors \<Rightarrow> bool" where
  "has_binding an \<longleftrightarrow> an_binding an \<noteq> None \<and> an_binding an \<noteq> Some []"

definition proof_dates_ok :: "world \<Rightarrow> json \<Rightarrow> bool" where
  "proof_dates_ok w p =
     (case (date_parse w (json_to_string (json_get p ''verifiedAt'')),
            date_parse w (json_to_string (json_get p ''protectionUntil''))) of
        (Some v, Some u) \<Rightarrow> min_steam_protection_ms \<le> u - v
      | _ \<Rightarrow> False)"

definition legacy_destination_ok :: "json \<Rightarrow> bool" where
  "legacy_destination_ok p \<longleftrightarrow>
     steam_numeric_id (json_get p ''destinationAssetId'')
     \<and> json_get p ''destinationContextId'' \<in> {Some (JStr ''2''), Some (JStr ''16'')}
     \<and> json_get p ''mappingMethod'' \<in> {Some (JStr ''STEAM_RECEIPT''), Some (JStr ''INVENTORY_DELTA'')}"

definition proof_bound :: "world \<Rightarrow> json \<Rightarrow> proof_anchors \<Rightarrow> bool" where
  "proof_bound w p an \<longleftrightarrow>
     json_get p ''version'' \<in> {Some (JNum 2), Some (JNum 3)}
     \<and> json_get p ''orderId'' = Some (JStr (an_order an))
     \<and> json_get p ''offerId'' = Some (JStr (an_offer an))
     \<and> json_get p ''originalAssetId'' = Some (JStr (an_asset an))
     \<and> json_get p ''sellerSteamId'' = Some (JStr (an_seller an))
     \<and> json_get p ''buyerSteamId'' = Some (JStr (an_buyer an))
     \<and> steam_numeric_id (json_get p ''tradeId'') \<and> steam_numeric_id (json_get p ''offerId'')
     \<and> steam_numeric_id (json_get p ''originalAssetId'') \<and> steam_numeric_id (json_get p ''sellerSteamId'')
     \<and> steam_numeric_id (json_get p ''buyerSteamId'')
     \<and> json_get p ''sellerSteamId'' \<noteq> json_get p ''buyerSteamId''
     \<and> json_get p ''receiptStatus'' = Some (JNum 3) \<and> json_get p ''offerState'' = Some (JNum 3)
     \<and> (has_binding an \<longrightarrow> json_get p ''bindingVerified'' = Some (JBool True))
     \<and> (json_get p ''version'' = Some (JNum 3) \<longrightarrow>
          json_get p ''tradeBinding'' = map_option JStr (an_binding an))
     \<and> proof_dates_ok w p
     \<and> (json_get p ''version'' = Some (JNum 3) \<longrightarrow> json_get p ''authority'' = Some (JStr ''STEAM_RECEIPT''))
     \<and> (json_get p ''version'' = Some (JNum 2) \<longrightarrow> legacy_destination_ok p)"

definition bound_delivery_proof :: "world \<Rightarrow> json option \<Rightarrow> proof_anchors \<Rightarrow> json option" where
  "bound_delivery_proof w v an =
     (case v of
        Some (JObj fs) \<Rightarrow> if proof_bound w (JObj fs) an then Some (JObj fs) else None
      | _ \<Rightarrow> None)"

text \<open>The deadline: both instants in canonical form, and at least the protection period apart.\<close>

definition proof_deadline :: "world \<Rightarrow> json option \<Rightarrow> proof_anchors \<Rightarrow> int option" where
  "proof_deadline w v an =
     (case bound_delivery_proof w v an of
        None \<Rightarrow> None
      | Some p \<Rightarrow>
          if json_get p ''version'' = Some (JNum 3)
             \<and> (\<not> has_binding an \<or> json_get p ''bindingVerified'' \<noteq> Some (JBool True))
          then None
          else
            let va = json_to_string (json_get p ''verifiedAt'');
                pu = json_to_string (json_get p ''protectionUntil'')
            in if \<not> is_instant va \<or> \<not> is_instant pu then None
               else case (date_parse w va, date_parse w pu) of
                 (Some verified, Some deadline) \<Rightarrow>
                   if json_get p ''verifiedAt'' \<noteq> Some (JStr (iso_string verified))
                      \<or> json_get p ''protectionUntil'' \<noteq> Some (JStr (iso_string deadline))
                      \<or> deadline - verified < steam_protection_ms w
                   then None else Some deadline
               | _ \<Rightarrow> None)"

definition supports_proof_window :: "world \<Rightarrow> json option \<Rightarrow> proof_anchors \<Rightarrow> bool" where
  "supports_proof_window w v an =
     (case bound_delivery_proof w v an of
        None \<Rightarrow> False
      | Some p \<Rightarrow> json_get p ''version'' = Some (JNum 3)
          \<and> json_get p ''authority'' = Some (JStr ''STEAM_RECEIPT'')
          \<and> json_get p ''bindingVerified'' = Some (JBool True) \<and> has_binding an
          \<and> proof_deadline w v an \<noteq> None)"

definition canonical_protection_until :: "world \<Rightarrow> json option \<Rightarrow> proof_anchors \<Rightarrow> string option" where
  "canonical_protection_until w v an = map_option iso_string (proof_deadline w v an)"

section \<open>What a proof establishes\<close>

text \<open>The identity a proof is bound to, and the times it names.\<close>

definition proves_delivery :: "world \<Rightarrow> json \<Rightarrow> proof_anchors \<Rightarrow> int \<Rightarrow> int \<Rightarrow> bool" where
  "proves_delivery w p an verified deadline \<longleftrightarrow>
     json_get p ''orderId'' = Some (JStr (an_order an)) \<and> json_get p ''offerId'' = Some (JStr (an_offer an))
     \<and> json_get p ''originalAssetId'' = Some (JStr (an_asset an))
     \<and> json_get p ''sellerSteamId'' = Some (JStr (an_seller an))
     \<and> json_get p ''buyerSteamId'' = Some (JStr (an_buyer an)) \<and> an_seller an \<noteq> an_buyer an
     \<and> date_parse w (iso_string verified) = Some verified
     \<and> json_get p ''verifiedAt'' = Some (JStr (iso_string verified))
     \<and> json_get p ''protectionUntil'' = Some (JStr (iso_string deadline))"

lemma proof_deadline_proves:
  assumes "proof_deadline w v an = Some deadline"
  shows "\<exists>p verified. v = Some p \<and> proves_delivery w p an verified deadline
     \<and> verified + steam_protection_ms w \<le> deadline"
proof -
  from assms obtain p where p: "bound_delivery_proof w v an = Some p"
    by (auto simp: proof_deadline_def split: option.splits)
  then have v: "v = Some p" "proof_bound w p an"
    by (auto simp: bound_delivery_proof_def split: option.splits json.splits if_splits)
  from assms p obtain verified where d:
    "date_parse w (json_to_string (json_get p ''verifiedAt'')) = Some verified"
    "json_get p ''verifiedAt'' = Some (JStr (iso_string verified))"
    "json_get p ''protectionUntil'' = Some (JStr (iso_string deadline))"
    "verified + steam_protection_ms w \<le> deadline"
    by (auto simp: proof_deadline_def Let_def split: option.splits if_splits)
  have "date_parse w (iso_string verified) = Some verified"
    using d(1,2) by (simp add: json_to_string_def)
  then have "proves_delivery w p an verified deadline"
    using v(2) d(2,3) by (auto simp: proves_delivery_def proof_bound_def)
  then show ?thesis using v(1) d(4) by blast
qed

lemma steam_protection_min: "min_steam_protection_ms \<le> steam_protection_ms w"
  by (simp add: steam_protection_ms_def)

end
