(* ===== verification/StatusMachine.thy ===== *)
theory StatusMachine
  imports Schema
begin

text \<open>
  The contract the three status services share (\<^verbatim>\<open>orders/order-state.service.ts\<close>,
  \<^verbatim>\<open>lots/lot-state.service.ts\<close>, \<^verbatim>\<open>trades/trade-operation-state.service.ts\<close>): a transition
  of one row is refused unless it is allowed and the row has the status it leaves; it changes
  that row's status only, and appends one event to the history. The lemmas of the locale follow
  from these laws alone: the status of a row is always the end of a path of allowed transitions
  recorded in the history, and a status without outgoing transitions is never left.
\<close>

inductive trail :: "('s \<Rightarrow> 's \<Rightarrow> bool) \<Rightarrow> ('s option \<times> 's) list \<Rightarrow> 's \<Rightarrow> bool"
  for allowed :: "'s \<Rightarrow> 's \<Rightarrow> bool" where
  start: "trail allowed [(None, s)] s"
| step: "trail allowed es s \<Longrightarrow> allowed s t \<Longrightarrow> trail allowed (es @ [(Some s, t)]) t"

inductive_cases trailE: "trail allowed es s"

lemma trail_not_empty: "trail allowed es s \<Longrightarrow> es \<noteq> []"
  by (induction rule: trail.induct) auto

lemma trail_last: "trail allowed es s \<Longrightarrow> snd (last es) = s"
  by (induction rule: trail.induct) auto

lemma trail_allowed: "trail allowed es s \<Longrightarrow> (Some a, b) \<in> set es \<Longrightarrow> allowed a b"
  by (induction rule: trail.induct) auto

lemma trail_from_start: "trail allowed es s \<Longrightarrow> allowed\<^sup>*\<^sup>* (snd (hd es)) s"
proof (induction rule: trail.induct)
  case (start s)
  then show ?case by simp
next
  case (step es s t)
  then show ?case using trail_not_empty [OF step.hyps(1)]
    by (auto intro: rtranclp.rtrancl_into_rtrancl)
qed

text \<open>When the allowed transitions lower a rank, a trail is no longer than the ranks it passes.\<close>

lemma trail_bounded:
  assumes "trail allowed es s" and "\<And>a b. allowed a b \<Longrightarrow> rank b < (rank a :: nat)"
  shows "length es + rank s \<le> Suc (rank (snd (hd es)))"
  using assms(1)
proof (induction rule: trail.induct)
  case (start s)
  then show ?case by simp
next
  case (step es s t)
  then show ?case using assms(2) [OF step.hyps(2)] trail_not_empty [OF step.hyps(1)] by auto
qed

definition events_of :: "id \<Rightarrow> 's status_event list \<Rightarrow> ('s option \<times> 's) list" where
  "events_of i es = map (\<lambda>e. (ev_from e, ev_to e)) (filter (\<lambda>e. ev_entity e = i) es)"

lemma events_of_append [simp]: "events_of i (es @ es') = events_of i es @ events_of i es'"
  by (simp add: events_of_def)

lemma events_of_Nil [simp]: "events_of i [] = []"
  by (simp add: events_of_def)

lemma events_of_Cons [simp]:
  "events_of i (e # es) = (if ev_entity e = i then [(ev_from e, ev_to e)] else []) @ events_of i es"
  by (simp add: events_of_def)

locale status_machine =
  fixes status :: "'d \<Rightarrow> id \<Rightarrow> 's option"
    and history :: "'d \<Rightarrow> 's status_event list"
    and allowed :: "'s \<Rightarrow> 's \<Rightarrow> bool"
    and move :: "id \<Rightarrow> 's \<Rightarrow> 's \<Rightarrow> 'd \<Rightarrow> 'd \<Rightarrow> bool"
  assumes move_ok: "move i s t d d' \<Longrightarrow> allowed s t \<and> status d i = Some s \<and> status d' = (status d)(i \<mapsto> t)"
    and move_history: "move i s t d d' \<Longrightarrow>
      \<exists>e. history d' = history d @ [e] \<and> ev_entity e = i \<and> ev_from e = Some s \<and> ev_to e = t"
begin

definition trails_ok :: "'d \<Rightarrow> bool" where
  "trails_ok d \<longleftrightarrow> (\<forall>i. case status d i of
      None \<Rightarrow> events_of i (history d) = []
    | Some s \<Rightarrow> trail allowed (events_of i (history d)) s)"

lemma move_trails:
  assumes "move i s t d d'" and "trails_ok d"
  shows "trails_ok d'"
  unfolding trails_ok_def
proof
  fix j
  obtain e where e: "history d' = history d @ [e]" "ev_entity e = i" "ev_from e = Some s" "ev_to e = t"
    using move_history [OF assms(1)] by blast
  note ok = move_ok [OF assms(1)]
  show "case status d' j of None \<Rightarrow> events_of j (history d') = []
      | Some s \<Rightarrow> trail allowed (events_of j (history d')) s"
    using assms(2) ok e unfolding trails_ok_def
    by (cases "j = i") (auto simp: dest: spec [of _ j] intro: trail.step split: option.splits)
qed

lemma moves_trails:
  "(\<lambda>d d'. \<exists>i s t. move i s t d d')\<^sup>*\<^sup>* d d' \<Longrightarrow> trails_ok d \<Longrightarrow> trails_ok d'"
  by (induction rule: rtranclp_induct) (auto intro: move_trails)

lemma terminal_stuck:
  assumes "(\<lambda>d d'. \<exists>i s t. move i s t d d')\<^sup>*\<^sup>* d d'" and "status d i = Some s" and "\<And>t. \<not> allowed s t"
  shows "status d' i = Some s"
  using assms(1)
proof (induction rule: rtranclp_induct)
  case base
  then show ?case by (rule assms(2))
next
  case (step d1 d2)
  then obtain j a b where m: "move j a b d1 d2" by blast
  from move_ok [OF m] step.IH assms(3) show ?case by (cases "j = i") auto
qed

lemma moves_path:
  assumes "(\<lambda>d d'. \<exists>i s t. move i s t d d')\<^sup>*\<^sup>* d d'" and "status d i = Some s"
  shows "\<exists>t. status d' i = Some t \<and> allowed\<^sup>*\<^sup>* s t"
  using assms(1)
proof (induction rule: rtranclp_induct)
  case base
  then show ?case using assms(2) by auto
next
  case (step d1 d2)
  then obtain j a b where m: "move j a b d1 d2" by blast
  from move_ok [OF m] step.IH show ?case
    by (cases "j = i") (auto intro: rtranclp.rtrancl_into_rtrancl)
qed

end

end
