(* ===== verification/OrderState.thy ===== *)
theory OrderState
  imports StatusMachine
begin

text \<open>
  \<^verbatim>\<open>backend/src/orders/order-state.service.ts\<close>: the state machine of orders. The rule table
  \<open>order_rules\<close> and the table of allowed transitions are the source's tables, in their order;
  \<open>order_transition\<close> and \<open>order_transition_by_event\<close> are the two ways the services change an
  order's status. The guard context has one field, whether the delivery is verified.
\<close>

datatype order_event =
    OE_ORDER_CREATED | OE_PAYMENT_RESERVED | OE_TRADE_OPERATION_CREATED
  | OE_DELIVERY_VERIFIED | OE_SETTLEMENT_STARTED | OE_SETTLEMENT_RELEASED
  | OE_SETTLEMENT_REVERSED | OE_TIMEOUT_DETECTED | OE_MISMATCH_DETECTED
  | OE_UNKNOWN_STATE_DETECTED | OE_CANCEL | OE_FAIL_SAFE
  | OE_DISPUTE_OPENED | OE_DISPUTE_RESOLVED_BUYER | OE_DISPUTE_RESOLVED_SELLER
  | OE_LEGACY_SETTLED

fun order_event_name :: "order_event \<Rightarrow> string" where
  "order_event_name OE_ORDER_CREATED = ''ORDER_CREATED''"
| "order_event_name OE_PAYMENT_RESERVED = ''PAYMENT_RESERVED''"
| "order_event_name OE_TRADE_OPERATION_CREATED = ''TRADE_OPERATION_CREATED''"
| "order_event_name OE_DELIVERY_VERIFIED = ''DELIVERY_VERIFIED''"
| "order_event_name OE_SETTLEMENT_STARTED = ''SETTLEMENT_STARTED''"
| "order_event_name OE_SETTLEMENT_RELEASED = ''SETTLEMENT_RELEASED''"
| "order_event_name OE_SETTLEMENT_REVERSED = ''SETTLEMENT_REVERSED''"
| "order_event_name OE_TIMEOUT_DETECTED = ''TIMEOUT_DETECTED''"
| "order_event_name OE_MISMATCH_DETECTED = ''MISMATCH_DETECTED''"
| "order_event_name OE_UNKNOWN_STATE_DETECTED = ''UNKNOWN_STATE_DETECTED''"
| "order_event_name OE_CANCEL = ''CANCEL''"
| "order_event_name OE_FAIL_SAFE = ''FAIL_SAFE''"
| "order_event_name OE_DISPUTE_OPENED = ''DISPUTE_OPENED''"
| "order_event_name OE_DISPUTE_RESOLVED_BUYER = ''DISPUTE_RESOLVED_BUYER''"
| "order_event_name OE_DISPUTE_RESOLVED_SELLER = ''DISPUTE_RESOLVED_SELLER''"
| "order_event_name OE_LEGACY_SETTLED = ''LEGACY_SETTLED''"

record order_rule =
  or_from :: order_status
  or_event :: order_event
  or_to :: order_status
  or_guarded :: bool
  or_action :: string

definition order_rules :: "order_rule list" where
  "order_rules =
    [\<lparr>or_from = OS_CREATED, or_event = OE_PAYMENT_RESERVED, or_to = OS_PAYMENT_RESERVED,
        or_guarded = False, or_action = ''reserve_payment''\<rparr>,
     \<lparr>or_from = OS_PAYMENT_RESERVED, or_event = OE_TRADE_OPERATION_CREATED, or_to = OS_WAITING_TRADE,
        or_guarded = False, or_action = ''start_waiting_trade''\<rparr>,
     \<lparr>or_from = OS_WAITING_TRADE, or_event = OE_DELIVERY_VERIFIED, or_to = OS_TRADE_CONFIRMED,
        or_guarded = False, or_action = ''mark_trade_confirmed''\<rparr>,
     \<lparr>or_from = OS_TRADE_CONFIRMED, or_event = OE_SETTLEMENT_STARTED, or_to = OS_SETTLEMENT_HOLD,
        or_guarded = True, or_action = ''enter_settlement_hold''\<rparr>,
     \<lparr>or_from = OS_SETTLEMENT_HOLD, or_event = OE_SETTLEMENT_RELEASED, or_to = OS_COMPLETED,
        or_guarded = True, or_action = ''release_settlement''\<rparr>,
     \<lparr>or_from = OS_TRADE_CONFIRMED, or_event = OE_LEGACY_SETTLED, or_to = OS_COMPLETED,
        or_guarded = False, or_action = ''legacy_direct_settlement''\<rparr>,
     \<lparr>or_from = OS_WAITING_TRADE, or_event = OE_TIMEOUT_DETECTED, or_to = OS_DISPUTE,
        or_guarded = False, or_action = ''open_dispute_timeout''\<rparr>,
     \<lparr>or_from = OS_WAITING_TRADE, or_event = OE_MISMATCH_DETECTED, or_to = OS_DISPUTE,
        or_guarded = False, or_action = ''open_dispute_mismatch''\<rparr>,
     \<lparr>or_from = OS_WAITING_TRADE, or_event = OE_UNKNOWN_STATE_DETECTED, or_to = OS_DISPUTE,
        or_guarded = False, or_action = ''open_dispute_unknown''\<rparr>,
     \<lparr>or_from = OS_TRADE_CONFIRMED, or_event = OE_UNKNOWN_STATE_DETECTED, or_to = OS_DISPUTE,
        or_guarded = False, or_action = ''open_dispute_unknown''\<rparr>,
     \<lparr>or_from = OS_SETTLEMENT_HOLD, or_event = OE_SETTLEMENT_REVERSED, or_to = OS_DISPUTE,
        or_guarded = False, or_action = ''reverse_settlement_hold''\<rparr>,
     \<lparr>or_from = OS_SETTLEMENT_HOLD, or_event = OE_UNKNOWN_STATE_DETECTED, or_to = OS_DISPUTE,
        or_guarded = False, or_action = ''open_dispute_unknown''\<rparr>,
     \<lparr>or_from = OS_CREATED, or_event = OE_CANCEL, or_to = OS_CANCELED,
        or_guarded = False, or_action = ''cancel_order''\<rparr>,
     \<lparr>or_from = OS_PAYMENT_RESERVED, or_event = OE_CANCEL, or_to = OS_CANCELED,
        or_guarded = False, or_action = ''cancel_order''\<rparr>,
     \<lparr>or_from = OS_WAITING_TRADE, or_event = OE_CANCEL, or_to = OS_CANCELED,
        or_guarded = False, or_action = ''cancel_order''\<rparr>,
     \<lparr>or_from = OS_WAITING_TRADE, or_event = OE_FAIL_SAFE, or_to = OS_FAILED,
        or_guarded = False, or_action = ''fail_safe_refund''\<rparr>,
     \<lparr>or_from = OS_WAITING_TRADE, or_event = OE_DISPUTE_OPENED, or_to = OS_DISPUTE,
        or_guarded = False, or_action = ''open_dispute_manual''\<rparr>,
     \<lparr>or_from = OS_DISPUTE, or_event = OE_DISPUTE_RESOLVED_BUYER, or_to = OS_FAILED,
        or_guarded = False, or_action = ''resolve_dispute_buyer''\<rparr>,
     \<lparr>or_from = OS_DISPUTE, or_event = OE_DISPUTE_RESOLVED_SELLER, or_to = OS_COMPLETED,
        or_guarded = False, or_action = ''resolve_dispute_seller''\<rparr>]"

fun allowed_order_transitions :: "order_status \<Rightarrow> order_status list" where
  "allowed_order_transitions OS_CREATED = [OS_PAYMENT_RESERVED, OS_CANCELED]"
| "allowed_order_transitions OS_PAYMENT_RESERVED = [OS_WAITING_TRADE, OS_CANCELED, OS_FAILED]"
| "allowed_order_transitions OS_WAITING_TRADE =
     [OS_TRADE_CONFIRMED, OS_FAILED, OS_DISPUTE, OS_CANCELED]"
| "allowed_order_transitions OS_TRADE_CONFIRMED = [OS_SETTLEMENT_HOLD, OS_COMPLETED, OS_DISPUTE]"
| "allowed_order_transitions OS_SETTLEMENT_HOLD = [OS_COMPLETED, OS_DISPUTE]"
| "allowed_order_transitions OS_COMPLETED = []"
| "allowed_order_transitions OS_FAILED = []"
| "allowed_order_transitions OS_DISPUTE = [OS_COMPLETED, OS_FAILED]"
| "allowed_order_transitions OS_CANCELED = []"

definition open_order_statuses :: "order_status list" where
  "open_order_statuses =
     [OS_CREATED, OS_PAYMENT_RESERVED, OS_WAITING_TRADE, OS_TRADE_CONFIRMED, OS_SETTLEMENT_HOLD, OS_DISPUTE]"

definition order_allowed :: "order_status \<Rightarrow> order_status \<Rightarrow> bool" where
  "order_allowed s t \<longleftrightarrow> t \<in> set (allowed_order_transitions s)"

definition ensure_order_transition :: "order_status \<Rightarrow> order_status \<Rightarrow> unit res" where
  "ensure_order_transition s t =
     (if \<not> order_allowed s t
      then Inl (BadRequest (''Order status transition not allowed: '' @ order_status_name s @ '' -> ''
                              @ order_status_name t))
      else Inr ())"

definition is_open_status :: "order_status \<Rightarrow> bool" where
  "is_open_status s \<longleftrightarrow> s \<in> set open_order_statuses"

definition record_order_created :: "id \<Rightarrow> id option \<Rightarrow> db \<Rightarrow> db" where
  "record_order_created i actor d =
     d\<lparr>order_events := order_events d @ [\<lparr>ev_entity = i, ev_from = None, ev_to = OS_CREATED,
        ev_actor = actor, ev_reason = None\<rparr>]\<rparr>"

text \<open>The update names the id and the status the row must have, and raises when none matches.\<close>

definition order_transition ::
    "id \<Rightarrow> order_status \<Rightarrow> order_status \<Rightarrow> id option \<Rightarrow> string option \<Rightarrow> db \<Rightarrow> db res" where
  "order_transition i s t actor reason d =
     bindE (ensure_order_transition s t) (\<lambda>_.
       case row (orders d) i of
         None \<Rightarrow> Inl RecordNotFound
       | Some ord \<Rightarrow>
           if o_status ord \<noteq> s then Inl RecordNotFound
           else Inr (d\<lparr>orders := AList.update i (ord\<lparr>o_status := t\<rparr>) (orders d),
                  order_events := order_events d @ [\<lparr>ev_entity = i, ev_from = Some s, ev_to = t,
                    ev_actor = actor, ev_reason = reason\<rparr>]\<rparr>))"

definition find_order_rule :: "order_status \<Rightarrow> order_event \<Rightarrow> order_rule option" where
  "find_order_rule s e = find (\<lambda>r. or_from r = s \<and> or_event r = e) order_rules"

definition order_transition_by_event ::
    "id \<Rightarrow> order_status \<Rightarrow> order_event \<Rightarrow> id option \<Rightarrow> string option \<Rightarrow> bool \<Rightarrow> db
      \<Rightarrow> (order_status \<times> db) res" where
  "order_transition_by_event i s e actor reason delivery_verified d =
     (case find_order_rule s e of
        None \<Rightarrow> Inl (BadRequest (''Order status transition not allowed: '' @ order_status_name s @ '' + ''
                                  @ order_event_name e))
      | Some r \<Rightarrow>
          if or_guarded r \<and> \<not> delivery_verified
          then Inl (BadRequest (''Order guard failed: deliveryVerified''))
          else bindE (order_transition i s (or_to r) actor
                        (case reason of None \<Rightarrow> Some (order_event_name e) | Some x \<Rightarrow> Some x) d)
                 (\<lambda>d. Inr (or_to r, d)))"

section \<open>The tables\<close>

lemma order_status_cases: "(\<forall>s. P s) \<longleftrightarrow> P OS_CREATED \<and> P OS_PAYMENT_RESERVED \<and> P OS_WAITING_TRADE
    \<and> P OS_TRADE_CONFIRMED \<and> P OS_SETTLEMENT_HOLD \<and> P OS_COMPLETED \<and> P OS_FAILED \<and> P OS_DISPUTE \<and> P OS_CANCELED"
  by (metis order_status.exhaust)

lemma rules_allowed: "r \<in> set order_rules \<Longrightarrow> order_allowed (or_from r) (or_to r)"
  by (auto simp: order_rules_def order_allowed_def)

lemma find_order_rule_Some:
  "find_order_rule s e = Some r \<Longrightarrow> r \<in> set order_rules \<and> or_from r = s \<and> or_event r = e"
  by (auto simp: find_order_rule_def find_Some_iff in_set_conv_nth)

fun order_rank :: "order_status \<Rightarrow> nat" where
  "order_rank OS_CREATED = 6"
| "order_rank OS_PAYMENT_RESERVED = 5"
| "order_rank OS_WAITING_TRADE = 4"
| "order_rank OS_TRADE_CONFIRMED = 3"
| "order_rank OS_SETTLEMENT_HOLD = 2"
| "order_rank OS_DISPUTE = 1"
| "order_rank OS_COMPLETED = 0"
| "order_rank OS_FAILED = 0"
| "order_rank OS_CANCELED = 0"

lemma order_allowed_rank: "order_allowed s t \<Longrightarrow> order_rank t < order_rank s"
  by (cases s) (auto simp: order_allowed_def)

lemma terminal_orders: "(\<forall>t. \<not> order_allowed s t) \<longleftrightarrow> \<not> is_open_status s"
  by (cases s) (auto simp: order_allowed_def is_open_status_def open_order_statuses_def)

section \<open>The transitions obey the contract\<close>

lemma ensure_order_transition_eq_Inr [res_simps]:
  "ensure_order_transition s t = Inr u \<longleftrightarrow> order_allowed s t"
  by (simp add: ensure_order_transition_def)

lemma order_transition_eq_Inr [res_simps]:
  "order_transition i s t actor reason d = Inr d' \<longleftrightarrow> order_allowed s t \<and>
     (\<exists>ord. row (orders d) i = Some ord \<and> o_status ord = s
        \<and> d' = d\<lparr>orders := AList.update i (ord\<lparr>o_status := t\<rparr>) (orders d),
                order_events := order_events d @ [\<lparr>ev_entity = i, ev_from = Some s, ev_to = t,
                  ev_actor = actor, ev_reason = reason\<rparr>]\<rparr>)"
  by (auto simp: order_transition_def res_simps split: option.splits)

lemma order_transition_by_event_eq_Inr [res_simps]:
  "order_transition_by_event i s e actor reason g d = Inr (t, d') \<longleftrightarrow>
     (\<exists>r. find_order_rule s e = Some r \<and> t = or_to r \<and> (or_guarded r \<longrightarrow> g)
        \<and> order_transition i s t actor (case reason of None \<Rightarrow> Some (order_event_name e) | Some x \<Rightarrow> Some x) d
            = Inr d')"
  by (auto simp: order_transition_by_event_def bindE_eq_Inr split: option.splits)

definition order_status_of :: "db \<Rightarrow> id \<Rightarrow> order_status option" where
  "order_status_of d i = map_option o_status (row (orders d) i)"

definition order_move :: "id \<Rightarrow> order_status \<Rightarrow> order_status \<Rightarrow> db \<Rightarrow> db \<Rightarrow> bool" where
  "order_move i s t d d' \<longleftrightarrow> (\<exists>actor reason. order_transition i s t actor reason d = Inr d')"

interpretation order_machine: status_machine order_status_of order_events order_allowed order_move
  by unfold_locales
     (auto simp: order_move_def order_transition_eq_Inr order_status_of_def row_update fun_eq_iff)

lemma order_event_move: "order_transition_by_event i s e actor reason g d = Inr (t, d') \<Longrightarrow> order_move i s t d d'"
  by (auto simp: order_transition_by_event_eq_Inr order_move_def)

section \<open>The life of an order\<close>

definition order_moves :: "db \<Rightarrow> db \<Rightarrow> bool" where
  "order_moves = (\<lambda>d d'. \<exists>i s t. order_move i s t d d')\<^sup>*\<^sup>*"

text \<open>An order in each stage of a sale, for the applications below.\<close>

definition demo_order :: order where
  "demo_order = \<lparr>o_lot = ''l1'', o_buyer = ''buyer'', o_seller = ''seller'', o_status = OS_CREATED,
     o_amount = 300, o_hold_amount = 300, o_created_at = 0\<rparr>"

definition demo_order_db :: db where
  "demo_order_db = record_order_created ''o1'' (Some ''buyer'')
     ((empty_db demo_ids)\<lparr>orders := [(''o1'', demo_order)]\<rparr>)"

definition demo_order_reserved :: db where
  "demo_order_reserved =
     (case order_transition_by_event ''o1'' OS_CREATED OE_PAYMENT_RESERVED None None False demo_order_db of
        Inr (_, d) \<Rightarrow> d | Inl _ \<Rightarrow> demo_order_db)"

definition demo_order_canceled :: db where
  "demo_order_canceled =
     (case order_transition_by_event ''o1'' OS_PAYMENT_RESERVED OE_CANCEL None None False demo_order_reserved of
        Inr (_, d) \<Rightarrow> d | Inl _ \<Rightarrow> demo_order_reserved)"

lemma demo_order_moves: "order_moves demo_order_db demo_order_canceled"
proof -
  have "\<exists>t. order_transition_by_event ''o1'' OS_CREATED OE_PAYMENT_RESERVED None None False demo_order_db
      = Inr (t, demo_order_reserved)"
    by (simp add: demo_order_reserved_def demo_order_db_def demo_order_def record_order_created_def
        order_transition_by_event_def find_order_rule_def order_rules_def order_transition_def
        ensure_order_transition_def order_allowed_def split: sum.splits)
  moreover have "\<exists>t. order_transition_by_event ''o1'' OS_PAYMENT_RESERVED OE_CANCEL None None False
      demo_order_reserved = Inr (t, demo_order_canceled)"
    by (simp add: demo_order_canceled_def demo_order_reserved_def demo_order_db_def demo_order_def
        record_order_created_def order_transition_by_event_def find_order_rule_def order_rules_def
        order_transition_def ensure_order_transition_def order_allowed_def split: sum.splits)
  ultimately have "\<exists>i s t. order_move i s t demo_order_db demo_order_reserved"
    "\<exists>i s t. order_move i s t demo_order_reserved demo_order_canceled"
    using order_event_move by blast+
  then show ?thesis unfolding order_moves_def
    by (rule rtranclp.rtrancl_into_rtrancl [OF r_into_rtranclp])
qed

lemma demo_order_trails: "order_machine.trails_ok demo_order_db"
  by (auto simp: order_machine.trails_ok_def order_status_of_def demo_order_db_def demo_order_def
      record_order_created_def empty_db_def trail.start)



text \<open>
  An order that is completed, failed or canceled never changes its status again, and these
  are exactly the statuses that \<open>isOpenStatus\<close> calls closed: a closed order stays closed, and
  every open status can still be left.
\<close>

theorem closed_order_final:
  assumes "row (orders d) i = Some ord"
  shows "if is_open_status (o_status ord)
    then \<exists>t. order_allowed (o_status ord) t
    else \<forall>d'. order_moves d d' \<longrightarrow> map_option o_status (row (orders d') i) = Some (o_status ord)"
  using terminal_orders [of "o_status ord"] order_machine.terminal_stuck [of d _ i "o_status ord"] assms
  by (auto simp: order_moves_def order_status_of_def)

theorem closed_order_final_witness:
  "\<nexists>d'. order_moves demo_order_canceled d'
     \<and> map_option o_status (row (orders d') ''o1'') \<noteq> Some OS_CANCELED"
proof -
  have "map_option o_status (row (orders demo_order_canceled) ''o1'') = Some OS_CANCELED" by code_simp
  then obtain ord where "row (orders demo_order_canceled) ''o1'' = Some ord" "o_status ord = OS_CANCELED"
    by auto
  with closed_order_final [of demo_order_canceled "''o1''" ord] show ?thesis
    by (auto simp: is_open_status_def open_order_statuses_def)
qed

text \<open>
  The event interface is sound and complete for the rule table: an event is accepted exactly
  when the table has a rule for the status and the event, the rule's guard holds and the row
  still has that status; the status it answers is the rule's target.
\<close>

theorem order_event_semantics:
  "(\<exists>d'. order_transition_by_event i s e actor reason g d = Inr (t, d')) \<longleftrightarrow>
     (\<exists>r ord. r \<in> set order_rules \<and> or_from r = s \<and> or_event r = e \<and> or_to r = t \<and> (or_guarded r \<longrightarrow> g)
        \<and> row (orders d) i = Some ord \<and> o_status ord = s)"
  (is "?accepted \<longleftrightarrow> ?rule")
proof
  assume ?accepted
  then show ?rule
    by (auto simp: order_transition_by_event_eq_Inr order_transition_eq_Inr dest: find_order_rule_Some)
next
  assume ?rule
  then obtain r ord where r: "r \<in> set order_rules" "or_from r = s" "or_event r = e" "or_to r = t" "or_guarded r \<longrightarrow> g"
    "row (orders d) i = Some ord" "o_status ord = s" by blast
  have "find_order_rule s e \<noteq> None" using r(1-3) by (auto simp: find_order_rule_def find_None_iff)
  then obtain r' where r': "find_order_rule s e = Some r'" by auto
  have "\<forall>a \<in> set order_rules. \<forall>b \<in> set order_rules.
      or_from a = or_from b \<and> or_event a = or_event b \<longrightarrow> or_guarded a = or_guarded b \<and> or_to a = or_to b"
    by (simp add: order_rules_def)
  then have "(or_guarded r' \<longrightarrow> g) \<and> or_to r' = t" using find_order_rule_Some [OF r'] r by metis
  moreover have "order_allowed s (or_to r')" using rules_allowed find_order_rule_Some [OF r'] by auto
  ultimately show ?accepted
    using r r' by (auto simp: order_transition_by_event_eq_Inr order_transition_eq_Inr)
qed


theorem order_event_semantics_witness:
  "(\<exists>d'. order_transition_by_event ''o1'' OS_CREATED OE_PAYMENT_RESERVED None None False demo_order_db
        = Inr (OS_PAYMENT_RESERVED, d'))
     \<and> \<not> (\<exists>d'. order_transition_by_event ''o1'' OS_SETTLEMENT_HOLD OE_SETTLEMENT_RELEASED None None False demo_order_db
        = Inr (OS_COMPLETED, d'))"
proof -
  have "row (orders demo_order_db) ''o1'' = Some demo_order" by code_simp
  moreover have "\<exists>r \<in> set order_rules. or_from r = OS_CREATED \<and> or_event r = OE_PAYMENT_RESERVED
      \<and> or_to r = OS_PAYMENT_RESERVED \<and> \<not> or_guarded r"
    by (simp add: order_rules_def)
  ultimately show ?thesis
    unfolding order_event_semantics by (auto simp: demo_order_def)
qed

end
