(* ===== verification/LotState.thy ===== *)
theory LotState
  imports StatusMachine
begin

text \<open>
  \<^verbatim>\<open>backend/src/lots/lot-state.service.ts\<close>: the statuses of lots. The \<open>extra\<close> columns a
  transition may set are a function on the row; the source's type excludes the status from them.
\<close>

fun lot_status_name :: "lot_status \<Rightarrow> string" where
  "lot_status_name LS_DRAFT = ''DRAFT''"
| "lot_status_name LS_ACTIVE = ''ACTIVE''"
| "lot_status_name LS_RESERVED = ''RESERVED''"
| "lot_status_name LS_SOLD = ''SOLD''"
| "lot_status_name LS_CANCELED = ''CANCELED''"
| "lot_status_name LS_BLOCKED = ''BLOCKED''"

fun allowed_lot_transitions :: "lot_status \<Rightarrow> lot_status list" where
  "allowed_lot_transitions LS_DRAFT = [LS_ACTIVE, LS_CANCELED, LS_BLOCKED]"
| "allowed_lot_transitions LS_ACTIVE = [LS_RESERVED, LS_CANCELED, LS_BLOCKED]"
| "allowed_lot_transitions LS_RESERVED = [LS_ACTIVE, LS_SOLD, LS_BLOCKED]"
| "allowed_lot_transitions LS_SOLD = []"
| "allowed_lot_transitions LS_CANCELED = []"
| "allowed_lot_transitions LS_BLOCKED = [LS_ACTIVE, LS_SOLD]"

definition lot_allowed :: "lot_status \<Rightarrow> lot_status \<Rightarrow> bool" where
  "lot_allowed s t \<longleftrightarrow> t \<in> set (allowed_lot_transitions s)"

definition ensure_lot_transition :: "lot_status \<Rightarrow> lot_status \<Rightarrow> unit res" where
  "ensure_lot_transition s t =
     (if \<not> lot_allowed s t
      then Inl (BadRequest (''Lot status transition not allowed: '' @ lot_status_name s @ '' -> ''
                              @ lot_status_name t))
      else Inr ())"

definition record_listed :: "id \<Rightarrow> id \<Rightarrow> db \<Rightarrow> db" where
  "record_listed i seller d =
     d\<lparr>lot_events := lot_events d @ [\<lparr>ev_entity = i, ev_from = None, ev_to = LS_ACTIVE,
        ev_actor = Some seller, ev_reason = None\<rparr>]\<rparr>"

definition lot_transition ::
    "id \<Rightarrow> lot_status \<Rightarrow> lot_status \<Rightarrow> id option \<Rightarrow> string option \<Rightarrow> (lot \<Rightarrow> lot) \<Rightarrow> db \<Rightarrow> db res" where
  "lot_transition i s t actor reason extra d =
     bindE (ensure_lot_transition s t) (\<lambda>_.
       case row (lots d) i of
         None \<Rightarrow> Inl RecordNotFound
       | Some l \<Rightarrow>
           if l_status l \<noteq> s then Inl RecordNotFound
           else Inr (d\<lparr>lots := AList.update i ((extra l)\<lparr>l_status := t\<rparr>) (lots d),
                  lot_events := lot_events d @ [\<lparr>ev_entity = i, ev_from = Some s, ev_to = t,
                    ev_actor = actor, ev_reason = reason\<rparr>]\<rparr>))"

lemma ensure_lot_transition_eq_Inr [res_simps]:
  "ensure_lot_transition s t = Inr u \<longleftrightarrow> lot_allowed s t"
  by (simp add: ensure_lot_transition_def)

lemma lot_transition_eq_Inr [res_simps]:
  "lot_transition i s t actor reason extra d = Inr d' \<longleftrightarrow> lot_allowed s t \<and>
     (\<exists>l. row (lots d) i = Some l \<and> l_status l = s
        \<and> d' = d\<lparr>lots := AList.update i ((extra l)\<lparr>l_status := t\<rparr>) (lots d),
                lot_events := lot_events d @ [\<lparr>ev_entity = i, ev_from = Some s, ev_to = t,
                  ev_actor = actor, ev_reason = reason\<rparr>]\<rparr>)"
  by (auto simp: lot_transition_def res_simps split: option.splits)

definition lot_status_of :: "db \<Rightarrow> id \<Rightarrow> lot_status option" where
  "lot_status_of d i = map_option l_status (row (lots d) i)"

definition lot_move :: "id \<Rightarrow> lot_status \<Rightarrow> lot_status \<Rightarrow> db \<Rightarrow> db \<Rightarrow> bool" where
  "lot_move i s t d d' \<longleftrightarrow> (\<exists>actor reason extra. lot_transition i s t actor reason extra d = Inr d')"

interpretation lot_machine: status_machine lot_status_of lot_events lot_allowed lot_move
  by unfold_locales
     (auto simp: lot_move_def lot_transition_eq_Inr lot_status_of_def row_update fun_eq_iff)

end
