(* ===== verification/TradeState.thy ===== *)
theory TradeState
  imports StatusMachine
begin

text \<open>
  \<^verbatim>\<open>backend/src/trades/trade-operation-state.service.ts\<close>: the state machine of trade
  operations. Every rule leaves \<open>WAITING\<close>, so a trade operation changes its status at most once.
\<close>

datatype trade_event =
  TE_TRADE_CREATED | TE_DELIVERY_VERIFIED | TE_TIMEOUT | TE_MISMATCH_DETECTED
  | TE_UNKNOWN_STATE_DETECTED | TE_FAIL_SAFE

fun trade_event_name :: "trade_event \<Rightarrow> string" where
  "trade_event_name TE_TRADE_CREATED = ''TRADE_CREATED''"
| "trade_event_name TE_DELIVERY_VERIFIED = ''DELIVERY_VERIFIED''"
| "trade_event_name TE_TIMEOUT = ''TIMEOUT''"
| "trade_event_name TE_MISMATCH_DETECTED = ''MISMATCH_DETECTED''"
| "trade_event_name TE_UNKNOWN_STATE_DETECTED = ''UNKNOWN_STATE_DETECTED''"
| "trade_event_name TE_FAIL_SAFE = ''FAIL_SAFE''"

record trade_rule =
  tr_from :: trade_op_status
  tr_event :: trade_event
  tr_to :: trade_op_status
  tr_guarded :: bool
  tr_action :: string

definition trade_rules :: "trade_rule list" where
  "trade_rules =
    [\<lparr>tr_from = TS_WAITING, tr_event = TE_DELIVERY_VERIFIED, tr_to = TS_DELIVERY_VERIFIED,
        tr_guarded = True, tr_action = ''mark_delivery_verified''\<rparr>,
     \<lparr>tr_from = TS_WAITING, tr_event = TE_TIMEOUT, tr_to = TS_TIMEOUT,
        tr_guarded = False, tr_action = ''mark_timeout''\<rparr>,
     \<lparr>tr_from = TS_WAITING, tr_event = TE_MISMATCH_DETECTED, tr_to = TS_FAILED_DISPUTE,
        tr_guarded = False, tr_action = ''mark_mismatch_dispute''\<rparr>,
     \<lparr>tr_from = TS_WAITING, tr_event = TE_UNKNOWN_STATE_DETECTED, tr_to = TS_FAILED_DISPUTE,
        tr_guarded = False, tr_action = ''mark_unknown_dispute''\<rparr>,
     \<lparr>tr_from = TS_WAITING, tr_event = TE_FAIL_SAFE, tr_to = TS_FAILED_SAFE,
        tr_guarded = False, tr_action = ''mark_fail_safe''\<rparr>]"

definition record_trade_created :: "id \<Rightarrow> id option \<Rightarrow> db \<Rightarrow> db" where
  "record_trade_created i actor d =
     d\<lparr>trade_events := trade_events d @ [(\<lparr>ev_entity = i, ev_from = None, ev_to = TS_WAITING,
        ev_actor = actor, ev_reason = None\<rparr>, Some (trade_event_name TE_TRADE_CREATED))]\<rparr>"

definition find_trade_rule :: "trade_op_status \<Rightarrow> trade_event \<Rightarrow> trade_rule option" where
  "find_trade_rule s e = find (\<lambda>r. tr_from r = s \<and> tr_event r = e) trade_rules"

text \<open>The provider reference and the failure reason are kept when the caller passes none.\<close>

definition keep_or :: "'a option \<Rightarrow> 'a option \<Rightarrow> 'a option" where
  "keep_or new old = (case new of None \<Rightarrow> old | Some x \<Rightarrow> Some x)"

definition trade_transition_by_event ::
    "id \<Rightarrow> trade_op_status \<Rightarrow> trade_event \<Rightarrow> id option \<Rightarrow> string option \<Rightarrow> string option \<Rightarrow> string option
      \<Rightarrow> bool \<Rightarrow> db \<Rightarrow> (trade_op_status \<times> db) res" where
  "trade_transition_by_event i s e actor reason provider_ref fail_reason delivery_verified d =
     (case find_trade_rule s e of
        None \<Rightarrow> Inl (BadRequest (''Trade operation transition not allowed: '' @ trade_status_name s @ '' + ''
                                  @ trade_event_name e))
      | Some r \<Rightarrow>
          if tr_guarded r \<and> \<not> delivery_verified
          then Inl (BadRequest (''Trade operation guard failed: deliveryVerified''))
          else
            (case row (trade_ops d) i of
               None \<Rightarrow> Inl RecordNotFound
             | Some t \<Rightarrow>
                 if t_status t \<noteq> s then Inl RecordNotFound
                 else Inr (tr_to r, d\<lparr>
                   trade_ops := AList.update i (t\<lparr>t_status := tr_to r,
                                                 t_provider_ref := keep_or provider_ref (t_provider_ref t),
                                                 t_fail_reason := keep_or fail_reason (t_fail_reason t)\<rparr>)
                                  (trade_ops d),
                   trade_events := trade_events d @ [(\<lparr>ev_entity = i, ev_from = Some s, ev_to = tr_to r,
                     ev_actor = actor, ev_reason = reason\<rparr>, Some (trade_event_name e))]\<rparr>)))"

section \<open>The transitions obey the contract\<close>

definition trade_allowed :: "trade_op_status \<Rightarrow> trade_op_status \<Rightarrow> bool" where
  "trade_allowed s t \<longleftrightarrow> (\<exists>r \<in> set trade_rules. tr_from r = s \<and> tr_to r = t)"

lemma trade_allowed_iff: "trade_allowed s t \<longleftrightarrow>
    s = TS_WAITING \<and> t \<in> {TS_DELIVERY_VERIFIED, TS_TIMEOUT, TS_FAILED_DISPUTE, TS_FAILED_SAFE}"
  by (auto simp: trade_allowed_def trade_rules_def)

lemma find_trade_rule_Some:
  "find_trade_rule s e = Some r \<Longrightarrow> r \<in> set trade_rules \<and> tr_from r = s \<and> tr_event r = e"
  by (auto simp: find_trade_rule_def find_Some_iff in_set_conv_nth)

lemma trade_transition_by_event_eq_Inr [res_simps]:
  "trade_transition_by_event i s e actor reason pr fr g d = Inr (t, d') \<longleftrightarrow>
     (\<exists>r op. find_trade_rule s e = Some r \<and> t = tr_to r \<and> (tr_guarded r \<longrightarrow> g)
        \<and> row (trade_ops d) i = Some op \<and> t_status op = s
        \<and> d' = d\<lparr>trade_ops := AList.update i (op\<lparr>t_status := tr_to r,
                                      t_provider_ref := keep_or pr (t_provider_ref op),
                                      t_fail_reason := keep_or fr (t_fail_reason op)\<rparr>) (trade_ops d),
              trade_events := trade_events d @ [(\<lparr>ev_entity = i, ev_from = Some s, ev_to = tr_to r,
                ev_actor = actor, ev_reason = reason\<rparr>, Some (trade_event_name e))]\<rparr>)"
  by (auto simp: trade_transition_by_event_def split: option.splits)

definition trade_status_of :: "db \<Rightarrow> id \<Rightarrow> trade_op_status option" where
  "trade_status_of d i = map_option t_status (row (trade_ops d) i)"

definition trade_history :: "db \<Rightarrow> trade_op_status status_event list" where
  "trade_history d = map fst (trade_events d)"

definition trade_move :: "id \<Rightarrow> trade_op_status \<Rightarrow> trade_op_status \<Rightarrow> db \<Rightarrow> db \<Rightarrow> bool" where
  "trade_move i s t d d' \<longleftrightarrow> (\<exists>e actor reason pr fr g. trade_transition_by_event i s e actor reason pr fr g d = Inr (t, d'))"

interpretation trade_machine: status_machine trade_status_of trade_history trade_allowed trade_move
  by unfold_locales
     (auto simp: trade_move_def trade_transition_by_event_eq_Inr trade_status_of_def trade_history_def
        row_update fun_eq_iff trade_allowed_def dest!: find_trade_rule_Some)

end
