(* ===== verification/SettlementGuard.thy ===== *)
theory SettlementGuard
  imports DeliveryProof OrderState LotState TradeState
begin

text \<open>
  \<^verbatim>\<open>settlement/settlement-guard.service.ts\<close>: may the money of an order be paid out? \<open>can_settle\<close>
  is split like the source's method: the checks that apply to every order, the daily limits, and
  the checks of an order in its protection period, which read the stored proof, the recorded
  conflicts, the agreement of hold, journal and order, and finally either the risk budget or a
  fresh receipt of the trade provider. An exception in that part becomes
  \<open>STEAM_RECHECK_UNAVAILABLE\<close>; the provider is the only thing there that throws.
\<close>

datatype guard_result = Allowed | Blocked string

record settlement_order =
  so_id :: id
  so_order :: order
  so_buyer_steam :: "string option"
  so_seller_steam :: "string option"
  so_hold :: "(id \<times> hold) option"
  so_lot :: lot
  so_trade :: "(id \<times> trade_op) option"

definition hold_of :: "id \<Rightarrow> db \<Rightarrow> (id \<times> hold) option" where
  "hold_of oid d = find (\<lambda>(_, h). h_order h = oid) (holds d)"

definition trade_of :: "id \<Rightarrow> db \<Rightarrow> (id \<times> trade_op) option" where
  "trade_of oid d = find (\<lambda>(_, t). t_order t = oid) (trade_ops d)"

definition steam_id_of :: "id \<Rightarrow> db \<Rightarrow> string option" where
  "steam_id_of u d = (case row (users (bank d)) u of Some usr \<Rightarrow> u_steam_id usr | None \<Rightarrow> None)"

text \<open>\<open>loadOrder\<close>: the order with its relations; the lot is required by a foreign key.\<close>

definition load_order :: "id \<Rightarrow> db \<Rightarrow> settlement_order option" where
  "load_order oid d =
     (case row (orders d) oid of
        None \<Rightarrow> None
      | Some ord \<Rightarrow>
          (case row (lots d) (o_lot ord) of
             None \<Rightarrow> None
           | Some l \<Rightarrow> Some
               \<lparr>so_id = oid, so_order = ord, so_buyer_steam = steam_id_of (o_buyer ord) d,
                so_seller_steam = steam_id_of (o_seller ord) d, so_hold = hold_of oid d, so_lot = l,
                so_trade = trade_of oid d\<rparr>))"

section \<open>The checks\<close>

definition present :: "string option \<Rightarrow> bool" where
  "present s \<longleftrightarrow> s \<noteq> None \<and> s \<noteq> Some []"

text \<open>The allow list: whether the user may settle, and the user's own limit.\<close>

definition resolve_allowlist :: "world \<Rightarrow> string \<Rightarrow> db \<Rightarrow> bool \<times> int option" where
  "resolve_allowlist w steam d =
     (if settlement_open_rollout w then (True, None)
      else if steam \<in> set (env_allowlist_steam_ids w) then (True, None)
      else case row (allowlist d) steam of
             None \<Rightarrow> (False, None)
           | Some e \<Rightarrow> if al_enabled e then (True, al_max_order e) else (False, None))"

definition lower_limit :: "int option \<Rightarrow> int \<Rightarrow> int" where
  "lower_limit c limit = (case c of Some v \<Rightarrow> if v < limit then v else limit | None \<Rightarrow> limit)"

definition effective_max_order :: "world \<Rightarrow> int option \<Rightarrow> int option \<Rightarrow> int" where
  "effective_max_order w buyer_max seller_max = lower_limit seller_max (lower_limit buyer_max (max_order_minor w))"

definition delivery_verified_status :: "trade_op_status \<Rightarrow> bool" where
  "delivery_verified_status s \<longleftrightarrow> s = TS_DELIVERY_VERIFIED \<or> s = TS_CONFIRMED"

definition base_guard :: "world \<Rightarrow> settlement_order \<Rightarrow> db \<Rightarrow> guard_result" where
  "base_guard w so d =
     (if \<not> real_settlement_enabled w then Blocked ''REAL_SETTLEMENT_DISABLED''
      else if trade_verification_mode w \<noteq> VM_live then Blocked ''NOT_LIVE_MODE''
      else case so_trade so of
        None \<Rightarrow> Blocked ''TRADE_NOT_CONFIRMED''
      | Some (_, t) \<Rightarrow>
          if \<not> delivery_verified_status (t_status t) then Blocked ''TRADE_NOT_CONFIRMED''
          else if o_status (so_order so) \<noteq> OS_TRADE_CONFIRMED \<and> o_status (so_order so) \<noteq> OS_SETTLEMENT_HOLD
          then Blocked ''ORDER_NOT_TRADE_CONFIRMED''
          else if \<not> present (so_buyer_steam so) then Blocked ''MISSING_BUYER_STEAM_ID''
          else if \<not> present (so_seller_steam so) then Blocked ''MISSING_SELLER_STEAM_ID''
          else
            let (buyer_ok, buyer_max) = resolve_allowlist w (the (so_buyer_steam so)) d;
                (seller_ok, seller_max) = resolve_allowlist w (the (so_seller_steam so)) d;
                limit = effective_max_order w buyer_max seller_max
            in if \<not> buyer_ok then Blocked ''BUYER_NOT_ALLOWLISTED''
               else if \<not> seller_ok then Blocked ''SELLER_NOT_ALLOWLISTED''
               else if o_amount (so_order so) \<le> 0 \<or> limit < o_amount (so_order so)
               then Blocked ''ORDER_AMOUNT_EXCEEDS_LIMIT''
               else if \<exists>e \<in> set (entries (bank d)). le_order e = Some (so_id so) \<and> le_type e = LE_SETTLEMENT_SELLER
               then Blocked ''SETTLEMENT_FINANCIAL_INCONSISTENCY''
               else Allowed)"

definition limits_guard :: "world \<Rightarrow> int \<Rightarrow> settlement_order \<Rightarrow> db \<Rightarrow> guard_result" where
  "limits_guard w now so d =
     (let (order_count, volume) = (case row (daily_stats d) (utc_day_key now) of
            Some s \<Rightarrow> s | None \<Rightarrow> (0, 0))
      in if max_daily_orders w \<le> order_count then Blocked ''DAILY_ORDER_LIMIT''
         else if max_daily_volume_minor w < volume + o_amount (so_order so) then Blocked ''DAILY_VOLUME_LIMIT''
         else Allowed)"

definition settlement_anchors :: "settlement_order \<Rightarrow> trade_op option \<Rightarrow> proof_anchors" where
  "settlement_anchors so trd =
     \<lparr>an_order = so_id so,
      an_offer = (case trd of Some t \<Rightarrow> (case t_offer_id t of Some x \<Rightarrow> x | None \<Rightarrow> []) | None \<Rightarrow> []),
      an_asset = (case trd of Some t \<Rightarrow> (case t_expected_asset t of Some x \<Rightarrow> x | None \<Rightarrow> []) | None \<Rightarrow> []),
      an_seller = (case so_seller_steam so of Some x \<Rightarrow> x | None \<Rightarrow> []),
      an_buyer = (case so_buyer_steam so of Some x \<Rightarrow> x | None \<Rightarrow> []),
      an_binding = (case trd of Some t \<Rightarrow> t_trade_binding t | None \<Rightarrow> None)\<rparr>"

definition recorded_conflict :: "settlement_order \<Rightarrow> db \<Rightarrow> bool" where
  "recorded_conflict so d \<longleftrightarrow>
     (\<exists>p \<in> set (poll_events d).
        (case row (trade_ops d) (po_trade_op p) of Some t \<Rightarrow> t_order t = so_id so | None \<Rightarrow> False)
        \<and> (case po_error p of None \<Rightarrow> False
           | Some e \<Rightarrow> str_includes e ''REVERS'' \<or> str_includes e ''CONFLICT'' \<or> str_includes e ''MISMATCH''))"

text \<open>The hold, the journal and the order name the same amount, and none of it is spent.\<close>

definition reserve_sum :: "id \<Rightarrow> db \<Rightarrow> int option" where
  "reserve_sum hold_id d =
     (let es = filter (\<lambda>e. le_hold e = Some hold_id \<and> le_type e = LE_HOLD_RESERVE) (entries (bank d))
      in if es = [] then None else Some (sum_list (map le_amount es)))"

definition financially_consistent :: "settlement_order \<Rightarrow> db \<Rightarrow> bool" where
  "financially_consistent so d =
     (let amount = o_amount (so_order so) in
      case hold_of (so_id so) d of
        None \<Rightarrow> False
      | Some (hid, h) \<Rightarrow>
          h_amount h = amount \<and> o_hold_amount (so_order so) = amount \<and> h_captured h = 0 \<and> h_released h = 0
          \<and> h_settlement_released_at h = None \<and> 0 \<le> l_seller_receive (so_lot so) \<and> 0 \<le> l_commission (so_lot so)
          \<and> l_seller_receive (so_lot so) + l_commission (so_lot so) = amount
          \<and> reserve_sum hid d = Some (- amount))"

definition exposure :: "db \<Rightarrow> int" where
  "exposure d =
     tsum (\<lambda>i ord. if (o_status ord = OS_SETTLEMENT_HOLD \<or> o_status ord = OS_DISPUTE)
         \<and> (case hold_of i d of None \<Rightarrow> False
            | Some (_, h) \<Rightarrow> h_settlement_released_at h = None \<and> h_captured h = 0 \<and> h_released h = 0)
         then o_amount ord else 0) (orders d)"

definition stored_field :: "json \<Rightarrow> string \<Rightarrow> string" where
  "stored_field p k = json_to_string (json_get p k)"

text \<open>The fresh read of the receipt; a missing reader and a reader that throws block alike.\<close>

definition recheck_guard :: "world \<Rightarrow> settlement_order \<Rightarrow> json \<Rightarrow> string option \<Rightarrow> guard_result" where
  "recheck_guard w so stored binding =
     (case verify_receipt w of
        None \<Rightarrow> Blocked ''STEAM_RECHECK_UNAVAILABLE''
      | Some verify \<Rightarrow>
          (case verify \<lparr>rq_trade = stored_field stored ''tradeId'', rq_offer = stored_field stored ''offerId'',
                        rq_seller = so_seller_steam so, rq_buyer = so_buyer_steam so,
                        rq_asset = stored_field stored ''originalAssetId'',
                        rq_binding = (if binding = Some [] then None else binding)\<rparr> of
             Inl _ \<Rightarrow> Blocked ''STEAM_RECHECK_UNAVAILABLE''
           | Inr rc \<Rightarrow>
               if rc_reversal rc then Blocked ''STEAM_REVERSAL_DETECTED''
               else if rc_status rc \<noteq> Offer_accepted \<or> \<not> rc_receipt_verified rc \<or> rc_identity_conflict rc
                       \<or> rc_trade_id rc \<noteq> Some (stored_field stored ''tradeId'')
               then Blocked ''STEAM_RECHECK_UNAVAILABLE''
               else Allowed))"

definition protection_guard :: "world \<Rightarrow> int \<Rightarrow> settlement_order \<Rightarrow> db \<Rightarrow> guard_result" where
  "protection_guard w now so d =
     (let trd = map_option snd (trade_of (so_id so) d);
          proof_json = map_option t_delivery_proof trd;
          anchors = settlement_anchors so trd;
          stored = bound_delivery_proof w proof_json anchors;
          fail_reason = (case trd of Some t \<Rightarrow> t_fail_reason t | None \<Rightarrow> None)
      in if map_option t_stage trd = Some ''MANUAL_REVIEW''
            \<or> present fail_reason \<and> fail_reason \<noteq> Some ''STEAM_RECHECK_UNAVAILABLE''
         then Blocked ''SETTLEMENT_REVIEW_REQUIRED''
         else if recorded_conflict so d then Blocked ''SETTLEMENT_REVIEW_REQUIRED''
         else if \<not> financially_consistent so d then Blocked ''SETTLEMENT_FINANCIAL_INCONSISTENCY''
         else case (stored, proof_deadline w proof_json anchors) of
           (Some st, Some deadline) \<Rightarrow>
             if now < deadline then Blocked ''SETTLEMENT_PROTECTION_ACTIVE''
             else if proof_window_settlement w \<and> supports_proof_window w proof_json anchors
             then
               (if auto_settlement_max_order w \<le> 0 \<or> auto_settlement_max_exposure w \<le> 0
                   \<or> auto_settlement_max_order w < o_amount (so_order so)
                   \<or> auto_settlement_max_exposure w < exposure d
                then Blocked ''AUTO_SETTLEMENT_RISK_LIMIT'' else Allowed)
             else recheck_guard w so st (case trd of Some t \<Rightarrow> t_trade_binding t | None \<Rightarrow> None)
         | _ \<Rightarrow> Blocked ''STEAM_RECHECK_UNAVAILABLE'')"

definition can_settle :: "world \<Rightarrow> int \<Rightarrow> settlement_order \<Rightarrow> db \<Rightarrow> guard_result" where
  "can_settle w now so d =
     (case base_guard w so d of
        Blocked c \<Rightarrow> Blocked c
      | Allowed \<Rightarrow>
          (case limits_guard w now so d of
             Blocked c \<Rightarrow> Blocked c
           | Allowed \<Rightarrow>
               if o_status (so_order so) = OS_SETTLEMENT_HOLD then protection_guard w now so d else Allowed))"

section \<open>What an allowed settlement guarantees\<close>

lemma guard_allowed_cases:
  "(case g of Blocked c \<Rightarrow> Blocked c | Allowed \<Rightarrow> h) = Allowed \<longleftrightarrow> g = Allowed \<and> h = Allowed"
  by (cases g) auto

lemma if_Blocked_Allowed: "(if b then Blocked c else g) = Allowed \<longleftrightarrow> \<not> b \<and> g = Allowed"
  by auto

lemmas guard_simps = guard_allowed_cases if_Blocked_Allowed

lemma base_guard_allowed:
  "base_guard w so d = Allowed \<Longrightarrow>
     real_settlement_enabled w \<and> trade_verification_mode w = VM_live
     \<and> (\<exists>i t. so_trade so = Some (i, t) \<and> delivery_verified_status (t_status t))
     \<and> o_status (so_order so) \<in> {OS_TRADE_CONFIRMED, OS_SETTLEMENT_HOLD}
     \<and> present (so_buyer_steam so) \<and> present (so_seller_steam so) \<and> 0 < o_amount (so_order so)
     \<and> (\<forall>e \<in> set (entries (bank d)). \<not> (le_order e = Some (so_id so) \<and> le_type e = LE_SETTLEMENT_SELLER))"
  by (auto simp: base_guard_def Let_def split: option.splits if_splits prod.splits)

lemma protection_guard_allowed:
  assumes "protection_guard w now so d = Allowed"
  shows "\<exists>i t p verified deadline. trade_of (so_id so) d = Some (i, t) \<and> t_delivery_proof t = p
     \<and> t_stage t \<noteq> ''MANUAL_REVIEW'' \<and> \<not> recorded_conflict so d \<and> financially_consistent so d
     \<and> proves_delivery w p (settlement_anchors so (Some t)) verified deadline
     \<and> verified + steam_protection_ms w \<le> deadline \<and> deadline \<le> now"
proof -
  have "trade_of (so_id so) d \<noteq> None"
    using assms by (auto simp: protection_guard_def Let_def bound_delivery_proof_def guard_simps split: option.splits)
  then obtain i t where t: "trade_of (so_id so) d = Some (i, t)" by auto
  let ?an = "settlement_anchors so (Some t)"
  from assms t obtain deadline where *: "t_stage t \<noteq> ''MANUAL_REVIEW''" "\<not> recorded_conflict so d"
    "financially_consistent so d" "proof_deadline w (Some (t_delivery_proof t)) ?an = Some deadline" "deadline \<le> now"
    by (auto simp: protection_guard_def Let_def guard_simps split: option.splits)
  from proof_deadline_proves [OF *(4)] obtain verified where
    "proves_delivery w (t_delivery_proof t) ?an verified deadline" "verified + steam_protection_ms w \<le> deadline"
    by auto
  with t * show ?thesis by blast
qed

lemma can_settle_allowed:
  "can_settle w now so d = Allowed \<Longrightarrow> base_guard w so d = Allowed \<and> limits_guard w now so d = Allowed
     \<and> (o_status (so_order so) = OS_SETTLEMENT_HOLD \<longrightarrow> protection_guard w now so d = Allowed)"
  by (simp add: can_settle_def guard_simps split: if_splits)

end
