(* ===== verification/Settlement.thy ===== *)
theory Settlement
  imports SettlementGuard LedgerRuns
begin

text \<open>
  \<^verbatim>\<open>settlement/settlement.service.ts\<close>: after the delivery of an order is verified its money
  waits in a settlement hold until the protection period of the trade has passed; then it is
  paid to the seller and the platform, or, when the trade was reversed, refunded. Each definition
  is the body of one transaction or a part of one. The row locks and the advisory lock of
  \<open>loadOrder\<close> serialise these transactions, which is why a body reads one state.
\<close>

record attempt_result =
  at_settled :: bool
  at_in_hold :: bool
  at_guard :: guard_result

definition type_error :: error where
  "type_error = PlainError ''TypeError''"

definition set_asset_status :: "id \<Rightarrow> asset_status \<Rightarrow> db \<Rightarrow> db res" where
  "set_asset_status i s d =
     bindE (update_row i (\<lambda>a. a\<lparr>a_status := s\<rparr>) (assets d)) (\<lambda>t. Inr (d\<lparr>assets := t\<rparr>))"

definition update_hold :: "id \<Rightarrow> (hold \<Rightarrow> hold) \<Rightarrow> db \<Rightarrow> db res" where
  "update_hold i f d = bindE (update_row i f (holds d)) (\<lambda>t. Inr (d\<lparr>holds := t\<rparr>))"

definition extension_first_trade_flow :: "world \<Rightarrow> bool" where
  "extension_first_trade_flow w = flag w ''ENABLE_EXTENSION_FIRST_TRADE_FLOW''"

definition should_use_hold_window :: "world \<Rightarrow> bool" where
  "should_use_hold_window w \<longleftrightarrow>
     real_settlement_enabled w \<and> settlement_hold_window_enabled w \<and> extension_first_trade_flow w"

definition stored_proof :: "settlement_order \<Rightarrow> json option" where
  "stored_proof so = map_option (\<lambda>(_, t). t_delivery_proof t) (so_trade so)"

definition proof_field :: "json option \<Rightarrow> string \<Rightarrow> json option" where
  "proof_field p k = (case p of None \<Rightarrow> None | Some j \<Rightarrow> json_get j k)"

definition is_hold_release_due :: "world \<Rightarrow> int \<Rightarrow> settlement_order \<Rightarrow> hold \<Rightarrow> bool" where
  "is_hold_release_due w now so h =
     (if h_settlement_released_at h \<noteq> None then False
      else if json_truthy (stored_proof so)
      then (case proof_field (stored_proof so) ''protectionUntil'' of
              Some (JStr s) \<Rightarrow> (case date_parse w s of Some t \<Rightarrow> t \<le> now | None \<Rightarrow> False)
            | _ \<Rightarrow> False)
      else (case h_settlement_until h of None \<Rightarrow> False | Some t \<Rightarrow> t \<le> now))"

definition is_delivery_verified :: "settlement_order \<Rightarrow> bool" where
  "is_delivery_verified so =
     (case so_trade so of None \<Rightarrow> False | Some (_, t) \<Rightarrow> delivery_verified_status (t_status t))"

definition emit_settlement_blocked :: "id \<Rightarrow> string \<Rightarrow> db \<Rightarrow> db" where
  "emit_settlement_blocked oid code d =
     (if \<exists>o_row \<in> set (outbox d). ob_event o_row = ''SETTLEMENT_BLOCKED'' \<and> ob_aggregate_type o_row = ''order''
            \<and> ob_aggregate o_row = oid
      then d
      else append_outbox \<lparr>ob_event = ''SETTLEMENT_BLOCKED'', ob_aggregate_type = ''order'', ob_aggregate = oid,
             ob_payload = JObj [(''orderId'', JStr oid), (''code'', JStr code)]\<rparr> d)"

definition increment_daily_stats :: "int \<Rightarrow> int \<Rightarrow> db \<Rightarrow> db" where
  "increment_daily_stats now amount d =
     (let day = utc_day_key now in
      d\<lparr>daily_stats := (case row (daily_stats d) day of
           None \<Rightarrow> insert_row day (1, amount) (daily_stats d)
         | Some (n, v) \<Rightarrow> AList.update day (n + 1, v + amount) (daily_stats d))\<rparr>)"

section \<open>Entering the hold\<close>

text \<open>The end of the protection: the instant the proof names, and otherwise the period from now.\<close>

definition settlement_hold_until :: "world \<Rightarrow> int \<Rightarrow> settlement_order \<Rightarrow> int" where
  "settlement_hold_until w now so =
     (let saved = proof_field (stored_proof so) ''protectionUntil'' in
      case (if json_truthy saved then date_parse w (json_to_string saved) else None) of
        Some t \<Rightarrow> t
      | None \<Rightarrow> now + steam_protection_ms w)"

definition enter_settlement_hold ::
    "world \<Rightarrow> int \<Rightarrow> settlement_order \<Rightarrow> string \<Rightarrow> id option \<Rightarrow> db \<Rightarrow> db res" where
  "enter_settlement_hold w now so key actor d =
     (let oid = so_id so; enter_key = settlement_hold_enter_key oid in
      if find_audit ''order'' oid ''SETTLEMENT_HOLD_ENTERED'' enter_key d then Inr d
      else
        let until = settlement_hold_until w now so in
        bindE (order_transition_by_event oid OS_TRADE_CONFIRMED OE_SETTLEMENT_STARTED actor
                 (Some ''SETTLEMENT_HOLD_WINDOW'') (is_delivery_verified so) d) (\<lambda>(_, d).
        case so_hold so of
          None \<Rightarrow> Inl type_error
        | Some (hid, h) \<Rightarrow>
            bindE (update_hold hid (\<lambda>h. h\<lparr>h_settlement_until := Some until\<rparr>) d) (\<lambda>d.
            Inr (append_outbox
                   \<lparr>ob_event = ''SETTLEMENT_HOLD_STARTED'', ob_aggregate_type = ''order'', ob_aggregate = oid,
                    ob_payload = JObj [(''orderId'', JStr oid), (''settlementHoldUntil'', JStr (iso_string until))]\<rparr>
                 (append_audit
                   \<lparr>au_actor = actor, au_entity_type = ''order'', au_entity_id = oid,
                    au_action = ''SETTLEMENT_HOLD_ENTERED'', au_reason = None,
                    au_before = JObj [(''status'', json_status OS_TRADE_CONFIRMED),
                                      (''capturedMinor'', JStr (show_int (h_captured h)))],
                    au_after = JObj [(''status'', json_status OS_SETTLEMENT_HOLD),
                                     (''settlementHoldUntil'', JStr (iso_string until)),
                                     (''triggerIdempotencyKey'', JStr key)],
                    au_key = Some enter_key\<rparr> d)))))"

section \<open>Paying out\<close>

definition release_records :: "int \<Rightarrow> settlement_order \<Rightarrow> hold \<Rightarrow> id option \<Rightarrow> db \<Rightarrow> db" where
  "release_records now so h actor d =
     (let oid = so_id so in
      append_outbox \<lparr>ob_event = ''SALE_SETTLED'', ob_aggregate_type = ''order'', ob_aggregate = oid,
                     ob_payload = JObj [(''orderId'', JStr oid)]\<rparr>
     (append_outbox \<lparr>ob_event = ''ORDER_COMPLETED'', ob_aggregate_type = ''order'', ob_aggregate = oid,
                     ob_payload = JObj [(''orderId'', JStr oid)]\<rparr>
     (append_audit
        \<lparr>au_actor = actor, au_entity_type = ''order'', au_entity_id = oid,
         au_action = ''SETTLEMENT_HOLD_RELEASED'', au_reason = None,
         au_before = JObj [(''status'', json_status (o_status (so_order so))), (''capturedMinor'', JStr ''0'')],
         au_after = JObj [(''status'', json_status OS_COMPLETED),
                          (''capturedMinor'', JStr (show_int (h_amount h))),
                          (''settlementReleasedAt'', JStr (iso_string now)),
                          (''ledgerIdempotencyKey'', JStr (settlement_hold_release_key oid))],
         au_key = Some (settlement_hold_release_key oid)\<rparr> d)))"

definition pay_out :: "int \<Rightarrow> settlement_order \<Rightarrow> id \<Rightarrow> hold \<Rightarrow> id option \<Rightarrow> db \<Rightarrow> db res" where
  "pay_out now so hid h actor d =
     (let oid = so_id so; ord = so_order so; l = so_lot so in
      bindE (settle_sale (o_buyer ord) (o_seller ord) oid hid (h_amount h) (l_seller_receive l) (l_commission l)
               (settlement_hold_release_key oid) (bank d)) (\<lambda>(_, b).
      bindE (update_hold hid (\<lambda>h'. h'\<lparr>h_captured := h_amount h, h_settlement_released_at := Some now\<rparr>)
               (d\<lparr>bank := b\<rparr>)) (\<lambda>d.
      bindE (order_transition_by_event oid OS_SETTLEMENT_HOLD OE_SETTLEMENT_RELEASED actor
               (Some ''SETTLEMENT_HOLD_RELEASED'') (is_delivery_verified so) d) (\<lambda>(_, d).
      bindE (lot_transition (o_lot ord) (l_status l) LS_SOLD actor None (\<lambda>l. l) d) (\<lambda>d.
      bindE (set_asset_status (l_asset l) IA_SOLD d) (\<lambda>d.
      Inr (release_records now so h actor (increment_daily_stats now (o_amount ord) d))))))))"

definition release_settlement_hold ::
    "world \<Rightarrow> int \<Rightarrow> settlement_order \<Rightarrow> id option \<Rightarrow> db \<Rightarrow> db res" where
  "release_settlement_hold w now so actor d =
     (let oid = so_id so; ord = so_order so in
      if o_status ord = OS_COMPLETED then Inr d
      else if o_status ord \<noteq> OS_SETTLEMENT_HOLD \<or> \<not> real_settlement_enabled w then Inr d
      else case so_hold so of
        None \<Rightarrow> Inl type_error
      | Some (hid, h) \<Rightarrow>
          if \<not> is_hold_release_due w now so h then Inr d
          else if find_audit ''order'' oid ''SETTLEMENT_HOLD_RELEASED'' (settlement_hold_release_key oid) d
                  \<or> h_settlement_released_at h \<noteq> None then Inr d
          else if 0 < h_captured h then Inr d
          else pay_out now so hid h actor d)"

section \<open>The entry points\<close>

definition try_settle_confirmed_order ::
    "world \<Rightarrow> int \<Rightarrow> id \<Rightarrow> string \<Rightarrow> db \<Rightarrow> (attempt_result \<times> db) res" where
  "try_settle_confirmed_order w now oid key d =
     (case load_order oid d of
        None \<Rightarrow> Inl (NotFound ''Order not found'')
      | Some so \<Rightarrow>
          (case can_settle w now so d of
             Blocked c \<Rightarrow>
               Inr (\<lparr>at_settled = False, at_in_hold = False, at_guard = Blocked c\<rparr>, emit_settlement_blocked oid c d)
           | Allowed \<Rightarrow>
               if o_status (so_order so) = OS_COMPLETED
               then Inr (\<lparr>at_settled = True, at_in_hold = False, at_guard = Allowed\<rparr>, d)
               else if o_status (so_order so) = OS_SETTLEMENT_HOLD then
                 (case so_hold so of
                    None \<Rightarrow> Inl type_error
                  | Some (_, h) \<Rightarrow>
                      if \<not> is_hold_release_due w now so h
                      then Inr (\<lparr>at_settled = False, at_in_hold = True, at_guard = Allowed\<rparr>, d)
                      else bindE (release_settlement_hold w now so None d) (\<lambda>d.
                           Inr (\<lparr>at_settled = True, at_in_hold = False, at_guard = Allowed\<rparr>, d)))
               else if (json_truthy (stored_proof so) \<or> should_use_hold_window w)
                       \<and> o_status (so_order so) = OS_TRADE_CONFIRMED
               then bindE (enter_settlement_hold w now so key None d) (\<lambda>d.
                    Inr (\<lparr>at_settled = False, at_in_hold = True, at_guard = Allowed\<rparr>, d))
               else Inr (\<lparr>at_settled = False, at_in_hold = False,
                          at_guard = Blocked ''SETTLEMENT_EVIDENCE_INVALID''\<rparr>, d)))"

definition release_due_settlement_hold ::
    "world \<Rightarrow> int \<Rightarrow> id \<Rightarrow> db \<Rightarrow> (attempt_result \<times> db) res" where
  "release_due_settlement_hold w now oid d =
     (case load_order oid d of
        None \<Rightarrow> Inl (NotFound ''Order not found'')
      | Some so \<Rightarrow>
          if o_status (so_order so) = OS_COMPLETED
          then Inr (\<lparr>at_settled = True, at_in_hold = False, at_guard = Allowed\<rparr>, d)
          else if o_status (so_order so) \<noteq> OS_SETTLEMENT_HOLD
          then Inr (\<lparr>at_settled = False, at_in_hold = False, at_guard = Blocked ''ORDER_NOT_TRADE_CONFIRMED''\<rparr>, d)
          else if \<not> real_settlement_enabled w
          then Inr (\<lparr>at_settled = False, at_in_hold = True, at_guard = Blocked ''REAL_SETTLEMENT_DISABLED''\<rparr>, d)
          else case so_hold so of
            None \<Rightarrow> Inl type_error
          | Some (_, h) \<Rightarrow>
              if \<not> is_hold_release_due w now so h
              then Inr (\<lparr>at_settled = False, at_in_hold = True, at_guard = Allowed\<rparr>, d)
              else (case can_settle w now so d of
                      Blocked c \<Rightarrow> Inr (\<lparr>at_settled = False, at_in_hold = True, at_guard = Blocked c\<rparr>,
                                      emit_settlement_blocked oid c d)
                    | Allowed \<Rightarrow>
                        bindE (release_settlement_hold w now so None d) (\<lambda>d.
                        Inr (\<lparr>at_settled = True, at_in_hold = False, at_guard = Allowed\<rparr>, d))))"

definition settle_completed_order ::
    "world \<Rightarrow> int \<Rightarrow> id \<Rightarrow> string \<Rightarrow> id option \<Rightarrow> db \<Rightarrow> db res" where
  "settle_completed_order w now oid key actor d =
     (case load_order oid d of
        None \<Rightarrow> Inl (NotFound ''Order not found'')
      | Some so \<Rightarrow>
          if o_status (so_order so) = OS_COMPLETED then Inr d
          else if o_status (so_order so) = OS_SETTLEMENT_HOLD then
            (if \<not> real_settlement_enabled w then Inr d
             else case so_hold so of
               None \<Rightarrow> Inl type_error
             | Some (_, h) \<Rightarrow>
                 if \<not> is_hold_release_due w now so h then Inr d
                 else (case can_settle w now so d of
                         Blocked c \<Rightarrow> Inr (emit_settlement_blocked oid c d)
                       | Allowed \<Rightarrow> release_settlement_hold w now so actor d))
          else if (json_truthy (stored_proof so) \<or> should_use_hold_window w)
                  \<and> o_status (so_order so) = OS_TRADE_CONFIRMED
          then enter_settlement_hold w now so key actor d
          else Inr d)"

section \<open>Reversal\<close>

definition reverse_hold_tx ::
    "settlement_order \<Rightarrow> string \<Rightarrow> string \<Rightarrow> id option \<Rightarrow> db \<Rightarrow> db res" where
  "reverse_hold_tx so reason key actor d =
     (let oid = so_id so; ord = so_order so; l = so_lot so in
      if o_status ord \<noteq> OS_SETTLEMENT_HOLD then Inl (NotFound ''Order is not in settlement hold'')
      else case so_hold so of
        None \<Rightarrow> Inl type_error
      | Some (hid, h) \<Rightarrow>
          if 0 < h_captured h \<or> h_settlement_released_at h \<noteq> None
          then Inl (NotFound ''Settlement hold was already released'')
          else
            let refund = h_amount h - h_released h in
            bindE (if 0 < refund
                   then bindE (refund_hold (o_buyer ord) oid hid refund key (bank d)) (\<lambda>(_, b). Inr (d\<lparr>bank := b\<rparr>))
                   else Inr d) (\<lambda>d.
            bindE (update_hold hid (\<lambda>h'. h'\<lparr>h_released := h_amount h\<rparr>) d) (\<lambda>d.
            bindE (order_transition_by_event oid OS_SETTLEMENT_HOLD OE_SETTLEMENT_REVERSED actor (Some reason)
                     False d) (\<lambda>(_, d).
            bindE (lot_transition (o_lot ord) (l_status l) LS_BLOCKED actor None (\<lambda>l. l) d) (\<lambda>d.
            bindE (set_asset_status (l_asset l) IA_BLOCKED d) (\<lambda>d.
            Inr (append_outbox
                   \<lparr>ob_event = ''SETTLEMENT_HOLD_REVERSED'', ob_aggregate_type = ''order'', ob_aggregate = oid,
                    ob_payload = JObj [(''orderId'', JStr oid), (''reasonCode'', JStr reason)]\<rparr>
                 (append_audit
                   \<lparr>au_actor = actor, au_entity_type = ''order'', au_entity_id = oid,
                    au_action = ''SETTLEMENT_HOLD_REVERSED'', au_reason = Some reason,
                    au_before = JObj [(''status'', json_status OS_SETTLEMENT_HOLD),
                                      (''holdAmountMinor'', JStr (show_int (h_amount h)))],
                    au_after = JObj [(''status'', json_status OS_DISPUTE),
                                     (''refundedMinor'', JStr (show_int refund))],
                    au_key = Some key\<rparr> d))))))))"

definition reverse_settlement_hold ::
    "id \<Rightarrow> string \<Rightarrow> string \<Rightarrow> id option \<Rightarrow> db \<Rightarrow> db res" where
  "reverse_settlement_hold oid reason key actor d =
     (if find_audit ''order'' oid ''SETTLEMENT_HOLD_REVERSED'' key d then Inr d
      else case load_order oid d of
        None \<Rightarrow> Inl (NotFound ''Order not found'')
      | Some so \<Rightarrow> reverse_hold_tx so reason key actor d)"

section \<open>Effects\<close>

text \<open>The parts that touch neither the bank nor the orders, holds and trade operations.\<close>

lemma append_frame [simp]:
  "bank (append_audit a d) = bank d" "bank (append_outbox o_row d) = bank d"
  "orders (append_audit a d) = orders d" "orders (append_outbox o_row d) = orders d"
  "holds (append_audit a d) = holds d" "holds (append_outbox o_row d) = holds d"
  "lots (append_audit a d) = lots d" "lots (append_outbox o_row d) = lots d"
  "assets (append_audit a d) = assets d" "assets (append_outbox o_row d) = assets d"
  "trade_ops (append_audit a d) = trade_ops d" "trade_ops (append_outbox o_row d) = trade_ops d"
  "audit (append_audit a d) = audit d @ [a]" "audit (append_outbox o_row d) = audit d"
  by (simp_all add: append_audit_def append_outbox_def)

lemma emit_blocked_frame [simp]: "bank (emit_settlement_blocked oid c d) = bank d"
  by (simp add: emit_settlement_blocked_def)

lemma set_asset_status_eq_Inr [res_simps]:
  "set_asset_status i s d = Inr d' \<longleftrightarrow>
     (\<exists>a. row (assets d) i = Some a \<and> d' = d\<lparr>assets := AList.update i (a\<lparr>a_status := s\<rparr>) (assets d)\<rparr>)"
  by (auto simp: set_asset_status_def bindE_eq_Inr update_row_eq_Inr)

lemma update_hold_eq_Inr [res_simps]:
  "update_hold i f d = Inr d' \<longleftrightarrow>
     (\<exists>h. row (holds d) i = Some h \<and> d' = d\<lparr>holds := AList.update i (f h) (holds d)\<rparr>)"
  by (auto simp: update_hold_def bindE_eq_Inr update_row_eq_Inr)

lemma pay_out_effect:
  assumes "pay_out now so hid h actor d = Inr d'"
  shows "(\<exists>r. settle_sale (o_buyer (so_order so)) (o_seller (so_order so)) (so_id so) hid (h_amount h)
            (l_seller_receive (so_lot so)) (l_commission (so_lot so)) (settlement_hold_release_key (so_id so)) (bank d)
          = Inr (r, bank d'))
     \<and> map_option o_status (row (orders d') (so_id so)) = Some OS_COMPLETED
     \<and> map_option h_captured (row (holds d') hid) = Some (h_amount h)
     \<and> map_option h_settlement_released_at (row (holds d') hid) = Some (Some now)
     \<and> map_option l_status (row (lots d') (o_lot (so_order so))) = Some LS_SOLD
     \<and> map_option a_status (row (assets d') (l_asset (so_lot so))) = Some IA_SOLD"
  using assms
  by (auto simp: pay_out_def Let_def bindE_eq_Inr update_hold_eq_Inr order_transition_by_event_eq_Inr
      order_transition_eq_Inr lot_transition_eq_Inr set_asset_status_eq_Inr row_update release_records_def
      increment_daily_stats_def find_order_rule_def order_rules_def)

lemma release_cases:
  assumes "release_settlement_hold w now so actor d = Inr d'"
  obtains (skipped) "d' = d"
    | (paid) hid h where "so_hold so = Some (hid, h)" "o_status (so_order so) = OS_SETTLEMENT_HOLD"
        "real_settlement_enabled w" "is_hold_release_due w now so h" "h_captured h \<le> 0"
        "h_settlement_released_at h = None" "pay_out now so hid h actor d = Inr d'"
  using assms by (fastforce simp: release_settlement_hold_def Let_def split: if_splits option.splits)

lemma load_order_Some:
  "load_order oid d = Some so \<Longrightarrow>
     so_id so = oid \<and> row (orders d) oid = Some (so_order so) \<and> row (lots d) (o_lot (so_order so)) = Some (so_lot so)
     \<and> so_hold so = hold_of oid d \<and> so_trade so = trade_of oid d
     \<and> so_buyer_steam so = steam_id_of (o_buyer (so_order so)) d
     \<and> so_seller_steam so = steam_id_of (o_seller (so_order so)) d"
  by (auto simp: load_order_def split: option.splits)

lemma enter_hold_bank: "enter_settlement_hold w now so key actor d = Inr d' \<Longrightarrow> bank d' = bank d"
  by (auto simp: enter_settlement_hold_def Let_def bindE_eq_Inr order_transition_by_event_eq_Inr
      order_transition_eq_Inr update_hold_eq_Inr split: if_splits option.splits)

text \<open>The entry points to a payout, as one type.\<close>

datatype settlement_call =
    Retry_settlement string
  | Release_due
  | Settle_completed string "id option"

fun exec_settlement :: "world \<Rightarrow> int \<Rightarrow> id \<Rightarrow> settlement_call \<Rightarrow> db \<Rightarrow> db res" where
  "exec_settlement w now oid (Retry_settlement key) d =
     bindE (try_settle_confirmed_order w now oid key d) (\<lambda>(_, d). Inr d)"
| "exec_settlement w now oid Release_due d = bindE (release_due_settlement_hold w now oid d) (\<lambda>(_, d). Inr d)"
| "exec_settlement w now oid (Settle_completed key actor) d = settle_completed_order w now oid key actor d"

lemma exec_settlement_paid:
  assumes "exec_settlement w now oid c d = Inr d'" and "bank d' \<noteq> bank d"
  shows "\<exists>so hid h actor. load_order oid d = Some so \<and> can_settle w now so d = Allowed
     \<and> so_hold so = Some (hid, h) \<and> o_status (so_order so) = OS_SETTLEMENT_HOLD \<and> is_hold_release_due w now so h
     \<and> h_settlement_released_at h = None \<and> pay_out now so hid h actor d = Inr d'"
proof -
  obtain so where so: "load_order oid d = Some so"
    using assms(1) by (cases c) (auto simp: try_settle_confirmed_order_def release_due_settlement_hold_def
        settle_completed_order_def bindE_eq_Inr split: option.splits)
  have "\<exists>actor. can_settle w now so d = Allowed \<and> release_settlement_hold w now so actor d = Inr d'"
    using assms so
    by (cases c)
       (auto simp: try_settle_confirmed_order_def release_due_settlement_hold_def settle_completed_order_def
          bindE_eq_Inr dest: enter_hold_bank split: option.splits guard_result.splits if_splits)
  then obtain actor where a: "can_settle w now so d = Allowed" "release_settlement_hold w now so actor d = Inr d'"
    by blast
  from a(2) show ?thesis
  proof (cases rule: release_cases)
    case skipped
    with assms(2) show ?thesis by simp
  next
    case (paid hid h)
    with so a(1) show ?thesis by blast
  qed
qed

section \<open>A concrete order in its settlement hold\<close>

definition demo_proof :: json where
  "demo_proof = JObj
     [(''version'', JNum 3), (''orderId'', JStr ''o2''), (''offerId'', JStr ''123''), (''tradeId'', JStr ''789''),
      (''originalAssetId'', JStr ''456''), (''sellerSteamId'', JStr ''7656119''), (''buyerSteamId'', JStr ''7656118''),
      (''receiptStatus'', JNum 3), (''offerState'', JNum 3), (''bindingVerified'', JBool True),
      (''tradeBinding'', JStr ''bind''), (''authority'', JStr ''STEAM_RECEIPT''),
      (''verifiedAt'', JStr ''1970-01-01T00:00:00.000Z''), (''protectionUntil'', JStr ''1970-01-09T00:00:00.000Z'')]"

definition demo_user :: "string \<Rightarrow> user" where
  "demo_user steam = \<lparr>u_steam_id = Some steam, u_username = steam, u_role = UR_BUYER, u_status = US_ACTIVE,
     u_trade_url = None\<rparr>"

definition demo_hold_db :: db where
  "demo_hold_db = (empty_db demo_ids)\<lparr>
     bank := demo_bank\<lparr>users := users demo_bank @ [(''buyer'', demo_user ''7656118''), (''seller'', demo_user ''7656119'')]\<rparr>,
     assets := [(''a2'', \<lparr>a_owner = ''seller'', a_item = ''item'', a_external_id = ''456'', a_status = IA_RESERVED,
        a_tradable = True, a_marketable = True, a_trade_lock_until = None, a_float_value = None,
        a_paint_seed = None, a_wear = None, a_stickers = None\<rparr>)],
     lots := [(''l2'', \<lparr>l_seller = ''seller'', l_asset = ''a2'', l_status = LS_RESERVED, l_price = 200,
        l_commission = 10, l_seller_receive = 190, l_reserved_by = Some ''buyer''\<rparr>)],
     orders := [(''o2'', \<lparr>o_lot = ''l2'', o_buyer = ''buyer'', o_seller = ''seller'', o_status = OS_SETTLEMENT_HOLD,
        o_amount = 200, o_hold_amount = 200, o_created_at = 0\<rparr>)],
     holds := [(''h2'', \<lparr>h_order = ''o2'', h_wallet = [], h_amount = 200, h_captured = 0, h_released = 0,
        h_settlement_until = Some 691200000, h_settlement_released_at = None\<rparr>)],
     trade_ops := [(''t2'', \<lparr>t_order = ''o2'', t_status = TS_DELIVERY_VERIFIED, t_provider_ref = None,
        t_fail_reason = None, t_offer_id = Some ''123'', t_expected_asset = Some ''456'', t_mode = None,
        t_stage = ''SETTLEMENT'', t_next_verification = None, t_delivery_proof = demo_proof,
        t_trade_binding = Some ''bind'',
       t_baseline = None, t_last_checked = None, t_check_count = 0, t_next_preparation = None,
       t_lease_until = None, t_lease_token = None\<rparr>)]\<rparr>"

definition demo_accounts :: "db res \<Rightarrow> int list" where
  "demo_accounts r = (case r of Inl _ \<Rightarrow> [] | Inr d \<Rightarrow> map snd (accounts (bank d)))"

lemma demo_release_runs:
  "demo_accounts (exec_settlement demo_world 700000000 ''o2'' Release_due demo_hold_db) = [500, 0, 0, 475, 0, 0, 25, 0, 0]"
  by code_simp

lemma demo_release_early:
  "demo_accounts (exec_settlement demo_world 690000000 ''o2'' Release_due demo_hold_db)
     = demo_accounts (Inr demo_hold_db)"
  by code_simp

section \<open>The theorems of settlement\<close>





section \<open>Reversal refunds everything that is left\<close>

lemma reverse_hold_effect:
  assumes "reverse_hold_tx so reason key actor d = Inr d'"
  obtains hid h where "so_hold so = Some (hid, h)" "o_status (so_order so) = OS_SETTLEMENT_HOLD"
    "h_captured h \<le> 0" "h_settlement_released_at h = None"
    "if 0 < h_amount h - h_released h
     then \<exists>r. refund_hold (o_buyer (so_order so)) (so_id so) hid (h_amount h - h_released h) key (bank d)
            = Inr (r, bank d')
     else bank d' = bank d"
    "map_option o_status (row (orders d') (so_id so)) = Some OS_DISPUTE"
    "map_option h_released (row (holds d') hid) = Some (h_amount h)"
    "map_option h_captured (row (holds d') hid) = map_option h_captured (row (holds d) hid)"
    "map_option l_status (row (lots d') (o_lot (so_order so))) = Some LS_BLOCKED"
proof -
  from assms obtain hid h where s: "so_hold so = Some (hid, h)" "o_status (so_order so) = OS_SETTLEMENT_HOLD"
    "h_captured h \<le> 0" "h_settlement_released_at h = None"
    by (auto simp: reverse_hold_tx_def Let_def split: if_splits option.splits)
  show ?thesis
  proof (cases "0 < h_amount h - h_released h")
    case True
    with assms s obtain r b where r:
      "refund_hold (o_buyer (so_order so)) (so_id so) hid (h_amount h - h_released h) key (bank d) = Inr (r, b)"
      "bank d' = b" "map_option o_status (row (orders d') (so_id so)) = Some OS_DISPUTE"
      "map_option h_released (row (holds d') hid) = Some (h_amount h)"
      "map_option h_captured (row (holds d') hid) = map_option h_captured (row (holds d) hid)"
      "map_option l_status (row (lots d') (o_lot (so_order so))) = Some LS_BLOCKED"
      by (auto simp: reverse_hold_tx_def Let_def bindE_eq_Inr update_hold_eq_Inr order_transition_by_event_eq_Inr
          order_transition_eq_Inr lot_transition_eq_Inr set_asset_status_eq_Inr row_update find_order_rule_def
          order_rules_def)
    with s True that show ?thesis by auto
  next
    case False
    with assms s have r:
      "bank d' = bank d" "map_option o_status (row (orders d') (so_id so)) = Some OS_DISPUTE"
      "map_option h_released (row (holds d') hid) = Some (h_amount h)"
      "map_option h_captured (row (holds d') hid) = map_option h_captured (row (holds d) hid)"
      "map_option l_status (row (lots d') (o_lot (so_order so))) = Some LS_BLOCKED"
      by (auto simp: reverse_hold_tx_def Let_def bindE_eq_Inr update_hold_eq_Inr order_transition_by_event_eq_Inr
          order_transition_eq_Inr lot_transition_eq_Inr set_asset_status_eq_Inr row_update find_order_rule_def
          order_rules_def)
    with s False that show ?thesis by auto
  qed
qed

end
