(* ===== verification/ItemNames.thy ===== *)
theory ItemNames
  imports JsText
begin

text \<open>
  The names of items: the wear codes and suffixes of \<^verbatim>\<open>lots/steam-market-link.util.ts\<close>, the
  base names of \<^verbatim>\<open>item-definitions/base-market-hash-name.util.ts\<close> and the URL slugs of
  \<^verbatim>\<open>item-definitions/item-slug.util.ts\<close>. Regular expressions are written out as the scan
  they perform. A wear is looked up among the own keys of the tables.
\<close>

section \<open>Wear codes\<close>

definition wear_code_to_suffix :: "(string \<times> string) list" where
  "wear_code_to_suffix =
     [(''FN'', ''Factory New''), (''MW'', ''Minimal Wear''), (''FT'', ''Field-Tested''),
      (''WW'', ''Well-Worn''), (''BS'', ''Battle-Scarred'')]"

definition wear_suffix_to_code :: "(string \<times> string) list" where
  "wear_suffix_to_code =
     [(''factory new'', ''FN''), (''minimal wear'', ''MW''), (''field-tested'', ''FT''),
      (''well-worn'', ''WW''), (''battle-scarred'', ''BS'')]"

definition wear_input_to_code :: "(string \<times> string) list" where
  "wear_input_to_code =
     [(''fn'', ''FN''), (''mw'', ''MW''), (''ft'', ''FT''), (''ww'', ''WW''), (''bs'', ''BS'')]
       @ wear_suffix_to_code"

definition normalize_wear_code :: "string option \<Rightarrow> string option" where
  "normalize_wear_code wear =
     (case wear of
        None \<Rightarrow> None
      | Some w \<Rightarrow> if js_trim w = [] then None else map_of wear_input_to_code (to_lower (js_trim w)))"

text \<open>\<open>/\(([^)]+)\)\s*$/\<close> on a trimmed name: the name ends with a closing parenthesis; between
  it and the closing parenthesis before it, the text after the first opening one is captured.\<close>

definition parse_wear_code :: "string \<Rightarrow> string option" where
  "parse_wear_code name =
     (let t = js_trim name in
      if t = [] \<or> last t \<noteq> CHR '')'' then None
      else
        let segment = rev (takeWhile (\<lambda>c. c \<noteq> CHR '')'') (rev (butlast t)))
        in case dropWhile (\<lambda>c. c \<noteq> CHR ''('') segment of
             [] \<Rightarrow> None
           | _ # captured \<Rightarrow> if captured = [] then None else map_of wear_suffix_to_code (to_lower captured))"

definition wear_needle :: "string \<Rightarrow> string" where
  "wear_needle suffix_text = '' ('' @ suffix_text @ '')''"

definition strip_wear :: "string \<Rightarrow> string" where
  "strip_wear name =
     (let t = js_trim name in
      case find (\<lambda>s. ends_with (to_lower t) (to_lower (wear_needle s))) (List.map snd wear_code_to_suffix) of
        None \<Rightarrow> t
      | Some s \<Rightarrow> js_trim (take (length t - length (wear_needle s)) t))"

definition derive_base_name :: "string \<Rightarrow> string" where
  "derive_base_name = strip_wear"

definition build_name_with_wear :: "string \<Rightarrow> string \<Rightarrow> string" where
  "build_name_with_wear base_name wear =
     (case normalize_wear_code (Some wear) of
        None \<Rightarrow> js_trim base_name
      | Some code \<Rightarrow>
          (case map_of wear_code_to_suffix code of
             Some s \<Rightarrow> strip_wear base_name @ wear_needle s
           | None \<Rightarrow> strip_wear base_name @ '' (undefined)''))"

fun wear_codes_from_names :: "string option list \<Rightarrow> string list \<Rightarrow> string list" where
  "wear_codes_from_names [] codes = codes"
| "wear_codes_from_names (n # ns) codes =
     (case normalize_wear_code n of
        Some c \<Rightarrow> wear_codes_from_names ns (if c \<in> set codes then codes else codes @ [c])
      | None \<Rightarrow> wear_codes_from_names ns codes)"

section \<open>Slugs\<close>

definition is_uuid :: "string \<Rightarrow> bool" where
  "is_uuid s \<longleftrightarrow> length s = 36
     \<and> (\<forall>i \<in> set [0..<36].
          if i \<in> {8, 13, 18, 23} then s ! i = dash
          else if i = 14 then s ! i \<in> set ''12345''
          else if i = 19 then s ! i \<in> set ''89abAB''
          else is_hex (s ! i))"

definition max_slug_length :: nat where
  "max_slug_length = 120"

text \<open>The trade mark signs are removed before the other replacements; of the two only the
  registered sign is a Latin-1 character.\<close>

definition slug_body :: "string \<Rightarrow> string" where
  "slug_body name =
     strip_dashes (squeeze (\<lambda>c. c \<noteq> dash) False (squeeze is_lower_alnum False
       (replace_spaced (CHR '')'') [] (replace_spaced (CHR ''('') [dash]
         (replace_spaced (CHR ''|'') [dash]
           (filter (\<lambda>c. c \<noteq> char_of (174 :: nat)) (to_lower (js_trim name))))))))"

definition slugify :: "string \<Rightarrow> string" where
  "slugify name =
     (let slug = slug_body name in
      if slug = [] then ''item''
      else if length slug > max_slug_length then strip_end_dashes (take max_slug_length slug) else slug)"

text \<open>\<open>resolveUniqueItemSlug\<close> counts upwards until a suffix is free. The search ends because the
  reserved set is finite: \<open>length reserved\<close> candidates cannot all be taken.\<close>

function free_slug_index :: "string \<Rightarrow> string list \<Rightarrow> nat \<Rightarrow> nat" where
  "free_slug_index base reserved i =
     (if base @ dash # show_nat i \<in> set reserved then free_slug_index base reserved (Suc i) else i)"
  by pat_completeness auto

definition resolve_unique_slug :: "string \<Rightarrow> string list \<Rightarrow> string" where
  "resolve_unique_slug name reserved =
     (let base = slugify name in
      if base \<notin> set reserved then base
      else base @ dash # show_nat (free_slug_index base reserved 2))"

section \<open>Termination of the search\<close>

lemma digit_char_inj: "m < 10 \<Longrightarrow> n < 10 \<Longrightarrow> digit_char m = digit_char n \<Longrightarrow> m = n"
  by (auto simp: digit_char_def dest!: arg_cong [of _ _ "of_char :: char \<Rightarrow> nat"])

lemma show_nat_not_Nil [simp]: "show_nat n \<noteq> []"
  by (subst show_nat.simps) simp

lemma Nil_not_show_nat [simp]: "[] \<noteq> show_nat n"
  using show_nat_not_Nil [of n] by metis

lemma show_nat_short: "n < 10 \<Longrightarrow> show_nat n = [digit_char n]"
  by (subst show_nat.simps) simp

lemma show_nat_long: "\<not> n < 10 \<Longrightarrow> show_nat n = show_nat (n div 10) @ [digit_char (n mod 10)]"
  by (subst show_nat.simps) simp

lemma show_nat_inj: "show_nat m = show_nat n \<Longrightarrow> m = n"
proof (induction m arbitrary: n rule: show_nat.induct)
  case (1 m)
  consider "m < 10" "n < 10" | "m < 10" "\<not> n < 10" | "\<not> m < 10" "n < 10" | "\<not> m < 10" "\<not> n < 10" by blast
  then show ?case
  proof cases
    case 4
    then have "show_nat (m div 10) = show_nat (n div 10)" "digit_char (m mod 10) = digit_char (n mod 10)"
      using 1(2) by (simp_all add: show_nat_long)
    then have "m div 10 = n div 10" "m mod 10 = n mod 10"
      using 1(1) [OF 4(1)] by (auto intro: digit_char_inj)
    then show ?thesis by (metis div_mult_mod_eq)
  qed (use 1(2) in \<open>auto simp: show_nat_short show_nat_long intro: digit_char_inj\<close>)
qed

termination free_slug_index 
proof (relation "measure (\<lambda>(base, reserved, i). card (set reserved \<inter> {base @ dash # show_nat j | j. i \<le> j}))",
    goal_cases)
  case 1
  then show ?case by simp
next
  case (2 base reserved i)
  let ?S = "\<lambda>i. set reserved \<inter> {base @ dash # show_nat j | j. i \<le> j}"
  have "base @ dash # show_nat i \<in> ?S i" using 2 by auto
  moreover have "base @ dash # show_nat i \<notin> ?S (Suc i)" by (auto dest: show_nat_inj)
  moreover have "?S (Suc i) \<subseteq> ?S i" by fastforce
  ultimately have "?S (Suc i) \<subset> ?S i" by blast
  then show ?case by (simp add: psubset_card_mono)
qed

declare free_slug_index.simps [simp del]

lemma free_slug_index_free: "base @ dash # show_nat (free_slug_index base reserved i) \<notin> set reserved"
proof (induction base reserved i rule: free_slug_index.induct)
  case (1 base reserved i)
  then show ?case by (subst free_slug_index.simps) auto
qed

lemma free_slug_index_least:
  "i \<le> j \<Longrightarrow> j < free_slug_index base reserved i \<Longrightarrow> base @ dash # show_nat j \<in> set reserved"
proof (induction base reserved i rule: free_slug_index.induct)
  case (1 base reserved i)
  then show ?case by (cases "j = i") (auto simp: free_slug_index.simps [of base reserved i] split: if_splits)
qed

section \<open>The shape of slugs\<close>

definition no_dash_pair :: "string \<Rightarrow> bool" where
  "no_dash_pair = successively (\<lambda>a b. \<not> (a = dash \<and> b = dash))"

definition slug_ok :: "string \<Rightarrow> bool" where
  "slug_ok s \<longleftrightarrow> s \<noteq> [] \<and> length s \<le> max_slug_length \<and> (\<forall>c \<in> set s. is_lower_alnum c \<or> c = dash)
     \<and> no_dash_pair s \<and> hd s \<noteq> dash \<and> last s \<noteq> dash"

lemma no_dash_pair_Cons: "no_dash_pair (c # s) \<longleftrightarrow> (s = [] \<or> \<not> (c = dash \<and> hd s = dash)) \<and> no_dash_pair s"
  by (cases s) (auto simp: no_dash_pair_def)

lemma no_dash_pair_Nil [simp]: "no_dash_pair []"
  by (simp add: no_dash_pair_def)

lemma no_dash_pair_append: "no_dash_pair (xs @ ys) \<Longrightarrow> no_dash_pair xs \<and> no_dash_pair ys"
  by (auto simp: no_dash_pair_def successively_append_iff)

lemma squeeze_set: "c \<in> set (squeeze p r s) \<Longrightarrow> p c \<or> c = dash"
  by (induction p r s rule: squeeze.induct) (auto split: if_splits)

lemma squeeze_pair: "\<not> p dash \<Longrightarrow>
    no_dash_pair (squeeze p r s) \<and> (r \<longrightarrow> squeeze p r s = [] \<or> hd (squeeze p r s) \<noteq> dash)"
  by (induction p r s rule: squeeze.induct) (auto simp: no_dash_pair_Cons)

lemma squeeze_id:
  "\<forall>c \<in> set s. p c \<or> c = dash \<Longrightarrow> \<not> p dash \<Longrightarrow> no_dash_pair s \<Longrightarrow> (r \<longrightarrow> s = [] \<or> hd s \<noteq> dash) \<Longrightarrow>
     squeeze p r s = s"
  by (induction s arbitrary: r) (auto simp: no_dash_pair_Cons)

lemma drop_prefix_pair: "no_dash_pair s \<Longrightarrow> no_dash_pair (dropWhile P s)"
  by (metis no_dash_pair_append takeWhile_dropWhile_id)

lemma no_dash_pair_rev [simp]: "no_dash_pair (rev s) = no_dash_pair s"
  unfolding no_dash_pair_def successively_rev
  by (rule arg_cong [where f = "\<lambda>P. successively P s"]) auto

lemma strip_end_facts:
  assumes "no_dash_pair s"
  shows "no_dash_pair (strip_end_dashes s)" "set (strip_end_dashes s) \<subseteq> set s"
    "length (strip_end_dashes s) \<le> length s"
    "strip_end_dashes s \<noteq> [] \<Longrightarrow> last (strip_end_dashes s) \<noteq> dash"
proof -
  show "no_dash_pair (strip_end_dashes s)"
    using drop_prefix_pair [of "rev s" "\<lambda>c. c = dash"] assms by (simp add: strip_end_dashes_def)
  show "set (strip_end_dashes s) \<subseteq> set s" by (auto simp: strip_end_dashes_def dest: set_dropWhileD)
  show "length (strip_end_dashes s) \<le> length s"
    using length_dropWhile_le [of _ "rev s"] by (simp add: strip_end_dashes_def)
  assume "strip_end_dashes s \<noteq> []"
  then show "last (strip_end_dashes s) \<noteq> dash"
    unfolding strip_end_dashes_def by (metis (mono_tags) hd_dropWhile hd_rev rev_is_Nil_conv rev_rev_ident)
qed

lemma strip_end_hd: "s \<noteq> [] \<Longrightarrow> hd s \<noteq> dash \<Longrightarrow> strip_end_dashes s \<noteq> [] \<and> hd (strip_end_dashes s) = hd s"
  by (cases s) (auto simp: strip_end_dashes_def dropWhile_append)

lemma strip_end_id: "s = [] \<or> last s \<noteq> dash \<Longrightarrow> strip_end_dashes s = s"
  by (cases "s = []") (auto simp: strip_end_dashes_def dropWhile_stays hd_rev)

lemma strip_dashes_split: "strip_dashes s = strip_end_dashes (dropWhile (\<lambda>c. c = dash) s)"
  by (simp add: strip_dashes_def strip_end_dashes_def)

lemma slug_body_facts:
  shows "no_dash_pair (slug_body s)" "\<forall>c \<in> set (slug_body s). is_lower_alnum c \<or> c = dash"
    "slug_body s \<noteq> [] \<Longrightarrow> hd (slug_body s) \<noteq> dash \<and> last (slug_body s) \<noteq> dash"
proof -
  define a where "a = squeeze is_lower_alnum False (replace_spaced (CHR '')'') [] (replace_spaced (CHR ''('') [dash]
         (replace_spaced (CHR ''|'') [dash] (filter (\<lambda>c. c \<noteq> char_of (174 :: nat)) (to_lower (js_trim s))))))"
  define b where "b = dropWhile (\<lambda>c. c = dash) (squeeze (\<lambda>c. c \<noteq> dash) False a)"
  have body: "slug_body s = strip_end_dashes b"
    by (simp add: slug_body_def strip_dashes_split a_def b_def)
  have pair: "no_dash_pair b" unfolding b_def
    by (rule drop_prefix_pair) (simp add: squeeze_pair)
  have "set a \<subseteq> {c. is_lower_alnum c \<or> c = dash}" unfolding a_def using squeeze_set by blast
  moreover have "set (squeeze p r x) \<subseteq> insert dash (set x)" for p r x
    by (induction p r x rule: squeeze.induct) auto
  ultimately have chars: "\<forall>c \<in> set b. is_lower_alnum c \<or> c = dash"
    unfolding b_def using set_dropWhileD by fastforce
  show "no_dash_pair (slug_body s)" unfolding body by (rule strip_end_facts(1) [OF pair])
  show "\<forall>c \<in> set (slug_body s). is_lower_alnum c \<or> c = dash"
    using strip_end_facts(2) [OF pair] chars unfolding body by blast
  assume ne: "slug_body s \<noteq> []"
  then have "b \<noteq> []" unfolding body by (auto simp: strip_end_dashes_def)
  then have "hd b \<noteq> dash" unfolding b_def by (rule hd_dropWhile)
  with ne \<open>b \<noteq> []\<close> show "hd (slug_body s) \<noteq> dash \<and> last (slug_body s) \<noteq> dash"
    unfolding body using strip_end_hd strip_end_facts(4) [OF pair] by simp
qed

lemma item_slug_ok: "slug_ok ''item''"
  by code_simp

lemma slugify_ok: "slug_ok (slugify s)"
proof -
  let ?b = "slug_body s"
  note f = slug_body_facts [of s]
  consider "?b = []" | "?b \<noteq> []" "length ?b \<le> max_slug_length" | "?b \<noteq> []" "max_slug_length < length ?b"
    by fastforce
  then show ?thesis
  proof cases
    case 1
    then show ?thesis using item_slug_ok by (simp add: slugify_def)
  next
    case 2
    then show ?thesis using f by (simp add: slugify_def slug_ok_def)
  next
    case 3
    let ?t = "take max_slug_length ?b"
    have pt: "no_dash_pair ?t" using no_dash_pair_append [of ?t "drop max_slug_length ?b"] f(1) by simp
    have "?t \<noteq> []" "hd ?t \<noteq> dash" using 3 f(3) by (auto simp: max_slug_length_def hd_take)
    then have h: "strip_end_dashes ?t \<noteq> []" "hd (strip_end_dashes ?t) \<noteq> dash" using strip_end_hd [of ?t] by auto
    have "set (strip_end_dashes ?t) \<subseteq> set ?b" using strip_end_facts(2) [OF pt] set_take_subset by fastforce
    then show ?thesis
      using 3 h strip_end_facts(1,3,4) [OF pt] f(2) by (auto simp: slugify_def slug_ok_def Let_def)
  qed
qed

lemma replace_spaced_id: "\<forall>x \<in> set s. \<not> is_space x \<and> x \<noteq> c \<Longrightarrow> replace_spaced c r s = s"
proof (induction s)
  case Nil
  then show ?case by (subst replace_spaced.simps) simp
next
  case (Cons x xs)
  then show ?case by (subst replace_spaced.simps) simp
qed

lemma slug_chars:
  assumes "is_lower_alnum c \<or> c = dash"
  shows "\<not> is_space c" "lower_char c = c" "c \<noteq> char_of (174 :: nat)" "c \<noteq> CHR ''|''" "c \<noteq> CHR ''(''" "c \<noteq> CHR '')''"
proof -
  show "c \<noteq> char_of (174 :: nat)"
  proof
    assume "c = char_of (174 :: nat)"
    then have "of_char c = (174 :: nat)" by simp
    with assms show False by (auto simp: is_lower_alnum_def dash_code Let_def)
  qed
qed (use assms in \<open>auto simp: is_lower_alnum_def is_space_def lower_char_def Let_def dash_def\<close>)

lemma slugify_stable:
  assumes "slug_ok s"
  shows "slugify s = s"
proof -
  have chars: "\<forall>c \<in> set s. is_lower_alnum c \<or> c = dash" and ne: "s \<noteq> []" and pair: "no_dash_pair s"
    and ends: "hd s \<noteq> dash" "last s \<noteq> dash" using assms by (auto simp: slug_ok_def)
  have "js_trim s = s" using chars ne by (intro js_trim_clean) (auto simp: slug_chars)
  moreover have "to_lower s = s" using chars by (auto simp: to_lower_def slug_chars intro: map_idI)
  moreover have "filter (\<lambda>c. c \<noteq> char_of (174 :: nat)) s = s" using chars by (auto simp: filter_id_conv slug_chars)
  moreover have "replace_spaced c r s = s" if "c \<in> set ''|()''" for c r
  proof (rule replace_spaced_id, rule ballI)
    fix x
    assume "x \<in> set s"
    with chars have "is_lower_alnum x \<or> x = dash" by blast
    from slug_chars [OF this] that show "\<not> is_space x \<and> x \<noteq> c" by auto
  qed
  moreover have "squeeze is_lower_alnum False s = s" using chars pair by (intro squeeze_id) auto
  moreover have "squeeze (\<lambda>c. c \<noteq> dash) False s = s" using pair by (intro squeeze_id) auto
  moreover have "strip_dashes s = s"
    using ends ne by (simp add: strip_dashes_split dropWhile_stays strip_end_id)
  ultimately have "slug_body s = s" by (simp add: slug_body_def)
  then show ?thesis using assms ne by (auto simp: slugify_def slug_ok_def)
qed

section \<open>The wear of a name\<close>

definition wear_suffixes :: "string list" where
  "wear_suffixes = List.map snd wear_code_to_suffix"

lemma find_unique: "x \<in> set xs \<Longrightarrow> (\<And>y. y \<in> set xs \<Longrightarrow> P y \<longleftrightarrow> y = x) \<Longrightarrow> find P xs = Some x"
  by (induction xs) auto

lemma to_lower_append [simp]: "to_lower (s @ t) = to_lower s @ to_lower t"
  by (simp add: to_lower_def)

lemma needles_apart:
  "\<forall>x \<in> set wear_suffixes. \<forall>y \<in> set wear_suffixes.
     suffix (to_lower (wear_needle x)) (to_lower (wear_needle y)) \<longrightarrow> x = y"
  by code_simp

lemma wear_tables:
  "\<forall>(c, x) \<in> set wear_code_to_suffix.
     normalize_wear_code (Some c) = Some c \<and> map_of wear_code_to_suffix c = Some x
     \<and> map_of wear_suffix_to_code (to_lower x) = Some c \<and> x \<in> set wear_suffixes
     \<and> CHR '')'' \<notin> set x \<and> CHR ''('' \<notin> set x \<and> x \<noteq> []"
  by code_simp

lemma suffix_either: "suffix p (x @ q) \<Longrightarrow> suffix p q \<or> suffix q p"
  by (meson suffix_same_cases suffixI)

lemma strip_wear_needle:
  assumes "x \<in> set wear_suffixes" and "b \<noteq> []" and "js_trim b = b"
  shows "strip_wear (b @ wear_needle x) = b"
proof -
  have t: "js_trim (b @ wear_needle x) = b @ wear_needle x"
    using assms js_trim_ends [of b]
    by (intro js_trim_clean) (auto simp: wear_needle_def is_space_def Let_def)
  have "find (\<lambda>s. ends_with (to_lower (b @ wear_needle x)) (to_lower (wear_needle s))) wear_suffixes = Some x"
    using assms(1)
  proof (rule find_unique)
    fix y
    assume y: "y \<in> set wear_suffixes"
    show "ends_with (to_lower (b @ wear_needle x)) (to_lower (wear_needle y)) \<longleftrightarrow> y = x"
      using needles_apart assms(1) y
      by (auto simp: ends_with_def suffixI dest!: suffix_either)
  qed
  then show ?thesis using t assms(3) by (simp add: strip_wear_def wear_suffixes_def)
qed

lemma strip_wear_trimmed: "js_trim (strip_wear s) = strip_wear s"
  by (simp add: strip_wear_def Let_def split: option.split)

lemma parse_wear_needle:
  assumes "map_of wear_suffix_to_code (to_lower x) = Some c" and "CHR '')'' \<notin> set x" "CHR ''('' \<notin> set x" "x \<noteq> []"
    and "b \<noteq> []" "js_trim b = b" "CHR ''('' \<notin> set b"
  shows "parse_wear_code (b @ wear_needle x) = Some c"
proof -
  let ?t = "b @ wear_needle x"
  have t: "js_trim ?t = ?t"
    using assms(5,6) js_trim_ends [of b]
    by (intro js_trim_clean) (auto simp: wear_needle_def is_space_def Let_def)
  define front where "front = rev (takeWhile (\<lambda>c. c \<noteq> CHR '')'') (rev b))"
  have "takeWhile (\<lambda>c. c \<noteq> CHR '')'') (rev x @ CHR ''('' # CHR '' '' # rev b)
      = rev x @ CHR ''('' # CHR '' '' # takeWhile (\<lambda>c. c \<noteq> CHR '')'') (rev b)"
    using assms(2) by (auto simp: takeWhile_append)
  then have "rev (takeWhile (\<lambda>c. c \<noteq> CHR '')'') (rev (butlast ?t))) = front @ CHR '' '' # CHR ''('' # x"
    by (simp add: wear_needle_def butlast_append front_def)
  moreover have "\<forall>c \<in> set front. c \<noteq> CHR ''(''"
    using assms(7) set_takeWhileD by (fastforce simp: front_def)
  then have "dropWhile (\<lambda>c. c \<noteq> CHR ''('') (front @ CHR '' '' # CHR ''('' # x) = CHR ''('' # x"
    by (simp add: dropWhile_append)
  ultimately show ?thesis using t assms(1,4) by (simp add: parse_wear_code_def wear_needle_def Let_def)
qed

section \<open>The theorems of names\<close>

text \<open>
  Building the market name of a wear and reading it back agree: for each of the five wear
  codes and a skin whose name has no opening parenthesis, the built name parses to that code, and
  stripping its wear gives the base name again, even when the skin's name carried a wear before.
\<close>

theorem wear_name_roundtrip:
  assumes "(code, suffix_text) \<in> set wear_code_to_suffix"
    and "strip_wear base_name \<noteq> []" and "CHR ''('' \<notin> set (strip_wear base_name)"
  shows "build_name_with_wear base_name code = strip_wear base_name @ '' ('' @ suffix_text @ '')''
     \<and> parse_wear_code (build_name_with_wear base_name code) = Some code
     \<and> derive_base_name (build_name_with_wear base_name code) = derive_base_name base_name"
proof -
  have t: "normalize_wear_code (Some code) = Some code" "map_of wear_code_to_suffix code = Some suffix_text"
    "map_of wear_suffix_to_code (to_lower suffix_text) = Some code" "suffix_text \<in> set wear_suffixes"
    "CHR '')'' \<notin> set suffix_text" "CHR ''('' \<notin> set suffix_text" "suffix_text \<noteq> []"
    using wear_tables assms(1) by blast+
  have b: "build_name_with_wear base_name code = strip_wear base_name @ wear_needle suffix_text"
    using t(1,2) by (simp add: build_name_with_wear_def)
  show ?thesis
    unfolding b derive_base_name_def
    using parse_wear_needle [OF t(3,5,6,7) assms(2) strip_wear_trimmed assms(3)]
      strip_wear_needle [OF t(4) assms(2) strip_wear_trimmed]
    by (simp add: wear_needle_def)
qed

theorem wear_name_roundtrip_witness:
  "build_name_with_wear ''AK-47 | Redline (Field-Tested)'' ''FN'' = ''AK-47 | Redline (Factory New)''
     \<and> parse_wear_code ''AK-47 | Redline (Factory New)'' = Some ''FN''"
proof -
  have s: "strip_wear ''AK-47 | Redline (Field-Tested)'' = ''AK-47 | Redline''" by code_simp
  show ?thesis
    using wear_name_roundtrip [of "''FN''" "''Factory New''" "''AK-47 | Redline (Field-Tested)''"]
    by (auto simp: s wear_code_to_suffix_def)
qed

text \<open>
  A slug is a URL path segment: never empty, at most 120 characters, only lower-case letters,
  digits and single dashes, none of them at an end; and slugs are stable, the slug of a slug
  being itself.
\<close>

theorem slug_shape:
  "slugify name \<noteq> [] \<and> length (slugify name) \<le> 120
     \<and> (\<forall>c \<in> set (slugify name). is_lower_alnum c \<or> c = CHR ''-'')
     \<and> \<not> sublist ''--'' (slugify name) \<and> hd (slugify name) \<noteq> CHR ''-'' \<and> last (slugify name) \<noteq> CHR ''-''
     \<and> slugify (slugify name) = slugify name"
proof -
  have pair: "\<not> sublist [dash, dash] s" if "no_dash_pair s" for s
    using that by (auto simp: sublist_def no_dash_pair_def successively_append_iff)
  show ?thesis
    using slugify_ok [of name] slugify_stable [OF slugify_ok, of name] pair
    by (auto simp: slug_ok_def max_slug_length_def dash_def)
qed

theorem slug_shape_witness: "slugify ''AK-47 | Redline (Field-Tested)'' = ''ak-47-redline-field-tested''
     \<and> slugify (slugify ''AK-47 | Redline (Field-Tested)'') = ''ak-47-redline-field-tested''"
proof -
  have "slugify ''AK-47 | Redline (Field-Tested)'' = ''ak-47-redline-field-tested''" by code_simp
  with slug_shape [of "''AK-47 | Redline (Field-Tested)''"] show ?thesis by simp
qed



end
