(* ===== verification/BuyRequests.thy ===== *)
theory BuyRequests
  imports LedgerRuns LotState ItemNames
begin

text \<open>
  \<^verbatim>\<open>backend/src/buy-requests\<close>: standing offers to buy an item, backed by money in the hold
  account. A handler that commits in several steps returns its result together with the state
  it leaves; the body of one transaction returns an error or the new state. \<open>cancel\<close> and the
  expiry read the request first and claim it in a transaction afterwards, so they are two
  definitions each, and another handler may run between them. The notifier is a parameter: it
  tells whether sending a notification returned or threw.
\<close>

definition buy_request_ttl_days :: int where
  "buy_request_ttl_days = 30"

definition max_buy_request_quantity :: int where
  "max_buy_request_quantity = 99"

section \<open>Matching\<close>

definition lot_matches_price :: "int option \<Rightarrow> int \<Rightarrow> bool" where
  "lot_matches_price max_price price = (case max_price of None \<Rightarrow> True | Some m \<Rightarrow> price \<le> m)"

text \<open>The tests on strings are truthiness tests: an empty identifier counts as absent.\<close>

definition should_notify :: "buy_request \<Rightarrow> id \<Rightarrow> lot \<Rightarrow> bool" where
  "should_notify r lot_id l =
     (if br_buyer r = l_seller l then False
      else if \<not> lot_matches_price (br_max_price r) (l_price l) then False
      else case br_last_lot r of
        None \<Rightarrow> True
      | Some seen \<Rightarrow>
          if seen = [] then True
          else if seen = lot_id then False
          else case br_last_price r of None \<Rightarrow> True | Some p \<Rightarrow> l_price l < p)"

definition lot_item :: "db \<Rightarrow> lot \<Rightarrow> id option" where
  "lot_item d l = map_option a_item (row (assets d) (l_asset l))"

definition try_notify_match ::
    "(id \<Rightarrow> id \<Rightarrow> id \<Rightarrow> string \<Rightarrow> bool) \<Rightarrow> id \<Rightarrow> buy_request \<Rightarrow> id \<Rightarrow> lot \<Rightarrow> id \<Rightarrow> db \<Rightarrow> bool \<times> db" where
  "try_notify_match notify req_id r lot_id l item d =
     (if \<not> should_notify r lot_id l then (False, d)
      else case row (items d) item of
        None \<Rightarrow> (False, d)
      | Some i \<Rightarrow>
          if \<not> notify (br_buyer r) req_id lot_id (i_market_hash_name i) then (False, d)
          else case update_row req_id (\<lambda>r. r\<lparr>br_last_lot := Some lot_id, br_last_price := Some (l_price l)\<rparr>)
                      (buy_requests d) of
                 Inl _ \<Rightarrow> (False, d)
               | Inr t \<Rightarrow> (True, d\<lparr>buy_requests := t\<rparr>))"

definition load_active_lot :: "id \<Rightarrow> db \<Rightarrow> (lot \<times> id) option" where
  "load_active_lot lot_id d =
     (case row (lots d) lot_id of
        None \<Rightarrow> None
      | Some l \<Rightarrow> if l_status l \<noteq> LS_ACTIVE then None
                 else map_option (\<lambda>i. (l, i)) (lot_item d l))"

definition match_lot_activated ::
    "(id \<Rightarrow> id \<Rightarrow> id \<Rightarrow> string \<Rightarrow> bool) \<Rightarrow> id \<Rightarrow> db \<Rightarrow> db" where
  "match_lot_activated notify lot_id d =
     (case load_active_lot lot_id d of
        None \<Rightarrow> d
      | Some (l, item) \<Rightarrow>
          fold (\<lambda>(req_id, r) d. snd (try_notify_match notify req_id r lot_id l item d))
            (filter (\<lambda>(_, r). br_item r = item \<and> br_status r = BR_OPEN) (buy_requests d)) d)"

fun notify_first ::
    "(id \<Rightarrow> id \<Rightarrow> id \<Rightarrow> string \<Rightarrow> bool) \<Rightarrow> id \<Rightarrow> buy_request \<Rightarrow> (id \<times> lot) list \<Rightarrow> db \<Rightarrow> db" where
  "notify_first notify req_id r [] d = d"
| "notify_first notify req_id r ((lot_id, l) # ls) d =
     (let (notified, d) = try_notify_match notify req_id r lot_id l (br_item r) d
      in if notified then d else notify_first notify req_id r ls d)"

definition match_buy_request_created ::
    "(id \<Rightarrow> id \<Rightarrow> id \<Rightarrow> string \<Rightarrow> bool) \<Rightarrow> id \<Rightarrow> db \<Rightarrow> db" where
  "match_buy_request_created notify req_id d =
     (case row (buy_requests d) req_id of
        None \<Rightarrow> d
      | Some r \<Rightarrow>
          if br_status r \<noteq> BR_OPEN then d
          else notify_first notify req_id r
                 (sort_key (\<lambda>(_, l). l_price l)
                    (filter (\<lambda>(_, l). l_status l = LS_ACTIVE \<and> lot_item d l = Some (br_item r)) (lots d))) d)"

section \<open>Creation\<close>

definition find_item_definition :: "string \<Rightarrow> db \<Rightarrow> (id \<times> item_definition) option" where
  "find_item_definition ref d =
     (let by_id = map_option (\<lambda>i. (ref, i)) (row (items d) ref) in
      if is_uuid ref then by_id
      else case find (\<lambda>(_, i). i_slug i = Some ref) (items d) of
             Some x \<Rightarrow> Some x
           | None \<Rightarrow> by_id)"

text \<open>\<open>upsert\<close> on the unique market name: the new row, or the existing one with the base name and
  the slug renewed and the other columns kept when the catalog has none.\<close>

definition upsert_wear_item ::
    "string \<Rightarrow> string \<Rightarrow> item_definition \<Rightarrow> db \<Rightarrow> id \<times> db" where
  "upsert_wear_item name base_name catalog d =
     (case find (\<lambda>(_, i). i_market_hash_name i = name) (items d) of
        None \<Rightarrow>
          let (i, d) = draw_db d
          in (i, d\<lparr>items := insert_row i
               \<lparr>i_market_hash_name = name, i_slug = Some (slugify name), i_base_market_hash_name = Some base_name,
                i_catalog_seeded = False, i_available_wears = [], i_weapon = i_weapon catalog,
                i_rarity = i_rarity catalog, i_icon_url = i_icon_url catalog\<rparr> (items d)\<rparr>)
      | Some (i, old) \<Rightarrow>
          (i, d\<lparr>items := AList.update i
               (old\<lparr>i_base_market_hash_name := Some base_name, i_slug := Some (slugify name),
                i_weapon := (case i_weapon catalog of None \<Rightarrow> i_weapon old | Some w \<Rightarrow> Some w),
                i_rarity := (case i_rarity catalog of None \<Rightarrow> i_rarity old | Some r \<Rightarrow> Some r),
                i_icon_url := (case i_icon_url catalog of
                    None \<Rightarrow> i_icon_url old
                  | Some u \<Rightarrow> if js_trim u = [] then i_icon_url old else Some (js_trim u))\<rparr>) (items d)\<rparr>))"

definition resolve_target_item ::
    "id \<Rightarrow> item_definition \<Rightarrow> string option \<Rightarrow> db \<Rightarrow> (id \<times> db) res" where
  "resolve_target_item item_id catalog wear d =
     (let wears = i_available_wears catalog;
          no_wear = (wear = None \<or> wear = Some []);
          needs_wear = (i_catalog_seeded catalog \<and> 0 < length wears)
      in if needs_wear \<and> no_wear then Inl (AppException ''VALIDATION_ERROR'')
         else if no_wear \<or> \<not> i_catalog_seeded catalog then Inr (item_id, d)
         else if 0 < length wears \<and> the wear \<notin> set wears then Inl (AppException ''VALIDATION_ERROR'')
         else
           let base_name = (case i_base_market_hash_name catalog of
                              Some n \<Rightarrow> n | None \<Rightarrow> derive_base_name (i_market_hash_name catalog))
           in Inr (upsert_wear_item (build_name_with_wear base_name (the wear)) base_name catalog d))"

text \<open>The errors of the client that say the balance does not suffice.\<close>

definition insufficient_available :: "error \<Rightarrow> bool" where
  "insufficient_available e =
     (case e of
        BadRequest m \<Rightarrow> str_includes m ''Insufficient available balance''
      | NotFound m \<Rightarrow> str_includes m ''Insufficient available balance''
      | Forbidden m \<Rightarrow> str_includes m ''Insufficient available balance''
      | PlainError m \<Rightarrow> str_includes m ''Insufficient available balance''
      | _ \<Rightarrow> False)"

definition create_request_tx ::
    "id \<Rightarrow> id \<Rightarrow> int \<Rightarrow> int \<Rightarrow> int \<Rightarrow> db \<Rightarrow> (id \<times> db) res" where
  "create_request_tx buyer item max_price quantity now d =
     (let (i, d) = draw_db d;
          d = d\<lparr>buy_requests := insert_row i
                 \<lparr>br_buyer = buyer, br_item = item, br_max_price = Some max_price, br_quantity = quantity,
                  br_filled = 0, br_reserved = Some (max_price * quantity), br_status = BR_OPEN,
                  br_created_at = now, br_last_lot = None, br_last_price = None\<rparr> (buy_requests d)\<rparr>
      in bindE (reserve_buy_request_hold buyer i (max_price * quantity) (''buy-request-reserve:'' @ i) (bank d))
           (\<lambda>(_, b). Inr (i, d\<lparr>bank := b\<rparr>)))"

definition create_buy_request ::
    "(id \<Rightarrow> id \<Rightarrow> id \<Rightarrow> string \<Rightarrow> bool) \<Rightarrow> id \<Rightarrow> string \<Rightarrow> int \<Rightarrow> int option \<Rightarrow> string option \<Rightarrow> int \<Rightarrow> db
      \<Rightarrow> id res \<times> db" where
  "create_buy_request notify buyer item_ref max_price quantity_opt wear now d =
     (if map_option u_status (row (users (bank d)) buyer) \<noteq> Some US_ACTIVE
      then (Inl (AppException ''BUYER_NOT_ACTIVE''), d)
      else case find_item_definition item_ref d of
        None \<Rightarrow> (Inl (AppException ''NOT_FOUND''), d)
      | Some (catalog_id, catalog) \<Rightarrow>
          (case resolve_target_item catalog_id catalog wear d of
             Inl e \<Rightarrow> (Inl e, d)
           | Inr (item, d) \<Rightarrow>
               let quantity = (case quantity_opt of None \<Rightarrow> 1 | Some q \<Rightarrow> q) in
               if quantity < 1 \<or> max_buy_request_quantity < quantity
               then (Inl (AppException ''VALIDATION_ERROR''), d)
               else if \<exists>(i, r) \<in> set (buy_requests d). br_buyer r = buyer \<and> br_item r = item
                          \<and> br_status r = BR_OPEN \<and> br_max_price r = Some max_price
               then (Inl (AppException ''BUY_REQUEST_ALREADY_OPEN''), d)
               else case transaction (create_request_tx buyer item max_price quantity now) d of
                 (Inl e, d) \<Rightarrow>
                   (Inl (if insufficient_available e then AppException ''INSUFFICIENT_BALANCE'' else e), d)
               | (Inr i, d) \<Rightarrow> (Inr i, match_buy_request_created notify i d)))"

section \<open>Cancellation and expiry\<close>

text \<open>The claim of a request that was read as \<open>snapshot\<close>: it takes effect only when the row is
  still open and neither its reserve nor its fill count has moved.\<close>

definition claimable :: "id \<Rightarrow> buy_request \<Rightarrow> id \<Rightarrow> buy_request \<Rightarrow> bool" where
  "claimable req_id snapshot i r \<longleftrightarrow> i = req_id \<and> br_status r = BR_OPEN
     \<and> br_reserved r = br_reserved snapshot \<and> br_filled r = br_filled snapshot"

definition release_amount :: "buy_request \<Rightarrow> int" where
  "release_amount r = (case br_reserved r of None \<Rightarrow> 0 | Some v \<Rightarrow> v)"

definition close_request_tx ::
    "buy_request_status \<Rightarrow> string \<Rightarrow> id \<Rightarrow> buy_request \<Rightarrow> db \<Rightarrow> (unit \<times> db) res" where
  "close_request_tx final_status key req_id snapshot d =
     (let (count, t) = update_many (claimable req_id snapshot)
            (\<lambda>r. r\<lparr>br_status := final_status, br_reserved := Some 0\<rparr>) (buy_requests d)
      in if count \<noteq> 1 then Inr ((), d\<lparr>buy_requests := t\<rparr>)
         else
           bindE (if 0 < release_amount snapshot
                  then bindE (release_buy_request_hold (br_buyer snapshot) req_id (release_amount snapshot) key (bank d))
                         (\<lambda>(_, b). Inr (d\<lparr>bank := b, buy_requests := t\<rparr>))
                  else Inr (d\<lparr>buy_requests := t\<rparr>)) (\<lambda>d.
           bindE (update_row req_id (\<lambda>r. r\<lparr>br_status := final_status, br_reserved := Some 0\<rparr>) (buy_requests d)) (\<lambda>t.
           Inr ((), d\<lparr>buy_requests := t\<rparr>))))"

definition cancel_read :: "id \<Rightarrow> id \<Rightarrow> db \<Rightarrow> buy_request res" where
  "cancel_read buyer req_id d =
     (case row (buy_requests d) req_id of
        None \<Rightarrow> Inl (AppException ''BUY_REQUEST_NOT_FOUND'')
      | Some r \<Rightarrow>
          if br_buyer r \<noteq> buyer then Inl (AppException ''BUY_REQUEST_NOT_FOUND'')
          else if br_status r \<noteq> BR_OPEN then Inl (AppException ''BUY_REQUEST_NOT_OPEN'')
          else Inr r)"

definition cancel_commit :: "id \<Rightarrow> buy_request \<Rightarrow> db \<Rightarrow> unit res \<times> db" where
  "cancel_commit req_id snapshot =
     transaction (close_request_tx BR_CANCELED (''buy-request-cancel:'' @ req_id) req_id snapshot)"

definition cancel_buy_request :: "id \<Rightarrow> id \<Rightarrow> db \<Rightarrow> unit res \<times> db" where
  "cancel_buy_request buyer req_id d =
     (case cancel_read buyer req_id d of
        Inl e \<Rightarrow> (Inl e, d)
      | Inr snapshot \<Rightarrow> cancel_commit req_id snapshot d)"

definition expire_commit :: "id \<Rightarrow> buy_request \<Rightarrow> db \<Rightarrow> unit res \<times> db" where
  "expire_commit req_id snapshot =
     transaction (close_request_tx BR_EXPIRED (''buy-request-expire:'' @ req_id) req_id snapshot)"

definition release_hold_for_expired :: "id \<Rightarrow> db \<Rightarrow> unit res \<times> db" where
  "release_hold_for_expired req_id d =
     (case row (buy_requests d) req_id of
        None \<Rightarrow> (Inr (), d)
      | Some r \<Rightarrow> if br_status r \<noteq> BR_OPEN then (Inr (), d) else expire_commit req_id r d)"

text \<open>The nightly job: every open request older than the time to live, errors logged and skipped.\<close>

definition expire_stale_buy_requests :: "int \<Rightarrow> db \<Rightarrow> db" where
  "expire_stale_buy_requests now d =
     (let cutoff = now - buy_request_ttl_days * 24 * 60 * 60 * 1000;
          stale = filter (\<lambda>(_, r). br_status r = BR_OPEN \<and> br_created_at r < cutoff) (buy_requests d)
      in fold (\<lambda>(i, _) d. snd (release_hold_for_expired i d)) stale d)"

section \<open>Filling a request by a purchase\<close>

definition fulfill_candidates :: "id \<Rightarrow> id \<Rightarrow> int \<Rightarrow> db \<Rightarrow> (id \<times> buy_request) list" where
  "fulfill_candidates buyer item price d =
     sort_key (\<lambda>(_, r). - the (br_max_price r))
       (filter (\<lambda>(_, r). br_buyer r = buyer \<and> br_item r = item \<and> br_status r = BR_OPEN
          \<and> (case br_max_price r of None \<Rightarrow> False | Some m \<Rightarrow> price \<le> m)) (buy_requests d))"

definition fulfill_for_purchase :: "id \<Rightarrow> id \<Rightarrow> int \<Rightarrow> db \<Rightarrow> db res" where
  "fulfill_for_purchase buyer item price d =
     (case find (\<lambda>(_, r). br_filled r < br_quantity r) (fulfill_candidates buyer item price d) of
        None \<Rightarrow> Inr d
      | Some (i, r) \<Rightarrow>
          if br_max_price r = None \<or> br_max_price r = Some 0 then Inr d
          else
            let unit_release = the (br_max_price r);
                next_filled = br_filled r + 1;
                current = release_amount r
            in if current < unit_release then Inl (PlainError ''Buy request reserve is inconsistent'')
               else
                 let next_reserved = current - unit_release;
                     new_status = (if br_quantity r \<le> next_filled then BR_FULFILLED else BR_OPEN);
                     change = (\<lambda>r. r\<lparr>br_filled := next_filled, br_reserved := Some next_reserved,
                                     br_status := new_status\<rparr>);
                     (count, t) = update_many (\<lambda>j s. j = i \<and> br_status s = BR_OPEN \<and> br_filled s = br_filled r
                                                    \<and> br_reserved s = Some current) change (buy_requests d)
                 in if count \<noteq> 1 then Inl (PlainError ''Buy request changed concurrently; retry purchase'')
                    else
                      bindE (if 0 < unit_release \<and> 0 < current
                             then bindE (release_buy_request_hold buyer i unit_release
                                           (''buy-request-fulfill:'' @ i @ '':'' @ show_int next_filled) (bank d))
                                    (\<lambda>(_, b). Inr (d\<lparr>bank := b, buy_requests := t\<rparr>))
                             else Inr (d\<lparr>buy_requests := t\<rparr>)) (\<lambda>d.
                      bindE (update_row i change (buy_requests d)) (\<lambda>t.
                      Inr (d\<lparr>buy_requests := t\<rparr>))))"

section \<open>Invariant\<close>

text \<open>What the handlers keep true of every request: an open one reserves its price for each unit
  that is not filled yet, and a closed one reserves nothing.\<close>

definition request_ok :: "buy_request \<Rightarrow> bool" where
  "request_ok r \<longleftrightarrow>
     (case br_max_price r of
        None \<Rightarrow> False
      | Some m \<Rightarrow> 0 < m \<and> 0 \<le> br_filled r \<and> br_filled r \<le> br_quantity r
          \<and> br_reserved r = Some (if br_status r = BR_OPEN then m * (br_quantity r - br_filled r) else 0)
          \<and> (br_status r = BR_OPEN \<longrightarrow> br_filled r < br_quantity r))"

definition requests_ok :: "db \<Rightarrow> bool" where
  "requests_ok d \<longleftrightarrow> distinct (keys (buy_requests d)) \<and> (\<forall>(i, r) \<in> set (buy_requests d). request_ok r)"

text \<open>The money the open requests of a user keep reserved.\<close>

definition reserved_total :: "id \<Rightarrow> db \<Rightarrow> int" where
  "reserved_total u d = tsum (\<lambda>_ r. if br_buyer r = u then release_amount r else 0) (buy_requests d)"

lemma requests_okD: "requests_ok d \<Longrightarrow> row (buy_requests d) i = Some r \<Longrightarrow> request_ok r"
  by (auto simp: requests_ok_def dest: row_Some_mem)

lemma set_AList_update: "set (AList.update k v t) \<subseteq> insert (k, v) (set t)"
  by (induction t) auto

lemma requests_ok_update:
  "requests_ok d \<Longrightarrow> row (buy_requests d) i = Some r \<Longrightarrow> request_ok r' \<Longrightarrow>
     requests_ok (d\<lparr>buy_requests := AList.update i r' (buy_requests d)\<rparr>)"
  using set_AList_update [of i r' "buy_requests d"] by (auto simp: requests_ok_def)

lemma requests_ok_bank [simp]: "requests_ok (d\<lparr>bank := b\<rparr>) = requests_ok d"
  by (simp add: requests_ok_def)

lemma reserved_total_update:
  "requests_ok d \<Longrightarrow> row (buy_requests d) i = Some r \<Longrightarrow> br_buyer r' = br_buyer r \<Longrightarrow>
     reserved_total u (d\<lparr>buy_requests := AList.update i r' (buy_requests d)\<rparr>) =
       reserved_total u d + (if br_buyer r = u then release_amount r' - release_amount r else 0)"
  by (auto simp: reserved_total_def requests_ok_def tsum_update)

section \<open>Closing a request\<close>

text \<open>A close either finds the request changed and does nothing, or pays back its reserve.\<close>

lemma close_request_cases:
  assumes "close_request_tx st key i snap d = Inr ((), d')" and "distinct (keys (buy_requests d))"
  obtains (lost) "\<And>r. row (buy_requests d) i = Some r \<Longrightarrow> \<not> claimable i snap i r" "d' = d"
    | (closed) r b where "row (buy_requests d) i = Some r" "claimable i snap i r"
        "d' = d\<lparr>bank := b, buy_requests :=
                AList.update i (r\<lparr>br_status := st, br_reserved := Some 0\<rparr>) (buy_requests d)\<rparr>"
        "if 0 < release_amount snap
         then \<exists>x. release_buy_request_hold (br_buyer snap) i (release_amount snap) key (bank d) = Inr (x, b)
         else b = bank d"
proof -
  let ?f = "\<lambda>r. r\<lparr>br_status := st, br_reserved := Some 0\<rparr>"
  have only: "claimable i snap k' v' \<Longrightarrow> k' = i" for k' v' by (simp add: claimable_def)
  have "(\<exists>r. row (buy_requests d) i = Some r \<and> claimable i snap i r
        \<and> update_many (claimable i snap) ?f (buy_requests d) = (1, AList.update i (?f r) (buy_requests d)))
      \<or> (\<forall>r. row (buy_requests d) i = Some r \<longrightarrow> \<not> claimable i snap i r)
        \<and> update_many (claimable i snap) ?f (buy_requests d) = (0, buy_requests d)"
    by (rule claim_cases [where p = "claimable i snap" and k = i and f = ?f, OF assms(2) only]) auto
  then consider (claimed) r where "row (buy_requests d) i = Some r" "claimable i snap i r"
      "update_many (claimable i snap) ?f (buy_requests d) = (1, AList.update i (?f r) (buy_requests d))"
    | (lost) "\<And>r. row (buy_requests d) i = Some r \<Longrightarrow> \<not> claimable i snap i r"
      "update_many (claimable i snap) ?f (buy_requests d) = (0, buy_requests d)" by blast
  then show ?thesis
  proof cases
    case (claimed r)
    note c = claimed
    show ?thesis
    proof (cases "0 < release_amount snap")
      case True
      with assms(1) c obtain x b where
        "release_buy_request_hold (br_buyer snap) i (release_amount snap) key (bank d) = Inr (x, b)"
        "d' = d\<lparr>bank := b, buy_requests := AList.update i (?f r) (buy_requests d)\<rparr>"
        by (auto simp: close_request_tx_def bindE_eq_Inr update_row_eq_Inr row_update)
      with True show ?thesis by (intro that(2) [OF c(1,2)]) auto
    next
      case False
      with assms(1) c have "d' = d\<lparr>buy_requests := AList.update i (?f r) (buy_requests d)\<rparr>"
        by (auto simp: close_request_tx_def bindE_eq_Inr update_row_eq_Inr row_update)
      with False show ?thesis by (intro that(2) [OF c(1,2), of "bank d"]) auto
    qed
  next
    case lost
    have "d' = d" using assms(1) lost(2) by (simp add: close_request_tx_def)
    with lost(1) show ?thesis by (rule that(1))
  qed
qed

lemma close_request_ok:
  assumes "close_request_tx st key i snap d = Inr ((), d')" and "requests_ok d" and "st \<noteq> BR_OPEN"
  shows "requests_ok d'"
proof -
  have dist: "distinct (keys (buy_requests d))" using assms(2) by (simp add: requests_ok_def)
  from assms(1) dist show ?thesis
  proof (cases rule: close_request_cases)
    case lost
    with assms(2) show ?thesis by simp
  next
    case (closed r b)
    from requests_okD [OF assms(2) closed(1)] have "request_ok (r\<lparr>br_status := st, br_reserved := Some 0\<rparr>)"
      using assms(3) by (auto simp: request_ok_def split: option.splits)
    then have "requests_ok (d\<lparr>buy_requests := AList.update i (r\<lparr>br_status := st, br_reserved := Some 0\<rparr>) (buy_requests d)\<rparr>)"
      by (rule requests_ok_update [OF assms(2) closed(1)])
    then show ?thesis using closed(3) by (simp add: requests_ok_def)
  qed
qed

text \<open>The first close wins: what is closed can be neither closed nor filled again.\<close>

lemma close_request_not_open:
  assumes "distinct (keys (buy_requests d))" and "\<And>r. row (buy_requests d) i = Some r \<Longrightarrow> br_status r \<noteq> BR_OPEN"
  shows "close_request_tx st key i snap d = Inr ((), d)"
proof -
  have "\<forall>(k, r) \<in> set (buy_requests d). \<not> claimable i snap k r"
    using assms by (auto simp: claimable_def dest: mem_row)
  from update_many_none [OF this] show ?thesis by (simp add: close_request_tx_def)
qed

section \<open>Filling\<close>

lemma fulfill_cases:
  assumes "fulfill_for_purchase buyer item price d = Inr d'" and "requests_ok d"
  obtains (none) "d' = d"
    | (filled) i r m x b where "row (buy_requests d) i = Some r" "br_status r = BR_OPEN" "br_buyer r = buyer"
        "br_item r = item" "br_max_price r = Some m" "price \<le> m" "0 < m"
        "release_buy_request_hold buyer i m (''buy-request-fulfill:'' @ i @ '':'' @ show_int (br_filled r + 1)) (bank d)
           = Inr (x, b)"
        "d' = d\<lparr>bank := b, buy_requests := AList.update i (r\<lparr>br_filled := br_filled r + 1,
             br_reserved := Some (m * (br_quantity r - br_filled r - 1)),
             br_status := (if br_quantity r \<le> br_filled r + 1 then BR_FULFILLED else BR_OPEN)\<rparr>) (buy_requests d)\<rparr>"
proof (cases "find (\<lambda>(_, r). br_filled r < br_quantity r) (fulfill_candidates buyer item price d)")
  case None
  with assms(1) that(1) show ?thesis by (simp add: fulfill_for_purchase_def)
next
  case (Some p)
  obtain i r where p: "p = (i, r)" by (cases p)
  have "(i, r) \<in> set (fulfill_candidates buyer item price d)"
    using Some p by (auto simp: find_Some_iff in_set_conv_nth)
  then have mem: "(i, r) \<in> set (buy_requests d)" "br_buyer r = buyer" "br_item r = item" "br_status r = BR_OPEN"
    and price: "case br_max_price r of None \<Rightarrow> False | Some m \<Rightarrow> price \<le> m"
    by (auto simp: fulfill_candidates_def)
  have dist: "distinct (keys (buy_requests d))" using assms(2) by (simp add: requests_ok_def)
  have rw: "row (buy_requests d) i = Some r" by (rule mem_row [OF dist mem(1)])
  obtain m where m: "br_max_price r = Some m" "price \<le> m" using price by (auto split: option.splits)
  have ok: "0 < m" "br_reserved r = Some (m * (br_quantity r - br_filled r))" "br_filled r < br_quantity r"
    using requests_okD [OF assms(2) rw] m(1) mem(4) by (auto simp: request_ok_def)
  let ?f = "\<lambda>s. s\<lparr>br_filled := br_filled r + 1, br_reserved := Some (m * (br_quantity r - br_filled r) - m),
       br_status := (if br_quantity r \<le> br_filled r + 1 then BR_FULFILLED else BR_OPEN)\<rparr>"
  have cur: "release_amount r = m * (br_quantity r - br_filled r)" using ok(2) by (simp add: release_amount_def)
  have enough: "m \<le> m * (br_quantity r - br_filled r)" "0 < m * (br_quantity r - br_filled r)"
    using ok(1,3) by (simp_all add: mult_le_cancel_left1)
  have "update_many (\<lambda>j s. j = i \<and> br_status s = BR_OPEN \<and> br_filled s = br_filled r
      \<and> br_reserved s = Some (m * (br_quantity r - br_filled r))) ?f (buy_requests d)
      = (1, AList.update i (?f r) (buy_requests d))"
    using mem ok by (intro update_many_single [OF dist rw]) auto
  with assms(1) Some p m ok enough cur obtain x b where
    "release_buy_request_hold buyer i m (''buy-request-fulfill:'' @ i @ '':'' @ show_int (br_filled r + 1)) (bank d) = Inr (x, b)"
    "d' = d\<lparr>bank := b, buy_requests := AList.update i (?f r) (buy_requests d)\<rparr>"
    by (auto simp: fulfill_for_purchase_def bindE_eq_Inr update_row_eq_Inr row_update Let_def)
  with rw mem m ok(1) that(2) show ?thesis by (simp add: algebra_simps)
qed

lemma fulfill_ok:
  assumes "fulfill_for_purchase buyer item price d = Inr d'" and "requests_ok d"
  shows "requests_ok d'"
  using assms
proof (cases rule: fulfill_cases)
  case none
  with assms(2) show ?thesis by simp
next
  case (filled i r m x b)
  let ?r = "r\<lparr>br_filled := br_filled r + 1, br_reserved := Some (m * (br_quantity r - br_filled r - 1)),
       br_status := (if br_quantity r \<le> br_filled r + 1 then BR_FULFILLED else BR_OPEN)\<rparr>"
  have ok: "br_filled r < br_quantity r" "0 \<le> br_filled r"
    using requests_okD [OF assms(2) filled(1)] filled(2,5) by (auto simp: request_ok_def)
  have "request_ok ?r"
  proof (cases "br_quantity r \<le> br_filled r + 1")
    case True
    with ok have "br_quantity r = br_filled r + 1" by simp
    with ok filled(5,7) show ?thesis by (simp add: request_ok_def)
  next
    case False
    with ok filled(5,7) show ?thesis by (simp add: request_ok_def algebra_simps)
  qed
  from requests_ok_update [OF assms(2) filled(1) this] filled(9) show ?thesis
    by (simp add: requests_ok_def)
qed

section \<open>The reserve is backed by the hold account\<close>

text \<open>The calls that change requests, for the invariant over all of them. A close carries the row
  it read, which another call may have overtaken.\<close>

datatype request_call =
    Create_request id int int int
  | Close_request buy_request_status string id buy_request
  | Fill_request id int

fun exec_request :: "id \<Rightarrow> request_call \<Rightarrow> db \<Rightarrow> db res" where
  "exec_request u (Create_request item m q now) d =
     bindE (create_request_tx u item m q now d) (\<lambda>(_, d). Inr d)"
| "exec_request u (Close_request st key i snap) d = bindE (close_request_tx st key i snap d) (\<lambda>(_, d). Inr d)"
| "exec_request u (Fill_request item price) d = fulfill_for_purchase u item price d"

text \<open>What the callers provide: the drawn identifier is new, prices and quantities are positive,
  the row a close carries was read under its id, and a key is used for one operation only.\<close>

fun request_call_wf :: "id \<Rightarrow> id \<Rightarrow> request_call \<Rightarrow> db \<Rightarrow> bool" where
  "request_call_wf u w (Create_request item m q now) d \<longleftrightarrow>
     0 < m \<and> 1 \<le> q \<and> (let i = fst (draw (bank d)) in row (buy_requests d) i = None
       \<and> unused (bank d) w (''buy-request-reserve:'' @ i))"
| "request_call_wf u w (Close_request st key i snap) d \<longleftrightarrow>
     st \<noteq> BR_OPEN \<and> br_buyer snap = u \<and> unused (bank d) w key
       \<and> (\<forall>r. row (buy_requests d) i = Some r \<longrightarrow> br_buyer r = u)"
| "request_call_wf u w (Fill_request item price) d \<longleftrightarrow>
     (\<forall>i r. row (buy_requests d) i = Some r \<longrightarrow>
        unused (bank d) w (''buy-request-fulfill:'' @ i @ '':'' @ show_int (br_filled r + 1)))"

lemma release_effect:
  assumes "release_buy_request_hold u req a key b = Inr (x, b')" and "has_wallet u w b" and "unused b w key"
  shows "bal b' w AT_HOLD = bal b w AT_HOLD - a" "bal b' w AT_AVAILABLE = bal b w AT_AVAILABLE + a"
proof -
  have "\<exists>es. posts b [(w, AT_HOLD, - a), (w, AT_AVAILABLE, a)] es b'"
    by (rule release_buy_request_hold_cases [OF assms(1) has_wallet_ensure [OF assms(2)]])
       (auto simp: unused_find [OF assms(3)] dest: fresh_op_posts)
  then show "bal b' w AT_HOLD = bal b w AT_HOLD - a" "bal b' w AT_AVAILABLE = bal b w AT_AVAILABLE + a"
    by (auto simp: posts_bal)
qed

lemma reserve_effect:
  assumes "reserve_buy_request_hold u req a key b = Inr (x, b')" and "has_wallet u w b" and "unused b w key"
  shows "bal b' w AT_HOLD = bal b w AT_HOLD + a" "bal b' w AT_AVAILABLE = bal b w AT_AVAILABLE - a"
proof -
  have "\<exists>es. posts b [(w, AT_AVAILABLE, - a), (w, AT_HOLD, a)] es b'"
    by (rule reserve_buy_request_hold_cases [OF assms(1) has_wallet_ensure [OF assms(2)]])
       (auto simp: unused_find [OF assms(3)] dest: fresh_op_posts)
  then show "bal b' w AT_HOLD = bal b w AT_HOLD + a" "bal b' w AT_AVAILABLE = bal b w AT_AVAILABLE - a"
    by (auto simp: posts_bal)
qed

lemma has_wallet_draw: "draw b = (i, b') \<Longrightarrow> has_wallet u w b' = has_wallet u w b"
  by (auto simp: draw_def has_wallet_def find_wallet_def)

lemma bal_draw: "draw b = (i, b') \<Longrightarrow> bal b' w t = bal b w t \<and> entries b' = entries b"
  by (auto simp: draw_def bal_def)

lemma create_backed:
  assumes "create_request_tx u item m q now d = Inr (i, d')" and "requests_ok d" and "has_wallet u w (bank d)"
    and "0 < m" "1 \<le> q" "row (buy_requests d) (fst (draw (bank d))) = None"
    and "unused (bank d) w (''buy-request-reserve:'' @ fst (draw (bank d)))"
  shows "requests_ok d' \<and> bal (bank d') w AT_HOLD - reserved_total u d'
           = bal (bank d) w AT_HOLD - reserved_total u d"
proof -
  obtain j b1 where dr: "draw (bank d) = (j, b1)" by (cases "draw (bank d)")
  define r where "r = \<lparr>br_buyer = u, br_item = item, br_max_price = Some m, br_quantity = q,
      br_filled = 0, br_reserved = Some (m * q), br_status = BR_OPEN,
      br_created_at = now, br_last_lot = None, br_last_price = None\<rparr>"
  from assms(1) dr obtain x b where b: "reserve_buy_request_hold u j (m * q) (''buy-request-reserve:'' @ j) b1 = Inr (x, b)"
    "d' = d\<lparr>bank := b, buy_requests := insert_row j r (buy_requests d)\<rparr>"
    by (auto simp: create_request_tx_def draw_db_def bindE_eq_Inr r_def)
  have w: "has_wallet u w b1" "unused b1 w (''buy-request-reserve:'' @ j)"
    using assms(3,7) dr bal_draw [OF dr] by (auto simp: has_wallet_draw [OF dr] unused_def)
  have "request_ok r" using assms(4,5) by (simp add: request_ok_def r_def)
  then have "requests_ok d'" using assms(2,6) dr b(2)
    by (auto simp: requests_ok_def insert_row_def row_None_iff)
  moreover have "reserved_total u d' = reserved_total u d + m * q"
    using b(2) by (simp add: reserved_total_def tsum_insert_row r_def release_amount_def)
  ultimately show ?thesis using reserve_effect(1) [OF b(1) w] bal_draw [OF dr] b(2) by simp
qed

lemma close_backed:
  assumes "close_request_tx st key i snap d = Inr ((), d')" and "requests_ok d" and "has_wallet u w (bank d)"
    and "st \<noteq> BR_OPEN" "br_buyer snap = u" "unused (bank d) w key"
    and "\<forall>r. row (buy_requests d) i = Some r \<longrightarrow> br_buyer r = u"
  shows "requests_ok d' \<and> bal (bank d') w AT_HOLD - reserved_total u d'
           = bal (bank d) w AT_HOLD - reserved_total u d"
proof -
  have ok: "requests_ok d'" by (rule close_request_ok [OF assms(1,2,4)])
  have dist: "distinct (keys (buy_requests d))" using assms(2) by (simp add: requests_ok_def)
  from assms(1) dist show ?thesis
  proof (cases rule: close_request_cases)
    case lost
    with assms(2) show ?thesis by simp
  next
    case (closed r b)
    have rel: "release_amount r = release_amount snap"
      using closed(2) by (simp add: claimable_def release_amount_def)
    have "0 \<le> release_amount r"
      using requests_okD [OF assms(2) closed(1)]
      by (auto simp: request_ok_def release_amount_def split: option.splits)
    then have "bal b w AT_HOLD = bal (bank d) w AT_HOLD - release_amount r"
      using closed(4) rel release_effect(1) [OF _ assms(3,6)] assms(5) by (auto split: if_splits)
    moreover have "reserved_total u d' = reserved_total u d - release_amount r"
      using reserved_total_update [OF assms(2) closed(1), of "r\<lparr>br_status := st, br_reserved := Some 0\<rparr>" u]
        assms(7) closed(1,3) by (simp add: reserved_total_def release_amount_def)
    ultimately show ?thesis using ok closed(3) by simp
  qed
qed

lemma fulfill_backed:
  assumes "fulfill_for_purchase u item price d = Inr d'" and "requests_ok d" and "has_wallet u w (bank d)"
    and "\<forall>i r. row (buy_requests d) i = Some r \<longrightarrow>
        unused (bank d) w (''buy-request-fulfill:'' @ i @ '':'' @ show_int (br_filled r + 1))"
  shows "requests_ok d' \<and> bal (bank d') w AT_HOLD - reserved_total u d'
           = bal (bank d) w AT_HOLD - reserved_total u d"
proof -
  have ok: "requests_ok d'" by (rule fulfill_ok [OF assms(1,2)])
  from assms(1,2) show ?thesis
  proof (cases rule: fulfill_cases)
    case none
    with assms(2) show ?thesis by simp
  next
    case (filled i r m x b)
    have key: "unused (bank d) w (''buy-request-fulfill:'' @ i @ '':'' @ show_int (br_filled r + 1))"
      using assms(4) filled(1) by blast
    have "bal b w AT_HOLD = bal (bank d) w AT_HOLD - m" by (rule release_effect(1) [OF filled(8) assms(3) key])
    moreover have "br_reserved r = Some (m * (br_quantity r - br_filled r))"
      using requests_okD [OF assms(2) filled(1)] filled(2,5) by (simp add: request_ok_def)
    then have "reserved_total u d' = reserved_total u d - m"
      using reserved_total_update [OF assms(2) filled(1), of "r\<lparr>br_filled := br_filled r + 1,
            br_reserved := Some (m * (br_quantity r - br_filled r - 1)),
            br_status := (if br_quantity r \<le> br_filled r + 1 then BR_FULFILLED else BR_OPEN)\<rparr>" u] filled(3,9)
      by (simp add: reserved_total_def release_amount_def algebra_simps)
    ultimately show ?thesis using ok filled(9) by simp
  qed
qed

lemma exec_request_backed:
  assumes "exec_request u c d = Inr d'" and "requests_ok d" and "has_wallet u w (bank d)"
    and "request_call_wf u w c d"
  shows "requests_ok d' \<and> bal (bank d') w AT_HOLD - reserved_total u d'
           = bal (bank d) w AT_HOLD - reserved_total u d"
proof (cases c)
  case (Create_request item m q now)
  then show ?thesis using assms create_backed [of u item m q now d _ d' w] by (auto simp: bindE_eq_Inr Let_def)
next
  case (Close_request st key i snap)
  then show ?thesis using assms close_backed [of st key i snap d d' u w] by (auto simp: bindE_eq_Inr)
next
  case (Fill_request item price)
  then show ?thesis using assms fulfill_backed [of u item price d d' w] by simp
qed

section \<open>The theorems of buy requests\<close>

text \<open>A buyer with one open request, for the applications.\<close>

definition demo_request_db :: db where
  "demo_request_db =
     (case create_request_tx ''buyer'' ''item'' 40 3 0 ((empty_db demo_ids)\<lparr>bank := demo_bank\<rparr>) of
        Inr (_, d) \<Rightarrow> d | Inl _ \<Rightarrow> empty_db demo_ids)"

definition demo_request_id :: id where
  "demo_request_id = fst (draw demo_bank)"

definition demo_request :: buy_request where
  "demo_request = \<lparr>br_buyer = ''buyer'', br_item = ''item'', br_max_price = Some 40, br_quantity = 3,
     br_filled = 0, br_reserved = Some 120, br_status = BR_OPEN, br_created_at = 0,
     br_last_lot = None, br_last_price = None\<rparr>"

lemma demo_request_rows: "buy_requests demo_request_db = [(demo_request_id, demo_request)]"
  by code_simp

lemma demo_request_ok: "requests_ok demo_request_db"
  by (simp add: requests_ok_def demo_request_rows) (simp add: demo_request_def request_ok_def)

lemma demo_request_wallet: "has_wallet ''buyer'' [] (bank demo_request_db)"
proof -
  have "find_wallet (bank demo_request_db) ''buyer'' = Some []"
    "row (accounts (bank demo_request_db)) ([], AT_AVAILABLE) = Some 380"
    "row (accounts (bank demo_request_db)) ([], AT_HOLD) = Some 320"
    "row (accounts (bank demo_request_db)) ([], AT_FROZEN) = Some 0"
    by code_simp+
  then show ?thesis by (simp add: has_wallet_def all_account_types)
qed

text \<open>
  C28: Creating, closing (cancel or expiry, also with a stale reading) and filling buy requests
  keep every request consistent: an open request reserves its price for each unfilled unit, a
  closed one nothing. And they keep the reserves backed: the buyer's hold balance moves by exactly
  what the open requests of the buyer reserve more or less.
\<close>

theorem request_reserve_backed:
  assumes "exec_request u c d = Inr d'" and "requests_ok d" and "has_wallet u w (bank d)"
    and "request_call_wf u w c d"
  shows "requests_ok d' \<and> bal (bank d') w AT_HOLD - bal (bank d) w AT_HOLD
           = reserved_total u d' - reserved_total u d"
  using exec_request_backed [OF assms] by simp

theorem request_reserve_backed_witness:
  "case exec_request ''buyer'' (Fill_request ''item'' 35) demo_request_db of
     Inl _ \<Rightarrow> False | Inr d' \<Rightarrow> requests_ok d' \<and> bal (bank d') [] AT_HOLD - 320 = reserved_total ''buyer'' d' - 120"
proof -
  have "case exec_request ''buyer'' (Fill_request ''item'' 35) demo_request_db of Inl _ \<Rightarrow> False | Inr d' \<Rightarrow> True"
    by code_simp
  then obtain d' where d': "exec_request ''buyer'' (Fill_request ''item'' 35) demo_request_db = Inr d'"
    by (auto split: sum.splits)
  have "unused (bank demo_request_db) [] (''buy-request-fulfill:'' @ demo_request_id @ '':'' @ show_int (0 + 1))"
    by code_simp
  then have "request_call_wf ''buyer'' [] (Fill_request ''item'' 35) demo_request_db"
    by (simp add: demo_request_rows) (simp add: demo_request_def)
  from request_reserve_backed [OF d' demo_request_ok demo_request_wallet this]
  have "requests_ok d' \<and> bal (bank d') [] AT_HOLD - bal (bank demo_request_db) [] AT_HOLD
      = reserved_total ''buyer'' d' - reserved_total ''buyer'' demo_request_db" .
  moreover have "bal (bank demo_request_db) [] AT_HOLD = 320" by code_simp
  moreover have "reserved_total ''buyer'' demo_request_db = 120" by code_simp
  ultimately show ?thesis using d' by simp
qed

text \<open>
  The money of a buy request is paid back once. Cancel and expiry may both have read the
  request while it was open, and either may come first: whichever close commits second changes
  nothing, in the requests and in the bank, and the first leaves the request closed.
\<close>

theorem request_released_once:
  assumes "distinct (keys (buy_requests d))"
    and "(if expired then expire_commit else cancel_commit) i snap d = (Inr (), d1)" and "row (buy_requests d) i = Some snap" and "br_status snap = BR_OPEN"
  shows "map_option br_status (row (buy_requests d1) i) \<in> {Some BR_CANCELED, Some BR_EXPIRED}
     \<and> cancel_commit i snap2 d1 = (Inr (), d1) \<and> expire_commit i snap2 d1 = (Inr (), d1)"
proof -
  have "\<exists>st key. close_request_tx st key i snap d = Inr ((), d1) \<and> st \<in> {BR_CANCELED, BR_EXPIRED}"
    using assms(2) by (cases expired) (fastforce simp: cancel_commit_def expire_commit_def transaction_def split: sum.splits)+
  then obtain st key where c: "close_request_tx st key i snap d = Inr ((), d1)" "st \<in> {BR_CANCELED, BR_EXPIRED}"
    by blast
  have "row (buy_requests d1) i = Some (snap\<lparr>br_status := st, br_reserved := Some 0\<rparr>)
      \<and> distinct (keys (buy_requests d1))"
    using c(1) assms(1)
  proof (cases rule: close_request_cases)
    case lost
    with assms(3,4) show ?thesis by (simp add: claimable_def)
  next
    case (closed r b)
    with assms(1,3) show ?thesis by (simp add: row_update)
  qed
  then have closed: "map_option br_status (row (buy_requests d1) i) = Some st" "distinct (keys (buy_requests d1))"
    by simp_all
  have "close_request_tx st' key' i snap2 d1 = Inr ((), d1)" for st' key'
    by (rule close_request_not_open [OF closed(2)]) (use closed(1) c(2) in auto)
  then show ?thesis using closed(1) c(2)
    by (auto simp: cancel_commit_def expire_commit_def transaction_def)
qed

theorem request_released_once_witness:
  "\<exists>d1. cancel_commit demo_request_id demo_request demo_request_db = (Inr (), d1)
     \<and> expire_commit demo_request_id demo_request d1 = (Inr (), d1)"
proof -
  have "fst (cancel_commit demo_request_id demo_request demo_request_db) = Inr ()" by code_simp
  then obtain d1 where d1: "cancel_commit demo_request_id demo_request demo_request_db = (Inr (), d1)"
    by (metis prod.collapse)
  have "expire_commit demo_request_id demo_request d1 = (Inr (), d1)"
    using request_released_once [where expired = False and i = demo_request_id and snap = demo_request
        and d = demo_request_db and ?d1.0 = d1 and ?snap2.0 = demo_request] d1
    by (simp add: demo_request_rows) (simp add: demo_request_def)
  with d1 show ?thesis by blast
qed

end
