(* ===== verification/Orders.thy ===== *)
theory Orders
  imports Accounts Settlement BuyRequests TradeState
begin

text \<open>
  The orders service (\<^verbatim>\<open>orders/orders.service.ts\<close>): buying a lot and canceling the purchase.
  \<open>create_order_tx\<close> and \<open>cancel_order_tx\<close> are the bodies of the two transactions; they start with
  \<open>FOR UPDATE\<close> and with an update of the order row, which serialise them on the lot and on the
  order. \<open>create_order\<close> and \<open>cancel_order\<close> are the handlers around them: replay by audit row,
  checks before the transaction, and the translation of a balance error. The answer is the
  order's identifier; \<open>getById\<close>, which renders it, checks who asks and, while the trade is
  waiting, asks the status poller for one poll, the parameter \<open>poll\<close>, whose failures it swallows.
\<close>

section \<open>Reading an order\<close>

definition trade_status_of_order :: "id \<Rightarrow> db \<Rightarrow> trade_op_status option" where
  "trade_status_of_order oid d = map_option (\<lambda>(_, t). t_status t) (trade_of oid d)"

definition get_order :: "(id \<Rightarrow> db \<Rightarrow> db) \<Rightarrow> id \<Rightarrow> id option \<Rightarrow> db \<Rightarrow> id res \<times> db" where
  "get_order poll oid requester d =
     (case row (orders d) oid of
        None \<Rightarrow> (Inl (AppException ''ORDER_NOT_FOUND''), d)
      | Some ord \<Rightarrow>
          if (case requester of None \<Rightarrow> False | Some u \<Rightarrow> u \<noteq> [] \<and> o_buyer ord \<noteq> u \<and> o_seller ord \<noteq> u)
          then (Inl (AppException ''ORDER_NOT_FOUND''), d)
          else (Inr oid,
                if o_status ord = OS_WAITING_TRADE \<and> trade_status_of_order oid d = Some TS_WAITING
                then poll oid d else d))"

section \<open>Buying a lot\<close>

definition lot_asset_expectations ::
    "listing_snapshot option \<Rightarrow> asset \<Rightarrow> item_definition option \<Rightarrow> string \<times> string option \<times> string option" where
  "lot_asset_expectations snap a item =
     (let snap_float = (case snap of None \<Rightarrow> None | Some s \<Rightarrow> sn_float_value s) in
      (case snap of Some s \<Rightarrow> sn_external_id s | None \<Rightarrow> a_external_id a,
       case snap of Some s \<Rightarrow> Some (sn_market_hash_name s) | None \<Rightarrow> map_option i_market_hash_name item,
       case snap_float of Some f \<Rightarrow> Some f | None \<Rightarrow> a_float_value a))"

definition order_verification_mode :: "world \<Rightarrow> string" where
  "order_verification_mode w =
     (if \<not> steam_provider w ''TRADE_PROVIDER'' \<and> task_pipeline_enabled w
         \<and> flag w ''ENABLE_DELIVERY_VERIFICATION_ENGINE''
      then resolve_order_verification_mode w
      else if \<not> steam_provider w ''TRADE_PROVIDER'' then ''MOCK''
      else resolve_order_verification_mode w)"

definition lot_expectations :: "id \<Rightarrow> lot \<Rightarrow> db \<Rightarrow> (string \<times> string option \<times> string option) option" where
  "lot_expectations lot_id l d =
     map_option (\<lambda>a. lot_asset_expectations (row (snapshots d) lot_id) a (row (items d) (a_item a)))
       (row (assets d) (l_asset l))"

definition create_task_payload ::
    "world \<Rightarrow> id \<Rightarrow> id \<Rightarrow> id \<Rightarrow> id \<Rightarrow> lot \<Rightarrow> string \<Rightarrow> db \<Rightarrow> json" where
  "create_task_payload w oid trade_id buyer lot_id l task_key d =
     (let expected = lot_expectations lot_id l d in
      JObj [(''orderId'', JStr oid), (''tradeOperationId'', JStr trade_id), (''sellerId'', JStr (l_seller l)),
            (''buyerId'', JStr buyer),
            (''expectedAssetId'', jstr_opt (map_option fst expected)),
            (''expectedFloatValue'', jstr_opt (case expected of None \<Rightarrow> None | Some (_, _, f) \<Rightarrow> f)),
            (''marketHashName'', jstr_opt (case expected of None \<Rightarrow> None | Some (_, n, _) \<Rightarrow> n)),
            (''buyerTradeUrl'', jstr_opt (case row (users (bank d)) buyer of None \<Rightarrow> None | Some u \<Rightarrow> u_trade_url u)),
            (''inventoryAssetId'', JStr (l_asset l)), (''idempotencyKey'', JStr task_key),
            (''sellerSteamId'', jstr_opt (steam_id_of (l_seller l) d)),
            (''uiTradeFlow'', JBool (ui_trade_flow_enabled w))])"

definition create_trade_task ::
    "world \<Rightarrow> int \<Rightarrow> id \<Rightarrow> id \<Rightarrow> id \<Rightarrow> id \<Rightarrow> lot \<Rightarrow> db \<Rightarrow> db" where
  "create_trade_task w now oid trade_id buyer lot_id l d =
     (let dedup = ''create_offer:'' @ trade_id; task_key = ''trade-task:'' @ dedup in
      if \<not> (task_pipeline_enabled w \<and> fst (should_create_task_for_seller w (l_seller l) d)) then d
      else if \<exists>(_, k) \<in> set (trade_tasks d). k_order k = oid \<and> k_dedup_key k = dedup then d
      else let (i, d) = draw_db d in
        d\<lparr>trade_tasks := insert_row i
            \<lparr>k_order = oid, k_trade_op = trade_id, k_type = ''create_offer'', k_status = TT_CREATED, k_phase = None,
             k_dedup_key = dedup, k_idempotency_key = task_key,
             k_payload = create_task_payload w oid trade_id buyer lot_id l task_key d,
             k_attempts = 0, k_max_attempts = task_max_attempts w, k_next_attempt = None,
             k_expires_at = now + task_ttl_ms w, k_send_started_at = None, k_lease_device = None,
             k_lease_until = None, k_lease_version = 0, k_last_error = None, k_created_at = now\<rparr> (trade_tasks d)\<rparr>)"

definition open_lot_statuses :: "order_status list" where
  "open_lot_statuses =
     [OS_CREATED, OS_PAYMENT_RESERVED, OS_WAITING_TRADE, OS_TRADE_CONFIRMED, OS_DISPUTE]"

definition has_open_order :: "id \<Rightarrow> db \<Rightarrow> bool" where
  "has_open_order lot_id d \<longleftrightarrow>
     (\<exists>(_, ord) \<in> set (orders d). o_lot ord = lot_id \<and> o_status ord \<in> set open_lot_statuses)"

definition insert_order_and_hold :: "int \<Rightarrow> id \<Rightarrow> id \<Rightarrow> lot \<Rightarrow> db \<Rightarrow> id \<times> id \<times> db" where
  "insert_order_and_hold now buyer lot_id l d =
     (let (w_id, b) = ensure_user_wallet buyer (bank d);
          (oid, d) = draw_db (d\<lparr>bank := b\<rparr>);
          d = d\<lparr>orders := insert_row oid
                 \<lparr>o_lot = lot_id, o_buyer = buyer, o_seller = l_seller l, o_status = OS_CREATED,
                  o_amount = l_price l, o_hold_amount = l_price l, o_created_at = now\<rparr> (orders d)\<rparr>;
          (hid, d) = draw_db d
      in (oid, hid, d\<lparr>holds := insert_row hid
            \<lparr>h_order = oid, h_wallet = w_id, h_amount = l_price l, h_captured = 0, h_released = 0,
             h_settlement_until = None, h_settlement_released_at = None\<rparr> (holds d)\<rparr>))"

definition insert_trade_op :: "world \<Rightarrow> id \<Rightarrow> id \<Rightarrow> lot \<Rightarrow> id \<Rightarrow> db \<Rightarrow> id \<times> db" where
  "insert_trade_op w oid lot_id l buyer d =
     (let expected = map_option fst (lot_expectations lot_id l d);
          (tid, d) = draw_db d
      in (tid, record_trade_created tid (Some buyer) (d\<lparr>trade_ops := insert_row tid
            \<lparr>t_order = oid, t_status = TS_WAITING, t_provider_ref = None, t_fail_reason = None,
             t_offer_id = None, t_expected_asset = expected, t_mode = Some (order_verification_mode w),
             t_stage = ''WAITING_FOR_STEAM'', t_next_verification = None, t_delivery_proof = JNull,
             t_trade_binding = None, t_baseline = None, t_last_checked = None, t_check_count = 0,
             t_next_preparation = None, t_lease_until = None, t_lease_token = None\<rparr> (trade_ops d)\<rparr>)))"

text \<open>From the reserved payment to the waiting trade.\<close>

definition start_trade :: "world \<Rightarrow> int \<Rightarrow> id \<Rightarrow> id \<Rightarrow> lot \<Rightarrow> id \<Rightarrow> db \<Rightarrow> db res" where
  "start_trade w now buyer lot_id l oid d =
     bindE (order_transition_by_event oid OS_CREATED OE_PAYMENT_RESERVED (Some buyer) None False
              (record_order_created oid (Some buyer) d)) (\<lambda>(_, d).
     bindE (lot_transition lot_id (l_status l) LS_RESERVED (Some buyer) None
              (\<lambda>l. l\<lparr>l_reserved_by := Some buyer\<rparr>) d) (\<lambda>d.
     bindE (set_asset_status (l_asset l) IA_RESERVED d) (\<lambda>d.
     let (tid, d) = insert_trade_op w oid lot_id l buyer d;
         d = create_trade_task w now oid tid buyer lot_id l d
     in bindE (order_transition_by_event oid OS_PAYMENT_RESERVED OE_TRADE_OPERATION_CREATED (Some buyer) None
                 False d) (\<lambda>(_, d). Inr d))))"

definition order_created_records :: "id \<Rightarrow> id \<Rightarrow> lot \<Rightarrow> id \<Rightarrow> string \<Rightarrow> db \<Rightarrow> db" where
  "order_created_records buyer lot_id l oid key d =
     append_outbox \<lparr>ob_event = ''TRADE_OPERATION_CREATED'', ob_aggregate_type = ''order'', ob_aggregate = oid,
         ob_payload = JObj [(''buyerId'', JStr buyer), (''sellerId'', JStr (l_seller l))]\<rparr>
    (append_outbox \<lparr>ob_event = ''ORDER_CREATED'', ob_aggregate_type = ''order'', ob_aggregate = oid,
         ob_payload = JObj [(''lotId'', JStr lot_id), (''buyerId'', JStr buyer), (''sellerId'', JStr (l_seller l)),
           (''amountMinor'', JStr (show_int (l_price l)))]\<rparr>
    (append_audit \<lparr>au_actor = Some buyer, au_entity_type = ''order'', au_entity_id = oid,
         au_action = ''ORDER_CREATED'', au_reason = None, au_before = JNull,
         au_after = JObj [(''status'', json_status OS_WAITING_TRADE)], au_key = Some key\<rparr> d))"

definition create_order_tx :: "world \<Rightarrow> int \<Rightarrow> id \<Rightarrow> id \<Rightarrow> string \<Rightarrow> db \<Rightarrow> (id \<times> db) res" where
  "create_order_tx w now buyer lot_id key d =
     (case row (lots d) lot_id of
        None \<Rightarrow> Inl (AppException ''LOT_NOT_FOUND'')
      | Some l \<Rightarrow>
          if l_status l \<noteq> LS_ACTIVE then Inl (AppException ''LOT_NOT_ACTIVE'')
          else if l_seller l = buyer then Inl (AppException ''CANNOT_BUY_OWN_LOT'')
          else if has_open_order lot_id d then Inl (AppException ''LOT_HAS_OPEN_ORDER'')
          else
            let (oid, hid, d) = insert_order_and_hold now buyer lot_id l d
            in case row (assets d) (l_asset l) of
                 None \<Rightarrow> Inl RecordNotFound
               | Some a \<Rightarrow>
                   bindE (fulfill_for_purchase buyer (a_item a) (l_price l) d) (\<lambda>d.
                   bindE (reserve_purchase_hold buyer oid hid (l_price l) (''order-reserve:'' @ key) (bank d)) (\<lambda>(_, b).
                   bindE (start_trade w now buyer lot_id l oid (d\<lparr>bank := b\<rparr>)) (\<lambda>d.
                   if row (orders d) oid = None then Inl (AppException ''INTERNAL_ERROR'')
                   else Inr (oid, order_created_records buyer lot_id l oid key d)))))"

text \<open>The checks of the buyer and of the seller of the lot that the transaction does not repeat.\<close>

definition order_prechecks :: "world \<Rightarrow> int \<Rightarrow> id \<Rightarrow> id \<Rightarrow> db \<Rightarrow> unit res \<times> db" where
  "order_prechecks w now buyer lot_id d =
     (case row (users (bank d)) buyer of
        None \<Rightarrow> (Inl (AppException ''UNAUTHORIZED''), d)
      | Some u \<Rightarrow>
          if u_status u \<noteq> US_ACTIVE then (Inl (AppException ''BUYER_NOT_ACTIVE''), d)
          else if \<not> has_valid_trade_url w (u_trade_url u) then (Inl (AppException ''TRADE_URL_REQUIRED''), d)
          else case assert_can_trade w now (u_steam_id u) d of
            (Inl e, d) \<Rightarrow> (Inl e, d)
          | (Inr (), d) \<Rightarrow>
              (case (case row (lots d) lot_id of None \<Rightarrow> None | Some l \<Rightarrow> row (users (bank d)) (l_seller l)) of
                 None \<Rightarrow> (Inr (), d)
               | Some s \<Rightarrow>
                   if \<not> has_valid_trade_url w (u_trade_url s) then (Inl (AppException ''TRADE_URL_REQUIRED''), d)
                   else assert_can_trade w now (u_steam_id s) d))"

definition created_order :: "string \<Rightarrow> db \<Rightarrow> id option" where
  "created_order key d =
     map_option au_entity_id (find (\<lambda>a. au_key a = Some key \<and> au_action a = ''ORDER_CREATED''
        \<and> au_entity_type a = ''order'') (audit d))"

definition create_order ::
    "(id \<Rightarrow> db \<Rightarrow> db) \<Rightarrow> world \<Rightarrow> int \<Rightarrow> id \<Rightarrow> id \<Rightarrow> string \<Rightarrow> db \<Rightarrow> id res \<times> db" where
  "create_order poll w now buyer lot_id key d =
     (if key = [] then (Inl (AppException ''IDEMPOTENCY_KEY_REQUIRED''), d)
      else case created_order key d of
        Some oid \<Rightarrow> get_order poll oid (Some buyer) d
      | None \<Rightarrow>
          (case order_prechecks w now buyer lot_id d of
             (Inl e, d) \<Rightarrow> (Inl e, d)
           | (Inr (), d) \<Rightarrow>
               (case transaction (create_order_tx w now buyer lot_id key) d of
                  (Inl e, d) \<Rightarrow> (Inl (if insufficient_available e then AppException ''INSUFFICIENT_BALANCE'' else e), d)
                | (Inr oid, d) \<Rightarrow> (Inr oid, d))))"

section \<open>Canceling a purchase\<close>

text \<open>A task that may have reached Steam: a refund is not safe any more.\<close>

definition send_started :: "id \<Rightarrow> trade_task \<Rightarrow> bool" where
  "send_started oid k \<longleftrightarrow>
     k_order k = oid
     \<and> (k_send_started_at k \<noteq> None \<or> k_status k \<in> {TT_DISPATCHED, TT_ACKED}
        \<or> k_phase k \<in> {Some TP_ITEM_SELECTED, Some TP_OFFER_SUBMITTED, Some TP_CONFIRM_PENDING, Some TP_OFFER_SENT})"

definition cancel_guard :: "id \<Rightarrow> settlement_order \<Rightarrow> db \<Rightarrow> (id \<times> hold) res" where
  "cancel_guard buyer so d =
     (let ord = so_order so in
      if o_buyer ord \<noteq> buyer then Inl (AppException ''FORBIDDEN'')
      else if \<not> is_open_status (o_status ord) then Inl (AppException ''BAD_REQUEST'')
      else if o_status ord = OS_TRADE_CONFIRMED then Inl (AppException ''BAD_REQUEST'')
      else if (case so_trade so of None \<Rightarrow> False | Some (_, t) \<Rightarrow> present (t_offer_id t))
              \<or> (\<exists>(_, k) \<in> set (trade_tasks d). send_started (so_id so) k)
      then Inl (AppException ''BAD_REQUEST'')
      else case so_hold so of None \<Rightarrow> Inl (AppException ''BAD_REQUEST'') | Some h \<Rightarrow> Inr h)"

definition cancel_order_tx :: "id \<Rightarrow> id \<Rightarrow> string \<Rightarrow> db \<Rightarrow> (id \<times> db) res" where
  "cancel_order_tx buyer oid key d =
     (case load_order oid d of
        None \<Rightarrow> Inl (AppException ''ORDER_NOT_FOUND'')
      | Some so \<Rightarrow>
          let ord = so_order so; l = so_lot so in
          bindE (cancel_guard buyer so d) (\<lambda>(hid, h).
          bindE (refund_hold buyer oid hid (h_amount h) (''order-cancel:'' @ key) (bank d)) (\<lambda>(_, b).
          bindE (order_transition_by_event oid (o_status ord) OE_CANCEL (Some buyer) (Some ''buyer_canceled'') False
                   (d\<lparr>bank := b\<rparr>)) (\<lambda>(_, d).
          bindE (lot_transition (o_lot ord) (l_status l) LS_ACTIVE (Some buyer) None
                   (\<lambda>l. l\<lparr>l_reserved_by := None\<rparr>) d) (\<lambda>d.
          bindE (set_asset_status (l_asset l) IA_LISTED d) (\<lambda>d.
          let (_, t) = update_many (\<lambda>_ t. t_order t = oid)
                         (\<lambda>t. t\<lparr>t_status := TS_FAILED_SAFE, t_fail_reason := Some ''BUYER_CANCELED''\<rparr>) (trade_ops d);
              d = d\<lparr>trade_ops := t\<rparr>
          in if row (orders d) oid = None then Inl (AppException ''ORDER_NOT_FOUND'')
             else Inr (oid,
               append_outbox \<lparr>ob_event = ''ORDER_FAILED'', ob_aggregate_type = ''order'', ob_aggregate = oid,
                   ob_payload = JObj [(''reason'', JStr ''buyer_canceled'')]\<rparr>
              (append_audit \<lparr>au_actor = Some buyer, au_entity_type = ''order'', au_entity_id = oid,
                   au_action = ''ORDER_CANCELED'', au_reason = None,
                   au_before = JObj [(''status'', json_status (o_status ord))],
                   au_after = JObj [(''status'', json_status OS_CANCELED)], au_key = Some key\<rparr> d))))))))"

definition cancel_order :: "(id \<Rightarrow> db \<Rightarrow> db) \<Rightarrow> id \<Rightarrow> id \<Rightarrow> string \<Rightarrow> db \<Rightarrow> id res \<times> db" where
  "cancel_order poll buyer oid key d =
     (if key = [] then (Inl (AppException ''IDEMPOTENCY_KEY_REQUIRED''), d)
      else if find_audit ''order'' oid ''ORDER_CANCELED'' key d then get_order poll oid (Some buyer) d
      else transaction (cancel_order_tx buyer oid key) d)"

text \<open>The on-demand delivery check of a party: one forced poll, whose errors are swallowed.\<close>

definition check_delivery ::
    "(id \<Rightarrow> db \<Rightarrow> bool res \<times> db) \<Rightarrow> (id \<Rightarrow> db \<Rightarrow> db) \<Rightarrow> id \<Rightarrow> id \<Rightarrow> db \<Rightarrow> bool res \<times> db" where
  "check_delivery forced_poll poll oid requester d =
     (case row (orders d) oid of
        None \<Rightarrow> (Inl (AppException ''ORDER_NOT_FOUND''), d)
      | Some ord \<Rightarrow>
          if o_buyer ord \<noteq> requester \<and> o_seller ord \<noteq> requester
          then (Inl (AppException ''ORDER_NOT_FOUND''), d)
          else if o_status ord \<noteq> OS_WAITING_TRADE \<or> trade_status_of_order oid d \<noteq> Some TS_WAITING
          then (Inl (AppException ''BAD_REQUEST''), d)
          else
            let (answer, d) = forced_poll oid d;
                transitioned = (case answer of Inr t \<Rightarrow> t | Inl _ \<Rightarrow> False)
            in case get_order poll oid (Some requester) d of
                 (Inl e, d) \<Rightarrow> (Inl e, d)
               | (Inr _, d) \<Rightarrow> (Inr transitioned, d))"

end
