(* ===== verification/DeliveryDecision.thy ===== *)
theory DeliveryDecision
  imports Environment
begin

text \<open>
  What one delivery check concludes: \<^verbatim>\<open>trades/delivery-verification.types.ts\<close>, the settings of
  \<^verbatim>\<open>trades/delivery-verification.config.ts\<close>, the decision of
  \<^verbatim>\<open>trades/delivery-verification-decision.ts\<close> and the retry streaks of
  \<^verbatim>\<open>trades/verification-streaks.ts\<close>. Only a persisted Steam receipt confirms a delivery;
  everything else waits, fails the trade, or hands it to a person.
\<close>

section \<open>Types\<close>

datatype inventory_delta = ID_pending | ID_confirmed | ID_seller_still_holds | ID_unknown | ID_ambiguous

fun inventory_delta_name :: "inventory_delta \<Rightarrow> string" where
  "inventory_delta_name ID_pending = ''pending''"
| "inventory_delta_name ID_confirmed = ''confirmed''"
| "inventory_delta_name ID_seller_still_holds = ''seller_still_holds''"
| "inventory_delta_name ID_unknown = ''unknown''"
| "inventory_delta_name ID_ambiguous = ''ambiguous''"

fun offer_status_name :: "offer_status \<Rightarrow> string" where
  "offer_status_name Offer_needs_confirmation = ''needs_confirmation''"
| "offer_status_name Offer_pending = ''pending''"
| "offer_status_name Offer_accepted = ''accepted''"
| "offer_status_name Offer_declined = ''declined''"
| "offer_status_name Offer_expired = ''expired''"
| "offer_status_name Offer_unknown = ''unknown''"

datatype delivery_action =
  DA_wait | DA_confirm | DA_fail | DA_dispute | DA_timeout | DA_backoff | DA_manual_review

fun delivery_action_name :: "delivery_action \<Rightarrow> string" where
  "delivery_action_name DA_wait = ''WAIT''"
| "delivery_action_name DA_confirm = ''CONFIRM''"
| "delivery_action_name DA_fail = ''FAIL''"
| "delivery_action_name DA_dispute = ''DISPUTE''"
| "delivery_action_name DA_timeout = ''TIMEOUT''"
| "delivery_action_name DA_backoff = ''BACKOFF''"
| "delivery_action_name DA_manual_review = ''MANUAL_REVIEW''"

text \<open>A reason is one of the literals of \<open>DeliveryVerificationReason\<close>.\<close>

record delivery_decision =
  dd_action :: delivery_action
  dd_reason :: string
  dd_code :: string
  dd_outcome :: string
  dd_offer :: "offer_status option"
  dd_inventory :: "inventory_delta option"

record delivery_signals =
  ds_has_offer :: bool
  ds_offer :: "offer_status option"
  ds_inventory :: "inventory_delta option"
  ds_buyer_ack :: bool
  ds_timed_out :: bool
  ds_rate_limited :: bool
  ds_offer_unknown_streak :: int
  ds_inventory_unknown_streak :: int
  ds_accepted_pending_streak :: int
  ds_receipt_persisted :: bool
  ds_fail_safe :: bool

record delivery_evidence =
  de_receipt_persisted :: bool
  de_steam_authority :: bool
  de_offer :: "offer_status option"
  de_inventory :: "inventory_delta option"
  de_reason :: string
  de_code :: string
  de_engine :: bool

text \<open>The evidence as the audit row stores it; the two markers are absent unless set.\<close>

definition json_evidence :: "delivery_evidence \<Rightarrow> json" where
  "json_evidence e = JObj (
     [(''offerStatus'', jstr_opt (map_option offer_status_name (de_offer e))),
      (''inventoryDelta'', jstr_opt (map_option inventory_delta_name (de_inventory e))),
      (''reason'', JStr (de_reason e)), (''reasonCode'', JStr (de_code e)), (''engineEnabled'', JBool (de_engine e))]
     @ (if de_receipt_persisted e then [(''receiptProofPersisted'', JBool True)] else [])
     @ (if de_steam_authority e then [(''deliveryAuthority'', JStr ''STEAM_RECEIPT'')] else []))"

section \<open>Settings\<close>

definition delivery_engine_enabled :: "world \<Rightarrow> bool" where
  "delivery_engine_enabled w = flag w ''ENABLE_DELIVERY_VERIFICATION_ENGINE''"

definition trade_timeout_ms :: "world \<Rightarrow> int" where
  "trade_timeout_ms w = positive_setting w ''TRADE_TIMEOUT_MINUTES'' 60 * 60000"

definition poll_backoff_base_ms :: "world \<Rightarrow> int" where
  "poll_backoff_base_ms w = positive_setting w ''TRADE_POLL_BACKOFF_MS'' 60000"

definition poll_backoff_max_ms :: "world \<Rightarrow> int" where
  "poll_backoff_max_ms w = positive_setting w ''TRADE_POLL_BACKOFF_MAX_MS'' 900000"

definition poll_backoff_multiplier :: "world \<Rightarrow> int" where
  "poll_backoff_multiplier w = positive_setting w ''TRADE_POLL_BACKOFF_MULTIPLIER'' 2"

definition inventory_unknown_max_checks :: "world \<Rightarrow> int" where
  "inventory_unknown_max_checks w = positive_setting w ''DELIVERY_INVENTORY_UNKNOWN_MAX_CHECKS'' 10"

definition accepted_pending_max_checks :: "world \<Rightarrow> int" where
  "accepted_pending_max_checks w = positive_setting w ''DELIVERY_ACCEPTED_INVENTORY_PENDING_MAX_CHECKS'' 20"

definition offer_unknown_max_checks :: "world \<Rightarrow> int" where
  "offer_unknown_max_checks w = positive_setting w ''DELIVERY_OFFER_UNKNOWN_MAX_CHECKS'' 20"

definition trade_fail_safe_mode :: "world \<Rightarrow> bool" where
  "trade_fail_safe_mode w \<longleftrightarrow> env w ''TRADE_FAIL_MODE'' = Some ''SAFE''"

definition rate_limit_backoff_ms :: "world \<Rightarrow> nat \<Rightarrow> int" where
  "rate_limit_backoff_ms w hits =
     (let scaled = min (poll_backoff_base_ms w * poll_backoff_multiplier w ^ (hits - 1)) (poll_backoff_max_ms w)
      in scaled + random_tenths w (min 300000 scaled))"

section \<open>The decision\<close>

definition decision ::
    "delivery_action \<Rightarrow> string \<Rightarrow> string \<Rightarrow> delivery_signals \<Rightarrow> string option \<Rightarrow> delivery_decision" where
  "decision action reason code s outcome =
     \<lparr>dd_action = action, dd_reason = reason, dd_code = code,
      dd_outcome = (if action = DA_manual_review then ''MANUAL_REVIEW''
                    else case outcome of Some x \<Rightarrow> x | None \<Rightarrow> delivery_action_name action),
      dd_offer = ds_offer s, dd_inventory = ds_inventory s\<rparr>"

definition decide :: "world \<Rightarrow> delivery_signals \<Rightarrow> delivery_decision" where
  "decide w s =
     (let offer = ds_offer s; inventory = ds_inventory s in
      if ds_receipt_persisted s
      then decision DA_confirm ''RECEIPT_AUTHORITY_CONFIRMED'' ''RECEIPT_AUTHORITY_CONFIRMED'' s (Some ''CONFIRMED'')
      else if inventory = Some ID_ambiguous
      then decision DA_manual_review ''DELIVERY_VERIFICATION_UNKNOWN'' ''DESTINATION_AMBIGUOUS'' s (Some ''MANUAL_REVIEW'')
      else if ds_rate_limited s
      then (if ds_timed_out s
            then decision DA_manual_review ''DELIVERY_VERIFICATION_UNKNOWN'' ''STEAM_UNAVAILABLE_TIMEOUT'' s
                   (Some ''FAILED_DISPUTE'')
            else decision DA_backoff ''RATE_LIMITED'' ''rate_limited'' s None)
      else if \<not> ds_has_offer s
      then decision DA_wait ''INVENTORY_PENDING''
             (if inventory = Some ID_unknown then ''INVENTORY_UNKNOWN_RETRY'' else ''OFFER_UNKNOWN_RETRY'') s None
      else if offer = Some Offer_needs_confirmation
      then decision DA_wait ''OFFER_NEEDS_CONFIRMATION'' ''AWAITING_SELLER_STEAM_GUARD'' s None
      else if offer = Some Offer_declined \<or> offer = Some Offer_expired
      then (if inventory = Some ID_confirmed
            then decision DA_dispute ''DELIVERY_SIGNAL_CONFLICT'' ''DELIVERY_SIGNAL_CONFLICT'' s (Some ''FAILED_DISPUTE'')
            else let reason = (if offer = Some Offer_declined then ''OFFER_DECLINED'' else ''OFFER_EXPIRED'')
                 in decision DA_fail reason reason s
                      (Some (if ds_fail_safe s then ''FAILED_SAFE'' else ''FAILED_DISPUTE'')))
      else if offer = Some Offer_accepted \<and> inventory = Some ID_seller_still_holds
      then decision DA_dispute ''DELIVERY_INVENTORY_MISMATCH'' ''DELIVERY_INVENTORY_MISMATCH'' s (Some ''FAILED_DISPUTE'')
      else if offer = Some Offer_pending \<and> inventory = Some ID_confirmed
      then decision DA_dispute ''DELIVERY_SIGNAL_CONFLICT'' ''DELIVERY_SIGNAL_CONFLICT'' s (Some ''FAILED_DISPUTE'')
      else if inventory = Some ID_unknown \<and> inventory_unknown_max_checks w \<le> ds_inventory_unknown_streak s
      then decision DA_manual_review ''INVENTORY_UNKNOWN_EXHAUSTED'' ''INVENTORY_UNKNOWN_EXHAUSTED'' s
             (Some ''FAILED_DISPUTE'')
      else if offer = Some Offer_accepted
      then (if accepted_pending_max_checks w \<le> ds_accepted_pending_streak s
            then decision DA_manual_review ''DELIVERY_VERIFICATION_UNKNOWN'' ''DELIVERY_VERIFICATION_UNKNOWN'' s
                   (Some ''FAILED_DISPUTE'')
            else decision DA_wait ''INVENTORY_PENDING'' ''INVENTORY_PENDING'' s None)
      else if (offer = Some Offer_unknown \<or> offer = None) \<and> offer_unknown_max_checks w \<le> ds_offer_unknown_streak s
      then decision DA_manual_review ''OFFER_UNKNOWN'' ''OFFER_UNKNOWN_EXHAUSTED'' s (Some ''FAILED_DISPUTE'')
      else if inventory = Some ID_seller_still_holds \<and> \<not> ds_buyer_ack s
      then decision DA_wait ''OFFER_PENDING'' ''AWAITING_BUYER_STEAM_ACCEPT'' s None
      else decision DA_wait ''OFFER_UNKNOWN'' ''OFFER_UNKNOWN_RETRY'' s None)"

definition decide_delivery_verification :: "world \<Rightarrow> delivery_signals \<Rightarrow> delivery_decision" where
  "decide_delivery_verification w s =
     (let result = decide w s in
      if ds_timed_out s \<and> dd_action result = DA_wait
      then decision DA_manual_review ''TRADE_TIMEOUT'' ''TRADE_TIMEOUT'' s None
      else result)"

section \<open>Streaks\<close>

text \<open>
  The poll rows of a trade operation, newest first. Rows a client reported never touch a streak:
  only the two strategies of the server count.
\<close>

definition server_row :: "poll_event \<Rightarrow> bool" where
  "server_row p \<longleftrightarrow>
     (case po_strategy p of None \<Rightarrow> False
      | Some s \<Rightarrow> prefix ''OFFER_POLL+'' s \<or> prefix ''INVENTORY_DELTA:'' s)"

definition streak :: "(poll_event \<Rightarrow> bool) \<Rightarrow> poll_event list \<Rightarrow> int" where
  "streak q rows = int (length (takeWhile q (filter server_row rows)))"

definition offer_unknown_row :: "poll_event \<Rightarrow> bool" where
  "offer_unknown_row p \<longleftrightarrow> po_offer_status p = Some ''unknown'' \<or> po_offer_status p = None"

definition inventory_unknown_row :: "poll_event \<Rightarrow> bool" where
  "inventory_unknown_row p \<longleftrightarrow> (case po_strategy p of None \<Rightarrow> False | Some s \<Rightarrow> suffix '':unknown'' s)"

definition accepted_pending_row :: "poll_event \<Rightarrow> bool" where
  "accepted_pending_row p \<longleftrightarrow> po_offer_status p = Some ''accepted'' \<and> po_outcome p \<noteq> ''CONFIRMED''"

record streak_counts =
  sk_offer_unknown :: int
  sk_inventory_unknown :: int
  sk_accepted_pending :: int

definition delivery_streaks :: "poll_event list \<Rightarrow> streak_counts" where
  "delivery_streaks rows =
     \<lparr>sk_offer_unknown = streak offer_unknown_row rows,
      sk_inventory_unknown = streak inventory_unknown_row rows,
      sk_accepted_pending = streak accepted_pending_row rows\<rparr>"


section \<open>The theorems of the decision\<close>

text \<open>
  C20: What a delivery check may conclude. It confirms exactly when the server has persisted a Steam
  receipt for the offer, whatever the buyer, the inventory or the offer's status say. It fails the
  trade only for an offer that Steam reports as declined or expired and whose item has not moved to
  the buyer, and it disputes only for signals that contradict each other. It never concludes a
  timeout as such.
\<close>

theorem delivery_decision_safe:
  "(dd_action (decide_delivery_verification w s) = DA_confirm) = ds_receipt_persisted s
   \<and> {s. dd_action (decide_delivery_verification w s) = DA_fail}
       \<subseteq> {s. ds_has_offer s \<and> ds_offer s \<in> {Some Offer_declined, Some Offer_expired}
              \<and> ds_inventory s \<noteq> Some ID_confirmed \<and> \<not> ds_rate_limited s}
   \<and> {s. dd_action (decide_delivery_verification w s) = DA_dispute}
       \<subseteq> {s. ds_has_offer s \<and> (ds_offer s, ds_inventory s) \<in>
              {(Some Offer_declined, Some ID_confirmed), (Some Offer_expired, Some ID_confirmed),
               (Some Offer_accepted, Some ID_seller_still_holds), (Some Offer_pending, Some ID_confirmed)}}
   \<and> dd_action (decide_delivery_verification w s) \<noteq> DA_timeout"
  by (intro conjI subsetI; auto simp: decide_delivery_verification_def decide_def decision_def Let_def split: if_splits)


definition demo_signals :: delivery_signals where
  "demo_signals = \<lparr>ds_has_offer = True, ds_offer = Some Offer_pending, ds_inventory = Some ID_seller_still_holds,
     ds_buyer_ack = False, ds_timed_out = True, ds_rate_limited = False, ds_offer_unknown_streak = 0,
     ds_inventory_unknown_streak = 0, ds_accepted_pending_streak = 0, ds_receipt_persisted = False,
     ds_fail_safe = False\<rparr>"


end
