(* ===== verification/Trades.thy ===== *)
theory Trades
  imports Settlement DeliveryDecision Accounts
begin

text \<open>
  The trades service (\<^verbatim>\<open>trades/trades.service.ts\<close>), which moves an order out of
  \<open>WAITING_TRADE\<close>: the manual completion, failure and timeout of a trade, and what the delivery
  checker applies. Besides it the trade provider's \<open>completeTrade\<close>
  (\<^verbatim>\<open>providers/trade/mock-trade.provider.ts\<close>, \<^verbatim>\<open>hybrid-trade.provider.ts\<close>,
  \<^verbatim>\<open>steam-trade.provider.ts\<close>) and the shadow comparator
  (\<^verbatim>\<open>trades/trade-shadow-comparator.service.ts\<close>). A handler's answer is the order's identifier;
  handlers that commit more than once return the state they leave together with their result.
\<close>

section \<open>The trade provider\<close>

datatype completion = Complete_success | Complete_fail_safe | Complete_fail_dispute | Complete_timeout

definition mock_complete_trade :: "id \<Rightarrow> completion \<Rightarrow> string option \<Rightarrow> string \<times> string option" where
  "mock_complete_trade oid kind reason =
     (case kind of
        Complete_success \<Rightarrow> (''mock-success-'' @ oid, None)
      | Complete_fail_safe \<Rightarrow>
          (''mock-fail-safe-'' @ oid, Some (case reason of Some r \<Rightarrow> r | None \<Rightarrow> ''SAFE_FAIL''))
      | Complete_fail_dispute \<Rightarrow>
          (''mock-fail-dispute-'' @ oid, Some (case reason of Some r \<Rightarrow> r | None \<Rightarrow> ''DISPUTE_FAIL''))
      | Complete_timeout \<Rightarrow> (''mock-timeout-'' @ oid, Some ''TRADE_TIMEOUT''))"

definition mock_provider :: "world \<Rightarrow> bool" where
  "mock_provider w \<longleftrightarrow> \<not> steam_provider w ''TRADE_PROVIDER''"

definition complete_trade :: "world \<Rightarrow> id \<Rightarrow> completion \<Rightarrow> string option \<Rightarrow> (string \<times> string option) res" where
  "complete_trade w oid kind reason =
     (if mock_provider w then Inr (mock_complete_trade oid kind reason)
      else Inl (AppException ''BAD_REQUEST''))"

section \<open>Shadow snapshots\<close>

definition latest_steam_observed :: "id \<Rightarrow> db \<Rightarrow> string option" where
  "latest_steam_observed oid d =
     map_option (\<lambda>(_, v). vs_observed v)
       (find (\<lambda>(_, v). vs_order v = oid \<and> vs_source v = ''STEAM_POLL'') (rev (verification_snapshots d)))"

definition derive_expected_status :: "id \<Rightarrow> string \<Rightarrow> db \<Rightarrow> string option" where
  "derive_expected_status oid source d = (if source = ''MOCK_MANUAL'' then latest_steam_observed oid d else None)"

definition record_snapshot :: "id \<Rightarrow> string \<Rightarrow> string \<Rightarrow> json \<Rightarrow> db \<Rightarrow> db" where
  "record_snapshot oid source observed payload d =
     (let expected = derive_expected_status oid source d;
          same = (case expected of None \<Rightarrow> True | Some e \<Rightarrow> observed = e);
          (i, d) = draw_db d;
          d = d\<lparr>verification_snapshots := verification_snapshots d @
                 [(i, \<lparr>vs_order = oid, vs_source = source, vs_observed = observed, vs_expected = expected,
                       vs_match = same, vs_payload = payload\<rparr>)]\<rparr>
      in if same then d
         else append_outbox \<lparr>ob_event = ''TRADE_SHADOW_MISMATCH'', ob_aggregate_type = ''order'', ob_aggregate = oid,
                ob_payload = JObj [(''orderId'', JStr oid), (''snapshotId'', JStr i), (''source'', JStr source),
                  (''observedStatus'', JStr observed), (''expectedStatus'', jstr_opt expected)]\<rparr> d)"

section \<open>Shared pieces\<close>

definition get_order_details :: "id \<Rightarrow> db \<Rightarrow> id res" where
  "get_order_details oid d = (if row (orders d) oid = None then Inl (NotFound ''Order not found'') else Inr oid)"

definition assert_mock_trade_allowed :: "world \<Rightarrow> user_role \<Rightarrow> unit res" where
  "assert_mock_trade_allowed w role =
     (if \<not> flag w ''ENABLE_MOCK_TRADE'' then Inl (Forbidden ''Mock trade endpoints are disabled'')
      else if trade_verification_mode w = VM_live \<and> real_settlement_enabled w \<and> role \<noteq> UR_ADMIN
      then Inl (BadRequest ''Mock trade completion is disabled in live real-settlement mode'')
      else Inr ())"

definition assert_order_party :: "order \<Rightarrow> id \<Rightarrow> user_role \<Rightarrow> unit res" where
  "assert_order_party ord actor role =
     (if actor = ''system'' \<or> role = UR_ADMIN \<or> actor = o_buyer ord \<or> actor = o_seller ord then Inr ()
      else Inl (Forbidden ''Not a party to this order''))"

text \<open>Both the order and its trade operation still wait.\<close>

definition assert_waiting :: "order \<Rightarrow> trade_op \<Rightarrow> unit res" where
  "assert_waiting ord t =
     (if o_status ord \<noteq> OS_WAITING_TRADE then Inl (BadRequest ''Order is not in WAITING_TRADE status'')
      else if t_status t \<noteq> TS_WAITING then Inl (BadRequest ''Trade operation is not in WAITING status'')
      else Inr ())"

definition json_states :: "order_status \<Rightarrow> trade_op_status \<Rightarrow> json" where
  "json_states s t = JObj [(''status'', json_status s), (''tradeStatus'', json_trade_status t)]"

text \<open>The status the handlers report for a verified trade; the state machine stores its own.\<close>

definition reported_trade_status :: "world \<Rightarrow> trade_op_status" where
  "reported_trade_status w = (if extension_first_trade_flow w then TS_DELIVERY_VERIFIED else TS_CONFIRMED)"

definition final_status :: "attempt_result \<Rightarrow> order_status" where
  "final_status r = (if at_in_hold r then OS_SETTLEMENT_HOLD else if at_settled r then OS_COMPLETED
                     else OS_TRADE_CONFIRMED)"

definition status_or_completed :: "id \<Rightarrow> db \<Rightarrow> order_status" where
  "status_or_completed oid d = (case row (orders d) oid of Some ord \<Rightarrow> o_status ord | None \<Rightarrow> OS_COMPLETED)"

text \<open>After a safe failure the money returns to the buyer and the lot to the market.\<close>

definition fail_trade_safe ::
    "settlement_order \<Rightarrow> id \<Rightarrow> hold \<Rightarrow> id option \<Rightarrow> string \<Rightarrow> string \<Rightarrow> db \<Rightarrow> db res" where
  "fail_trade_safe so hid h actor reason key d =
     (let oid = so_id so; ord = so_order so; l = so_lot so in
      bindE (refund_hold (o_buyer ord) oid hid (h_amount h) key (bank d)) (\<lambda>(_, b).
      bindE (update_hold hid (\<lambda>h'. h'\<lparr>h_released := h_amount h\<rparr>) (d\<lparr>bank := b\<rparr>)) (\<lambda>d.
      bindE (order_transition_by_event oid OS_WAITING_TRADE OE_FAIL_SAFE actor (Some reason) False d) (\<lambda>(_, d).
      bindE (lot_transition (o_lot ord) (l_status l) LS_ACTIVE actor None (\<lambda>l. l\<lparr>l_reserved_by := None\<rparr>) d) (\<lambda>d.
      set_asset_status (l_asset l) IA_LISTED d)))))"

text \<open>A disputed failure keeps the money and blocks the lot.\<close>

definition fail_trade_dispute ::
    "settlement_order \<Rightarrow> order_event \<Rightarrow> id option \<Rightarrow> string \<Rightarrow> db \<Rightarrow> db res" where
  "fail_trade_dispute so event actor reason d =
     (let l = so_lot so in
      bindE (order_transition_by_event (so_id so) OS_WAITING_TRADE event actor (Some reason) False d) (\<lambda>(_, d).
      bindE (lot_transition (o_lot (so_order so)) (l_status l) LS_BLOCKED actor None (\<lambda>l. l) d) (\<lambda>d.
      set_asset_status (l_asset l) IA_BLOCKED d)))"

section \<open>Completion by hand\<close>

definition shadow_compare_tx :: "id \<Rightarrow> id \<Rightarrow> string \<Rightarrow> user_role \<Rightarrow> db \<Rightarrow> (id \<times> db) res" where
  "shadow_compare_tx oid actor key role d =
     (case load_order oid d of
        None \<Rightarrow> Inl (NotFound ''Trade operation not found'')
      | Some so \<Rightarrow>
          (case so_trade so of
             None \<Rightarrow> Inl (NotFound ''Trade operation not found'')
           | Some (_, t) \<Rightarrow>
               bindE (assert_order_party (so_order so) actor role) (\<lambda>_.
               bindE (assert_waiting (so_order so) t) (\<lambda>_.
               let s = o_status (so_order so) in
               Inr (oid, append_audit
                 \<lparr>au_actor = Some actor, au_entity_type = ''order'', au_entity_id = oid,
                  au_action = ''TRADE_MOCK_SHADOW_COMPARE'', au_reason = None,
                  au_before = json_states s (t_status t),
                  au_after = JObj [(''status'', json_status s), (''tradeStatus'', json_trade_status (t_status t)),
                                   (''shadowCompare'', JBool True)],
                  au_key = Some key\<rparr>
                 (record_snapshot oid ''MOCK_MANUAL'' ''accepted''
                    (JObj [(''actorUserId'', JStr actor), (''action'', JStr ''mock-success'')]) d))))))"

text \<open>What completion asks of the settlement service, and the status the order then has.\<close>

definition settle_completion :: "world \<Rightarrow> int \<Rightarrow> id \<Rightarrow> string \<Rightarrow> id \<Rightarrow> db \<Rightarrow> (order_status \<times> db) res" where
  "settle_completion w now oid key actor d =
     (if trade_verification_mode w = VM_live \<and> real_settlement_enabled w
      then bindE (try_settle_confirmed_order w now oid key d) (\<lambda>(r, d). Inr (final_status r, d))
      else bindE (settle_completed_order w now oid key (Some actor) d) (\<lambda>d. Inr (status_or_completed oid d, d)))"

definition mock_success_tx ::
    "world \<Rightarrow> int \<Rightarrow> id \<Rightarrow> id \<Rightarrow> string \<Rightarrow> user_role \<Rightarrow> db \<Rightarrow> (id \<times> db) res" where
  "mock_success_tx w now oid actor key role d =
     (case load_order oid d of
        None \<Rightarrow> Inl (NotFound ''Trade operation not found'')
      | Some so \<Rightarrow>
          (case (so_hold so, so_trade so) of
             (Some _, Some (tid, t)) \<Rightarrow>
               bindE (assert_order_party (so_order so) actor role) (\<lambda>_.
               bindE (assert_waiting (so_order so) t) (\<lambda>_.
               bindE (complete_trade w oid Complete_success None) (\<lambda>(provider_ref, _).
               bindE (trade_transition_by_event tid (t_status t) TE_DELIVERY_VERIFIED (Some actor)
                        (Some ''delivery_verified'') (Some provider_ref) None True d) (\<lambda>(_, d).
               bindE (order_transition_by_event oid OS_WAITING_TRADE OE_DELIVERY_VERIFIED (Some actor) None False d)
                 (\<lambda>(_, d).
               bindE (settle_completion w now oid (''trade-success:'' @ key) actor d) (\<lambda>(status, d).
               if row (orders d) oid = None then Inl (NotFound ''Order not found after completion'')
               else Inr (oid, append_audit
                 \<lparr>au_actor = Some actor, au_entity_type = ''order'', au_entity_id = oid,
                  au_action = ''TRADE_MOCK_SUCCESS'', au_reason = None,
                  au_before = json_states (o_status (so_order so)) (t_status t),
                  au_after = JObj [(''status'', json_status status),
                                   (''tradeStatus'', json_trade_status (reported_trade_status w)),
                                   (''guardedSettlement'', JBool (trade_verification_mode w = VM_live
                                                                \<and> real_settlement_enabled w))],
                  au_key = Some key\<rparr> d)))))))
           | _ \<Rightarrow> Inl (NotFound ''Trade operation not found'')))"

definition mock_success :: "world \<Rightarrow> int \<Rightarrow> id \<Rightarrow> id \<Rightarrow> string \<Rightarrow> user_role \<Rightarrow> db \<Rightarrow> id res \<times> db" where
  "mock_success w now oid actor key role d =
     (if key = [] then (Inl (BadRequest ''Idempotency-Key header is required''), d)
      else if find_audit ''order'' oid
                (if is_shadow_verification w then ''TRADE_MOCK_SHADOW_COMPARE'' else ''TRADE_MOCK_SUCCESS'') key d
      then (get_order_details oid d, d)
      else case assert_mock_trade_allowed w role of
        Inl e \<Rightarrow> (Inl e, d)
      | Inr _ \<Rightarrow>
          if is_shadow_verification w then transaction (shadow_compare_tx oid actor key role) d
          else transaction (mock_success_tx w now oid actor key role) d)"

section \<open>Failure\<close>

datatype fail_mode = Fail_safe | Fail_dispute

fun fail_mode_name :: "fail_mode \<Rightarrow> string" where
  "fail_mode_name Fail_safe = ''SAFE''"
| "fail_mode_name Fail_dispute = ''DISPUTE''"

definition failed_order_status :: "fail_mode \<Rightarrow> order_status" where
  "failed_order_status mode = (if mode = Fail_safe then OS_FAILED else OS_DISPUTE)"

definition failed_trade_status :: "fail_mode \<Rightarrow> trade_op_status" where
  "failed_trade_status mode = (if mode = Fail_safe then TS_FAILED_SAFE else TS_FAILED_DISPUTE)"

definition fail_trade_event :: "fail_mode \<Rightarrow> trade_event" where
  "fail_trade_event mode = (if mode = Fail_safe then TE_FAIL_SAFE else TE_MISMATCH_DETECTED)"

definition mock_fail_action :: "fail_mode \<Rightarrow> string" where
  "mock_fail_action mode = (if mode = Fail_safe then ''TRADE_MOCK_FAIL_SAFE'' else ''TRADE_MOCK_FAIL_DISPUTE'')"

definition fail_outbox_event :: "fail_mode \<Rightarrow> string" where
  "fail_outbox_event mode = (if mode = Fail_safe then ''ORDER_FAILED'' else ''ORDER_DISPUTE_OPENED'')"

definition reason_or :: "string option \<Rightarrow> string \<Rightarrow> string" where
  "reason_or reason fallback = (case reason of Some r \<Rightarrow> r | None \<Rightarrow> fallback)"

definition mock_fail_tx ::
    "world \<Rightarrow> id \<Rightarrow> id \<Rightarrow> string \<Rightarrow> fail_mode \<Rightarrow> string option \<Rightarrow> user_role \<Rightarrow> db \<Rightarrow> (id \<times> db) res" where
  "mock_fail_tx w oid actor key mode reason role d =
     (case load_order oid d of
        None \<Rightarrow> Inl (NotFound ''Trade operation not found'')
      | Some so \<Rightarrow>
          (case (so_hold so, so_trade so) of
             (Some (hid, h), Some (tid, t)) \<Rightarrow>
               bindE (assert_order_party (so_order so) actor role) (\<lambda>_.
               bindE (assert_waiting (so_order so) t) (\<lambda>_.
               bindE (complete_trade w oid (if mode = Fail_safe then Complete_fail_safe else Complete_fail_dispute) reason)
                 (\<lambda>(provider_ref, code).
               bindE (trade_transition_by_event tid (t_status t) (fail_trade_event mode) (Some actor) reason
                        (Some provider_ref) code False d) (\<lambda>(_, d).
               bindE (if mode = Fail_safe
                      then fail_trade_safe so hid h (Some actor) (reason_or reason ''trade_fail_safe'')
                             (''trade-fail-safe:'' @ key) d
                      else fail_trade_dispute so OE_MISMATCH_DETECTED (Some actor)
                             (reason_or reason ''trade_fail_dispute'') d) (\<lambda>d.
               let d = append_outbox
                     \<lparr>ob_event = fail_outbox_event mode, ob_aggregate_type = ''order'', ob_aggregate = oid,
                      ob_payload = JObj [(''orderId'', JStr oid), (''reasonCode'', jstr_opt reason),
                                         (''mode'', JStr (fail_mode_name mode))]\<rparr>
                    (append_audit
                     \<lparr>au_actor = Some actor, au_entity_type = ''order'', au_entity_id = oid,
                      au_action = mock_fail_action mode, au_reason = None,
                      au_before = json_states (o_status (so_order so)) (t_status t),
                      au_after = json_states (failed_order_status mode) (failed_trade_status mode),
                      au_key = Some key\<rparr> d)
               in if row (orders d) oid = None then Inl (NotFound ''Order not found after update'')
                  else Inr (oid, d))))))
           | _ \<Rightarrow> Inl (NotFound ''Trade operation not found'')))"

definition mock_fail ::
    "world \<Rightarrow> id \<Rightarrow> id \<Rightarrow> string \<Rightarrow> fail_mode \<Rightarrow> string option \<Rightarrow> user_role \<Rightarrow> db \<Rightarrow> id res \<times> db" where
  "mock_fail w oid actor key mode reason role d =
     (if key = [] then (Inl (BadRequest ''Idempotency-Key header is required''), d)
      else case (if actor = ''system'' then Inr () else assert_mock_trade_allowed w role) of
        Inl e \<Rightarrow> (Inl e, d)
      | Inr _ \<Rightarrow>
          if find_audit ''order'' oid (mock_fail_action mode) key d then (get_order_details oid d, d)
          else transaction (mock_fail_tx w oid actor key mode reason role) d)"

section \<open>Timeout\<close>

definition timeout_refs :: "world \<Rightarrow> id \<Rightarrow> (string \<times> string) res" where
  "timeout_refs w oid =
     (if mock_provider w
      then bindE (complete_trade w oid Complete_timeout None) (\<lambda>(provider_ref, code).
             Inr (provider_ref, case code of Some c \<Rightarrow> c | None \<Rightarrow> ''TRADE_TIMEOUT''))
      else Inr (''timeout-'' @ oid, ''TRADE_TIMEOUT''))"

definition trade_timeout_tx :: "world \<Rightarrow> id \<Rightarrow> id option \<Rightarrow> string \<Rightarrow> string \<Rightarrow> db \<Rightarrow> (id \<times> db) res" where
  "trade_timeout_tx w oid actor key action d =
     (case load_order oid d of
        None \<Rightarrow> Inl (NotFound ''Trade operation not found'')
      | Some so \<Rightarrow>
          (case so_trade so of
             None \<Rightarrow> Inl (NotFound ''Trade operation not found'')
           | Some (tid, t) \<Rightarrow>
               bindE (assert_waiting (so_order so) t) (\<lambda>_.
               bindE (timeout_refs w oid) (\<lambda>(provider_ref, code).
               bindE (trade_transition_by_event tid (t_status t) TE_TIMEOUT actor (Some ''TRADE_TIMEOUT'')
                        (Some provider_ref) (Some code) False d) (\<lambda>(_, d).
               bindE (fail_trade_dispute so OE_TIMEOUT_DETECTED actor ''TRADE_TIMEOUT'' d) (\<lambda>d.
               let d = append_outbox
                     \<lparr>ob_event = ''ORDER_DISPUTE_OPENED'', ob_aggregate_type = ''order'', ob_aggregate = oid,
                      ob_payload = JObj [(''orderId'', JStr oid), (''reasonCode'', JStr ''TRADE_TIMEOUT'')]\<rparr>
                    (append_audit
                     \<lparr>au_actor = actor, au_entity_type = ''order'', au_entity_id = oid,
                      au_action = action, au_reason = None,
                      au_before = json_states (o_status (so_order so)) (t_status t),
                      au_after = json_states OS_DISPUTE TS_TIMEOUT, au_key = Some key\<rparr> d)
               in if row (orders d) oid = None then Inl (NotFound ''Order not found after update'')
                  else Inr (oid, d)))))))"

definition apply_trade_timeout :: "world \<Rightarrow> id \<Rightarrow> id option \<Rightarrow> string \<Rightarrow> string \<Rightarrow> db \<Rightarrow> id res \<times> db" where
  "apply_trade_timeout w oid actor key action d =
     (if key = [] then (Inl (BadRequest ''Idempotency-Key is required''), d)
      else if find_audit ''order'' oid action key d then (get_order_details oid d, d)
      else transaction (trade_timeout_tx w oid actor key action) d)"

definition mock_timeout :: "world \<Rightarrow> id \<Rightarrow> id \<Rightarrow> string \<Rightarrow> user_role \<Rightarrow> db \<Rightarrow> id res \<times> db" where
  "mock_timeout w oid actor key role d =
     (case assert_mock_trade_allowed w role of
        Inl e \<Rightarrow> (Inl e, d)
      | Inr _ \<Rightarrow>
          (case row (orders d) oid of
             None \<Rightarrow> (Inl (NotFound ''Trade operation not found''), d)
           | Some ord \<Rightarrow>
               (case assert_order_party ord actor role of
                  Inl e \<Rightarrow> (Inl e, d)
                | Inr _ \<Rightarrow> apply_trade_timeout w oid (Some actor) key ''TRADE_MOCK_TIMEOUT'' d)))"

section \<open>What the delivery checker applies\<close>

text \<open>A confirmed delivery: only a persisted Steam receipt that still matches the order.\<close>

definition confirm_settlement ::
    "world \<Rightarrow> int \<Rightarrow> settlement_order \<Rightarrow> trade_op \<Rightarrow> string \<Rightarrow> db \<Rightarrow> (order_status \<times> db) res" where
  "confirm_settlement w now so t key d =
     (if json_truthy (Some (t_delivery_proof t))
      then bindE (enter_settlement_hold w now
                    (so\<lparr>so_order := (so_order so)\<lparr>o_status := OS_TRADE_CONFIRMED\<rparr>,
                        so_trade := map_option (\<lambda>(i, t). (i, t\<lparr>t_status := reported_trade_status w\<rparr>)) (so_trade so)\<rparr>)
                    key None d) (\<lambda>d. Inr (OS_SETTLEMENT_HOLD, d))
      else if real_settlement_enabled w
      then bindE (try_settle_confirmed_order w now (so_id so) key d) (\<lambda>(r, d). Inr (final_status r, d))
      else bindE (settle_completed_order w now (so_id so) key None d) (\<lambda>d.
             Inr (status_or_completed (so_id so) d, d)))"

definition confirm_tx :: "world \<Rightarrow> int \<Rightarrow> id \<Rightarrow> delivery_evidence \<Rightarrow> db \<Rightarrow> (id \<times> db) res" where
  "confirm_tx w now oid evidence d =
     (case load_order oid d of
        None \<Rightarrow> Inl (NotFound ''Trade operation not found'')
      | Some so \<Rightarrow>
          (case (so_hold so, so_trade so) of
             (Some _, Some (tid, t)) \<Rightarrow>
               if o_status (so_order so) \<noteq> OS_WAITING_TRADE then Inr (oid, d)
               else if t_status t \<noteq> TS_WAITING then Inr (oid, d)
               else if bound_delivery_proof w (Some (t_delivery_proof t)) (settlement_anchors so (Some t)) = None
               then Inl (BadRequest ''Bound durable receipt proof is required'')
               else
                 bindE (trade_transition_by_event tid (t_status t) TE_DELIVERY_VERIFIED None
                          (Some ''TRADE_POLL_CONFIRMED'') (Some (''poll-confirmed-'' @ oid)) None True d) (\<lambda>(_, d).
                 bindE (order_transition_by_event oid OS_WAITING_TRADE OE_DELIVERY_VERIFIED None
                          (Some ''TRADE_POLL_CONFIRMED'') False d) (\<lambda>(_, d).
                 bindE (confirm_settlement w now so t (''poll-settle:'' @ oid) d) (\<lambda>(status, d).
                 Inr (oid, append_audit
                   \<lparr>au_actor = None, au_entity_type = ''order'', au_entity_id = oid,
                    au_action = ''TRADE_POLL_CONFIRMED'', au_reason = None, au_before = JNull,
                    au_after = JObj [(''status'', json_status status),
                                     (''tradeStatus'', json_trade_status (reported_trade_status w)),
                                     (''settled'', JBool (status = OS_COMPLETED)),
                                     (''verificationEvidence'', json_evidence evidence)],
                    au_key = Some (''poll-confirm:'' @ oid)\<rparr> d))))
           | _ \<Rightarrow> Inl (NotFound ''Trade operation not found'')))"

definition apply_trade_confirmed :: "world \<Rightarrow> int \<Rightarrow> id \<Rightarrow> delivery_evidence \<Rightarrow> db \<Rightarrow> id res \<times> db" where
  "apply_trade_confirmed w now oid evidence d =
     (if \<not> (de_receipt_persisted evidence \<and> de_steam_authority evidence)
      then (Inl (BadRequest ''Durable server receipt verification is required before settlement''), d)
      else if find_audit ''order'' oid ''TRADE_POLL_CONFIRMED'' (''poll-confirm:'' @ oid) d
      then (get_order_details oid d, d)
      else transaction (confirm_tx w now oid evidence) d)"

text \<open>A failed offer. Only a declined or an expired one may return the money at once.\<close>

definition poll_fail_mode :: "world \<Rightarrow> string \<Rightarrow> fail_mode" where
  "poll_fail_mode w reason =
     (if trade_fail_safe_mode w \<and> reason \<in> {''OFFER_DECLINED'', ''OFFER_EXPIRED'', ''declined'', ''expired''}
      then Fail_safe else Fail_dispute)"

definition poll_fail_key :: "id \<Rightarrow> string \<Rightarrow> string" where
  "poll_fail_key oid reason = ''poll-fail:'' @ oid @ '':'' @ reason"

definition poll_fail_tx :: "id \<Rightarrow> string \<Rightarrow> fail_mode \<Rightarrow> db \<Rightarrow> (id \<times> db) res" where
  "poll_fail_tx oid reason mode d =
     (case load_order oid d of
        None \<Rightarrow> Inl (NotFound ''Trade operation not found'')
      | Some so \<Rightarrow>
          (case (so_hold so, so_trade so) of
             (Some (hid, h), Some (tid, t)) \<Rightarrow>
               if o_status (so_order so) \<noteq> OS_WAITING_TRADE then Inr (oid, d)
               else if t_status t \<noteq> TS_WAITING then Inr (oid, d)
               else
                 bindE (trade_transition_by_event tid (t_status t) (fail_trade_event mode) None (Some reason)
                          (Some (''poll-fail-'' @ oid)) (Some reason) False d) (\<lambda>(_, d).
                 bindE (if mode = Fail_safe
                        then fail_trade_safe so hid h None reason (''poll-fail-safe:'' @ poll_fail_key oid reason) d
                        else fail_trade_dispute so OE_MISMATCH_DETECTED None reason d) (\<lambda>d.
                 Inr (oid, append_outbox
                     \<lparr>ob_event = fail_outbox_event mode, ob_aggregate_type = ''order'', ob_aggregate = oid,
                      ob_payload = JObj [(''orderId'', JStr oid), (''reasonCode'', JStr reason)]\<rparr>
                    (append_audit
                     \<lparr>au_actor = None, au_entity_type = ''order'', au_entity_id = oid,
                      au_action = ''TRADE_POLL_FAILED'', au_reason = None, au_before = JNull,
                      au_after = json_states (failed_order_status mode) (failed_trade_status mode),
                      au_key = Some (poll_fail_key oid reason)\<rparr> d))))
           | _ \<Rightarrow> Inl (NotFound ''Trade operation not found'')))"

definition apply_trade_failed :: "world \<Rightarrow> id \<Rightarrow> string \<Rightarrow> db \<Rightarrow> id res \<times> db" where
  "apply_trade_failed w oid reason d =
     (let mode = poll_fail_mode w reason; key = poll_fail_key oid reason in
      if find_audit ''order'' oid ''TRADE_POLL_FAILED'' key d then (get_order_details oid d, d)
      else if mock_provider w then mock_fail w oid ''system'' key mode (Some reason) UR_BUYER d
      else transaction (poll_fail_tx oid reason mode) d)"

text \<open>An unknown state hands the waiting trade to a person; nothing else changes.\<close>

definition apply_unknown_trade_state :: "id \<Rightarrow> string \<Rightarrow> db \<Rightarrow> id res \<times> db" where
  "apply_unknown_trade_state oid observed d =
     (let (_, t) = update_many
            (\<lambda>_ t. t_order t = oid \<and> t_status t = TS_WAITING
               \<and> (case row (orders d) (t_order t) of Some ord \<Rightarrow> o_status ord = OS_WAITING_TRADE | None \<Rightarrow> False))
            (\<lambda>t. t\<lparr>t_stage := ''MANUAL_REVIEW'', t_fail_reason := Some observed, t_next_verification := None\<rparr>)
            (trade_ops d);
          d = d\<lparr>trade_ops := t\<rparr>
      in (get_order_details oid d, d))"

text \<open>An administrator applies what the last poll observed. The applied change and the audit row are
  two commits.\<close>

definition apply_observed_change :: "world \<Rightarrow> id \<Rightarrow> id \<Rightarrow> string \<Rightarrow> string \<Rightarrow> db \<Rightarrow> id res \<times> db" where
  "apply_observed_change w oid actor key observed d =
     (if observed = ''accepted''
      then (Inl (BadRequest ''Durable server receipt verification is required before settlement''), d)
      else if observed = ''declined'' \<or> observed = ''expired'' then apply_trade_failed w oid observed d
      else if observed = ''timeout''
      then apply_trade_timeout w oid (Some actor) (''apply-observed-timeout:'' @ key) ''ADMIN_APPLY_OBSERVED_TIMEOUT'' d
      else (Inl (BadRequest (''Observed status \"'' @ observed @ ''\" cannot be applied'')), d))"

definition apply_observed_status :: "world \<Rightarrow> id \<Rightarrow> id \<Rightarrow> string \<Rightarrow> db \<Rightarrow> id res \<times> db" where
  "apply_observed_status w oid actor key d =
     (if key = [] then (Inl (BadRequest ''Idempotency-Key header is required''), d)
      else if find_audit ''order'' oid ''ADMIN_APPLY_OBSERVED_STATUS'' key d then (get_order_details oid d, d)
      else case latest_steam_observed oid d of
        None \<Rightarrow> (Inl (BadRequest ''No Steam poll snapshot found for this order''), d)
      | Some observed \<Rightarrow>
          (case apply_observed_change w oid actor key observed d of
             (Inl e, d) \<Rightarrow> (Inl e, d)
           | (Inr _, d) \<Rightarrow>
               let d = append_audit
                     \<lparr>au_actor = Some actor, au_entity_type = ''order'', au_entity_id = oid,
                      au_action = ''ADMIN_APPLY_OBSERVED_STATUS'', au_reason = None, au_before = JNull,
                      au_after = JObj [(''appliedStatus'', JStr observed)], au_key = Some key\<rparr> d
               in (get_order_details oid d, d)))"

definition get_trade_by_id :: "id \<Rightarrow> id \<Rightarrow> user_role \<Rightarrow> db \<Rightarrow> id res" where
  "get_trade_by_id tid actor role d =
     (case row (trade_ops d) tid of
        None \<Rightarrow> Inl (NotFound ''Trade operation not found'')
      | Some t \<Rightarrow>
          (case row (orders d) (t_order t) of
             None \<Rightarrow> Inl (NotFound ''Trade operation not found'')
           | Some ord \<Rightarrow> bindE (assert_order_party ord actor role) (\<lambda>_. Inr tid)))"

text \<open>\<open>verifyOffer\<close>: a failed request counts as an unknown status; only the rate limit is passed on.\<close>

definition unknown_receipt :: receipt where
  "unknown_receipt =
     \<lparr>rc_status = Offer_unknown, rc_reason = None, rc_receipt_verified = False, rc_offer_accepted = False,
      rc_binding_verified = False, rc_trade_id = None, rc_identity_conflict = False, rc_reversal = False,
      rc_received_asset = None, rc_received_context = None\<rparr>"

definition verify_offer :: "world \<Rightarrow> offer_query \<Rightarrow> receipt option" where
  "verify_offer w q =
     (case verify_trade_offer w q of
        Inr r \<Rightarrow> Some r
      | Inl Offer_rate_limited \<Rightarrow> None
      | Inl Offer_request_failed \<Rightarrow> Some unknown_receipt)"

end
