(* ===== verification/Disputes.thy ===== *)
theory Disputes
  imports Settlement
begin

text \<open>
  Disputes: \<^verbatim>\<open>disputes/dispute-reason-codes.ts\<close> (the registry of reasons),
  \<^verbatim>\<open>disputes/dispute-financial-guard.service.ts\<close>, \<open>openSystemDispute\<close> of
  \<^verbatim>\<open>disputes/dispute-ops.service.ts\<close>, and the administrator's handlers of
  \<^verbatim>\<open>admin/admin.service.ts\<close> that open and resolve disputes, reverse a settlement hold, retry a
  settlement, and block, unblock or cancel a lot. The descriptions of the reasons, which nothing
  computes with, are left out of the registry.
\<close>

section \<open>Reasons\<close>

datatype dispute_category =
  DC_trade_reference | DC_delivery_verification | DC_extension | DC_settlement | DC_timeout | DC_admin

datatype review_type = RT_auto | RT_manual

datatype reason_source = RS_system | RS_admin | RS_extension | RS_poller | RS_reconcile

record dispute_reason =
  dr_code :: string
  dr_category :: dispute_category
  dr_review :: review_type
  dr_title :: string
  dr_sources :: "reason_source list"

definition dispute_reasons :: "dispute_reason list" where
  "dispute_reasons =
    [\<lparr>dr_code = ''TRADE_REFERENCE_SPOOF'', dr_category = DC_trade_reference, dr_review = RT_auto,
        dr_title = ''Offer linked to another order'', dr_sources = [RS_reconcile, RS_system]\<rparr>,
     \<lparr>dr_code = ''TRADE_REFERENCE_MISMATCH'', dr_category = DC_trade_reference, dr_review = RT_auto,
        dr_title = ''Offer id changed on order'', dr_sources = [RS_reconcile, RS_system]\<rparr>,
     \<lparr>dr_code = ''DELIVERY_INVENTORY_MISMATCH'', dr_category = DC_delivery_verification, dr_review = RT_auto,
        dr_title = ''Offer accepted but item not delivered'', dr_sources = [RS_poller, RS_system]\<rparr>,
     \<lparr>dr_code = ''DELIVERY_SIGNAL_CONFLICT'', dr_category = DC_delivery_verification, dr_review = RT_auto,
        dr_title = ''Inventory moved before offer accepted'', dr_sources = [RS_poller, RS_system]\<rparr>,
     \<lparr>dr_code = ''DELIVERY_VERIFICATION_UNKNOWN'', dr_category = DC_delivery_verification, dr_review = RT_manual,
        dr_title = ''Delivery verification inconclusive'', dr_sources = [RS_poller, RS_system]\<rparr>,
     \<lparr>dr_code = ''DELIVERY_ACCEPTED_INVENTORY_PENDING_EXHAUSTED'', dr_category = DC_delivery_verification, dr_review = RT_manual,
        dr_title = ''Accepted offer, inventory never confirmed'', dr_sources = [RS_poller, RS_system]\<rparr>,
     \<lparr>dr_code = ''INVENTORY_UNKNOWN_EXHAUSTED'', dr_category = DC_delivery_verification, dr_review = RT_manual,
        dr_title = ''Inventory verification exhausted'', dr_sources = [RS_poller, RS_system]\<rparr>,
     \<lparr>dr_code = ''OFFER_UNKNOWN'', dr_category = DC_delivery_verification, dr_review = RT_manual,
        dr_title = ''Unknown Steam offer state'', dr_sources = [RS_poller, RS_system]\<rparr>,
     \<lparr>dr_code = ''OFFER_DECLINED'', dr_category = DC_delivery_verification, dr_review = RT_auto,
        dr_title = ''Trade offer declined'', dr_sources = [RS_poller, RS_system]\<rparr>,
     \<lparr>dr_code = ''OFFER_EXPIRED'', dr_category = DC_delivery_verification, dr_review = RT_auto,
        dr_title = ''Trade offer expired'', dr_sources = [RS_poller, RS_system]\<rparr>,
     \<lparr>dr_code = ''TRADE_TIMEOUT'', dr_category = DC_timeout, dr_review = RT_auto,
        dr_title = ''Trade window timeout'', dr_sources = [RS_poller, RS_system]\<rparr>,
     \<lparr>dr_code = ''EXT_ITEM_MISMATCH'', dr_category = DC_extension, dr_review = RT_auto,
        dr_title = ''Extension item mismatch'', dr_sources = [RS_extension, RS_system]\<rparr>,
     \<lparr>dr_code = ''EXT_MAX_ATTEMPTS_REACHED'', dr_category = DC_extension, dr_review = RT_manual,
        dr_title = ''Extension task retries exhausted'', dr_sources = [RS_extension, RS_system]\<rparr>,
     \<lparr>dr_code = ''EXT_OFFER_TERMINAL_FAILURE'', dr_category = DC_extension, dr_review = RT_manual,
        dr_title = ''Extension offer terminal failure'', dr_sources = [RS_extension, RS_system]\<rparr>,
     \<lparr>dr_code = ''SETTLEMENT_HOLD_REVERSED'', dr_category = DC_settlement, dr_review = RT_manual,
        dr_title = ''Settlement hold reversed'', dr_sources = [RS_system, RS_admin]\<rparr>,
     \<lparr>dr_code = ''ADMIN_DISPUTE'', dr_category = DC_admin, dr_review = RT_manual,
        dr_title = ''Admin manual dispute'', dr_sources = [RS_admin]\<rparr>,
     \<lparr>dr_code = ''ADMIN_SHADOW_REVIEW'', dr_category = DC_admin, dr_review = RT_manual,
        dr_title = ''Shadow verification review'', dr_sources = [RS_admin]\<rparr>,
     \<lparr>dr_code = ''ADMIN_RESOLVE_BUYER'', dr_category = DC_admin, dr_review = RT_manual,
        dr_title = ''Resolved in favor of buyer'', dr_sources = [RS_admin]\<rparr>,
     \<lparr>dr_code = ''ADMIN_RESOLVE_SELLER'', dr_category = DC_admin, dr_review = RT_manual,
        dr_title = ''Resolved in favor of seller'', dr_sources = [RS_admin]\<rparr>]"

definition extension_dispute_errors :: "(string \<times> string) list" where
  "extension_dispute_errors =
     [(''ITEM_MISMATCH'', ''EXT_ITEM_MISMATCH''), (''MAX_ATTEMPTS_REACHED'', ''EXT_MAX_ATTEMPTS_REACHED'')]"

fun category_name :: "dispute_category \<Rightarrow> string" where
  "category_name DC_trade_reference = ''TRADE_REFERENCE''"
| "category_name DC_delivery_verification = ''DELIVERY_VERIFICATION''"
| "category_name DC_extension = ''EXTENSION''"
| "category_name DC_settlement = ''SETTLEMENT''"
| "category_name DC_timeout = ''TIMEOUT''"
| "category_name DC_admin = ''ADMIN''"

fun review_name :: "review_type \<Rightarrow> string" where
  "review_name RT_auto = ''AUTO''"
| "review_name RT_manual = ''MANUAL_REVIEW''"

fun source_name :: "reason_source \<Rightarrow> string" where
  "source_name RS_system = ''SYSTEM''"
| "source_name RS_admin = ''ADMIN''"
| "source_name RS_extension = ''EXTENSION''"
| "source_name RS_poller = ''POLLER''"
| "source_name RS_reconcile = ''RECONCILE''"

definition get_dispute_reason :: "string \<Rightarrow> dispute_reason option" where
  "get_dispute_reason code = find (\<lambda>r. dr_code r = code) dispute_reasons"

definition is_known_dispute_reason :: "string \<Rightarrow> bool" where
  "is_known_dispute_reason code \<longleftrightarrow> (\<exists>r \<in> set dispute_reasons. dr_code r = code)"

definition assert_dispute_reason_allowed :: "string \<Rightarrow> reason_source \<Rightarrow> unit res" where
  "assert_dispute_reason_allowed code source =
     (case get_dispute_reason code of
        None \<Rightarrow> Inl (PlainError (''Unknown dispute reason code: '' @ code))
      | Some r \<Rightarrow>
          if source \<notin> set (dr_sources r)
          then Inl (PlainError (''Reason code '' @ code @ '' is not allowed for source '' @ source_name source))
          else Inr ())"

definition map_extension_error :: "string option \<Rightarrow> string option" where
  "map_extension_error code = (case code of None \<Rightarrow> None | Some c \<Rightarrow> map_of extension_dispute_errors c)"

definition should_auto_open_dispute :: "string \<Rightarrow> bool" where
  "should_auto_open_dispute code \<longleftrightarrow>
     (case get_dispute_reason code of None \<Rightarrow> False | Some r \<Rightarrow> dr_review r = RT_auto)"

section \<open>The financial guard\<close>

definition assert_resolve_buyer_allowed :: "hold \<Rightarrow> unit res" where
  "assert_resolve_buyer_allowed h =
     (if 0 < h_captured h
      then Inl (BadRequest ''Cannot refund buyer: hold funds were already captured/settled'')
      else if h_amount h - h_released h \<le> 0 then Inl (BadRequest ''Hold has no refundable balance'')
      else Inr ())"

definition assert_resolve_seller_allowed :: "hold \<Rightarrow> lot \<Rightarrow> unit res" where
  "assert_resolve_seller_allowed h l =
     (if 0 < h_captured h
      then Inl (BadRequest ''Cannot settle for seller: hold was already captured'')
      else if l_seller_receive l + l_commission l \<noteq> h_amount h
      then Inl (BadRequest ''Settlement amounts are not balanced'')
      else Inr ())"

definition assert_reverse_hold_allowed :: "order_status \<Rightarrow> hold \<Rightarrow> unit res" where
  "assert_reverse_hold_allowed s h =
     (if s \<noteq> OS_SETTLEMENT_HOLD
      then Inl (BadRequest ''Settlement hold can only be reversed from SETTLEMENT_HOLD'')
      else if 0 < h_captured h \<or> h_settlement_released_at h \<noteq> None
      then Inl (BadRequest ''Settlement hold was already released to seller'')
      else Inr ())"

section \<open>Opening\<close>

definition can_auto_open :: "order_status \<Rightarrow> bool" where
  "can_auto_open s \<longleftrightarrow> s = OS_WAITING_TRADE \<or> s = OS_TRADE_CONFIRMED \<or> s = OS_SETTLEMENT_HOLD"

definition update_trade_op :: "id \<Rightarrow> (trade_op \<Rightarrow> trade_op) \<Rightarrow> db \<Rightarrow> db res" where
  "update_trade_op i f d = bindE (update_row i f (trade_ops d)) (\<lambda>t. Inr (d\<lparr>trade_ops := t\<rparr>))"

text \<open>The common part: order to dispute, trade operation failed, lot and asset blocked.\<close>

definition move_to_dispute :: "settlement_order \<Rightarrow> string \<Rightarrow> id option \<Rightarrow> db \<Rightarrow> db res" where
  "move_to_dispute so code actor d =
     bindE (order_transition (so_id so) (o_status (so_order so)) OS_DISPUTE actor (Some code) d) (\<lambda>d.
     bindE (case so_trade so of
              None \<Rightarrow> Inr d
            | Some (i, _) \<Rightarrow>
                update_trade_op i (\<lambda>t. t\<lparr>t_status := TS_FAILED_DISPUTE, t_fail_reason := Some code\<rparr>) d) (\<lambda>d.
     bindE (lot_transition (o_lot (so_order so)) (l_status (so_lot so)) LS_BLOCKED actor (Some code) (\<lambda>l. l) d) (\<lambda>d.
     set_asset_status (l_asset (so_lot so)) IA_BLOCKED d)))"

definition dispute_before :: "settlement_order \<Rightarrow> json" where
  "dispute_before so =
     JObj [(''status'', json_status (o_status (so_order so))),
           (''tradeStatus'', case so_trade so of None \<Rightarrow> JNull | Some (_, t) \<Rightarrow> json_trade_status (t_status t))]"

definition open_system_dispute_tx ::
    "id \<Rightarrow> string \<Rightarrow> reason_source \<Rightarrow> string \<Rightarrow> id option \<Rightarrow> string option \<Rightarrow> json \<Rightarrow> db \<Rightarrow> (bool \<times> db) res" where
  "open_system_dispute_tx oid code source key actor note details d =
     (case load_order oid d of
        None \<Rightarrow> Inl (NotFound ''Order not found'')
      | Some so \<Rightarrow>
          if o_status (so_order so) = OS_DISPUTE \<or> \<not> can_auto_open (o_status (so_order so)) then Inr (False, d)
          else
            bindE (move_to_dispute so code actor d) (\<lambda>d.
            let def_row = get_dispute_reason code;
                review = (case def_row of None \<Rightarrow> JNull | Some r \<Rightarrow> JStr (review_name (dr_review r)));
                category = (case def_row of None \<Rightarrow> JNull | Some r \<Rightarrow> JStr (category_name (dr_category r)))
            in Inr (True,
                 append_outbox
                   \<lparr>ob_event = ''ORDER_DISPUTE_OPENED'', ob_aggregate_type = ''order'', ob_aggregate = oid,
                    ob_payload = JObj [(''orderId'', JStr oid), (''reasonCode'', JStr code),
                      (''source'', JStr (source_name source)), (''reviewType'', review),
                      (''openedBy'', JStr (to_lower (source_name source)))]\<rparr>
                 (append_audit
                   \<lparr>au_actor = actor, au_entity_type = ''order'', au_entity_id = oid,
                    au_action = ''SYSTEM_DISPUTE_OPENED'',
                    au_reason = Some (case note of None \<Rightarrow> code | Some n \<Rightarrow> n),
                    au_before = dispute_before so,
                    au_after = JObj [(''status'', json_status OS_DISPUTE), (''reasonCode'', JStr code),
                      (''category'', category), (''reviewType'', review),
                      (''source'', JStr (source_name source)), (''details'', details)],
                    au_key = Some key\<rparr> d))))"

definition open_system_dispute ::
    "id \<Rightarrow> string \<Rightarrow> reason_source \<Rightarrow> string \<Rightarrow> id option \<Rightarrow> string option \<Rightarrow> json \<Rightarrow> db \<Rightarrow> (bool \<times> db) res" where
  "open_system_dispute oid code source key actor note details d =
     (if \<not> is_known_dispute_reason code then Inl (BadRequest (''Unknown dispute reason: '' @ code))
      else bindE (assert_dispute_reason_allowed code source) (\<lambda>_.
        if find_audit ''order'' oid ''SYSTEM_DISPUTE_OPENED'' key d then Inr (False, d)
        else open_system_dispute_tx oid code source key actor note details d))"

section \<open>The administrator's handlers\<close>

definition resolve_admin_reason ::
    "string option \<Rightarrow> string option \<Rightarrow> string option \<Rightarrow> string \<Rightarrow> (string \<times> string) res" where
  "resolve_admin_reason reason code_opt note_opt fallback =
     (let code = (case code_opt of None \<Rightarrow> fallback | Some c \<Rightarrow> c) in
      if \<not> is_known_dispute_reason code then Inl (BadRequest (''Unknown dispute reason code: '' @ code))
      else bindE (assert_dispute_reason_allowed code RS_admin) (\<lambda>_.
        let note = (case note_opt of Some n \<Rightarrow> n | None \<Rightarrow> (case reason of Some r \<Rightarrow> r | None \<Rightarrow> code)) in
        if length note < 3
        then Inl (BadRequest ''reasonNote or reason must be at least 3 characters'')
        else Inr (code, note)))"

definition admin_open_dispute ::
    "id \<Rightarrow> id \<Rightarrow> string option \<Rightarrow> string option \<Rightarrow> string option \<Rightarrow> string \<Rightarrow> db \<Rightarrow> db res" where
  "admin_open_dispute oid actor reason code_opt note_opt key d =
     (if key = [] then Inl (BadRequest ''Idempotency-Key header is required'')
      else bindE (resolve_admin_reason reason code_opt note_opt ''ADMIN_DISPUTE'') (\<lambda>(code, note).
        if find_audit ''order'' oid ''ADMIN_DISPUTE_OPENED'' key d then Inr d
        else case load_order oid d of
          None \<Rightarrow> Inl (NotFound ''Order not found'')
        | Some so \<Rightarrow>
            if o_status (so_order so) = OS_DISPUTE then Inr d
            else if \<not> is_open_status (o_status (so_order so))
            then Inl (BadRequest ''Order cannot be moved to dispute from current status'')
            else
              bindE (move_to_dispute so code (Some actor) d) (\<lambda>d.
              Inr (append_outbox
                     \<lparr>ob_event = ''ORDER_DISPUTE_OPENED'', ob_aggregate_type = ''order'', ob_aggregate = oid,
                      ob_payload = JObj [(''reasonCode'', JStr code), (''reasonNote'', JStr note),
                                         (''openedBy'', JStr ''admin'')]\<rparr>
                   (append_audit
                     \<lparr>au_actor = Some actor, au_entity_type = ''order'', au_entity_id = oid,
                      au_action = ''ADMIN_DISPUTE_OPENED'', au_reason = Some note, au_before = dispute_before so,
                      au_after = JObj [(''status'', json_status OS_DISPUTE), (''reasonCode'', JStr code),
                                       (''openedBy'', JStr ''admin'')],
                      au_key = Some key\<rparr> d)))))"

datatype resolution = Resolve_buyer | Resolve_seller

text \<open>A disputed lot may already be blocked; it stays blocked after the refund.\<close>

definition unreserve_disputed_lot :: "settlement_order \<Rightarrow> string \<Rightarrow> id \<Rightarrow> db \<Rightarrow> db res" where
  "unreserve_disputed_lot so code actor d =
     (let l = so_lot so; lot_id = o_lot (so_order so) in
      if l_status l \<noteq> LS_BLOCKED
      then lot_transition lot_id (l_status l) LS_BLOCKED (Some actor) (Some code) (\<lambda>l. l\<lparr>l_reserved_by := None\<rparr>) d
      else bindE (update_row lot_id (\<lambda>l. l\<lparr>l_reserved_by := None\<rparr>) (lots d)) (\<lambda>t. Inr (d\<lparr>lots := t\<rparr>)))"

definition resolve_for_buyer ::
    "settlement_order \<Rightarrow> id \<Rightarrow> hold \<Rightarrow> string \<Rightarrow> id \<Rightarrow> string \<Rightarrow> db \<Rightarrow> db res" where
  "resolve_for_buyer so hid h code actor key d =
     (let oid = so_id so; ord = so_order so; l = so_lot so in
      bindE (assert_resolve_buyer_allowed h) (\<lambda>_.
      bindE (refund_hold (o_buyer ord) oid hid (h_amount h) (''admin-resolve-buyer:'' @ key) (bank d)) (\<lambda>(_, b).
      bindE (update_hold hid (\<lambda>h'. h'\<lparr>h_released := h_amount h\<rparr>) (d\<lparr>bank := b\<rparr>)) (\<lambda>d.
      bindE (order_transition oid OS_DISPUTE OS_FAILED (Some actor) (Some code) d) (\<lambda>d.
      bindE (unreserve_disputed_lot so code actor d) (\<lambda>d.
      set_asset_status (l_asset l) IA_AVAILABLE d))))))"

definition resolve_for_seller ::
    "settlement_order \<Rightarrow> id \<Rightarrow> hold \<Rightarrow> string \<Rightarrow> id \<Rightarrow> string \<Rightarrow> db \<Rightarrow> db res" where
  "resolve_for_seller so hid h code actor key d =
     (let oid = so_id so; ord = so_order so; l = so_lot so in
      bindE (assert_resolve_seller_allowed h l) (\<lambda>_.
      bindE (case so_trade so of
               None \<Rightarrow> Inr d
             | Some (i, _) \<Rightarrow>
                 update_trade_op i (\<lambda>t. t\<lparr>t_status := TS_CONFIRMED, t_fail_reason := None,
                   t_provider_ref := Some (''admin-resolve-seller-'' @ oid)\<rparr>) d) (\<lambda>d.
      bindE (settle_sale (o_buyer ord) (o_seller ord) oid hid (h_amount h) (l_seller_receive l) (l_commission l)
               (''admin-resolve-seller:'' @ key) (bank d)) (\<lambda>(_, b).
      bindE (update_hold hid (\<lambda>h'. h'\<lparr>h_captured := h_amount h\<rparr>) (d\<lparr>bank := b\<rparr>)) (\<lambda>d.
      bindE (order_transition oid OS_DISPUTE OS_COMPLETED (Some actor) (Some code) d) (\<lambda>d.
      bindE (lot_transition (o_lot ord) (l_status l) LS_SOLD (Some actor) (Some code) (\<lambda>l. l) d) (\<lambda>d.
      set_asset_status (l_asset l) IA_SOLD d)))))))"

definition resolution_records ::
    "resolution \<Rightarrow> id \<Rightarrow> hold \<Rightarrow> string \<Rightarrow> string \<Rightarrow> id \<Rightarrow> string \<Rightarrow> db \<Rightarrow> db" where
  "resolution_records resolution oid h code note actor key d =
     (let name = JStr (case resolution of Resolve_buyer \<Rightarrow> ''BUYER'' | Resolve_seller \<Rightarrow> ''SELLER'');
          released = length (filter (\<lambda>(_, i). i = oid) (mapping_leases d));
          d = d\<lparr>mapping_leases := filter (\<lambda>(_, i). i \<noteq> oid) (mapping_leases d)\<rparr>;
          d = append_audit
            \<lparr>au_actor = Some actor, au_entity_type = ''order'', au_entity_id = oid,
             au_action = ''ADMIN_ADJUDICATION_MAPPING_LEASE_RELEASED'', au_reason = None, au_before = JNull,
             au_after = JObj [(''releasedCount'', JNum (int released)), (''resolution'', name)],
             au_key = Some (''mapping-adjudication:'' @ key)\<rparr> d;
          d = append_audit
            \<lparr>au_actor = Some actor, au_entity_type = ''order'', au_entity_id = oid,
             au_action = ''ADMIN_DISPUTE_RESOLVED'', au_reason = Some note,
             au_before = JObj [(''status'', json_status OS_DISPUTE),
                               (''holdCapturedMinor'', JStr (show_int (h_captured h)))],
             au_after = JObj [(''status'', json_status (case resolution of
                                  Resolve_buyer \<Rightarrow> OS_FAILED | Resolve_seller \<Rightarrow> OS_COMPLETED)),
                              (''resolution'', name), (''reasonCode'', JStr code)],
             au_key = Some key\<rparr> d;
          d = append_outbox
            \<lparr>ob_event = (case resolution of Resolve_buyer \<Rightarrow> ''ORDER_FAILED'' | Resolve_seller \<Rightarrow> ''ORDER_COMPLETED''),
             ob_aggregate_type = ''order'', ob_aggregate = oid,
             ob_payload = JObj [(''resolution'', name), (''reasonCode'', JStr code), (''reasonNote'', JStr note),
                                (''resolvedBy'', JStr ''admin'')]\<rparr> d
      in case resolution of
           Resolve_buyer \<Rightarrow> d
         | Resolve_seller \<Rightarrow>
             append_outbox \<lparr>ob_event = ''SALE_SETTLED'', ob_aggregate_type = ''order'', ob_aggregate = oid,
                            ob_payload = JObj [(''resolvedBy'', JStr ''admin'')]\<rparr> d)"

definition admin_resolve_dispute ::
    "id \<Rightarrow> id \<Rightarrow> resolution \<Rightarrow> string option \<Rightarrow> string option \<Rightarrow> string option \<Rightarrow> string \<Rightarrow> db \<Rightarrow> db res" where
  "admin_resolve_dispute oid actor resolution reason code_opt note_opt key d =
     (if key = [] then Inl (BadRequest ''Idempotency-Key header is required'')
      else bindE (resolve_admin_reason reason code_opt note_opt
                    (case resolution of Resolve_buyer \<Rightarrow> ''ADMIN_RESOLVE_BUYER''
                                      | Resolve_seller \<Rightarrow> ''ADMIN_RESOLVE_SELLER'')) (\<lambda>(code, note).
        if find_audit ''order'' oid ''ADMIN_DISPUTE_RESOLVED'' key d then Inr d
        else case load_order oid d of
          None \<Rightarrow> Inl (NotFound ''Order not found'')
        | Some so \<Rightarrow>
            if o_status (so_order so) \<noteq> OS_DISPUTE then Inl (BadRequest ''Order is not in DISPUTE status'')
            else case so_hold so of
              None \<Rightarrow> Inl (BadRequest ''Order hold not found'')
            | Some (hid, h) \<Rightarrow>
                bindE ((case resolution of Resolve_buyer \<Rightarrow> resolve_for_buyer | Resolve_seller \<Rightarrow> resolve_for_seller)
                         so hid h code actor key d) (\<lambda>d.
                Inr (resolution_records resolution oid h code note actor key d))))"

definition admin_reverse_hold ::
    "id \<Rightarrow> id \<Rightarrow> string \<Rightarrow> string \<Rightarrow> string \<Rightarrow> db \<Rightarrow> db res" where
  "admin_reverse_hold oid actor code note key d =
     (if \<not> is_known_dispute_reason code then Inl (BadRequest (''Unknown dispute reason: '' @ code))
      else bindE (assert_dispute_reason_allowed code RS_admin) (\<lambda>_.
        case load_order oid d of
          None \<Rightarrow> Inl (NotFound ''Order hold not found'')
        | Some so \<Rightarrow>
            (case so_hold so of
               None \<Rightarrow> Inl (NotFound ''Order hold not found'')
             | Some (_, h) \<Rightarrow>
                 bindE (assert_reverse_hold_allowed (o_status (so_order so)) h) (\<lambda>_.
                 bindE (reverse_settlement_hold oid note (settlement_hold_reverse_key oid) (Some actor) d) (\<lambda>d.
                 Inr (append_audit
                   \<lparr>au_actor = Some actor, au_entity_type = ''order'', au_entity_id = oid,
                    au_action = ''ADMIN_REVERSE_SETTLEMENT_HOLD'', au_reason = Some note,
                    au_before = JObj [(''status'', json_status OS_SETTLEMENT_HOLD)],
                    au_after = JObj [(''status'', json_status OS_DISPUTE), (''reasonCode'', JStr code)],
                    au_key = Some key\<rparr> d))))))"

definition admin_retry_settlement :: "world \<Rightarrow> int \<Rightarrow> id \<Rightarrow> id \<Rightarrow> string \<Rightarrow> db \<Rightarrow> db res" where
  "admin_retry_settlement w now oid actor key d =
     (if key = [] then Inl (BadRequest ''Idempotency-Key header is required'')
      else case row (orders d) oid of
        None \<Rightarrow> Inl (NotFound ''Order not found'')
      | Some ord \<Rightarrow>
          bindE (if o_status ord = OS_SETTLEMENT_HOLD then release_due_settlement_hold w now oid d
                 else try_settle_confirmed_order w now oid (''admin-retry-settle:'' @ key) d) (\<lambda>(_, d).
          Inr (append_audit
            \<lparr>au_actor = Some actor, au_entity_type = ''order'', au_entity_id = oid,
             au_action = ''ADMIN_RETRY_SETTLEMENT'', au_reason = None, au_before = JNull, au_after = JNull,
             au_key = Some key\<rparr> d)))"

text \<open>\<open>blockLot\<close>, \<open>unblockLot\<close> and \<open>adminCancelLot\<close> share their shape: the status the lot must
  have, the status it gets, the status of its asset and the audit action.\<close>

definition admin_change_lot ::
    "string \<Rightarrow> lot_status \<Rightarrow> lot_status \<Rightarrow> asset_status \<Rightarrow> string \<Rightarrow> id \<Rightarrow> id \<Rightarrow> string \<Rightarrow> string \<Rightarrow> db \<Rightarrow> db res" where
  "admin_change_lot action required target asset_target message lot_id actor reason key d =
     (if key = [] then Inl (BadRequest ''Idempotency-Key header is required'')
      else if find_audit ''lot'' lot_id action key d then Inr d
      else case row (lots d) lot_id of
        None \<Rightarrow> Inl (NotFound ''Lot not found'')
      | Some l \<Rightarrow>
          if l_status l \<noteq> required then Inl (BadRequest message)
          else
            bindE (lot_transition lot_id (l_status l) target (Some actor) (Some reason) (\<lambda>l. l) d) (\<lambda>d.
            bindE (set_asset_status (l_asset l) asset_target d) (\<lambda>d.
            Inr (append_audit
              \<lparr>au_actor = Some actor, au_entity_type = ''lot'', au_entity_id = lot_id, au_action = action,
               au_reason = Some reason, au_before = JObj [(''status'', JStr (lot_status_name (l_status l)))],
               au_after = JObj [(''status'', JStr (lot_status_name target))], au_key = Some key\<rparr> d))))"

definition admin_block_lot :: "id \<Rightarrow> id \<Rightarrow> string \<Rightarrow> string \<Rightarrow> db \<Rightarrow> db res" where
  "admin_block_lot =
     admin_change_lot ''ADMIN_LOT_BLOCKED'' LS_ACTIVE LS_BLOCKED IA_BLOCKED ''Only ACTIVE lots can be blocked''"

definition admin_unblock_lot :: "id \<Rightarrow> id \<Rightarrow> string \<Rightarrow> string \<Rightarrow> db \<Rightarrow> db res" where
  "admin_unblock_lot =
     admin_change_lot ''ADMIN_LOT_UNBLOCKED'' LS_BLOCKED LS_ACTIVE IA_LISTED ''Only BLOCKED lots can be unblocked''"

definition admin_cancel_lot :: "id \<Rightarrow> id \<Rightarrow> string \<Rightarrow> string \<Rightarrow> db \<Rightarrow> db res" where
  "admin_cancel_lot =
     admin_change_lot ''ADMIN_LOT_CANCELED'' LS_ACTIVE LS_CANCELED IA_AVAILABLE
       ''Only ACTIVE lots can be canceled by admin''"

section \<open>Effects\<close>

lemma update_trade_op_eq_Inr [res_simps]:
  "update_trade_op i f d = Inr d' \<longleftrightarrow>
     (\<exists>t. row (trade_ops d) i = Some t \<and> d' = d\<lparr>trade_ops := AList.update i (f t) (trade_ops d)\<rparr>)"
  by (auto simp: update_trade_op_def bindE_eq_Inr update_row_eq_Inr)

lemma find_audit_append [simp]:
  "find_audit et i ac k (append_audit a d) \<longleftrightarrow> find_audit et i ac k d
     \<or> au_entity_type a = et \<and> au_entity_id a = i \<and> au_action a = ac \<and> au_key a = Some k"
  "find_audit et i ac k (append_outbox o_row d) \<longleftrightarrow> find_audit et i ac k d"
  by (auto simp: find_audit_def append_audit_def append_outbox_def)

lemma case_option_eq_Inr:
  "(case x of None \<Rightarrow> Inr d | Some p \<Rightarrow> f p) = Inr d' \<longleftrightarrow> x = None \<and> d = d' \<or> (\<exists>p. x = Some p \<and> f p = Inr d')"
  by (cases x) auto

lemma move_to_dispute_effect:
  assumes "move_to_dispute so code actor d = Inr d'"
  shows "bank d' = bank d \<and> holds d' = holds d \<and> audit d' = audit d
     \<and> order_allowed (o_status (so_order so)) OS_DISPUTE
     \<and> map_option o_status (row (orders d') (so_id so)) = Some OS_DISPUTE
     \<and> map_option l_status (row (lots d') (o_lot (so_order so))) = Some LS_BLOCKED
     \<and> map_option a_status (row (assets d') (l_asset (so_lot so))) = Some IA_BLOCKED"
  using assms
  by (auto simp: move_to_dispute_def bindE_eq_Inr update_trade_op_eq_Inr order_transition_eq_Inr
      lot_transition_eq_Inr set_asset_status_eq_Inr row_update split: option.splits)

lemma resolution_records_frame [simp]:
  "bank (resolution_records res oid h code note actor key d) = bank d"
  "orders (resolution_records res oid h code note actor key d) = orders d"
  "holds (resolution_records res oid h code note actor key d) = holds d"
  "lots (resolution_records res oid h code note actor key d) = lots d"
  "find_audit ''order'' oid ''ADMIN_DISPUTE_RESOLVED'' key (resolution_records res oid h code note actor key d)"
  by (cases res; simp add: resolution_records_def Let_def)+

lemma unreserve_frame:
  "unreserve_disputed_lot so code actor d = Inr d' \<Longrightarrow> bank d' = bank d \<and> orders d' = orders d \<and> holds d' = holds d"
  by (auto simp: unreserve_disputed_lot_def Let_def bindE_eq_Inr lot_transition_eq_Inr split: if_splits)

lemma resolve_for_buyer_effect:
  assumes "resolve_for_buyer so hid h code actor key d = Inr d'"
  shows "h_captured h \<le> 0 \<and> h_released h < h_amount h
     \<and> (\<exists>r. refund_hold (o_buyer (so_order so)) (so_id so) hid (h_amount h) (''admin-resolve-buyer:'' @ key) (bank d)
            = Inr (r, bank d'))
     \<and> map_option o_status (row (orders d') (so_id so)) = Some OS_FAILED
     \<and> map_option h_released (row (holds d') hid) = Some (h_amount h)"
proof -
  from assms obtain r b d1 d2 d3 where *: "assert_resolve_buyer_allowed h = Inr ()"
    "refund_hold (o_buyer (so_order so)) (so_id so) hid (h_amount h) (''admin-resolve-buyer:'' @ key) (bank d) = Inr (r, b)"
    "update_hold hid (\<lambda>h'. h'\<lparr>h_released := h_amount h\<rparr>) (d\<lparr>bank := b\<rparr>) = Inr d1"
    "order_transition (so_id so) OS_DISPUTE OS_FAILED (Some actor) (Some code) d1 = Inr d2"
    "unreserve_disputed_lot so code actor d2 = Inr d3" "set_asset_status (l_asset (so_lot so)) IA_AVAILABLE d3 = Inr d'"
    by (auto simp: resolve_for_buyer_def Let_def bindE_eq_Inr)
  have "h_captured h \<le> 0 \<and> h_released h < h_amount h"
    using *(1) by (auto simp: assert_resolve_buyer_allowed_def split: if_splits)
  then show ?thesis
    using *(2-4,6) unreserve_frame [OF *(5)]
    by (auto simp: update_hold_eq_Inr order_transition_eq_Inr set_asset_status_eq_Inr row_update)
qed

lemma resolve_for_seller_effect:
  assumes "resolve_for_seller so hid h code actor key d = Inr d'"
  shows "h_captured h \<le> 0 \<and> l_seller_receive (so_lot so) + l_commission (so_lot so) = h_amount h
     \<and> (\<exists>r. settle_sale (o_buyer (so_order so)) (o_seller (so_order so)) (so_id so) hid (h_amount h)
              (l_seller_receive (so_lot so)) (l_commission (so_lot so)) (''admin-resolve-seller:'' @ key) (bank d)
            = Inr (r, bank d'))
     \<and> map_option o_status (row (orders d') (so_id so)) = Some OS_COMPLETED
     \<and> map_option h_captured (row (holds d') hid) = Some (h_amount h)
     \<and> map_option l_status (row (lots d') (o_lot (so_order so))) = Some LS_SOLD"
  using assms
  by (auto simp: resolve_for_seller_def Let_def bindE_eq_Inr update_hold_eq_Inr order_transition_eq_Inr
      lot_transition_eq_Inr set_asset_status_eq_Inr row_update update_trade_op_eq_Inr case_option_eq_Inr
      assert_resolve_seller_allowed_def split: if_splits)

lemma admin_resolve_cases:
  assumes "admin_resolve_dispute oid actor resolution reason c n key d = Inr d'"
  obtains (replayed) "find_audit ''order'' oid ''ADMIN_DISPUTE_RESOLVED'' key d" "d' = d"
    | (resolved) so hid h code msg d1 where "load_order oid d = Some so" "so_hold so = Some (hid, h)"
        "o_status (so_order so) = OS_DISPUTE"
        "(case resolution of Resolve_buyer \<Rightarrow> resolve_for_buyer | Resolve_seller \<Rightarrow> resolve_for_seller)
           so hid h code actor key d = Inr d1"
        "d' = resolution_records resolution oid h code msg actor key d1"
  using assms
  by (force simp: admin_resolve_dispute_def bindE_eq_Inr split: if_splits option.splits)

section \<open>The theorems of disputes\<close>

text \<open>A disputed order whose buyer has a second purchase reserved, for the applications.\<close>

definition demo_two_holds :: db where
  "demo_two_holds = demo_hold_db\<lparr>bank := run_ops [Reserve_purchase ''buyer'' ''o3'' ''h3'' 250 ''p3''] (bank demo_hold_db)\<rparr>"

definition get_db :: "db res \<Rightarrow> db" where
  "get_db r = (case r of Inr d \<Rightarrow> d | Inl _ \<Rightarrow> empty_db demo_ids)"

definition demo_dispute :: db where
  "demo_dispute = get_db (admin_open_dispute ''o2'' ''admin'' None None (Some ''check'') ''k1'' demo_two_holds)"


lemma demo_resolve_runs:
  "demo_accounts (admin_resolve_dispute ''o2'' ''admin'' Resolve_buyer None None (Some ''refund'') ''k2'' demo_dispute)
     = [450, 250, 0, 285, 0, 0, 15, 0, 0]"
  by code_simp




text \<open>
  The refund of a reversed settlement hold does not stop a later resolution for the seller:
  on the concrete state, the reversal has refunded the 200 of order \<open>o2\<close> in full, yet the
  resolution for the seller succeeds, captures the hold of \<open>o2\<close> although it is fully released, and
  takes another 200 from the buyer's hold account, which then holds 50 of the 250 that the second
  purchase \<open>o3\<close> reserved.
\<close>

theorem seller_resolution_after_reversal:
  "\<exists>d1 d2.
     admin_reverse_hold ''o2'' ''admin'' ''SETTLEMENT_HOLD_REVERSED'' ''reversed'' ''k3'' demo_two_holds = Inr d1
     \<and> admin_resolve_dispute ''o2'' ''admin'' Resolve_seller None None (Some ''for seller'') ''k4'' d1 = Inr d2
     \<and> bal (bank demo_two_holds) [] AT_HOLD = 450 \<and> bal (bank d1) [] AT_HOLD = 250
     \<and> map_option h_released (row (holds d1) ''h2'') = Some 200
     \<and> bal (bank d2) [] AT_HOLD = 50
     \<and> map_option h_released (row (holds d2) ''h2'') = Some 200
     \<and> map_option h_captured (row (holds d2) ''h2'') = Some 200"
proof -
  let ?r1 = "admin_reverse_hold ''o2'' ''admin'' ''SETTLEMENT_HOLD_REVERSED'' ''reversed'' ''k3'' demo_two_holds"
  let ?r2 = "admin_resolve_dispute ''o2'' ''admin'' Resolve_seller None None (Some ''for seller'') ''k4'' (get_db ?r1)"
  have "isl ?r1 = False" "isl ?r2 = False" by code_simp+
  then obtain d1 d2 where d: "?r1 = Inr d1" "?r2 = Inr d2" by (cases ?r1; cases ?r2) auto
  have "bal (bank demo_two_holds) [] AT_HOLD = 450 \<and> bal (bank (get_db ?r1)) [] AT_HOLD = 250
     \<and> map_option h_released (row (holds (get_db ?r1)) ''h2'') = Some 200"
    by code_simp
  moreover have "bal (bank (get_db ?r2)) [] AT_HOLD = 50
     \<and> map_option h_released (row (holds (get_db ?r2)) ''h2'') = Some 200
     \<and> map_option h_captured (row (holds (get_db ?r2)) ''h2'') = Some 200"
    by code_simp
  ultimately show ?thesis using d by (auto simp: get_db_def)
qed

end
