(* ===== verification/Backing.thy ===== *)
theory Backing
  imports HeldMoney Orders Trades Disputes
begin

text \<open>
  The money that buyers have on hold is accounted for: for every user the hold account contains
  exactly what the user's open orders still claim plus what the user's open buy requests reserve.
  \<open>market_ok\<close> is that equation with the well-formedness it rests on. The primitive steps the
  handlers are made of keep it (\<open>market_frame\<close>, \<open>order_stays_open\<close>, \<open>hold_note\<close>), and
  \<open>market_settle\<close> is the one lemma for the steps that move money and change the order that
  claims it.
\<close>

section \<open>Claims\<close>

definition claim_amount :: "order_status \<Rightarrow> hold \<Rightarrow> int" where
  "claim_amount s h = (if is_open_status s then h_amount h - h_released h else 0)"

definition order_claim :: "(id, hold) table \<Rightarrow> id \<Rightarrow> order \<Rightarrow> int" where
  "order_claim hs oid ord =
     (case find (\<lambda>(_, h). h_order h = oid) hs of None \<Rightarrow> 0 | Some (_, h) \<Rightarrow> claim_amount (o_status ord) h)"

definition claims :: "id \<Rightarrow> db \<Rightarrow> int" where
  "claims u d = tsum (\<lambda>oid ord. if o_buyer ord = u then order_claim (holds d) oid ord else 0) (orders d)"

definition gap :: "id \<Rightarrow> db \<Rightarrow> int" where
  "gap u d = heldb u (bank d) - claims u d - reserved_total u d"

text \<open>What the hold of an order looks like: it is captured in full when the order is completed and
  not before, and released in full when the order failed; in a dispute either nothing or everything
  is released. A canceled order has its money back, but the hold does not show it.\<close>

definition hold_fits :: "order_status \<Rightarrow> hold \<Rightarrow> bool" where
  "hold_fits s h \<longleftrightarrow> 0 < h_amount h \<and> h_captured h = (if s = OS_COMPLETED then h_amount h else 0)
     \<and> (if s = OS_FAILED then h_released h = h_amount h
        else h_released h = 0 \<or> s = OS_DISPUTE \<and> h_released h = h_amount h)"

text \<open>Every order has one hold, of the same amount, in its buyer's wallet.\<close>

definition linked :: "(id, order) table \<Rightarrow> bank \<Rightarrow> hold \<Rightarrow> bool" where
  "linked os b h \<longleftrightarrow> (\<exists>ord. row os (h_order h) = Some ord \<and> o_hold_amount ord = h_amount h
     \<and> has_wallet (o_buyer ord) (h_wallet h) b)"

definition holds_linked :: "db \<Rightarrow> bool" where
  "holds_linked d \<longleftrightarrow> distinct (map (\<lambda>(_, h). h_order h) (holds d))
     \<and> (\<forall>(_, h) \<in> set (holds d). linked (orders d) (bank d) h)
     \<and> (\<forall>oid. row (orders d) oid \<noteq> None \<longrightarrow> hold_of oid d \<noteq> None)"

definition drawn :: "db \<Rightarrow> id set" where
  "drawn d = set (keys (orders d)) \<union> set (keys (holds d)) \<union> set (keys (buy_requests d))
     \<union> h_order ` snd ` set (holds d)"

definition market_base :: "db \<Rightarrow> bool" where
  "market_base d \<longleftrightarrow> bank_wf (bank d) \<and> requests_ok d
     \<and> distinct (keys (orders d)) \<and> distinct (keys (holds d)) \<and> holds_linked d
     \<and> (\<forall>n. uuid_next (bank d) \<le> n \<longrightarrow> uuid_seq (bank d) n \<notin> drawn d)
     \<and> (\<forall>oid ord. row (orders d) oid = Some ord \<longrightarrow>
          (\<exists>w. has_wallet (o_buyer ord) w (bank d))
          \<and> (\<forall>hid h. hold_of oid d = Some (hid, h) \<longrightarrow> hold_fits (o_status ord) h))"

definition market_ok :: "db \<Rightarrow> bool" where
  "market_ok d \<longleftrightarrow> market_base d \<and> (\<forall>u. gap u d = 0)"

lemma closed_statuses [simp]:
  "\<not> is_open_status OS_FAILED" "\<not> is_open_status OS_COMPLETED" "\<not> is_open_status OS_CANCELED"
  "is_open_status OS_CREATED" "is_open_status OS_PAYMENT_RESERVED" "is_open_status OS_WAITING_TRADE"
  "is_open_status OS_TRADE_CONFIRMED" "is_open_status OS_SETTLEMENT_HOLD" "is_open_status OS_DISPUTE"
  by (simp_all add: is_open_status_def open_order_statuses_def)

lemma order_claim_hold_of:
  "order_claim (holds d) oid ord =
     (case hold_of oid d of None \<Rightarrow> 0 | Some (_, h) \<Rightarrow> claim_amount (o_status ord) h)"
  by (simp add: order_claim_def hold_of_def)

lemma market_baseD:
  assumes "market_base d" and "row (orders d) oid = Some ord"
  shows "\<exists>w. has_wallet (o_buyer ord) w (bank d)" "hold_of oid d = Some (hid, h) \<Longrightarrow> hold_fits (o_status ord) h"
  using assms by (auto simp: market_base_def)

lemma linked_hold: "market_base d \<Longrightarrow> row (orders d) oid = Some ord \<Longrightarrow> \<exists>hid h. hold_of oid d = Some (hid, h)"
proof -
  assume "market_base d" and o: "row (orders d) oid = Some ord"
  then have "holds_linked d" by (simp add: market_base_def)
  then have "row (orders d) oid \<noteq> None \<longrightarrow> hold_of oid d \<noteq> None" unfolding holds_linked_def by blast
  with o show ?thesis by auto
qed

text \<open>Only the bank, the orders, the holds and the requests matter.\<close>

definition same_market :: "db \<Rightarrow> db \<Rightarrow> bool" where
  "same_market d d' \<longleftrightarrow> bank d' = bank d \<and> orders d' = orders d \<and> holds d' = holds d
     \<and> buy_requests d' = buy_requests d"

lemma same_market_refl [simp]: "same_market d d"
  by (simp add: same_market_def)

lemma same_market_trans: "same_market d d' \<Longrightarrow> same_market d' d'' \<Longrightarrow> same_market d d''"
  by (simp add: same_market_def)

lemma market_frame:
  assumes "market_ok d" and "same_market d d'"
  shows "market_ok d'"
proof -
  note f = assms(2) [unfolded same_market_def]
  have "claims u d' = claims u d" "reserved_total u d' = reserved_total u d" "drawn d' = drawn d"
    "requests_ok d' = requests_ok d" "hold_of oid d' = hold_of oid d" for u oid
    using f by (simp_all add: claims_def reserved_total_def drawn_def requests_ok_def hold_of_def cong: if_cong)
  moreover from this(5) f have "holds_linked d' = holds_linked d" by (simp add: holds_linked_def)
  ultimately
  show ?thesis using assms(1) f by (simp add: market_ok_def market_base_def gap_def)
qed

lemma market_quiet: "same_market d d' \<Longrightarrow> market_ok d' = market_ok d"
proof
  assume s: "same_market d d'"
  then have "same_market d' d" by (simp add: same_market_def)
  then show "market_ok d' \<Longrightarrow> market_ok d" by (rule market_frame [rotated])
  show "market_ok d \<Longrightarrow> market_ok d'" using s by (rule market_frame [rotated])
qed

section \<open>Holds and orders by identifier\<close>

lemma find_mem: "find (\<lambda>(_, h). P h) t = Some (k, v) \<Longrightarrow> (k, v) \<in> set t \<and> P v"
  by (induction t) (auto split: if_splits)

lemma find_update_same:
  assumes "find (\<lambda>(_, h). P h) t = Some (k, v)" and "distinct (keys t)" and "P v'"
  shows "find (\<lambda>(_, h). P h) (AList.update k v' t) = Some (k, v')"
  using assms
proof (induction t)
  case (Cons p t)
  obtain a b where p: "p = (a, b)" by (cases p)
  show ?case
  proof (cases "a = k")
    case True
    with Cons.prems p show ?thesis by simp
  next
    case False
    with Cons p show ?thesis by (simp split: if_splits)
  qed
qed simp

lemma find_update_other:
  assumes "row t k = Some v" and "\<not> P v" and "\<not> P v'"
  shows "find (\<lambda>(_, h). P h) (AList.update k v' t) = find (\<lambda>(_, h). P h) t"
  using assms by (induction t) (auto split: if_splits)

lemma hold_of_row: "hold_of oid d = Some (hid, h) \<Longrightarrow> distinct (keys (holds d)) \<Longrightarrow>
    row (holds d) hid = Some h \<and> h_order h = oid"
  unfolding hold_of_def using find_mem [of "\<lambda>h. h_order h = oid"] mem_row by fastforce

text \<open>Changing one order and its hold changes one claim.\<close>

lemma tsum_eq_but_one:
  assumes "distinct (keys t)" and "row t k = Some v" and "\<And>k' x. (k', x) \<in> set t \<Longrightarrow> k' \<noteq> k \<Longrightarrow> f k' x = g k' x"
  shows "tsum g t = tsum f t - f k v + g k v"
  using assms
proof (induction t)
  case (Cons p t)
  obtain a b where p: "p = (a, b)" by (cases p)
  show ?case
  proof (cases "a = k")
    case True
    with Cons.prems p have "tsum g t = tsum f t" by (intro tsum_cong) (force simp: image_iff)
    with True Cons.prems p show ?thesis by simp
  next
    case False
    with Cons p show ?thesis by simp
  qed
qed simp

lemma tsum_change:
  assumes "distinct (keys t)" and "row t k = Some v" and "\<And>k' x. (k', x) \<in> set t \<Longrightarrow> k' \<noteq> k \<Longrightarrow> f k' x = g k' x"
  shows "tsum g (AList.update k w t) = tsum f t - f k v + g k w"
  using tsum_update [OF assms(1,2), of g w] tsum_eq_but_one [OF assms] by simp

lemma claims_change:
  assumes "distinct (keys (orders d))" "distinct (keys (holds d))"
    and "row (orders d) oid = Some ord" "hold_of oid d = Some (hid, h)"
    and "orders d' = AList.update oid ord' (orders d)" "holds d' = AList.update hid h' (holds d)"
    and "o_buyer ord' = o_buyer ord" "h_order h' = oid"
  shows "claims u d' = claims u d
           - (if u = o_buyer ord then claim_amount (o_status ord) h - claim_amount (o_status ord') h' else 0)"
    and "hold_of oid d' = Some (hid, h')" and "oid' \<noteq> oid \<Longrightarrow> hold_of oid' d' = hold_of oid' d"
proof -
  note hrow = hold_of_row [OF assms(4,2)]
  show same: "hold_of oid d' = Some (hid, h')"
    using find_update_same [of "\<lambda>h. h_order h = oid", OF _ assms(2), of hid h h'] assms(4,6,8)
    by (simp add: hold_of_def)
  have other: "hold_of i d' = hold_of i d" if "i \<noteq> oid" for i
    using find_update_other [of "holds d" hid h "\<lambda>h. h_order h = i" h'] hrow assms(6,8) that
    by (auto simp: hold_of_def)
  then show "oid' \<noteq> oid \<Longrightarrow> hold_of oid' d' = hold_of oid' d" by blast
  have "claims u d' = claims u d - (if o_buyer ord = u then order_claim (holds d) oid ord else 0)
      + (if o_buyer ord' = u then order_claim (holds d') oid ord' else 0)"
    unfolding claims_def assms(5)
    using other by (intro tsum_change [OF assms(1,3)]) (auto simp: order_claim_hold_of)
  then show "claims u d' = claims u d
      - (if u = o_buyer ord then claim_amount (o_status ord) h - claim_amount (o_status ord') h' else 0)"
    using same assms(4,7) by (auto simp: order_claim_hold_of)
qed

lemma order_hold:
  assumes "market_base d" and ord: "row (orders d) oid = Some ord"
  obtains hid h where "hold_of oid d = Some (hid, h)" "has_wallet (o_buyer ord) (h_wallet h) (bank d)"
    "h_amount h = o_hold_amount ord" "hold_fits (o_status ord) h" "row (holds d) hid = Some h" "h_order h = oid"
proof -
  obtain hid h where h: "hold_of oid d = Some (hid, h)" using linked_hold [OF assms] by blast
  moreover from this have r: "row (holds d) hid = Some h" "h_order h = oid"
    using hold_of_row [of oid d hid h] assms(1) by (auto simp: market_base_def)
  moreover have "linked (orders d) (bank d) h"
    using assms(1) row_Some_mem [OF r(1)] by (auto simp: market_base_def holds_linked_def)
  ultimately show ?thesis
    using that [OF h] ord market_baseD(2) [OF assms, of hid h] by (auto simp: linked_def)
qed

section \<open>Steps that keep the market in order\<close>

lemma AList_update_id: "row t k = Some v \<Longrightarrow> AList.update k v t = t"
  by (induction t) (auto split: if_splits)

lemma reserved_total_requests: "buy_requests d' = buy_requests d \<Longrightarrow> reserved_total u d' = reserved_total u d"
  by (simp add: reserved_total_def)

text \<open>The identifiers in use do not grow when rows are only updated.\<close>

lemma drawn_update:
  assumes "row (orders d) oid \<noteq> None" "row (holds d) hid = Some h"
    and "orders d' = AList.update oid ord' (orders d)" "holds d' = AList.update hid h' (holds d)"
    and "h_order h' = h_order h" "buy_requests d' = buy_requests d"
  shows "drawn d' \<subseteq> drawn d"
proof -
  have "h_order ` snd ` set (AList.update hid h' (holds d)) \<subseteq> h_order ` snd ` set (holds d)"
    using set_AList_update [of hid h' "holds d"] row_Some_mem [OF assms(2)] assms(5) by (force simp: image_iff)
  then show ?thesis using assms by (auto simp: drawn_def)
qed

text \<open>The link between holds and orders survives when rows are updated and the bank grows.\<close>

lemma linked_mono:
  assumes "linked os b h" and "bank_grows b b'"
    and "\<And>k x. row os k = Some x \<Longrightarrow> \<exists>y. row os' k = Some y \<and> o_buyer y = o_buyer x \<and> o_hold_amount y = o_hold_amount x"
    and "h_order h' = h_order h" "h_amount h' = h_amount h" "h_wallet h' = h_wallet h"
  shows "linked os' b' h'"
proof -
  obtain x where x: "row os (h_order h) = Some x" "o_hold_amount x = h_amount h" "has_wallet (o_buyer x) (h_wallet h) b"
    using assms(1) by (auto simp: linked_def)
  obtain y where "row os' (h_order h) = Some y" "o_buyer y = o_buyer x" "o_hold_amount y = o_hold_amount x"
    using assms(3) [OF x(1)] by blast
  with x assms(2,4-6) show ?thesis by (auto simp: linked_def bank_grows_def)
qed

lemma map_orders_update:
  "row t k = Some v \<Longrightarrow> h_order v' = h_order v \<Longrightarrow>
     map (\<lambda>(_, h). h_order h) (AList.update k v' t) = map (\<lambda>(_, h). h_order h) t"
  by (induction t) (auto split: if_splits)

lemma holds_linked_settle:
  assumes link: "holds_linked d" and ord: "row (orders d) oid = Some ord" and h: "row (holds d) hid = Some h"
    and upd: "orders d' = AList.update oid (ord\<lparr>o_status := t\<rparr>) (orders d)" "holds d' = AList.update hid h' (holds d)"
      "h_order h' = h_order h" "h_amount h' = h_amount h" "h_wallet h' = h_wallet h"
    and bank: "bank_grows (bank d) (bank d')"
    and same: "\<And>i. hold_of i d \<noteq> None \<Longrightarrow> hold_of i d' \<noteq> None"
  shows "holds_linked d'"
proof -
  have orders: "\<exists>y. row (orders d') k = Some y \<and> o_buyer y = o_buyer x \<and> o_hold_amount y = o_hold_amount x"
    if "row (orders d) k = Some x" for k x
    using that ord upd(1) by (auto simp: row_update)
  have keep: "linked (orders d') (bank d') v" if "linked (orders d) (bank d) v" for v
    by (rule linked_mono [OF that bank orders]) auto
  have mem: "(k, v) = (hid, h') \<or> (k, v) \<in> set (holds d)" if "(k, v) \<in> set (holds d')" for k v
    using that set_AList_update [of hid h' "holds d"] upd(2) by auto
  have "linked (orders d) (bank d) h" using link row_Some_mem [OF h] by (auto simp: holds_linked_def)
  then have "linked (orders d') (bank d') h'" by (rule linked_mono [OF _ bank orders]) (use upd in auto)
  then have "\<forall>(_, v) \<in> set (holds d'). linked (orders d') (bank d') v"
    using mem keep link by (fastforce simp: holds_linked_def)
  moreover have "row (orders d') i \<noteq> None \<Longrightarrow> hold_of i d' \<noteq> None" for i
    using same ord upd(1) link by (auto simp: holds_linked_def row_update split: if_splits)
  ultimately show ?thesis
    using link map_orders_update [OF h upd(3)] upd(2) by (auto simp: holds_linked_def)
qed

lemma holds_linked_bank:
  "holds_linked d \<Longrightarrow> orders d' = orders d \<Longrightarrow> holds d' = holds d \<Longrightarrow> bank_grows (bank d) (bank d') \<Longrightarrow> holds_linked d'"
  by (auto simp: holds_linked_def hold_of_def intro: linked_mono)

lemma market_settle:
  assumes ok: "market_ok d" and ord: "row (orders d) oid = Some ord" and hold: "hold_of oid d = Some (hid, h)"
    and upd: "orders d' = AList.update oid (ord\<lparr>o_status := t\<rparr>) (orders d)" "holds d' = AList.update hid h' (holds d)"
      "h_order h' = oid" "h_amount h' = h_amount h" "h_wallet h' = h_wallet h" "buy_requests d' = buy_requests d"
    and bank: "bank_wf (bank d')" "bank_grows (bank d) (bank d')"
    and fits: "hold_fits t h'"
    and money: "\<And>u. heldb u (bank d') = heldb u (bank d)
        - (if u = o_buyer ord then claim_amount (o_status ord) h - claim_amount t h' else 0)"
  shows "market_ok d'"
proof -
  have base: "market_base d" and gap: "gap u d = 0" for u using ok by (auto simp: market_ok_def)
  have dist: "distinct (keys (orders d))" "distinct (keys (holds d))" using base by (auto simp: market_base_def)
  note hrow = hold_of_row [OF hold dist(2)]
  note ch = claims_change [OF dist ord hold upd(1,2), simplified, OF upd(3)]
  have "gap u d' = 0" for u
    using gap [of u] ch(1) [of u] money [of u] reserved_total_requests [OF upd(6)] by (auto simp: gap_def)
  moreover have "market_base d'"
    unfolding market_base_def
  proof (intro conjI allI impI)
    show "requests_ok d'" using base upd(6) by (simp add: market_base_def requests_ok_def)
    have "hold_of i d \<noteq> None \<Longrightarrow> hold_of i d' \<noteq> None" for i using ch(2,3) by (cases "i = oid") auto
    with base hrow upd bank(2) ord show "holds_linked d'"
      by (intro holds_linked_settle [of d oid ord hid h d' t h']) (auto simp: market_base_def)
    show "distinct (keys (orders d'))" "distinct (keys (holds d'))" using dist upd(1,2) distinct_update by auto
  next
    fix n assume "uuid_next (bank d') \<le> n"
    then have "uuid_seq (bank d') n \<notin> drawn d" using base bank(2) by (auto simp: market_base_def bank_grows_def)
    then show "uuid_seq (bank d') n \<notin> drawn d'"
      using drawn_update [of d oid hid h d'] ord hrow upd by auto
  next
    fix i x assume x: "row (orders d') i = Some x"
    then have "\<exists>x0. row (orders d) i = Some x0 \<and> o_buyer x0 = o_buyer x"
      using ord upd(1) by (auto simp: row_update split: if_splits)
    then show "\<exists>w. has_wallet (o_buyer x) w (bank d')"
      using market_baseD(1) [OF base] bank(2) by (fastforce simp: bank_grows_def)
    fix j k assume "hold_of i d' = Some (j, k)"
    then show "hold_fits (o_status x) k"
      using x ch(2,3) fits upd(1) market_baseD(2) [OF base] by (cases "i = oid") (auto simp: row_update)
  qed (rule bank)
  ultimately show ?thesis by (simp add: market_ok_def)
qed

lemma open_transition_source: "order_allowed s t \<Longrightarrow> is_open_status t \<Longrightarrow> is_open_status s \<and> s \<noteq> OS_DISPUTE"
  by (cases s; cases t) (auto simp: order_allowed_def is_open_status_def open_order_statuses_def)

lemma order_stays_open:
  assumes "order_transition oid s t actor reason d = Inr d'" and ok: "market_ok d" and "is_open_status t"
  shows "market_ok d'"
proof -
  obtain ord where o: "order_allowed s t" "row (orders d) oid = Some ord" "o_status ord = s"
    and d': "d' = d\<lparr>orders := AList.update oid (ord\<lparr>o_status := t\<rparr>) (orders d),
        order_events := order_events d @ [\<lparr>ev_entity = oid, ev_from = Some s, ev_to = t,
           ev_actor = actor, ev_reason = reason\<rparr>]\<rparr>"
    using assms(1) by (auto simp: order_transition_eq_Inr)
  have base: "market_base d" using ok by (simp add: market_ok_def)
  have s: "is_open_status s" "s \<noteq> OS_DISPUTE" using open_transition_source o(1) assms(3) by auto
  obtain hid h where p: "hold_of oid d = Some (hid, h)"
    using linked_hold [OF base o(2)] by blast
  have hrow: "row (holds d) hid = Some h" "h_order h = oid"
    using hold_of_row [OF p] base by (auto simp: market_base_def)
  have "hold_fits s h" using market_baseD(2) [OF base o(2)] p o(3) by simp
  then have "hold_fits t h" using s assms(3) by (auto simp: hold_fits_def split: if_splits)
  then show ?thesis
    using p o base hrow s(1) assms(3)
    by (intro market_settle [OF ok o(2), of hid h d' t h])
       (auto simp: d' AList_update_id market_base_def claim_amount_def)
qed

lemma event_stays_open:
  "order_transition_by_event oid s e actor reason g d = Inr (t, d') \<Longrightarrow> market_ok d \<Longrightarrow> is_open_status t \<Longrightarrow> market_ok d'"
  by (auto simp: order_transition_by_event_def bindE_eq_Inr split: option.splits if_splits intro: order_stays_open)

text \<open>Notes on a hold that leave its amounts alone.\<close>

lemma hold_note:
  assumes "update_hold hid f d = Inr d'" and ok: "market_ok d" and "row (orders d) oid = Some ord"
    and "hold_of oid d = Some (hid, h)"
    and "h_order (f h) = h_order h" "h_amount (f h) = h_amount h" "h_released (f h) = h_released h"
      "h_captured (f h) = h_captured h" "h_wallet (f h) = h_wallet h"
  shows "market_ok d'"
proof -
  have base: "market_base d" using ok by (simp add: market_ok_def)
  have hrow: "row (holds d) hid = Some h" "h_order h = oid"
    using hold_of_row [OF assms(4)] base by (auto simp: market_base_def)
  have d': "d' = d\<lparr>holds := AList.update hid (f h) (holds d)\<rparr>"
    using assms(1) hrow by (auto simp: update_hold_eq_Inr)
  have o: "AList.update oid (ord\<lparr>o_status := o_status ord\<rparr>) (orders d) = orders d"
    using assms(3) by (simp add: AList_update_id)
  have "hold_fits (o_status ord) (f h)"
    using market_baseD(2) [OF base assms(3,4)] assms(6-8) by (simp add: hold_fits_def)
  then show ?thesis
    using base assms(5-9) hrow o
    by (intro market_settle [OF ok assms(3,4), of d' "o_status ord" "f h"])
       (auto simp: d' market_base_def claim_amount_def)
qed

text \<open>A movement of money that leaves what everyone holds.\<close>

lemma market_bank:
  assumes "market_ok d" "bank_wf b" "bank_grows (bank d) b" "\<And>u. heldb u b = heldb u (bank d)"
  shows "market_ok (d\<lparr>bank := b\<rparr>)"
proof -
  let ?d = "d\<lparr>bank := b\<rparr>"
  have base: "market_base d" using assms(1) by (simp add: market_ok_def)
  have h: "hold_of i ?d = hold_of i d" for i by (simp add: hold_of_def)
  have dr: "drawn ?d = drawn d" by (simp add: drawn_def)
  have "gap u ?d = gap u d" for u
    using assms(4) by (simp add: gap_def claims_def reserved_total_def cong: if_cong)
  moreover have "uuid_seq b n \<notin> drawn d" if "uuid_next b \<le> n" for n
    using base assms(3) that by (auto simp: market_base_def bank_grows_def)
  moreover have "holds_linked ?d" using base assms(3) holds_linked_bank [of d ?d] by (simp add: market_base_def)
  moreover have "\<exists>w. has_wallet (o_buyer ord) w b" if "row (orders d) oid = Some ord" for oid ord
    using market_baseD(1) [OF base that] assms(3) by (auto simp: bank_grows_def)
  ultimately show ?thesis
    using assms(1,2) base by (simp add: market_ok_def market_base_def h dr)
qed

section \<open>The parts of the handlers\<close>

text \<open>No ledger entry of the user's wallet, which is created when it is missing, has the key.\<close>

definition key_unused :: "id \<Rightarrow> string \<Rightarrow> db \<Rightarrow> bool" where
  "key_unused u key d \<longleftrightarrow> unused (bank d) (fst (ensure_user_wallet u (bank d))) key"

lemma quiet_steps:
  "lot_transition i s t actor reason f d = Inr d' \<Longrightarrow> same_market d d'"
  "set_asset_status i a d = Inr d' \<Longrightarrow> same_market d d'"
  "trade_transition_by_event i st e actor reason pr fr g d = Inr (st', d') \<Longrightarrow> same_market d d'"
  "update_trade_op i g' d = Inr d' \<Longrightarrow> same_market d d'"
  "same_market d (append_audit a_row d)"
  "same_market d (append_outbox o_row d)"
  "same_market d (emit_settlement_blocked oid c d)"
  "same_market d (increment_daily_stats now amount d)"
  "same_market d (release_records now so h actor d)"
  by (auto simp: same_market_def res_simps trade_transition_by_event_eq_Inr update_trade_op_eq_Inr
      lot_transition_eq_Inr set_asset_status_eq_Inr emit_settlement_blocked_def increment_daily_stats_def
      release_records_def append_audit_def append_outbox_def Let_def)

lemma quiet_resolution: "same_market d (resolution_records res oid h code note actor key d)"
  by (cases res; simp add: same_market_def resolution_records_def Let_def append_audit_def append_outbox_def)

lemma key_unused_frame: "same_market d d' \<Longrightarrow> key_unused u key d' = key_unused u key d"
  by (simp add: key_unused_def same_market_def)

lemma buyer_key:
  assumes "market_ok d" and "row (orders d) oid = Some ord" and "key_unused (o_buyer ord) key d"
  obtains w where "has_wallet (o_buyer ord) w (bank d)" "unused (bank d) w key"
  using assms market_baseD(1) [of d oid ord] by (auto simp: market_ok_def key_unused_def has_wallet_ensure)

lemma open_claim:
  assumes "market_ok d" and "row (orders d) oid = Some ord" and "hold_of oid d = Some (hid, h)"
    and "is_open_status (o_status ord)" "o_status ord \<noteq> OS_DISPUTE \<or> h_released h = 0"
  shows "claim_amount (o_status ord) h = h_amount h" "h_released h = 0" "0 < h_amount h" "h_captured h = 0"
  using market_baseD(2) [of d oid ord hid h] assms
  by (auto simp: market_ok_def hold_fits_def claim_amount_def split: if_splits)

text \<open>The hold of an order is refunded or paid out in full, and the order leaves the open statuses.\<close>

lemma refund_and_close:
  assumes ok: "market_ok d" and ord: "row (orders d) oid = Some ord" and hold: "hold_of oid d = Some (hid, h)"
    and open_order: "is_open_status (o_status ord)" "o_status ord \<noteq> OS_DISPUTE \<or> h_released h = 0"
    and key: "key_unused (o_buyer ord) key d"
    and refund: "refund_hold (o_buyer ord) oid hid (h_amount h) key (bank d) = Inr (r, bank d')"
    and upd: "orders d' = AList.update oid (ord\<lparr>o_status := t\<rparr>) (orders d)" "holds d' = AList.update hid h' (holds d)"
      "h_order h' = oid" "h_amount h' = h_amount h" "h_wallet h' = h_wallet h" "buy_requests d' = buy_requests d"
    and t: "t = OS_FAILED \<and> h_released h' = h_amount h \<or> t = OS_CANCELED \<and> h_released h' = h_released h"
      "h_captured h' = h_captured h"
  shows "market_ok d'"
proof -
  obtain w where w: "has_wallet (o_buyer ord) w (bank d)" "unused (bank d) w key" by (rule buyer_key [OF ok ord key])
  have wf: "bank_wf (bank d)" using ok by (simp add: market_ok_def market_base_def)
  note b = refund_held [OF refund wf w]
  note c = open_claim [OF ok ord hold open_order]
  show ?thesis
    using b c t upd(4) by (intro market_settle [OF ok ord hold upd]) (auto simp: claim_amount_def hold_fits_def)
qed

lemma settle_and_close:
  assumes ok: "market_ok d" and ord: "row (orders d) oid = Some ord" and hold: "hold_of oid d = Some (hid, h)"
    and open_order: "is_open_status (o_status ord)" "o_status ord \<noteq> OS_DISPUTE \<or> h_released h = 0"
    and key: "key_unused (o_buyer ord) key d"
    and settle: "settle_sale (o_buyer ord) seller oid hid (h_amount h) x c key (bank d) = Inr (r, bank d')" "0 \<le> x" "0 \<le> c"
    and upd: "orders d' = AList.update oid (ord\<lparr>o_status := t\<rparr>) (orders d)" "holds d' = AList.update hid h' (holds d)"
      "h_order h' = oid" "h_amount h' = h_amount h" "h_wallet h' = h_wallet h" "buy_requests d' = buy_requests d"
    and t: "t = OS_COMPLETED" "h_captured h' = h_amount h" "h_released h' = h_released h"
  shows "market_ok d'"
proof -
  obtain w where w: "has_wallet (o_buyer ord) w (bank d)" "unused (bank d) w key" by (rule buyer_key [OF ok ord key])
  have wf: "bank_wf (bank d)" using ok by (simp add: market_ok_def market_base_def)
  note b = settle_held [OF settle(1) wf w settle(2,3)]
  note cl = open_claim [OF ok ord hold open_order]
  show ?thesis
    using b cl t upd(4) by (intro market_settle [OF ok ord hold upd]) (auto simp: claim_amount_def hold_fits_def)
qed

lemma hold_order: "market_ok d \<Longrightarrow> hold_of oid d = Some (hid, h) \<Longrightarrow> row (holds d) hid = Some h \<and> h_order h = oid"
  by (rule hold_of_row) (auto simp: market_ok_def market_base_def)

lemma fail_trade_safe_ok:
  assumes "fail_trade_safe so hid h actor reason key d = Inr d'" and ok: "market_ok d"
    and ord: "row (orders d) (so_id so) = Some (so_order so)" and hold: "hold_of (so_id so) d = Some (hid, h)"
    and "o_status (so_order so) = OS_WAITING_TRADE" and "key_unused (o_buyer (so_order so)) key d"
  shows "market_ok d'"
proof -
  from assms(1) ord hold_order [OF ok hold] obtain r where
    "refund_hold (o_buyer (so_order so)) (so_id so) hid (h_amount h) key (bank d) = Inr (r, bank d')"
    "orders d' = AList.update (so_id so) ((so_order so)\<lparr>o_status := OS_FAILED\<rparr>) (orders d)"
    "holds d' = AList.update hid (h\<lparr>h_released := h_amount h\<rparr>) (holds d)" "buy_requests d' = buy_requests d"
    by (auto simp: fail_trade_safe_def Let_def bindE_eq_Inr update_hold_eq_Inr order_transition_by_event_eq_Inr
        order_transition_eq_Inr lot_transition_eq_Inr set_asset_status_eq_Inr find_order_rule_def order_rules_def)
  then show ?thesis
    using assms(5,6) hold_order [OF ok hold] by (intro refund_and_close [OF ok ord hold, where h' = "h\<lparr>h_released := h_amount h\<rparr>" and t = OS_FAILED]) auto
qed

lemma fail_trade_dispute_ok:
  assumes "fail_trade_dispute so e actor reason d = Inr d'" and "market_ok d"
    and "e = OE_MISMATCH_DETECTED \<or> e = OE_TIMEOUT_DETECTED"
  shows "market_ok d'"
proof -
  from assms(1) obtain t d1 d2 where
    1: "order_transition_by_event (so_id so) OS_WAITING_TRADE e actor (Some reason) False d = Inr (t, d1)" and
    2: "lot_transition (o_lot (so_order so)) (l_status (so_lot so)) LS_BLOCKED actor None (\<lambda>l. l) d1 = Inr d2" and
    3: "set_asset_status (l_asset (so_lot so)) IA_BLOCKED d2 = Inr d'"
    by (auto simp: fail_trade_dispute_def Let_def bindE_eq_Inr)
  have "t = OS_DISPUTE"
    using 1 assms(3) by (auto simp: order_transition_by_event_eq_Inr find_order_rule_def order_rules_def)
  with event_stays_open [OF 1 assms(2)] show ?thesis
    using market_quiet [OF quiet_steps(1) [OF 2]] market_quiet [OF quiet_steps(2) [OF 3]] by simp
qed

lemma pay_out_ok:
  assumes "pay_out now so hid h actor d = Inr d'" and ok: "market_ok d"
    and ord: "row (orders d) (so_id so) = Some (so_order so)" and hold: "hold_of (so_id so) d = Some (hid, h)"
    and "o_status (so_order so) = OS_SETTLEMENT_HOLD"
    and "key_unused (o_buyer (so_order so)) (settlement_hold_release_key (so_id so)) d"
    and "0 \<le> l_seller_receive (so_lot so)" "0 \<le> l_commission (so_lot so)"
  shows "market_ok d'"
proof -
  from assms(1) ord hold_order [OF ok hold] obtain r where
    "settle_sale (o_buyer (so_order so)) (o_seller (so_order so)) (so_id so) hid (h_amount h)
       (l_seller_receive (so_lot so)) (l_commission (so_lot so)) (settlement_hold_release_key (so_id so)) (bank d)
       = Inr (r, bank d')"
    "orders d' = AList.update (so_id so) ((so_order so)\<lparr>o_status := OS_COMPLETED\<rparr>) (orders d)"
    "holds d' = AList.update hid (h\<lparr>h_captured := h_amount h, h_settlement_released_at := Some now\<rparr>) (holds d)"
    "buy_requests d' = buy_requests d"
    by (auto simp: pay_out_def Let_def bindE_eq_Inr update_hold_eq_Inr order_transition_by_event_eq_Inr
        order_transition_eq_Inr lot_transition_eq_Inr set_asset_status_eq_Inr find_order_rule_def order_rules_def
        release_records_def increment_daily_stats_def append_audit_def append_outbox_def)
  then show ?thesis
    using assms(5-8) hold_order [OF ok hold]
    by (intro settle_and_close [OF ok ord hold, where t = OS_COMPLETED
        and h' = "h\<lparr>h_captured := h_amount h, h_settlement_released_at := Some now\<rparr>"
        and x = "l_seller_receive (so_lot so)" and c = "l_commission (so_lot so)"]) auto
qed

lemma reverse_hold_ok:
  assumes "reverse_hold_tx so reason key actor d = Inr d'" and ok: "market_ok d"
    and ord: "row (orders d) (so_id so) = Some (so_order so)" and hold: "so_hold so = hold_of (so_id so) d"
    and key: "key_unused (o_buyer (so_order so)) key d"
  shows "market_ok d'"
proof -
  from assms(1) obtain hid h where sh: "so_hold so = Some (hid, h)" and st: "o_status (so_order so) = OS_SETTLEMENT_HOLD"
    by (auto simp: reverse_hold_tx_def Let_def split: if_splits option.splits)
  have ho: "hold_of (so_id so) d = Some (hid, h)" using hold sh by simp
  have c: "h_released h = 0" "0 < h_amount h" "h_captured h = 0" using open_claim [OF ok ord ho] st by auto
  obtain w where w: "has_wallet (o_buyer (so_order so)) w (bank d)" "unused (bank d) w key"
    by (rule buyer_key [OF ok ord key])
  have wf: "bank_wf (bank d)" using ok by (simp add: market_ok_def market_base_def)
  from assms(1) ord hold_order [OF ok ho] sh c obtain r where *:
    "refund_hold (o_buyer (so_order so)) (so_id so) hid (h_amount h) key (bank d) = Inr (r, bank d')"
    "orders d' = AList.update (so_id so) ((so_order so)\<lparr>o_status := OS_DISPUTE\<rparr>) (orders d)"
    "holds d' = AList.update hid (h\<lparr>h_released := h_amount h\<rparr>) (holds d)" "buy_requests d' = buy_requests d"
    by (auto simp: reverse_hold_tx_def Let_def bindE_eq_Inr update_hold_eq_Inr order_transition_by_event_eq_Inr
        order_transition_eq_Inr lot_transition_eq_Inr set_asset_status_eq_Inr find_order_rule_def order_rules_def
        append_audit_def append_outbox_def split: if_splits)
  show ?thesis
    using * c st hold_order [OF ok ho] refund_held [OF *(1) wf w]
    by (intro market_settle [OF ok ord ho, where t = OS_DISPUTE and h' = "h\<lparr>h_released := h_amount h\<rparr>"])
       (auto simp: hold_fits_def claim_amount_def)
qed

lemma resolve_for_buyer_ok:
  assumes "resolve_for_buyer so hid h code actor key d = Inr d'" and ok: "market_ok d"
    and ord: "row (orders d) (so_id so) = Some (so_order so)" and hold: "hold_of (so_id so) d = Some (hid, h)"
    and st: "o_status (so_order so) = OS_DISPUTE"
    and "key_unused (o_buyer (so_order so)) (''admin-resolve-buyer:'' @ key) d"
  shows "market_ok d'"
proof -
  have "hold_fits OS_DISPUTE h" using market_baseD(2) [of d "so_id so" "so_order so" hid h] ok ord hold st
    by (simp add: market_ok_def)
  moreover have "h_released h < h_amount h" using resolve_for_buyer_effect [OF assms(1)] by simp
  ultimately have rel: "h_released h = 0" by (auto simp: hold_fits_def)
  from assms(1) ord hold_order [OF ok hold] obtain r where
    "refund_hold (o_buyer (so_order so)) (so_id so) hid (h_amount h) (''admin-resolve-buyer:'' @ key) (bank d) = Inr (r, bank d')"
    "orders d' = AList.update (so_id so) ((so_order so)\<lparr>o_status := OS_FAILED\<rparr>) (orders d)"
    "holds d' = AList.update hid (h\<lparr>h_released := h_amount h\<rparr>) (holds d)" "buy_requests d' = buy_requests d"
    by (auto simp: resolve_for_buyer_def unreserve_disputed_lot_def Let_def bindE_eq_Inr update_hold_eq_Inr
        order_transition_eq_Inr lot_transition_eq_Inr set_asset_status_eq_Inr split: if_splits)
  then show ?thesis
    using assms(6) st rel hold_order [OF ok hold]
    by (intro refund_and_close [OF ok ord hold, where h' = "h\<lparr>h_released := h_amount h\<rparr>" and t = OS_FAILED]) auto
qed

text \<open>The seller's resolution does not look at what was released, so here that is an assumption;
  \<open>seller_resolution_after_reversal\<close> shows what happens without it.\<close>

lemma resolve_for_seller_ok:
  assumes "resolve_for_seller so hid h code actor key d = Inr d'" and ok: "market_ok d"
    and ord: "row (orders d) (so_id so) = Some (so_order so)" and hold: "hold_of (so_id so) d = Some (hid, h)"
    and st: "o_status (so_order so) = OS_DISPUTE" and rel: "h_released h = 0"
    and "key_unused (o_buyer (so_order so)) (''admin-resolve-seller:'' @ key) d"
    and "0 \<le> l_seller_receive (so_lot so)" "0 \<le> l_commission (so_lot so)"
  shows "market_ok d'"
proof -
  from assms(1) ord hold_order [OF ok hold] obtain r where
    "settle_sale (o_buyer (so_order so)) (o_seller (so_order so)) (so_id so) hid (h_amount h)
       (l_seller_receive (so_lot so)) (l_commission (so_lot so)) (''admin-resolve-seller:'' @ key) (bank d)
       = Inr (r, bank d')"
    "orders d' = AList.update (so_id so) ((so_order so)\<lparr>o_status := OS_COMPLETED\<rparr>) (orders d)"
    "holds d' = AList.update hid (h\<lparr>h_captured := h_amount h\<rparr>) (holds d)" "buy_requests d' = buy_requests d"
    by (auto simp: resolve_for_seller_def Let_def bindE_eq_Inr update_hold_eq_Inr update_trade_op_eq_Inr
        order_transition_eq_Inr lot_transition_eq_Inr set_asset_status_eq_Inr split: option.splits)
  then show ?thesis
    using assms(6-9) st hold_order [OF ok hold]
    by (intro settle_and_close [OF ok ord hold, where h' = "h\<lparr>h_captured := h_amount h\<rparr>" and t = OS_COMPLETED
        and x = "l_seller_receive (so_lot so)" and c = "l_commission (so_lot so)"]) auto
qed

lemma enter_hold_ok:
  assumes "enter_settlement_hold w now so key actor d = Inr d'" and ok: "market_ok d"
    and ord: "row (orders d) (so_id so) = Some x" and hold: "so_hold so = hold_of (so_id so) d"
  shows "market_ok d'"
proof (cases "find_audit ''order'' (so_id so) ''SETTLEMENT_HOLD_ENTERED'' (settlement_hold_enter_key (so_id so)) d")
  case True
  with assms show ?thesis by (simp add: enter_settlement_hold_def Let_def)
next
  case False
  with assms(1) obtain t d1 hid h d2 where
    1: "order_transition_by_event (so_id so) OS_TRADE_CONFIRMED OE_SETTLEMENT_STARTED actor
          (Some ''SETTLEMENT_HOLD_WINDOW'') (is_delivery_verified so) d = Inr (t, d1)" and
    sh: "so_hold so = Some (hid, h)" and
    2: "update_hold hid (\<lambda>h. h\<lparr>h_settlement_until := Some (settlement_hold_until w now so)\<rparr>) d1 = Inr d2" and
    3: "same_market d2 d'"
    by (auto simp: enter_settlement_hold_def Let_def bindE_eq_Inr same_market_def append_audit_def append_outbox_def
        split: option.splits)
  have t: "t = OS_SETTLEMENT_HOLD" and d1: "holds d1 = holds d" "\<exists>y. row (orders d1) (so_id so) = Some y"
    using 1 by (auto simp: order_transition_by_event_eq_Inr order_transition_eq_Inr find_order_rule_def order_rules_def
        row_update)
  have ok1: "market_ok d1" by (rule event_stays_open [OF 1 ok]) (simp add: t)
  have "hold_of (so_id so) d1 = Some (hid, h)" using sh hold d1(1) by (simp add: hold_of_def)
  with d1(2) have "market_ok d2" using hold_note [OF 2 ok1] by auto
  then show ?thesis using 3 by (simp add: market_quiet)
qed

lemma move_to_dispute_ok:
  assumes "move_to_dispute so code actor d = Inr d'" and ok: "market_ok d"
  shows "market_ok d'"
proof -
  from assms(1) obtain d1 where
    1: "order_transition (so_id so) (o_status (so_order so)) OS_DISPUTE actor (Some code) d = Inr d1"
    and 2: "same_market d1 d'"
    by (auto simp: move_to_dispute_def bindE_eq_Inr update_trade_op_eq_Inr lot_transition_eq_Inr
        set_asset_status_eq_Inr same_market_def split: option.splits)
  from order_stays_open [OF 1 ok] 2 show ?thesis by (simp add: market_quiet)
qed

section \<open>Buying a lot\<close>

lemma drawn_bank [simp]: "drawn (d\<lparr>bank := b\<rparr>) = drawn d"
  by (simp add: drawn_def)

lemma bank_wf_draw: "draw b = (i, b') \<Longrightarrow> bank_wf b \<Longrightarrow> bank_wf b' \<and> bank_grows b b' \<and> heldb u b' = heldb u b"
  using same_frame_draw [of b i b'] bank_wf_frame bank_grows_frame accountb_posts [OF posts_draw, of b i b' AT_HOLD u]
  by (auto split: option.splits)

lemma market_draw:
  assumes "draw_db d = (i, d')" and "market_ok d"
  shows "market_ok d'"
proof -
  obtain j b where dr: "draw (bank d) = (j, b)" by (cases "draw (bank d)")
  have "bank_wf (bank d)" using assms(2) by (simp add: market_ok_def market_base_def)
  note b = bank_wf_draw [OF dr this]
  have "d' = d\<lparr>bank := b\<rparr>" using assms(1) dr by (simp add: draw_db_def)
  then show ?thesis using b by (auto intro: market_bank [OF assms(2)])
qed

lemma insert_order_effect:
  assumes "insert_order_and_hold now buyer lot_id l d = (oid, hid, d1)" and base: "market_base d" and "0 < l_price l"
  shows "market_base d1" and "gap u d1 = gap u d - (if u = buyer then l_price l else 0)"
    and "has_wallet buyer (fst (ensure_user_wallet buyer (bank d))) (bank d1)"
    and "entries (bank d1) = entries (bank d)" and "buy_requests d1 = buy_requests d" and "lots d1 = lots d"
    and "map_option o_status (row (orders d1) oid) = Some OS_CREATED"
proof -
  obtain w b0 where e: "ensure_user_wallet buyer (bank d) = (w, b0)" by (cases "ensure_user_wallet buyer (bank d)")
  have wf: "bank_wf (bank d)" using base by (simp add: market_base_def)
  note e0 = ensure_user_wallet_held [OF e wf, of AT_HOLD]
  obtain o' b1 where d1: "draw b0 = (o', b1)" by (cases "draw b0")
  obtain h' b2 where d2: "draw b1 = (h', b2)" by (cases "draw b1")
  have ids: "o' = oid" "h' = hid" using assms(1) e d1 d2
    by (auto simp: insert_order_and_hold_def draw_db_def Let_def)
  note d1' = d1 [unfolded ids] and d2' = d2 [unfolded ids]
  define ord where "ord = \<lparr>o_lot = lot_id, o_buyer = buyer, o_seller = l_seller l, o_status = OS_CREATED,
      o_amount = l_price l, o_hold_amount = l_price l, o_created_at = now\<rparr>"
  define h where "h = \<lparr>h_order = oid, h_wallet = w, h_amount = l_price l, h_captured = 0, h_released = 0,
      h_settlement_until = None, h_settlement_released_at = None\<rparr>"
  have eq: "d1 = d\<lparr>bank := b2, orders := orders d @ [(oid, ord)], holds := holds d @ [(hid, h)]\<rparr>"
    using assms(1) e d1' d2'
    by (auto simp: insert_order_and_hold_def draw_db_def Let_def insert_row_def ord_def h_def)
  have fits: "hold_fits (o_status ord) h" using assms(3) by (simp add: ord_def h_def hold_fits_def)
  note b1 = bank_wf_draw [OF d1'] and b2 = bank_wf_draw [OF d2']
  have wf2: "bank_wf b2" "bank_grows (bank d) b2" "heldb u b2 = heldb u (bank d)" for u
    using e0 b1 b2 bank_grows_trans by metis+
  have w2: "has_wallet buyer w b2"
    using ensure_user_wallet_exists [OF e] b1 b2 e0 by (auto simp: bank_grows_def)
  let ?n = "uuid_next (bank d)"
  have "\<exists>m \<ge> ?n. oid = uuid_seq (bank d) m \<and> hid = uuid_seq (bank d) (Suc m) \<and> uuid_next b2 = Suc (Suc m)"
    using e0 d1' d2' by (auto simp: bank_grows_def draw_def)
  then obtain m where m: "?n \<le> m" "oid = uuid_seq (bank d) m" "hid = uuid_seq (bank d) (Suc m)" "uuid_next b2 = Suc (Suc m)"
    by blast
  have seq: "uuid_seq b2 = uuid_seq (bank d)" using wf2(2) by (simp add: bank_grows_def)
  have "uuid_seq (bank d) k \<notin> drawn d" if "?n \<le> k" for k using base that by (simp add: market_base_def)
  from this [of m] this [of "Suc m"] have fresh: "oid \<notin> drawn d" "hid \<notin> drawn d" using m(1-3) by simp_all
  have no_hold: "h_order v \<noteq> oid" if "(k, v) \<in> set (holds d)" for k v using fresh(1) that by (force simp: drawn_def)
  have no_oid: "row (orders d) oid = None" using fresh(1) by (simp add: drawn_def row_None_iff)
  have no_hold_of: "hold_of oid d = None" using no_hold by (auto simp: hold_of_def find_None_iff)
  have ho: "hold_of i d1 = (if i = oid then Some (hid, h) else hold_of i d)" for i
    using no_hold_of eq
    by (cases "hold_of i d") (auto simp: hold_of_def find_append_None find_append_Some h_def)
  have ro: "row (orders d1) i = (if i = oid then Some ord else row (orders d) i)" for i
    using eq no_oid row_insert_row [of "orders d" oid ord i] by (simp add: insert_row_def)
  have "claims u d1 = claims u d + (if u = buyer then l_price l else 0)" for u
  proof -
    have "tsum (\<lambda>i x. if o_buyer x = u then order_claim (holds d1) i x else 0) (orders d)
        = tsum (\<lambda>i x. if o_buyer x = u then order_claim (holds d) i x else 0) (orders d)"
      using fresh(1) ho by (intro tsum_cong) (auto simp: order_claim_hold_of drawn_def image_iff)
    moreover have "order_claim (holds d1) oid ord = l_price l"
      using ho by (simp add: order_claim_hold_of) (simp add: ord_def h_def claim_amount_def)
    moreover have "orders d1 = orders d @ [(oid, ord)]" "o_buyer ord = buyer" using eq by (simp_all add: ord_def)
    ultimately show ?thesis by (auto simp: claims_def)
  qed
  then show "gap u d1 = gap u d - (if u = buyer then l_price l else 0)"
    using wf2(3) eq by (simp add: gap_def reserved_total_def)
  have dr: "drawn d1 = insert oid (insert hid (drawn d))" using eq by (auto simp: drawn_def h_def)
  have inj: "uuid_seq (bank d) k \<noteq> oid" "uuid_seq (bank d) k \<noteq> hid" if "uuid_next b2 \<le> k" for k
    using wf m that injD [of "uuid_seq (bank d)" k m] injD [of "uuid_seq (bank d)" k "Suc m"] by (auto simp: bank_wf_def)
  have old: "linked (orders d1) (bank d1) v" if "linked (orders d) (bank d) v" for v
    using ro no_oid wf2(2) eq by (intro linked_mono [OF that]) auto
  have "linked (orders d1) (bank d1) h" using ro w2 eq by (simp add: linked_def h_def) (simp add: ord_def)
  with old base have "\<forall>(_, v) \<in> set (holds d1). linked (orders d1) (bank d1) v"
    using eq by (auto simp: market_base_def holds_linked_def)
  moreover have "row (orders d1) i \<noteq> None \<longrightarrow> hold_of i d1 \<noteq> None" for i
    using base ro ho by (simp add: market_base_def holds_linked_def)
  moreover have "distinct (map (\<lambda>(_, h). h_order h) (holds d1))"
    using base eq no_hold by (auto simp: market_base_def holds_linked_def h_def)
  ultimately have link: "holds_linked d1" by (simp add: holds_linked_def)
  show "market_base d1"
    unfolding market_base_def
  proof (intro conjI allI impI)
    show "bank_wf (bank d1)" "requests_ok d1" using eq wf2(1) base by (auto simp: market_base_def requests_ok_def)
    show "holds_linked d1" by (rule link)
    show "distinct (keys (orders d1))" "distinct (keys (holds d1))"
      using eq base fresh by (auto simp: market_base_def drawn_def)
  next
    fix k assume k: "uuid_next (bank d1) \<le> k"
    then have "?n \<le> k" using eq m by simp
    with k show "uuid_seq (bank d1) k \<notin> drawn d1" using eq base seq dr inj by (auto simp: market_base_def)
  next
    fix i x assume x: "row (orders d1) i = Some x"
    show "\<exists>w. has_wallet (o_buyer x) w (bank d1)"
    proof (cases "i = oid")
      case True
      then have "o_buyer x = buyer" "bank d1 = b2" using x ro eq by (auto simp: ord_def)
      then show ?thesis using w2 by auto
    next
      case False
      then have "row (orders d) i = Some x" "bank d1 = b2" using x ro eq by auto
      with market_baseD(1) [OF base this(1)] wf2(2) show ?thesis by (auto simp: bank_grows_def)
    qed
    fix j k assume "hold_of i d1 = Some (j, k)"
    then show "hold_fits (o_status x) k"
      using x ro ho market_baseD(2) [OF base, of i x j k] fits by (cases "i = oid") auto
  qed
  show "has_wallet buyer (fst (ensure_user_wallet buyer (bank d))) (bank d1)" using e w2 eq by simp
  have "entries b2 = entries b1" "entries b1 = entries b0" using draw_accounts [OF d1'] draw_accounts [OF d2'] by auto
  then show "entries (bank d1) = entries (bank d)" using ensure_entries [OF e] eq by simp
  show "buy_requests d1 = buy_requests d" "lots d1 = lots d" using eq by auto
  show "map_option o_status (row (orders d1) oid) = Some OS_CREATED" using ro by (simp add: ord_def)
qed

text \<open>Changing the requests and the bank only.\<close>

lemma market_base_requests:
  assumes base: "market_base d" and upd: "orders d' = orders d" "holds d' = holds d"
    and "requests_ok d'" "bank_wf (bank d')" "bank_grows (bank d) (bank d')"
    and "\<And>n. uuid_next (bank d') \<le> n \<Longrightarrow> uuid_seq (bank d') n \<notin> set (keys (buy_requests d'))"
  shows "market_base d'"
  unfolding market_base_def
proof (intro conjI allI impI)
  show "distinct (keys (orders d'))" "distinct (keys (holds d'))" using base upd by (simp_all add: market_base_def)
  show "holds_linked d'" using base upd assms(6) holds_linked_bank by (auto simp: market_base_def)
next
  fix n assume n: "uuid_next (bank d') \<le> n"
  then have "uuid_seq (bank d') n \<notin> drawn d" using base assms(6) by (auto simp: market_base_def bank_grows_def)
  with n assms(7) show "uuid_seq (bank d') n \<notin> drawn d'" by (auto simp: drawn_def upd)
next
  fix i x assume x: "row (orders d') i = Some x"
  then show "\<exists>w. has_wallet (o_buyer x) w (bank d')"
    using market_baseD(1) [OF base, of i x] assms(6) upd(1) by (auto simp: bank_grows_def)
  fix j k assume "hold_of i d' = Some (j, k)"
  then show "hold_fits (o_status x) k" using x market_baseD(2) [OF base] upd by (simp add: hold_of_def)
qed (use assms in auto)

lemma claims_same: "orders d' = orders d \<Longrightarrow> holds d' = holds d \<Longrightarrow> claims u d' = claims u d"
  by (simp add: claims_def cong: if_cong)

lemma request_id_fresh:
  assumes "market_base d" and "bank_grows (bank d) b" and "uuid_next b \<le> n"
  shows "uuid_seq b n \<notin> set (keys (buy_requests d))"
proof -
  have "uuid_next (bank d) \<le> n" "uuid_seq b = uuid_seq (bank d)" using assms(2,3) by (auto simp: bank_grows_def)
  then have "uuid_seq b n \<notin> drawn d" using assms(1) by (simp add: market_base_def)
  then show ?thesis by (simp add: drawn_def)
qed

lemma unused_request_key:
  assumes "release_buy_request_hold v req a key b = Inr (r, b')" and "has_wallet v w b" and "unused b w key"
    and "unused b w k'" "k' \<noteq> key"
  shows "unused b' w k'"
proof (cases rule: release_buy_request_hold_cases [OF assms(1) has_wallet_ensure [OF assms(2)]])
  case 1
  then show ?thesis using unused_find [OF assms(3)] by simp
next
  case (2 e)
  then have "entries b' = entries b @ [e]" "le_key e = key" by (auto simp: fresh_op_def posts_def)
  then show ?thesis using assms(4,5) by (auto simp: unused_def)
qed

lemma fulfill_gap:
  assumes "fulfill_for_purchase buyer item price d = Inr d'" and base: "market_base d"
    and w: "has_wallet buyer w (bank d)"
    and keys: "\<And>i r. row (buy_requests d) i = Some r \<Longrightarrow>
        unused (bank d) w (''buy-request-fulfill:'' @ i @ '':'' @ show_int (br_filled r + 1))"
    and k': "unused (bank d) w (''order-reserve:'' @ k)"
  shows "market_base d' \<and> gap u d' = gap u d \<and> orders d' = orders d \<and> lots d' = lots d
     \<and> bank_grows (bank d) (bank d') \<and> unused (bank d') w (''order-reserve:'' @ k)"
proof -
  have ok: "requests_ok d" and wf: "bank_wf (bank d)" using base by (auto simp: market_base_def)
  from assms(1) ok show ?thesis
  proof (cases rule: fulfill_cases)
    case none
    with base k' show ?thesis by simp
  next
    case (filled i r m x b)
    let ?key = "''buy-request-fulfill:'' @ i @ '':'' @ show_int (br_filled r + 1)"
    let ?r = "r\<lparr>br_filled := br_filled r + 1, br_reserved := Some (m * (br_quantity r - br_filled r - 1)),
             br_status := (if br_quantity r \<le> br_filled r + 1 then BR_FULFILLED else BR_OPEN)\<rparr>"
    note b = release_request_held [OF filled(8) wf w keys [OF filled(1)]]
    have un: "unused b w (''order-reserve:'' @ k)"
      by (rule unused_request_key [OF filled(8) w keys [OF filled(1)] k']) simp
    have "br_reserved r = Some (m * (br_quantity r - br_filled r))"
      using requests_okD [OF ok filled(1)] filled(2,5) by (simp add: request_ok_def)
    then have "reserved_total u d' = reserved_total u d - (if u = buyer then m else 0)"
      using reserved_total_update [OF ok filled(1), of ?r u] filled(3,9)
      by (auto simp: reserved_total_def release_amount_def algebra_simps)
    then have "gap u d' = gap u d" using b filled(9) claims_same [of d' d u] by (simp add: gap_def)
    moreover have "market_base d'"
    proof (rule market_base_requests [OF base])
      show "requests_ok d'" by (rule fulfill_ok [OF assms(1) ok])
      fix n assume "uuid_next (bank d') \<le> n"
      moreover have "keys (buy_requests d') = keys (buy_requests d)" using filled(1,9) by simp
      ultimately show "uuid_seq (bank d') n \<notin> set (keys (buy_requests d'))"
        using request_id_fresh [OF base _, of b n] b filled(9) by simp
    qed (use b filled(9) in auto)
    ultimately show ?thesis using b un filled(9) by simp
  qed
qed

lemma reserve_closes_gap:
  assumes "reserve_purchase_hold buyer oid hid a key (bank d) = Inr (r, b)" and base: "market_base d"
    and w: "has_wallet buyer w (bank d)" and "unused (bank d) w key"
    and gap: "\<And>u. gap u d = - (if u = buyer then a else 0)"
  shows "market_ok (d\<lparr>bank := b\<rparr>)"
proof -
  let ?d = "d\<lparr>bank := b\<rparr>"
  have wf: "bank_wf (bank d)" using base by (simp add: market_base_def)
  note b = reserve_purchase_held [OF assms(1) wf w assms(4)]
  have "gap u ?d = gap u d + (if u = buyer then a else 0)" for u
    using b [of u] claims_same [of ?d d u] by (simp add: gap_def reserved_total_def)
  then have "gap u ?d = 0" for u using gap by simp
  moreover have "market_base ?d"
  proof (rule market_base_requests [OF base])
    show "requests_ok ?d" using base by (simp add: market_base_def)
    fix n assume "uuid_next (bank ?d) \<le> n"
    then show "uuid_seq (bank ?d) n \<notin> set (keys (buy_requests ?d))"
      using request_id_fresh [OF base _, of b n] b by simp
  qed (use b in auto)
  ultimately show ?thesis by (simp add: market_ok_def)
qed

lemma insert_trade_op_ok: "insert_trade_op w oid lot_id l buyer d = (tid, d') \<Longrightarrow> market_ok d \<Longrightarrow> market_ok d'"
proof -
  assume a: "insert_trade_op w oid lot_id l buyer d = (tid, d')" and ok: "market_ok d"
  obtain i d1 where dr: "draw_db d = (i, d1)" by (cases "draw_db d")
  have "same_market d1 d'" using a dr
    by (auto simp: insert_trade_op_def Let_def same_market_def record_trade_created_def)
  then show ?thesis using market_draw [OF dr ok] by (simp add: market_quiet)
qed

lemma create_trade_task_ok: "market_ok d \<Longrightarrow> market_ok (create_trade_task w now oid tid buyer lot_id l d)"
proof -
  assume ok: "market_ok d"
  obtain i d1 where dr: "draw_db d = (i, d1)" by (cases "draw_db d")
  have "same_market d1 (d1\<lparr>trade_tasks := t\<rparr>)" for t by (simp add: same_market_def)
  then show ?thesis using ok market_draw [OF dr ok] dr market_frame
    by (auto simp: create_trade_task_def Let_def)
qed

lemma start_trade_ok:
  assumes "start_trade w now buyer lot_id l oid d = Inr d'" and ok: "market_ok d"
  shows "market_ok d'"
proof -
  from assms(1) obtain t1 d1 d2 d3 where
    1: "order_transition_by_event oid OS_CREATED OE_PAYMENT_RESERVED (Some buyer) None False
          (record_order_created oid (Some buyer) d) = Inr (t1, d1)" and
    2: "lot_transition lot_id (l_status l) LS_RESERVED (Some buyer) None (\<lambda>l. l\<lparr>l_reserved_by := Some buyer\<rparr>) d1 = Inr d2" and
    3: "set_asset_status (l_asset l) IA_RESERVED d2 = Inr d3" and
    r: "(let (tid, d) = insert_trade_op w oid lot_id l buyer d3; d = create_trade_task w now oid tid buyer lot_id l d
         in bindE (order_transition_by_event oid OS_PAYMENT_RESERVED OE_TRADE_OPERATION_CREATED (Some buyer) None
                 False d) (\<lambda>(_, d). Inr d)) = Inr d'"
    unfolding start_trade_def by (auto simp: bindE_eq_Inr)
  obtain tid d4 where 4: "insert_trade_op w oid lot_id l buyer d3 = (tid, d4)"
    by (cases "insert_trade_op w oid lot_id l buyer d3")
  from r 4 obtain t2 where
    5: "order_transition_by_event oid OS_PAYMENT_RESERVED OE_TRADE_OPERATION_CREATED (Some buyer) None False
          (create_trade_task w now oid tid buyer lot_id l d4) = Inr (t2, d')"
    by (auto simp: Let_def bindE_eq_Inr)
  have t: "is_open_status t1" "is_open_status t2"
    using 1 5 by (auto simp: order_transition_by_event_eq_Inr find_order_rule_def order_rules_def)
  have "same_market d (record_order_created oid (Some buyer) d)"
    by (simp add: same_market_def record_order_created_def)
  with ok have "market_ok (record_order_created oid (Some buyer) d)" by (simp add: market_quiet)
  from event_stays_open [OF 1 this t(1)] have "market_ok d3"
    using market_quiet [OF quiet_steps(1) [OF 2]] market_quiet [OF quiet_steps(2) [OF 3]] by simp
  from create_trade_task_ok [OF insert_trade_op_ok [OF 4 this]] show ?thesis
    by (rule event_stays_open [OF 5 _ t(2)])
qed

text \<open>The keys a purchase uses: its own, and the ones of the requests it may fill.\<close>

definition create_keys_unused :: "id \<Rightarrow> string \<Rightarrow> db \<Rightarrow> bool" where
  "create_keys_unused buyer key d \<longleftrightarrow> key_unused buyer (''order-reserve:'' @ key) d
     \<and> (\<forall>(i, r) \<in> set (buy_requests d).
          key_unused buyer (''buy-request-fulfill:'' @ i @ '':'' @ show_int (br_filled r + 1)) d)"

lemma create_order_ok:
  assumes tx: "create_order_tx w now buyer lot_id key d = Inr (oid, d')" and ok: "market_ok d"
    and keys: "create_keys_unused buyer key d"
  shows "market_ok d'"
proof -
  obtain l where l: "row (lots d) lot_id = Some l" using tx by (auto simp: create_order_tx_def split: option.splits)
  obtain oid' hid d1 where 1: "insert_order_and_hold now buyer lot_id l d = (oid', hid, d1)"
    by (cases "insert_order_and_hold now buyer lot_id l d")
  obtain a where a: "row (assets d1) (l_asset l) = Some a"
    using tx l 1 by (auto simp: create_order_tx_def split: option.splits if_splits)
  from tx l 1 a obtain d2 r b d3 where
    2: "fulfill_for_purchase buyer (a_item a) (l_price l) d1 = Inr d2" and
    3: "reserve_purchase_hold buyer oid' hid (l_price l) (''order-reserve:'' @ key) (bank d2) = Inr (r, b)" and
    4: "start_trade w now buyer lot_id l oid' (d2\<lparr>bank := b\<rparr>) = Inr d3" and
    5: "d' = order_created_records buyer lot_id l oid' key d3"
    by (auto simp: create_order_tx_def bindE_eq_Inr split: if_splits)
  have base: "market_base d" and gap: "gap u d = 0" for u using ok by (auto simp: market_ok_def)
  let ?w = "fst (ensure_user_wallet buyer (bank d))"
  have price: "0 < l_price l" using 3 by (auto simp: reserve_purchase_hold_def split: if_splits)
  note ins = insert_order_effect [OF 1 base price]
  have un: "unused (bank d1) ?w (''order-reserve:'' @ key)"
    "unused (bank d1) ?w (''buy-request-fulfill:'' @ i @ '':'' @ show_int (br_filled r + 1))"
    if "row (buy_requests d1) i = Some r" for i r
    using keys that row_Some_mem [of "buy_requests d" i r] ins(4,5)
    by (auto simp: create_keys_unused_def key_unused_def unused_def)
  have un0: "unused (bank d1) ?w (''order-reserve:'' @ key)"
    using keys ins(4) by (auto simp: create_keys_unused_def key_unused_def unused_def)
  note ful = fulfill_gap [OF 2 ins(1,3) un(2) un0]
  have w2: "has_wallet buyer ?w (bank d2)" using ful ins(3) by (auto simp: bank_grows_def)
  have "market_ok (d2\<lparr>bank := b\<rparr>)"
    using ful ins(2) gap by (intro reserve_closes_gap [OF 3 _ w2]) auto
  from start_trade_ok [OF 4 this] have "market_ok d3" .
  moreover have "same_market d3 d'"
    by (simp add: 5 order_created_records_def same_market_def append_audit_def append_outbox_def)
  ultimately show ?thesis by (simp add: market_quiet)
qed

lemma cancel_order_ok:
  assumes tx: "cancel_order_tx buyer oid key d = Inr (i, d')" and ok: "market_ok d"
    and key: "key_unused buyer (''order-cancel:'' @ key) d"
  shows "market_ok d'"
proof -
  obtain so where so: "load_order oid d = Some so" using tx by (auto simp: cancel_order_tx_def split: option.splits)
  note lo = load_order_Some [OF so]
  from tx so obtain hid h where g: "cancel_guard buyer so d = Inr (hid, h)"
    by (auto simp: cancel_order_tx_def Let_def bindE_eq_Inr)
  have buyer: "o_buyer (so_order so) = buyer" and ho: "hold_of oid d = Some (hid, h)"
    using g lo by (auto simp: cancel_guard_def Let_def split: if_splits option.splits)
  have ord: "row (orders d) oid = Some (so_order so)" using lo by simp
  obtain t where t: "find_order_rule (o_status (so_order so)) OE_CANCEL = Some t"
    using tx so g by (auto simp: cancel_order_tx_def Let_def bindE_eq_Inr order_transition_by_event_eq_Inr)
  then have st: "is_open_status (o_status (so_order so))" "o_status (so_order so) \<noteq> OS_DISPUTE" "or_to t = OS_CANCELED"
    by (cases "o_status (so_order so)"; simp add: find_order_rule_def order_rules_def; auto)+
  from tx so g t st(3) buyer ord obtain r where
    "refund_hold (o_buyer (so_order so)) oid hid (h_amount h) (''order-cancel:'' @ key) (bank d) = Inr (r, bank d')"
    "orders d' = AList.update oid ((so_order so)\<lparr>o_status := OS_CANCELED\<rparr>) (orders d)"
    "holds d' = holds d" "buy_requests d' = buy_requests d"
    by (auto simp: cancel_order_tx_def Let_def bindE_eq_Inr order_transition_by_event_eq_Inr
        order_transition_eq_Inr lot_transition_eq_Inr set_asset_status_eq_Inr append_audit_def append_outbox_def
        update_many_def split: prod.splits if_splits)
  then show ?thesis
    using hold_order [OF ok ho] st key buyer
    by (intro refund_and_close [OF ok ord ho, where h' = h and t = OS_CANCELED]) (auto simp: AList_update_id)
qed

section \<open>Settlement\<close>

text \<open>What a payout needs of the order it finds: the release key is still unused.\<close>

definition release_key_unused :: "id \<Rightarrow> db \<Rightarrow> bool" where
  "release_key_unused oid d \<longleftrightarrow>
     (case row (orders d) oid of
        None \<Rightarrow> True
      | Some ord \<Rightarrow> o_status ord = OS_SETTLEMENT_HOLD \<longrightarrow> key_unused (o_buyer ord) (settlement_hold_release_key oid) d)"

lemma allowed_parts:
  assumes "can_settle w now so d = Allowed" and "o_status (so_order so) = OS_SETTLEMENT_HOLD"
  shows "0 \<le> l_seller_receive (so_lot so)" "0 \<le> l_commission (so_lot so)"
proof -
  have "protection_guard w now so d = Allowed" using can_settle_allowed [OF assms(1)] assms(2) by simp
  from protection_guard_allowed [OF this] have "financially_consistent so d" by blast
  then show "0 \<le> l_seller_receive (so_lot so)" "0 \<le> l_commission (so_lot so)"
    by (auto simp: financially_consistent_def Let_def split: option.splits)
qed

lemma release_ok:
  assumes r: "release_settlement_hold w now so actor d = Inr d'" and ok: "market_ok d"
    and so: "load_order oid d = Some so" and allowed: "can_settle w now so d = Allowed"
    and key: "release_key_unused oid d"
  shows "market_ok d'"
  using r
proof (cases rule: release_cases)
  case skipped
  with ok show ?thesis by simp
next
  case (paid hid h)
  note lo = load_order_Some [OF so]
  have "key_unused (o_buyer (so_order so)) (settlement_hold_release_key (so_id so)) d"
    using key lo paid(2) by (simp add: release_key_unused_def)
  with paid lo allowed_parts [OF allowed paid(2)] show ?thesis by (intro pay_out_ok [OF paid(7) ok]) auto
qed

lemma enter_loaded_ok:
  "enter_settlement_hold w now so key actor d = Inr d' \<Longrightarrow> market_ok d \<Longrightarrow> load_order oid d = Some so \<Longrightarrow> market_ok d'"
  using load_order_Some [of oid d so] by (auto intro: enter_hold_ok)

lemma try_settle_ok:
  assumes "try_settle_confirmed_order w now oid key d = Inr (res, d')" and ok: "market_ok d" and "release_key_unused oid d"
  shows "market_ok d'"
proof -
  obtain so where so: "load_order oid d = Some so"
    using assms(1) by (auto simp: try_settle_confirmed_order_def split: option.splits)
  show ?thesis
  proof (cases "can_settle w now so d")
    case (Blocked c)
    with assms(1) so have "d' = emit_settlement_blocked oid c d" by (auto simp: try_settle_confirmed_order_def)
    then show ?thesis using ok market_quiet [OF quiet_steps(7)] by simp
  next
    case Allowed
    with assms so show ?thesis
      by (auto simp: try_settle_confirmed_order_def bindE_eq_Inr split: if_splits option.splits
          intro: release_ok enter_loaded_ok)
  qed
qed

lemma settlement_call_ok:
  assumes "exec_settlement w now oid c d = Inr d'" and ok: "market_ok d" and "release_key_unused oid d"
  shows "market_ok d'"
proof (cases c)
  case (Retry_settlement key)
  with assms show ?thesis by (auto simp: bindE_eq_Inr intro: try_settle_ok)
next
  case Release_due
  then obtain res where r: "release_due_settlement_hold w now oid d = Inr (res, d')"
    using assms(1) by (auto simp: bindE_eq_Inr)
  then obtain so where so: "load_order oid d = Some so"
    by (auto simp: release_due_settlement_hold_def split: option.splits)
  show ?thesis
  proof (cases "can_settle w now so d")
    case (Blocked b)
    with r so have "d' = d \<or> d' = emit_settlement_blocked oid b d"
      by (auto simp: release_due_settlement_hold_def split: if_splits option.splits)
    then show ?thesis using ok market_quiet [OF quiet_steps(7)] by auto
  next
    case Allowed
    with r so ok assms(3) show ?thesis
      by (auto simp: release_due_settlement_hold_def bindE_eq_Inr split: if_splits option.splits intro: release_ok)
  qed
next
  case (Settle_completed key actor)
  then have r: "settle_completed_order w now oid key actor d = Inr d'" using assms(1) by simp
  then obtain so where so: "load_order oid d = Some so"
    by (auto simp: settle_completed_order_def split: option.splits)
  have quiet: "market_ok (emit_settlement_blocked oid b d)" for b using ok market_quiet [OF quiet_steps(7)] by simp
  from r so ok assms(3) quiet show ?thesis
    by (auto simp: settle_completed_order_def split: if_splits option.splits guard_result.splits
        intro: release_ok enter_loaded_ok)
qed

section \<open>The trades service\<close>

lemma trade_step_load:
  assumes "trade_transition_by_event tid st e actor reason pr fr g d = Inr (st', d1)" and "load_order oid d = Some so"
  shows "row (orders d1) oid = Some (so_order so)" "hold_of i d1 = hold_of i d"
  using quiet_steps(3) [OF assms(1)] load_order_Some [OF assms(2)] by (simp_all add: same_market_def hold_of_def)

lemma poll_fail_ok:
  assumes "poll_fail_tx oid reason mode d = Inr (i, d')" and ok: "market_ok d"
    and key: "\<And>ord. row (orders d) oid = Some ord \<Longrightarrow>
        key_unused (o_buyer ord) (''poll-fail-safe:'' @ poll_fail_key oid reason) d"
  shows "market_ok d'"
proof -
  obtain so hid h tid t where so: "load_order oid d = Some so" "so_hold so = Some (hid, h)" "so_trade so = Some (tid, t)"
    using assms(1) by (auto simp: poll_fail_tx_def split: option.splits)
  show ?thesis
  proof (cases "o_status (so_order so) = OS_WAITING_TRADE \<and> t_status t = TS_WAITING")
    case False
    with assms(1) so ok show ?thesis by (auto simp: poll_fail_tx_def split: if_splits)
  next
    case True
    with assms(1) so obtain st d1 d2 where
      1: "trade_transition_by_event tid (t_status t) (fail_trade_event mode) None (Some reason)
            (Some (''poll-fail-'' @ oid)) (Some reason) False d = Inr (st, d1)" and
      2: "(if mode = Fail_safe
           then fail_trade_safe so hid h None reason (''poll-fail-safe:'' @ poll_fail_key oid reason) d1
           else fail_trade_dispute so OE_MISMATCH_DETECTED None reason d1) = Inr d2" and
      3: "same_market d2 d'"
      by (auto simp: poll_fail_tx_def bindE_eq_Inr same_market_def append_audit_def append_outbox_def)
    have q: "same_market d d1" by (rule quiet_steps(3) [OF 1])
    have ok1: "market_ok d1" using ok q by (simp add: market_quiet)
    note lo = load_order_Some [OF so(1)] trade_step_load [OF 1 so(1)]
    have "market_ok d2"
    proof (cases "mode = Fail_safe")
      case True
      with 2 have f: "fail_trade_safe so hid h None reason (''poll-fail-safe:'' @ poll_fail_key oid reason) d1 = Inr d2" by simp
      show ?thesis
        using \<open>o_status (so_order so) = OS_WAITING_TRADE \<and> t_status t = TS_WAITING\<close> lo so(2) key key_unused_frame [OF q]
        by (intro fail_trade_safe_ok [OF f ok1]) auto
    next
      case False
      with 2 show ?thesis by (auto intro: fail_trade_dispute_ok [OF _ ok1])
    qed
    with 3 show ?thesis by (simp add: market_quiet)
  qed
qed

lemma mock_fail_ok:
  assumes "mock_fail_tx w oid actor key mode reason role d = Inr (i, d')" and ok: "market_ok d"
    and key: "\<And>ord. row (orders d) oid = Some ord \<Longrightarrow> key_unused (o_buyer ord) (''trade-fail-safe:'' @ key) d"
  shows "market_ok d'"
proof -
  obtain so hid h tid t where so: "load_order oid d = Some so" "so_hold so = Some (hid, h)" "so_trade so = Some (tid, t)"
    using assms(1) by (auto simp: mock_fail_tx_def split: option.splits)
  from assms(1) so obtain pr code st d1 d2 where
    0: "assert_waiting (so_order so) t = Inr ()" and
    1: "trade_transition_by_event tid (t_status t) (fail_trade_event mode) (Some actor) reason
          (Some pr) code False d = Inr (st, d1)" and
    2: "(if mode = Fail_safe
         then fail_trade_safe so hid h (Some actor) (reason_or reason ''trade_fail_safe'') (''trade-fail-safe:'' @ key) d1
         else fail_trade_dispute so OE_MISMATCH_DETECTED (Some actor) (reason_or reason ''trade_fail_dispute'') d1) = Inr d2" and
    3: "same_market d2 d'"
    by (auto simp: mock_fail_tx_def bindE_eq_Inr same_market_def append_audit_def append_outbox_def Let_def
        split: if_splits)
  have st: "o_status (so_order so) = OS_WAITING_TRADE" using 0 by (auto simp: assert_waiting_def split: if_splits)
  have q: "same_market d d1" by (rule quiet_steps(3) [OF 1])
  have ok1: "market_ok d1" using ok q by (simp add: market_quiet)
  note lo = load_order_Some [OF so(1)] trade_step_load [OF 1 so(1)]
  have "market_ok d2"
  proof (cases "mode = Fail_safe")
    case True
    with 2 have f: "fail_trade_safe so hid h (Some actor) (reason_or reason ''trade_fail_safe'')
        (''trade-fail-safe:'' @ key) d1 = Inr d2" by simp
    show ?thesis using st lo so(2) key key_unused_frame [OF q] by (intro fail_trade_safe_ok [OF f ok1]) auto
  next
    case False
    with 2 show ?thesis by (auto intro: fail_trade_dispute_ok [OF _ ok1])
  qed
  with 3 show ?thesis by (simp add: market_quiet)
qed

lemma trade_timeout_ok:
  assumes "trade_timeout_tx w oid actor key action d = Inr (i, d')" and ok: "market_ok d"
  shows "market_ok d'"
proof -
  obtain so tid t where so: "load_order oid d = Some so" "so_trade so = Some (tid, t)"
    using assms(1) by (auto simp: trade_timeout_tx_def split: option.splits)
  from assms(1) so obtain pr code st d1 d2 where
    1: "trade_transition_by_event tid (t_status t) TE_TIMEOUT actor (Some ''TRADE_TIMEOUT'') (Some pr) (Some code)
          False d = Inr (st, d1)" and
    2: "fail_trade_dispute so OE_TIMEOUT_DETECTED actor ''TRADE_TIMEOUT'' d1 = Inr d2" and
    3: "same_market d2 d'"
    by (auto simp: trade_timeout_tx_def bindE_eq_Inr same_market_def append_audit_def append_outbox_def Let_def
        split: if_splits)
  have "market_ok d1" using ok quiet_steps(3) [OF 1] by (simp add: market_quiet)
  from fail_trade_dispute_ok [OF 2 this] 3 show ?thesis by (simp add: market_quiet)
qed

end
