(* ===== verification/MarketNames.thy ===== *)
theory MarketNames
  imports ItemNames
begin

text \<open>
  The market names of listed items: \<open>resolveSteamMarketHashName\<close> and the comparison of wears of
  \<^verbatim>\<open>lots/steam-market-link.util.ts\<close>, and which items may be listed at all
  (\<^verbatim>\<open>lots/listing-eligibility.util.ts\<close>).
\<close>

section \<open>Names on the Steam market\<close>

definition is_line_end :: "char \<Rightarrow> bool" where
  "is_line_end c \<longleftrightarrow> c = CHR 0x0A \<or> c = CHR 0x0D"

text \<open>\<open>/^(.*)\s+\(([^)]+)\)\s*$/\<close> on a trimmed name: the last opening parenthesis that follows a
  space, with a text up to the final closing one; what is before may not contain a line end.\<close>

definition suffix_at :: "string \<Rightarrow> nat \<Rightarrow> bool" where
  "suffix_at t i \<longleftrightarrow> 0 < i \<and> t ! i = CHR ''('' \<and> is_space (t ! (i - 1))
     \<and> (let captured = drop (i + 1) (butlast t) in captured \<noteq> [] \<and> CHR '')'' \<notin> set captured)
     \<and> \<not> list_ex is_line_end (rev (dropWhile is_space (rev (take i t))))"

definition split_name_suffix :: "string \<Rightarrow> (string \<times> string) option" where
  "split_name_suffix t =
     (if t = [] \<or> last t \<noteq> CHR '')'' then None
      else map_option (\<lambda>i. (take i t, drop (i + 1) (butlast t))) (find (suffix_at t) (rev [0..<length t])))"

definition resolve_market_name :: "string \<Rightarrow> string option \<Rightarrow> string" where
  "resolve_market_name name wear =
     (let t = js_trim name in
      if t = [] then t
      else
        let code = (case normalize_wear_code wear of Some c \<Rightarrow> Some c | None \<Rightarrow> parse_wear_code t);
            wear_suffix = (case code of None \<Rightarrow> None | Some c \<Rightarrow> map_of wear_code_to_suffix c)
        in case split_name_suffix t of
             Some (base, existing) \<Rightarrow>
               (case wear_suffix of
                  Some s \<Rightarrow> if to_lower existing \<noteq> to_lower s then js_trim base @ wear_needle s else t
                | None \<Rightarrow> t)
           | None \<Rightarrow> (case wear_suffix of Some s \<Rightarrow> t @ wear_needle s | None \<Rightarrow> t))"

definition has_wear_suffix :: "string \<Rightarrow> bool" where
  "has_wear_suffix name \<longleftrightarrow> parse_wear_code name \<noteq> None"

definition lot_wear_matches :: "string \<Rightarrow> string option \<Rightarrow> bool" where
  "lot_wear_matches name wear =
     (case parse_wear_code name of
        None \<Rightarrow> True
      | Some expected \<Rightarrow>
          (case wear of None \<Rightarrow> False | Some w \<Rightarrow> w \<noteq> [] \<and> to_lower expected = to_lower w))"

section \<open>What may be listed\<close>

definition non_listable_fragments :: "string list" where
  "non_listable_fragments =
     [''Service Medal'', ''Veteran Coin'', ''Birthday Coin'', ''Global Offensive Badge'', ''Loyalty Badge'',
      ''Premier Season'', ''Operation Coin'', ''Ten Year Veteran'']"

definition stock_weapons :: "string list" where
  "stock_weapons =
     [''Glock-18'', ''USP-S'', ''P2000'', ''Dual Berettas'', ''P250'', ''Five-SeveN'', ''Tec-9'', ''CZ75-Auto'',
      ''Desert Eagle'', ''R8 Revolver'', ''AK-47'', ''M4A4'', ''M4A1-S'', ''Galil AR'', ''FAMAS'', ''SG 553'',
      ''AUG'', ''AWP'', ''SSG 08'', ''SCAR-20'', ''G3SG1'', ''MAC-10'', ''MP9'', ''MP7'', ''MP5-SD'', ''UMP-45'',
      ''P90'', ''PP-Bizon'', ''Nova'', ''XM1014'', ''MAG-7'', ''Sawed-Off'', ''M249'', ''Negev'', ''Zeus x27'']"

definition is_stock_weapon :: "string \<Rightarrow> bool" where
  "is_stock_weapon name \<longleftrightarrow> to_lower (js_trim name) \<in> set (List.map to_lower stock_weapons)"

definition is_listable :: "string \<Rightarrow> bool" where
  "is_listable name =
     (let t = js_trim name in
      if t = [] then False
      else if list_ex (\<lambda>f. sublist (to_lower f) (to_lower t)) non_listable_fragments then False
      else \<not> is_stock_weapon t)"

end
