(* ===== verification/LotPricing.thy ===== *)
theory LotPricing
  imports Prelude
begin

text \<open>
  \<^verbatim>\<open>lots/lot-pricing.util.ts\<close>: the commission of a sale, \<open>Math.floor(priceMinor * 0.05)\<close>. The
  multiplication is the one of IEEE double precision numbers: \<open>0.05\<close> stands for the double next to
  one twentieth, \<open>3602879701896397 / 2^56\<close>, the exact product is rounded to 53 significant bits,
  half to even, and only then floored. \<open>commission_exact\<close> says that for every price below \<open>2^52\<close>
  nothing of this shows: the commission is the integer quotient. It fails for some prices above.
\<close>

section \<open>Double precision products\<close>

fun bit_length :: "nat \<Rightarrow> nat" where
  "bit_length n = (if n = 0 then 0 else Suc (bit_length (n div 2)))"

declare bit_length.simps [simp del]

definition double_round :: "nat \<Rightarrow> nat" where
  "double_round n =
     (let s = bit_length n - 53; q = n div 2 ^ s; r = n mod 2 ^ s
      in if 2 ^ s < 2 * r \<or> 2 * r = 2 ^ s \<and> odd q then (q + 1) * 2 ^ s else q * 2 ^ s)"

text \<open>The double nearest to \<open>0.05\<close>, in units of \<open>2^-56\<close>.\<close>

definition five_percent :: nat where
  "five_percent = 3602879701896397"

definition calculate_commission_minor :: "int \<Rightarrow> int" where
  "calculate_commission_minor price =
     (let product = int (double_round (nat \<bar>price\<bar> * five_percent))
      in (if price < 0 then - product else product) div 2 ^ 56)"

definition calculate_seller_receive_minor :: "int \<Rightarrow> int" where
  "calculate_seller_receive_minor price = price - calculate_commission_minor price"

definition build_pricing_preview :: "int \<Rightarrow> int \<times> int \<times> int" where
  "build_pricing_preview price =
     (let commission = calculate_commission_minor price in (price, commission, price - commission))"

section \<open>The rounding error\<close>

lemma bit_length_bounds: "0 < n \<Longrightarrow> 2 ^ (bit_length n - 1) \<le> n \<and> n < 2 ^ bit_length n"
proof (induction n rule: bit_length.induct)
  case (1 n)
  show ?case
  proof (cases "n div 2 = 0")
    case True
    with \<open>0 < n\<close> have "n = 1" by simp
    then show ?thesis by (simp add: bit_length.simps)
  next
    case False
    let ?l = "bit_length (n div 2)"
    have l: "bit_length n = Suc ?l" using \<open>0 < n\<close> by (subst bit_length.simps) simp
    have b: "2 ^ (?l - 1) \<le> n div 2" "n div 2 < 2 ^ ?l" using "1.IH" 1(2) False by auto
    have "?l \<noteq> 0" using False by (subst bit_length.simps) simp
    then have p: "2 ^ ?l = 2 * (2 :: nat) ^ (?l - 1)" by (cases ?l) auto
    have "n = 2 * (n div 2) + n mod 2" "n mod 2 < 2" by simp_all
    with b p have "2 * (2 :: nat) ^ (?l - 1) \<le> n" "n < 2 * 2 ^ ?l" by linarith+
    with l p show ?thesis by simp
  qed
qed

text \<open>Rounding goes to a neighbour: never below a multiple of the unit that is below, never above
  one that is above, and by at most half a unit.\<close>

lemma double_round_near:
  defines "u n \<equiv> (2 :: nat) ^ (bit_length n - 53)"
  shows "2 * double_round n \<le> 2 * n + u n" and "m * u n \<le> n \<Longrightarrow> m * u n \<le> double_round n"
proof -
  let ?u = "u n" and ?q = "n div u n" and ?r = "n mod u n"
  have n: "n = ?q * ?u + ?r" by simp
  have q1: "(?q + 1) * ?u = ?q * ?u + ?u" by simp
  have r: "double_round n = (if ?u < 2 * ?r \<or> 2 * ?r = ?u \<and> odd ?q then (?q + 1) * ?u else ?q * ?u)"
    by (simp add: double_round_def u_def Let_def)
  show "2 * double_round n \<le> 2 * n + ?u"
  proof (cases "?u < 2 * ?r \<or> 2 * ?r = ?u \<and> odd ?q")
    case True
    then have "double_round n = ?q * ?u + ?u" "?u \<le> 2 * ?r" using r q1 by auto
    with n show ?thesis by linarith
  next
    case False
    then have "double_round n = ?q * ?u" unfolding r by (rule if_not_P)
    with n show ?thesis by linarith
  qed
  assume "m * ?u \<le> n"
  then have "m \<le> ?q" by (simp add: u_def less_eq_div_iff_mult_less_eq)
  then have "m * ?u \<le> ?q * ?u" by simp
  also have "\<dots> \<le> double_round n" using r by auto
  finally show "m * ?u \<le> double_round n" .
qed

lemma double_round_error: "0 < n \<Longrightarrow> 2 ^ 53 * double_round n \<le> (2 ^ 53 + 1) * n"
proof -
  assume n: "0 < n"
  have near: "2 * double_round n \<le> 2 * n + 2 ^ (bit_length n - 53)" by (rule double_round_near)
  show ?thesis
  proof (cases "bit_length n \<le> 53")
    case True
    then show ?thesis by (simp add: double_round_def)
  next
    case False
    have "2 ^ (bit_length n - 1) = (2 :: nat) ^ 52 * 2 ^ (bit_length n - 53)"
    proof -
      have e: "bit_length n - 1 = 52 + (bit_length n - 53)" using False by simp
      show ?thesis unfolding e by (rule power_add)
    qed
    with bit_length_bounds [OF n] have "2 ^ 52 * 2 ^ (bit_length n - 53) \<le> n" by simp
    with near show ?thesis by simp
  qed
qed

section \<open>The commission is exact\<close>

text \<open>A number with few bits is a multiple of the unit of every product above it.\<close>

lemma power_split: "i \<le> 56 \<Longrightarrow> 2 ^ 56 * k = (2 ^ (56 - i) * k) * (2 :: nat) ^ i"
proof -
  assume "i \<le> 56"
  then have "(56 - i) + i = 56" by simp
  then have "2 ^ (56 - i) * 2 ^ i = (2 :: nat) ^ 56" by (simp only: power_add [symmetric])
  then show ?thesis by (metis mult.assoc mult.commute)
qed

lemma double_round_lower:
  assumes "2 ^ 56 * k \<le> n" and "k < 2 ^ 53"
  shows "2 ^ 56 * k \<le> double_round n"
proof (cases "k = 0")
  case False
  let ?s = "bit_length n - 53"
  have n: "0 < n" using assms(1) False by (cases n) auto
  show ?thesis
  proof (cases "?s \<le> 56")
    case True
    from assms(1) show ?thesis unfolding power_split [OF True] by (rule double_round_near(2))
  next
    case False
    then have s: "57 \<le> ?s" "bit_length n - 1 = 52 + ?s" by simp_all
    from bit_length_bounds [OF n] have "2 ^ (52 + ?s) \<le> n" unfolding s(2) by (rule conjunct1)
    then have "2 ^ 52 * 2 ^ ?s \<le> n" unfolding power_add .
    then have low: "2 ^ 52 * 2 ^ ?s \<le> double_round n" by (rule double_round_near(2))
    have "2 ^ 56 * k \<le> 2 ^ 52 * (2 :: nat) ^ 57" using assms(2) by simp
    also have "\<dots> \<le> 2 ^ 52 * 2 ^ ?s" using s(1) by (intro mult_le_mono2 power_increasing) simp_all
    finally show ?thesis using low by (rule le_trans)
  qed
qed simp

lemma commission_arith:
  fixes n p k r :: nat
  assumes "20 * n = 72057594037927940 * p" "20 * k \<le> p" "p < 20 * k + 20" "p < 4503599627370496"
    and "9007199254740992 * r \<le> 9007199254740993 * n"
  shows "r < 72057594037927936 * (k + 1)" and "72057594037927936 * k \<le> n"
proof -
  have "9007199254740992 * (20 * r) \<le> 9007199254740993 * (20 * n)" using assms(5) by simp
  also have "\<dots> = 649037107316853453566312041152512 * p + 108086391056891908 * p" unfolding assms(1) by simp
  also have "\<dots> < 649037107316853453566312041152512 * p + 649037107316853453566312041152512" using assms(4) by simp
  also have "\<dots> \<le> 649037107316853453566312041152512 * (20 * k + 20)" using assms(3) by simp
  finally show "r < 72057594037927936 * (k + 1)" by simp
  have "20 * (72057594037927936 * k) \<le> 72057594037927936 * p" using assms(2) by simp
  also have "\<dots> \<le> 20 * n" unfolding assms(1) by simp
  finally show "72057594037927936 * k \<le> n" by simp
qed

lemma commission_nat: "p < 2 ^ 52 \<Longrightarrow> double_round (p * five_percent) div 2 ^ 56 = p div 20"
proof (cases "p = 0")
  case True
  then show ?thesis by (simp add: double_round_def bit_length.simps)
next
  case False
  assume p: "p < 2 ^ 52"
  let ?n = "p * five_percent" and ?k = "p div 20"
  have k: "20 * ?k \<le> p" "p < 20 * ?k + 20" using p by presburger+
  have n: "20 * ?n = 72057594037927940 * p" by (simp add: five_percent_def)
  have powers: "(2 :: nat) ^ 56 = 72057594037927936" "(2 :: nat) ^ 53 = 9007199254740992"
    "(2 :: nat) ^ 52 = 4503599627370496" by simp_all
  have "2 ^ 53 * double_round ?n \<le> (2 ^ 53 + 1) * ?n"
    using False by (intro double_round_error) (simp add: five_percent_def)
  then have "9007199254740992 * double_round ?n \<le> 9007199254740993 * ?n" by simp
  note arith = commission_arith [OF n k _ this]
  have high: "double_round ?n < 2 ^ 56 * (?k + 1)" and "2 ^ 56 * ?k \<le> ?n" using arith p unfolding powers by auto
  from this(2) have low: "2 ^ 56 * ?k \<le> double_round ?n"
  proof (rule double_round_lower)
    show "?k < 2 ^ 53" using p k(1) unfolding powers by linarith
  qed
  with high show ?thesis by (intro div_nat_eqI) (auto simp: ac_simps)
qed

lemma calculate_commission_minor_div:
  assumes "0 \<le> price" and "price < 2 ^ 52"
  shows "calculate_commission_minor price = price div 20"
proof -
  have p: "nat price < 2 ^ 52" "\<bar>price\<bar> = price" using assms by auto
  have "int (double_round (nat price * five_percent)) div 2 ^ 56 = int (nat price div 20)"
    using commission_nat [OF p(1)] by (simp flip: zdiv_int)
  then show ?thesis using assms p(2) by (simp add: calculate_commission_minor_def zdiv_int)
qed

text \<open>
  C40: The commission is exact. For every price in minor units below \<open>2 ^ 52\<close> the commission that
  the double precision product \<open>Math.floor(priceMinor * 0.05)\<close> computes is the price divided by
  twenty, rounded down; so it is never negative, never more than the price, and the seller's part
  and the commission add up to the price.
\<close>

theorem commission_exact:
  assumes "0 \<le> price" and "price < 2 ^ 52"
  shows "calculate_commission_minor price = price div 20
     \<and> build_pricing_preview price = (price, price div 20, calculate_seller_receive_minor price)
     \<and> 0 \<le> price div 20 \<and> 0 \<le> calculate_seller_receive_minor price
     \<and> calculate_seller_receive_minor price + calculate_commission_minor price = price"
  using assms calculate_commission_minor_div [OF assms]
  by (auto simp: build_pricing_preview_def calculate_seller_receive_minor_def Let_def)

theorem commission_exact_witness: "calculate_commission_minor 12345 = 617"
  using commission_exact [of 12345] by simp

end
