(* ===== verification/Lots.thy ===== *)
theory Lots
  imports Accounts BuyRequests Disputes MarketNames LotPricing
begin

text \<open>
  The lots service (\<^verbatim>\<open>lots/lots.service.ts\<close>): listing an item of the inventory, one by one or in
  bulk, changing the price and canceling, with \<^verbatim>\<open>lots/listing-eligibility.util.ts\<close>,
  \<^verbatim>\<open>lots/bulk-listing.util.ts\<close> and \<^verbatim>\<open>lots/lot-listing-snapshot.util.ts\<close>. The handlers check outside of
  their transaction and then run it, so each has its transaction as a definition of its own:
  another handler may commit in between. The inventory synchronisation before a listing is the
  parameter \<open>sync\<close>, the notification of a matching buy request the parameter \<open>notify\<close>.

  A lot's asset is unique in the table, so listing again reuses the row. The newest lot of an asset
  is the last one of the table; the inspect link and the time of a snapshot are left out.
\<close>

section \<open>Eligibility\<close>

definition assert_listing_eligible :: "int \<Rightarrow> asset \<Rightarrow> item_definition \<Rightarrow> unit res" where
  "assert_listing_eligible now a item =
     (if a_status a \<noteq> IA_AVAILABLE then Inl (AppException ''INVENTORY_ASSET_NOT_AVAILABLE'')
      else if \<not> a_tradable a then Inl (AppException ''INVENTORY_ASSET_NOT_TRADABLE'')
      else if \<not> a_marketable a then Inl (AppException ''INVENTORY_ASSET_NOT_LISTABLE'')
      else if \<not> is_listable (i_market_hash_name item) then Inl (AppException ''INVENTORY_ASSET_NOT_LISTABLE'')
      else if (case a_trade_lock_until a of None \<Rightarrow> False | Some t \<Rightarrow> now < t)
      then Inl (AppException ''INVENTORY_ASSET_TRADE_LOCKED'')
      else Inr ())"

text \<open>Items without float, pattern, wear and stickers are interchangeable. The float column is a
  decimal, so its text is a number when there is one.\<close>

definition has_inventory_float_value :: "string option \<Rightarrow> bool" where
  "has_inventory_float_value v \<longleftrightarrow> present v"

definition is_fungible_asset :: "asset \<Rightarrow> bool" where
  "is_fungible_asset a \<longleftrightarrow> \<not> has_inventory_float_value (a_float_value a) \<and> a_paint_seed a = None
     \<and> \<not> present (a_wear a) \<and> (case a_stickers a of None \<Rightarrow> True | Some js \<Rightarrow> js = [])"

definition max_bulk_listing_count :: nat where
  "max_bulk_listing_count = 50"

definition assert_bulk_asset :: "int \<Rightarrow> string \<Rightarrow> asset \<times> item_definition \<Rightarrow> unit \<Rightarrow> unit res" where
  "assert_bulk_asset now name x _ =
     (let (a, item) = x in
      if \<not> is_fungible_asset a then Inl (AppException ''BULK_LISTING_NOT_ALLOWED'')
      else if i_market_hash_name item \<noteq> name then Inl (AppException ''BULK_LISTING_ASSET_MISMATCH'')
      else assert_listing_eligible now a item)"

definition assert_bulk_listing_assets :: "int \<Rightarrow> (asset \<times> item_definition) list \<Rightarrow> string res" where
  "assert_bulk_listing_assets now xs =
     (if length xs < 2 then Inl (AppException ''BULK_LISTING_TOO_FEW'')
      else if max_bulk_listing_count < length xs then Inl (AppException ''BULK_LISTING_TOO_MANY'')
      else let name = i_market_hash_name (snd (hd xs))
           in bindE (foldE (assert_bulk_asset now name) xs ()) (\<lambda>_. Inr name))"

definition assert_seller_can_list :: "world \<Rightarrow> int \<Rightarrow> id \<Rightarrow> db \<Rightarrow> user res \<times> db" where
  "assert_seller_can_list w now seller d =
     (case row (users (bank d)) seller of
        None \<Rightarrow> (Inl (AppException ''NOT_FOUND''), d)
      | Some u \<Rightarrow>
          if u_status u \<noteq> US_ACTIVE then (Inl (AppException ''SELLER_NOT_ACTIVE''), d)
          else if \<not> has_valid_trade_url w (u_trade_url u) then (Inl (AppException ''TRADE_URL_REQUIRED''), d)
          else case assert_can_trade w now (u_steam_id u) d of
            (Inl e, d) \<Rightarrow> (Inl e, d)
          | (Inr (), d) \<Rightarrow> (Inr u, d))"

section \<open>Listing one item\<close>

definition listing_snapshot_data :: "asset \<Rightarrow> item_definition \<Rightarrow> listing_snapshot" where
  "listing_snapshot_data a item =
     \<lparr>sn_external_id = a_external_id a, sn_market_hash_name = resolve_market_name (i_market_hash_name item) (a_wear a),
      sn_weapon = i_weapon item, sn_rarity = i_rarity item, sn_icon_url = i_icon_url item,
      sn_float_value = a_float_value a, sn_paint_seed = a_paint_seed a, sn_wear = a_wear a,
      sn_stickers = Some (case a_stickers a of None \<Rightarrow> [] | Some js \<Rightarrow> js),
      sn_tradable = a_tradable a, sn_marketable = a_marketable a\<rparr>"

definition ensure_item_icon :: "id \<Rightarrow> string option \<Rightarrow> db \<Rightarrow> db" where
  "ensure_item_icon item_id icon d =
     (let t = (case icon of None \<Rightarrow> [] | Some s \<Rightarrow> js_trim s) in
      if t = [] then d
      else d\<lparr>items := snd (update_many (\<lambda>i item. i = item_id \<and> \<not> present (i_icon_url item))
                             (\<lambda>item. item\<lparr>i_icon_url := Some t\<rparr>) (items d))\<rparr>)"

definition newest_lot :: "id \<Rightarrow> db \<Rightarrow> (id \<times> lot) option" where
  "newest_lot aid d = find (\<lambda>(_, l). l_asset l = aid) (rev (lots d))"

definition is_listed_status :: "lot_status \<Rightarrow> bool" where
  "is_listed_status s \<longleftrightarrow> s = LS_ACTIVE \<or> s = LS_RESERVED"

definition priced :: "int \<Rightarrow> lot \<Rightarrow> lot" where
  "priced price l = l\<lparr>l_price := price, l_commission := calculate_commission_minor price,
     l_seller_receive := price - calculate_commission_minor price\<rparr>"

text \<open>The row of the lot: the asset's old one, or a new one, which the unique constraint on the asset
  may refuse. The second component is the status of the row that was reused.\<close>

definition open_listing :: "id \<Rightarrow> id \<Rightarrow> int \<Rightarrow> db \<Rightarrow> (id \<times> lot_status option \<times> db) res" where
  "open_listing seller aid price d =
     (let fresh = (if \<exists>(_, l) \<in> set (lots d). l_asset l = aid then Inl UniqueViolation
                   else let (i, d) = draw_db d
                        in Inr (i, None, d\<lparr>lots := insert_row i (priced price
                             \<lparr>l_seller = seller, l_asset = aid, l_status = LS_ACTIVE, l_price = 0, l_commission = 0,
                              l_seller_receive = 0, l_reserved_by = None\<rparr>) (lots d)\<rparr>))
      in case newest_lot aid d of
           None \<Rightarrow> fresh
         | Some (i, l) \<Rightarrow>
             if is_listed_status (l_status l) then fresh
             else Inr (i, Some (l_status l),
                       d\<lparr>lots := AList.update i ((priced price l)\<lparr>l_status := LS_ACTIVE, l_reserved_by := None\<rparr>) (lots d)\<rparr>))"

text \<open>\<open>listAssetInTransaction\<close>; \<open>a\<close> and \<open>item\<close> are the rows as they were read before.\<close>

definition list_asset_tx :: "int \<Rightarrow> id \<Rightarrow> int \<Rightarrow> id \<Rightarrow> asset \<Rightarrow> item_definition \<Rightarrow> db \<Rightarrow> (id \<times> db) res" where
  "list_asset_tx now seller price aid a item d =
     bindE (assert_listing_eligible now a item) (\<lambda>_.
     bindE (open_listing seller aid price d) (\<lambda>(i, old, d).
     let d = d\<lparr>snapshots := AList.update i (listing_snapshot_data a item) (snapshots d)\<rparr>;
         d = ensure_item_icon (a_item a) (i_icon_url item) d;
         d = (case old of
                Some s \<Rightarrow> d\<lparr>lot_events := lot_events d @ [\<lparr>ev_entity = i, ev_from = Some s, ev_to = LS_ACTIVE,
                            ev_actor = Some seller, ev_reason = Some ''relisted''\<rparr>]\<rparr>
              | None \<Rightarrow> record_listed i seller d)
     in bindE (set_asset_status aid IA_LISTED d) (\<lambda>d. Inr (i, d))))"

definition has_active_listing :: "id \<Rightarrow> db \<Rightarrow> bool" where
  "has_active_listing aid d \<longleftrightarrow> list_ex (\<lambda>(_, l). l_asset l = aid \<and> is_listed_status (l_status l)) (lots d)"

definition load_asset :: "id \<Rightarrow> db \<Rightarrow> (asset \<times> item_definition) option" where
  "load_asset aid d =
     (case row (assets d) aid of
        None \<Rightarrow> None
      | Some a \<Rightarrow> map_option (\<lambda>item. (a, item)) (row (items d) (a_item a)))"

type_synonym sync = "id \<Rightarrow> string option \<Rightarrow> db \<Rightarrow> unit res \<times> db"
type_synonym notifier = "id \<Rightarrow> id \<Rightarrow> id \<Rightarrow> string \<Rightarrow> bool"

definition create_lot :: "sync \<Rightarrow> notifier \<Rightarrow> world \<Rightarrow> int \<Rightarrow> id \<Rightarrow> id \<Rightarrow> int \<Rightarrow> db \<Rightarrow> id res \<times> db" where
  "create_lot sync notify w now seller aid price d =
     (case assert_seller_can_list w now seller d of
        (Inl e, d) \<Rightarrow> (Inl e, d)
      | (Inr u, d) \<Rightarrow>
          (case sync seller (u_steam_id u) d of
             (Inl e, d) \<Rightarrow> (Inl e, d)
           | (Inr (), d) \<Rightarrow>
               (case load_asset aid d of
                  None \<Rightarrow> (Inl (AppException ''INVENTORY_ASSET_NOT_FOUND''), d)
                | Some (a, item) \<Rightarrow>
                    if a_owner a \<noteq> seller then (Inl (AppException ''INVENTORY_ASSET_NOT_FOUND''), d)
                    else if has_active_listing aid d then (Inl (AppException ''LOT_ALREADY_EXISTS_FOR_ASSET''), d)
                    else case assert_listing_eligible now a item of
                      Inl e \<Rightarrow> (Inl e, d)
                    | Inr () \<Rightarrow>
                        if \<not> present (u_steam_id u) then (Inl (AppException ''TRADE_URL_REQUIRED''), d)
                        else case list_asset_tx now seller price aid a item d of
                          Inl e \<Rightarrow> (Inl e, d)
                        | Inr (i, d) \<Rightarrow> (Inr i, match_lot_activated notify i d))))"


section \<open>Listing in bulk\<close>

text \<open>The rows of the chosen assets in table order, with their definitions.\<close>

definition load_assets :: "id list \<Rightarrow> db \<Rightarrow> (id \<times> asset \<times> item_definition) list" where
  "load_assets ids d =
     List.map_filter (\<lambda>(i, _). if i \<in> set ids then map_option (\<lambda>x. (i, x)) (load_asset i d) else None) (assets d)"

definition check_bulk_asset :: "id \<Rightarrow> db \<Rightarrow> id \<times> asset \<times> item_definition \<Rightarrow> unit \<Rightarrow> unit res" where
  "check_bulk_asset seller d x _ =
     (let (aid, a, _) = x in
      if a_owner a \<noteq> seller then Inl (AppException ''INVENTORY_ASSET_NOT_FOUND'')
      else if has_active_listing aid d then Inl (AppException ''LOT_ALREADY_EXISTS_FOR_ASSET'')
      else Inr ())"

definition list_assets_tx ::
    "int \<Rightarrow> id \<Rightarrow> int \<Rightarrow> (id \<times> asset \<times> item_definition) list \<Rightarrow> db \<Rightarrow> (id list \<times> db) res" where
  "list_assets_tx now seller price xs d =
     foldE (\<lambda>(aid, a, item) (is, d).
              bindE (list_asset_tx now seller price aid a item d) (\<lambda>(i, d). Inr (is @ [i], d))) xs ([], d)"

definition create_lots :: "sync \<Rightarrow> notifier \<Rightarrow> world \<Rightarrow> int \<Rightarrow> id \<Rightarrow> id list \<Rightarrow> int \<Rightarrow> db \<Rightarrow> id list res \<times> db" where
  "create_lots sync notify w now seller ids price d =
     (case assert_seller_can_list w now seller d of
        (Inl e, d) \<Rightarrow> (Inl e, d)
      | (Inr u, d) \<Rightarrow>
          (case sync seller (u_steam_id u) d of
             (Inl e, d) \<Rightarrow> (Inl e, d)
           | (Inr (), d) \<Rightarrow>
               let unique_ids = remdups ids; xs = load_assets unique_ids d in
               if length xs \<noteq> length unique_ids then (Inl (AppException ''INVENTORY_ASSET_NOT_FOUND''), d)
               else case bindE (foldE (check_bulk_asset seller d) xs ()) (\<lambda>_.
                         assert_bulk_listing_assets now (List.map snd xs)) of
                 Inl e \<Rightarrow> (Inl e, d)
               | Inr _ \<Rightarrow>
                   if \<not> present (u_steam_id u) then (Inl (AppException ''TRADE_URL_REQUIRED''), d)
                   else case list_assets_tx now seller price xs d of
                     Inl e \<Rightarrow> (Inl e, d)
                   | Inr (is, d) \<Rightarrow> (Inr is, fold (match_lot_activated notify) is d)))"

section \<open>Changing the price and canceling\<close>

definition check_price_update :: "id \<Rightarrow> id \<Rightarrow> int \<Rightarrow> db \<Rightarrow> lot res" where
  "check_price_update seller lot_id price d =
     (if price \<le> 0 then Inl (AppException ''VALIDATION_ERROR'')
      else case row (lots d) lot_id of
        None \<Rightarrow> Inl (AppException ''LOT_NOT_FOUND'')
      | Some l \<Rightarrow>
          if l_seller l \<noteq> seller then Inl (AppException ''FORBIDDEN'')
          else if l_status l \<noteq> LS_ACTIVE then Inl (AppException ''LOT_NOT_ACTIVE'')
          else Inr l)"

text \<open>The transaction updates by the identifier alone; \<open>old_price\<close> is what the check has read.\<close>

definition update_price_tx :: "id \<Rightarrow> id \<Rightarrow> int \<Rightarrow> int \<Rightarrow> db \<Rightarrow> db res" where
  "update_price_tx seller lot_id old_price price d =
     bindE (update_row lot_id (priced price) (lots d)) (\<lambda>t.
     Inr (d\<lparr>lots := t, lot_events := lot_events d @ [\<lparr>ev_entity = lot_id, ev_from = Some LS_ACTIVE,
            ev_to = LS_ACTIVE, ev_actor = Some seller,
            ev_reason = Some (''price_updated:'' @ show_int old_price @ ''->'' @ show_int price)\<rparr>]\<rparr>))"

definition update_price :: "notifier \<Rightarrow> id \<Rightarrow> id \<Rightarrow> int \<Rightarrow> db \<Rightarrow> id res \<times> db" where
  "update_price notify seller lot_id price d =
     (case bindE (check_price_update seller lot_id price d) (\<lambda>l. update_price_tx seller lot_id (l_price l) price d) of
        Inl e \<Rightarrow> (Inl e, d)
      | Inr d \<Rightarrow> (Inr lot_id, match_lot_activated notify lot_id d))"

definition check_cancel_lot :: "id \<Rightarrow> id \<Rightarrow> db \<Rightarrow> lot res" where
  "check_cancel_lot seller lot_id d =
     (case row (lots d) lot_id of
        None \<Rightarrow> Inl (AppException ''LOT_NOT_FOUND'')
      | Some l \<Rightarrow>
          if l_seller l \<noteq> seller then Inl (AppException ''FORBIDDEN'')
          else bindE (ensure_lot_transition (l_status l) LS_CANCELED) (\<lambda>_. Inr l))"

text \<open>This change of the status is not recorded as an event.\<close>

definition cancel_lot_tx :: "id \<Rightarrow> id \<Rightarrow> db \<Rightarrow> db res" where
  "cancel_lot_tx lot_id aid d =
     bindE (update_row lot_id (\<lambda>l. l\<lparr>l_status := LS_CANCELED\<rparr>) (lots d)) (\<lambda>t.
     set_asset_status aid IA_AVAILABLE (d\<lparr>lots := t\<rparr>))"

definition cancel_lot :: "id \<Rightarrow> id \<Rightarrow> db \<Rightarrow> db res" where
  "cancel_lot seller lot_id d =
     bindE (check_cancel_lot seller lot_id d) (\<lambda>l. cancel_lot_tx lot_id (l_asset l) d)"

section \<open>Reading a lot\<close>

text \<open>A snapshot without float or pattern takes the ones a later synchronisation found.\<close>

definition hydrate_snapshot :: "id \<Rightarrow> asset \<Rightarrow> db \<Rightarrow> db" where
  "hydrate_snapshot lot_id a d =
     (case row (snapshots d) lot_id of
        None \<Rightarrow> d
      | Some s \<Rightarrow>
          let needs_float = (sn_float_value s = None \<and> a_float_value a \<noteq> None);
              needs_seed = (sn_paint_seed s = None \<and> a_paint_seed a \<noteq> None)
          in if \<not> needs_float \<and> \<not> needs_seed then d
             else d\<lparr>snapshots := AList.update lot_id
               (s\<lparr>sn_float_value := (if needs_float then a_float_value a else sn_float_value s),
                  sn_paint_seed := (if needs_seed then a_paint_seed a else sn_paint_seed s)\<rparr>) (snapshots d)\<rparr>)"

definition get_lot :: "id \<Rightarrow> db \<Rightarrow> id res \<times> db" where
  "get_lot lot_id d =
     (case row (lots d) lot_id of
        None \<Rightarrow> (Inl (AppException ''LOT_NOT_FOUND''), d)
      | Some l \<Rightarrow>
          (Inr lot_id, case row (assets d) (l_asset l) of None \<Rightarrow> d | Some a \<Rightarrow> hydrate_snapshot lot_id a d))"

definition list_my_lots :: "id \<Rightarrow> db \<Rightarrow> id list" where
  "list_my_lots seller d = List.map fst (rev (filter (\<lambda>(_, l). l_seller l = seller) (lots d)))"

definition list_active :: "db \<Rightarrow> id list" where
  "list_active d = List.map fst (rev (filter (\<lambda>(_, l). l_status l = LS_ACTIVE) (lots d)))"

section \<open>The steps of a listing\<close>

lemma assert_eligible_eq_Inr [res_simps]:
  "assert_listing_eligible now a item = Inr u \<longleftrightarrow> a_status a = IA_AVAILABLE \<and> a_tradable a \<and> a_marketable a
     \<and> is_listable (i_market_hash_name item) \<and> (case a_trade_lock_until a of None \<Rightarrow> True | Some t \<Rightarrow> t \<le> now)"
  by (auto simp: assert_listing_eligible_def split: option.splits)

lemma find_Some_mem: "find P xs = Some x \<Longrightarrow> x \<in> set xs \<and> P x"
  by (induction xs) (auto split: if_splits)

lemma newest_lot_Some: "newest_lot aid d = Some (i, l) \<Longrightarrow> (i, l) \<in> set (lots d) \<and> l_asset l = aid"
  by (auto simp: newest_lot_def dest!: find_Some_mem)

lemma newest_lot_None: "newest_lot aid d = None \<longleftrightarrow> (\<forall>(_, l) \<in> set (lots d). l_asset l \<noteq> aid)"
  by (auto simp: newest_lot_def find_None_iff)

lemma priced_fields [simp]:
  "l_price (priced p l) = p" "l_commission (priced p l) = calculate_commission_minor p"
  "l_seller_receive (priced p l) = p - calculate_commission_minor p" "l_asset (priced p l) = l_asset l"
  "l_seller (priced p l) = l_seller l" "l_status (priced p l) = l_status l" "l_reserved_by (priced p l) = l_reserved_by l"
  by (simp_all add: priced_def)

text \<open>The row a listing opens: the old row of the item, or a new one when the item has none.\<close>

lemma open_listing_cases:
  assumes "open_listing seller aid price d = Inr (i, old, d')"
  obtains (reused) l where "newest_lot aid d = Some (i, l)" "\<not> is_listed_status (l_status l)" "old = Some (l_status l)"
      "d' = d\<lparr>lots := AList.update i ((priced price l)\<lparr>l_status := LS_ACTIVE, l_reserved_by := None\<rparr>) (lots d)\<rparr>"
    | (fresh) b l where "newest_lot aid d = None" "draw (bank d) = (i, b)" "old = None" "l_seller l = seller" "l_asset l = aid"
      "l_status l = LS_ACTIVE" "l_reserved_by l = None"
      "d' = d\<lparr>bank := b, lots := lots d @ [(i, priced price l)]\<rparr>"
proof (cases "newest_lot aid d")
  case None
  then have "\<not> (\<exists>(_, l) \<in> set (lots d). l_asset l = aid)" by (auto simp: newest_lot_None)
  with assms None that(2) [of _ "\<lparr>l_seller = seller, l_asset = aid, l_status = LS_ACTIVE, l_price = 0,
      l_commission = 0, l_seller_receive = 0, l_reserved_by = None\<rparr>"] show ?thesis
    by (auto simp: open_listing_def Let_def draw_db_def insert_row_def split: prod.splits)
next
  case (Some p)
  obtain j l where p: "p = (j, l)" by (cases p)
  have ex: "\<exists>(_, l) \<in> set (lots d). l_asset l = aid" using newest_lot_Some [of aid d j l] Some p by auto
  show ?thesis
  proof (cases "is_listed_status (l_status l)")
    case True
    with assms Some p ex show ?thesis by (simp add: open_listing_def Let_def)
  next
    case False
    with assms Some p that(1) show ?thesis by (auto simp: open_listing_def Let_def)
  qed
qed

lemma ensure_item_icon_frame [simp]:
  "lots (ensure_item_icon i s d) = lots d" "assets (ensure_item_icon i s d) = assets d"
  "snapshots (ensure_item_icon i s d) = snapshots d" "orders (ensure_item_icon i s d) = orders d"
  "holds (ensure_item_icon i s d) = holds d" "audit (ensure_item_icon i s d) = audit d"
  "bank (ensure_item_icon i s d) = bank d" "buy_requests (ensure_item_icon i s d) = buy_requests d"
  "trade_ops (ensure_item_icon i s d) = trade_ops d" "lot_events (ensure_item_icon i s d) = lot_events d"
  by (simp_all add: ensure_item_icon_def Let_def)

lemma list_asset_cases:
  assumes "list_asset_tx now seller price aid a item d = Inr (i, d')"
  obtains old d1 where "assert_listing_eligible now a item = Inr ()" "open_listing seller aid price d = Inr (i, old, d1)"
    "lots d' = lots d1" "bank d' = bank d1" "orders d' = orders d" "holds d' = holds d" "audit d' = audit d"
    "buy_requests d' = buy_requests d"
    "row (assets d) aid \<noteq> None" "assets d' = AList.update aid ((the (row (assets d) aid))\<lparr>a_status := IA_LISTED\<rparr>) (assets d)"
    "row (snapshots d') i = Some (listing_snapshot_data a item)"
    "\<exists>e. lot_events d' = lot_events d @ [e] \<and> ev_entity e = i \<and> ev_from e = old \<and> ev_to e = LS_ACTIVE \<and> ev_actor e = Some seller"
proof -
  from assms obtain old d1 where 1: "assert_listing_eligible now a item = Inr ()"
    and 2: "open_listing seller aid price d = Inr (i, old, d1)" and
    3: "set_asset_status aid IA_LISTED (let d = d1\<lparr>snapshots := AList.update i (listing_snapshot_data a item) (snapshots d1)\<rparr>;
         d = ensure_item_icon (a_item a) (i_icon_url item) d
         in case old of
                Some s \<Rightarrow> d\<lparr>lot_events := lot_events d @ [\<lparr>ev_entity = i, ev_from = Some s, ev_to = LS_ACTIVE,
                            ev_actor = Some seller, ev_reason = Some ''relisted''\<rparr>]\<rparr>
              | None \<Rightarrow> record_listed i seller d) = Inr d'"
    by (auto simp: list_asset_tx_def bindE_eq_Inr Let_def split: unit.splits)
  have same: "orders d1 = orders d" "holds d1 = holds d" "audit d1 = audit d" "buy_requests d1 = buy_requests d"
    "assets d1 = assets d" "lot_events d1 = lot_events d"
    using 2 by (auto elim: open_listing_cases)
  from 3 show ?thesis
    by (intro that [OF 1 2])
       (auto simp: Let_def set_asset_status_eq_Inr same record_listed_def row_update split: option.splits)
qed

end
