(* ===== verification/Market.thy ===== *)
theory Market
  imports Backing Lots
begin

text \<open>
  The market as a whole: every call that moves held money or the order it belongs to, as one step
  relation, and the invariant of its reachable states. The first sections show that the remaining
  handlers keep \<open>market_ok\<close>: delivery confirmation, completion by hand, disputes and their
  resolution, the administrator's calls, buy requests and the wallet's own operations.
\<close>

section \<open>Confirmed deliveries\<close>

text \<open>The order after a verified delivery waits for settlement.\<close>

lemma delivery_verified_step:
  assumes "order_transition_by_event oid OS_WAITING_TRADE OE_DELIVERY_VERIFIED actor reason g d = Inr (t, d')"
    and "market_ok d"
  shows "market_ok d'" "map_option o_status (row (orders d') oid) = Some OS_TRADE_CONFIRMED" "holds d' = holds d"
proof -
  have t: "t = OS_TRADE_CONFIRMED"
    using assms(1) by (auto simp: order_transition_by_event_eq_Inr find_order_rule_def order_rules_def)
  show "market_ok d'" by (rule event_stays_open [OF assms]) (simp add: t)
  show "map_option o_status (row (orders d') oid) = Some OS_TRADE_CONFIRMED" "holds d' = holds d"
    using assms(1) t by (auto simp: order_transition_by_event_eq_Inr order_transition_eq_Inr row_update)
qed

lemma release_key_confirmed:
  "map_option o_status (row (orders d) oid) = Some OS_TRADE_CONFIRMED \<Longrightarrow> release_key_unused oid d"
  by (auto simp: release_key_unused_def)

lemma settle_completed_ok:
  "settle_completed_order w now oid key actor d = Inr d' \<Longrightarrow> market_ok d \<Longrightarrow> release_key_unused oid d \<Longrightarrow> market_ok d'"
  using settlement_call_ok [of w now oid "Settle_completed key actor" d d'] by simp

lemma confirm_settlement_ok:
  assumes "confirm_settlement w now so t key d = Inr (st, d')" and ok: "market_ok d"
    and st: "map_option o_status (row (orders d) (so_id so)) = Some OS_TRADE_CONFIRMED"
    and hold: "so_hold so = hold_of (so_id so) d"
  shows "market_ok d'"
proof -
  note rel = release_key_confirmed [OF st]
  obtain x where x: "row (orders d) (so_id so) = Some x" using st by auto
  consider
      (enter) "enter_settlement_hold w now
                 (so\<lparr>so_order := (so_order so)\<lparr>o_status := OS_TRADE_CONFIRMED\<rparr>,
                     so_trade := map_option (\<lambda>(i, t). (i, t\<lparr>t_status := reported_trade_status w\<rparr>)) (so_trade so)\<rparr>)
                 key None d = Inr d'"
    | (settle) r where "try_settle_confirmed_order w now (so_id so) key d = Inr (r, d')"
    | (complete) "settle_completed_order w now (so_id so) key None d = Inr d'"
    using assms(1) by (auto simp: confirm_settlement_def bindE_eq_Inr split: if_splits)
  then show ?thesis
  proof cases
    case enter
    show ?thesis by (rule enter_hold_ok [OF enter ok]) (use x hold in simp_all)
  next
    case settle
    then show ?thesis by (rule try_settle_ok [OF _ ok rel])
  next
    case complete
    then show ?thesis by (rule settle_completed_ok [OF _ ok rel])
  qed
qed

lemma confirm_tx_ok:
  assumes "confirm_tx w now oid evidence d = Inr (i, d')" and ok: "market_ok d"
  shows "market_ok d'"
proof -
  obtain so tid t where so: "load_order oid d = Some so" "so_trade so = Some (tid, t)" and h: "so_hold so \<noteq> None"
    using assms(1) by (auto simp: confirm_tx_def split: option.splits)
  note lo = load_order_Some [OF so(1)]
  consider (same) "d' = d" | (verified) pr st1 d1 st2 d2 st3 d3 where
      "trade_transition_by_event tid (t_status t) TE_DELIVERY_VERIFIED None
         (Some ''TRADE_POLL_CONFIRMED'') (Some pr) None True d = Inr (st1, d1)"
      "order_transition_by_event oid OS_WAITING_TRADE OE_DELIVERY_VERIFIED None
         (Some ''TRADE_POLL_CONFIRMED'') False d1 = Inr (st2, d2)"
      "confirm_settlement w now so t (''poll-settle:'' @ oid) d2 = Inr (st3, d3)" "same_market d3 d'"
  proof (cases "o_status (so_order so) = OS_WAITING_TRADE \<and> t_status t = TS_WAITING
      \<and> bound_delivery_proof w (Some (t_delivery_proof t)) (settlement_anchors so (Some t)) \<noteq> None")
    case True
    with assms(1) so h obtain st1 d1 st2 d2 st3 d3 a where
      "trade_transition_by_event tid (t_status t) TE_DELIVERY_VERIFIED None
         (Some ''TRADE_POLL_CONFIRMED'') (Some (''poll-confirmed-'' @ oid)) None True d = Inr (st1, d1)"
      "order_transition_by_event oid OS_WAITING_TRADE OE_DELIVERY_VERIFIED None
         (Some ''TRADE_POLL_CONFIRMED'') False d1 = Inr (st2, d2)"
      "confirm_settlement w now so t (''poll-settle:'' @ oid) d2 = Inr (st3, d3)" "d' = append_audit a d3"
      by (auto simp only: confirm_tx_def option.case prod.case simp_thms if_False if_True bindE_eq_Inr sum.inject
          prod.inject not_None_eq split_paired_Ex option.distinct)
    then show ?thesis using quiet_steps(5) by (intro that(2)) auto
  next
    case False
    with assms(1) so h have "d' = d" by (auto simp: confirm_tx_def split: if_splits)
    then show ?thesis by (rule that(1))
  qed
  then show ?thesis
  proof cases
    case same
    with ok show ?thesis by simp
  next
    case verified
    have "market_ok d1" using ok quiet_steps(3) [OF verified(1)] by (simp add: market_quiet)
    note v = delivery_verified_step [OF verified(2) this]
    have "so_hold so = hold_of oid d2"
      using lo trade_step_load [OF verified(1) so(1)] v(3) by (simp add: hold_of_def)
    then have "market_ok d3" using lo v(2) by (intro confirm_settlement_ok [OF verified(3) v(1)]) auto
    with verified(4) show ?thesis by (simp add: market_quiet)
  qed
qed

lemma settle_completion_ok:
  assumes "settle_completion w now oid key actor d = Inr (st, d')" and "market_ok d" "release_key_unused oid d"
  shows "market_ok d'"
  using assms by (auto simp: settle_completion_def bindE_eq_Inr split: if_splits intro: try_settle_ok settle_completed_ok)

lemma mock_success_ok:
  assumes "mock_success_tx w now oid actor key role d = Inr (i, d')" and ok: "market_ok d"
  shows "market_ok d'"
proof -
  obtain so tid t where so: "load_order oid d = Some so" "so_trade so = Some (tid, t)"
    using assms(1) by (auto simp: mock_success_tx_def split: option.splits)
  from assms(1) so obtain pr st1 d1 st2 d2 st3 d3 where
    1: "trade_transition_by_event tid (t_status t) TE_DELIVERY_VERIFIED (Some actor)
         (Some ''delivery_verified'') (Some pr) None True d = Inr (st1, d1)" and
    2: "order_transition_by_event oid OS_WAITING_TRADE OE_DELIVERY_VERIFIED (Some actor) None False d1 = Inr (st2, d2)" and
    3: "settle_completion w now oid (''trade-success:'' @ key) actor d2 = Inr (st3, d3)" and
    4: "same_market d3 d'"
    by (auto simp: mock_success_tx_def bindE_eq_Inr same_market_def append_audit_def split: option.splits if_splits)
  have "market_ok d1" using ok quiet_steps(3) [OF 1] by (simp add: market_quiet)
  note v = delivery_verified_step [OF 2 this]
  have "market_ok d3" by (rule settle_completion_ok [OF 3 v(1) release_key_confirmed [OF v(2)]])
  with 4 show ?thesis by (simp add: market_quiet)
qed


section \<open>Disputes and the administrator\<close>

lemma open_system_dispute_ok:
  assumes "open_system_dispute oid code source key actor note details d = Inr (opened, d')" and ok: "market_ok d"
  shows "market_ok d'"
proof -
  consider (same) "d' = d" | (moved) so d1 where "move_to_dispute so code actor d = Inr d1" "same_market d1 d'"
    using assms(1)
    by (auto simp: open_system_dispute_def open_system_dispute_tx_def bindE_eq_Inr Let_def same_market_def
        append_audit_def append_outbox_def split: if_splits option.splits)
  then show ?thesis
  proof cases
    case same
    with ok show ?thesis by simp
  next
    case moved
    from move_to_dispute_ok [OF moved(1) ok] moved(2) show ?thesis by (simp add: market_quiet)
  qed
qed

lemma admin_open_dispute_ok:
  assumes "admin_open_dispute oid actor reason code_opt note_opt key d = Inr d'" and ok: "market_ok d"
  shows "market_ok d'"
proof -
  consider (same) "d' = d" | (moved) so code d1 where "move_to_dispute so code (Some actor) d = Inr d1" "same_market d1 d'"
    using assms(1)
    by (auto simp: admin_open_dispute_def bindE_eq_Inr same_market_def append_audit_def append_outbox_def
        split: if_splits option.splits)
  then show ?thesis
  proof cases
    case same
    with ok show ?thesis by simp
  next
    case moved
    from move_to_dispute_ok [OF moved(1) ok] moved(2) show ?thesis by (simp add: market_quiet)
  qed
qed

text \<open>A key as the caller forms it is unused for the buyer of the order.\<close>

definition buyer_key_unused :: "id \<Rightarrow> string \<Rightarrow> db \<Rightarrow> bool" where
  "buyer_key_unused oid key d \<longleftrightarrow>
     (case row (orders d) oid of None \<Rightarrow> True | Some ord \<Rightarrow> key_unused (o_buyer ord) key d)"

lemma reverse_settlement_hold_ok:
  assumes "reverse_settlement_hold oid reason key actor d = Inr d'" and ok: "market_ok d"
    and "buyer_key_unused oid key d"
  shows "market_ok d'"
proof (cases "find_audit ''order'' oid ''SETTLEMENT_HOLD_REVERSED'' key d")
  case True
  with assms show ?thesis by (simp add: reverse_settlement_hold_def)
next
  case False
  with assms(1) obtain so where so: "load_order oid d = Some so" "reverse_hold_tx so reason key actor d = Inr d'"
    by (auto simp: reverse_settlement_hold_def split: option.splits)
  with load_order_Some [OF so(1)] assms(3) show ?thesis
    by (intro reverse_hold_ok [OF so(2) ok]) (auto simp: buyer_key_unused_def)
qed

lemma admin_reverse_hold_ok:
  assumes "admin_reverse_hold oid actor code note key d = Inr d'" and ok: "market_ok d"
    and "buyer_key_unused oid (settlement_hold_reverse_key oid) d"
  shows "market_ok d'"
proof -
  obtain d1 where 1: "reverse_settlement_hold oid note (settlement_hold_reverse_key oid) (Some actor) d = Inr d1"
    and 2: "same_market d1 d'"
    using assms(1)
    by (auto simp: admin_reverse_hold_def bindE_eq_Inr same_market_def append_audit_def split: if_splits option.splits)
  from reverse_settlement_hold_ok [OF 1 ok assms(3)] 2 show ?thesis by (simp add: market_quiet)
qed

text \<open>What a resolution needs: its key is unused, and when it pays the seller, nothing of the hold was
  released before and the lot's parts are amounts.\<close>

fun resolution_key :: "resolution \<Rightarrow> string \<Rightarrow> string" where
  "resolution_key Resolve_buyer key = ''admin-resolve-buyer:'' @ key"
| "resolution_key Resolve_seller key = ''admin-resolve-seller:'' @ key"

definition resolvable :: "resolution \<Rightarrow> id \<Rightarrow> string \<Rightarrow> db \<Rightarrow> bool" where
  "resolvable res oid key d \<longleftrightarrow> buyer_key_unused oid (resolution_key res key) d
     \<and> (res = Resolve_seller \<longrightarrow>
          (case load_order oid d of
             None \<Rightarrow> True
           | Some so \<Rightarrow> (case so_hold so of None \<Rightarrow> True | Some (_, h) \<Rightarrow> h_released h = 0)
               \<and> 0 \<le> l_seller_receive (so_lot so) \<and> 0 \<le> l_commission (so_lot so)))"

lemma admin_resolve_ok:
  assumes "admin_resolve_dispute oid actor res reason code_opt note_opt key d = Inr d'" and ok: "market_ok d"
    and res: "resolvable res oid key d"
  shows "market_ok d'"
proof -
  consider (same) "d' = d" | (resolved) so hid h code msg d1 where
      "load_order oid d = Some so" "so_hold so = Some (hid, h)" "o_status (so_order so) = OS_DISPUTE"
      "(case res of Resolve_buyer \<Rightarrow> resolve_for_buyer | Resolve_seller \<Rightarrow> resolve_for_seller) so hid h code actor key d
         = Inr d1"
      "d' = resolution_records res oid h code msg actor key d1"
    using assms(1)
    by (auto simp: admin_resolve_dispute_def bindE_eq_Inr split: if_splits option.splits)
  then show ?thesis
  proof cases
    case same
    with ok show ?thesis by simp
  next
    case resolved
    note lo = load_order_Some [OF resolved(1)]
    have "market_ok d1"
    proof (cases res)
      case Resolve_buyer
      with resolved lo res show ?thesis
        by (intro resolve_for_buyer_ok [OF _ ok, where so = so and hid = hid and h = h and code = code and actor = actor and key = key])
           (auto simp: resolvable_def buyer_key_unused_def)
    next
      case Resolve_seller
      with resolved lo res show ?thesis
        by (intro resolve_for_seller_ok [OF _ ok, where so = so and hid = hid and h = h and code = code and actor = actor and key = key])
           (auto simp: resolvable_def buyer_key_unused_def)
    qed
    with resolved(5) show ?thesis using quiet_resolution market_quiet by metis
  qed
qed

lemma admin_retry_ok:
  assumes "admin_retry_settlement w now oid actor key d = Inr d'" and ok: "market_ok d"
    and rel: "release_key_unused oid d"
  shows "market_ok d'"
proof -
  obtain ord where ord: "row (orders d) oid = Some ord" "key \<noteq> []"
    using assms(1) by (auto simp: admin_retry_settlement_def split: if_splits option.splits)
  with assms(1) obtain r d1 a where
    1: "(if o_status ord = OS_SETTLEMENT_HOLD then release_due_settlement_hold w now oid d
         else try_settle_confirmed_order w now oid (''admin-retry-settle:'' @ key) d) = Inr (r, d1)" and
    2: "d' = append_audit a d1"
    by (auto simp: admin_retry_settlement_def bindE_eq_Inr simp del: append_Cons split del: if_split)
  have "market_ok d1"
  proof (cases "o_status ord = OS_SETTLEMENT_HOLD")
    case True
    with 1 have "exec_settlement w now oid Release_due d = Inr d1" by (simp add: bindE_eq_Inr)
    then show ?thesis by (rule settlement_call_ok [OF _ ok rel])
  next
    case False
    with 1 show ?thesis using try_settle_ok [OF _ ok rel] by simp
  qed
  with 2 show ?thesis using market_quiet [OF quiet_steps(5)] by simp
qed

lemma admin_change_lot_ok:
  assumes "admin_change_lot action required target asset_target message lot_id actor reason key d = Inr d'"
  shows "same_market d d'"
  using assms
  by (auto simp: admin_change_lot_def bindE_eq_Inr lot_transition_eq_Inr set_asset_status_eq_Inr same_market_def
      append_audit_def split: if_splits option.splits)


section \<open>Buy requests and the wallet's own operations\<close>

text \<open>The wallet's own operations move available and frozen money only.\<close>

fun wallet_op :: "ledger_op \<Rightarrow> bool" where
  "wallet_op (Deposit u a key meta) \<longleftrightarrow> True"
| "wallet_op (Withdraw u a fee net key req frozen meta) \<longleftrightarrow> True"
| "wallet_op (Freeze u a) \<longleftrightarrow> True"
| "wallet_op (Unfreeze u a) \<longleftrightarrow> True"
| "wallet_op (Refund_withdrawal u a key reason req) \<longleftrightarrow> True"
| "wallet_op (Adjust u a reason actor key) \<longleftrightarrow> True"
| "wallet_op _ \<longleftrightarrow> False"

definition held_still :: "bank \<Rightarrow> bank \<Rightarrow> bool" where
  "held_still b b' \<longleftrightarrow> b' = b
     \<or> (\<exists>ds es. posts b ds es b' \<and> same_frame b b' \<and> (\<forall>w. delta_at w AT_HOLD ds = 0))"

lemma held_still_refl [simp]: "held_still b b"
  by (simp add: held_still_def)

lemma held_still_fresh: "fresh_op b w key r ds es b' \<Longrightarrow> \<forall>w. delta_at w AT_HOLD ds = 0 \<Longrightarrow> held_still b b'"
  by (auto simp: held_still_def fresh_op_def)

lemma held_still_effect:
  assumes "held_still b0 b'" and "ensure_user_wallet u b = (w, b0)" and "bank_wf b"
  shows "bank_wf b' \<and> bank_grows b b' \<and> heldb v b' = heldb v b"
  using assms(1) held_quiet [OF assms(2,3), of _ _ b' AT_HOLD v] ensure_user_wallet_held [OF assms(2,3), of AT_HOLD v]
  unfolding held_still_def by (elim disjE exE conjE) (simp, blast)

lemma wallet_op_held:
  assumes "exec_op op b = Inr (r, b')" and "wallet_op op" and wf: "bank_wf b"
  shows "bank_wf b' \<and> bank_grows b b' \<and> heldb v b' = heldb v b"
proof -
  have "\<exists>u. held_still (snd (ensure_user_wallet u b)) b'"
  proof (cases op)
    case (Deposit u a key meta)
    then obtain x where "deposit u a key meta b = Inr (x, b')" using assms(1) by (auto simp: bindE_eq_Inr)
    then have "held_still (snd (ensure_user_wallet u b)) b'"
      by (rule deposit_cases [OF _ prod.collapse [symmetric]]) (auto dest: held_still_fresh)
    then show ?thesis by blast
  next
    case (Withdraw u a fee net key req frozen meta)
    then obtain x where "withdraw u a fee net key req frozen meta b = Inr (x, b')" using assms(1) by (auto simp: bindE_eq_Inr)
    then have "held_still (snd (ensure_user_wallet u b)) b'"
      by (rule withdraw_cases [OF _ prod.collapse [symmetric]]) (auto dest: held_still_fresh)
    then show ?thesis by blast
  next
    case (Refund_withdrawal u a key reason req)
    then obtain x where "refund_withdrawal u a key reason req b = Inr (x, b')" using assms(1) by (auto simp: bindE_eq_Inr)
    then have "held_still (snd (ensure_user_wallet u b)) b'"
      by (rule refund_withdrawal_cases [OF _ prod.collapse [symmetric]]) (auto dest: held_still_fresh)
    then show ?thesis by blast
  next
    case (Adjust u a reason actor key)
    then obtain x p where "adjust_wallet u a reason actor key b = Inr ((x, p), b')" using assms(1) by (auto simp: bindE_eq_Inr)
    then have "held_still (snd (ensure_user_wallet u b)) b'"
      by (rule adjust_wallet_cases [OF _ prod.collapse [symmetric]]) (auto dest: held_still_fresh)
    then show ?thesis by blast
  next
    case (Freeze u a)
    then have "freeze_for_withdrawal u a b = Inr b'" using assms(1) by (auto simp: bindE_eq_Inr)
    from freeze_for_withdrawal_posts [OF this prod.collapse [symmetric]]
    show ?thesis by (auto simp: held_still_def intro!: exI [of _ u])
  next
    case (Unfreeze u a)
    then have "release_withdraw_hold u a b = Inr b'" using assms(1) by (auto simp: bindE_eq_Inr)
    from release_withdraw_hold_posts [OF this prod.collapse [symmetric]]
    show ?thesis by (auto simp: held_still_def intro!: exI [of _ u])
  qed (use assms(2) in simp_all)
  then show ?thesis using held_still_effect [OF _ prod.collapse [symmetric] wf] by blast
qed

lemma wallet_call_ok:
  assumes "exec_op op (bank d) = Inr (r, b)" and "wallet_op op" and ok: "market_ok d"
  shows "market_ok (d\<lparr>bank := b\<rparr>)"
proof -
  have "bank_wf (bank d)" using ok by (simp add: market_ok_def market_base_def)
  from wallet_op_held [OF assms(1,2) this] show ?thesis by (intro market_bank [OF ok]) auto
qed

text \<open>An operation of a user whose wallet is created on the way is the operation after the creation.\<close>

lemma ensure_user_wallet_twice: "ensure_user_wallet u (snd (ensure_user_wallet u b)) = ensure_user_wallet u b"
  using ensure_user_wallet_exists has_wallet_ensure by (metis prod.collapse)

lemma reserve_request_held_any:
  assumes "reserve_buy_request_hold u req a key b = Inr (r, b')" and wf: "bank_wf b"
    and "unused b (fst (ensure_user_wallet u b)) key"
  shows "bank_wf b' \<and> bank_grows b b' \<and> heldb v b' = heldb v b + (if v = u then a else 0) \<and> 0 < a"
proof -
  obtain w b0 where e: "ensure_user_wallet u b = (w, b0)" by (cases "ensure_user_wallet u b")
  have e0: "ensure_user_wallet u b0 = (w, b0)" using ensure_user_wallet_twice [of u b] e by simp
  note h = ensure_user_wallet_held [OF e wf, of AT_HOLD v]
  have r0: "reserve_buy_request_hold u req a key b0 = Inr (r, b')" "0 < a"
    using assms(1) e e0 by (auto simp: reserve_buy_request_hold_def split: if_splits)
  have w: "has_wallet u w b0" using ensure_user_wallet_exists [OF e] by simp
  have un: "unused b0 w key" using assms(3) e ensure_entries [OF e] by (simp add: unused_def)
  have "bank_wf b0" using h by simp
  from reserve_request_held [OF r0(1) this w un, of v] h r0(2) bank_grows_trans [of b b0 b'] show ?thesis by simp
qed

lemma create_request_ok:
  assumes "create_request_tx u item m q now d = Inr (i, d')" and ok: "market_ok d" and "0 < m" "1 \<le> q"
    and key: "key_unused u (''buy-request-reserve:'' @ fst (draw_db d)) (snd (draw_db d))"
  shows "market_ok d'"
proof -
  obtain j b1 where dr: "draw (bank d) = (j, b1)" by (cases "draw (bank d)")
  define r where "r = \<lparr>br_buyer = u, br_item = item, br_max_price = Some m, br_quantity = q,
      br_filled = 0, br_reserved = Some (m * q), br_status = BR_OPEN,
      br_created_at = now, br_last_lot = None, br_last_price = None\<rparr>"
  from assms(1) dr obtain x b where b: "reserve_buy_request_hold u j (m * q) (''buy-request-reserve:'' @ j) b1 = Inr (x, b)"
    "d' = d\<lparr>bank := b, buy_requests := insert_row j r (buy_requests d)\<rparr>"
    by (auto simp: create_request_tx_def draw_db_def bindE_eq_Inr r_def)
  have base: "market_base d" and gap: "gap v d = 0" for v using ok by (auto simp: market_ok_def)
  have wf: "bank_wf (bank d)" and req: "requests_ok d" using base by (auto simp: market_base_def)
  note b1 = bank_wf_draw [OF dr wf]
  have j: "j \<notin> drawn d" using base dr by (auto simp: market_base_def draw_def)
  then have new: "row (buy_requests d) j = None" by (simp add: drawn_def row_None_iff)
  have un: "unused b1 (fst (ensure_user_wallet u b1)) (''buy-request-reserve:'' @ j)"
    using key dr by (simp add: key_unused_def draw_db_def)
  note h = reserve_request_held_any [OF b(1) conjunct1 [OF b1] un]
  have "reserved_total v d' = reserved_total v d + (if v = u then m * q else 0)" for v
    using b(2) by (simp add: reserved_total_def tsum_insert_row r_def release_amount_def)
  then have "gap v d' = 0" for v
    using h [of v] b1 [of v] gap [of v] b(2) claims_same [of d' d v] by (simp add: gap_def)
  moreover have "market_base d'"
  proof (rule market_base_requests [OF base])
    have "request_ok r" using assms(3,4) by (simp add: request_ok_def r_def)
    then show "requests_ok d'" using req new b(2) by (auto simp: requests_ok_def insert_row_def row_None_iff)
    show "bank_grows (bank d) (bank d')" using b(2) h b1 bank_grows_trans [of "bank d" b1 b] by simp
    fix n assume n: "uuid_next (bank d') \<le> n"
    have grows: "bank_grows b1 b" using h by simp
    have old: "uuid_seq b n \<notin> set (keys (buy_requests d))"
      using request_id_fresh [OF base, of b n] b1 grows bank_grows_trans [of "bank d" b1 b] n b(2) by simp
    have "uuid_seq (bank d) n \<noteq> j"
      using dr n b(2) grows wf injD [of "uuid_seq (bank d)" n "uuid_next (bank d)"]
      by (auto simp: draw_def bank_grows_def bank_wf_def)
    then show "uuid_seq (bank d') n \<notin> set (keys (buy_requests d'))"
      using old b(2) dr grows by (auto simp: insert_row_def bank_grows_def draw_def)
  qed (use b h in auto)
  ultimately show ?thesis by (simp add: market_ok_def)
qed


lemma close_request_market_ok:
  assumes "close_request_tx st key i snap d = Inr ((), d')" and ok: "market_ok d" and "st \<noteq> BR_OPEN"
    and owner: "\<And>r. row (buy_requests d) i = Some r \<Longrightarrow> br_buyer r = br_buyer snap"
    and w: "has_wallet (br_buyer snap) w (bank d)" and key: "unused (bank d) w key"
  shows "market_ok d'"
proof -
  have base: "market_base d" and gap: "gap v d = 0" for v using ok by (auto simp: market_ok_def)
  have wf: "bank_wf (bank d)" and req: "requests_ok d" using base by (auto simp: market_base_def)
  have dist: "distinct (keys (buy_requests d))" using req by (simp add: requests_ok_def)
  from assms(1) dist show ?thesis
  proof (cases rule: close_request_cases)
    case lost
    with ok show ?thesis by simp
  next
    case (closed r b)
    let ?r = "r\<lparr>br_status := st, br_reserved := Some 0\<rparr>"
    have rel: "release_amount r = release_amount snap" using closed(2) by (simp add: claimable_def release_amount_def)
    have pos: "0 \<le> release_amount r"
      using requests_okD [OF req closed(1)] by (auto simp: request_ok_def release_amount_def split: option.splits)
    have b: "bank_wf b \<and> bank_grows (bank d) b
        \<and> heldb v b = heldb v (bank d) - (if v = br_buyer snap then release_amount r else 0)" for v
      using closed(4) rel pos release_request_held [OF _ wf w key] wf by (auto split: if_splits)
    have "reserved_total v d' = reserved_total v d - (if v = br_buyer snap then release_amount r else 0)" for v
      using reserved_total_update [OF req closed(1), of ?r v] owner [OF closed(1)] closed(3)
      by (auto simp: reserved_total_def release_amount_def)
    then have "gap v d' = 0" for v using b [of v] gap [of v] closed(3) claims_same [of d' d v] by (simp add: gap_def)
    moreover have "market_base d'"
    proof (rule market_base_requests [OF base])
      show "requests_ok d'" by (rule close_request_ok [OF assms(1) req assms(3)])
      fix n assume "uuid_next (bank d') \<le> n"
      moreover have "keys (buy_requests d') = keys (buy_requests d)" using closed(1,3) by simp
      ultimately show "uuid_seq (bank d') n \<notin> set (keys (buy_requests d'))"
        using request_id_fresh [OF base _, of b n] b closed(3) by simp
    qed (use b closed(3) in auto)
    ultimately show ?thesis by (simp add: market_ok_def)
  qed
qed


lemma shadow_compare_ok:
  assumes "shadow_compare_tx oid actor key role d = Inr (i, d')" and ok: "market_ok d"
  shows "market_ok d'"
proof -
  obtain j d1 where dr: "draw_db d = (j, d1)" by (cases "draw_db d")
  have "same_market d1 d'"
    using assms(1) dr
    by (auto simp: shadow_compare_tx_def record_snapshot_def bindE_eq_Inr Let_def same_market_def append_audit_def
        append_outbox_def split: option.splits)
  with market_draw [OF dr ok] show ?thesis by (simp add: market_quiet)
qed

section \<open>The market's calls\<close>

datatype market_call =
    Buy id id string
  | Cancel_order id id string
  | Confirm_delivery id delivery_evidence
  | Complete_by_hand id id string user_role
  | Compare_by_hand id id string user_role
  | Fail_by_hand id id string fail_mode "string option" user_role
  | Fail_by_poll id string fail_mode
  | Time_out id "id option" string string
  | Settlement id settlement_call
  | Reverse_settlement id string string "id option"
  | System_dispute id string reason_source string "id option" "string option" json
  | Admin_dispute id id "string option" "string option" "string option" string
  | Resolve_dispute id id resolution "string option" "string option" "string option" string
  | Admin_reverse id id string string string
  | Admin_retry id id string
  | List_item id int id asset item_definition
  | Reprice_lot id id int int
  | Withdraw_lot id id
  | Change_lot string lot_status lot_status asset_status string id id string string
  | Ask_to_buy id id int int
  | Close_ask buy_request_status string id buy_request
  | Wallet_call ledger_op

text \<open>One committed transaction of a handler, at the instant \<open>now\<close> of the world \<open>w\<close>.\<close>

fun exec_market :: "world \<Rightarrow> int \<Rightarrow> market_call \<Rightarrow> db \<Rightarrow> db res" where
  "exec_market w now (Buy buyer lot_id key) d =
     bindE (create_order_tx w now buyer lot_id key d) (\<lambda>(_, d). Inr d)"
| "exec_market w now (Cancel_order buyer oid key) d = bindE (cancel_order_tx buyer oid key d) (\<lambda>(_, d). Inr d)"
| "exec_market w now (Confirm_delivery oid evidence) d = bindE (confirm_tx w now oid evidence d) (\<lambda>(_, d). Inr d)"
| "exec_market w now (Complete_by_hand oid actor key role) d =
     bindE (mock_success_tx w now oid actor key role d) (\<lambda>(_, d). Inr d)"
| "exec_market w now (Compare_by_hand oid actor key role) d =
     bindE (shadow_compare_tx oid actor key role d) (\<lambda>(_, d). Inr d)"
| "exec_market w now (Fail_by_hand oid actor key mode reason role) d =
     bindE (mock_fail_tx w oid actor key mode reason role d) (\<lambda>(_, d). Inr d)"
| "exec_market w now (Fail_by_poll oid reason mode) d = bindE (poll_fail_tx oid reason mode d) (\<lambda>(_, d). Inr d)"
| "exec_market w now (Time_out oid actor key action) d =
     bindE (trade_timeout_tx w oid actor key action d) (\<lambda>(_, d). Inr d)"
| "exec_market w now (Settlement oid c) d = exec_settlement w now oid c d"
| "exec_market w now (Reverse_settlement oid reason key actor) d = reverse_settlement_hold oid reason key actor d"
| "exec_market w now (System_dispute oid code source key actor msg details) d =
     bindE (open_system_dispute oid code source key actor msg details d) (\<lambda>(_, d). Inr d)"
| "exec_market w now (Admin_dispute oid actor reason code msg key) d = admin_open_dispute oid actor reason code msg key d"
| "exec_market w now (Resolve_dispute oid actor res reason code msg key) d =
     admin_resolve_dispute oid actor res reason code msg key d"
| "exec_market w now (Admin_reverse oid actor code msg key) d = admin_reverse_hold oid actor code msg key d"
| "exec_market w now (Admin_retry oid actor key) d = admin_retry_settlement w now oid actor key d"
| "exec_market w now (List_item seller price aid a item) d =
     bindE (list_asset_tx now seller price aid a item d) (\<lambda>(_, d). Inr d)"
| "exec_market w now (Reprice_lot seller lot_id old_price price) d = update_price_tx seller lot_id old_price price d"
| "exec_market w now (Withdraw_lot lot_id aid) d = cancel_lot_tx lot_id aid d"
| "exec_market w now (Change_lot action req target asset msg lot_id actor reason key) d =
     admin_change_lot action req target asset msg lot_id actor reason key d"
| "exec_market w now (Ask_to_buy u item m q) d = bindE (create_request_tx u item m q now d) (\<lambda>(_, d). Inr d)"
| "exec_market w now (Close_ask st key i snap) d = bindE (close_request_tx st key i snap d) (\<lambda>(_, d). Inr d)"
| "exec_market w now (Wallet_call op) d =
     (if wallet_op op then bindE (exec_op op (bank d)) (\<lambda>(_, b). Inr (d\<lparr>bank := b\<rparr>))
      else Inl (BadRequest ''not a wallet call''))"

text \<open>What the callers provide: a ledger key that this wallet has not used yet, and what the data
  transfer objects validate. The seller's resolution also needs that nothing was released.\<close>

fun market_call_wf :: "market_call \<Rightarrow> db \<Rightarrow> bool" where
  "market_call_wf (Buy buyer lot_id key) d \<longleftrightarrow> create_keys_unused buyer key d"
| "market_call_wf (Cancel_order buyer oid key) d \<longleftrightarrow> key_unused buyer (''order-cancel:'' @ key) d"
| "market_call_wf (Fail_by_hand oid actor key mode reason role) d \<longleftrightarrow> buyer_key_unused oid (''trade-fail-safe:'' @ key) d"
| "market_call_wf (Fail_by_poll oid reason mode) d \<longleftrightarrow>
     buyer_key_unused oid (''poll-fail-safe:'' @ poll_fail_key oid reason) d"
| "market_call_wf (Settlement oid c) d \<longleftrightarrow> release_key_unused oid d"
| "market_call_wf (Admin_retry oid actor key) d \<longleftrightarrow> release_key_unused oid d"
| "market_call_wf (Reverse_settlement oid reason key actor) d \<longleftrightarrow> buyer_key_unused oid key d"
| "market_call_wf (Admin_reverse oid actor code msg key) d \<longleftrightarrow>
     buyer_key_unused oid (settlement_hold_reverse_key oid) d"
| "market_call_wf (Resolve_dispute oid actor res reason code msg key) d \<longleftrightarrow> resolvable res oid key d"
| "market_call_wf (Ask_to_buy u item m q) d \<longleftrightarrow> 0 < m \<and> 1 \<le> q
     \<and> key_unused u (''buy-request-reserve:'' @ fst (draw_db d)) (snd (draw_db d))"
| "market_call_wf (Close_ask st key i snap) d \<longleftrightarrow> st \<noteq> BR_OPEN
     \<and> (case find_wallet (bank d) (br_buyer snap) of
          None \<Rightarrow> False | Some w \<Rightarrow> has_wallet (br_buyer snap) w (bank d) \<and> unused (bank d) w key)
     \<and> (case row (buy_requests d) i of None \<Rightarrow> True | Some r \<Rightarrow> br_buyer r = br_buyer snap)"
| "market_call_wf _ d \<longleftrightarrow> True"

text \<open>Lots are listed, repriced and taken back without touching the money.\<close>

lemma open_listing_market_ok:
  assumes "open_listing seller aid price d = Inr (i, old, d')" and ok: "market_ok d"
  shows "market_ok d'"
  using assms(1)
proof (cases rule: open_listing_cases)
  case (reused l)
  then have "same_market d d'" by (simp add: same_market_def)
  with ok show ?thesis by (simp add: market_quiet)
next
  case (fresh b l)
  have "draw_db d = (i, d\<lparr>bank := b\<rparr>)" using fresh(2) by (simp add: draw_db_def)
  from market_draw [OF this ok] have "market_ok (d\<lparr>bank := b\<rparr>)" .
  moreover have "same_market (d\<lparr>bank := b\<rparr>) d'" using fresh(8) by (simp add: same_market_def)
  ultimately show ?thesis by (simp add: market_quiet)
qed

lemma list_asset_market_ok:
  assumes "list_asset_tx now seller price aid a item d = Inr (i, d')" and ok: "market_ok d"
  shows "market_ok d'"
  using assms(1)
proof (cases rule: list_asset_cases)
  case (1 old d1)
  have "orders d1 = orders d" "holds d1 = holds d" "buy_requests d1 = buy_requests d"
    using 1(2) by (auto elim: open_listing_cases)
  with 1 have "same_market d1 d'" by (simp add: same_market_def)
  with open_listing_market_ok [OF 1(2) ok] show ?thesis by (simp add: market_quiet)
qed

lemma lot_calls_quiet:
  "update_price_tx seller lot_id old_price price d = Inr d' \<Longrightarrow> same_market d d'"
  "cancel_lot_tx lot_id aid d = Inr d' \<Longrightarrow> same_market d d'"
  by (auto simp: update_price_tx_def cancel_lot_tx_def bindE_eq_Inr set_asset_status_eq_Inr same_market_def)

lemma exec_market_ok:
  assumes "exec_market w now c d = Inr d'" and "market_call_wf c d" and ok: "market_ok d"
  shows "market_ok d'"
proof (cases c)
  case (Fail_by_hand oid actor key mode reason role)
  with assms show ?thesis
    by (auto simp: bindE_eq_Inr buyer_key_unused_def split: option.splits elim!: mock_fail_ok)
next
  case (Fail_by_poll oid reason mode)
  with assms show ?thesis
    by (auto simp: bindE_eq_Inr buyer_key_unused_def split: option.splits elim!: poll_fail_ok)
next
  case (Change_lot action req target asset msg lot_id actor reason key)
  with assms(1) have "admin_change_lot action req target asset msg lot_id actor reason key d = Inr d'" by simp
  from market_quiet [OF admin_change_lot_ok [OF this]] ok show ?thesis by simp
next
  case (List_item seller price aid a item)
  with assms show ?thesis by (auto simp: bindE_eq_Inr intro: list_asset_market_ok)
next
  case (Reprice_lot seller lot_id old_price price)
  with assms(1) have "same_market d d'" by (simp add: lot_calls_quiet)
  with ok show ?thesis by (simp add: market_quiet)
next
  case (Withdraw_lot lot_id aid)
  with assms(1) have "same_market d d'" by (simp add: lot_calls_quiet)
  with ok show ?thesis by (simp add: market_quiet)
next
  case (Close_ask st key i snap)
  with assms show ?thesis
    by (auto simp: bindE_eq_Inr split: option.splits intro: close_request_market_ok)
next
  case (Wallet_call op)
  with assms show ?thesis by (auto simp: bindE_eq_Inr split: if_splits intro: wallet_call_ok)
next
  case (Resolve_dispute oid actor res reason code msg key)
  with assms show ?thesis by (auto intro: admin_resolve_ok)
qed (use assms in \<open>auto simp: bindE_eq_Inr simp del: exec_settlement.simps
       intro: create_order_ok cancel_order_ok confirm_tx_ok mock_success_ok
      shadow_compare_ok trade_timeout_ok settlement_call_ok reverse_settlement_hold_ok open_system_dispute_ok
      admin_open_dispute_ok admin_reverse_hold_ok admin_retry_ok create_request_ok\<close>)

text \<open>The states the market can reach. The world may be another one at every step.\<close>

inductive market_step :: "db \<Rightarrow> db \<Rightarrow> bool" where
  call: "exec_market w now c d = Inr d' \<Longrightarrow> market_call_wf c d \<Longrightarrow> market_step d d'"

inductive_cases market_stepE: "market_step d d'"

definition market_start :: "db \<Rightarrow> bool" where
  "market_start d \<longleftrightarrow> orders d = [] \<and> holds d = [] \<and> buy_requests d = [] \<and> bank_wf (bank d)
     \<and> (\<forall>u. heldb u (bank d) = 0)"

lemma market_start_ok: "market_start d \<Longrightarrow> market_ok d"
  by (auto simp: market_start_def market_ok_def market_base_def gap_def claims_def reserved_total_def drawn_def
      requests_ok_def hold_of_def holds_linked_def)

lemma market_step_ok: "market_step d d' \<Longrightarrow> market_ok d \<Longrightarrow> market_ok d'"
  by (elim market_stepE) (rule exec_market_ok)

lemma market_steps_ok: "market_step\<^sup>*\<^sup>* d d' \<Longrightarrow> market_ok d \<Longrightarrow> market_ok d'"
  by (induction rule: rtranclp_induct) (auto intro: market_step_ok)


section \<open>Nobody's claim exceeds what is held\<close>

lemma claim_nonneg: "market_ok d \<Longrightarrow> row (orders d) i = Some x \<Longrightarrow> 0 \<le> order_claim (holds d) i x"
  using market_baseD(2) [of d i x]
  by (auto simp: market_ok_def order_claim_hold_of claim_amount_def hold_fits_def split: option.splits if_splits)

lemma tsum_ge_row:
  assumes "distinct (keys t)" and "row t k = Some v" and "\<And>k x. row t k = Some x \<Longrightarrow> 0 \<le> f k x"
  shows "f k v \<le> tsum f t"
  using assms
proof (induction t)
  case (Cons p t)
  obtain a b where p: "p = (a, b)" by (cases p)
  have tail: "0 \<le> f i x" if "row t i = Some x" for i x
  proof -
    have "i \<noteq> a" using that Cons.prems(1) p row_Some_mem by force
    then show ?thesis using Cons.prems(3) [of i x] that p by simp
  qed
  have sum: "0 \<le> tsum f t" using tail Cons.prems(1) p by (intro tsum_nonneg) (auto simp: mem_row)
  show ?case
  proof (cases "a = k")
    case True
    with Cons.prems p sum show ?thesis by simp
  next
    case False
    have "0 \<le> f a b" using Cons.prems(3) [of a b] p by simp
    with Cons.IH Cons.prems p tail False show ?thesis by fastforce
  qed
qed simp

lemma claim_covered:
  assumes ok: "market_ok d" and ord: "row (orders d) oid = Some ord"
  shows "order_claim (holds d) oid ord \<le> heldb (o_buyer ord) (bank d)"
proof -
  have dist: "distinct (keys (orders d))" "requests_ok d" using ok by (auto simp: market_ok_def market_base_def)
  have "order_claim (holds d) oid ord \<le> claims (o_buyer ord) d"
    using tsum_ge_row [OF dist(1) ord, of "\<lambda>i x. if o_buyer x = o_buyer ord then order_claim (holds d) i x else 0"]
      claim_nonneg [OF ok] by (simp add: claims_def)
  moreover have "0 \<le> reserved_total (o_buyer ord) d"
  proof -
    have "0 \<le> release_amount r" if "(i, r) \<in> set (buy_requests d)" for i r
      using dist(2) that by (fastforce simp: requests_ok_def request_ok_def release_amount_def split: option.splits)
    then show ?thesis unfolding reserved_total_def by (intro tsum_nonneg) auto
  qed
  moreover have "gap (o_buyer ord) d = 0" using ok by (simp add: market_ok_def)
  ultimately show ?thesis by (simp add: gap_def)
qed

text \<open>The refund of an order whose hold is still there cannot fail.\<close>

lemma refund_possible:
  assumes ok: "market_ok d" and ord: "row (orders d) oid = Some ord" and hold: "hold_of oid d = Some (hid, h)"
    and "is_open_status (o_status ord)" "o_status ord \<noteq> OS_DISPUTE \<or> h_released h = 0"
    and key: "key_unused (o_buyer ord) key d"
  shows "\<exists>r b. refund_hold (o_buyer ord) oid hid (h_amount h) key (bank d) = Inr (r, b)"
proof -
  obtain w where w: "has_wallet (o_buyer ord) w (bank d)" "unused (bank d) w key" by (rule buyer_key [OF ok ord key])
  note c = open_claim [OF ok ord hold assms(4,5)]
  have "h_amount h \<le> bal (bank d) w AT_HOLD"
    using claim_covered [OF ok ord] hold c(1) accountb_has_wallet [OF w(1)] by (simp add: order_claim_hold_of)
  then show ?thesis using c(3) by (intro refund_hold_total [OF w])
qed


section \<open>The theorems of the market\<close>

text \<open>A market with one lot for sale and a buyer who pays in 500, for the applications.\<close>

definition demo_market_start :: db where
  "demo_market_start = (empty_db demo_ids)\<lparr>
     assets := [(''a1'', \<lparr>a_owner = ''seller'', a_item = ''item'', a_external_id = ''456'', a_status = IA_LISTED,
        a_tradable = True, a_marketable = True, a_trade_lock_until = None, a_float_value = None,
        a_paint_seed = None, a_wear = None, a_stickers = None\<rparr>)],
     lots := [(''l1'', \<lparr>l_seller = ''seller'', l_asset = ''a1'', l_status = LS_ACTIVE, l_price = 100,
        l_commission = 5, l_seller_receive = 95, l_reserved_by = None\<rparr>)]\<rparr>"

definition demo_market_calls :: "market_call list" where
  "demo_market_calls = [Wallet_call (Deposit ''buyer'' 500 ''d1'' None), Buy ''buyer'' ''l1'' ''p1'',
     Ask_to_buy ''buyer'' ''item'' 40 3]"

fun run_market :: "market_call list \<Rightarrow> db \<Rightarrow> db option" where
  "run_market [] d = Some d"
| "run_market (c # cs) d =
     (if market_call_wf c d
      then (case exec_market demo_world 0 c d of Inl _ \<Rightarrow> None | Inr d' \<Rightarrow> run_market cs d') else None)"

lemma run_market_steps: "run_market cs d = Some d' \<Longrightarrow> market_step\<^sup>*\<^sup>* d d'"
  by (induction cs arbitrary: d)
     (auto split: if_splits sum.splits intro: converse_rtranclp_into_rtranclp market_step.call)

definition demo_market :: "market_call list \<Rightarrow> db" where
  "demo_market cs = the (run_market (demo_market_calls @ cs) demo_market_start)"

lemma demo_market_start: "market_start demo_market_start"
  using demo_ids_inj
  by (simp add: market_start_def demo_market_start_def empty_db_def bank_wf_def seen_ids_def accountb_def
      empty_bank_def find_wallet_def)

lemma demo_market_runs:
  "run_market (demo_market_calls @ cs) demo_market_start \<noteq> None \<Longrightarrow> market_step\<^sup>*\<^sup>* demo_market_start (demo_market cs)"
  by (auto simp: demo_market_def dest: run_market_steps)

definition demo_asked :: db where
  "demo_asked = demo_market []"

lemma demo_asked_reached: "market_step\<^sup>*\<^sup>* demo_market_start demo_asked"
proof -
  have "run_market (demo_market_calls @ []) demo_market_start \<noteq> None" by code_simp
  then show ?thesis unfolding demo_asked_def by (rule demo_market_runs)
qed

lemma demo_asked_held: "heldb ''buyer'' (bank demo_asked) = 220"
  by code_simp




definition demo_order_id :: id where
  "demo_order_id = hd (keys (orders demo_asked))"

lemma demo_asked_rows:
  "map_option o_status (row (orders demo_asked) demo_order_id) = Some OS_WAITING_TRADE"
  "map_option (\<lambda>(_, h). h_amount h) (hold_of demo_order_id demo_asked) = Some 100"
  by code_simp+



text \<open>The refund's steps, each of which finds its rows.\<close>

lemma resolve_for_buyer_possible:
  assumes ok: "market_ok d" and so: "load_order oid d = Some so" "so_hold so = Some (hid, h)"
    and st: "o_status (so_order so) = OS_DISPUTE" "h_released h = 0"
    and lot: "l_status (so_lot so) = LS_BLOCKED" "row (assets d) (l_asset (so_lot so)) \<noteq> None"
    and key: "key_unused (o_buyer (so_order so)) (''admin-resolve-buyer:'' @ key) d"
  shows "\<exists>d'. resolve_for_buyer so hid h code actor key d = Inr d'"
proof -
  note lo = load_order_Some [OF so(1)]
  have ord: "row (orders d) oid = Some (so_order so)" and hold: "hold_of oid d = Some (hid, h)" using lo so(2) by auto
  note c = open_claim [OF ok ord hold] st
  from refund_possible [OF ok ord hold _ _ key] st obtain r b where
    b: "refund_hold (o_buyer (so_order so)) oid hid (h_amount h) (''admin-resolve-buyer:'' @ key) (bank d) = Inr (r, b)"
    by auto
  have "assert_resolve_buyer_allowed h = Inr ()" using c by (simp add: assert_resolve_buyer_allowed_def)
  moreover have "row (holds d) hid = Some h" using hold_order [OF ok hold] by simp
  moreover obtain l where "row (lots d) (o_lot (so_order so)) = Some l" using lo by auto
  ultimately show ?thesis
    using b lo ord st lot
    by (auto simp: resolve_for_buyer_def bindE_eq_Inr update_hold_eq_Inr order_transition_eq_Inr order_allowed_def
        unreserve_disputed_lot_def update_row_eq_Inr set_asset_status_eq_Inr)
qed



definition demo_disputed :: db where
  "demo_disputed = demo_market [System_dispute demo_order_id ''OFFER_DECLINED'' RS_poller ''sys'' None None JNull]"

lemma demo_disputed_reached: "market_step\<^sup>*\<^sup>* demo_market_start demo_disputed"
proof -
  have "run_market (demo_market_calls @ [System_dispute demo_order_id ''OFFER_DECLINED'' RS_poller ''sys'' None None JNull])
      demo_market_start \<noteq> None" by code_simp
  then show ?thesis unfolding demo_disputed_def by (rule demo_market_runs)
qed

lemma demo_disputed_rows:
  "map_option (\<lambda>so. o_status (so_order so) = OS_DISPUTE \<and> l_status (so_lot so) = LS_BLOCKED
     \<and> row (assets demo_disputed) (l_asset (so_lot so)) \<noteq> None \<and> o_buyer (so_order so) = ''buyer''
     \<and> map_option (\<lambda>(_, h). (h_amount h, h_released h)) (so_hold so) = Some (100, 0))
     (load_order demo_order_id demo_disputed) = Some True"
  "heldb ''buyer'' (bank demo_disputed) = 220" "key_unused ''buyer'' (''admin-resolve-buyer:'' @ ''k'') demo_disputed"
  "\<not> find_audit ''order'' demo_order_id ''ADMIN_DISPUTE_RESOLVED'' ''k'' demo_disputed"
  by code_simp+


end
