(* ===== verification/Issues.thy ===== *)
theory Issues
  imports Schema JsText
begin

text \<open>
  The report both daily reconciliations write: \<open>ReconciliationIssue\<close> of
  \<^verbatim>\<open>wallet/ledger-reconciliation.service.ts\<close> and \<open>PaymentReconciliationIssue\<close> of
  \<^verbatim>\<open>payments/payment-reconciliation.service.ts\<close>, and their JSON. An issue without details has
  \<open>JNull\<close> there, and its JSON has no such field; the JSON of a list is an object with the indexes
  as its names.
\<close>

record audit_issue =
  is_code :: string
  is_message :: string
  is_entity_type :: string
  is_entity :: id
  is_details :: json

definition issue :: "string \<Rightarrow> string \<Rightarrow> string \<Rightarrow> id \<Rightarrow> (string \<times> json) list \<Rightarrow> audit_issue" where
  "issue code message entity_type i details =
     \<lparr>is_code = code, is_message = message, is_entity_type = entity_type, is_entity = i,
      is_details = (if details = [] then JNull else JObj details)\<rparr>"

lemma issue_fields [simp]:
  "is_code (issue c m t i ds) = c" "is_entity_type (issue c m t i ds) = t" "is_entity (issue c m t i ds) = i"
  by (simp_all add: issue_def)

definition json_issue :: "audit_issue \<Rightarrow> json" where
  "json_issue x = JObj ([(''code'', JStr (is_code x)), (''message'', JStr (is_message x)),
     (''entityType'', JStr (is_entity_type x)), (''entityId'', JStr (is_entity x))]
     @ (if is_details x = JNull then [] else [(''details'', is_details x)]))"

definition json_list :: "json list \<Rightarrow> json" where
  "json_list js = JObj (zip (List.map show_nat [0..<length js]) js)"

end
