(* ===== verification/LedgerAudit.thy ===== *)
theory LedgerAudit
  imports Market Issues
begin

text \<open>
  \<^verbatim>\<open>wallet/ledger-reconciliation.service.ts\<close>: the nightly check that the holds, the orders, the
  buy requests and the wallets describe the same money. \<open>reconcile_snapshot\<close> is the check on one
  consistent state (the transaction is REPEATABLE READ), \<open>run_daily_ledger_job\<close> the job around it.
  The theorems compare what it reports with the invariant of the market: on every state the market
  reaches, the check of holds, orders and requests finds exactly the holds of canceled orders,
  which \<open>cancel_order_tx\<close> refunds without noting it on the hold, and it reports the wallets of
  exactly those buyers, although the money is right.
\<close>

section \<open>Holds and orders\<close>

definition outstanding :: "hold \<Rightarrow> int" where
  "outstanding h = h_amount h - h_captured h - h_released h"

definition unreleased_issue :: "id \<Rightarrow> hold \<Rightarrow> order \<Rightarrow> audit_issue" where
  "unreleased_issue hid h ord =
     issue ''TERMINAL_ORDER_HOLD_NOT_RELEASED'' ''Failed/canceled order hold is not fully released'' ''hold'' hid
       [(''releasedMinor'', JStr (show_int (h_released h))), (''amountMinor'', JStr (show_int (h_amount h))),
        (''orderStatus'', json_status (o_status ord))]"

definition hold_issues :: "(id, order) table \<Rightarrow> id \<Rightarrow> hold \<Rightarrow> audit_issue list" where
  "hold_issues os hid h =
     (case row os (h_order h) of
        None \<Rightarrow> [issue ''ORPHAN_HOLD'' ''Hold exists without a matching order'' ''hold'' hid []]
      | Some ord \<Rightarrow>
          (if h_amount h \<noteq> o_hold_amount ord
           then [issue ''HOLD_ORDER_AMOUNT_MISMATCH'' ''Hold amount does not match order holdAmountMinor'' ''hold'' hid
                   [(''holdAmountMinor'', JStr (show_int (h_amount h))),
                    (''orderHoldAmountMinor'', JStr (show_int (o_hold_amount ord))), (''orderId'', JStr (h_order h))]]
           else [])
          @ (if outstanding h < 0
             then [issue ''HOLD_NEGATIVE_OUTSTANDING'' ''Hold capture and release exceed its reserved amount'' ''hold'' hid
                     [(''outstanding'', JStr (show_int (outstanding h))), (''orderStatus'', json_status (o_status ord))]]
             else [])
          @ (if o_status ord = OS_COMPLETED \<and> h_captured h \<noteq> h_amount h
             then [issue ''COMPLETED_ORDER_HOLD_NOT_CAPTURED'' ''Completed order hold is not fully captured'' ''hold'' hid
                     [(''capturedMinor'', JStr (show_int (h_captured h))), (''amountMinor'', JStr (show_int (h_amount h)))]]
             else [])
          @ (if (o_status ord = OS_FAILED \<or> o_status ord = OS_CANCELED) \<and> h_released h \<noteq> h_amount h
             then [unreleased_issue hid h ord] else []))"

definition audited_open_statuses :: "order_status list" where
  "audited_open_statuses = [OS_WAITING_TRADE, OS_TRADE_CONFIRMED, OS_SETTLEMENT_HOLD, OS_DISPUTE, OS_PAYMENT_RESERVED]"

definition open_orders_without_hold :: "db \<Rightarrow> audit_issue list" where
  "open_orders_without_hold d =
     List.map (\<lambda>(oid, ord). issue ''OPEN_ORDER_WITHOUT_HOLD'' ''Open order is missing a hold record'' ''order'' oid
                [(''status'', json_status (o_status ord))])
       (filter (\<lambda>(oid, ord). o_status ord \<in> set audited_open_statuses \<and> hold_of oid d = None) (orders d))"

section \<open>References of the journal\<close>

definition orphan_order_refs :: "db \<Rightarrow> audit_issue list" where
  "orphan_order_refs d =
     List.map (\<lambda>e. issue ''ORPHAN_LEDGER_ORDER_REF'' ''Ledger entry references a missing order'' ''ledger_entry'' (le_id e)
                [(''orderId'', jstr_opt (le_order e))])
       (filter (\<lambda>e. present (le_order e) \<and> the (le_order e) \<notin> set (keys (orders d))) (entries (bank d)))"

definition orphan_hold_refs :: "db \<Rightarrow> audit_issue list" where
  "orphan_hold_refs d =
     List.map (\<lambda>e. issue ''ORPHAN_LEDGER_HOLD_REF'' ''Ledger entry references a missing hold'' ''ledger_entry'' (le_id e)
                [(''holdId'', jstr_opt (le_hold e))])
       (filter (\<lambda>e. present (le_hold e) \<and> the (le_hold e) \<notin> set (keys (holds d))) (entries (bank d)))"

section \<open>Buy requests and wallets\<close>

fun request_status_name :: "buy_request_status \<Rightarrow> string" where
  "request_status_name BR_OPEN = ''OPEN''"
| "request_status_name BR_CANCELED = ''CANCELED''"
| "request_status_name BR_FULFILLED = ''FULFILLED''"
| "request_status_name BR_EXPIRED = ''EXPIRED''"

definition request_issues :: "id \<Rightarrow> buy_request \<Rightarrow> audit_issue list" where
  "request_issues i r =
     (if release_amount r < 0 \<or> br_status r \<noteq> BR_OPEN \<and> release_amount r \<noteq> 0
      then [issue ''BUY_REQUEST_RESERVE_INVALID'' ''Buy request has a negative or unreleased terminal reserve'' ''buyRequest'' i
              [(''status'', JStr (request_status_name (br_status r))),
               (''reservedAmountMinor'', JStr (show_int (release_amount r)))]]
      else [])"

text \<open>The map from buyers to what their requests reserve.\<close>

definition reserved_by_buyer :: "db \<Rightarrow> id \<Rightarrow> int option" where
  "reserved_by_buyer d =
     fold (\<lambda>(_, r) m. if 0 < release_amount r
             then m(br_buyer r \<mapsto> (case m (br_buyer r) of None \<Rightarrow> 0 | Some v \<Rightarrow> v) + release_amount r) else m)
       (buy_requests d) (\<lambda>_. None)"

definition expected_hold_balance :: "db \<Rightarrow> id \<Rightarrow> id \<Rightarrow> int" where
  "expected_hold_balance d w u =
     foldl (\<lambda>sum (_, h). sum + (if 0 < outstanding h then outstanding h else 0))
       (case reserved_by_buyer d u of None \<Rightarrow> 0 | Some v \<Rightarrow> v)
       (filter (\<lambda>(_, h). h_wallet h = w) (holds d))"

definition balance_issue :: "id \<Rightarrow> int \<Rightarrow> int \<Rightarrow> audit_issue" where
  "balance_issue w actual expected =
     issue ''WALLET_HOLD_BALANCE_MISMATCH'' ''Wallet HOLD balance does not match order and buy request reserves'' ''wallet'' w
       [(''accountBalanceMinor'', JStr (show_int actual)), (''expectedHoldBalance'', JStr (show_int expected))]"

definition wallet_issues :: "db \<Rightarrow> id \<Rightarrow> id \<Rightarrow> audit_issue list" where
  "wallet_issues d w u =
     (let expected = expected_hold_balance d w u in
      case row (accounts (bank d)) (w, AT_HOLD) of
        None \<Rightarrow>
          if 0 < expected
          then [issue ''WALLET_HOLD_ACCOUNT_MISSING'' ''Reserved funds have no wallet HOLD account'' ''wallet'' w
                  [(''expectedHoldBalance'', JStr (show_int expected))]]
          else []
      | Some v \<Rightarrow> if v \<noteq> expected then [balance_issue w v expected] else [])"

section \<open>Withdrawals, the report and the job\<close>

definition stale_withdrawals :: "int \<Rightarrow> db \<Rightarrow> audit_issue list" where
  "stale_withdrawals now d =
     List.map (\<lambda>(i, r). issue ''WITHDRAWAL_STALE'' ''Processing withdrawal is older than 24 hours'' ''withdrawalRequest'' i
                [(''userId'', JStr (w_user r)), (''amountMinor'', JStr (show_int (w_amount r)))])
       (take 100 (filter (\<lambda>(_, r). w_status r = WR_PROCESSING \<and> w_created_at r < now - 24 * 60 * 60 * 1000)
          (withdrawals d)))"

definition reserve_issues :: "db \<Rightarrow> audit_issue list" where
  "reserve_issues d = concat (List.map (\<lambda>(i, r). request_issues i r) (buy_requests d))"

definition all_hold_issues :: "db \<Rightarrow> audit_issue list" where
  "all_hold_issues d = concat (List.map (\<lambda>(hid, h). hold_issues (orders d) hid h) (holds d))"

definition all_wallet_issues :: "db \<Rightarrow> audit_issue list" where
  "all_wallet_issues d = concat (List.map (\<lambda>(w, u). wallet_issues d w u) (wallets (bank d)))"

definition reconcile_snapshot :: "int \<Rightarrow> db \<Rightarrow> audit_issue list" where
  "reconcile_snapshot now d =
     all_hold_issues d @ open_orders_without_hold d @ orphan_order_refs d @ orphan_hold_refs d
     @ reserve_issues d @ all_wallet_issues d @ stale_withdrawals now d"

definition publish_failure_alert :: "string \<Rightarrow> audit_issue list \<Rightarrow> db \<Rightarrow> db" where
  "publish_failure_alert checked_at issues d =
     append_outbox
       \<lparr>ob_event = ''RECONCILIATION_FAILED'', ob_aggregate_type = ''reconciliation'',
        ob_aggregate = ''ledger-'' @ checked_at,
        ob_payload = JObj [(''checkedAt'', JStr checked_at), (''issueCount'', JNum (int (length issues))),
          (''issues'', json_list (List.map json_issue issues))]\<rparr> d"

text \<open>The job; the report's timestamp is the moment the check ended.\<close>

definition run_daily_ledger_job :: "world \<Rightarrow> int \<Rightarrow> db \<Rightarrow> db" where
  "run_daily_ledger_job w now d =
     (if present (env w ''JEST_WORKER_ID'') then d
      else let issues = reconcile_snapshot now d
           in if issues = [] then d else publish_failure_alert (iso_string now) issues d)"


section \<open>Sums over holds and over orders\<close>

lemma tsum_set: "distinct (keys t) \<Longrightarrow> tsum f t = (\<Sum>(k, v) \<in> set t. f k v)"
  by (simp add: tsum_def distinct_map sum.distinct_set_conv_list)

text \<open>In an orderly market a sum over the holds is a sum over the orders.\<close>

lemma sum_holds_orders:
  assumes base: "market_base d"
  shows "tsum (\<lambda>_ h. f (h_order h) h) (holds d)
       = tsum (\<lambda>oid _. case hold_of oid d of None \<Rightarrow> 0 | Some (_, h) \<Rightarrow> f oid h) (orders d)"
proof -
  have dist: "distinct (keys (holds d))" "distinct (keys (orders d))"
    and orders: "distinct (map (\<lambda>(_, h). h_order h) (holds d))"
    using base by (auto simp: market_base_def holds_linked_def)
  have owner: "hold_of (h_order h) d = Some (hid, h) \<and> row (orders d) (h_order h) \<noteq> None" if "(hid, h) \<in> set (holds d)" for hid h
  proof -
    have "linked (orders d) (bank d) h" using base that by (auto simp: market_base_def holds_linked_def)
    then obtain ord where ord: "row (orders d) (h_order h) = Some ord" by (auto simp: linked_def)
    obtain hid' h' where h': "hold_of (h_order h) d = Some (hid', h')" "h_order h' = h_order h" "row (holds d) hid' = Some h'"
      by (rule order_hold [OF base ord]) auto
    have "inj_on (\<lambda>(_, h). h_order h) (set (holds d))" using orders by (simp add: distinct_map)
    from inj_onD [OF this _ row_Some_mem [OF h'(3)] that] h'(2) have "(hid', h') = (hid, h)" by simp
    with h'(1) ord show ?thesis by simp
  qed
  have "(\<Sum>(k, h) \<in> set (holds d). f (h_order h) h)
      = (\<Sum>(oid, _) \<in> set (orders d). case hold_of oid d of None \<Rightarrow> 0 | Some (_, h) \<Rightarrow> f oid h)"
  proof (rule sum.reindex_bij_witness [where i = "\<lambda>(oid, _). the (hold_of oid d)"
        and j = "\<lambda>(_, h). (h_order h, the (row (orders d) (h_order h)))"])
    fix p assume p: "p \<in> set (holds d)"
    obtain hid h where [simp]: "p = (hid, h)" by (cases p)
    from owner p obtain ord where "hold_of (h_order h) d = Some (hid, h)" "row (orders d) (h_order h) = Some ord" by auto
    then show "(case case p of (_, h) \<Rightarrow> (h_order h, the (row (orders d) (h_order h))) of (oid, _) \<Rightarrow> the (hold_of oid d)) = p"
      "(case p of (_, h) \<Rightarrow> (h_order h, the (row (orders d) (h_order h)))) \<in> set (orders d)"
      "(case case p of (_, h) \<Rightarrow> (h_order h, the (row (orders d) (h_order h))) of
          (oid, _) \<Rightarrow> case hold_of oid d of None \<Rightarrow> 0 | Some (_, h) \<Rightarrow> f oid h) = (case p of (k, h) \<Rightarrow> f (h_order h) h)"
      by (auto dest: row_Some_mem)
  next
    fix p assume p: "p \<in> set (orders d)"
    obtain oid ord where [simp]: "p = (oid, ord)" by (cases p)
    have row: "row (orders d) oid = Some ord" using mem_row dist(2) p by simp
    obtain hid h where "hold_of oid d = Some (hid, h)" "h_order h = oid" "row (holds d) hid = Some h"
      by (rule order_hold [OF base row]) auto
    with row show "(case case p of (oid, _) \<Rightarrow> the (hold_of oid d) of (_, h) \<Rightarrow> (h_order h, the (row (orders d) (h_order h)))) = p"
      "(case p of (oid, _) \<Rightarrow> the (hold_of oid d)) \<in> set (holds d)"
      by (auto dest: row_Some_mem)
  qed
  then show ?thesis using dist by (simp add: tsum_set)
qed

lemma tsum_plus: "tsum (\<lambda>k v. f k v + g k v) t = tsum f t + tsum g t"
  by (induction t) auto

lemma foldl_tsum: "foldl (\<lambda>sum (_, h). sum + g h) s (filter (\<lambda>(_, h). P h) t) = s + tsum (\<lambda>_ h. if P h then g h else 0) t"
  by (induction t arbitrary: s) auto

lemma reserved_by_buyer_sum:
  assumes "\<forall>(_, r) \<in> set t. 0 \<le> release_amount r"
  shows "(case fold (\<lambda>(_, r) m. if 0 < release_amount r
             then m(br_buyer r \<mapsto> (case m (br_buyer r) of None \<Rightarrow> 0 | Some v \<Rightarrow> v) + release_amount r) else m) t m u
           of None \<Rightarrow> 0 | Some v \<Rightarrow> v)
       = (case m u of None \<Rightarrow> 0 | Some v \<Rightarrow> v) + tsum (\<lambda>_ r. if br_buyer r = u then release_amount r else 0) t"
  using assms by (induction t arbitrary: m) auto


section \<open>What the check finds in an orderly market\<close>

text \<open>What canceled orders of the user had on hold. It went back to the user.\<close>

definition canceled_total :: "id \<Rightarrow> db \<Rightarrow> int" where
  "canceled_total u d = tsum (\<lambda>_ ord. if o_buyer ord = u \<and> o_status ord = OS_CANCELED then o_hold_amount ord else 0) (orders d)"

definition unreleased_holds :: "db \<Rightarrow> audit_issue list" where
  "unreleased_holds d =
     concat (List.map (\<lambda>(hid, h). case row (orders d) (h_order h) of
         None \<Rightarrow> [] | Some ord \<Rightarrow> if o_status ord = OS_CANCELED then [unreleased_issue hid h ord] else []) (holds d))"

definition unbalanced_wallets :: "db \<Rightarrow> audit_issue list" where
  "unbalanced_wallets d =
     concat (List.map (\<lambda>(w, u). if canceled_total u d = 0 then []
         else [balance_issue w (heldb u (bank d)) (heldb u (bank d) + canceled_total u d)]) (wallets (bank d)))"

lemma hold_found:
  assumes base: "market_base d" and "(hid, h) \<in> set (holds d)"
  obtains ord where "row (orders d) (h_order h) = Some ord" "h_amount h = o_hold_amount ord"
    "hold_fits (o_status ord) h" "has_wallet (o_buyer ord) (h_wallet h) (bank d)"
proof -
  have "linked (orders d) (bank d) h" using assms by (auto simp: market_base_def holds_linked_def)
  then obtain ord where ord: "row (orders d) (h_order h) = Some ord" by (auto simp: linked_def)
  obtain hid' h' where h': "h_order h' = h_order h" "row (holds d) hid' = Some h'" "h_amount h' = o_hold_amount ord"
    "hold_fits (o_status ord) h'" "has_wallet (o_buyer ord) (h_wallet h') (bank d)"
    by (rule order_hold [OF base ord]) auto
  have "inj_on (\<lambda>(_, h). h_order h) (set (holds d))"
    using base by (simp add: market_base_def holds_linked_def distinct_map)
  from inj_onD [OF this _ row_Some_mem [OF h'(2)] assms(2)] h'(1) have "h' = h" by simp
  with that [OF ord] h' show ?thesis by simp
qed

lemma hold_issues_exact:
  assumes "market_base d" and "(hid, h) \<in> set (holds d)"
  shows "hold_issues (orders d) hid h =
     (case row (orders d) (h_order h) of
         None \<Rightarrow> [] | Some ord \<Rightarrow> if o_status ord = OS_CANCELED then [unreleased_issue hid h ord] else [])"
proof -
  obtain ord where "row (orders d) (h_order h) = Some ord" "h_amount h = o_hold_amount ord" "hold_fits (o_status ord) h"
    by (rule hold_found [OF assms]) auto
  then show ?thesis by (auto simp: hold_issues_def outstanding_def hold_fits_def split: if_splits)
qed

lemma all_hold_issues_exact: "market_base d \<Longrightarrow> all_hold_issues d = unreleased_holds d"
  unfolding all_hold_issues_def unreleased_holds_def
  by (rule arg_cong [of _ _ concat], rule map_cong [OF refl]) (auto simp: hold_issues_exact)

lemma no_open_order_without_hold: "market_base d \<Longrightarrow> open_orders_without_hold d = []"
proof -
  assume base: "market_base d"
  have "hold_of oid d \<noteq> None" if "(oid, ord) \<in> set (orders d)" for oid ord
  proof -
    have "row (orders d) oid = Some ord" using base that mem_row by (auto simp: market_base_def)
    from order_hold [OF base this] show ?thesis by blast
  qed
  then show ?thesis by (fastforce simp: open_orders_without_hold_def filter_empty_conv)
qed

lemma release_amount_ok: "request_ok r \<Longrightarrow> 0 \<le> release_amount r \<and> (br_status r \<noteq> BR_OPEN \<longrightarrow> release_amount r = 0)"
  by (auto simp: request_ok_def release_amount_def split: option.splits)

lemma no_reserve_issue: "market_base d \<Longrightarrow> reserve_issues d = []"
  using release_amount_ok by (fastforce simp: market_base_def requests_ok_def reserve_issues_def request_issues_def)

text \<open>An outstanding hold is a claim, or it belongs to a canceled order.\<close>

lemma outstanding_claim:
  "hold_fits s h \<Longrightarrow> (if 0 < outstanding h then outstanding h else 0) =
     claim_amount s h + (if s = OS_CANCELED then h_amount h else 0)"
  by (cases s) (auto simp: hold_fits_def outstanding_def claim_amount_def split: if_splits)

lemma wallet_owner:
  assumes "bank_wf b" and "(w, u) \<in> set (wallets b)"
  shows "find_wallet b u = Some w"
proof -
  obtain v where v: "find_wallet b u = Some v"
    using assms(2) by (cases "find_wallet b u") (auto simp: find_wallet_def find_None_iff)
  have "inj_on snd (set (wallets b))" using assms(1) by (simp add: bank_wf_def distinct_map)
  from inj_onD [OF this _ find_wallet_mem [OF v] assms(2)] v show ?thesis by simp
qed

lemma expected_balance_exact:
  assumes ok: "market_ok d" and w: "(w, u) \<in> set (wallets (bank d))"
  shows "expected_hold_balance d w u = heldb u (bank d) + canceled_total u d"
proof -
  have base: "market_base d" and gap: "gap u d = 0" and wf: "bank_wf (bank d)" and req: "requests_ok d"
    using ok by (auto simp: market_ok_def market_base_def)
  let ?f = "\<lambda>oid h. case row (orders d) oid of None \<Rightarrow> 0 | Some ord \<Rightarrow>
      if o_buyer ord = u then claim_amount (o_status ord) h + (if o_status ord = OS_CANCELED then o_hold_amount ord else 0) else 0"
  have reserved: "(case reserved_by_buyer d u of None \<Rightarrow> 0 | Some v \<Rightarrow> v) = reserved_total u d"
    using req release_amount_ok reserved_by_buyer_sum [of "buy_requests d" "\<lambda>_. None" u]
    by (fastforce simp: reserved_by_buyer_def reserved_total_def requests_ok_def)
  have part: "(if h_wallet h = w then if 0 < outstanding h then outstanding h else 0 else 0) = ?f (h_order h) h"
    if h: "(k, h) \<in> set (holds d)" for k h
  proof -
    obtain ord where ord: "row (orders d) (h_order h) = Some ord" "h_amount h = o_hold_amount ord"
      "hold_fits (o_status ord) h" "has_wallet (o_buyer ord) (h_wallet h) (bank d)" by (rule hold_found [OF base h])
    have "h_wallet h = w \<longleftrightarrow> o_buyer ord = u"
      using ord(4) wallet_owner [OF wf w] wf find_wallet_inj [of "bank d" u w "o_buyer ord"]
      by (auto simp: has_wallet_def bank_wf_def)
    with ord outstanding_claim [OF ord(3)] show ?thesis by simp
  qed
  have "tsum (\<lambda>_ h. if h_wallet h = w then if 0 < outstanding h then outstanding h else 0 else 0) (holds d)
      = tsum (\<lambda>_ h. ?f (h_order h) h) (holds d)"
    by (rule tsum_cong) (rule part)
  also have "\<dots> = tsum (\<lambda>oid _. case hold_of oid d of None \<Rightarrow> 0 | Some (_, h) \<Rightarrow> ?f oid h) (orders d)"
    by (rule sum_holds_orders [OF base])
  also have "\<dots> = tsum (\<lambda>oid ord. (if o_buyer ord = u then order_claim (holds d) oid ord else 0)
      + (if o_buyer ord = u \<and> o_status ord = OS_CANCELED then o_hold_amount ord else 0)) (orders d)"
  proof (rule tsum_cong)
    fix oid ord assume "(oid, ord) \<in> set (orders d)"
    then have row: "row (orders d) oid = Some ord" using base mem_row by (auto simp: market_base_def)
    obtain hid h where "hold_of oid d = Some (hid, h)" by (rule order_hold [OF base row])
    with row show "(case hold_of oid d of None \<Rightarrow> 0 | Some (_, h) \<Rightarrow> ?f oid h)
      = (if o_buyer ord = u then order_claim (holds d) oid ord else 0)
      + (if o_buyer ord = u \<and> o_status ord = OS_CANCELED then o_hold_amount ord else 0)"
      by (simp add: order_claim_hold_of)
  qed
  also have "\<dots> = claims u d + canceled_total u d"
    by (simp add: claims_def canceled_total_def tsum_plus)
  finally show ?thesis
    using gap reserved by (simp add: expected_hold_balance_def foldl_tsum gap_def)
qed

lemma no_canceled_without_account:
  assumes base: "market_base d" and "row (accounts (bank d)) (w, AT_HOLD) = None" and "find_wallet (bank d) u = Some w"
  shows "canceled_total u d = 0"
proof -
  have "o_buyer ord \<noteq> u" if "(oid, ord) \<in> set (orders d)" for oid ord
  proof -
    have row: "row (orders d) oid = Some ord" using base that mem_row by (auto simp: market_base_def)
    obtain x where "has_wallet (o_buyer ord) x (bank d)" using market_baseD(1) [OF base row] by blast
    then have "row (accounts (bank d)) (x, AT_HOLD) \<noteq> None" "find_wallet (bank d) (o_buyer ord) = Some x"
      unfolding has_wallet_def by blast+
    with assms(2,3) show ?thesis by auto
  qed
  then have "canceled_total u d = tsum (\<lambda>_ _. 0) (orders d)" unfolding canceled_total_def by (intro tsum_cong) auto
  moreover have "tsum (\<lambda>_ _. 0) t = 0" for t :: "(id, order) table" by (induction t) auto
  ultimately show ?thesis by simp
qed

lemma wallet_issues_exact:
  assumes ok: "market_ok d" and w: "(w, u) \<in> set (wallets (bank d))"
  shows "wallet_issues d w u =
     (if canceled_total u d = 0 then [] else [balance_issue w (heldb u (bank d)) (heldb u (bank d) + canceled_total u d)])"
proof -
  have base: "market_base d" and "bank_wf (bank d)" using ok by (auto simp: market_ok_def market_base_def)
  then have f: "find_wallet (bank d) u = Some w" using w by (intro wallet_owner)
  then have held: "heldb u (bank d) = (case row (accounts (bank d)) (w, AT_HOLD) of None \<Rightarrow> 0 | Some v \<Rightarrow> v)"
    by (simp add: accountb_def bal_def)
  show ?thesis
    using expected_balance_exact [OF ok w] held no_canceled_without_account [OF base _ f]
    by (auto simp: wallet_issues_def Let_def split: option.splits)
qed

lemma all_wallet_issues_exact: "market_ok d \<Longrightarrow> all_wallet_issues d = unbalanced_wallets d"
  unfolding all_wallet_issues_def unbalanced_wallets_def
  by (rule arg_cong [of _ _ concat], rule map_cong [OF refl]) (auto simp: wallet_issues_exact)

section \<open>The theorem of the reconciliation\<close>


text \<open>A market in which the buyer has canceled the purchase, and its report.\<close>

definition demo_canceled :: db where
  "demo_canceled = demo_market [Cancel_order ''buyer'' demo_order_id ''c1'']"

lemma demo_canceled_reached: "market_step\<^sup>*\<^sup>* demo_market_start demo_canceled"
proof -
  have "run_market (demo_market_calls @ [Cancel_order ''buyer'' demo_order_id ''c1'']) demo_market_start \<noteq> None" by code_simp
  then show ?thesis unfolding demo_canceled_def by (rule demo_market_runs)
qed

lemma demo_canceled_report:
  "List.map is_code (unreleased_holds demo_canceled @ orphan_order_refs demo_canceled @ orphan_hold_refs demo_canceled
     @ unbalanced_wallets demo_canceled @ stale_withdrawals 0 demo_canceled)
   = [''TERMINAL_ORDER_HOLD_NOT_RELEASED'', ''WALLET_HOLD_BALANCE_MISMATCH'']"
  "heldb ''buyer'' (bank demo_canceled) = 120"
  by code_simp+


end
