(* ===== verification/Books.thy ===== *)
theory Books
  imports HeldMoney
begin

text \<open>
  The ledger as a bookkeeper sees it: an amount per user and account, and per operation a list of
  movements. \<open>books\<close> forgets wallets, accounts, journal and identifiers of a bank; \<open>op_moves\<close> is what
  an operation is meant to do. The theorem is that the ledger service implements it: its
  operations do on the books exactly their movements, or nothing when the idempotency key has been
  used. The wallet service (\<^verbatim>\<open>wallet/wallet.service.ts\<close>), which shows the books to their owner,
  is at the end.
\<close>

section \<open>The specification\<close>

type_synonym books = "id \<Rightarrow> account_type \<Rightarrow> int"
type_synonym move = "id \<times> account_type \<times> int"

definition books :: "bank \<Rightarrow> books" where
  "books b u t = accountb t u b"

definition apply_moves :: "move list \<Rightarrow> books \<Rightarrow> books" where
  "apply_moves ms f = fold (\<lambda>(u, t, a) f. f(u := (f u)(t := f u t + a))) ms f"

text \<open>What the operations move; \<open>p\<close> is the user who holds the platform's wallet.\<close>

fun op_moves :: "id \<Rightarrow> ledger_op \<Rightarrow> move list" where
  "op_moves p (Deposit u a key meta) = [(u, AT_AVAILABLE, a)]"
| "op_moves p (Withdraw u a fee net key req frozen meta) = [(u, if frozen then AT_FROZEN else AT_AVAILABLE, - a)]"
| "op_moves p (Freeze u a) = [(u, AT_AVAILABLE, - a), (u, AT_FROZEN, a)]"
| "op_moves p (Unfreeze u a) = [(u, AT_FROZEN, - a), (u, AT_AVAILABLE, a)]"
| "op_moves p (Refund_withdrawal u a key reason req) = [(u, AT_AVAILABLE, a)]"
| "op_moves p (Reserve_purchase u oid hid a key) = [(u, AT_AVAILABLE, - a), (u, AT_HOLD, a)]"
| "op_moves p (Reserve_request u req a key) = [(u, AT_AVAILABLE, - a), (u, AT_HOLD, a)]"
| "op_moves p (Release_request u req a key) = [(u, AT_HOLD, - a), (u, AT_AVAILABLE, a)]"
| "op_moves p (Settle u v oid hid total_amount s c key) =
     [(u, AT_HOLD, - total_amount), (v, AT_AVAILABLE, s), (p, AT_AVAILABLE, c)]"
| "op_moves p (Refund_hold u oid hid a key) = [(u, AT_HOLD, - a), (u, AT_AVAILABLE, a)]"
| "op_moves p (Adjust u a reason actor key) = [(u, AT_AVAILABLE, a)]"

text \<open>Whose wallet the idempotency key belongs to. Freezing and its release have none.\<close>

fun op_key :: "ledger_op \<Rightarrow> (id \<times> string) option" where
  "op_key (Deposit u a key meta) = Some (u, key)"
| "op_key (Withdraw u a fee net key req frozen meta) = Some (u, key)"
| "op_key (Freeze u a) = None"
| "op_key (Unfreeze u a) = None"
| "op_key (Refund_withdrawal u a key reason req) = Some (u, key)"
| "op_key (Reserve_purchase u oid hid a key) = Some (u, key)"
| "op_key (Reserve_request u req a key) = Some (u, key)"
| "op_key (Release_request u req a key) = Some (u, key)"
| "op_key (Settle u v oid hid total_amount s c key) = Some (u, key)"
| "op_key (Refund_hold u oid hid a key) = Some (u, key)"
| "op_key (Adjust u a reason actor key) = Some (u, key)"

definition key_used :: "id \<Rightarrow> string \<Rightarrow> bank \<Rightarrow> bool" where
  "key_used u key b \<longleftrightarrow> find_existing_operation b (fst (ensure_user_wallet u b)) key \<noteq> None"

definition replayed :: "ledger_op \<Rightarrow> bank \<Rightarrow> bool" where
  "replayed op b \<longleftrightarrow> (case op_key op of None \<Rightarrow> False | Some (u, key) \<Rightarrow> key_used u key b)"

definition platform_user :: "bank \<Rightarrow> id" where
  "platform_user b = (case find (\<lambda>(i, u). u_steam_id u = Some platform_steam_id) (users b) of
     None \<Rightarrow> [] | Some (i, _) \<Rightarrow> i)"

section \<open>Movements and postings\<close>

definition move_sum :: "move list \<Rightarrow> id \<Rightarrow> account_type \<Rightarrow> int" where
  "move_sum ms u t = (\<Sum>(v, t', a)\<leftarrow>ms. if v = u \<and> t' = t then a else 0)"

lemma move_sum_simps [simp]:
  "move_sum [] u t = 0"
  "move_sum ((v, t', a) # ms) u t = (if v = u \<and> t' = t then a else 0) + move_sum ms u t"
  by (simp_all add: move_sum_def)

lemma apply_moves_simps [simp]:
  "apply_moves [] f = f"
  "apply_moves ((u, t, a) # ms) f = apply_moves ms (f(u := (f u)(t := f u t + a)))"
  by (simp_all add: apply_moves_def)

lemma apply_moves_sum: "apply_moves ms f = (\<lambda>u t. f u t + move_sum ms u t)"
proof (induction ms arbitrary: f)
  case (Cons m ms)
  show ?case by (cases m) (simp add: Cons.IH fun_eq_iff)
qed simp

text \<open>A posting on wallets and the movements of their owners.\<close>

definition booked :: "bank \<Rightarrow> delta list \<Rightarrow> move list \<Rightarrow> bool" where
  "booked b = list_all2 (\<lambda>(w, t, a) (u, t', a'). has_wallet u w b \<and> t' = t \<and> a' = a)"

lemma booked_sum:
  assumes "booked b ds ms" and "bank_wf b"
  shows "(case find_wallet b u of None \<Rightarrow> 0 | Some w \<Rightarrow> delta_at w t ds) = move_sum ms u t"
  using assms(1) unfolding booked_def
proof (induction rule: list_all2_induct)
  case (Cons d ds m ms)
  obtain w t' a v where [simp]: "d = (w, t', a)" "m = (v, t', a)" and v: "find_wallet b v = Some w"
    using Cons.hyps by (cases d; cases m) (auto simp: has_wallet_def)
  show ?case
    using Cons.IH v find_wallet_inj [of b v w u] assms(2) by (auto simp: bank_wf_def split: option.splits)
qed (simp split: option.splits)

lemma booked_posts:
  assumes "posts b ds es b'" "same_frame b b'" and "bank_wf b" and "booked b ds ms"
  shows "bank_wf b' \<and> books b' = apply_moves ms (books b)"
  using accountb_posts [OF assms(1,2)] booked_sum [OF assms(4,3)] bank_wf_frame [OF assms(3,2)]
  by (simp add: apply_moves_sum books_def fun_eq_iff)

lemma books_ensure: "ensure_user_wallet u b = (w, b0) \<Longrightarrow> bank_wf b \<Longrightarrow> bank_wf b0 \<and> books b0 = books b"
  using ensure_user_wallet_held [of u b w b0] by (auto simp: books_def fun_eq_iff)

lemma key_used_ensured:
  "ensure_user_wallet u b = (w, b0) \<Longrightarrow> key_used u key b \<longleftrightarrow> find_existing_operation b0 w key \<noteq> None"
  using ensure_entries [of u b w b0] by (simp add: key_used_def find_existing_operation_def cong: option.case_cong)

section \<open>The operations\<close>

text \<open>An operation on one user's wallet.\<close>

lemma one_wallet_books:
  assumes e: "ensure_user_wallet u b = (w, b0)" and wf: "bank_wf b"
    and op: "find_existing_operation b0 w key = Some r \<and> b' = b0
        \<or> find_existing_operation b0 w key = None \<and> fresh_op b0 w key r ds es b' \<and> booked b0 ds ms"
  shows "bank_wf b' \<and> books b' = (if key_used u key b then books b else apply_moves ms (books b))"
proof -
  note b0 = books_ensure [OF e wf] and used = key_used_ensured [OF e, of key]
  from op show ?thesis
  proof
    assume "find_existing_operation b0 w key = None \<and> fresh_op b0 w key r ds es b' \<and> booked b0 ds ms"
    then show ?thesis using booked_posts [of b0 ds es b' ms] b0 used by (simp add: fresh_op_def)
  qed (use b0 used in simp)
qed

lemma ensured_wallet: "ensure_user_wallet u b = (w, b0) \<Longrightarrow> has_wallet u w b0"
  using ensure_user_wallet_exists by blast

lemmas one_wallet_ops = deposit_cases refund_withdrawal_cases reserve_purchase_hold_cases reserve_buy_request_hold_cases
  release_buy_request_hold_cases refund_hold_cases withdraw_cases

definition booked_op :: "id \<Rightarrow> string \<Rightarrow> move list \<Rightarrow> bank \<Rightarrow> bank \<Rightarrow> bool" where
  "booked_op u key ms b b' \<longleftrightarrow> bank_wf b' \<and> books b' = (if key_used u key b then books b else apply_moves ms (books b))"

lemma booked_opI:
  assumes "ensure_user_wallet u b = (w, b0)" and "bank_wf b"
    and "find_existing_operation b0 w key = Some r \<and> b' = b0
        \<or> find_existing_operation b0 w key = None \<and> fresh_op b0 w key r ds es b' \<and> booked b0 ds ms"
  shows "booked_op u key ms b b'"
  unfolding booked_op_def by (rule one_wallet_books [OF assms])

lemma wallet_op_books:
  assumes wf: "bank_wf b"
  shows "deposit u a key meta b = Inr (r, b') \<Longrightarrow> booked_op u key [(u, AT_AVAILABLE, a)] b b'"
    and "refund_withdrawal u a key reason req b = Inr (r, b') \<Longrightarrow> booked_op u key [(u, AT_AVAILABLE, a)] b b'"
    and "reserve_purchase_hold u oid hid a key b = Inr (r, b') \<Longrightarrow>
      booked_op u key [(u, AT_AVAILABLE, - a), (u, AT_HOLD, a)] b b'"
    and "reserve_buy_request_hold u req a key b = Inr (r, b') \<Longrightarrow>
      booked_op u key [(u, AT_AVAILABLE, - a), (u, AT_HOLD, a)] b b'"
    and "release_buy_request_hold u req a key b = Inr (r, b') \<Longrightarrow>
      booked_op u key [(u, AT_HOLD, - a), (u, AT_AVAILABLE, a)] b b'"
    and "refund_hold u oid hid a key b = Inr (r, b') \<Longrightarrow>
      booked_op u key [(u, AT_HOLD, - a), (u, AT_AVAILABLE, a)] b b'"
    and "withdraw u a fee net key req frozen m b = Inr (r, b') \<Longrightarrow>
      booked_op u key [(u, if frozen then AT_FROZEN else AT_AVAILABLE, - a)] b b'"
    and "adjust_wallet u a reason actor key b = Inr ((r, posted), b') \<Longrightarrow> booked_op u key [(u, AT_AVAILABLE, a)] b b'"
proof -
  obtain w b0 where e: "ensure_user_wallet u b = (w, b0)" by (cases "ensure_user_wallet u b")
  note ok = booked_opI [OF e wf]
  have book: "booked b0 [(w, t, x)] [(u, t, x)]" "booked b0 [(w, t, x), (w, t', y)] [(u, t, x), (u, t', y)]" for t x t' y
    using ensured_wallet [OF e] by (simp_all add: booked_def)
  show "deposit u a key meta b = Inr (r, b') \<Longrightarrow> booked_op u key [(u, AT_AVAILABLE, a)] b b'"
    by (erule deposit_cases [OF _ e]; rule ok) (use book in auto)
  show "refund_withdrawal u a key reason req b = Inr (r, b') \<Longrightarrow> booked_op u key [(u, AT_AVAILABLE, a)] b b'"
    by (erule refund_withdrawal_cases [OF _ e]; rule ok) (use book in auto)
  show "reserve_purchase_hold u oid hid a key b = Inr (r, b') \<Longrightarrow>
      booked_op u key [(u, AT_AVAILABLE, - a), (u, AT_HOLD, a)] b b'"
    by (erule reserve_purchase_hold_cases [OF _ e]; rule ok) (use book in auto)
  show "reserve_buy_request_hold u req a key b = Inr (r, b') \<Longrightarrow>
      booked_op u key [(u, AT_AVAILABLE, - a), (u, AT_HOLD, a)] b b'"
    by (erule reserve_buy_request_hold_cases [OF _ e]; rule ok) (use book in auto)
  show "release_buy_request_hold u req a key b = Inr (r, b') \<Longrightarrow>
      booked_op u key [(u, AT_HOLD, - a), (u, AT_AVAILABLE, a)] b b'"
    by (erule release_buy_request_hold_cases [OF _ e]; rule ok) (use book in auto)
  show "refund_hold u oid hid a key b = Inr (r, b') \<Longrightarrow>
      booked_op u key [(u, AT_HOLD, - a), (u, AT_AVAILABLE, a)] b b'"
    by (erule refund_hold_cases [OF _ e]; rule ok) (use book in auto)
  show "withdraw u a fee net key req frozen m b = Inr (r, b') \<Longrightarrow>
      booked_op u key [(u, if frozen then AT_FROZEN else AT_AVAILABLE, - a)] b b'"
    by (erule withdraw_cases [OF _ e]; rule ok) (use book in auto)
  show "adjust_wallet u a reason actor key b = Inr ((r, posted), b') \<Longrightarrow> booked_op u key [(u, AT_AVAILABLE, a)] b b'"
    by (erule adjust_wallet_cases [OF _ e]; rule ok) (use book in auto)
qed


lemma freeze_books:
  assumes wf: "bank_wf b"
  shows "freeze_for_withdrawal u a b = Inr b' \<Longrightarrow>
      bank_wf b' \<and> books b' = apply_moves [(u, AT_AVAILABLE, - a), (u, AT_FROZEN, a)] (books b)"
    and "release_withdraw_hold u a b = Inr b' \<Longrightarrow>
      bank_wf b' \<and> books b' = apply_moves [(u, AT_FROZEN, - a), (u, AT_AVAILABLE, a)] (books b)"
proof -
  obtain w b0 where e: "ensure_user_wallet u b = (w, b0)" by (cases "ensure_user_wallet u b")
  note b0 = books_ensure [OF e wf]
  have book: "booked b0 [(w, t, x), (w, t', y)] [(u, t, x), (u, t', y)]" for t x t' y
    using ensured_wallet [OF e] by (simp add: booked_def)
  { assume a: "freeze_for_withdrawal u a b = Inr b'"
    from booked_posts [OF freeze_for_withdrawal_posts(1,2) [OF a e] _ book] b0
    show "bank_wf b' \<and> books b' = apply_moves [(u, AT_AVAILABLE, - a), (u, AT_FROZEN, a)] (books b)" by metis }
  { assume a: "release_withdraw_hold u a b = Inr b'"
    from booked_posts [OF release_withdraw_hold_posts(1,2) [OF a e] _ book] b0
    show "bank_wf b' \<and> books b' = apply_moves [(u, AT_FROZEN, - a), (u, AT_AVAILABLE, a)] (books b)" by metis }
qed

lemma platform_owner: "has_platform_wallet w b \<Longrightarrow> has_wallet (platform_user b) w b"
  by (auto simp: has_platform_wallet_def platform_user_def)

lemma settle_books:
  assumes s: "settle_sale u v oid hid total_amount x c key b = Inr (r, b')" "0 \<le> x" "0 \<le> c" and wf: "bank_wf b"
  shows "booked_op u key [(u, AT_HOLD, - total_amount), (v, AT_AVAILABLE, x), (platform_user b', AT_AVAILABLE, c)] b b'"
proof -
  obtain w b0 where e0: "ensure_user_wallet u b = (w, b0)" by (cases "ensure_user_wallet u b")
  obtain sw b1 where e1: "ensure_user_wallet v b0 = (sw, b1)" by (cases "ensure_user_wallet v b0")
  obtain pw b2 where e2: "ensure_platform_wallet b1 = (pw, b2)" by (cases "ensure_platform_wallet b1")
  note b1 = books_ensure [OF e1 conjunct1 [OF books_ensure [OF e0 wf]]] and b0 = books_ensure [OF e0 wf]
  have b2: "bank_wf b2" "books b2 = books b"
    using ensure_platform_wallet_held [OF e2] b0 b1 by (auto simp: books_def fun_eq_iff)
  have grow: "ids_grow b0 b2"
    using ensure_user_wallet_exists [OF e1] ensure_platform_wallet_exists [OF e2] ids_grow_trans by blast
  then have "entries b2 = entries b0" by (simp add: ids_grow_def)
  then have used: "key_used u key b \<longleftrightarrow> find_existing_operation b2 w key \<noteq> None"
    using key_used_ensured [OF e0] by (simp add: find_existing_operation_def cong: option.case_cong)
  have wallets: "has_wallet u w b2" "has_wallet v sw b2" "has_wallet (platform_user b2) pw b2"
    using has_wallet_grow [OF ensured_wallet [OF e0] grow]
      has_wallet_grow [OF ensured_wallet [OF e1]] ensure_platform_wallet_exists [OF e2] platform_owner by blast+
  show ?thesis
  proof (cases rule: settle_sale_cases [OF s(1) e0 e1 e2 s(2,3)])
    case 1
    then show ?thesis using used b2 by (simp add: booked_op_def)
  next
    case (2 be se pe)
    then have f: "posts b2 [(w, AT_HOLD, - total_amount), (sw, AT_AVAILABLE, x), (pw, AT_AVAILABLE, c)] [be, se, pe] b'"
      "same_frame b2 b'" by (auto simp: fresh_op_def)
    then have "platform_user b' = platform_user b2" by (simp add: same_frame_def platform_user_def)
    with wallets have "booked b2 [(w, AT_HOLD, - total_amount), (sw, AT_AVAILABLE, x), (pw, AT_AVAILABLE, c)]
        [(u, AT_HOLD, - total_amount), (v, AT_AVAILABLE, x), (platform_user b', AT_AVAILABLE, c)]"
      by (simp add: booked_def)
    from booked_posts [OF f b2(1) this] show ?thesis using used b2(2) 2(1) by (simp add: booked_op_def)
  qed
qed

lemma exec_op_books:
  assumes "exec_op op b = Inr (r, b')" and "op_wf op" and wf: "bank_wf b"
  shows "bank_wf b' \<and> books b' = (if replayed op b then books b else apply_moves (op_moves (platform_user b') op) (books b))"
  using assms(1,2)
  by (cases op)
     (auto simp: bindE_eq_Inr replayed_def simp del: apply_moves_simps split del: if_split cong: if_cong
        dest!: wallet_op_books [OF wf, unfolded booked_op_def] freeze_books [OF wf]
          settle_books [OF _ _ _ wf, unfolded booked_op_def])

lemma bank_wf_empty: "inj f \<Longrightarrow> bank_wf (empty_bank f)"
  by (simp add: bank_wf_def empty_bank_def seen_ids_def)

lemma ledger_steps_wf:
  assumes "ledger_step\<^sup>*\<^sup>* (empty_bank f) b" and "inj f"
  shows "bank_wf b"
  using assms(1)
proof (induction rule: rtranclp_induct)
  case (step b b')
  then show ?case using exec_op_books by (elim ledger_stepE) blast
qed (rule bank_wf_empty [OF assms(2)])


text \<open>
  C12: The ledger implements its books. Let a bank be reached by any sequence of ledger calls from an
  empty one, and let one more call succeed. Then the books afterwards (the amount of every user on
  every account) are the books before with exactly the movements the call stands for, a
  deterministic function of the call: a reservation moves its amount from available to hold, a
  settlement moves the total from the buyer's hold to the seller and the platform, and so on; and if
  the call's idempotency key was used on the user's wallet before, nothing moves.
\<close>

theorem ledger_refines_books:
  assumes "inj f" and "ledger_step\<^sup>*\<^sup>* (empty_bank f) b"
    and "op_wf op" and "exec_op op b = Inr (r, b')"
  shows "books b' = (if replayed op b then books b else apply_moves (op_moves (platform_user b') op) (books b))"
  using exec_op_books [OF assms(4,3) ledger_steps_wf [OF assms(2,1)]] by blast

text \<open>A deposit, a purchase's hold and its settlement: the seller and the platform are paid.\<close>

definition demo_calls :: "ledger_op list" where
  "demo_calls = [Deposit ''b'' 100 ''d'' None, Reserve_purchase ''b'' ''o'' ''h'' 80 ''r'']"

definition demo_reserved :: bank where
  "demo_reserved = run_ops demo_calls (empty_bank demo_ids)"

definition demo_settle :: ledger_op where
  "demo_settle = Settle ''b'' ''s'' ''o'' ''h'' 80 76 4 ''k''"

lemma demo_settle_runs:
  "exec_op demo_settle demo_reserved = Inr (fst (Sum_Type.projr (exec_op demo_settle demo_reserved)),
     snd (Sum_Type.projr (exec_op demo_settle demo_reserved)))"
  "\<not> replayed demo_settle demo_reserved"
proof -
  have "isl (exec_op demo_settle demo_reserved) = False" by code_simp
  then show "exec_op demo_settle demo_reserved = Inr (fst (Sum_Type.projr (exec_op demo_settle demo_reserved)),
     snd (Sum_Type.projr (exec_op demo_settle demo_reserved)))" by (cases "exec_op demo_settle demo_reserved") auto
  show "\<not> replayed demo_settle demo_reserved" by code_simp
qed

theorem ledger_refines_books_witness:
  "books (snd (Sum_Type.projr (exec_op demo_settle demo_reserved))) ''s'' AT_AVAILABLE = books demo_reserved ''s'' AT_AVAILABLE + 76"
proof -
  have reached: "ledger_step\<^sup>*\<^sup>* (empty_bank demo_ids) demo_reserved"
    unfolding demo_reserved_def by (rule run_ops_steps) (simp add: demo_calls_def)
  have wf: "op_wf demo_settle" by (simp add: demo_settle_def)
  have p: "platform_user (snd (Sum_Type.projr (exec_op demo_settle demo_reserved))) \<noteq> ''s''" by code_simp
  show ?thesis
    unfolding ledger_refines_books [OF demo_ids_inj reached wf demo_settle_runs(1)]
    using demo_settle_runs(2) p by (simp add: demo_settle_def)
qed


section \<open>The wallet service\<close>

text \<open>\<open>getWallet\<close>: the wallet with its accounts and the summary over them. The wallet is created when
  it is missing. \<open>getTransactions\<close> returns the newest hundred entries of the journal.\<close>

record wallet_view =
  wv_wallet :: id
  wv_user :: id
  wv_accounts :: "(account_type \<times> int) list"
  wv_available :: int
  wv_hold :: int
  wv_frozen :: int
  wv_total :: int

definition wallet_accounts :: "id \<Rightarrow> bank \<Rightarrow> (account_type \<times> int) list" where
  "wallet_accounts w b = List.map (\<lambda>((_, t), v). (t, v)) (filter (\<lambda>((w', _), _). w' = w) (accounts b))"

definition summary_part :: "account_type \<Rightarrow> (account_type \<times> int) list \<Rightarrow> int" where
  "summary_part t accs = (case find (\<lambda>(t', _). t' = t) accs of None \<Rightarrow> 0 | Some (_, v) \<Rightarrow> v)"

definition get_wallet :: "id \<Rightarrow> bank \<Rightarrow> (wallet_view \<times> bank) res" where
  "get_wallet u b =
     (let (_, b) = ensure_user_wallet u b
      in case find_wallet b u of
           None \<Rightarrow> Inl (NotFound ''Wallet not found'')
         | Some w \<Rightarrow>
             let accs = wallet_accounts w b; av = summary_part AT_AVAILABLE accs;
                 ho = summary_part AT_HOLD accs; fr = summary_part AT_FROZEN accs
             in Inr (\<lparr>wv_wallet = w, wv_user = u, wv_accounts = accs, wv_available = av, wv_hold = ho,
                      wv_frozen = fr, wv_total = av + ho + fr\<rparr>, b))"

definition get_transactions :: "id \<Rightarrow> bank \<Rightarrow> ledger_entry list \<times> bank" where
  "get_transactions u b =
     (let (w, b) = ensure_user_wallet u b in (take 100 (rev (filter (\<lambda>e. le_wallet e = w) (entries b))), b))"

text \<open>The two operations commit the ledger's transaction and then read the wallet.\<close>

definition wallet_mock_deposit :: "id \<Rightarrow> int \<Rightarrow> string \<Rightarrow> bank \<Rightarrow> (op_result \<times> wallet_view) res \<times> bank" where
  "wallet_mock_deposit u amount key b =
     (if key = [] then (Inl (BadRequest ''Idempotency-Key header is required''), b)
      else case mock_deposit u amount key b of
        Inl e \<Rightarrow> (Inl e, b)
      | Inr (r, b) \<Rightarrow>
          (case get_wallet u b of Inl e \<Rightarrow> (Inl e, b) | Inr (v, b) \<Rightarrow> (Inr (r, v), b)))"

definition wallet_manual_adjustment ::
    "id \<Rightarrow> int \<Rightarrow> string \<Rightarrow> id \<Rightarrow> string \<Rightarrow> db \<Rightarrow> (op_result \<times> wallet_view) res \<times> db" where
  "wallet_manual_adjustment target amount reason actor key d =
     (if key = [] then (Inl (BadRequest ''Idempotency-Key header is required''), d)
      else case manual_adjustment target amount reason actor key d of
        Inl e \<Rightarrow> (Inl e, d)
      | Inr (r, d) \<Rightarrow>
          (case get_wallet target (bank d) of
             Inl e \<Rightarrow> (Inl e, d)
           | Inr (v, b) \<Rightarrow> (Inr (r, v), d\<lparr>bank := b\<rparr>)))"

lemma summary_part_bal: "summary_part t (wallet_accounts w b) = bal b w t"
proof -
  have "(case find (\<lambda>(t', _). t' = t) (List.map (\<lambda>((_, t), v). (t, v)) (filter (\<lambda>((w', _), _). w' = w) as)) of
          None \<Rightarrow> 0 | Some (_, v) \<Rightarrow> v) = (case row as (w, t) of None \<Rightarrow> 0 | Some v \<Rightarrow> v)" for as :: "(id \<times> account_type, int) table"
    by (induction as) auto
  then show ?thesis by (simp add: summary_part_def wallet_accounts_def bal_def)
qed

text \<open>The wallet shows its owner the books, and looking does not change them.\<close>

lemma get_wallet_books:
  assumes "bank_wf b"
  shows "\<exists>v b'. get_wallet u b = Inr (v, b') \<and> books b' = books b \<and> wv_available v = books b u AT_AVAILABLE
     \<and> wv_hold v = books b u AT_HOLD \<and> wv_frozen v = books b u AT_FROZEN
     \<and> wv_total v = books b u AT_AVAILABLE + books b u AT_HOLD + books b u AT_FROZEN"
proof -
  obtain w b0 where e: "ensure_user_wallet u b = (w, b0)" by (cases "ensure_user_wallet u b")
  have "find_wallet b0 u = Some w" using ensured_wallet [OF e] by (simp add: has_wallet_def)
  moreover from this have "books b u t = bal b0 w t" for t
    using books_ensure [OF e assms] by (metis books_def accountb_has_wallet [OF ensured_wallet [OF e]])
  ultimately show ?thesis
    using books_ensure [OF e assms] e by (simp add: get_wallet_def Let_def summary_part_bal)
qed

end
