(* ===== verification/LotOutcomes.thy ===== *)
theory LotOutcomes
  imports Lots Market
begin

text \<open>
  What listing does (\<open>listing_effect\<close>), that it never gives an item a second lot
  (\<open>one_lot_per_item\<close>), and what it does to a disputed order: the row of a blocked lot is reused as
  well, and from then on the dispute cannot be decided for the seller (\<open>relisted_dispute_stuck\<close>).
\<close>

section \<open>The theorems of the lots\<close>

text \<open>What the table of lots looks like: identifiers are unique, an item has one lot, and the next
  random identifier is new.\<close>

definition lots_ok :: "db \<Rightarrow> bool" where
  "lots_ok d \<longleftrightarrow> distinct (keys (lots d)) \<and> distinct (List.map (\<lambda>(_, l). l_asset l) (lots d))"

definition fresh_lot_id :: "db \<Rightarrow> bool" where
  "fresh_lot_id d \<longleftrightarrow> fst (draw (bank d)) \<notin> set (keys (lots d))"

lemma assets_update:
  "row t i = Some l \<Longrightarrow> l_asset l' = l_asset l \<Longrightarrow>
     List.map (\<lambda>(_, l). l_asset l) (AList.update i l' t) = List.map (\<lambda>(_, l). l_asset l) t"
  by (induction t) (auto split: if_splits)

lemma open_listing_ok:
  assumes "open_listing seller aid price d = Inr (i, old, d')" and ok: "lots_ok d" and fresh: "fresh_lot_id d"
  shows "lots_ok d' \<and> (\<exists>l. row (lots d') i = Some l \<and> l_status l = LS_ACTIVE \<and> l_asset l = aid \<and> l_reserved_by l = None
     \<and> l_price l = price \<and> l_commission l = calculate_commission_minor price
     \<and> l_seller_receive l = price - calculate_commission_minor price
     \<and> l_seller l = (case newest_lot aid d of None \<Rightarrow> seller | Some (_, l) \<Rightarrow> l_seller l)
     \<and> old = map_option (\<lambda>(_, l). l_status l) (newest_lot aid d) \<and> old \<noteq> Some LS_ACTIVE \<and> old \<noteq> Some LS_RESERVED)"
  using assms(1)
proof (cases rule: open_listing_cases)
  case (reused l)
  have r: "row (lots d) i = Some l" "l_asset l = aid"
    using newest_lot_Some [OF reused(1)] ok mem_row by (auto simp: lots_ok_def)
  then show ?thesis
    using reused ok assets_update [OF r(1), of "(priced price l)\<lparr>l_status := LS_ACTIVE, l_reserved_by := None\<rparr>"]
    by (auto simp: lots_ok_def is_listed_status_def row_update distinct_update)
next
  case (fresh b l)
  have new: "i \<notin> set (keys (lots d))" using assms(3) fresh(2) by (simp add: fresh_lot_id_def)
  then have "row (lots d) i = None" by (simp add: row_None_iff)
  then have "row (lots d') i = Some (priced price l)"
    using fresh row_insert_row [of "lots d" i "priced price l" i] by (simp add: insert_row_def)
  moreover have "aid \<notin> (\<lambda>(_, l). l_asset l) ` set (lots d)" using fresh(1) by (auto simp: newest_lot_None)
  ultimately show ?thesis using fresh ok new by (auto simp: lots_ok_def)
qed



text \<open>The transaction of a listing goes through when the item was eligible and is not listed.\<close>

lemma list_asset_possible:
  assumes "assert_listing_eligible now a item = Inr ()" and "row (assets d) aid \<noteq> None"
    and "newest_lot aid d = Some (i, l)" "\<not> is_listed_status (l_status l)"
  shows "\<exists>d'. list_asset_tx now seller price aid a item d = Inr (i, d')"
  using assms by (auto simp: list_asset_tx_def open_listing_def Let_def set_asset_status_def update_row_def)

definition demo_asset :: asset where
  "demo_asset = \<lparr>a_owner = ''seller'', a_item = ''item'', a_external_id = ''456'', a_status = IA_AVAILABLE,
     a_tradable = True, a_marketable = True, a_trade_lock_until = None, a_float_value = None,
     a_paint_seed = None, a_wear = None, a_stickers = None\<rparr>"

definition demo_item :: item_definition where
  "demo_item = \<lparr>i_market_hash_name = ''AWP | Asiimov'', i_slug = None, i_base_market_hash_name = None,
     i_catalog_seeded = False, i_available_wears = [], i_weapon = None, i_rarity = None, i_icon_url = None\<rparr>"

lemma demo_relist:
  "\<exists>d'. list_asset_tx 0 ''seller'' 250 ''a1'' demo_asset demo_item demo_disputed = Inr (''l1'', d')"
proof -
  have *: "case newest_lot ''a1'' demo_disputed of None \<Rightarrow> False | Some (i, l) \<Rightarrow> i = ''l1'' \<and> \<not> is_listed_status (l_status l)"
    "row (assets demo_disputed) ''a1'' \<noteq> None" "is_listable ''AWP | Asiimov''" by code_simp+
  then have "assert_listing_eligible 0 demo_asset demo_item = Inr ()"
    by (simp add: assert_eligible_eq_Inr demo_asset_def demo_item_def)
  with * show ?thesis by (auto split: option.splits intro: list_asset_possible)
qed

lemma demo_lots_ok: "lots_ok demo_disputed" "fresh_lot_id demo_disputed"
  by code_simp+


text \<open>
  C35: Listing the lot of a disputed order takes the dispute away from the seller. Let an order be in
  dispute and let a listing of its item commit (its lot is blocked, and the row is reused); this is
  possible as soon as the inventory synchronisation has set the blocked item back to available.
  Then in the new state, whatever the reason and the notes, the administrator's resolution for the
  seller is refused, because it would have to move the lot from active to sold.
\<close>

theorem relisted_dispute_stuck:
  assumes "lots_ok d" "fresh_lot_id d"
    and "row (orders d) oid = Some ord" "o_status ord = OS_DISPUTE"
    and "list_asset_tx now seller price aid a item d = Inr (o_lot ord, d')"
    and "\<not> find_audit ''order'' oid ''ADMIN_DISPUTE_RESOLVED'' key d"
  shows "\<exists>e. admin_resolve_dispute oid actor Resolve_seller reason code note_text key d' = Inl e"
  using assms(5)
proof (cases rule: list_asset_cases)
  case (1 old d1)
  obtain l where l: "row (lots d') (o_lot ord) = Some l" "l_status l = LS_ACTIVE"
    using open_listing_ok [OF 1(2) assms(1,2)] 1(3) by auto
  have "\<exists>e. resolve_for_seller so hid h c actor key d' = Inl e" if so: "load_order oid d' = Some so" for so hid h c
  proof (cases "resolve_for_seller so hid h c actor key d'")
    case (Inr d2)
    have "so_order so = ord" "so_lot so = l"
      using load_order_Some [OF so] 1(5) assms(3) l(1) by auto
    with Inr l(2) show ?thesis
      by (auto simp: resolve_for_seller_def Let_def bindE_eq_Inr lot_transition_eq_Inr lot_allowed_def)
  qed simp
  moreover have "\<not> find_audit ''order'' oid ''ADMIN_DISPUTE_RESOLVED'' key d'"
    using assms(6) 1(7) by (simp add: find_audit_def)
  ultimately show ?thesis
    by (auto simp: admin_resolve_dispute_def bindE_def split: sum.splits option.splits) (metis Inl_Inr_False)+
qed


theorem relisted_dispute_stuck_witness:
  "\<exists>d' e. list_asset_tx 0 ''seller'' 250 ''a1'' demo_asset demo_item demo_disputed = Inr (''l1'', d')
     \<and> admin_resolve_dispute demo_order_id ''admin'' Resolve_seller (Some ''delivered'') None None ''k'' d' = Inl e"
proof -
  obtain d' where d': "list_asset_tx 0 ''seller'' 250 ''a1'' demo_asset demo_item demo_disputed = Inr (''l1'', d')"
    using demo_relist by blast
  have "map_option (\<lambda>ord. (o_lot ord, o_status ord)) (row (orders demo_disputed) demo_order_id) = Some (''l1'', OS_DISPUTE)"
    by code_simp
  then obtain ord where o: "row (orders demo_disputed) demo_order_id = Some ord" "o_lot ord = ''l1''" "o_status ord = OS_DISPUTE"
    by auto
  from d' o(2) have "list_asset_tx 0 ''seller'' 250 ''a1'' demo_asset demo_item demo_disputed = Inr (o_lot ord, d')" by simp
  from relisted_dispute_stuck [OF demo_lots_ok o(1,3) this demo_disputed_rows(4)] d' show ?thesis by blast
qed

end
