(* ===== verification/Purchases.thy ===== *)
theory Purchases
  imports Orders
begin

text \<open>
  What a purchase and its cancellation leave behind: the effect of \<open>create_order_tx\<close> and
  \<open>cancel_order_tx\<close> on the order, its hold, the lot and the item, that a lot is sold to one buyer
  only, and what happens when a client uses the key of one cancellation for another order.
\<close>

section \<open>Effects of the parts\<close>

lemma fulfill_frame:
  "fulfill_for_purchase buyer item price d = Inr d' \<Longrightarrow>
     orders d' = orders d \<and> holds d' = holds d \<and> lots d' = lots d \<and> assets d' = assets d \<and> trade_ops d' = trade_ops d"
  by (auto simp: fulfill_for_purchase_def Let_def bindE_eq_Inr split: option.splits prod.splits if_splits)

lemma insert_order_rows:
  assumes "insert_order_and_hold now buyer lot_id l d = (oid, hid, d')"
  shows "orders d' = orders d @ [(oid, \<lparr>o_lot = lot_id, o_buyer = buyer, o_seller = l_seller l, o_status = OS_CREATED,
                  o_amount = l_price l, o_hold_amount = l_price l, o_created_at = now\<rparr>)]"
    and "\<exists>w. holds d' = holds d @ [(hid, \<lparr>h_order = oid, h_wallet = w, h_amount = l_price l, h_captured = 0,
             h_released = 0, h_settlement_until = None, h_settlement_released_at = None\<rparr>)]"
    and "lots d' = lots d" "assets d' = assets d" "trade_ops d' = trade_ops d"
  using assms by (auto simp: insert_order_and_hold_def draw_db_def insert_row_def Let_def split: prod.splits)

lemma row_append_new: "row t k = None \<Longrightarrow> row (t @ [(k, v)]) k = Some v"
  by (induction t) (auto split: if_splits)

lemma insert_trade_op_rows:
  assumes "insert_trade_op w oid lot_id l buyer d = (tid, d')"
  shows "orders d' = orders d" "holds d' = holds d" "lots d' = lots d" "assets d' = assets d"
    "\<exists>t. trade_ops d' = trade_ops d @ [(tid, t)] \<and> t_order t = oid \<and> t_status t = TS_WAITING \<and> t_offer_id t = None"
  using assms by (auto simp: insert_trade_op_def draw_db_def insert_row_def record_trade_created_def Let_def split: prod.splits)

lemma create_trade_task_rows [simp]:
  "orders (create_trade_task w now oid tid buyer lot_id l d) = orders d"
  "holds (create_trade_task w now oid tid buyer lot_id l d) = holds d"
  "lots (create_trade_task w now oid tid buyer lot_id l d) = lots d"
  "assets (create_trade_task w now oid tid buyer lot_id l d) = assets d"
  "trade_ops (create_trade_task w now oid tid buyer lot_id l d) = trade_ops d"
  by (auto simp: create_trade_task_def draw_db_def Let_def split: prod.splits)

lemma record_order_created_rows [simp]:
  "orders (record_order_created oid u d) = orders d" "holds (record_order_created oid u d) = holds d"
  "lots (record_order_created oid u d) = lots d" "assets (record_order_created oid u d) = assets d"
  "trade_ops (record_order_created oid u d) = trade_ops d"
  by (simp_all add: record_order_created_def)

lemma order_created_records_rows [simp]:
  "orders (order_created_records buyer lot_id l oid key d) = orders d"
  "holds (order_created_records buyer lot_id l oid key d) = holds d"
  "lots (order_created_records buyer lot_id l oid key d) = lots d"
  "assets (order_created_records buyer lot_id l oid key d) = assets d"
  "trade_ops (order_created_records buyer lot_id l oid key d) = trade_ops d"
  by (simp_all add: order_created_records_def)

text \<open>The two order transitions leave the rest of the order's row.\<close>

lemma order_event_rows:
  assumes "order_transition_by_event oid s e actor reason g d = Inr (t, d')" and "row (orders d) oid = Some ord"
  shows "row (orders d') oid = Some (ord\<lparr>o_status := t\<rparr>)" "holds d' = holds d" "lots d' = lots d"
    "assets d' = assets d" "trade_ops d' = trade_ops d"
  using assms by (auto simp: order_transition_by_event_eq_Inr order_transition_eq_Inr row_update)

lemma start_trade_effect:
  assumes "start_trade w now buyer lot_id l oid d = Inr d'" and ord: "row (orders d) oid = Some ord"
    and lot: "row (lots d) lot_id = Some l"
  shows "row (orders d') oid = Some (ord\<lparr>o_status := OS_WAITING_TRADE\<rparr>) \<and> holds d' = holds d
     \<and> row (lots d') lot_id = Some (l\<lparr>l_status := LS_RESERVED, l_reserved_by := Some buyer\<rparr>)
     \<and> map_option a_status (row (assets d') (l_asset l)) = Some IA_RESERVED
     \<and> (\<exists>tid t. trade_ops d' = trade_ops d @ [(tid, t)] \<and> t_order t = oid \<and> t_status t = TS_WAITING \<and> t_offer_id t = None)"
proof -
  from assms(1) obtain t1 d1 d2 d3 where
    1: "order_transition_by_event oid OS_CREATED OE_PAYMENT_RESERVED (Some buyer) None False
          (record_order_created oid (Some buyer) d) = Inr (t1, d1)" and
    2: "lot_transition lot_id (l_status l) LS_RESERVED (Some buyer) None (\<lambda>l. l\<lparr>l_reserved_by := Some buyer\<rparr>) d1 = Inr d2" and
    3: "set_asset_status (l_asset l) IA_RESERVED d2 = Inr d3" and
    r: "(let (tid, d) = insert_trade_op w oid lot_id l buyer d3; d = create_trade_task w now oid tid buyer lot_id l d
         in bindE (order_transition_by_event oid OS_PAYMENT_RESERVED OE_TRADE_OPERATION_CREATED (Some buyer) None
                 False d) (\<lambda>(_, d). Inr d)) = Inr d'"
    unfolding start_trade_def by (auto simp: bindE_eq_Inr)
  obtain tid d4 where 4: "insert_trade_op w oid lot_id l buyer d3 = (tid, d4)"
    by (cases "insert_trade_op w oid lot_id l buyer d3")
  from r 4 obtain t2 where
    5: "order_transition_by_event oid OS_PAYMENT_RESERVED OE_TRADE_OPERATION_CREATED (Some buyer) None False
          (create_trade_task w now oid tid buyer lot_id l d4) = Inr (t2, d')"
    by (auto simp: Let_def bindE_eq_Inr)
  have "t2 = OS_WAITING_TRADE"
    using 5 by (auto simp: order_transition_by_event_eq_Inr find_order_rule_def order_rules_def)
  moreover note e1 = order_event_rows [OF 1, of ord] and i = insert_trade_op_rows [OF 4]
  have d2: "orders d2 = orders d1" "holds d2 = holds d1" "assets d2 = assets d1" "trade_ops d2 = trade_ops d1"
    "lots d1 = lots d \<Longrightarrow> row (lots d2) lot_id = Some (l\<lparr>l_status := LS_RESERVED, l_reserved_by := Some buyer\<rparr>)"
    using 2 lot by (auto simp: lot_transition_eq_Inr row_update)
  have d3: "orders d3 = orders d2" "holds d3 = holds d2" "lots d3 = lots d2" "trade_ops d3 = trade_ops d2"
    "map_option a_status (row (assets d3) (l_asset l)) = Some IA_RESERVED"
    using 3 by (auto simp: set_asset_status_eq_Inr row_update)
  have "row (orders (create_trade_task w now oid tid buyer lot_id l d4)) oid = Some (ord\<lparr>o_status := t1\<rparr>)"
    using e1 d2 d3 i ord by simp
  note e2 = order_event_rows [OF 5 this]
  ultimately show ?thesis using e1 e2 d2 d3 i ord by auto
qed


section \<open>The theorems of purchases\<close>


text \<open>A lot for sale and a buyer with 380 available, for the applications.\<close>

definition demo_shop :: db where
  "demo_shop = (empty_db demo_ids)\<lparr>bank := demo_bank,
     assets := [(''a1'', \<lparr>a_owner = ''seller'', a_item = ''item'', a_external_id = ''456'', a_status = IA_LISTED,
        a_tradable = True, a_marketable = True, a_trade_lock_until = None, a_float_value = None,
        a_paint_seed = None, a_wear = None, a_stickers = None\<rparr>),
       (''a2'', \<lparr>a_owner = ''seller'', a_item = ''item'', a_external_id = ''457'', a_status = IA_LISTED,
        a_tradable = True, a_marketable = True, a_trade_lock_until = None, a_float_value = None,
        a_paint_seed = None, a_wear = None, a_stickers = None\<rparr>)],
     lots := [(''l1'', \<lparr>l_seller = ''seller'', l_asset = ''a1'', l_status = LS_ACTIVE, l_price = 100,
        l_commission = 5, l_seller_receive = 95, l_reserved_by = None\<rparr>),
       (''l2'', \<lparr>l_seller = ''seller'', l_asset = ''a2'', l_status = LS_ACTIVE, l_price = 100,
        l_commission = 5, l_seller_receive = 95, l_reserved_by = None\<rparr>)]\<rparr>"

definition shop_buys :: "(id \<times> string) list \<Rightarrow> db \<Rightarrow> id list \<times> db" where
  "shop_buys ls d = fold (\<lambda>(l, key) (os, d).
     case create_order_tx demo_world 0 ''buyer'' l key d of Inr (i, d) \<Rightarrow> (os @ [i], d) | Inl _ \<Rightarrow> (os, d)) ls ([], d)"


text \<open>
  A cancellation under a key that the buyer's wallet has already used for another cancellation
  returns no money: the ledger takes it for a repetition and moves nothing, yet the call succeeds,
  the order ends as canceled and its lot is for sale again. The hold of the order then belongs to
  no open order. The client chooses the key, and nothing ties it to the order.
\<close>

theorem cancel_key_reuse:
  assumes "cancel_order_tx buyer oid key d = Inr (i, d')" and "has_wallet buyer w (bank d)"
    and "find_existing_operation (bank d) w (''order-cancel:'' @ key) = Some r"
  shows "bank d' = bank d \<and> map_option o_status (row (orders d') oid) = Some OS_CANCELED
     \<and> (\<exists>ord. row (orders d) oid = Some ord \<and> is_open_status (o_status ord)
          \<and> map_option l_status (row (lots d') (o_lot ord)) = Some LS_ACTIVE)"
proof -
  obtain so where so: "load_order oid d = Some so" using assms(1) by (auto simp: cancel_order_tx_def split: option.splits)
  note lo = load_order_Some [OF so]
  from assms(1) so obtain hid h r0 b t d1 d2 d3 where
    g: "cancel_guard buyer so d = Inr (hid, h)" and
    1: "refund_hold buyer oid hid (h_amount h) (''order-cancel:'' @ key) (bank d) = Inr (r0, b)" and
    2: "order_transition_by_event oid (o_status (so_order so)) OE_CANCEL (Some buyer) (Some ''buyer_canceled'') False
                   (d\<lparr>bank := b\<rparr>) = Inr (t, d1)" and
    3: "lot_transition (o_lot (so_order so)) (l_status (so_lot so)) LS_ACTIVE (Some buyer) None
                   (\<lambda>l. l\<lparr>l_reserved_by := None\<rparr>) d1 = Inr d2" and
    4: "set_asset_status (l_asset (so_lot so)) IA_LISTED d2 = Inr d3" and
    5: "bank d' = bank d3" "orders d' = orders d3" "lots d' = lots d3"
    by (auto simp: cancel_order_tx_def Let_def bindE_eq_Inr update_many_def split: if_splits)
  have b: "b = bank d"
    using 1 assms(3) by (auto simp: refund_hold_def has_wallet_ensure [OF assms(2)] split: if_splits)
  have t: "t = OS_CANCELED"
    using 2 by (cases "o_status (so_order so)") (auto simp: order_transition_by_event_eq_Inr find_order_rule_def order_rules_def)
  have "is_open_status (o_status (so_order so))" using g by (auto simp: cancel_guard_def Let_def split: if_splits)
  moreover have "bank d1 = bank d" "row (orders d1) oid = Some ((so_order so)\<lparr>o_status := OS_CANCELED\<rparr>)" "lots d1 = lots d"
    using 2 lo t b by (auto simp: order_transition_by_event_eq_Inr order_transition_eq_Inr row_update)
  moreover have "bank d3 = bank d1" "orders d3 = orders d1"
    "map_option l_status (row (lots d3) (o_lot (so_order so))) = Some LS_ACTIVE"
    using 3 4 by (auto simp: lot_transition_eq_Inr set_asset_status_eq_Inr row_update)
  ultimately show ?thesis using lo 5 by simp
qed

definition demo_two_orders :: "id list \<times> db" where
  "demo_two_orders = shop_buys [(''l1'', ''k1''), (''l2'', ''k2'')] demo_shop"

definition demo_first_canceled :: db where
  "demo_first_canceled =
     (case cancel_order_tx ''buyer'' (hd (fst demo_two_orders)) ''K'' (snd demo_two_orders) of
        Inr (_, d) \<Rightarrow> d | Inl _ \<Rightarrow> demo_shop)"

theorem cancel_key_reuse_witness:
  "\<exists>i d'. cancel_order_tx ''buyer'' (fst demo_two_orders ! 1) ''K'' demo_first_canceled = Inr (i, d')
     \<and> bal (bank d') [] AT_HOLD = 300 \<and> map_option o_status (row (orders d') (fst demo_two_orders ! 1)) = Some OS_CANCELED"
proof -
  let ?o = "fst demo_two_orders ! 1"
  let ?r = "cancel_order_tx ''buyer'' ?o ''K'' demo_first_canceled"
  have "case ?r of Inl _ \<Rightarrow> False | Inr _ \<Rightarrow> True" by code_simp
  then obtain i d' where r: "?r = Inr (i, d')" by (auto split: sum.splits)
  have w: "has_wallet ''buyer'' [] (bank demo_first_canceled)" by code_simp
  have "find_existing_operation (bank demo_first_canceled) [] (''order-cancel:'' @ ''K'') \<noteq> None"
    "bal (bank demo_first_canceled) [] AT_HOLD = 300" by code_simp+
  with cancel_key_reuse [OF r w] r show ?thesis by auto
qed

end
