(* ===== verification/TradeOutcomes.thy ===== *)
theory TradeOutcomes
  imports Backing
begin

text \<open>
  What the trades service decides about an order: a delivery is confirmed only with a stored Steam
  receipt that still names this order, a failed offer returns the money only when it may, and a
  completion by hand without real settlement leaves the order confirmed and the money on hold.
\<close>

lemma trade_step_other:
  assumes "trade_transition_by_event tid s e actor reason pr fr g d = Inr (t, d')"
  shows "orders d' = orders d" "bank d' = bank d" "holds d' = holds d" "lots d' = lots d" "assets d' = assets d"
    "audit d' = audit d"
  using assms by (auto simp: trade_transition_by_event_eq_Inr)

lemma order_step_other:
  assumes "order_transition_by_event oid s e actor reason g d = Inr (t, d')"
  shows "bank d' = bank d" "holds d' = holds d" "lots d' = lots d" "assets d' = assets d" "trade_ops d' = trade_ops d"
    "audit d' = audit d" "map_option o_status (row (orders d') oid) = Some t"
  using assms by (auto simp: order_transition_by_event_eq_Inr order_transition_eq_Inr row_update)

section \<open>Confirmation\<close>

lemma bound_proof_truthy: "bound_delivery_proof w (Some j) an \<noteq> None \<Longrightarrow> json_truthy (Some j)"
  by (auto simp: bound_delivery_proof_def json_truthy_def split: json.splits)

lemma enter_hold_status:
  assumes "enter_settlement_hold w now so key actor d = Inr d'"
    and "\<not> find_audit ''order'' (so_id so) ''SETTLEMENT_HOLD_ENTERED'' (settlement_hold_enter_key (so_id so)) d"
  shows "map_option o_status (row (orders d') (so_id so)) = Some OS_SETTLEMENT_HOLD"
proof -
  from assms obtain t d1 where
    1: "order_transition_by_event (so_id so) OS_TRADE_CONFIRMED OE_SETTLEMENT_STARTED actor
          (Some ''SETTLEMENT_HOLD_WINDOW'') (is_delivery_verified so) d = Inr (t, d1)" and 2: "orders d' = orders d1"
    by (auto simp: enter_settlement_hold_def Let_def bindE_eq_Inr update_hold_eq_Inr split: option.splits)
  have "t = OS_SETTLEMENT_HOLD"
    using 1 by (auto simp: order_transition_by_event_eq_Inr find_order_rule_def order_rules_def)
  with order_step_other(7) [OF 1] 2 show ?thesis by simp
qed

text \<open>
  C22: A delivery is confirmed only by a Steam receipt. When the checker's confirmation changes
  anything, its evidence says that the receipt is persisted and that Steam is the authority, the
  order and its trade operation were still waiting, and the stored proof is bound to this order,
  offer, item, seller and buyer. And confirming pays nobody: the bank stays as it is, and the order
  enters its settlement hold.
\<close>

theorem confirmation_needs_receipt:
  assumes "apply_trade_confirmed w now oid evidence d = (Inr i, d')" and "d' \<noteq> d"
    and "\<not> find_audit ''order'' oid ''SETTLEMENT_HOLD_ENTERED'' (settlement_hold_enter_key oid) d"
  shows "de_receipt_persisted evidence \<and> de_steam_authority evidence
     \<and> (\<exists>so tid t. load_order oid d = Some so \<and> so_trade so = Some (tid, t)
          \<and> o_status (so_order so) = OS_WAITING_TRADE \<and> t_status t = TS_WAITING
          \<and> bound_delivery_proof w (Some (t_delivery_proof t)) (settlement_anchors so (Some t)) \<noteq> None)
     \<and> bank d' = bank d \<and> map_option o_status (row (orders d') oid) = Some OS_SETTLEMENT_HOLD"
proof -
  have ev: "de_receipt_persisted evidence" "de_steam_authority evidence" and tx: "confirm_tx w now oid evidence d = Inr (i, d')"
    using assms(1,2) by (auto simp: apply_trade_confirmed_def transaction_def split: if_splits sum.splits prod.splits)
  obtain so tid t where so: "load_order oid d = Some so" "so_trade so = Some (tid, t)" and h: "so_hold so \<noteq> None"
    using tx by (auto simp: confirm_tx_def split: option.splits)
  note lo = load_order_Some [OF so(1)]
  have cond: "o_status (so_order so) = OS_WAITING_TRADE" "t_status t = TS_WAITING"
    "bound_delivery_proof w (Some (t_delivery_proof t)) (settlement_anchors so (Some t)) \<noteq> None"
    using tx so h assms(2) by (auto simp: confirm_tx_def split: if_splits)
  note truthy = bound_proof_truthy [OF cond(3)]
  from tx so h cond obtain st1 d1 st2 d2 st3 d3 a where
    1: "trade_transition_by_event tid TS_WAITING TE_DELIVERY_VERIFIED None
         (Some ''TRADE_POLL_CONFIRMED'') (Some (''poll-confirmed-'' @ oid)) None True d = Inr (st1, d1)" and
    2: "order_transition_by_event oid OS_WAITING_TRADE OE_DELIVERY_VERIFIED None
         (Some ''TRADE_POLL_CONFIRMED'') False d1 = Inr (st2, d2)" and
    3: "confirm_settlement w now so t (''poll-settle:'' @ oid) d2 = Inr (st3, d3)" and 4: "d' = append_audit a d3"
    by (auto simp only: confirm_tx_def option.case prod.case simp_thms if_False if_True bindE_eq_Inr sum.inject
        prod.inject not_None_eq split_paired_Ex option.distinct)
  define so' where "so' = so\<lparr>so_order := (so_order so)\<lparr>o_status := OS_TRADE_CONFIRMED\<rparr>,
      so_trade := map_option (\<lambda>(i, t). (i, t\<lparr>t_status := reported_trade_status w\<rparr>)) (so_trade so)\<rparr>"
  have e: "enter_settlement_hold w now so' (''poll-settle:'' @ oid) None d2 = Inr d3"
    using 3 truthy by (auto simp: confirm_settlement_def bindE_eq_Inr so'_def)
  have "\<not> find_audit ''order'' (so_id so') ''SETTLEMENT_HOLD_ENTERED'' (settlement_hold_enter_key (so_id so')) d2"
    using assms(3) lo trade_step_other(6) [OF 1] order_step_other(6) [OF 2] by (simp add: find_audit_def so'_def)
  from enter_hold_status [OF e this] have "map_option o_status (row (orders d3) oid) = Some OS_SETTLEMENT_HOLD"
    using lo by (simp add: so'_def)
  moreover have "bank d3 = bank d" using enter_hold_bank [OF e] trade_step_other(2) [OF 1] order_step_other(1) [OF 2] by simp
  ultimately show ?thesis using ev so cond 4 by simp
qed


text \<open>The concrete order of the settlement theory, still waiting for its trade.\<close>

definition demo_waiting_db :: db where
  "demo_waiting_db = demo_hold_db\<lparr>
     orders := map (\<lambda>(i, x). (i, x\<lparr>o_status := OS_WAITING_TRADE\<rparr>)) (orders demo_hold_db),
     trade_ops := map (\<lambda>(i, t). (i, t\<lparr>t_status := TS_WAITING\<rparr>)) (trade_ops demo_hold_db)\<rparr>"

definition demo_evidence :: delivery_evidence where
  "demo_evidence = \<lparr>de_receipt_persisted = True, de_steam_authority = True, de_offer = Some Offer_accepted,
     de_inventory = None, de_reason = ''RECEIPT_AUTHORITY_CONFIRMED'', de_code = ''RECEIPT_AUTHORITY_CONFIRMED'',
     de_engine = True\<rparr>"

theorem confirmation_needs_receipt_witness:
  "\<exists>d'. apply_trade_confirmed demo_world 5 ''o2'' demo_evidence demo_waiting_db = (Inr ''o2'', d')
     \<and> map_option o_status (row (orders d') ''o2'') = Some OS_SETTLEMENT_HOLD"
proof -
  let ?r = "apply_trade_confirmed demo_world 5 ''o2'' demo_evidence demo_waiting_db"
  have "fst ?r = Inr ''o2''" "map_option o_status (row (orders (snd ?r)) ''o2'') \<noteq> map_option o_status (row (orders demo_waiting_db) ''o2'')"
    "\<not> find_audit ''order'' ''o2'' ''SETTLEMENT_HOLD_ENTERED'' (settlement_hold_enter_key ''o2'') demo_waiting_db"
    by code_simp+
  moreover obtain d' where d': "?r = (Inr ''o2'', d')" using \<open>fst ?r = Inr ''o2''\<close> by (metis prod.collapse)
  ultimately have "d' \<noteq> demo_waiting_db" by auto
  from confirmation_needs_receipt [OF d' this] d' show ?thesis
    using \<open>\<not> find_audit _ _ _ _ _\<close> by blast
qed

section \<open>Failed offers\<close>

lemma fail_trade_safe_effect:
  assumes "fail_trade_safe so hid h actor reason key d = Inr d'"
  shows "(\<exists>r. refund_hold (o_buyer (so_order so)) (so_id so) hid (h_amount h) key (bank d) = Inr (r, bank d'))
     \<and> map_option o_status (row (orders d') (so_id so)) = Some OS_FAILED
     \<and> map_option l_status (row (lots d') (o_lot (so_order so))) = Some LS_ACTIVE"
  using assms
  by (auto simp: fail_trade_safe_def Let_def bindE_eq_Inr update_hold_eq_Inr order_transition_by_event_eq_Inr
      order_transition_eq_Inr lot_transition_eq_Inr set_asset_status_eq_Inr find_order_rule_def order_rules_def row_update)

lemma fail_trade_dispute_effect:
  assumes "fail_trade_dispute so OE_MISMATCH_DETECTED actor reason d = Inr d'"
  shows "bank d' = bank d \<and> map_option o_status (row (orders d') (so_id so)) = Some OS_DISPUTE
     \<and> map_option l_status (row (lots d') (o_lot (so_order so))) = Some LS_BLOCKED"
  using assms
  by (auto simp: fail_trade_dispute_def Let_def bindE_eq_Inr order_transition_by_event_eq_Inr
      order_transition_eq_Inr lot_transition_eq_Inr set_asset_status_eq_Inr find_order_rule_def order_rules_def row_update)


definition demo_steam_world :: world where
  "demo_steam_world = demo_world\<lparr>env := (\<lambda>k. if k = ''TRADE_PROVIDER'' then Some ''steam'' else env demo_world k)\<rparr>"



section \<open>Completion without real settlement\<close>

lemma trade_step_proofs:
  assumes "trade_transition_by_event tid s e actor reason pr fr g d = Inr (st, d')"
    and "\<forall>(j, t) \<in> set (trade_ops d). \<not> json_truthy (Some (t_delivery_proof t))"
  shows "\<forall>(j, t) \<in> set (trade_ops d'). \<not> json_truthy (Some (t_delivery_proof t))"
proof -
  obtain op op' where op: "row (trade_ops d) tid = Some op" "trade_ops d' = AList.update tid op' (trade_ops d)"
    "t_delivery_proof op' = t_delivery_proof op"
    using assms(1) by (auto simp: trade_transition_by_event_eq_Inr)
  from row_Some_mem [OF op(1)] set_AList_update [of tid op' "trade_ops d"] op assms(2) show ?thesis by force
qed

lemma stored_proof_mem: "load_order oid d = Some so \<Longrightarrow> stored_proof so = Some p \<Longrightarrow>
    \<exists>(j, t) \<in> set (trade_ops d). p = t_delivery_proof t"
  using load_order_Some [of oid d so] find_mem [of "\<lambda>t. t_order t = oid" "trade_ops d"]
  by (fastforce simp: stored_proof_def trade_of_def)

text \<open>
  Without real settlement a completion by hand settles nothing. The trade is verified and the
  order confirmed, but it does not complete: the seller is not paid, the buyer's money stays on
  hold and the lot stays reserved. (Two comments in the code say that the order completes.)
\<close>

theorem completion_by_hand_unsettled:
  assumes "mock_success_tx w now oid actor key role d = Inr (i, d')" and "\<not> real_settlement_enabled w"
    and "\<forall>(j, t) \<in> set (trade_ops d). \<not> json_truthy (Some (t_delivery_proof t))"
  shows "map_option o_status (row (orders d') oid) = Some OS_TRADE_CONFIRMED \<and> bank d' = bank d
     \<and> holds d' = holds d \<and> lots d' = lots d \<and> assets d' = assets d"
proof -
  obtain so tid t where so: "load_order oid d = Some so" "so_trade so = Some (tid, t)"
    using assms(1) by (auto simp: mock_success_tx_def split: option.splits)
  from assms(1) so obtain pr st1 d1 st2 d2 st3 d3 where
    1: "trade_transition_by_event tid (t_status t) TE_DELIVERY_VERIFIED (Some actor)
         (Some ''delivery_verified'') (Some pr) None True d = Inr (st1, d1)" and
    2: "order_transition_by_event oid OS_WAITING_TRADE OE_DELIVERY_VERIFIED (Some actor) None False d1 = Inr (st2, d2)" and
    3: "settle_completion w now oid (''trade-success:'' @ key) actor d2 = Inr (st3, d3)" and
    4: "orders d' = orders d3" "bank d' = bank d3" "holds d' = holds d3" "lots d' = lots d3" "assets d' = assets d3"
    by (auto simp: mock_success_tx_def bindE_eq_Inr split: option.splits if_splits)
  have st2: "st2 = OS_TRADE_CONFIRMED"
    using 2 by (auto simp: order_transition_by_event_eq_Inr find_order_rule_def order_rules_def)
  note o = order_step_other [OF 2] and tr = trade_step_other [OF 1]
  from 3 assms(2) have "settle_completed_order w now oid (''trade-success:'' @ key) (Some actor) d2 = Inr d3"
    by (auto simp: settle_completion_def bindE_eq_Inr)
  then obtain so2 where so2: "load_order oid d2 = Some so2"
    and s: "(if (json_truthy (stored_proof so2) \<or> should_use_hold_window w)
                  \<and> o_status (so_order so2) = OS_TRADE_CONFIRMED
          then enter_settlement_hold w now so2 (''trade-success:'' @ key) (Some actor) d2 else Inr d2) = Inr d3"
    using o(7) st2 load_order_Some [of oid d2]
    by (auto simp: settle_completed_order_def split: option.splits if_splits)
  have "\<not> json_truthy (stored_proof so2)"
  proof (cases "stored_proof so2")
    case (Some p)
    with stored_proof_mem [OF so2 Some] trade_step_proofs [OF 1 assms(3)] o(5) show ?thesis by fastforce
  qed (simp add: json_truthy_def)
  moreover have "\<not> should_use_hold_window w" using assms(2) by (simp add: should_use_hold_window_def)
  ultimately have "d3 = d2" using s by simp
  then show ?thesis using 4 o tr st2 by simp
qed

definition hand_world :: world where
  "hand_world = demo_world\<lparr>env := (\<lambda>_. None)\<rparr>"

definition demo_unproven_db :: db where
  "demo_unproven_db = demo_waiting_db\<lparr>
     trade_ops := map (\<lambda>(i, t). (i, t\<lparr>t_delivery_proof := JNull\<rparr>)) (trade_ops demo_waiting_db)\<rparr>"

theorem completion_by_hand_unsettled_witness:
  "\<exists>d'. mock_success_tx hand_world 5 ''o2'' ''buyer'' ''k'' UR_BUYER demo_unproven_db = Inr (''o2'', d')
     \<and> map_option o_status (row (orders d') ''o2'') = Some OS_TRADE_CONFIRMED \<and> bal (bank d') [] AT_HOLD = 200"
proof -
  let ?r = "mock_success_tx hand_world 5 ''o2'' ''buyer'' ''k'' UR_BUYER demo_unproven_db"
  have "case ?r of Inl _ \<Rightarrow> False | Inr (i, _) \<Rightarrow> i = ''o2''" "\<not> real_settlement_enabled hand_world"
    "\<forall>(j, t) \<in> set (trade_ops demo_unproven_db). \<not> json_truthy (Some (t_delivery_proof t))"
    "bal (bank demo_unproven_db) [] AT_HOLD = 200"
    by code_simp+
  moreover then obtain d' where "?r = Inr (''o2'', d')" by (auto split: sum.splits prod.splits)
  ultimately show ?thesis using completion_by_hand_unsettled by fastforce
qed

end
