(* ===== verification/PaymentBasics.thy ===== *)
theory PaymentBasics
  imports Environment
begin

text \<open>
  The pure parts of the payments: amounts in USD cents, in the token's smallest unit and as decimal
  strings, the address formats and the webhook signature
  (\<^verbatim>\<open>providers/payment/payment.util.ts\<close>), the settings
  (\<^verbatim>\<open>providers/payment/payment.config.ts\<close>) and the types of the provider interface
  (\<^verbatim>\<open>providers/payment/payment-provider.interface.ts\<close>). The keyed hash is a parameter.
\<close>

section \<open>Amounts\<close>

definition sun_per_usd_minor :: int where
  "sun_per_usd_minor = 10000"

text \<open>The division of \<open>BigInt\<close> truncates toward zero.\<close>

definition sun_to_usd_minor :: "int \<Rightarrow> int" where
  "sun_to_usd_minor sun = sgn sun * (\<bar>sun\<bar> div sun_per_usd_minor)"

definition usd_minor_to_sun :: "int \<Rightarrow> int" where
  "usd_minor_to_sun minor = minor * sun_per_usd_minor"

definition usd_minor_to_decimal_string :: "int \<Rightarrow> string" where
  "usd_minor_to_decimal_string minor =
     (let a = \<bar>minor\<bar>; whole = a div 100; frac = a mod 100;
          body = (if frac = 0 then show_int whole
                  else show_int whole @ ''.'' @ (if frac < 10 then ''0'' else []) @ show_int frac)
      in if minor < 0 then ''-'' @ body else body)"

definition is_dot :: "char \<Rightarrow> bool" where
  "is_dot c \<longleftrightarrow> c = CHR ''.''"

text \<open>\<open>None\<close> stands for the thrown error.\<close>

definition usd_decimal_to_minor :: "string \<Rightarrow> int option" where
  "usd_decimal_to_minor usd =
     (let trimmed = js_trim usd;
          negative = prefix ''-'' trimmed;
          unsigned = (if negative then tl trimmed else trimmed);
          whole = takeWhile (\<lambda>c. \<not> is_dot c) unsigned;
          rest = dropWhile (\<lambda>c. \<not> is_dot c) unsigned
      in if all_digits whole \<and> (rest = [] \<or> all_digits (tl rest))
         then
           let padded = take 3 (tl rest @ ''00'');
               tenths = digits_value (drop 2 padded);
               cents = digits_value (take 2 padded) + (if 5 \<le> tenths then 1 else 0);
               minor = (if 100 \<le> cents then (digits_value whole + 1) * 100 + (cents - 100)
                        else digits_value whole * 100 + cents)
           in Some (if negative then - minor else minor)
         else None)"

section \<open>Addresses and signatures\<close>

definition is_base58 :: "char \<Rightarrow> bool" where
  "is_base58 c \<longleftrightarrow> (let n = of_char c :: nat in
     49 \<le> n \<and> n \<le> 57 \<or> 65 \<le> n \<and> n \<le> 72 \<or> 74 \<le> n \<and> n \<le> 78 \<or> 80 \<le> n \<and> n \<le> 90
     \<or> 97 \<le> n \<and> n \<le> 107 \<or> 109 \<le> n \<and> n \<le> 122)"

definition is_valid_tron_address :: "string \<Rightarrow> bool" where
  "is_valid_tron_address s \<longleftrightarrow> length s = 34 \<and> prefix ''T'' s \<and> list_all is_base58 (tl s)"

definition is_evm_address :: "string \<Rightarrow> bool" where
  "is_evm_address s \<longleftrightarrow> length s = 42 \<and> prefix ''0x'' s \<and> list_all is_hex (drop 2 s)"

text \<open>The comparison of the two buffers throws when their lengths in bytes differ, which happens for
  a signature of the right length with a character outside ASCII.\<close>

definition verify_gateway_webhook_signature ::
    "(string \<Rightarrow> string \<Rightarrow> string) \<Rightarrow> string \<Rightarrow> string \<Rightarrow> string option \<Rightarrow> bool res" where
  "verify_gateway_webhook_signature hmac secret raw_body signature =
     (case signature of
        None \<Rightarrow> Inr False
      | Some s \<Rightarrow>
          if secret = [] \<or> s = [] then Inr False
          else
            let t = js_trim s;
                provided = to_lower (if to_lower (take 7 t) = ''sha256='' then drop 7 t else t);
                expected = hmac secret raw_body
            in if length expected \<noteq> length provided then Inr False
               else if \<exists>c \<in> set provided. 128 \<le> (of_char c :: nat)
               then Inl (PlainError ''Input buffers must have the same byte length'')
               else Inr (expected = provided))"

section \<open>Settings\<close>

datatype provider_kind = PK_mock | PK_crypto_tron | PK_north

fun provider_name :: "provider_kind \<Rightarrow> string" where
  "provider_name PK_mock = ''mock''"
| "provider_name PK_crypto_tron = ''crypto_tron''"
| "provider_name PK_north = ''north''"

definition env_or :: "world \<Rightarrow> string \<Rightarrow> string \<Rightarrow> string" where
  "env_or w name fallback = (case env w name of None \<Rightarrow> fallback | Some s \<Rightarrow> s)"

definition parse_payment_provider_kind :: "world \<Rightarrow> provider_kind res" where
  "parse_payment_provider_kind w =
     (if env w ''PAYMENT_PROVIDER'' = Some ''e2e_crypto''
      then (case parse_url w (env_or w ''DATABASE_URL'' []) of
              None \<Rightarrow> Inl (PlainError ''e2e_crypto requires a disposable local database'')
            | Some u \<Rightarrow>
                if env w ''NODE_ENV'' \<noteq> Some ''test'' \<or> env w ''HOST'' \<noteq> Some ''127.0.0.1''
                   \<or> env w ''ENABLE_TEST_ROUTES'' \<noteq> Some ''true''
                   \<or> url_hostname u \<notin> {''localhost'', ''127.0.0.1''} \<or> url_pathname u \<noteq> ''/p2pcs_e2e''
                then Inl (PlainError ''e2e_crypto requires test mode, loopback binding and p2pcs_e2e database'')
                else Inr PK_crypto_tron)
      else if env w ''PAYMENT_PROVIDER'' = Some ''crypto_tron'' then Inr PK_crypto_tron
      else if env w ''PAYMENT_PROVIDER'' = Some ''north'' then Inr PK_north
      else Inr PK_mock)"

definition max_safe_integer :: int where
  "max_safe_integer = 9007199254740991"

definition nonnegative_integer :: "world \<Rightarrow> string option \<Rightarrow> int \<Rightarrow> int res" where
  "nonnegative_integer w v fallback =
     (if v = None \<or> v = Some [] then Inr fallback
      else case js_number w (the v) of
        None \<Rightarrow> Inl (PlainError ''Payment amount/count must be a nonnegative safe integer'')
      | Some n \<Rightarrow> if max_safe_integer < n \<or> n < 0
          then Inl (PlainError ''Payment amount/count must be a nonnegative safe integer'') else Inr n)"

record payment_config =
  pc_provider :: provider_kind
  pc_min_deposit :: int
  pc_min_withdraw :: int
  pc_withdraw_fee :: int
  pc_manual_review :: bool
  pc_manual_review_count :: int
  pc_require_steam :: bool
  pc_min_completed_sales :: int
  pc_daily_cap :: int
  pc_mock_deposit :: bool

definition get_payment_config :: "world \<Rightarrow> payment_config res" where
  "get_payment_config w =
     bindE (parse_payment_provider_kind w) (\<lambda>provider.
     bindE (nonnegative_integer w (env w ''MIN_DEPOSIT_MINOR'') 500) (\<lambda>min_deposit.
     bindE (nonnegative_integer w (env w ''MIN_WITHDRAW_MINOR'') 2000) (\<lambda>min_withdraw.
     bindE (nonnegative_integer w (env w ''WITHDRAW_FEE_MINOR'') 200) (\<lambda>fee.
     bindE (nonnegative_integer w (env w ''WITHDRAW_MANUAL_REVIEW_COUNT'') 3) (\<lambda>review_count.
     bindE (nonnegative_integer w (env w ''WITHDRAW_MIN_COMPLETED_SALES'') 0) (\<lambda>min_sales.
     bindE (nonnegative_integer w (env w ''WITHDRAW_DAILY_CAP_MINOR'') 0) (\<lambda>cap.
     Inr \<lparr>pc_provider = provider, pc_min_deposit = max 100 min_deposit, pc_min_withdraw = max 100 min_withdraw,
          pc_withdraw_fee = max 0 fee, pc_manual_review = (env w ''WITHDRAW_MANUAL_REVIEW'' \<noteq> Some ''false''),
          pc_manual_review_count = max 0 review_count,
          pc_require_steam = (env w ''WITHDRAW_REQUIRE_STEAM_LINKED'' \<noteq> Some ''false''),
          pc_min_completed_sales = max 0 min_sales, pc_daily_cap = max 0 cap,
          pc_mock_deposit = (env w ''NODE_ENV'' \<noteq> Some ''production'' \<and> flag w ''ENABLE_MOCK_DEPOSIT'')\<rparr>)))))))"

definition live_provider :: "provider_kind \<Rightarrow> bool" where
  "live_provider p \<longleftrightarrow> p = PK_crypto_tron \<or> p = PK_north"

definition is_live_payment_provider :: "world \<Rightarrow> bool res" where
  "is_live_payment_provider w = bindE (get_payment_config w) (\<lambda>c. Inr (live_provider (pc_provider c)))"

definition is_crypto_payment_provider :: "world \<Rightarrow> bool res" where
  "is_crypto_payment_provider w = bindE (get_payment_config w) (\<lambda>c. Inr (pc_provider c = PK_crypto_tron))"

definition is_north_payment_provider :: "world \<Rightarrow> bool res" where
  "is_north_payment_provider w = bindE (get_payment_config w) (\<lambda>c. Inr (pc_provider c = PK_north))"

definition north_payment_methods :: "string list" where
  "north_payment_methods = [''trc20'', ''bep20'', ''erc20'']"

definition is_north_payment_method :: "string \<Rightarrow> bool" where
  "is_north_payment_method m \<longleftrightarrow> m \<in> set north_payment_methods"

section \<open>The provider's interface\<close>

record gateway_withdrawal =
  gw_id :: string
  gw_to_address :: string
  gw_amount_sun :: string
  gw_status :: string
  gw_payout_tx_hash :: "string option"
  gw_fail_reason :: "string option"

record gateway_payment =
  gp_tx_hash :: string
  gp_amount_sun :: string
  gp_status :: string

record withdrawal_order =
  wo_user :: id
  wo_to_address :: string
  wo_amount_sun :: string
  wo_external_id :: string
  wo_payment_method :: "string option"

record checkout_order =
  co_external_id :: string
  co_user :: id
  co_amount_usd :: string
  co_payment_method :: string
  co_return_url :: "string option"

record checkout_session =
  cs_checkout_url :: string
  cs_invoice_id :: string
  cs_payment_method :: string
  cs_credit_usd :: "string option"
  cs_expires_at :: string
  cs_address :: "string option"

text \<open>What a request to the gateway can fail with: the gateway's own error with its HTTP status and
  message, or anything else.\<close>

datatype gateway_failure = Gateway_error int string | Gateway_other error

record gateway =
  g_ensure_address :: "id \<Rightarrow> gateway_failure + (string \<times> int)"
  g_checkout :: "(checkout_order \<Rightarrow> gateway_failure + checkout_session) option"
  g_create_withdrawal :: "withdrawal_order \<Rightarrow> gateway_failure + gateway_withdrawal"
  g_get_withdrawal :: "string \<Rightarrow> gateway_failure + gateway_withdrawal option"
  g_user_payments :: "id \<Rightarrow> gateway_failure + gateway_payment list"

record deposit_hook =
  dh_event :: string
  dh_user :: id
  dh_tx_hash :: "string option"
  dh_amount_sun :: "string option"
  dh_address :: "string option"
  dh_credit_usd :: "string option"
  dh_external_id :: "string option"
  dh_invoice_id :: "string option"
  dh_payment_method :: "string option"

record withdrawal_hook =
  wh_event :: string
  wh_withdrawal :: string
  wh_user :: id
  wh_external_id :: "string option"
  wh_payout_tx_hash :: "string option"
  wh_amount_sun :: "string option"
  wh_reason :: string

text \<open>The payloads of a webhook. The last one stands for a type the service does not know.\<close>

datatype webhook =
    Deposit_credited deposit_hook
  | Withdrawal_paid withdrawal_hook
  | Withdrawal_failed withdrawal_hook
  | Other_hook string string id


section \<open>Reading and writing amounts\<close>

lemma foldl_digits:
  "foldl (\<lambda>n c. 10 * n + (int (of_char c) - 48)) a s = a * 10 ^ length s + digits_value s"
proof (induction s arbitrary: a)
  case (Cons c s)
  have "foldl (\<lambda>n c. 10 * n + (int (of_char c) - 48)) 0 (c # s)
      = (int (of_char c) - 48) * 10 ^ length s + digits_value s"
    using Cons [of "int (of_char c) - 48"] by simp
  with Cons [of "10 * a + (int (of_char c) - 48)"] show ?case by (simp add: digits_value_def algebra_simps)
qed (simp add: digits_value_def)

lemma digits_value_append: "digits_value (s @ t) = digits_value s * 10 ^ length t + digits_value t"
  using foldl_digits [of "digits_value s" t] by (simp add: digits_value_def)

lemma digits_value_Nil [simp]: "digits_value [] = 0"
  by (simp add: digits_value_def)

lemma digits_value_single: "digits_value [c] = int (of_char c) - 48"
  by (simp add: digits_value_def)

lemma digits_value_Cons: "digits_value (c # s) = (int (of_char c) - 48) * 10 ^ length s + digits_value s"
  using digits_value_append [of "[c]" s] by (simp add: digits_value_single)

lemma digit_char_value: "n < 10 \<Longrightarrow> (of_char (digit_char n) :: nat) = 48 + n"
  by (simp add: digit_char_def)

lemma is_digit_char: "n < 10 \<Longrightarrow> is_digit (digit_char n)"
  by (simp add: is_digit_def digit_char_value)

lemma digits_bounds: "list_all is_digit s \<Longrightarrow> 0 \<le> digits_value s \<and> digits_value s < 10 ^ length s"
proof (induction s)
  case (Cons c s)
  define k where "k = int (of_char c) - 48"
  define p :: int where "p = 10 ^ length s"
  have k: "0 \<le> k" "k \<le> 9" using Cons.prems by (auto simp: is_digit_def k_def Let_def)
  have p: "0 < p" by (simp add: p_def)
  have "0 \<le> k * p" "k * p \<le> 9 * p" using k p by (simp_all add: mult_right_mono)
  moreover have "0 \<le> digits_value s" "digits_value s < p" using Cons by (simp_all add: p_def)
  ultimately have "0 \<le> k * p + digits_value s \<and> k * p + digits_value s < 10 * p" by linarith
  then show ?case by (simp add: digits_value_Cons k_def p_def)
qed simp

lemma show_nat_digits: "digits_value (show_nat n) = int n \<and> list_all is_digit (show_nat n)"
proof (induction n rule: show_nat.induct)
  case (1 n)
  show ?case
  proof (cases "n < 10")
    case True
    then show ?thesis
      using digit_char_value [OF True] is_digit_char [OF True] by (simp add: show_nat.simps [of n] digits_value_single)
  next
    case False
    have m: "n mod 10 < 10" by simp
    have "int n = int (n div 10) * 10 + int (n mod 10)" by presburger
    then show ?thesis
      using 1 [OF False] False digit_char_value [OF m] is_digit_char [OF m]
      by (simp add: show_nat.simps [of n] digits_value_append digits_value_single)
  qed
qed

lemma show_nat_nonempty: "show_nat n \<noteq> []"
  by (subst show_nat.simps) simp

lemma show_int_nonneg: "0 \<le> i \<Longrightarrow> show_int i = show_nat (nat i)"
  by (simp add: show_int_def)

lemma show_int_digits:
  assumes "0 \<le> i"
  shows "digits_value (show_int i) = i" "all_digits (show_int i)"
  using show_nat_digits [of "nat i"] assms show_nat_nonempty by (simp_all add: show_int_nonneg all_digits_def)

lemma digit_not_dot: "is_digit c \<Longrightarrow> \<not> is_dot c \<and> \<not> is_space c \<and> c \<noteq> CHR ''-''"
  by (auto simp: is_digit_def is_dot_def is_space_def Let_def)

lemma take_whole:
  assumes "list_all is_digit s"
  shows "takeWhile (\<lambda>c. \<not> is_dot c) s = s" "dropWhile (\<lambda>c. \<not> is_dot c) s = []"
    "takeWhile (\<lambda>c. \<not> is_dot c) (s @ CHR ''.'' # t) = s" "dropWhile (\<lambda>c. \<not> is_dot c) (s @ CHR ''.'' # t) = CHR ''.'' # t"
proof -
  have n: "\<And>c. c \<in> set s \<Longrightarrow> \<not> is_dot c" using assms digit_not_dot by (auto simp: list_all_iff)
  have d: "is_dot (CHR ''.'')" by (simp add: is_dot_def)
  show "takeWhile (\<lambda>c. \<not> is_dot c) s = s" "dropWhile (\<lambda>c. \<not> is_dot c) s = []"
    using n by (simp_all add: takeWhile_eq_all_conv dropWhile_eq_Nil_conv)
  show "takeWhile (\<lambda>c. \<not> is_dot c) (s @ CHR ''.'' # t) = s" "dropWhile (\<lambda>c. \<not> is_dot c) (s @ CHR ''.'' # t) = CHR ''.'' # t"
    using n d takeWhile_append2 [of s "\<lambda>c. \<not> is_dot c" "CHR ''.'' # t"]
      dropWhile_append2 [of s "\<lambda>c. \<not> is_dot c" "CHR ''.'' # t"] by simp_all
qed

text \<open>A string that starts and ends with something else than white space is trimmed.\<close>

lemma dropWhile_clean: "s \<noteq> [] \<Longrightarrow> \<not> P (hd s) \<Longrightarrow> dropWhile P s = s"
  by (cases s) auto

lemma js_trim_clean_ends: "s \<noteq> [] \<Longrightarrow> \<not> is_space (hd s) \<Longrightarrow> \<not> is_space (last s) \<Longrightarrow> js_trim s = s"
  using dropWhile_clean [of s is_space] dropWhile_clean [of "rev s" is_space] by (simp add: js_trim_def hd_rev)

text \<open>What the reader makes of digits, and of digits with two decimals.\<close>

lemma read_decimal:
  assumes "all_digits whole" and "f = [] \<or> (\<exists>a b. f = [a, b] \<and> is_digit a \<and> is_digit b)"
  defines "s \<equiv> whole @ (if f = [] then [] else CHR ''.'' # f)"
  shows "usd_decimal_to_minor s = Some (digits_value whole * 100 + digits_value f)"
    and "usd_decimal_to_minor (CHR ''-'' # s) = Some (- (digits_value whole * 100 + digits_value f))"
proof -
  have w: "list_all is_digit whole" "whole \<noteq> []" using assms(1) by (auto simp: all_digits_def)
  have hd: "is_digit (hd s)" using w by (cases whole) (auto simp: s_def)
  have last: "is_digit (last s)"
    using w assms(2) by (cases whole rule: rev_cases) (auto simp: s_def)
  have trim: "js_trim s = s" "js_trim (CHR ''-'' # s) = CHR ''-'' # s"
    using js_trim_clean_ends [of s] js_trim_clean_ends [of "CHR ''-'' # s"] hd last w digit_not_dot
    by (auto simp: s_def is_space_def)
  have neg: "\<not> prefix ''-'' s" using hd digit_not_dot by (cases s) auto
  have parts: "takeWhile (\<lambda>c. \<not> is_dot c) s = whole"
    "dropWhile (\<lambda>c. \<not> is_dot c) s = (if f = [] then [] else CHR ''.'' # f)"
    using take_whole [OF w(1)] by (simp_all add: s_def)
  have zeros: "digits_value ''00'' = 0" "digits_value ''0'' = 0" by (simp_all add: digits_value_def)
  have "usd_decimal_to_minor s = Some (digits_value whole * 100 + digits_value f)
      \<and> usd_decimal_to_minor (CHR ''-'' # s) = Some (- (digits_value whole * 100 + digits_value f))"
  proof (cases "f = []")
    case True
    then show ?thesis unfolding usd_decimal_to_minor_def Let_def trim by (simp add: parts neg assms(1) zeros)
  next
    case False
    then obtain a b where f: "f = [a, b]" "is_digit a" "is_digit b" using assms(2) by blast
    have d: "digits_value [a, b] < 100" "all_digits [a, b]" using digits_bounds [of "[a, b]"] f by (auto simp: all_digits_def)
    show ?thesis unfolding usd_decimal_to_minor_def Let_def trim using d by (simp add: parts neg assms(1) f(1) zeros)
  qed
  then show "usd_decimal_to_minor s = Some (digits_value whole * 100 + digits_value f)"
    "usd_decimal_to_minor (CHR ''-'' # s) = Some (- (digits_value whole * 100 + digits_value f))" by blast+
qed


section \<open>The theorems of amounts\<close>

text \<open>
  An amount survives its journey to the gateway and back. Reading the decimal string that is
  sent to the checkout gives the amount in cents again, for every amount, and so does converting
  to the token's smallest unit and back.
\<close>

theorem amount_roundtrip:
  "usd_decimal_to_minor (usd_minor_to_decimal_string m) = Some m \<and> sun_to_usd_minor (usd_minor_to_sun m) = m"
proof -
  define a where "a = \<bar>m\<bar>"
  define f where "f = (if a mod 100 = 0 then [] else (if a mod 100 < 10 then ''0'' else []) @ show_int (a mod 100))"
  have whole: "all_digits (show_int (a div 100))" "digits_value (show_int (a div 100)) = a div 100"
    using show_int_digits [of "a div 100"] by (simp_all add: a_def)
  have frac: "all_digits (show_int (a mod 100))" "digits_value (show_int (a mod 100)) = a mod 100"
    using show_int_digits [of "a mod 100"] by simp_all
  have len: "length (show_int (a mod 100)) = (if a mod 100 < 10 then 1 else 2)"
  proof -
    define n where "n = nat (a mod 100)"
    have "n < 100" by (simp add: n_def nat_less_iff)
    moreover have "length (show_nat n) = (if n < 10 then 1 else 2)" if "n < 100"
      using that show_nat.simps [of n] show_nat.simps [of "n div 10"] by simp
    ultimately show ?thesis by (auto simp: show_int_nonneg n_def nat_less_iff)
  qed
  have zero: "digits_value ''0'' = 0" "is_digit (CHR ''0'')" by (simp_all add: digits_value_def is_digit_def)
  have two: "f = [] \<or> (\<exists>x y. f = [x, y] \<and> is_digit x \<and> is_digit y)"
  proof (cases "a mod 100 = 0 \<or> a mod 100 < 10")
    case True
    with len frac(1) zero show ?thesis
      by (cases "show_int (a mod 100)") (auto simp: f_def all_digits_def)
  next
    case False
    with len have "length (show_int (a mod 100)) = 2" by simp
    then obtain x y where "show_int (a mod 100) = [x, y]" by (auto simp: numeral_2_eq_2 length_Suc_conv)
    with False frac(1) show ?thesis by (auto simp: f_def all_digits_def)
  qed
  have val: "digits_value f = a mod 100" using frac(2) zero by (simp add: f_def digits_value_Cons)
  define s where "s = show_int (a div 100) @ (if f = [] then [] else CHR ''.'' # f)"
  have str: "usd_minor_to_decimal_string m = (if m < 0 then CHR ''-'' # s else s)"
    using show_nat_nonempty
    by (simp add: usd_minor_to_decimal_string_def Let_def s_def f_def a_def show_int_def)
  have "usd_decimal_to_minor s = Some a" "usd_decimal_to_minor (CHR ''-'' # s) = Some (- a)"
    using read_decimal [OF whole(1) two] whole(2) val by (simp_all add: s_def)
  then have "usd_decimal_to_minor (usd_minor_to_decimal_string m) = Some m"
    using str by (auto simp: a_def)
  moreover have "sun_to_usd_minor (usd_minor_to_sun m) = m"
    by (simp add: sun_to_usd_minor_def usd_minor_to_sun_def sun_per_usd_minor_def sgn_if abs_mult)
  ultimately show ?thesis by blast
qed

lemma half_up_error:
  fixes p q r :: int
  shows "5 * p \<le> q \<Longrightarrow> q \<le> 9 * p \<Longrightarrow> 0 \<le> r \<Longrightarrow> r < p \<Longrightarrow> 2 * \<bar>10 * p - q - r\<bar> \<le> 10 * p"
    and "0 \<le> q \<Longrightarrow> q \<le> 4 * p \<Longrightarrow> 0 \<le> r \<Longrightarrow> r < p \<Longrightarrow> 2 * \<bar>- q - r\<bar> \<le> 10 * p"
  by arith+

text \<open>
  A credited amount is rounded to the nearest cent. For every decimal number the gateway may
  send, with however many digits after the point, the reader gives a number of cents that differs
  from the exact amount by at most half a cent.
\<close>

theorem credit_rounds_to_nearest:
  assumes "all_digits whole" and "all_digits frac"
  shows "\<exists>minor. usd_decimal_to_minor (whole @ ''.'' @ frac) = Some minor
     \<and> 2 * \<bar>minor * 10 ^ length frac - 100 * digits_value (whole @ frac)\<bar> \<le> 10 ^ length frac"
proof -
  have w: "list_all is_digit whole" "whole \<noteq> []" and fr: "list_all is_digit frac" "frac \<noteq> []"
    using assms by (auto simp: all_digits_def)
  let ?s = "whole @ CHR ''.'' # frac"
  have ends: "is_digit (hd ?s)" "is_digit (last ?s)"
    using w fr last_in_set [OF fr(2)] by (cases whole; simp add: list_all_iff)+
  have trim: "js_trim ?s = ?s" using js_trim_clean_ends [of ?s] ends digit_not_dot by auto
  have neg: "\<not> prefix ''-'' ?s" using w digit_not_dot by (cases whole) auto
  obtain c d t r where f3: "frac @ ''00'' = [c, d, t] @ r"
    using fr(2) by (cases frac; cases "tl frac"; cases "tl (tl frac)") auto
  have dig: "list_all is_digit ([c, d, t] @ r)" unfolding f3 [symmetric] using fr(1) by (simp add: is_digit_def)
  have len: "length frac = Suc (length r)" using arg_cong [OF f3, of length] by simp
  define p :: int where "p = 10 ^ length r"
  define C where "C = digits_value [c, d]"
  define T where "T = digits_value [t]"
  have bounds: "0 \<le> C" "C < 100" "0 \<le> T" "T < 10" "0 \<le> digits_value r" "digits_value r < p"
    using digits_bounds [of "[c, d]"] digits_bounds [of "[t]"] digits_bounds [of r] dig by (auto simp: C_def T_def p_def)
  have "digits_value (frac @ ''00'') = 100 * digits_value frac" by (simp add: digits_value_append digits_value_Cons)
  moreover have "digits_value ([c, d] @ [t] @ r) = C * (10 * p) + (T * p + digits_value r)"
    by (simp only: digits_value_append [of "[c, d]"] digits_value_append [of "[t]"] C_def T_def p_def) simp
  ultimately have frac: "100 * digits_value frac = C * (10 * p) + (T * p + digits_value r)" using f3 by simp
  have read: "usd_decimal_to_minor ?s = Some (digits_value whole * 100 + C + (if 5 \<le> T then 1 else 0))"
    unfolding usd_decimal_to_minor_def Let_def trim using bounds
    by (simp add: take_whole [OF w(1)] neg assms f3 C_def T_def)
  have p: "10 ^ length frac = 10 * p" "0 < p" by (simp_all add: p_def len)
  have exact: "100 * digits_value (whole @ frac) = 1000 * (digits_value whole * p) + C * (10 * p) + (T * p + digits_value r)"
    using frac p(1) by (simp add: digits_value_append)
  have tp: "0 \<le> T * p" "5 \<le> T \<Longrightarrow> 5 * p \<le> T * p" "T * p \<le> 9 * p" "\<not> 5 \<le> T \<Longrightarrow> T * p \<le> 4 * p"
    using bounds p(2) by (auto intro: mult_right_mono)
  have "2 * \<bar>(digits_value whole * 100 + C + (if 5 \<le> T then 1 else 0)) * (10 * p)
      - (1000 * (digits_value whole * p) + C * (10 * p) + (T * p + digits_value r))\<bar> \<le> 10 * p"
  proof (cases "5 \<le> T")
    case True
    have eq: "(digits_value whole * 100 + C + 1) * (10 * p)
      - (1000 * (digits_value whole * p) + C * (10 * p) + (T * p + digits_value r)) = 10 * p - T * p - digits_value r"
      by (simp add: algebra_simps)
    have "2 * \<bar>(digits_value whole * 100 + C + 1) * (10 * p)
      - (1000 * (digits_value whole * p) + C * (10 * p) + (T * p + digits_value r))\<bar> \<le> 10 * p"
      unfolding eq by (rule half_up_error(1)) (use tp(3) tp(2) [OF True] bounds in auto)
    with True show ?thesis by (simp only: if_True if_False)
  next
    case False
    have eq: "(digits_value whole * 100 + C + 0) * (10 * p)
      - (1000 * (digits_value whole * p) + C * (10 * p) + (T * p + digits_value r)) = - (T * p) - digits_value r"
      by (simp add: algebra_simps)
    have "2 * \<bar>(digits_value whole * 100 + C + 0) * (10 * p)
      - (1000 * (digits_value whole * p) + C * (10 * p) + (T * p + digits_value r))\<bar> \<le> 10 * p"
      unfolding eq by (rule half_up_error(2)) (use tp(1) tp(4) [OF False] bounds in auto)
    with False show ?thesis by (simp only: if_True if_False)
  qed
  then show ?thesis using read p(1) exact by simp
qed

theorem credit_rounds_to_nearest_witness:
  "\<exists>minor. usd_decimal_to_minor ''10.999'' = Some minor \<and> 2 * \<bar>minor * 1000 - 1099900\<bar> \<le> 1000"
proof -
  have "all_digits ''10''" "all_digits ''999''" "100 * digits_value ''10999'' = 1099900" by code_simp+
  with credit_rounds_to_nearest [of "''10''" "''999''"] show ?thesis by simp
qed

end
