(* ===== verification/Withdrawals.thy ===== *)
theory Withdrawals
  imports PaymentBasics HeldMoney SettlementGuard
begin

text \<open>
  Withdrawals: \<^verbatim>\<open>payments/withdrawal-guard.service.ts\<close> and the withdrawal operations of
  \<^verbatim>\<open>payments/payments.service.ts\<close>. The gateway is a parameter (\<open>gateway\<close>, the functions of
  \<^verbatim>\<open>payment-provider.interface.ts\<close>). A handler that commits more than once returns the
  database it leaves even when it throws; \<open>approve_withdrawal\<close> keeps the read of the request, the
  claim and the payout apart, so that two of them can be interleaved.
\<close>

section \<open>The guard\<close>

definition counts_today :: "withdrawal_status \<Rightarrow> bool" where
  "counts_today s \<longleftrightarrow> s \<in> {WR_PENDING_REVIEW, WR_APPROVED, WR_PROCESSING, WR_PAID}"

definition day_start :: "int \<Rightarrow> int" where
  "day_start now = now - now mod day_ms"

definition used_today :: "int \<Rightarrow> id \<Rightarrow> db \<Rightarrow> int" where
  "used_today now u d = tsum (\<lambda>_ r. if w_user r = u \<and> day_start now \<le> w_created_at r \<and> counts_today (w_status r)
     then w_amount r else 0) (withdrawals d)"

definition prior_withdrawal_count :: "id \<Rightarrow> db \<Rightarrow> int" where
  "prior_withdrawal_count u d =
     int (length (filter (\<lambda>(_, r). w_user r = u \<and> w_status r \<noteq> WR_REJECTED) (withdrawals d)))"

definition completed_sales :: "id \<Rightarrow> db \<Rightarrow> int" where
  "completed_sales u d = int (length (filter (\<lambda>(_, r). o_seller r = u \<and> o_status r = OS_COMPLETED) (orders d)))"

text \<open>The result says whether the request needs a manual review.\<close>

definition validate_and_resolve_review :: "world \<Rightarrow> int \<Rightarrow> id \<Rightarrow> int \<Rightarrow> db \<Rightarrow> bool res" where
  "validate_and_resolve_review w now u amount d =
     bindE (get_payment_config w) (\<lambda>config.
     case row (users (bank d)) u of
       None \<Rightarrow> Inl (BadRequest ''User not found'')
     | Some usr \<Rightarrow>
         if u_status usr = US_SUSPENDED then Inl (Forbidden ''Account is suspended'')
         else if pc_require_steam config \<and> \<not> present (u_steam_id usr)
         then Inl (Forbidden ''Steam account must be linked before withdrawal'')
         else if u_role usr = UR_SELLER \<and> 0 < pc_min_completed_sales config
            \<and> completed_sales u d < pc_min_completed_sales config
         then Inl (Forbidden (''Minimum '' @ show_int (pc_min_completed_sales config)
                    @ '' completed sales required for withdrawal''))
         else if 0 < pc_daily_cap config \<and> pc_daily_cap config < used_today now u d + amount
         then Inl (BadRequest ''Daily withdrawal limit exceeded'')
         else Inr (pc_manual_review config \<and> prior_withdrawal_count u d < pc_manual_review_count config))"

section \<open>Creating a request\<close>

text \<open>The upper case of an ASCII string.\<close>

definition to_upper_ascii :: "string \<Rightarrow> string" where
  "to_upper_ascii = List.map (\<lambda>c. let n = of_char c :: nat in if 97 \<le> n \<and> n \<le> 122 then char_of (n - 32) else c)"

definition resolve_withdrawal_payment_method :: "string \<Rightarrow> string option \<Rightarrow> string res" where
  "resolve_withdrawal_payment_method to_address requested =
     (if present requested then Inr (the requested)
      else if is_valid_tron_address to_address then Inr ''trc20''
      else if is_evm_address to_address
      then Inl (BadRequest ''paymentMethod (bep20 or erc20) is required for EVM addresses'')
      else Inr ''trc20'')"

definition assert_withdrawal_address :: "string \<Rightarrow> string \<Rightarrow> unit res" where
  "assert_withdrawal_address to_address pay_method =
     (if pay_method = ''trc20''
      then if is_valid_tron_address to_address then Inr () else Inl (BadRequest ''Invalid TRC-20 address'')
      else if is_evm_address to_address then Inr ()
      else Inl (BadRequest (''Invalid '' @ to_upper_ascii pay_method @ '' address'')))"

definition insert_withdrawal :: "withdrawal_request \<Rightarrow> db \<Rightarrow> (id \<times> db) res" where
  "insert_withdrawal r d =
     (if \<exists>(_, q) \<in> set (withdrawals d). w_idempotency_key q = w_idempotency_key r then Inl UniqueViolation
      else
        let (i, d) = draw_db d
        in Inr (i, d\<lparr>withdrawals := insert_row i r (withdrawals d)\<rparr>))"

text \<open>The transaction of \<open>createWithdrawal\<close>: the review, the freeze and the row.\<close>

definition create_withdrawal_tx ::
    "world \<Rightarrow> int \<Rightarrow> id \<Rightarrow> string \<Rightarrow> int \<Rightarrow> int \<Rightarrow> string \<Rightarrow> string \<Rightarrow> db \<Rightarrow> ((id \<times> withdrawal_status) \<times> db) res" where
  "create_withdrawal_tx w now u to_address amount fee key pay_method d =
     bindE (validate_and_resolve_review w now u amount d) (\<lambda>needs_review.
     bindE (if needs_review then freeze_for_withdrawal u amount (bank d) else Inr (bank d)) (\<lambda>b.
     let status = (if needs_review then WR_PENDING_REVIEW else WR_APPROVED) in
     bindE (insert_withdrawal
              \<lparr>w_user = u, w_amount = amount, w_fee = fee, w_net = amount - fee, w_to_address = to_address,
               w_payment_method = pay_method, w_status = status, w_gateway_ref = None, w_payout_tx_hash = None,
               w_idempotency_key = key, w_reviewed_by = None, w_reject_reason = None, w_created_at = now,
               w_paid_at = None\<rparr> (d\<lparr>bank := b\<rparr>)) (\<lambda>(i, d).
     Inr ((i, status), d))))"

section \<open>Approving a request\<close>

text \<open>The claim of a request that was read with the row \<open>r\<close>; whether it was won.\<close>

definition approve_claim :: "string \<Rightarrow> id \<Rightarrow> withdrawal_request \<Rightarrow> id option \<Rightarrow> db \<Rightarrow> (bool \<times> db) res" where
  "approve_claim source i r reviewer d =
     (let (count, t) = update_many (\<lambda>k v. k = i \<and> w_status v = w_status r)
            (\<lambda>v. v\<lparr>w_status := WR_PROCESSING, w_reviewed_by := reviewer\<rparr>) (withdrawals d)
      in if count \<noteq> 1 then Inr (False, d\<lparr>withdrawals := t\<rparr>)
         else bindE (withdraw (w_user r) (w_amount r) (w_fee r) (w_net r) (''withdraw:'' @ i) i
                 (w_status r = WR_PENDING_REVIEW)
                 [(''source'', JStr source), (''toAddress'', JStr (w_to_address r)),
                  (''paymentMethod'', JStr (w_payment_method r))] (bank d)) (\<lambda>(_, b).
              Inr (True, d\<lparr>withdrawals := t, bank := b\<rparr>)))"

text \<open>The payout: the request to the gateway and its reference. Any failure keeps the state.\<close>

definition pending_verification :: error where
  "pending_verification =
     BadRequest ''Withdrawal outcome pending verification; do not create a replacement request''"

definition approve_payout :: "gateway \<Rightarrow> id \<Rightarrow> withdrawal_request \<Rightarrow> db \<Rightarrow> withdrawal_request option res \<times> db" where
  "approve_payout g i r d =
     (case g_create_withdrawal g
             \<lparr>wo_user = w_user r, wo_to_address = w_to_address r,
              wo_amount_sun = show_int (usd_minor_to_sun (w_net r)), wo_external_id = ''wd_'' @ i,
              wo_payment_method = Some (if is_north_payment_method (w_payment_method r)
                                        then w_payment_method r else ''trc20'')\<rparr> of
        Inl _ \<Rightarrow> (Inl pending_verification, d)
      | Inr gw \<Rightarrow>
          case update_row i (\<lambda>v. v\<lparr>w_gateway_ref := Some (gw_id gw)\<rparr>) (withdrawals d) of
            Inl _ \<Rightarrow> (Inl pending_verification, d)
          | Inr t \<Rightarrow> (Inr (row t i), d\<lparr>withdrawals := t\<rparr>))"

definition approve_withdrawal ::
    "world \<Rightarrow> gateway \<Rightarrow> id \<Rightarrow> id \<Rightarrow> bool \<Rightarrow> db \<Rightarrow> withdrawal_request option res \<times> db" where
  "approve_withdrawal w g i reviewer auto d =
     (case row (withdrawals d) i of
        None \<Rightarrow> (Inl (NotFound ''Withdrawal not found''), d)
      | Some r \<Rightarrow>
          if w_status r \<noteq> WR_PENDING_REVIEW \<and> w_status r \<noteq> WR_APPROVED then (Inr (Some r), d)
          else case get_payment_config w of
            Inl e \<Rightarrow> (Inl e, d)
          | Inr config \<Rightarrow>
              case approve_claim (provider_name (pc_provider config)) i r (if auto then None else Some reviewer) d of
                Inl e \<Rightarrow> (Inl e, d)
              | Inr (claimed, d) \<Rightarrow>
                  if \<not> claimed then (Inr (row (withdrawals d) i), d) else approve_payout g i r d)"

section \<open>The handlers\<close>

definition same_request :: "id \<Rightarrow> string \<Rightarrow> int \<Rightarrow> string \<Rightarrow> withdrawal_request \<Rightarrow> bool" where
  "same_request u to_address amount pay_method r \<longleftrightarrow>
     w_user r = u \<and> w_to_address r = to_address \<and> w_amount r = amount \<and> w_payment_method r = pay_method"

definition find_withdrawal_by_key :: "string \<Rightarrow> db \<Rightarrow> withdrawal_request option" where
  "find_withdrawal_by_key key d = map_option snd (find (\<lambda>(_, r). w_idempotency_key r = key) (withdrawals d))"

definition create_withdrawal ::
    "world \<Rightarrow> gateway \<Rightarrow> int \<Rightarrow> id \<Rightarrow> string \<Rightarrow> int \<Rightarrow> string \<Rightarrow> string option \<Rightarrow> db
      \<Rightarrow> withdrawal_request option res \<times> db" where
  "create_withdrawal w g now u to_address amount key requested d =
     (case bindE (is_live_payment_provider w) (\<lambda>live.
             if \<not> live then Inl (Forbidden ''Crypto payments are not enabled'')
             else bindE (get_payment_config w) (\<lambda>config.
             if amount < pc_min_withdraw config
             then Inl (BadRequest (''Minimum withdrawal is '' @ show_int (pc_min_withdraw config) @ '' minor units''))
             else bindE (resolve_withdrawal_payment_method to_address requested) (\<lambda>pay_method.
             bindE (assert_withdrawal_address to_address pay_method) (\<lambda>_. Inr (config, pay_method))))) of
        Inl e \<Rightarrow> (Inl e, d)
      | Inr (config, pay_method) \<Rightarrow>
          case find_withdrawal_by_key key d of
            Some r \<Rightarrow>
              if same_request u to_address amount pay_method r then (Inr (Some r), d)
              else (Inl (BadRequest ''Idempotency key conflicts with this request''), d)
          | None \<Rightarrow>
              let fee = pc_withdraw_fee config in
              if amount \<le> fee then (Inl (BadRequest ''Withdrawal amount must exceed fee''), d)
              else case get_available_balance u (bank d) of
                Inl e \<Rightarrow> (Inl e, d)
              | Inr (available, b) \<Rightarrow>
                  let d = d\<lparr>bank := b\<rparr> in
                  if available < amount then (Inl (BadRequest ''Insufficient available balance''), d)
                  else case create_withdrawal_tx w now u to_address amount fee key pay_method d of
                    Inl e \<Rightarrow> (Inl e, d)
                  | Inr ((i, status), d) \<Rightarrow>
                      if status = WR_APPROVED then approve_withdrawal w g i u True d
                      else (Inr (row (withdrawals d) i), d))"

text \<open>Rejecting: the transaction, given the row that was read, and the handler.\<close>

definition reject_tx :: "id \<Rightarrow> withdrawal_request \<Rightarrow> id \<Rightarrow> string \<Rightarrow> db \<Rightarrow> db res" where
  "reject_tx i r reviewer reason d =
     (let (count, t) = update_many (\<lambda>k v. k = i \<and> w_status v = WR_PENDING_REVIEW)
            (\<lambda>v. v\<lparr>w_status := WR_REJECTED\<rparr>) (withdrawals d)
      in if count \<noteq> 1 then Inr (d\<lparr>withdrawals := t\<rparr>)
         else bindE (release_withdraw_hold (w_user r) (w_amount r) (bank d)) (\<lambda>b.
              bindE (update_row i (\<lambda>v. v\<lparr>w_status := WR_REJECTED, w_reviewed_by := Some reviewer,
                                    w_reject_reason := Some reason\<rparr>) t) (\<lambda>t.
              Inr (d\<lparr>withdrawals := t, bank := b\<rparr>))))"

definition reject_withdrawal :: "id \<Rightarrow> id \<Rightarrow> string \<Rightarrow> db \<Rightarrow> (withdrawal_request option \<times> db) res" where
  "reject_withdrawal i reviewer reason d =
     (case row (withdrawals d) i of
        None \<Rightarrow> Inl (NotFound ''Withdrawal not found'')
      | Some r \<Rightarrow>
          if w_status r \<noteq> WR_PENDING_REVIEW then Inr (Some r, d)
          else bindE (reject_tx i r reviewer reason d) (\<lambda>d. Inr (row (withdrawals d) i, d)))"

text \<open>The reads; rows stand in the order of their creation.\<close>

definition list_withdrawals :: "id \<Rightarrow> db \<Rightarrow> (id \<times> withdrawal_request) list" where
  "list_withdrawals u d = take 50 (rev (filter (\<lambda>(_, r). w_user r = u) (withdrawals d)))"

definition get_withdrawal :: "id \<Rightarrow> id \<Rightarrow> db \<Rightarrow> withdrawal_request res" where
  "get_withdrawal u i d =
     (case row (withdrawals d) i of
        Some r \<Rightarrow> if w_user r = u then Inr r else Inl (NotFound ''Withdrawal not found'')
      | None \<Rightarrow> Inl (NotFound ''Withdrawal not found''))"

definition list_pending_withdrawals :: "db \<Rightarrow> (id \<times> withdrawal_request) list" where
  "list_pending_withdrawals d = take 100 (filter (\<lambda>(_, r). w_status r = WR_PENDING_REVIEW) (withdrawals d))"

end
