(* ===== verification/PaymentWebhooks.thy ===== *)
theory PaymentWebhooks
  imports Withdrawals
begin

text \<open>
  The rest of \<^verbatim>\<open>payments/payments.service.ts\<close>: the webhooks of the payment provider, the
  reconciliation of the withdrawals that are still processing, and the deposits. A webhook is
  stored in one commit and handled in a second one, so a failed handling leaves the stored event
  for the next delivery. A field that is missing and one that is \<open>null\<close> are both \<open>None\<close>; the
  JSON values leave such fields out where the code does.
\<close>

section \<open>Payloads\<close>

definition json_fields :: "(string \<times> string option) list \<Rightarrow> json" where
  "json_fields fs = JObj (concat (List.map (\<lambda>(k, v). case v of None \<Rightarrow> [] | Some s \<Rightarrow> [(k, JStr s)]) fs))"

fun hook_event :: "webhook \<Rightarrow> string" where
  "hook_event (Deposit_credited h) = dh_event h"
| "hook_event (Withdrawal_paid h) = wh_event h"
| "hook_event (Withdrawal_failed h) = wh_event h"
| "hook_event (Other_hook e t u) = e"

fun hook_type :: "webhook \<Rightarrow> string" where
  "hook_type (Deposit_credited h) = ''deposit.credited''"
| "hook_type (Withdrawal_paid h) = ''withdrawal.paid''"
| "hook_type (Withdrawal_failed h) = ''withdrawal.failed''"
| "hook_type (Other_hook e t u) = t"

fun hook_user :: "webhook \<Rightarrow> id" where
  "hook_user (Deposit_credited h) = dh_user h"
| "hook_user (Withdrawal_paid h) = wh_user h"
| "hook_user (Withdrawal_failed h) = wh_user h"
| "hook_user (Other_hook e t u) = u"

fun json_hook :: "webhook \<Rightarrow> json" where
  "json_hook (Deposit_credited h) = json_fields
     [(''eventId'', Some (dh_event h)), (''type'', Some ''deposit.credited''), (''externalUserId'', Some (dh_user h)),
      (''txHash'', dh_tx_hash h), (''amountSun'', dh_amount_sun h), (''address'', dh_address h),
      (''creditUsd'', dh_credit_usd h), (''externalId'', dh_external_id h), (''invoiceId'', dh_invoice_id h),
      (''paymentMethod'', dh_payment_method h)]"
| "json_hook (Withdrawal_paid h) = json_fields
     [(''eventId'', Some (wh_event h)), (''type'', Some ''withdrawal.paid''), (''withdrawalId'', Some (wh_withdrawal h)),
      (''externalUserId'', Some (wh_user h)), (''payoutTxHash'', wh_payout_tx_hash h),
      (''amountSun'', wh_amount_sun h), (''externalId'', wh_external_id h)]"
| "json_hook (Withdrawal_failed h) = json_fields
     [(''eventId'', Some (wh_event h)), (''type'', Some ''withdrawal.failed''), (''withdrawalId'', Some (wh_withdrawal h)),
      (''externalUserId'', Some (wh_user h)), (''reason'', Some (wh_reason h)), (''externalId'', wh_external_id h)]"
| "json_hook (Other_hook e t u) = json_fields
     [(''eventId'', Some e), (''type'', Some t), (''externalUserId'', Some u)]"

text \<open>\<open>BigInt(s)\<close> and \<open>usdDecimalToMinor(s)\<close> with the errors they throw.\<close>

definition to_bigint :: "world \<Rightarrow> string \<Rightarrow> int res" where
  "to_bigint w s = (case js_bigint w s of
     None \<Rightarrow> Inl (PlainError (''Cannot convert '' @ s @ '' to a BigInt'')) | Some v \<Rightarrow> Inr v)"

definition usd_minor :: "string \<Rightarrow> int res" where
  "usd_minor s = (case usd_decimal_to_minor s of
     None \<Rightarrow> Inl (PlainError (''Invalid USD amount: '' @ s)) | Some v \<Rightarrow> Inr v)"

fun resolve_webhook_amount_minor :: "world \<Rightarrow> webhook \<Rightarrow> int res" where
  "resolve_webhook_amount_minor w (Deposit_credited h) =
     (if present (dh_credit_usd h) then usd_minor (the (dh_credit_usd h))
      else if present (dh_amount_sun h)
      then bindE (to_bigint w (the (dh_amount_sun h))) (\<lambda>v. Inr (sun_to_usd_minor v))
      else Inr 0)"
| "resolve_webhook_amount_minor w (Withdrawal_paid h) =
     (if present (wh_amount_sun h)
      then bindE (to_bigint w (the (wh_amount_sun h))) (\<lambda>v. Inr (sun_to_usd_minor v))
      else Inr 0)"
| "resolve_webhook_amount_minor w _ = Inr 0"

section \<open>Deposits\<close>

definition deposit_amount :: "world \<Rightarrow> deposit_hook \<Rightarrow> int res" where
  "deposit_amount w h =
     (if present (dh_credit_usd h)
      then (case usd_decimal_to_minor (the (dh_credit_usd h)) of
              None \<Rightarrow> Inl (BadRequest ''Invalid deposit amount'') | Some v \<Rightarrow> Inr v)
      else if present (dh_amount_sun h)
      then (case js_bigint w (the (dh_amount_sun h)) of
              None \<Rightarrow> Inl (BadRequest ''Invalid deposit amount'') | Some v \<Rightarrow> Inr (sun_to_usd_minor v))
      else Inl (BadRequest ''Missing creditUsd/amountSun''))"

definition deposit_source :: "payment_config \<Rightarrow> string" where
  "deposit_source config = (if pc_provider config = PK_north then ''north'' else ''crypto_tron'')"

definition deposit_key :: "string \<Rightarrow> deposit_hook \<Rightarrow> string" where
  "deposit_key source h =
     (if present (dh_tx_hash h) then source @ '':deposit:'' @ the (dh_tx_hash h)
      else source @ '':deposit:event:'' @ dh_event h)"

definition deposit_meta :: "string \<Rightarrow> deposit_hook \<Rightarrow> json" where
  "deposit_meta source h = json_fields
     [(''source'', Some source), (''txHash'', dh_tx_hash h), (''gatewayEventId'', Some (dh_event h)),
      (''address'', dh_address h), (''amountSun'', dh_amount_sun h), (''creditUsd'', dh_credit_usd h),
      (''externalId'', dh_external_id h), (''invoiceId'', dh_invoice_id h),
      (''paymentMethod'', dh_payment_method h)]"

text \<open>The new deposit address of a user; no two users have one.\<close>

definition move_deposit_address :: "id \<Rightarrow> string \<Rightarrow> db \<Rightarrow> db res" where
  "move_deposit_address u address d =
     (if row (crypto_deposits d) u \<noteq> None
         \<and> (\<exists>(v, c) \<in> set (crypto_deposits d). v \<noteq> u \<and> cd_address c = address)
      then Inl UniqueViolation
      else Inr (d\<lparr>crypto_deposits :=
             snd (update_many (\<lambda>v _. v = u) (\<lambda>c. c\<lparr>cd_address := address\<rparr>) (crypto_deposits d))\<rparr>))"

text \<open>The first of the values that is there and not empty.\<close>

fun first_present :: "string option list \<Rightarrow> string option" where
  "first_present [] = None"
| "first_present (s # ss) = (if present s then s else first_present ss)"

definition succeed_intent :: "deposit_hook \<Rightarrow> db \<Rightarrow> db" where
  "succeed_intent h d = d\<lparr>payment_intents := snd (update_many
     (\<lambda>k v. k = the (dh_external_id h) \<and> in_user v = dh_user h \<and> in_status v = PI_PENDING)
     (\<lambda>v. v\<lparr>in_status := PI_SUCCEEDED,
          in_provider_ref := first_present [dh_tx_hash h, dh_invoice_id h, Some (dh_event h)],
          in_deposit_address := (case dh_address h of None \<Rightarrow> in_deposit_address v | Some a \<Rightarrow> Some a)\<rparr>)
     (payment_intents d))\<rparr>"

definition deposit_completed :: "id \<Rightarrow> deposit_hook \<Rightarrow> int \<Rightarrow> outbox_row" where
  "deposit_completed wallet h amount =
     \<lparr>ob_event = ''DEPOSIT_COMPLETED'', ob_aggregate_type = ''wallet'', ob_aggregate = wallet,
      ob_payload = JObj
        ([(''userId'', JStr (dh_user h)), (''amountMinor'', JStr (show_int amount))]
         @ (case dh_tx_hash h of None \<Rightarrow> [] | Some t \<Rightarrow> [(''txHash'', JStr t)])
         @ [(''creditUsd'', jstr_opt (dh_credit_usd h)), (''externalId'', jstr_opt (dh_external_id h))])\<rparr>"

text \<open>The inner function \<open>execute\<close>, once the amount is accepted.\<close>

definition credit_deposit :: "payment_config \<Rightarrow> deposit_hook \<Rightarrow> int \<Rightarrow> db \<Rightarrow> db res" where
  "credit_deposit config h amount d =
     (let source = deposit_source config;
          (wallet, b) = ensure_user_wallet (dh_user h) (bank d)
      in bindE (deposit (dh_user h) amount (deposit_key source h) (Some (deposit_meta source h)) b) (\<lambda>(_, b).
         let d = d\<lparr>bank := b\<rparr> in
         bindE (if present (dh_address h) \<and> pc_provider config = PK_crypto_tron
                then move_deposit_address (dh_user h) (the (dh_address h)) d else Inr d) (\<lambda>d.
         let d = (if present (dh_external_id h) then succeed_intent h d else d)
         in Inr (append_outbox (deposit_completed wallet h amount) d))))"

definition handle_deposit_credited :: "world \<Rightarrow> deposit_hook \<Rightarrow> db \<Rightarrow> db res" where
  "handle_deposit_credited w h d =
     bindE (deposit_amount w h) (\<lambda>amount.
     if amount \<le> 0 then Inl (BadRequest ''Invalid deposit amount'')
     else bindE (get_payment_config w) (\<lambda>config.
     if amount < pc_min_deposit config then Inr d else credit_deposit config h amount d))"

section \<open>Withdrawals\<close>

definition find_withdrawal_for_webhook :: "withdrawal_hook \<Rightarrow> db \<Rightarrow> (id \<times> withdrawal_request) option" where
  "find_withdrawal_for_webhook h d =
     (let by_ref = find (\<lambda>(_, r). w_gateway_ref r = Some (wh_withdrawal h)
            \<or> present (wh_external_id h) \<and> w_idempotency_key r = the (wh_external_id h)) (withdrawals d)
      in case wh_external_id h of
           None \<Rightarrow> by_ref
         | Some x \<Rightarrow>
             if prefix ''wd_'' x
             then (case row (withdrawals d) (drop 3 x) of Some r \<Rightarrow> Some (drop 3 x, r) | None \<Rightarrow> by_ref)
             else by_ref)"

definition handle_withdrawal_paid :: "int \<Rightarrow> withdrawal_hook \<Rightarrow> db \<Rightarrow> db res" where
  "handle_withdrawal_paid now h d =
     (case find_withdrawal_for_webhook h d of
        None \<Rightarrow> Inr d
      | Some (i, r) \<Rightarrow>
          if w_user r \<noteq> wh_user h then Inl (BadRequest ''Withdrawal webhook subject mismatch'')
          else if w_status r = WR_PAID then Inr d
          else Inr (d\<lparr>withdrawals := snd (update_many (\<lambda>k v. k = i \<and> w_status v = WR_PROCESSING)
                 (\<lambda>v. v\<lparr>w_status := WR_PAID, w_payout_tx_hash := wh_payout_tx_hash h, w_paid_at := Some now\<rparr>)
                 (withdrawals d))\<rparr>))"

definition handle_withdrawal_failed :: "withdrawal_hook \<Rightarrow> db \<Rightarrow> db res" where
  "handle_withdrawal_failed h d =
     (case find_withdrawal_for_webhook h d of
        None \<Rightarrow> Inr d
      | Some (i, r) \<Rightarrow>
          if w_user r \<noteq> wh_user h then Inl (BadRequest ''Withdrawal webhook subject mismatch'')
          else if w_status r = WR_FAILED then Inr d
          else
            let (count, t) = update_many (\<lambda>k v. k = i \<and> w_status v = WR_PROCESSING)
                  (\<lambda>v. v\<lparr>w_status := WR_FAILED, w_reject_reason := Some (wh_reason h)\<rparr>) (withdrawals d)
            in if count \<noteq> 1 then Inr (d\<lparr>withdrawals := t\<rparr>)
               else bindE (refund_withdrawal (w_user r) (w_amount r) (''withdraw-refund:'' @ i) (wh_reason h) i
                       (bank d)) (\<lambda>(_, b).
                    bindE (update_row i (\<lambda>v. v\<lparr>w_status := WR_FAILED, w_reject_reason := Some (wh_reason h)\<rparr>) t)
                      (\<lambda>t. Inr (d\<lparr>withdrawals := t, bank := b\<rparr>))))"

section \<open>The webhook\<close>

datatype webhook_answer = Webhook_handled | Webhook_duplicate

definition store_event :: "provider_kind \<Rightarrow> webhook \<Rightarrow> int \<Rightarrow> db \<Rightarrow> db" where
  "store_event provider hook amount d =
     (let (i, d) = draw_db d
      in d\<lparr>payment_events := insert_row (hook_event hook)
           \<lparr>pe_id = i, pe_provider = (if provider = PK_mock then ''crypto_tron'' else provider_name provider),
            pe_event_type = hook_type hook, pe_user = hook_user hook, pe_amount = amount,
            pe_payload = json_hook hook, pe_processed_at = None\<rparr> (payment_events d)\<rparr>)"

text \<open>The second commit: the event is claimed, compared and handled, or all of it is undone.\<close>

definition webhook_tx :: "world \<Rightarrow> int \<Rightarrow> webhook \<Rightarrow> int \<Rightarrow> db \<Rightarrow> (webhook_answer \<times> db) res" where
  "webhook_tx w now hook amount d =
     (let (count, t) = update_many (\<lambda>k v. k = hook_event hook \<and> pe_processed_at v = None)
            (\<lambda>v. v\<lparr>pe_processed_at := Some now\<rparr>) (payment_events d);
          d = d\<lparr>payment_events := t\<rparr>
      in if count \<noteq> 1 then Inr (Webhook_duplicate, d)
         else case row (payment_events d) (hook_event hook) of
           None \<Rightarrow> Inl RecordNotFound
         | Some e \<Rightarrow>
             if pe_event_type e \<noteq> hook_type hook \<or> pe_user e \<noteq> hook_user hook \<or> pe_amount e \<noteq> amount
             then Inl (BadRequest ''Webhook event ID conflicts with its payload'')
             else bindE (case hook of
                     Deposit_credited h \<Rightarrow> handle_deposit_credited w h d
                   | Withdrawal_paid h \<Rightarrow> handle_withdrawal_paid now h d
                   | Withdrawal_failed h \<Rightarrow> handle_withdrawal_failed h d
                   | Other_hook e t u \<Rightarrow> Inr d) (\<lambda>d. Inr (Webhook_handled, d)))"

definition handle_webhook :: "world \<Rightarrow> int \<Rightarrow> webhook \<Rightarrow> db \<Rightarrow> webhook_answer res \<times> db" where
  "handle_webhook w now hook d =
     (let existing = row (payment_events d) (hook_event hook) in
      if (case existing of None \<Rightarrow> False | Some e \<Rightarrow> pe_processed_at e \<noteq> None)
      then (Inr Webhook_duplicate, d)
      else case bindE (get_payment_config w) (\<lambda>config.
                bindE (resolve_webhook_amount_minor w hook) (\<lambda>amount. Inr (pc_provider config, amount))) of
        Inl e \<Rightarrow> (Inl e, d)
      | Inr (provider, amount) \<Rightarrow>
          transaction (webhook_tx w now hook amount)
            (if existing = None then store_event provider hook amount d else d))"

section \<open>Withdrawals that are still processing\<close>

text \<open>One row of the batch; whatever goes wrong, the request stays as it is.\<close>

definition reconcile_withdrawal :: "world \<Rightarrow> gateway \<Rightarrow> int \<Rightarrow> id \<times> withdrawal_request \<Rightarrow> db \<Rightarrow> db" where
  "reconcile_withdrawal w g now = (\<lambda>(i, r) d.
     case bindE (g_get_withdrawal g (case w_gateway_ref r of None \<Rightarrow> ''wd_'' @ i | Some x \<Rightarrow> x)) (\<lambda>remote.
            if remote = None \<and> is_crypto_payment_provider w = Inr True
            then bindE (g_create_withdrawal g
                   \<lparr>wo_user = w_user r, wo_to_address = w_to_address r,
                    wo_amount_sun = show_int (usd_minor_to_sun (w_net r)), wo_external_id = ''wd_'' @ i,
                    wo_payment_method = None\<rparr>) (\<lambda>x. Inr (Some x))
            else Inr remote) of
       Inl _ \<Rightarrow> d
     | Inr None \<Rightarrow> d
     | Inr (Some remote) \<Rightarrow>
         if gw_to_address remote \<noteq> w_to_address r
            \<or> js_bigint w (gw_amount_sun remote) \<noteq> Some (usd_minor_to_sun (w_net r)) then d
         else
           let d = d\<lparr>withdrawals := snd (update_many (\<lambda>k v. k = i \<and> w_status v = WR_PROCESSING)
                  (\<lambda>v. v\<lparr>w_gateway_ref := Some (gw_id remote)\<rparr>) (withdrawals d))\<rparr>;
               status = to_lower (gw_status remote)
           in if status = ''paid''
              then snd (handle_webhook w now (Withdrawal_paid
                     \<lparr>wh_event = ''reconcile:'' @ i @ '':paid'', wh_withdrawal = gw_id remote, wh_user = w_user r,
                      wh_external_id = Some (''wd_'' @ i), wh_payout_tx_hash = gw_payout_tx_hash remote,
                      wh_amount_sun = Some (gw_amount_sun remote), wh_reason = []\<rparr>) d)
              else if status = ''failed''
              then snd (handle_webhook w now (Withdrawal_failed
                     \<lparr>wh_event = ''reconcile:'' @ i @ '':failed'', wh_withdrawal = gw_id remote, wh_user = w_user r,
                      wh_external_id = Some (''wd_'' @ i), wh_payout_tx_hash = None, wh_amount_sun = None,
                      wh_reason = (case gw_fail_reason remote of None \<Rightarrow> ''PROVIDER_CONFIRMED_FAILURE'' | Some x \<Rightarrow> x)\<rparr>) d)
              else d)"

text \<open>The batch is read first; \<open>by_updated\<close> stands for the order of the rows by their last update,
  which the table does not keep.\<close>

definition reconcile_processing_withdrawals ::
    "world \<Rightarrow> gateway \<Rightarrow> ((id, withdrawal_request) table \<Rightarrow> (id, withdrawal_request) table) \<Rightarrow> int \<Rightarrow> db \<Rightarrow> db" where
  "reconcile_processing_withdrawals w g by_updated now d =
     (if present (env w ''JEST_WORKER_ID'') \<or> is_live_payment_provider w \<noteq> Inr True then d
      else fold (reconcile_withdrawal w g now)
             (take 100 (by_updated (filter (\<lambda>(_, r). w_status r = WR_PROCESSING) (withdrawals d)))) d)"

section \<open>Deposit addresses and checkouts\<close>

datatype deposit_info =
    Checkout_info "string list" int
  | Address_info string int int

definition gateway_error_of :: "gateway_failure \<Rightarrow> error" where
  "gateway_error_of f = (case f of Gateway_error _ m \<Rightarrow> PlainError m | Gateway_other e \<Rightarrow> e)"

definition insert_crypto_deposit :: "id \<Rightarrow> string \<Rightarrow> int \<Rightarrow> db \<Rightarrow> db res" where
  "insert_crypto_deposit u address i d =
     (if \<exists>(v, c) \<in> set (crypto_deposits d). v = u \<or> cd_address c = address \<or> cd_wallet_index c = i
      then Inl UniqueViolation
      else Inr (d\<lparr>crypto_deposits :=
             insert_row u \<lparr>cd_address = address, cd_wallet_index = i\<rparr> (crypto_deposits d)\<rparr>))"

definition insert_intent :: "string \<Rightarrow> payment_intent \<Rightarrow> db \<Rightarrow> db res" where
  "insert_intent key p d =
     (if row (payment_intents d) key \<noteq> None then Inl UniqueViolation
      else Inr (d\<lparr>payment_intents := insert_row key p (payment_intents d)\<rparr>))"

definition describe_deposit :: "payment_config \<Rightarrow> crypto_deposit \<Rightarrow> deposit_info res" where
  "describe_deposit config c =
     (if cd_wallet_index c = 0 then Inl (Forbidden ''Deposit address requires migration; contact support'')
      else Inr (Address_info (cd_address c) (pc_min_deposit config) (cd_wallet_index c)))"

definition get_deposit_info :: "world \<Rightarrow> gateway \<Rightarrow> id \<Rightarrow> db \<Rightarrow> deposit_info res \<times> db" where
  "get_deposit_info w g u d =
     (case bindE (is_live_payment_provider w) (\<lambda>live.
             if live then get_payment_config w else Inl (Forbidden ''Crypto payments are not enabled'')) of
        Inl e \<Rightarrow> (Inl e, d)
      | Inr config \<Rightarrow>
          if pc_provider config = PK_north
          then (Inr (Checkout_info north_payment_methods (pc_min_deposit config)), d)
          else case row (crypto_deposits d) u of
            Some c \<Rightarrow> (describe_deposit config c, d)
          | None \<Rightarrow>
              case g_ensure_address g u of
                Inl f \<Rightarrow> (Inl (gateway_error_of f), d)
              | Inr (address, i) \<Rightarrow>
                  case insert_crypto_deposit u address i d of
                    Inl e \<Rightarrow> (Inl e, d)
                  | Inr d \<Rightarrow>
                      case insert_intent (''deposit-intent:'' @ u)
                             \<lparr>in_user = u, in_provider = ''crypto_tron'', in_amount = None, in_status = PI_PENDING,
                              in_provider_ref = None, in_deposit_address = Some address, in_meta = JNull\<rparr> d of
                        Inl e \<Rightarrow> (Inl e, d)
                      | Inr d \<Rightarrow> (describe_deposit config \<lparr>cd_address = address, cd_wallet_index = i\<rparr>, d))"

definition checkout_failure :: "gateway_failure \<Rightarrow> error" where
  "checkout_failure f =
     (case f of
        Gateway_error status m \<Rightarrow>
          if status = 400 then BadRequest (if m = [] then ''Invalid checkout request'' else m)
          else BadRequest (''Checkout failed: '' @ (if m = [] then ''gateway error'' else m))
      | Gateway_other e \<Rightarrow> e)"

text \<open>The intent is committed before the gateway is asked, and marked afterwards.\<close>

definition create_deposit_checkout ::
    "world \<Rightarrow> gateway \<Rightarrow> id \<Rightarrow> int \<Rightarrow> string \<Rightarrow> string option \<Rightarrow> db
      \<Rightarrow> (string \<times> string \<times> checkout_session) res \<times> db" where
  "create_deposit_checkout w g u amount pay_method return_url d =
     (case bindE (is_north_payment_provider w) (\<lambda>north.
             if \<not> north then Inl (Forbidden ''Checkout deposits require NORTH provider'')
             else case g_checkout g of
               None \<Rightarrow> Inl (Forbidden ''Payment provider does not support checkout'')
             | Some ask \<Rightarrow>
                 bindE (get_payment_config w) (\<lambda>config.
                 if amount < pc_min_deposit config
                 then Inl (BadRequest (''Minimum deposit is '' @ show_int (pc_min_deposit config) @ '' minor units''))
                 else if \<not> is_north_payment_method pay_method
                 then Inl (BadRequest ''paymentMethod must be trc20, bep20, or erc20'')
                 else Inr ask)) of
        Inl e \<Rightarrow> (Inl e, d)
      | Inr ask \<Rightarrow>
          let (x, d) = draw_db d;
              key = ''dep_'' @ x;
              usd = usd_minor_to_decimal_string amount;
              fields = [(''paymentMethod'', JStr pay_method), (''amountUsd'', JStr usd), (''returnUrl'', jstr_opt return_url)]
          in case insert_intent key
                    \<lparr>in_user = u, in_provider = ''north'', in_amount = Some amount, in_status = PI_PENDING,
                     in_provider_ref = None, in_deposit_address = None, in_meta = JObj fields\<rparr> d of
               Inl e \<Rightarrow> (Inl e, d)
             | Inr d \<Rightarrow>
                 case ask \<lparr>co_external_id = key, co_user = u, co_amount_usd = usd, co_payment_method = pay_method,
                           co_return_url = return_url\<rparr> of
                   Inl f \<Rightarrow> (Inl (checkout_failure f),
                     d\<lparr>payment_intents := snd (update_many (\<lambda>k _. k = key) (\<lambda>v. v\<lparr>in_status := PI_FAILED\<rparr>)
                        (payment_intents d))\<rparr>)
                 | Inr s \<Rightarrow> (Inr (key, usd, s),
                     d\<lparr>payment_intents := snd (update_many (\<lambda>k _. k = key)
                        (\<lambda>v. v\<lparr>in_provider_ref := Some (cs_invoice_id s),
                             in_deposit_address := (case cs_address s of None \<Rightarrow> in_deposit_address v | Some a \<Rightarrow> Some a),
                             in_meta := JObj (fields @ [(''checkoutUrl'', JStr (cs_checkout_url s)),
                               (''creditUsd'', jstr_opt (cs_credit_usd s)), (''expiresAt'', JStr (cs_expires_at s))])\<rparr>)
                        (payment_intents d))\<rparr>))"

definition get_deposit_status :: "id \<Rightarrow> db \<Rightarrow> (string \<times> payment_intent) list \<times> (string \<times> payment_event) list" where
  "get_deposit_status u d =
     (take 20 (rev (filter (\<lambda>(_, p). in_user p = u \<and> in_status p = PI_PENDING) (payment_intents d))),
      take 20 (rev (filter (\<lambda>(_, e). pe_user e = u) (payment_events d))))"

end
