(* ===== verification/PaymentMoney.thy ===== *)
theory PaymentMoney
  imports PaymentWebhooks
begin

text \<open>
  The money of the withdrawals. \<open>pay_ok\<close> says that the frozen account of every user is the sum of
  the withdrawals that wait for a review, and that the journal holds, for every request, exactly
  the entries its status calls for: none before it is paid out, the debit and the fee from then
  on, and the refund when it failed. Every operation keeps it, and so does every operation of
  the ledger whose keys are not those of a withdrawal (\<open>foreign_bank\<close>).
\<close>

section \<open>Operations of others\<close>

definition foreign_key :: "string \<Rightarrow> bool" where
  "foreign_key key \<longleftrightarrow> \<not> prefix ''withdraw'' key"

definition foreign_bank :: "bank \<Rightarrow> bank \<Rightarrow> bool" where
  "foreign_bank b b' \<longleftrightarrow> (bank_wf b \<longrightarrow> bank_wf b' \<and> bank_grows b b'
     \<and> (\<forall>u. accountb AT_FROZEN u b' = accountb AT_FROZEN u b)
     \<and> (\<exists>es. entries b' = entries b @ es \<and> (\<forall>e \<in> set es. foreign_key (le_key e))))"

lemma foreign_bank_refl [simp]: "foreign_bank b b"
  by (simp add: foreign_bank_def)

lemma foreign_bank_trans: "foreign_bank b b' \<Longrightarrow> foreign_bank b' b'' \<Longrightarrow> foreign_bank b b''"
  unfolding foreign_bank_def using bank_grows_trans by fastforce

lemma foreign_ensure: "ensure_user_wallet u b = (w, b') \<Longrightarrow> foreign_bank b b'"
  using ensure_user_wallet_held [of u b w b'] ensure_entries [of u b w b'] by (simp add: foreign_bank_def)

lemma foreign_ensure_platform: "ensure_platform_wallet b = (w, b') \<Longrightarrow> foreign_bank b b'"
  using ensure_platform_wallet_held [of b w b'] ensure_platform_wallet_exists [of b w b']
  by (simp add: foreign_bank_def ids_grow_def)

lemma foreign_draw: "draw b = (i, b') \<Longrightarrow> foreign_bank b b'"
  using same_frame_draw [of b i b'] bank_wf_frame bank_grows_frame accountb_posts [OF posts_draw, of b i b' AT_FROZEN]
  by (auto simp: foreign_bank_def draw_def split: option.splits)

lemma foreign_fresh:
  assumes "fresh_op b w key r ds es b'" and "\<forall>w'. delta_at w' AT_FROZEN ds = 0"
    and "\<forall>e \<in> set es. foreign_key (le_key e)"
  shows "foreign_bank b b'"
proof -
  have f: "posts b ds es b'" "same_frame b b'" using assms(1) by (auto simp: fresh_op_def)
  then have "entries b' = entries b @ es" by (simp add: posts_def)
  moreover have "accountb AT_FROZEN u b' = accountb AT_FROZEN u b" for u
    using accountb_posts [OF f, of AT_FROZEN u] assms(2) by (simp split: option.splits)
  ultimately show ?thesis
    using assms(3) bank_wf_frame [of b b'] bank_grows_frame f(2) by (auto simp: foreign_bank_def)
qed

lemma fresh_single_key: "fresh_op b w key r ds [e] b' \<Longrightarrow> le_key e = key"
  by (simp add: fresh_op_def)

lemma foreign_suffix: "foreign_key key \<Longrightarrow> foreign_key (key @ '':seller'') \<and> foreign_key (key @ '':platform'')"
  by (auto simp: foreign_key_def prefix_def append_eq_append_conv2 append_eq_Cons_conv Cons_eq_append_conv)

text \<open>The calls of the ledger that others than the withdrawals make.\<close>

fun foreign_op :: "ledger_op \<Rightarrow> bool" where
  "foreign_op (Deposit u a key meta) \<longleftrightarrow> foreign_key key"
| "foreign_op (Withdraw u a fee net key req frozen meta) \<longleftrightarrow> False"
| "foreign_op (Freeze u a) \<longleftrightarrow> False"
| "foreign_op (Unfreeze u a) \<longleftrightarrow> False"
| "foreign_op (Refund_withdrawal u a key reason req) \<longleftrightarrow> False"
| "foreign_op (Reserve_purchase u oid hid a key) \<longleftrightarrow> foreign_key key"
| "foreign_op (Reserve_request u req a key) \<longleftrightarrow> foreign_key key"
| "foreign_op (Release_request u req a key) \<longleftrightarrow> foreign_key key"
| "foreign_op (Settle u v oid hid total_amount s c key) \<longleftrightarrow> foreign_key key \<and> 0 \<le> s \<and> 0 \<le> c"
| "foreign_op (Refund_hold u oid hid a key) \<longleftrightarrow> foreign_key key"
| "foreign_op (Adjust u a reason actor key) \<longleftrightarrow> foreign_key key"

text \<open>A replay or a posting of one entry after the wallet is there.\<close>

definition quiet_op :: "id \<Rightarrow> string \<Rightarrow> bank \<Rightarrow> bank \<Rightarrow> bool" where
  "quiet_op u key b b' \<longleftrightarrow> (let (w, b0) = ensure_user_wallet u b in
     b' = b0 \<or> (\<exists>r ds e. fresh_op b0 w key r ds [e] b' \<and> (\<forall>w'. delta_at w' AT_FROZEN ds = 0)))"

lemma quiet_replay: "ensure_user_wallet u b = (w, b0) \<Longrightarrow> quiet_op u key b b0"
  by (simp add: quiet_op_def)

lemma quiet_posted: "fresh_op b0 w key r ds [e] b' \<Longrightarrow> ensure_user_wallet u b = (w, b0) \<Longrightarrow>
    \<forall>w'. delta_at w' AT_FROZEN ds = 0 \<Longrightarrow> quiet_op u key b b'"
  by (auto simp: quiet_op_def)

lemma quiet_foreign:
  assumes "quiet_op u key b b'" and "foreign_key key"
  shows "foreign_bank b b'"
proof -
  obtain w b0 where w: "ensure_user_wallet u b = (w, b0)" by (cases "ensure_user_wallet u b")
  have "foreign_bank b0 b'" if "fresh_op b0 w key r ds [e] b'" "\<forall>w'. delta_at w' AT_FROZEN ds = 0" for r ds e
    using foreign_fresh [OF that] fresh_single_key [OF that(1)] assms(2) by simp
  moreover have "b' = b0 \<or> (\<exists>r ds e. fresh_op b0 w key r ds [e] b' \<and> (\<forall>w'. delta_at w' AT_FROZEN ds = 0))"
    using assms(1) w by (simp add: quiet_op_def)
  ultimately have "foreign_bank b0 b'" by auto
  then show ?thesis by (rule foreign_bank_trans [OF foreign_ensure [OF w]])
qed

lemma deposit_quiet: "deposit u a key meta b = Inr (r, b') \<Longrightarrow> quiet_op u key b b'"
  by (cases "ensure_user_wallet u b", erule deposit_cases, assumption) (auto intro: quiet_replay elim!: quiet_posted)

lemma reserve_purchase_quiet: "reserve_purchase_hold u oid hid a key b = Inr (r, b') \<Longrightarrow> quiet_op u key b b'"
  by (cases "ensure_user_wallet u b", erule reserve_purchase_hold_cases, assumption) (auto intro: quiet_replay elim!: quiet_posted)

lemma reserve_request_quiet: "reserve_buy_request_hold u req a key b = Inr (r, b') \<Longrightarrow> quiet_op u key b b'"
  by (cases "ensure_user_wallet u b", erule reserve_buy_request_hold_cases, assumption) (auto intro: quiet_replay elim!: quiet_posted)

lemma release_request_quiet: "release_buy_request_hold u req a key b = Inr (r, b') \<Longrightarrow> quiet_op u key b b'"
  by (cases "ensure_user_wallet u b", erule release_buy_request_hold_cases, assumption) (auto intro: quiet_replay elim!: quiet_posted)

lemma refund_hold_quiet: "refund_hold u oid hid a key b = Inr (r, b') \<Longrightarrow> quiet_op u key b b'"
  by (cases "ensure_user_wallet u b", erule refund_hold_cases, assumption) (auto intro: quiet_replay elim!: quiet_posted)

lemma adjust_quiet: "adjust_wallet u a reason actor key b = Inr ((r, p), b') \<Longrightarrow> quiet_op u key b b'"
  by (cases "ensure_user_wallet u b", erule adjust_wallet_cases, assumption) (auto intro: quiet_replay elim!: quiet_posted)

lemma settle_foreign:
  assumes "settle_sale u v oid hid a s c key b = Inr (r, b')" and "foreign_key key" "0 \<le> s" "0 \<le> c"
  shows "foreign_bank b b'"
proof -
  obtain bw b0 where e0: "ensure_user_wallet u b = (bw, b0)" by (cases "ensure_user_wallet u b")
  obtain sw b1 where e1: "ensure_user_wallet v b0 = (sw, b1)" by (cases "ensure_user_wallet v b0")
  obtain pw b2 where e2: "ensure_platform_wallet b1 = (pw, b2)" by (cases "ensure_platform_wallet b1")
  have pre: "foreign_bank b b2"
    by (rule foreign_bank_trans [OF foreign_ensure [OF e0]
          foreign_bank_trans [OF foreign_ensure [OF e1] foreign_ensure_platform [OF e2]]])
  show ?thesis
  proof (cases rule: settle_sale_cases [OF assms(1) e0 e1 e2 assms(3,4)])
    case 1
    with pre show ?thesis by simp
  next
    case (2 be se pe)
    then have "le_key be = key" by (simp add: fresh_op_def)
    with 2 assms(2) foreign_suffix [OF assms(2)] have "foreign_bank b2 b'"
      by (intro foreign_fresh [OF 2(4)]) auto
    with pre show ?thesis by (rule foreign_bank_trans)
  qed
qed

lemma foreign_call:
  assumes "exec_op op b = Inr (r, b')" and "foreign_op op"
  shows "foreign_bank b b'"
  using assms by (cases op)
     (auto simp: bindE_eq_Inr intro: settle_foreign quiet_foreign [OF deposit_quiet] quiet_foreign [OF reserve_purchase_quiet]
        quiet_foreign [OF reserve_request_quiet] quiet_foreign [OF release_request_quiet]
        quiet_foreign [OF refund_hold_quiet] quiet_foreign [OF adjust_quiet])


section \<open>The invariant\<close>

definition entry_keys :: "id \<Rightarrow> string set" where
  "entry_keys i = {''withdraw:'' @ i, ''withdraw:'' @ i @ '':fee'', ''withdraw-refund:'' @ i}"

definition request_entries :: "id \<Rightarrow> bank \<Rightarrow> ledger_entry list" where
  "request_entries i b = filter (\<lambda>e. le_key e \<in> entry_keys i) (entries b)"

text \<open>The debit of a request: its two entries; the refund: one more.\<close>

definition debit_entries :: "id \<Rightarrow> withdrawal_request \<Rightarrow> id \<Rightarrow> ledger_entry list \<Rightarrow> bool" where
  "debit_entries i r w es \<longleftrightarrow> (\<exists>we fe. es = [we, fe]
     \<and> le_wallet we = w \<and> le_type we = LE_WITHDRAW \<and> le_amount we = - w_net r \<and> le_key we = ''withdraw:'' @ i
     \<and> le_wallet fe = w \<and> le_type fe = LE_WITHDRAW_FEE \<and> le_amount fe = - w_fee r
     \<and> le_key fe = ''withdraw:'' @ i @ '':fee'')"

definition refund_entry :: "id \<Rightarrow> withdrawal_request \<Rightarrow> id \<Rightarrow> ledger_entry \<Rightarrow> bool" where
  "refund_entry i r w e \<longleftrightarrow> le_wallet e = w \<and> le_type e = LE_MANUAL_ADJUSTMENT \<and> le_amount e = w_amount r
     \<and> le_key e = ''withdraw-refund:'' @ i"

definition entries_match :: "id \<Rightarrow> withdrawal_request \<Rightarrow> bank \<Rightarrow> bool" where
  "entries_match i r b \<longleftrightarrow>
     (if w_status r \<in> {WR_PROCESSING, WR_PAID}
      then \<exists>w. has_wallet (w_user r) w b \<and> debit_entries i r w (request_entries i b)
      else if w_status r = WR_FAILED
      then \<exists>w es e. has_wallet (w_user r) w b \<and> request_entries i b = es @ [e] \<and> debit_entries i r w es
             \<and> refund_entry i r w e
      else request_entries i b = [])"

definition frozen_part :: "id \<Rightarrow> withdrawal_request \<Rightarrow> int" where
  "frozen_part u r = (if w_user r = u \<and> w_status r = WR_PENDING_REVIEW then w_amount r else 0)"

definition frozen_total :: "id \<Rightarrow> db \<Rightarrow> int" where
  "frozen_total u d = tsum (\<lambda>_. frozen_part u) (withdrawals d)"

definition plain_id :: "id \<Rightarrow> bool" where
  "plain_id i \<longleftrightarrow> CHR '':'' \<notin> set i"

definition terms_ok :: "withdrawal_request \<Rightarrow> bool" where
  "terms_ok r \<longleftrightarrow> 0 \<le> w_fee r \<and> 0 < w_net r \<and> w_net r + w_fee r = w_amount r"

definition pay_base :: "db \<Rightarrow> bool" where
  "pay_base d \<longleftrightarrow> bank_wf (bank d) \<and> (\<forall>n. plain_id (uuid_seq (bank d) n)) \<and> distinct (keys (withdrawals d))
     \<and> (\<forall>i r. row (withdrawals d) i = Some r \<longrightarrow>
          plain_id i \<and> terms_ok r \<and> (\<forall>n. uuid_next (bank d) \<le> n \<longrightarrow> uuid_seq (bank d) n \<noteq> i))
     \<and> (\<forall>e \<in> set (entries (bank d)). \<forall>i. plain_id i \<longrightarrow> le_key e \<in> entry_keys i \<longrightarrow> row (withdrawals d) i \<noteq> None)"

definition pay_ok :: "db \<Rightarrow> bool" where
  "pay_ok d \<longleftrightarrow> pay_base d \<and> (\<forall>u. accountb AT_FROZEN u (bank d) = frozen_total u d)
     \<and> (\<forall>i r. row (withdrawals d) i = Some r \<longrightarrow> entries_match i r (bank d))"

lemma entry_keys_disjoint: "plain_id i \<Longrightarrow> plain_id j \<Longrightarrow> k \<in> entry_keys i \<Longrightarrow> k \<in> entry_keys j \<Longrightarrow> i = j"
  by (auto simp: entry_keys_def plain_id_def)

lemma foreign_not_entry: "foreign_key k \<Longrightarrow> k \<notin> entry_keys i"
  by (auto simp: foreign_key_def entry_keys_def)

lemma request_entries_append: "entries b' = entries b @ es \<Longrightarrow>
    request_entries i b' = request_entries i b @ filter (\<lambda>e. le_key e \<in> entry_keys i) es"
  by (simp add: request_entries_def)

lemma has_wallet_grows: "bank_grows b b' \<Longrightarrow> has_wallet u w b \<Longrightarrow> has_wallet u w b'"
  by (simp add: bank_grows_def)

lemma entries_match_grows:
  "entries_match i r b \<Longrightarrow> bank_grows b b' \<Longrightarrow> request_entries i b' = request_entries i b \<Longrightarrow> entries_match i r b'"
  unfolding entries_match_def by (auto split: if_splits dest: has_wallet_grows)

lemma pay_base_bank:
  assumes "pay_base d" and "bank_wf b'" and "bank_grows (bank d) b'" and "entries b' = entries (bank d) @ es"
    and "\<And>e i. e \<in> set es \<Longrightarrow> plain_id i \<Longrightarrow> le_key e \<in> entry_keys i \<Longrightarrow> row (withdrawals d) i \<noteq> None"
  shows "pay_base (d\<lparr>bank := b'\<rparr>)"
proof -
  have ids: "uuid_seq b' = uuid_seq (bank d)" "uuid_next (bank d) \<le> uuid_next b'"
    using assms(3) by (auto simp: bank_grows_def)
  then show ?thesis using assms(1,2,4,5)
    by (simp add: pay_base_def ball_Un del: map_of_eq_Some_iff)
qed

lemma pay_foreign:
  assumes "pay_ok d" and "foreign_bank (bank d) b'"
  shows "pay_ok (d\<lparr>bank := b'\<rparr>)"
proof -
  have base: "pay_base d" and wf: "bank_wf (bank d)" using assms(1) by (auto simp: pay_ok_def pay_base_def)
  with assms(2) obtain es where b: "bank_wf b'" "bank_grows (bank d) b'" "entries b' = entries (bank d) @ es"
    "\<forall>e \<in> set es. foreign_key (le_key e)" "\<forall>u. accountb AT_FROZEN u b' = accountb AT_FROZEN u (bank d)"
    by (auto simp: foreign_bank_def)
  have no: "le_key e \<notin> entry_keys i" if "e \<in> set es" for e i using b(4) that foreign_not_entry by blast
  then have "request_entries i b' = request_entries i (bank d)" for i
    using request_entries_append [OF b(3)] by (simp add: filter_False)
  then have "entries_match i r b'" if "entries_match i r (bank d)" for i r
    using entries_match_grows [OF that b(2)] by blast
  moreover have "pay_base (d\<lparr>bank := b'\<rparr>)" by (rule pay_base_bank [OF base b(1-3)]) (use no in blast)
  ultimately show ?thesis
    using assms(1) b(2,5) by (auto simp: pay_ok_def frozen_total_def)
qed

text \<open>A change of one request and the entries that go with it.\<close>

lemma pay_change:
  assumes ok: "pay_ok d" and r: "row (withdrawals d) i = Some r"
    and b: "bank_wf b'" "bank_grows (bank d) b'" "entries b' = entries (bank d) @ es"
    and own: "\<forall>e \<in> set es. le_key e \<in> entry_keys i"
    and money: "\<forall>u. accountb AT_FROZEN u b' = accountb AT_FROZEN u (bank d) + (frozen_part u r' - frozen_part u r)"
    and terms: "w_amount r' = w_amount r" "w_fee r' = w_fee r" "w_net r' = w_net r"
    and match: "entries_match i r' b'"
  shows "pay_ok (d\<lparr>withdrawals := AList.update i r' (withdrawals d), bank := b'\<rparr>)"
proof -
  have base: "pay_base d" using ok by (simp add: pay_ok_def)
  have dist: "distinct (keys (withdrawals d))" and pi: "plain_id i" using base r by (auto simp: pay_base_def)
  have keys: "keys (AList.update i r' (withdrawals d)) = keys (withdrawals d)" using r by simp
  have "pay_base (d\<lparr>bank := b'\<rparr>)"
    by (rule pay_base_bank [OF base b]) (use own r entry_keys_disjoint [OF pi] in blast)
  then have "pay_base (d\<lparr>withdrawals := AList.update i r' (withdrawals d), bank := b'\<rparr>)"
    using r keys terms dist by (simp add: pay_base_def row_update terms_ok_def)
  moreover have "frozen_total u (d\<lparr>withdrawals := AList.update i r' (withdrawals d), bank := b'\<rparr>)
      = frozen_total u d + (frozen_part u r' - frozen_part u r)" for u
    using tsum_update [OF dist r, of "\<lambda>_. frozen_part u" r'] by (simp add: frozen_total_def)
  moreover have "entries_match j q b'" if j: "row (withdrawals d) j = Some q" "j \<noteq> i" for j q
  proof -
    have "plain_id j" using base j by (simp add: pay_base_def)
    then have "\<forall>e \<in> set es. le_key e \<notin> entry_keys j" using own entry_keys_disjoint [OF pi] j(2) by blast
    then have "request_entries j b' = request_entries j (bank d)"
      using request_entries_append [OF b(3)] by (simp add: filter_False)
    then show ?thesis using ok j entries_match_grows [OF _ b(2)] by (simp add: pay_ok_def)
  qed
  ultimately show ?thesis using ok money match by (auto simp: pay_ok_def row_update)
qed

text \<open>A new request, for whose amount the money was frozen when it waits for a review.\<close>

lemma pay_insert:
  assumes base: "pay_base d" and fresh: "row (withdrawals d) i = None" "plain_id i"
    "\<forall>n. uuid_next (bank d) \<le> n \<longrightarrow> uuid_seq (bank d) n \<noteq> i"
    and rows: "\<forall>i r. row (withdrawals d) i = Some r \<longrightarrow> entries_match i r (bank d)"
    and money: "\<forall>u. accountb AT_FROZEN u (bank d) = frozen_total u d + frozen_part u r"
    and r: "terms_ok r" "w_status r \<in> {WR_PENDING_REVIEW, WR_APPROVED}"
  shows "pay_ok (d\<lparr>withdrawals := insert_row i r (withdrawals d)\<rparr>)"
proof -
  let ?d = "d\<lparr>withdrawals := insert_row i r (withdrawals d)\<rparr>"
  have row: "row (insert_row i r (withdrawals d)) k = (if k = i then Some r else row (withdrawals d) k)" for k
    by (rule row_insert_row [OF fresh(1)])
  have none: "request_entries i (bank d) = []"
    using base fresh(1,2)
    by (fastforce simp: request_entries_def filter_empty_conv pay_base_def simp del: map_of_eq_Some_iff)
  have "pay_base ?d"
    unfolding pay_base_def using base fresh r row
    by (simp add: pay_base_def row_None_iff [symmetric] del: map_of_eq_Some_iff) (simp add: row_None_iff)
  moreover have "frozen_total u ?d = frozen_total u d + frozen_part u r" for u
    by (simp add: frozen_total_def tsum_insert_row)
  moreover have new: "entries_match i r (bank d)" using none r(2) by (auto simp: entries_match_def)
  moreover have "entries_match k q (bank d)" if "row (insert_row i r (withdrawals d)) k = Some q" for k q
    using that rows new by (auto simp: row split: if_splits)
  ultimately show ?thesis using money by (simp add: pay_ok_def)
qed

lemma pay_other_tables: "bank d' = bank d \<Longrightarrow> withdrawals d' = withdrawals d \<Longrightarrow> pay_ok d' = pay_ok d"
  by (simp add: pay_ok_def pay_base_def frozen_total_def)

end
