(* ===== verification/PaymentContract.thy ===== *)
theory PaymentContract
  imports PaymentMoney
begin

text \<open>
  What a relation between two states of the database has to satisfy for one transaction of the
  payments so that it holds for every handler and every step: \<open>payment_contract\<close>. It is the
  interface between the transactions and the handlers that compose them, and it is interpreted
  once per property of the payments.
\<close>

section \<open>The contract\<close>

definition same_terms :: "withdrawal_request \<Rightarrow> withdrawal_request \<Rightarrow> bool" where
  "same_terms r q \<longleftrightarrow> w_user r = w_user q \<and> w_amount r = w_amount q \<and> w_fee r = w_fee q \<and> w_net r = w_net q"

lemma withdraw_fee_nonneg: "get_payment_config w = Inr config \<Longrightarrow> 0 \<le> pc_withdraw_fee config"
  by (auto simp only: get_payment_config_def bindE_eq_Inr sum.inject payment_config.simps max.cobounded1)

lemma credit_deposit_parts:
  assumes "credit_deposit config h amount d = Inr d'" and "ensure_user_wallet (dh_user h) (bank d) = (wallet, b0)"
  obtains x b where "deposit (dh_user h) amount (deposit_key (deposit_source config) h)
      (Some (deposit_meta (deposit_source config) h)) b0 = Inr (x, b)" "bank d' = b" "withdrawals d' = withdrawals d"
    "payment_events d' = payment_events d"
proof -
  from assms obtain x b d1 where
    1: "deposit (dh_user h) amount (deposit_key (deposit_source config) h) (Some (deposit_meta (deposit_source config) h)) b0
          = Inr (x, b)" and
    2: "(if present (dh_address h) \<and> pc_provider config = PK_crypto_tron
         then move_deposit_address (dh_user h) (the (dh_address h)) (d\<lparr>bank := b\<rparr>) else Inr (d\<lparr>bank := b\<rparr>)) = Inr d1" and
    3: "d' = append_outbox (deposit_completed wallet h amount) (if present (dh_external_id h) then succeed_intent h d1 else d1)"
    by (auto simp only: credit_deposit_def Let_def prod.case bindE_eq_Inr split_paired_Ex sum.inject)
  have "bank d1 = b" "withdrawals d1 = withdrawals d" "payment_events d1 = payment_events d"
    using 2 by (auto simp: move_deposit_address_def split: if_splits)
  with 1 3 that show ?thesis by (auto simp: append_outbox_def succeed_intent_def)
qed

locale payment_contract =
  fixes R :: "db \<Rightarrow> db \<Rightarrow> bool"
  assumes refl: "R d d"
    and trans: "R d1 d2 \<Longrightarrow> R d2 d3 \<Longrightarrow> R d1 d3"
    and foreign: "foreign_bank (bank d) b \<Longrightarrow> R d (d\<lparr>bank := b\<rparr>)"
    and elsewhere: "bank d' = bank d \<Longrightarrow> withdrawals d' = withdrawals d \<Longrightarrow> payment_events d' = payment_events d \<Longrightarrow> R d d'"
    and created: "create_withdrawal_tx w now u addr amount fee key m d = Inr (created_id, d') \<Longrightarrow> 0 \<le> fee \<Longrightarrow> fee < amount \<Longrightarrow> R d d'"
    and claimed: "approve_claim source i r reviewer d = Inr (won, d') \<Longrightarrow> row (withdrawals d) i = Some q \<Longrightarrow>
          same_terms r q \<Longrightarrow> w_status r \<in> {WR_PENDING_REVIEW, WR_APPROVED} \<Longrightarrow> R d d'"
    and rejected: "reject_tx i r admin reason d = Inr d' \<Longrightarrow> row (withdrawals d) i = Some q \<Longrightarrow> same_terms r q \<Longrightarrow> R d d'"
    and annotated: "row (withdrawals d) i = Some v \<Longrightarrow>
          R d (d\<lparr>withdrawals := AList.update i (v\<lparr>w_gateway_ref := y\<rparr>) (withdrawals d)\<rparr>)"
    and referenced: "R d (d\<lparr>withdrawals := snd (update_many (\<lambda>k v. k = i \<and> w_status v = WR_PROCESSING) (\<lambda>v. v\<lparr>w_gateway_ref := y\<rparr>) (withdrawals d))\<rparr>)"
    and stored: "row (payment_events d) (hook_event hook) = None \<Longrightarrow> R d (store_event provider hook amount d)"
    and event_claimed: "R d (d\<lparr>payment_events := snd (update_many (\<lambda>k v. k = eid \<and> pe_processed_at v = None)
          (\<lambda>v. v\<lparr>pe_processed_at := Some now\<rparr>) (payment_events d))\<rparr>)"
    and paid: "handle_withdrawal_paid now h d = Inr d' \<Longrightarrow> R d d'"
    and failed: "handle_withdrawal_failed h d = Inr d' \<Longrightarrow> R d d'"
begin

lemma credited:
  assumes "credit_deposit config h amount d = Inr d'"
  shows "R d d'"
proof -
  obtain wallet b0 where e: "ensure_user_wallet (dh_user h) (bank d) = (wallet, b0)"
    by (cases "ensure_user_wallet (dh_user h) (bank d)")
  obtain x b where 1: "deposit (dh_user h) amount (deposit_key (deposit_source config) h)
      (Some (deposit_meta (deposit_source config) h)) b0 = Inr (x, b)"
    and d': "bank d' = b" "withdrawals d' = withdrawals d" "payment_events d' = payment_events d"
    by (rule credit_deposit_parts [OF assms e])
  have "foreign_key (deposit_key (deposit_source config) h)"
    by (simp add: deposit_key_def deposit_source_def foreign_key_def)
  then have "foreign_bank (bank d) b"
    by (rule foreign_bank_trans [OF foreign_ensure [OF e] quiet_foreign [OF deposit_quiet [OF 1]]])
  then have "R d (d\<lparr>bank := b\<rparr>)" by (rule foreign)
  moreover have "R (d\<lparr>bank := b\<rparr>) d'" by (rule elsewhere) (simp_all add: d')
  ultimately show ?thesis by (rule trans)
qed

lemma webhook_committed:
  assumes "webhook_tx w now hook amount d = Inr (a, d')"
  shows "R d d'"
proof -
  let ?d = "d\<lparr>payment_events := snd (update_many (\<lambda>k v. k = hook_event hook \<and> pe_processed_at v = None)
            (\<lambda>v. v\<lparr>pe_processed_at := Some now\<rparr>) (payment_events d))\<rparr>"
  have "d' = ?d \<or> (\<exists>h config amount. credit_deposit config h amount ?d = Inr d')
      \<or> (\<exists>h. handle_withdrawal_paid now h ?d = Inr d') \<or> (\<exists>h. handle_withdrawal_failed h ?d = Inr d')"
    using assms
    by (cases hook)
       (auto simp: webhook_tx_def Let_def bindE_eq_Inr handle_deposit_credited_def update_many_def
          split: prod.splits option.splits if_splits)
  then have "R ?d d'" using refl credited paid failed by blast
  with event_claimed show ?thesis by (rule trans)
qed

lemma webhook_handled: "R d (snd (handle_webhook w now hook d))"
proof -
  have tx: "R d' (snd (transaction (webhook_tx w now hook amount) d'))" for amount d'
    by (rule transaction_cases [of "webhook_tx w now hook amount" d']) (use refl webhook_committed in auto)
  have "R d (snd (transaction (webhook_tx w now hook amount) (store_event provider hook amount d)))"
    if "row (payment_events d) (hook_event hook) = None" for amount provider
    by (rule trans [OF stored [OF that] tx])
  then show ?thesis
    using refl tx by (auto simp: handle_webhook_def Let_def split: sum.splits option.splits)
qed

lemma reconciled: "R d (reconcile_withdrawal w g now p d)"
proof -
  obtain i r where p: "p = (i, r)" by (cases p)
  let ?d = "\<lambda>x. d\<lparr>withdrawals := snd (update_many (\<lambda>k v. k = i \<and> w_status v = WR_PROCESSING)
              (\<lambda>v. v\<lparr>w_gateway_ref := Some x\<rparr>) (withdrawals d))\<rparr>"
  have "R d (?d x)" "R d (snd (handle_webhook w now hook (?d x)))" for x hook
    using referenced trans [OF referenced webhook_handled] by auto
  then show ?thesis using refl by (auto simp: reconcile_withdrawal_def p Let_def split: sum.splits option.splits)
qed

lemma reconciled_batch: "R d (reconcile_processing_withdrawals w g by_updated now d)"
proof -
  have "R d (fold (reconcile_withdrawal w g now) ps d)" for ps
    by (induction ps arbitrary: d) (use refl trans reconciled in \<open>fastforce+\<close>)
  then show ?thesis using refl by (simp add: reconcile_processing_withdrawals_def)
qed

lemma paid_out: "R d (snd (approve_payout g i r d))"
proof (cases "row (withdrawals d) i")
  case None
  then show ?thesis using refl by (simp add: approve_payout_def update_row_def split: sum.split)
next
  case (Some v)
  have "R d (d\<lparr>withdrawals := AList.update i (v\<lparr>w_gateway_ref := x\<rparr>) (withdrawals d)\<rparr>)" for x
    by (rule annotated [OF Some])
  then show ?thesis using Some refl by (simp add: approve_payout_def update_row_def split: sum.split)
qed

lemma approved: "R d (snd (approve_withdrawal w g i reviewer auto d))"
proof -
  have "R d (snd (approve_payout g i r d'))" "R d d'"
    if "row (withdrawals d) i = Some r" "w_status r = WR_PENDING_REVIEW \<or> w_status r = WR_APPROVED"
      "approve_claim source i r rev d = Inr (won, d')" for r source rev won d'
  proof -
    show "R d d'" by (rule claimed [OF that(3,1)]) (use that(2) in \<open>auto simp: same_terms_def\<close>)
    then show "R d (snd (approve_payout g i r d'))" using paid_out trans by blast
  qed
  then show ?thesis
    using refl by (auto simp: approve_withdrawal_def split: option.splits sum.splits)
qed

lemma withdrawal_created: "R d (snd (create_withdrawal w g now u addr amount key requested d))"
proof -
  have av: "R d (d\<lparr>bank := b\<rparr>)" if "get_available_balance u (bank d) = Inr (v, b)" for v b
    by (rule foreign) (use that in \<open>auto simp: get_available_balance_def bindE_eq_Inr intro: foreign_ensure split: prod.splits\<close>)
  have tx: "R d d2" if "get_payment_config w = Inr config" "\<not> amount \<le> pc_withdraw_fee config"
    "get_available_balance u (bank d) = Inr (v, b)"
    "create_withdrawal_tx w now u addr amount (pc_withdraw_fee config) key m (d\<lparr>bank := b\<rparr>) = Inr (x, d2)" for config v b m x d2
    by (rule trans [OF av [OF that(3)] created [OF that(4)]]) (use that withdraw_fee_nonneg in auto)
  have then_approve: "R d (snd (approve_withdrawal w g i u True d2))" if "R d d2" for i d2
    by (rule trans [OF that approved])
  define checks where "checks = bindE (is_live_payment_provider w) (\<lambda>live.
             if \<not> live then Inl (Forbidden ''Crypto payments are not enabled'')
             else bindE (get_payment_config w) (\<lambda>config.
             if amount < pc_min_withdraw config
             then Inl (BadRequest (''Minimum withdrawal is '' @ show_int (pc_min_withdraw config) @ '' minor units''))
             else bindE (resolve_withdrawal_payment_method addr requested) (\<lambda>pay_method.
             bindE (assert_withdrawal_address addr pay_method) (\<lambda>_. Inr (config, pay_method)))))"
  show ?thesis
  proof (cases checks)
    case (Inl e)
    then show ?thesis using refl by (simp add: create_withdrawal_def checks_def)
  next
    case (Inr p)
    obtain config m where p: "p = (config, m)" by (cases p)
    then have c: "get_payment_config w = Inr config"
      using Inr by (auto simp: checks_def bindE_eq_Inr split: if_splits)
    show ?thesis
      using Inr p refl c tx [OF c] av then_approve
      by (simp add: create_withdrawal_def checks_def Let_def split: option.split sum.split prod.split)
  qed
qed

lemma deposit_info_read: "R d (snd (get_deposit_info w g u d))"
  by (rule elsewhere)
     (auto simp: get_deposit_info_def insert_crypto_deposit_def insert_intent_def split: sum.splits option.splits if_splits)

lemma drawn: "draw_db d = (i, d') \<Longrightarrow> R d d'"
  using foreign [of d "snd (draw (bank d))"] foreign_draw [of "bank d" i]
  by (auto simp: draw_db_def split: prod.splits)

lemma checked_out: "R d (snd (create_deposit_checkout w g u amount m return_url d))"
proof -
  obtain x d1 where x: "draw_db d = (x, d1)" by (cases "draw_db d")
  have rest: "R d d'" if "bank d' = bank d1" "withdrawals d' = withdrawals d1" "payment_events d' = payment_events d1" for d'
    by (rule trans [OF drawn [OF x] elsewhere [OF that]])
  show ?thesis
    using x refl rest
    by (auto simp: create_deposit_checkout_def Let_def insert_intent_def split: sum.splits option.splits if_splits)
qed

end

section \<open>Steps\<close>

text \<open>One commit of the payments, or of something else that leaves the withdrawals and the events and
  moves money only under keys of its own. Everything a step reads from outside (the settings, the
  gateway, the clock) may differ from step to step.\<close>

inductive pay_step :: "db \<Rightarrow> db \<Rightarrow> bool" where
  create: "pay_step d (snd (create_withdrawal w g now u addr amount key m d))"
| create_tx: "create_withdrawal_tx w now u addr amount fee key m d = Inr (x, d') \<Longrightarrow> 0 \<le> fee \<Longrightarrow> fee < amount \<Longrightarrow> pay_step d d'"
| approve: "pay_step d (snd (approve_withdrawal w g i reviewer auto d))"
| claim: "approve_claim source i r reviewer d = Inr (won, d') \<Longrightarrow> row (withdrawals d) i = Some q \<Longrightarrow>
    same_terms r q \<Longrightarrow> w_status r \<in> {WR_PENDING_REVIEW, WR_APPROVED} \<Longrightarrow> pay_step d d'"
| payout: "pay_step d (snd (approve_payout g i r d))"
| reject: "reject_tx i r admin reason d = Inr d' \<Longrightarrow> row (withdrawals d) i = Some q \<Longrightarrow> same_terms r q \<Longrightarrow> pay_step d d'"
| webhook: "pay_step d (snd (handle_webhook w now hook d))"
| store: "row (payment_events d) (hook_event hook) = None \<Longrightarrow> pay_step d (store_event provider hook amount d)"
| webhook_tx: "webhook_tx w now hook amount d = Inr (a, d') \<Longrightarrow> pay_step d d'"
| reconcile: "pay_step d (reconcile_withdrawal w g now p d)"
| deposit_info: "pay_step d (snd (get_deposit_info w g u d))"
| checkout: "pay_step d (snd (create_deposit_checkout w g u amount m return_url d))"
| ledger: "exec_op op (bank d) = Inr (r, b) \<Longrightarrow> foreign_op op \<Longrightarrow> pay_step d (d\<lparr>bank := b\<rparr>)"
| other: "bank d' = bank d \<Longrightarrow> withdrawals d' = withdrawals d \<Longrightarrow> payment_events d' = payment_events d \<Longrightarrow> pay_step d d'"

context payment_contract
begin

lemma step: "pay_step d d' \<Longrightarrow> R d d'"
  by (induction rule: pay_step.induct)
     (auto intro: withdrawal_created created approved claimed paid_out rejected webhook_handled stored
        webhook_committed reconciled deposit_info_read checked_out foreign foreign_call elsewhere)

lemma steps: "pay_step\<^sup>*\<^sup>* d d' \<Longrightarrow> R d d'"
  by (induction rule: rtranclp_induct) (auto intro: refl trans step)

end

end
