(* ===== verification/PaymentAudit.thy ===== *)
theory PaymentAudit
  imports PaymentMoney Issues
begin

text \<open>
  \<^verbatim>\<open>payments/payment-reconciliation.service.ts\<close>: the daily comparison of the payment events, the
  journal, the withdrawals and the gateway.
\<close>

section \<open>Reading the payload\<close>

definition meta_field :: "ledger_entry \<Rightarrow> string \<Rightarrow> json option" where
  "meta_field e k = json_get (le_meta e) k"

definition read_tx_hash :: "json \<Rightarrow> string option" where
  "read_tx_hash payload = (case json_get payload ''txHash'' of Some (JStr s) \<Rightarrow> Some s | _ \<Rightarrow> None)"

section \<open>Deposits\<close>

text \<open>The journal's deposits, newest first, and the one an event is matched with.\<close>

definition deposit_match :: "string \<Rightarrow> payment_event \<Rightarrow> ledger_entry \<Rightarrow> bool" where
  "deposit_match event_id p e \<longleftrightarrow> meta_field e ''source'' = Some (JStr (pe_provider p))
     \<and> (let tx = read_tx_hash (pe_payload p) in
        if present tx then meta_field e ''txHash'' = Some (JStr (the tx))
        else meta_field e ''gatewayEventId'' = Some (JStr event_id))"

definition reconcile_deposit_event :: "ledger_entry list \<Rightarrow> string \<Rightarrow> payment_event \<Rightarrow> audit_issue list" where
  "reconcile_deposit_event deposits event_id p =
     (case find (deposit_match event_id p) deposits of
        None \<Rightarrow> [issue ''DEPOSIT_EVENT_WITHOUT_LEDGER'' ''Payment event has no matching ledger deposit''
                   ''paymentEvent'' (pe_id p)
                   [(''providerEventId'', JStr event_id), (''txHash'', jstr_opt (read_tx_hash (pe_payload p)))]]
      | Some e \<Rightarrow>
          if le_amount e \<noteq> pe_amount p
          then [issue ''DEPOSIT_AMOUNT_MISMATCH'' ''Payment event amount does not match ledger deposit''
                   ''paymentEvent'' (pe_id p)
                  [(''providerEventId'', JStr event_id), (''eventAmountMinor'', JStr (show_int (pe_amount p))),
                   (''ledgerAmountMinor'', JStr (show_int (le_amount e)))]]
          else [])"

definition reconcile_deposit_events :: "db \<Rightarrow> audit_issue list" where
  "reconcile_deposit_events d =
     (let deposits = rev (filter (\<lambda>e. le_type e = LE_DEPOSIT) (entries (bank d)))
      in concat (List.map (\<lambda>(k, p). reconcile_deposit_event deposits k p)
           (rev (filter (\<lambda>(_, p). pe_event_type p = ''deposit.credited'') (payment_events d)))))"

fun sum_credited :: "world \<Rightarrow> gateway_payment list \<Rightarrow> int res" where
  "sum_credited w [] = Inr 0"
| "sum_credited w (p # ps) =
     (if gp_status p = ''credited''
      then bindE (to_bigint w (gp_amount_sun p)) (\<lambda>v.
           bindE (sum_credited w ps) (\<lambda>s. Inr (sun_to_usd_minor v + s)))
      else sum_credited w ps)"

definition crypto_deposits_of :: "id \<Rightarrow> bank \<Rightarrow> int" where
  "crypto_deposits_of wallet b = (\<Sum>e\<leftarrow>filter (\<lambda>e. le_wallet e = wallet \<and> le_type e = LE_DEPOSIT
     \<and> meta_field e ''source'' = Some (JStr ''crypto_tron'')) (entries b). le_amount e)"

definition reconcile_user_deposit :: "world \<Rightarrow> gateway \<Rightarrow> db \<Rightarrow> id \<Rightarrow> audit_issue list res" where
  "reconcile_user_deposit w g d u =
     (case g_user_payments g u of
        Inl f \<Rightarrow> Inl (gateway_error_of f)
      | Inr payments \<Rightarrow>
          bindE (sum_credited w payments) (\<lambda>credited.
          case find_wallet (bank d) u of
            None \<Rightarrow> Inr []
          | Some wallet \<Rightarrow>
              let booked = crypto_deposits_of wallet (bank d) in
              if credited \<noteq> booked
              then Inr [issue ''GATEWAY_LEDGER_DEPOSIT_MISMATCH'' ''Gateway credited deposits do not match ledger crypto deposits''
                   ''user'' u
                     [(''gatewayCreditedMinor'', JStr (show_int credited)),
                      (''ledgerCryptoMinor'', JStr (show_int booked))]]
              else Inr []))"

fun collect_issues :: "('a \<Rightarrow> audit_issue list res) \<Rightarrow> 'a list \<Rightarrow> audit_issue list res" where
  "collect_issues f [] = Inr []"
| "collect_issues f (x # xs) = bindE (f x) (\<lambda>a. bindE (collect_issues f xs) (\<lambda>b. Inr (a @ b)))"

definition reconcile_user_deposits :: "world \<Rightarrow> gateway \<Rightarrow> db \<Rightarrow> audit_issue list res" where
  "reconcile_user_deposits w g d = collect_issues (reconcile_user_deposit w g d) (keys (crypto_deposits d))"

section \<open>Withdrawals\<close>

definition withdrawal_keys :: "id \<Rightarrow> string list" where
  "withdrawal_keys i = [''withdraw:'' @ i, ''withdraw:'' @ i @ '':fee'', ''withdraw-refund:'' @ i]"

definition withdrawal_entries :: "id \<Rightarrow> withdrawal_request \<Rightarrow> bank \<Rightarrow> ledger_entry list" where
  "withdrawal_entries i r b =
     (case find_wallet b (w_user r) of
        None \<Rightarrow> []
      | Some w \<Rightarrow> filter (\<lambda>e. le_wallet e = w \<and> le_key e \<in> set (withdrawal_keys i)) (entries b))"

definition withdrawal_debit :: "ledger_entry list \<Rightarrow> int" where
  "withdrawal_debit es = - (\<Sum>e\<leftarrow>filter (\<lambda>e. le_type e = LE_WITHDRAW \<or> le_type e = LE_WITHDRAW_FEE) es. le_amount e)"

definition withdrawal_refund :: "id \<Rightarrow> ledger_entry list \<Rightarrow> int" where
  "withdrawal_refund i es = (\<Sum>e\<leftarrow>filter (\<lambda>e. le_key e = ''withdraw-refund:'' @ i) es. le_amount e)"

definition reconcile_user_withdrawal :: "bank \<Rightarrow> id \<Rightarrow> withdrawal_request \<Rightarrow> audit_issue list" where
  "reconcile_user_withdrawal b i r =
     (let es = withdrawal_entries i r b;
          actual = withdrawal_debit es - withdrawal_refund i es;
          expected = (if w_status r = WR_FAILED then 0 else w_amount r)
      in if actual \<noteq> expected
         then [issue ''WITHDRAWAL_LEDGER_MISMATCH'' ''Withdrawal net debit differs from its state''
                   ''withdrawal'' i
                 [(''expected'', JStr (show_int expected)), (''actual'', JStr (show_int actual))]]
         else [])"

definition paid_out_rows :: "db \<Rightarrow> (id \<times> withdrawal_request) list" where
  "paid_out_rows d = filter (\<lambda>(_, r). w_status r \<in> {WR_PAID, WR_PROCESSING, WR_FAILED}) (withdrawals d)"

definition reconcile_user_withdrawals :: "db \<Rightarrow> audit_issue list" where
  "reconcile_user_withdrawals d =
     concat (List.map (\<lambda>(i, r). reconcile_user_withdrawal (bank d) i r) (paid_out_rows d))"

fun withdrawal_status_name :: "withdrawal_status \<Rightarrow> string" where
  "withdrawal_status_name WR_PENDING_REVIEW = ''PENDING_REVIEW''"
| "withdrawal_status_name WR_APPROVED = ''APPROVED''"
| "withdrawal_status_name WR_PROCESSING = ''PROCESSING''"
| "withdrawal_status_name WR_PAID = ''PAID''"
| "withdrawal_status_name WR_REJECTED = ''REJECTED''"
| "withdrawal_status_name WR_FAILED = ''FAILED''"

text \<open>The comparison with the provider; a failed request and an amount that is no number are one issue.\<close>

definition reconcile_provider_withdrawal :: "world \<Rightarrow> gateway \<Rightarrow> id \<Rightarrow> withdrawal_request \<Rightarrow> audit_issue list" where
  "reconcile_provider_withdrawal w g i r =
     (let unavailable = [issue ''PROVIDER_WITHDRAWAL_UNAVAILABLE'' ''Unable to query provider withdrawal''
                   ''withdrawal'' i []];
          local = withdrawal_status_name (w_status r);
          unreconciled = (\<lambda>remote. [issue ''PROVIDER_WITHDRAWAL_UNRECONCILED'' ''Withdrawal provider result needs reconciliation''
                   ''withdrawal'' i
                             [(''local'', JStr local), (''remote'', JStr remote)]])
      in case g_get_withdrawal g (case w_gateway_ref r of None \<Rightarrow> ''wd_'' @ i | Some x \<Rightarrow> x) of
           Inl _ \<Rightarrow> unavailable
         | Inr None \<Rightarrow> unreconciled ''unknown''
         | Inr (Some remote) \<Rightarrow>
             if to_upper_ascii (gw_status remote) \<noteq> local \<or> gw_to_address remote \<noteq> w_to_address r
             then unreconciled (gw_status remote)
             else case js_bigint w (gw_amount_sun remote) of
               None \<Rightarrow> unavailable
             | Some v \<Rightarrow> if v \<noteq> w_net r * sun_per_usd_minor then unreconciled (gw_status remote) else [])"

definition reconcile_provider_withdrawals :: "world \<Rightarrow> gateway \<Rightarrow> db \<Rightarrow> audit_issue list" where
  "reconcile_provider_withdrawals w g d =
     concat (List.map (\<lambda>(i, r). reconcile_provider_withdrawal w g i r) (paid_out_rows d))"

section \<open>The report\<close>

definition reconcile_payments :: "world \<Rightarrow> gateway \<Rightarrow> db \<Rightarrow> audit_issue list res" where
  "reconcile_payments w g d =
     bindE (get_payment_config w) (\<lambda>config.
     if \<not> live_provider (pc_provider config) then Inr []
     else
       bindE (if pc_provider config = PK_crypto_tron then reconcile_user_deposits w g d else Inr []) (\<lambda>user_issues.
       Inr (reconcile_deposit_events d @ user_issues
            @ (if pc_provider config = PK_north
               then [issue ''PROVIDER_DEPOSIT_RECONCILIATION_UNAVAILABLE'' ''NORTH remote deposit history is not available through this adapter; local events are checked but provider completeness is unverified''
                   ''provider'' ''north'' []] else [])
            @ reconcile_provider_withdrawals w g d @ reconcile_user_withdrawals d)))"

text \<open>The job; \<open>checked_at\<close> is the moment's timestamp, and the alert carries the number of issues.\<close>

definition run_daily_payment_job :: "world \<Rightarrow> gateway \<Rightarrow> string \<Rightarrow> db \<Rightarrow> db res" where
  "run_daily_payment_job w g checked_at d =
     (if present (env w ''JEST_WORKER_ID'') then Inr d
      else bindE (is_live_payment_provider w) (\<lambda>live.
        if \<not> live then Inr d
        else bindE (reconcile_payments w g d) (\<lambda>issues.
        if issues = [] then Inr d
        else Inr (append_outbox
               \<lparr>ob_event = ''PAYMENT_RECONCILIATION_FAILED'', ob_aggregate_type = ''reconciliation'',
                ob_aggregate = ''payments-'' @ checked_at,
                ob_payload = JObj [(''checkedAt'', JStr checked_at),
                  (''issueCount'', JNum (int (length issues))),
                  (''issues'', json_list (List.map json_issue issues))]\<rparr> d))))"

end
