(* ===== verification/PaymentRuns.thy ===== *)
theory PaymentRuns
  imports PaymentContract PaymentAudit
begin

text \<open>
  Every operation of the payments keeps \<open>pay_ok\<close>, in any interleaving: the claim of an approval
  and the transaction of a rejection run on a request that was read earlier, when its status may
  have been another. The theorems about the money of the withdrawals and about webhooks.
\<close>

section \<open>The operations keep the invariant\<close>

lemma posting_effect:
  assumes w: "ensure_user_wallet v b = (w, b0)" and wf: "bank_wf b"
    and f: "posts b0 ds es b'" "same_frame b0 b'"
    and dt: "\<forall>w'. delta_at w' AT_FROZEN ds = (if w' = w then a else 0)"
  shows "bank_wf b'" "bank_grows b b'" "entries b' = entries b @ es" "has_wallet v w b'"
    "accountb AT_FROZEN u b' = accountb AT_FROZEN u b + (if u = v then a else 0)"
proof -
  have e: "has_wallet v w b0" "entries b0 = entries b"
    using ensure_user_wallet_exists [OF w] ensure_entries [OF w] by auto
  note h0 = ensure_user_wallet_held [OF w wf, of AT_FROZEN]
  have "bank_wf b0" using h0 by blast
  note h = accountb_posting [OF f this e(1) dt]
  show "bank_wf b'" "bank_grows b b'" using h h0 bank_grows_trans by blast+
  show "entries b' = entries b @ es" using f(1) e(2) by (simp add: posts_def)
  show "has_wallet v w b'" by (rule has_wallet_frame [OF e(1) f(2)])
  show "accountb AT_FROZEN u b' = accountb AT_FROZEN u b + (if u = v then a else 0)" using h h0 by simp
qed

lemma fresh_parts: "fresh_op b w key r ds es b' \<Longrightarrow> posts b ds es b' \<and> same_frame b b'"
  by (simp add: fresh_op_def)

lemma no_existing: "request_entries i b = [] \<Longrightarrow> k \<in> entry_keys i \<Longrightarrow> entries b0 = entries b \<Longrightarrow>
    find_existing_operation b0 w k = None"
  by (auto simp: find_existing_operation_def request_entries_def filter_empty_conv find_None_iff split: option.splits)

lemma pay_okD:
  assumes "pay_ok d" and "row (withdrawals d) i = Some r"
  shows "bank_wf (bank d)" "distinct (keys (withdrawals d))" "entries_match i r (bank d)" "terms_ok r" "plain_id i"
  using assms by (auto simp: pay_ok_def pay_base_def)

text \<open>The claim of one request by its status.\<close>

lemma claim_row_cases:
  assumes "distinct (keys t)"
  obtains (claimed) v where "row t i = Some v" "P v" "update_many (\<lambda>k v. k = i \<and> P v) f t = (1, AList.update i (f v) t)"
    | (lost) "\<And>v. row t i = Some v \<Longrightarrow> \<not> P v" "update_many (\<lambda>k v. k = i \<and> P v) f t = (0, t)"
  by (rule claim_cases [OF assms, of "\<lambda>k v. k = i \<and> P v" i f]) (simp, use that in auto)

lemma approve_claim_ok:
  assumes "approve_claim source i r reviewer d = Inr (won, d')" and ok: "pay_ok d"
    and q: "row (withdrawals d) i = Some q" "same_terms r q"
    and status: "w_status r \<in> {WR_PENDING_REVIEW, WR_APPROVED}"
  shows "pay_ok d'"
proof -
  note inv = pay_okD [OF ok q(1)]
  let ?f = "\<lambda>v. v\<lparr>w_status := WR_PROCESSING, w_reviewed_by := reviewer\<rparr>"
  show ?thesis
  proof (cases rule: claim_row_cases [OF inv(2), where i = i and P = "\<lambda>v. w_status v = w_status r" and f = ?f])
    case 2
    with assms(1) ok show ?thesis by (simp add: approve_claim_def)
  next
    case claimed: (1 v)
    with q have v: "v = q" "w_status q = w_status r" by auto
    let ?key = "''withdraw:'' @ i" and ?frozen = "w_status r = WR_PENDING_REVIEW"
    from assms(1) claimed(3) v obtain x b' where
      w: "withdraw (w_user r) (w_amount r) (w_fee r) (w_net r) ?key i ?frozen
            [(''source'', JStr source), (''toAddress'', JStr (w_to_address r)),
             (''paymentMethod'', JStr (w_payment_method r))] (bank d) = Inr (x, b')" and
      d': "d' = d\<lparr>withdrawals := AList.update i (?f q) (withdrawals d), bank := b'\<rparr>"
      by (auto simp: approve_claim_def bindE_eq_Inr)
    obtain w b0 where e: "ensure_user_wallet (w_user r) (bank d) = (w, b0)" by (cases "ensure_user_wallet (w_user r) (bank d)")
    have none: "request_entries i (bank d) = []" using inv(3) v(2) status by (auto simp: entries_match_def)
    have "find_existing_operation b0 w ?key = None"
      by (rule no_existing [OF none _ ensure_entries [OF e]]) (simp add: entry_keys_def)
    then obtain we fe where p: "fresh_op b0 w ?key x [(w, if ?frozen then AT_FROZEN else AT_AVAILABLE, - w_amount r)] [we, fe] b'"
        "le_wallet we = w" "le_type we = LE_WITHDRAW" "le_amount we = - w_net r"
        "le_wallet fe = w" "le_type fe = LE_WITHDRAW_FEE" "le_amount fe = - w_fee r" "le_key fe = ?key @ '':fee''"
      by (cases rule: withdraw_cases [OF w e]) (simp, blast)
    have key: "le_key we = ?key" using p(1) by (simp add: fresh_op_def)
    have "\<forall>w'. delta_at w' AT_FROZEN [(w, if ?frozen then AT_FROZEN else AT_AVAILABLE, - w_amount r)]
        = (if w' = w then (if ?frozen then - w_amount r else 0) else 0)" by simp
    note eff = posting_effect [OF e inv(1) fresh_parts [OF p(1), THEN conjunct1] fresh_parts [OF p(1), THEN conjunct2] this]
    have "debit_entries i (?f q) w (request_entries i b')"
      using request_entries_append [OF eff(3), of i] none p key q(2)
      by (simp add: debit_entries_def entry_keys_def same_terms_def)
    then have match: "entries_match i (?f q) b'" using eff(4) q(2) by (auto simp: entries_match_def same_terms_def)
    show ?thesis unfolding d'
      by (rule pay_change [OF ok q(1) eff(1-3) _ _ _ _ _ match])
         (use p key eff(5) v(2) q(2) in \<open>auto simp: entry_keys_def frozen_part_def same_terms_def\<close>)
  qed
qed


lemma reject_tx_ok:
  assumes "reject_tx i r reviewer reason d = Inr d'" and ok: "pay_ok d"
    and q: "row (withdrawals d) i = Some q" "same_terms r q"
  shows "pay_ok d'"
proof -
  note inv = pay_okD [OF ok q(1)]
  let ?f = "\<lambda>v. v\<lparr>w_status := WR_REJECTED\<rparr>"
  show ?thesis
  proof (cases rule: claim_row_cases [OF inv(2), where i = i and P = "\<lambda>v. w_status v = WR_PENDING_REVIEW" and f = ?f])
    case 2
    with assms(1) ok show ?thesis by (simp add: reject_tx_def)
  next
    case claimed: (1 v)
    with q have v: "v = q" "w_status q = WR_PENDING_REVIEW" by auto
    define r' where "r' = q\<lparr>w_status := WR_REJECTED, w_reviewed_by := Some reviewer, w_reject_reason := Some reason\<rparr>"
    from assms(1) claimed(3) v(1) obtain b' where
      w: "release_withdraw_hold (w_user r) (w_amount r) (bank d) = Inr b'" and
      d': "d' = d\<lparr>withdrawals := AList.update i r' (withdrawals d), bank := b'\<rparr>"
      by (auto simp: reject_tx_def bindE_eq_Inr update_row_eq_Inr row_update r'_def)
    obtain w b0 where e: "ensure_user_wallet (w_user r) (bank d) = (w, b0)" by (cases "ensure_user_wallet (w_user r) (bank d)")
    note p = release_withdraw_hold_posts [OF w e]
    have "\<forall>w'. delta_at w' AT_FROZEN [(w, AT_FROZEN, - w_amount r), (w, AT_AVAILABLE, w_amount r)]
        = (if w' = w then - w_amount r else 0)" by simp
    note eff = posting_effect [OF e inv(1) p(1,2) this]
    have "request_entries i b' = []"
      using request_entries_append [OF eff(3), of i] inv(3) v(2) by (simp add: entries_match_def)
    then have match: "entries_match i r' b'" by (simp add: entries_match_def r'_def)
    show ?thesis unfolding d'
      by (rule pay_change [OF ok q(1) eff(1-3) _ _ _ _ _ match])
         (use eff(5) v(2) q(2) in \<open>auto simp: frozen_part_def same_terms_def r'_def\<close>)
  qed
qed

text \<open>A request whose money no longer changes; only its status and notes do.\<close>

lemma pay_relabel:
  assumes ok: "pay_ok d" and q: "row (withdrawals d) i = Some q"
    and "w_user r' = w_user q" "w_amount r' = w_amount q" "w_fee r' = w_fee q" "w_net r' = w_net q"
    and "w_status r' = w_status q \<or> w_status q = WR_PROCESSING \<and> w_status r' = WR_PAID"
  shows "pay_ok (d\<lparr>withdrawals := AList.update i r' (withdrawals d)\<rparr>)"
proof -
  note inv = pay_okD [OF ok q]
  have "entries_match i r' (bank d)"
    using inv(3) assms(3-) by (auto simp: entries_match_def debit_entries_def refund_entry_def)
  from pay_change [OF ok q inv(1) _ _ _ _ _ _ _ this, of "[]"] assms(3-)
  show ?thesis by (auto simp: frozen_part_def)
qed

lemma pay_update_many:
  assumes ok: "pay_ok d" and p: "\<And>k v. p k v \<Longrightarrow> k = i"
    and f: "\<And>v. w_user (f v) = w_user v \<and> w_amount (f v) = w_amount v \<and> w_fee (f v) = w_fee v \<and> w_net (f v) = w_net v"
    and "\<And>k v. p k v \<Longrightarrow> w_status (f v) = w_status v \<or> w_status v = WR_PROCESSING \<and> w_status (f v) = WR_PAID"
  shows "pay_ok (d\<lparr>withdrawals := snd (update_many p f (withdrawals d))\<rparr>)"
proof -
  have dist: "distinct (keys (withdrawals d))" using ok by (simp add: pay_ok_def pay_base_def)
  show ?thesis
  proof (rule claim_cases [OF dist, of p i f])
    fix v assume c: "row (withdrawals d) i = Some v" "p i v" "update_many p f (withdrawals d) = (1, AList.update i (f v) (withdrawals d))"
    show ?thesis unfolding c(3) snd_conv
      by (rule pay_relabel [OF ok c(1)]) (use f assms(4) [OF c(2)] in auto)
  qed (use p ok in auto)
qed

lemma paid_ok: "handle_withdrawal_paid now h d = Inr d' \<Longrightarrow> pay_ok d \<Longrightarrow> pay_ok d'"
  by (auto simp: handle_withdrawal_paid_def split: option.splits if_splits intro!: pay_update_many)

lemma find_withdrawal_row:
  assumes "find_withdrawal_for_webhook h d = Some (i, q)" and "distinct (keys (withdrawals d))"
  shows "row (withdrawals d) i = Some q"
proof -
  have "row (withdrawals d) i = Some q" if "find (\<lambda>(_, r). P r) (withdrawals d) = Some (i, q)" for P
    using that mem_row [OF assms(2), of i q] nth_mem by (fastforce simp: find_Some_iff)
  then show ?thesis
    using assms(1) by (auto simp: find_withdrawal_for_webhook_def Let_def split: option.splits if_splits)
qed

lemma failed_ok:
  assumes "handle_withdrawal_failed h d = Inr d'" and ok: "pay_ok d"
  shows "pay_ok d'"
proof (cases "find_withdrawal_for_webhook h d")
  case None
  with assms show ?thesis by (simp add: handle_withdrawal_failed_def)
next
  case (Some p)
  obtain i q where p: "p = (i, q)" by (cases p)
  have dist: "distinct (keys (withdrawals d))" using ok by (simp add: pay_ok_def pay_base_def)
  have q: "row (withdrawals d) i = Some q" by (rule find_withdrawal_row [OF Some [unfolded p] dist])
  note inv = pay_okD [OF ok q]
  let ?f = "\<lambda>v. v\<lparr>w_status := WR_FAILED, w_reject_reason := Some (wh_reason h)\<rparr>"
  show ?thesis
  proof (cases rule: claim_row_cases [OF dist, where i = i and P = "\<lambda>v. w_status v = WR_PROCESSING" and f = ?f])
    case 2
    with assms Some p show ?thesis by (auto simp: handle_withdrawal_failed_def split: if_splits)
  next
    case claimed: (1 v)
    with q have v: "v = q" "w_status q = WR_PROCESSING" by auto
    let ?key = "''withdraw-refund:'' @ i"
    from assms(1) Some p claimed(3) v obtain x b' where
      w: "refund_withdrawal (w_user q) (w_amount q) ?key (wh_reason h) i (bank d) = Inr (x, b')" and
      d': "d' = d\<lparr>withdrawals := AList.update i (?f q) (withdrawals d), bank := b'\<rparr>"
      by (auto simp: handle_withdrawal_failed_def bindE_eq_Inr update_row_eq_Inr row_update split: if_splits)
    obtain w b0 where e: "ensure_user_wallet (w_user q) (bank d) = (w, b0)" by (cases "ensure_user_wallet (w_user q) (bank d)")
    from inv(3) v(2) obtain w' where m: "has_wallet (w_user q) w' (bank d)" "debit_entries i q w' (request_entries i (bank d))"
      by (auto simp: entries_match_def)
    then have w': "w' = w" using has_wallet_ensure [OF m(1)] e by simp
    have new: "le_key y \<noteq> ?key" if y: "y \<in> set (entries (bank d))" for y
    proof
      assume "le_key y = ?key"
      with y have "y \<in> set (request_entries i (bank d))" by (simp add: request_entries_def entry_keys_def)
      with m(2) \<open>le_key y = ?key\<close> show False by (auto simp: debit_entries_def)
    qed
    then have "find_existing_operation b0 w ?key = None"
      using ensure_entries [OF e] by (auto simp: find_existing_operation_def find_None_iff split: option.splits)
    then obtain y where p: "fresh_op b0 w ?key x [(w, AT_AVAILABLE, w_amount q)] [y] b'"
        "le_wallet y = w" "le_type y = LE_MANUAL_ADJUSTMENT" "le_amount y = w_amount q"
      by (cases rule: refund_withdrawal_cases [OF w e]) (simp, blast)
    have key: "le_key y = ?key" by (rule fresh_single_key [OF p(1)])
    have "\<forall>w'. delta_at w' AT_FROZEN [(w, AT_AVAILABLE, w_amount q)] = (if w' = w then 0 else 0)" by simp
    note eff = posting_effect [OF e inv(1) fresh_parts [OF p(1), THEN conjunct1] fresh_parts [OF p(1), THEN conjunct2] this]
    have "request_entries i b' = request_entries i (bank d) @ [y]"
      using request_entries_append [OF eff(3), of i] key by (simp add: entry_keys_def)
    then have match: "entries_match i (?f q) b'"
      using eff(4) m(2) w' p key by (auto simp: entries_match_def debit_entries_def refund_entry_def)
    show ?thesis unfolding d'
      by (rule pay_change [OF ok q eff(1-3) _ _ _ _ _ match])
         (use key eff(5) v(2) in \<open>auto simp: entry_keys_def frozen_part_def\<close>)
  qed
qed


lemma frozen_total_bank [simp]: "frozen_total u (d\<lparr>bank := b\<rparr>) = frozen_total u d"
  by (simp add: frozen_total_def)

lemma insert_withdrawal_ok:
  assumes "insert_withdrawal r d = Inr (i, d')" and base: "pay_base d"
    and rows: "\<forall>i r. row (withdrawals d) i = Some r \<longrightarrow> entries_match i r (bank d)"
    and money: "\<forall>u. accountb AT_FROZEN u (bank d) = frozen_total u d + frozen_part u r"
    and r: "terms_ok r" "w_status r \<in> {WR_PENDING_REVIEW, WR_APPROVED}"
  shows "pay_ok d'"
proof -
  obtain b where b: "draw (bank d) = (i, b)" "d' = d\<lparr>bank := b, withdrawals := insert_row i r (withdrawals d)\<rparr>"
    using assms(1) by (auto simp: insert_withdrawal_def draw_db_def Let_def split: if_splits prod.splits)
  have wf: "bank_wf (bank d)" using base by (simp add: pay_base_def)
  have i: "i = uuid_seq (bank d) (uuid_next (bank d))" "uuid_seq b = uuid_seq (bank d)" "uuid_next b = Suc (uuid_next (bank d))"
    "entries b = entries (bank d)" using b(1) by (auto simp: draw_def)
  have grow: "bank_wf b" "bank_grows (bank d) b" "\<forall>u. accountb AT_FROZEN u b = accountb AT_FROZEN u (bank d)"
    using foreign_draw [OF b(1)] wf by (auto simp: foreign_bank_def)
  have base': "pay_base (d\<lparr>bank := b\<rparr>)" by (rule pay_base_bank [OF base grow(1,2), of "[]"]) (simp_all add: i(4))
  have "row (withdrawals d) i = None"
  proof (rule ccontr)
    assume "row (withdrawals d) i \<noteq> None"
    then obtain q where "row (withdrawals d) i = Some q" by blast
    with base have "uuid_seq (bank d) (uuid_next (bank d)) \<noteq> i" by (auto simp: pay_base_def simp del: map_of_eq_Some_iff)
    with i(1) show False by simp
  qed
  moreover have "plain_id i" using base i(1) by (simp add: pay_base_def)
  moreover have "\<forall>n. uuid_next b \<le> n \<longrightarrow> uuid_seq b n \<noteq> i"
    using wf i injD [of "uuid_seq (bank d)"] by (fastforce simp: bank_wf_def)
  moreover have "entries_match k q b" if "row (withdrawals d) k = Some q" for k q
    using entries_match_grows [OF _ grow(2)] rows that i(4) by (simp add: request_entries_def)
  ultimately have "pay_ok ((d\<lparr>bank := b\<rparr>)\<lparr>withdrawals := insert_row i r (withdrawals (d\<lparr>bank := b\<rparr>))\<rparr>)"
    by (intro pay_insert [OF base']) (use money grow(3) r in auto)
  then show ?thesis using b(2) by simp
qed

lemma create_withdrawal_tx_ok:
  assumes "create_withdrawal_tx w now u addr amount fee key m d = Inr (x, d')" and ok: "pay_ok d"
    and "0 \<le> fee" "fee < amount"
  shows "pay_ok d'"
proof -
  have wf: "bank_wf (bank d)" and base: "pay_base d" using ok by (auto simp: pay_ok_def pay_base_def)
  from assms(1) obtain review b r i where
    1: "(if review then freeze_for_withdrawal u amount (bank d) else Inr (bank d)) = Inr b" and
    2: "insert_withdrawal r (d\<lparr>bank := b\<rparr>) = Inr (i, d')" and
    r: "w_user r = u" "w_amount r = amount" "w_fee r = fee" "w_net r = amount - fee"
      "w_status r = (if review then WR_PENDING_REVIEW else WR_APPROVED)"
    by (auto simp: create_withdrawal_tx_def Let_def bindE_eq_Inr)
  have b: "bank_wf b" "bank_grows (bank d) b" "entries b = entries (bank d)"
    "\<forall>v. accountb AT_FROZEN v b = accountb AT_FROZEN v (bank d) + frozen_part v r"
  proof -
    have "bank_wf b \<and> bank_grows (bank d) b \<and> entries b = entries (bank d)
      \<and> (\<forall>v. accountb AT_FROZEN v b = accountb AT_FROZEN v (bank d) + frozen_part v r)"
    proof (cases review)
      case True
      obtain ww b0 where e: "ensure_user_wallet u (bank d) = (ww, b0)" by (cases "ensure_user_wallet u (bank d)")
      have f: "freeze_for_withdrawal u amount (bank d) = Inr b" using 1 True by simp
      note p = freeze_for_withdrawal_posts [OF f e]
      have "\<forall>w'. delta_at w' AT_FROZEN [(ww, AT_AVAILABLE, - amount), (ww, AT_FROZEN, amount)]
          = (if w' = ww then amount else 0)" by simp
      note eff = posting_effect [OF e wf p(1,2) this]
      show ?thesis using eff True r by (auto simp: frozen_part_def)
    qed (use 1 wf r in \<open>auto simp: frozen_part_def\<close>)
    then show "bank_wf b" "bank_grows (bank d) b" "entries b = entries (bank d)"
      "\<forall>v. accountb AT_FROZEN v b = accountb AT_FROZEN v (bank d) + frozen_part v r" by blast+
  qed
  have "entries_match k q b" if "row (withdrawals d) k = Some q" for k q
    using entries_match_grows [OF _ b(2)] pay_okD(3) [OF ok that] b(3) by (simp add: request_entries_def)
  then show ?thesis
    by (intro insert_withdrawal_ok [OF 2 pay_base_bank [OF base b(1,2), of "[]"]])
       (use b ok r assms(3,4) in \<open>auto simp: pay_ok_def terms_ok_def\<close>)
qed

lemma store_event_frame: "store_event provider hook amount d =
    (let (i, b) = draw (bank d) in d\<lparr>bank := b, payment_events := insert_row (hook_event hook)
           \<lparr>pe_id = i, pe_provider = (if provider = PK_mock then ''crypto_tron'' else provider_name provider),
            pe_event_type = hook_type hook, pe_user = hook_user hook, pe_amount = amount,
            pe_payload = json_hook hook, pe_processed_at = None\<rparr> (payment_events d)\<rparr>)"
  by (simp add: store_event_def draw_db_def Let_def split: prod.split)

lemma store_event_ok: "pay_ok d \<Longrightarrow> pay_ok (store_event provider hook amount d)"
proof -
  assume ok: "pay_ok d"
  obtain i b where b: "draw (bank d) = (i, b)" by (cases "draw (bank d)")
  have "pay_ok (d\<lparr>bank := b\<rparr>)" by (rule pay_foreign [OF ok foreign_draw [OF b]])
  then show ?thesis
    using pay_other_tables [of "store_event provider hook amount d" "d\<lparr>bank := b\<rparr>"] b by (simp add: store_event_frame)
qed

interpretation money: payment_contract "\<lambda>d d'. pay_ok d \<longrightarrow> pay_ok d'"
proof (unfold_locales, goal_cases)
  case 1
  then show ?case by simp
next
  case 2
  then show ?case by blast
next
  case 3
  then show ?case using pay_foreign by blast
next
  case (4 d' d)
  then show ?case using pay_other_tables by blast
next
  case 5
  then show ?case using create_withdrawal_tx_ok by blast
next
  case 6
  then show ?case using approve_claim_ok by blast
next
  case 7
  then show ?case using reject_tx_ok by blast
next
  case 8
  then show ?case by (auto intro!: pay_relabel)
next
  case 9
  show ?case by (rule impI, rule pay_update_many) auto
next
  case 10
  then show ?case using store_event_ok by blast
next
  case (11 d eid now)
  show ?case by (rule impI, subst pay_other_tables [of _ d]) simp_all
next
  case 12
  then show ?case using paid_ok by blast
next
  case 13
  then show ?case using failed_ok by blast
qed


section \<open>The theorems of the money of withdrawals\<close>

text \<open>The states from which the theorems start: no request yet, and a bank with other entries only.\<close>

definition pay_start :: "db \<Rightarrow> bool" where
  "pay_start d \<longleftrightarrow> withdrawals d = [] \<and> bank_wf (bank d) \<and> (\<forall>n. plain_id (uuid_seq (bank d) n))
     \<and> (\<forall>u. accountb AT_FROZEN u (bank d) = 0) \<and> (\<forall>e \<in> set (entries (bank d)). foreign_key (le_key e))"

lemma pay_start_ok: "pay_start d \<Longrightarrow> pay_ok d"
  using foreign_not_entry by (auto simp: pay_start_def pay_ok_def pay_base_def frozen_total_def)

lemma pay_reachable: "pay_start d0 \<Longrightarrow> pay_step\<^sup>*\<^sup>* d0 d \<Longrightarrow> pay_ok d"
  using money.steps pay_start_ok by blast

lemma withdrawal_entries_request:
  assumes "has_wallet (w_user r) w b" and "\<forall>e \<in> set (request_entries i b). le_wallet e = w"
  shows "withdrawal_entries i r b = request_entries i b"
proof -
  have "set (withdrawal_keys i) = entry_keys i" by (auto simp: withdrawal_keys_def entry_keys_def)
  then show ?thesis
    using assms by (auto simp: withdrawal_entries_def request_entries_def has_wallet_def intro!: filter_cong)
qed

lemma reconciled_request:
  assumes "entries_match i r b" and "terms_ok r" and "w_status r \<in> {WR_PAID, WR_PROCESSING, WR_FAILED}"
  shows "reconcile_user_withdrawal b i r = []"
proof (cases "w_status r = WR_FAILED")
  case True
  with assms(1) obtain w es e where "has_wallet (w_user r) w b" "request_entries i b = es @ [e]"
    "debit_entries i r w es" "refund_entry i r w e" by (auto simp: entries_match_def)
  moreover from this have "withdrawal_entries i r b = es @ [e]"
    by (subst withdrawal_entries_request) (auto simp: debit_entries_def refund_entry_def)
  ultimately show ?thesis using True assms(2)
    by (auto simp: reconcile_user_withdrawal_def withdrawal_debit_def withdrawal_refund_def debit_entries_def
        refund_entry_def terms_ok_def)
next
  case False
  with assms(1,3) obtain w where "has_wallet (w_user r) w b" "debit_entries i r w (request_entries i b)"
    by (auto simp: entries_match_def)
  moreover from this have "withdrawal_entries i r b = request_entries i b"
    by (subst withdrawal_entries_request) (auto simp: debit_entries_def)
  ultimately show ?thesis using False assms(2)
    by (auto simp: reconcile_user_withdrawal_def withdrawal_debit_def withdrawal_refund_def debit_entries_def
        terms_ok_def)
qed

text \<open>
  C4: Money that is frozen belongs to a request that waits for its review, and every request that
  was paid out is booked exactly. After any steps of the payments, in any interleaving and with
  any answers of the gateway, beside deposits, purchases, settlements and adjustments that use
  other keys: the frozen account of every user holds the sum of the amounts of the user's
  requests in review, and the daily reconciliation of the requests with the journal finds nothing.
\<close>

theorem frozen_money_accounted:
  assumes "pay_start d0" and "pay_step\<^sup>*\<^sup>* d0 d"
  shows "accountb AT_FROZEN u (bank d)
           = (\<Sum>(i, r)\<leftarrow>withdrawals d. if w_user r = u \<and> w_status r = WR_PENDING_REVIEW then w_amount r else 0)
     \<and> reconcile_user_withdrawals d = []"
proof -
  have ok: "pay_ok d" by (rule pay_reachable [OF assms])
  have "reconcile_user_withdrawal (bank d) i r = []" if "(i, r) \<in> set (paid_out_rows d)" for i r
  proof -
    have r: "row (withdrawals d) i = Some r" "w_status r \<in> {WR_PAID, WR_PROCESSING, WR_FAILED}"
      using that ok by (auto simp: paid_out_rows_def pay_ok_def pay_base_def)
    show ?thesis by (rule reconciled_request [OF _ _ r(2)]) (use pay_okD [OF ok r(1)] in auto)
  qed
  then have "reconcile_user_withdrawals d = []" by (auto simp: reconcile_user_withdrawals_def)
  moreover have "accountb AT_FROZEN u (bank d) = frozen_total u d" using ok by (simp add: pay_ok_def)
  ultimately show ?thesis by (simp add: frozen_total_def tsum_def frozen_part_def)
qed

text \<open>A live provider, and a user with a deposit of 100 dollars.\<close>

definition pay_world :: world where
  "pay_world = demo_world\<lparr>env := (\<lambda>k. if k = ''PAYMENT_PROVIDER'' then Some ''crypto_tron'' else None)\<rparr>"

definition pay_demo_start :: db where
  "pay_demo_start = (empty_db demo_ids)\<lparr>bank := (empty_bank demo_ids)\<lparr>users :=
     [(''alice'', \<lparr>u_steam_id = Some ''7'', u_username = ''alice'', u_role = UR_BUYER, u_status = US_ACTIVE,
       u_trade_url = None\<rparr>)]\<rparr>\<rparr>"

definition pay_demo_funded :: db where
  "pay_demo_funded = pay_demo_start\<lparr>bank := run_op (Deposit ''alice'' 10000 ''d'' None) (bank pay_demo_start)\<rparr>"

definition demo_ask :: "int \<Rightarrow> string \<Rightarrow> db \<Rightarrow> db" where
  "demo_ask amount key d = (case create_withdrawal_tx pay_world 0 ''alice'' ''T'' amount 200 key ''trc20'' d of
     Inl _ \<Rightarrow> d | Inr (_, d) \<Rightarrow> d)"

definition pay_demo_asked :: db where
  "pay_demo_asked = demo_ask 3000 ''k1'' (demo_ask 2500 ''k0'' pay_demo_funded)"

text \<open>The first request is approved and fails at the gateway.\<close>

definition pay_demo_request :: id where
  "pay_demo_request = ''xxx''"

definition demo_failure :: webhook where
  "demo_failure = Withdrawal_failed \<lparr>wh_event = ''e1'', wh_withdrawal = ''g1'', wh_user = ''alice'',
     wh_external_id = Some (''wd_'' @ pay_demo_request), wh_payout_tx_hash = None, wh_amount_sun = None, wh_reason = ''no gas''\<rparr>"

definition pay_demo_approved :: db where
  "pay_demo_approved =
     (case row (withdrawals pay_demo_asked) pay_demo_request of
        None \<Rightarrow> pay_demo_asked
      | Some r \<Rightarrow> (case approve_claim ''crypto_tron'' pay_demo_request r (Some ''admin'') pay_demo_asked of
           Inl _ \<Rightarrow> pay_demo_asked | Inr (_, d) \<Rightarrow> d))"

definition pay_demo_failed :: db where
  "pay_demo_failed = snd (handle_webhook pay_world 5 demo_failure pay_demo_approved)"

lemma empty_bank_wf: "inj f \<Longrightarrow> bank_wf (empty_bank f\<lparr>users := us\<rparr>)"
  by (simp add: bank_wf_def empty_bank_def seen_ids_def)

lemma pay_demo_start_ok: "pay_start pay_demo_start"
  using empty_bank_wf [OF demo_ids_inj]
  by (auto simp: pay_start_def pay_demo_start_def empty_db_def empty_bank_def accountb_def find_wallet_def
      plain_id_def demo_ids_def)

lemma demo_ask_steps: "200 < amount \<Longrightarrow> pay_step\<^sup>*\<^sup>* d (demo_ask amount key d)"
  by (cases "create_withdrawal_tx pay_world 0 ''alice'' ''T'' amount 200 key ''trc20'' d")
     (auto simp: demo_ask_def intro!: r_into_rtranclp dest: pay_step.create_tx)

lemma pay_demo_approved_steps: "pay_step\<^sup>*\<^sup>* pay_demo_asked pay_demo_approved"
proof -
  have "case row (withdrawals pay_demo_asked) pay_demo_request of None \<Rightarrow> True | Some r \<Rightarrow> w_status r = WR_PENDING_REVIEW"
    by code_simp
  then show ?thesis
    by (auto simp: pay_demo_approved_def same_terms_def intro!: r_into_rtranclp pay_step.claim
        split: option.splits sum.splits)
qed

lemma pay_demo_steps:
  "pay_step\<^sup>*\<^sup>* pay_demo_start pay_demo_asked" "pay_step\<^sup>*\<^sup>* pay_demo_asked pay_demo_failed"
proof -
  have "isl (exec_op (Deposit ''alice'' 10000 ''d'' None) (bank pay_demo_start)) = False" by code_simp
  then obtain r b where b: "exec_op (Deposit ''alice'' 10000 ''d'' None) (bank pay_demo_start) = Inr (r, b)"
    by (metis isl_def sumE surj_pair)
  then have "pay_demo_funded = pay_demo_start\<lparr>bank := b\<rparr>" by (simp add: pay_demo_funded_def run_op_def)
  then have "pay_step pay_demo_start pay_demo_funded"
    using pay_step.ledger [OF b] by (simp add: foreign_key_def)
  moreover have "pay_step\<^sup>*\<^sup>* pay_demo_funded pay_demo_asked"
    unfolding pay_demo_asked_def by (rule rtranclp_trans [OF demo_ask_steps demo_ask_steps]) simp_all
  ultimately show "pay_step\<^sup>*\<^sup>* pay_demo_start pay_demo_asked" by (rule converse_rtranclp_into_rtranclp)
  show "pay_step\<^sup>*\<^sup>* pay_demo_asked pay_demo_failed"
    unfolding pay_demo_failed_def
    by (rule rtranclp.rtrancl_into_rtrancl [OF pay_demo_approved_steps]) (rule pay_step.webhook)
qed

theorem frozen_money_accounted_witness:
  "accountb AT_FROZEN ''alice'' (bank pay_demo_asked) = 5500
     \<and> accountb AT_FROZEN ''alice'' (bank pay_demo_failed) = 3000
     \<and> length (paid_out_rows pay_demo_failed) = 1 \<and> reconcile_user_withdrawals pay_demo_failed = []"
proof -
  have c: "(\<Sum>(i, r)\<leftarrow>withdrawals pay_demo_asked. if w_user r = ''alice'' \<and> w_status r = WR_PENDING_REVIEW then w_amount r else 0) = 5500"
    "(\<Sum>(i, r)\<leftarrow>withdrawals pay_demo_failed. if w_user r = ''alice'' \<and> w_status r = WR_PENDING_REVIEW then w_amount r else 0) = 3000"
    "length (paid_out_rows pay_demo_failed) = 1"
    by code_simp+
  show ?thesis
    using frozen_money_accounted [OF pay_demo_start_ok pay_demo_steps(1), of "''alice''"]
      frozen_money_accounted [OF pay_demo_start_ok rtranclp_trans [OF pay_demo_steps], of "''alice''"] c by simp
qed

end
