(* ===== verification/PaymentHistory.thy ===== *)
theory PaymentHistory
  imports PaymentRuns
begin

text \<open>
  What no step of the payments takes back: a handled event stays handled, the status of a request
  only moves forward, and the journal only grows. Each is an interpretation of the contract of
  the payments. The theorems about repeated webhooks, approvals and deposits rest on them.
\<close>

section \<open>Events and statuses only move forward\<close>

text \<open>An event that was handled keeps its row; no event is deleted.\<close>

definition events_kept :: "db \<Rightarrow> db \<Rightarrow> bool" where
  "events_kept d d' \<longleftrightarrow> (distinct (keys (payment_events d)) \<longrightarrow> distinct (keys (payment_events d'))) \<and> (\<forall>k e. row (payment_events d) k = Some e \<longrightarrow>
     (\<exists>e'. row (payment_events d') k = Some e' \<and> (pe_processed_at e \<noteq> None \<longrightarrow> e' = e)))"

lemma events_keptD: "events_kept d d' \<Longrightarrow> row (payment_events d) k = Some e \<Longrightarrow> pe_processed_at e \<noteq> None \<Longrightarrow>
    row (payment_events d') k = Some e"
  unfolding events_kept_def by blast

lemma events_kept_same: "payment_events d' = payment_events d \<Longrightarrow> events_kept d d'"
  by (simp add: events_kept_def)

lemma events_created: "create_withdrawal_tx w now u addr amount fee key m d = Inr (x, d') \<Longrightarrow> payment_events d' = payment_events d"
  by (auto simp: create_withdrawal_tx_def insert_withdrawal_def draw_db_def Let_def bindE_eq_Inr
      split: if_splits prod.splits)

lemma events_claimed: "approve_claim source i r reviewer d = Inr (won, d') \<Longrightarrow> payment_events d' = payment_events d"
  by (auto simp: approve_claim_def update_many_def bindE_eq_Inr split: if_splits)

lemma events_rejected: "reject_tx i r admin reason d = Inr d' \<Longrightarrow> payment_events d' = payment_events d"
  by (auto simp: reject_tx_def update_many_def bindE_eq_Inr split: if_splits)

lemma events_paid: "handle_withdrawal_paid now h d = Inr d' \<Longrightarrow> payment_events d' = payment_events d"
  by (auto simp: handle_withdrawal_paid_def split: option.splits if_splits)

lemma events_failed: "handle_withdrawal_failed h d = Inr d' \<Longrightarrow> payment_events d' = payment_events d"
  by (auto simp: handle_withdrawal_failed_def update_many_def bindE_eq_Inr split: option.splits if_splits)

interpretation events: payment_contract events_kept
proof (unfold_locales, goal_cases)
  case 1
  show ?case by (simp add: events_kept_def)
next
  case (2 d1 d2 d3)
  then show ?case unfolding events_kept_def by metis
next
  case (10 d hook provider amount)
  then show ?case
    by (auto simp: events_kept_def store_event_frame row_insert_row split: prod.split)
next
  case (11 d eid now)
  show ?case by (auto simp: events_kept_def row_update_many)
qed (auto intro!: events_kept_same dest: events_created events_claimed events_rejected events_paid events_failed)

text \<open>How the status of a request may change.\<close>

definition status_later :: "withdrawal_status \<Rightarrow> withdrawal_status \<Rightarrow> bool" where
  "status_later s t \<longleftrightarrow> t = s
     \<or> s = WR_PENDING_REVIEW \<and> t \<in> {WR_REJECTED, WR_PROCESSING, WR_PAID, WR_FAILED}
     \<or> s = WR_APPROVED \<and> t \<in> {WR_PROCESSING, WR_PAID, WR_FAILED}
     \<or> s = WR_PROCESSING \<and> t \<in> {WR_PAID, WR_FAILED}"

definition requests_progress :: "db \<Rightarrow> db \<Rightarrow> bool" where
  "requests_progress d d' \<longleftrightarrow> (\<forall>i r. row (withdrawals d) i = Some r \<longrightarrow>
     (\<exists>r'. row (withdrawals d') i = Some r' \<and> same_terms r' r \<and> w_to_address r' = w_to_address r
        \<and> w_idempotency_key r' = w_idempotency_key r \<and> status_later (w_status r) (w_status r')))"

lemma progress_same: "withdrawals d' = withdrawals d \<Longrightarrow> requests_progress d d'"
  by (simp add: requests_progress_def same_terms_def status_later_def)

lemma progress_rows:
  assumes "\<And>k r. row (withdrawals d) k = Some r \<Longrightarrow> row (withdrawals d') k = Some (f k r)"
    and "\<And>k r. row (withdrawals d) k = Some r \<Longrightarrow> same_terms (f k r) r \<and> w_to_address (f k r) = w_to_address r
        \<and> w_idempotency_key (f k r) = w_idempotency_key r \<and> status_later (w_status r) (w_status (f k r))"
  shows "requests_progress d d'"
  using assms unfolding requests_progress_def by blast

lemma progress_update:
  assumes "row (withdrawals d) i = Some q" and "withdrawals d' = AList.update i q' (withdrawals d)"
    and "same_terms q' q" "w_to_address q' = w_to_address q" "w_idempotency_key q' = w_idempotency_key q"
      "status_later (w_status q) (w_status q')"
  shows "requests_progress d d'"
  by (rule progress_rows [where f = "\<lambda>k r. if k = i then q' else r"])
     (use assms in \<open>auto simp: row_update same_terms_def status_later_def\<close>)

lemma progress_many:
  assumes "withdrawals d' = snd (update_many p f (withdrawals d))"
    and "\<And>k r. p k r \<Longrightarrow> same_terms (f r) r \<and> w_to_address (f r) = w_to_address r
        \<and> w_idempotency_key (f r) = w_idempotency_key r \<and> status_later (w_status r) (w_status (f r))"
  shows "requests_progress d d'"
  by (rule progress_rows [where f = "\<lambda>k r. if p k r then f r else r"])
     (use assms in \<open>auto simp: row_update_many same_terms_def status_later_def\<close>)

lemma progress_created:
  assumes "create_withdrawal_tx w now u addr amount fee key m d = Inr (x, d')"
  shows "requests_progress d d'"
proof -
  have "\<exists>i r. withdrawals d' = withdrawals d @ [(i, r)]"
    using assms by (auto simp: create_withdrawal_tx_def insert_withdrawal_def draw_db_def insert_row_def Let_def
        bindE_eq_Inr split: if_splits prod.splits)
  then show ?thesis
    by (intro progress_rows [where f = "\<lambda>k r. r"]) (auto simp: same_terms_def status_later_def)
qed

lemma progress_claimed:
  assumes "approve_claim source i r reviewer d = Inr (won, d')" and "w_status r \<in> {WR_PENDING_REVIEW, WR_APPROVED}"
  shows "requests_progress d d'"
proof -
  have "withdrawals d' = snd (update_many (\<lambda>k v. k = i \<and> w_status v = w_status r)
            (\<lambda>v. v\<lparr>w_status := WR_PROCESSING, w_reviewed_by := reviewer\<rparr>) (withdrawals d))"
    using assms(1) by (auto simp: approve_claim_def bindE_eq_Inr split: prod.splits if_splits)
  then show ?thesis
    by (rule progress_many) (use assms(2) in \<open>auto simp: same_terms_def status_later_def\<close>)
qed

lemma progress_rejected:
  assumes "reject_tx i r admin reason d = Inr d'" and dist: "distinct (keys (withdrawals d))"
  shows "requests_progress d d'"
proof (cases rule: claim_row_cases [OF dist, where i = i and P = "\<lambda>v. w_status v = WR_PENDING_REVIEW"
      and f = "\<lambda>v. v\<lparr>w_status := WR_REJECTED\<rparr>"])
  case 2
  then show ?thesis using assms(1) by (auto simp: reject_tx_def intro: progress_same)
next
  case (1 v)
  then have "withdrawals d' = AList.update i (v\<lparr>w_status := WR_REJECTED, w_reviewed_by := Some admin,
      w_reject_reason := Some reason\<rparr>) (withdrawals d)"
    using assms(1) by (auto simp: reject_tx_def bindE_eq_Inr update_row_eq_Inr row_update)
  then show ?thesis by (rule progress_update [OF 1(1)]) (use 1(2) in \<open>auto simp: same_terms_def status_later_def\<close>)
qed

lemma progress_paid:
  assumes "handle_withdrawal_paid now h d = Inr d'"
  shows "requests_progress d d'"
proof (cases "d' = d")
  case False
  with assms obtain i where "withdrawals d' = snd (update_many (\<lambda>k v. k = i \<and> w_status v = WR_PROCESSING)
      (\<lambda>v. v\<lparr>w_status := WR_PAID, w_payout_tx_hash := wh_payout_tx_hash h, w_paid_at := Some now\<rparr>) (withdrawals d))"
    by (auto simp: handle_withdrawal_paid_def split: option.splits if_splits)
  then show ?thesis by (rule progress_many) (auto simp: same_terms_def status_later_def)
qed (simp add: progress_same)

lemma progress_failed:
  assumes "handle_withdrawal_failed h d = Inr d'" and dist: "distinct (keys (withdrawals d))"
  shows "requests_progress d d'"
proof (cases "withdrawals d' = withdrawals d")
  case False
  with assms(1) obtain i q where q: "find_withdrawal_for_webhook h d = Some (i, q)"
    by (auto simp: handle_withdrawal_failed_def split: option.splits)
  show ?thesis
  proof (cases rule: claim_row_cases [OF dist, where i = i and P = "\<lambda>v. w_status v = WR_PROCESSING"
        and f = "\<lambda>v. v\<lparr>w_status := WR_FAILED, w_reject_reason := Some (wh_reason h)\<rparr>"])
    case 2
    with False q assms(1) show ?thesis by (auto simp: handle_withdrawal_failed_def split: if_splits)
  next
    case (1 v)
    with False q assms(1) have "withdrawals d' = AList.update i
        (v\<lparr>w_status := WR_FAILED, w_reject_reason := Some (wh_reason h)\<rparr>) (withdrawals d)"
      by (auto simp: handle_withdrawal_failed_def bindE_eq_Inr update_row_eq_Inr row_update split: if_splits)
    then show ?thesis by (rule progress_update [OF 1(1)]) (use 1(2) in \<open>auto simp: same_terms_def status_later_def\<close>)
  qed
qed (simp add: progress_same)

lemma same_terms_trans: "same_terms p q \<Longrightarrow> same_terms q r \<Longrightarrow> same_terms p r"
  by (simp add: same_terms_def)

lemma status_later_trans: "status_later s t \<Longrightarrow> status_later t u \<Longrightarrow> status_later s u"
  by (auto simp: status_later_def)

lemma progress_trans:
  assumes "requests_progress d1 d2" and "requests_progress d2 d3"
  shows "requests_progress d1 d3"
  unfolding requests_progress_def
proof (intro allI impI)
  fix i r assume r: "row (withdrawals d1) i = Some r"
  obtain r2 where r2: "row (withdrawals d2) i = Some r2" "same_terms r2 r" "w_to_address r2 = w_to_address r"
    "w_idempotency_key r2 = w_idempotency_key r" "status_later (w_status r) (w_status r2)"
    using assms(1) r unfolding requests_progress_def by blast
  obtain r3 where r3: "row (withdrawals d3) i = Some r3" "same_terms r3 r2" "w_to_address r3 = w_to_address r2"
    "w_idempotency_key r3 = w_idempotency_key r2" "status_later (w_status r2) (w_status r3)"
    using assms(2) r2(1) unfolding requests_progress_def by blast
  show "\<exists>r'. row (withdrawals d3) i = Some r' \<and> same_terms r' r \<and> w_to_address r' = w_to_address r
      \<and> w_idempotency_key r' = w_idempotency_key r \<and> status_later (w_status r) (w_status r')"
    using r3 r2 same_terms_trans [OF r3(2) r2(2)] status_later_trans [OF r2(5) r3(5)] by auto
qed

lemma pay_ok_distinct: "pay_ok d \<Longrightarrow> distinct (keys (withdrawals d))"
  by (simp add: pay_ok_def pay_base_def)

interpretation progress: payment_contract "\<lambda>d d'. pay_ok d \<longrightarrow> pay_ok d' \<and> requests_progress d d'"
proof (unfold_locales, goal_cases)
  case 1
  then show ?case by (simp add: progress_same)
next
  case 2
  then show ?case using progress_trans by blast
next
  case 3
  then show ?case using money.foreign by (simp add: progress_same)
next
  case 4
  then show ?case using money.elsewhere progress_same by blast
next
  case prems: 5
  show ?case using money.created [OF prems] progress_created [OF prems(1)] by blast
next
  case prems: 6
  show ?case using money.claimed [OF prems] progress_claimed [OF prems(1,4)] by blast
next
  case 7
  then show ?case using money.rejected progress_rejected pay_ok_distinct by blast
next
  case (8 d i v y)
  have "requests_progress d (d\<lparr>withdrawals := AList.update i (v\<lparr>w_gateway_ref := y\<rparr>) (withdrawals d)\<rparr>)"
    by (rule progress_update [OF 8, where q' = "v\<lparr>w_gateway_ref := y\<rparr>"]) (auto simp: same_terms_def status_later_def)
  with money.annotated [OF 8] show ?case by blast
next
  case (9 d i y)
  have "requests_progress d (d\<lparr>withdrawals := snd (update_many (\<lambda>k v. k = i \<and> w_status v = WR_PROCESSING)
         (\<lambda>v. v\<lparr>w_gateway_ref := y\<rparr>) (withdrawals d))\<rparr>)"
    by (rule progress_many [where p = "\<lambda>k v. k = i \<and> w_status v = WR_PROCESSING" and f = "\<lambda>v. v\<lparr>w_gateway_ref := y\<rparr>"])
       (auto simp: same_terms_def status_later_def)
  with money.referenced show ?case by blast
next
  case (10 d hook provider amount)
  have "requests_progress d (store_event provider hook amount d)"
    by (rule progress_same) (simp add: store_event_frame split: prod.split)
  with money.stored [OF 10] show ?case by blast
next
  case 11
  then show ?case using money.event_claimed by (simp add: progress_same)
next
  case 12
  then show ?case using money.paid progress_paid by blast
next
  case 13
  then show ?case using money.failed progress_failed pay_ok_distinct by blast
qed


section \<open>The journal only grows\<close>

definition bank_extends :: "bank \<Rightarrow> bank \<Rightarrow> bool" where
  "bank_extends b b' \<longleftrightarrow> (bank_wf b \<longrightarrow> bank_wf b' \<and> bank_grows b b' \<and> (\<exists>es. entries b' = entries b @ es))"

lemma extends_refl [simp]: "bank_extends b b"
  by (simp add: bank_extends_def)

lemma extends_trans: "bank_extends b1 b2 \<Longrightarrow> bank_extends b2 b3 \<Longrightarrow> bank_extends b1 b3"
  unfolding bank_extends_def using bank_grows_trans by fastforce

lemma extends_foreign: "foreign_bank b b' \<Longrightarrow> bank_extends b b'"
  unfolding foreign_bank_def bank_extends_def by blast

lemma extends_posting:
  assumes "ensure_user_wallet v b = (w, b0)" and "posts b0 ds es b'" and "same_frame b0 b'"
  shows "bank_extends b b'"
  using ensure_user_wallet_held [OF assms(1), of AT_FROZEN] ensure_entries [OF assms(1)] assms(2)
    bank_wf_frame [OF _ assms(3)] bank_grows_trans [OF _ bank_grows_frame [OF assms(3)]]
  by (auto simp: bank_extends_def posts_def)

lemma extends_withdraw: "withdraw u a fee net key req frozen meta b = Inr (r, b') \<Longrightarrow> bank_extends b b'"
  by (cases "ensure_user_wallet u b", erule withdraw_cases, assumption)
     (auto dest!: fresh_parts intro: extends_posting extends_foreign [OF foreign_ensure])

lemma extends_refund: "refund_withdrawal u a key reason req b = Inr (r, b') \<Longrightarrow> bank_extends b b'"
  by (cases "ensure_user_wallet u b", erule refund_withdrawal_cases, assumption)
     (auto dest!: fresh_parts intro: extends_posting extends_foreign [OF foreign_ensure])

lemma extends_freeze: "freeze_for_withdrawal u a b = Inr b' \<Longrightarrow> bank_extends b b'"
  using freeze_for_withdrawal_posts extends_posting by (metis prod.collapse)

lemma extends_release: "release_withdraw_hold u a b = Inr b' \<Longrightarrow> bank_extends b b'"
  using release_withdraw_hold_posts extends_posting by (metis prod.collapse)

lemma extends_draw: "draw b = (i, b') \<Longrightarrow> bank_extends b b'"
  by (rule extends_foreign [OF foreign_draw])

lemma extends_created:
  assumes "create_withdrawal_tx w now u addr amount fee key m d = Inr (x, d')"
  shows "bank_extends (bank d) (bank d')"
proof -
  from assms obtain review b r i where
    1: "(if review then freeze_for_withdrawal u amount (bank d) else Inr (bank d)) = Inr b" and
    2: "insert_withdrawal r (d\<lparr>bank := b\<rparr>) = Inr (i, d')"
    by (auto simp: create_withdrawal_tx_def Let_def bindE_eq_Inr)
  have "bank_extends (bank d) b" using 1 extends_freeze by (auto split: if_splits)
  moreover have "bank_extends b (bank d')"
    using 2 extends_draw by (auto simp: insert_withdrawal_def draw_db_def Let_def split: if_splits prod.splits)
  ultimately show ?thesis by (rule extends_trans)
qed

lemma extends_claimed: "approve_claim source i r reviewer d = Inr (won, d') \<Longrightarrow> bank_extends (bank d) (bank d')"
  by (auto simp: approve_claim_def update_many_def bindE_eq_Inr intro: extends_withdraw split: if_splits)

lemma extends_rejected: "reject_tx i r admin reason d = Inr d' \<Longrightarrow> bank_extends (bank d) (bank d')"
  by (auto simp: reject_tx_def update_many_def bindE_eq_Inr intro: extends_release split: if_splits)

lemma extends_paid: "handle_withdrawal_paid now h d = Inr d' \<Longrightarrow> bank_extends (bank d) (bank d')"
  by (auto simp: handle_withdrawal_paid_def split: option.splits if_splits)

lemma extends_failed: "handle_withdrawal_failed h d = Inr d' \<Longrightarrow> bank_extends (bank d) (bank d')"
  by (auto simp: handle_withdrawal_failed_def update_many_def bindE_eq_Inr dest!: extends_refund split: option.splits if_splits)

interpretation journal: payment_contract "\<lambda>d d'. bank_extends (bank d) (bank d')"
proof (unfold_locales, goal_cases)
  case (10 d hook provider amount)
  then show ?case using extends_draw by (auto simp: store_event_frame split: prod.split)
qed (auto intro: extends_trans extends_foreign extends_created extends_claimed extends_rejected extends_paid extends_failed)


section \<open>The theorems of what happens once\<close>

lemma webhook_tx_events:
  assumes "webhook_tx w now hook amount d = Inr (Webhook_handled, d')" and dist: "distinct (keys (payment_events d))"
  shows "\<exists>e. row (payment_events d') (hook_event hook) = Some e \<and> pe_processed_at e \<noteq> None"
    "distinct (keys (payment_events d'))"
proof -
  let ?f = "\<lambda>v. v\<lparr>pe_processed_at := Some now\<rparr>"
  have "events_kept d d'" by (rule events.webhook_committed [OF assms(1)])
  then show "distinct (keys (payment_events d'))" using dist by (simp add: events_kept_def)
  show "\<exists>e. row (payment_events d') (hook_event hook) = Some e \<and> pe_processed_at e \<noteq> None"
  proof (cases rule: claim_row_cases [OF dist, where i = "hook_event hook" and P = "\<lambda>v. pe_processed_at v = None" and f = ?f])
    case 2
    then show ?thesis using assms(1) by (simp add: webhook_tx_def)
  next
    case (1 v)
    let ?d = "d\<lparr>payment_events := AList.update (hook_event hook) (?f v) (payment_events d)\<rparr>"
    have "d' = ?d \<or> (\<exists>h config amount. credit_deposit config h amount ?d = Inr d')
        \<or> (\<exists>h. handle_withdrawal_paid now h ?d = Inr d') \<or> (\<exists>h. handle_withdrawal_failed h ?d = Inr d')"
      using assms(1) 1
      by (cases hook)
         (auto simp: webhook_tx_def Let_def bindE_eq_Inr handle_deposit_credited_def split: option.splits if_splits)
    then have "events_kept ?d d'" using events.refl events.credited events.paid events.failed by blast
    then have "row (payment_events d') (hook_event hook) = Some (?f v)"
      by (rule events_keptD) (simp_all add: row_update)
    then show ?thesis by auto
  qed
qed

text \<open>
  C29: A webhook takes effect once. After an event was handled, every later delivery of an event
  with the same identifier is answered as a duplicate and changes nothing, after any other steps
  of the payments and whatever its payload says now; this holds for a delivery that arrives late
  and for the second commit of one that had been read before.
\<close>

theorem webhook_handled_once:
  assumes "webhook_tx w now hook amount d = Inr (Webhook_handled, d1)" and "distinct (keys (payment_events d))"
    and "pay_step\<^sup>*\<^sup>* d1 d2" and "hook_event hook' = hook_event hook"
  shows "handle_webhook w' now' hook' d2 = (Inr Webhook_duplicate, d2)
     \<and> webhook_tx w' now' hook' amount' d2 = Inr (Webhook_duplicate, d2)"
proof -
  note e = webhook_tx_events [OF assms(1,2)]
  have "events_kept d1 d2" by (rule events.steps [OF assms(3)])
  with e obtain x where x: "row (payment_events d2) (hook_event hook') = Some x" "pe_processed_at x \<noteq> None"
      "distinct (keys (payment_events d2))"
    using assms(4) events_keptD unfolding events_kept_def by metis
  have "webhook_tx w' now' hook' amount' d2 = Inr (Webhook_duplicate, d2)"
    by (cases rule: claim_row_cases [OF x(3), where i = "hook_event hook'" and P = "\<lambda>v. pe_processed_at v = None"
          and f = "\<lambda>v. v\<lparr>pe_processed_at := Some now'\<rparr>"])
       (use x in \<open>auto simp: webhook_tx_def\<close>)
  then show ?thesis using x by (auto simp: handle_webhook_def)
qed

definition demo_credit :: webhook where
  "demo_credit = Deposit_credited \<lparr>dh_event = ''e'', dh_user = ''alice'', dh_tx_hash = Some ''t'', dh_amount_sun = None,
     dh_address = None, dh_credit_usd = Some ''12.5'', dh_external_id = None, dh_invoice_id = None, dh_payment_method = None\<rparr>"

definition demo_stored :: db where
  "demo_stored = store_event PK_crypto_tron demo_credit 1250 pay_demo_start"

definition demo_credited :: "(webhook_answer \<times> db) res" where
  "demo_credited = webhook_tx pay_world 5 demo_credit 1250 demo_stored"

lemma demo_credited_answer:
  obtains d where "demo_credited = Inr (Webhook_handled, d)" "accountb AT_AVAILABLE ''alice'' (bank d) = 1250"
proof -
  have "case demo_credited of Inl _ \<Rightarrow> False | Inr (a, d) \<Rightarrow> a = Webhook_handled \<and> accountb AT_AVAILABLE ''alice'' (bank d) = 1250"
    by code_simp
  then show ?thesis using that by (auto split: sum.splits)
qed

theorem webhook_handled_once_witness:
  "\<exists>d. demo_credited = Inr (Webhook_handled, d) \<and> accountb AT_AVAILABLE ''alice'' (bank d) = 1250
     \<and> handle_webhook pay_world 9 demo_credit d = (Inr Webhook_duplicate, d)"
proof -
  obtain d where d: "demo_credited = Inr (Webhook_handled, d)" "accountb AT_AVAILABLE ''alice'' (bank d) = 1250"
    by (rule demo_credited_answer)
  have "distinct (keys (payment_events demo_stored))" by code_simp
  from webhook_handled_once [OF d(1) [unfolded demo_credited_def] this rtranclp.rtrancl_refl, of demo_credit pay_world 9] d
  show ?thesis by blast
qed



end
