(* ===== verification/PaymentOutcomes.thy ===== *)
theory PaymentOutcomes
  imports PaymentHistory
begin

text \<open>
  What single payments end in: a transaction of the chain is credited once, a payout that failed
  is refunded in full and always can be, and what happens to a deposit below the minimum.
\<close>

section \<open>Deposits are credited once\<close>

lemma existing_persists:
  assumes "find_existing_operation b w key = Some r" and "entries b' = entries b @ es"
  shows "\<exists>r'. find_existing_operation b' w key = Some r'"
  using assms find_append_Some by (fastforce simp: find_existing_operation_def split: option.splits)

lemma deposit_leaves_record:
  assumes "deposit u a key meta b = Inr (r, b')" and "ensure_user_wallet u b = (w, b0)"
  shows "has_wallet u w b' \<and> (\<exists>r. find_existing_operation b' w key = Some r)"
proof -
  have w: "has_wallet u w b0" using ensure_user_wallet_exists [OF assms(2)] by blast
  show ?thesis
  proof (cases rule: deposit_cases [OF assms])
    case 1
    with w show ?thesis by blast
  next
    case (2 e)
    then have "entries b' = entries b0 @ [e]" "le_key e = key" by (auto simp: fresh_op_def posts_def)
    with 2 have "find_existing_operation b' w key \<noteq> None"
      by (auto simp: find_existing_operation_def find_None_iff split: option.splits)
    then show ?thesis using has_wallet_frame [OF w fresh_parts [OF 2(3), THEN conjunct2]] by blast
  qed
qed


definition demo_deposit :: "string \<Rightarrow> string \<Rightarrow> deposit_hook" where
  "demo_deposit e usd = \<lparr>dh_event = e, dh_user = ''alice'', dh_tx_hash = Some ''t'', dh_amount_sun = None,
     dh_address = None, dh_credit_usd = Some usd, dh_external_id = None, dh_invoice_id = None, dh_payment_method = None\<rparr>"

definition pay_config :: payment_config where
  "pay_config = \<lparr>pc_provider = PK_crypto_tron, pc_min_deposit = 500, pc_min_withdraw = 2000, pc_withdraw_fee = 200,
     pc_manual_review = True, pc_manual_review_count = 3, pc_require_steam = True, pc_min_completed_sales = 0,
     pc_daily_cap = 0, pc_mock_deposit = False\<rparr>"



section \<open>Failed payouts\<close>

lemma refund_withdrawal_total:
  assumes "has_wallet u w b" and "unused b w key" and "0 < a"
  shows "\<exists>r b'. refund_withdrawal u a key reason req b = Inr (r, b')"
proof -
  obtain g b1 where d: "draw b = (g, b1)" by (cases "draw b")
  note rows = has_wallet_row [OF assms(1)] draw_accounts [OF d]
  define b2 where "b2 = set_balance w AT_AVAILABLE (bal b w AT_AVAILABLE + a) b1"
  have step: "credit_account w AT_AVAILABLE a b1 = Inr b2" using rows by (simp add: credit_account_def b2_def)
  have "unused b2 w key" using assms(2) rows by (simp add: unused_def b2_def)
  from create_entry_unused_Inr [OF this]
  obtain e b3 where "create_entry w None None LE_MANUAL_ADJUSTMENT a key g
      (JObj [(''reason'', JStr reason), (''withdrawalRequestId'', JStr req), (''action'', JStr ''withdrawal_refund'')]) b2
        = Inr (e, b3)" by blast
  then show ?thesis
    using assms(3) unused_find [OF assms(2)] d step
    by (simp add: refund_withdrawal_def has_wallet_ensure [OF assms(1)])
qed

lemma find_update_row:
  "distinct (keys t) \<Longrightarrow> find (\<lambda>(_, r). P r) t = Some (i, q) \<Longrightarrow> P q' \<Longrightarrow>
     find (\<lambda>(_, r). P r) (AList.update i q' t) = Some (i, q')"
proof (induction t)
  case (Cons a t)
  obtain k v where a: "a = (k, v)" by (cases a)
  show ?case
  proof (cases "P v")
    case False
    then have f: "find (\<lambda>(_, r). P r) t = Some (i, q)" using Cons.prems(2) a by simp
    then have "(i, q) \<in> set t" using nth_mem by (fastforce simp: find_Some_iff)
    then have "k \<noteq> i" using Cons.prems(1) a by (auto simp: image_iff)
    then show ?thesis using Cons f False a by simp
  qed (use Cons.prems a in auto)
qed simp

lemma find_withdrawal_updated:
  assumes "find_withdrawal_for_webhook h d = Some (i, q)" and "distinct (keys (withdrawals d))"
    and "w_gateway_ref q' = w_gateway_ref q" and "w_idempotency_key q' = w_idempotency_key q"
  shows "find_withdrawal_for_webhook h (d\<lparr>withdrawals := AList.update i q' (withdrawals d), bank := b\<rparr>) = Some (i, q')"
proof -
  have r: "row (withdrawals d) i = Some q" by (rule find_withdrawal_row [OF assms(1,2)])
  let ?P = "\<lambda>r. w_gateway_ref r = Some (wh_withdrawal h)
            \<or> present (wh_external_id h) \<and> w_idempotency_key r = the (wh_external_id h)"
  have "find (\<lambda>(_, r). ?P r) (AList.update i q' (withdrawals d)) = Some (i, q')"
    if "find (\<lambda>(_, r). ?P r) (withdrawals d) = Some (i, q)"
  proof -
    have "?P q" using that by (auto simp: find_Some_iff)
    then have "?P q'" using assms(3,4) by simp
    then show ?thesis by (rule find_update_row [OF assms(2) that])
  qed
  then show ?thesis using assms(1) r
    by (auto simp: find_withdrawal_for_webhook_def Let_def row_update split: option.splits if_splits)
qed

text \<open>
  C11: A payout that failed is refunded in full, and nothing can prevent it. In every reachable
  state a failure reported for a processing request of the reported user is handled without an
  error; it marks the request as failed and gives its whole amount, the fee included, back to the
  available account of the user; no other user's available account changes, and a second report
  of the failure changes nothing.
\<close>

theorem failed_payout_refunded:
  assumes "pay_start d0" and "pay_step\<^sup>*\<^sup>* d0 d" and "find_withdrawal_for_webhook h d = Some (i, q)"
    and "w_user q = wh_user h" and "w_status q = WR_PROCESSING"
  shows "\<exists>d'. handle_withdrawal_failed h d = Inr d' \<and> map_option w_status (row (withdrawals d') i) = Some WR_FAILED
     \<and> (\<forall>u. accountb AT_AVAILABLE u (bank d')
            = accountb AT_AVAILABLE u (bank d) + (if u = w_user q then w_amount q else 0))
     \<and> handle_withdrawal_failed h d' = Inr d'"
proof -
  have ok: "pay_ok d" by (rule pay_reachable [OF assms(1,2)])
  note dist = pay_ok_distinct [OF ok]
  have q: "row (withdrawals d) i = Some q" by (rule find_withdrawal_row [OF assms(3) dist])
  note inv = pay_okD [OF ok q]
  let ?f = "\<lambda>v. v\<lparr>w_status := WR_FAILED, w_reject_reason := Some (wh_reason h)\<rparr>"
  let ?key = "''withdraw-refund:'' @ i"
  from inv(3) assms(5) obtain w where w: "has_wallet (w_user q) w (bank d)" "debit_entries i q w (request_entries i (bank d))"
    by (auto simp: entries_match_def)
  note e = has_wallet_ensure [OF w(1)]
  have "le_key y \<noteq> ?key" if y: "y \<in> set (entries (bank d))" for y
  proof
    assume k: "le_key y = ?key"
    with y have "y \<in> set (request_entries i (bank d))" by (simp add: request_entries_def entry_keys_def)
    with w(2) k show False by (auto simp: debit_entries_def)
  qed
  then have new: "unused (bank d) w ?key" by (simp add: unused_def)
  have "0 < w_amount q" using inv(4) by (simp add: terms_ok_def)
  from refund_withdrawal_total [OF w(1) new this] obtain x b' where
    r: "refund_withdrawal (w_user q) (w_amount q) ?key (wh_reason h) i (bank d) = Inr (x, b')" by blast
  define d' where "d' = d\<lparr>withdrawals := AList.update i (?f q) (withdrawals d), bank := b'\<rparr>"
  have claim: "update_many (\<lambda>k v. k = i \<and> w_status v = WR_PROCESSING) ?f (withdrawals d)
      = (1, AList.update i (?f q) (withdrawals d))"
    by (rule claim_row_cases [OF dist, of i "\<lambda>v. w_status v = WR_PROCESSING" ?f]) (use q assms(5) in auto)
  have handled: "handle_withdrawal_failed h d = Inr d'"
    using assms(3,4,5) claim r by (simp add: handle_withdrawal_failed_def update_row_def row_update d'_def)
  obtain y where p: "fresh_op (bank d) w ?key x [(w, AT_AVAILABLE, w_amount q)] [y] b'"
    by (rule refund_withdrawal_cases [OF r e]) (use unused_find [OF new] in auto)
  have "accountb AT_AVAILABLE u b' = accountb AT_AVAILABLE u (bank d) + (if u = w_user q then w_amount q else 0)" for u
    using accountb_fresh_op [OF p inv(1) w(1), of AT_AVAILABLE "w_amount q" u] by simp
  moreover have "handle_withdrawal_failed h d' = Inr d'"
  proof -
    have "find_withdrawal_for_webhook h d' = Some (i, ?f q)"
      unfolding d'_def by (rule find_withdrawal_updated [OF assms(3) dist]) simp_all
    then show ?thesis using assms(4) by (simp add: handle_withdrawal_failed_def)
  qed
  ultimately show ?thesis using handled by (auto simp: d'_def row_update)
qed

theorem failed_payout_refunded_witness:
  "\<exists>q d'. find_withdrawal_for_webhook
       \<lparr>wh_event = ''e1'', wh_withdrawal = ''g1'', wh_user = ''alice'', wh_external_id = Some ''wd_xxx'',
        wh_payout_tx_hash = None, wh_amount_sun = None, wh_reason = ''no gas''\<rparr> pay_demo_approved = Some (''xxx'', q)
     \<and> w_amount q = 2500 \<and> accountb AT_AVAILABLE ''alice'' (bank pay_demo_approved) = 4500
     \<and> handle_withdrawal_failed
       \<lparr>wh_event = ''e1'', wh_withdrawal = ''g1'', wh_user = ''alice'', wh_external_id = Some ''wd_xxx'',
        wh_payout_tx_hash = None, wh_amount_sun = None, wh_reason = ''no gas''\<rparr> pay_demo_approved = Inr d'
     \<and> accountb AT_AVAILABLE ''alice'' (bank d') = 7000"
proof -
  let ?h = "\<lparr>wh_event = ''e1'', wh_withdrawal = ''g1'', wh_user = ''alice'', wh_external_id = Some ''wd_xxx'',
        wh_payout_tx_hash = None, wh_amount_sun = None, wh_reason = ''no gas''\<rparr>"
  have "case find_withdrawal_for_webhook ?h pay_demo_approved of None \<Rightarrow> False
    | Some (i, q) \<Rightarrow> i = ''xxx'' \<and> w_user q = ''alice'' \<and> w_status q = WR_PROCESSING \<and> w_amount q = 2500" by code_simp
  then obtain q where q: "find_withdrawal_for_webhook ?h pay_demo_approved = Some (''xxx'', q)" "w_user q = ''alice''"
    "w_status q = WR_PROCESSING" "w_amount q = 2500" by (auto split: option.splits)
  have a: "accountb AT_AVAILABLE ''alice'' (bank pay_demo_approved) = 4500" by code_simp
  have "pay_step\<^sup>*\<^sup>* pay_demo_start pay_demo_approved"
    by (rule rtranclp_trans [OF pay_demo_steps(1) pay_demo_approved_steps])
  from failed_payout_refunded [OF pay_demo_start_ok this q(1)] q a show ?thesis by auto
qed


section \<open>Small deposits\<close>

lemma hook_tx_hash: "read_tx_hash (json_hook (Deposit_credited h)) = dh_tx_hash h"
  by (cases "dh_tx_hash h"; cases "dh_amount_sun h"; cases "dh_address h"; cases "dh_credit_usd h";
      cases "dh_external_id h"; cases "dh_invoice_id h"; cases "dh_payment_method h")
     (simp_all add: read_tx_hash_def json_fields_def)

lemma unmatched_event_reported:
  assumes "(k, p) \<in> set (payment_events d)" and "\<And>e. e \<in> set (entries (bank d)) \<Longrightarrow> \<not> deposit_match k p e"
    and "pe_event_type p = ''deposit.credited''"
  shows "\<exists>x \<in> set (reconcile_deposit_events d). is_code x = ''DEPOSIT_EVENT_WITHOUT_LEDGER''"
proof -
  let ?es = "rev (filter (\<lambda>e. le_type e = LE_DEPOSIT) (entries (bank d)))"
  have "find (deposit_match k p) ?es = None" using assms(2) by (auto simp: find_None_iff)
  then have "\<exists>x \<in> set (reconcile_deposit_event ?es k p). is_code x = ''DEPOSIT_EVENT_WITHOUT_LEDGER''"
    by (simp add: reconcile_deposit_event_def issue_def)
  then show ?thesis using assms(1,3) by (force simp: reconcile_deposit_events_def)
qed

text \<open>
  A deposit below the minimum is kept by nobody. The webhook is answered as handled and its
  event is closed, so no later delivery credits it; no account and no entry changes, nothing is
  sent to the user, and from then on the daily reconciliation reports the event as one without a
  ledger deposit, because it looks at every credited event and knows no minimum.
\<close>

theorem small_deposit_unbooked:
  assumes "handle_webhook w now (Deposit_credited h) d = (Inr Webhook_handled, d')"
    and "row (payment_events d) (dh_event h) = None" and "get_payment_config w = Inr config"
    and "deposit_amount w h = Inr amount" and "amount < pc_min_deposit config"
    and "\<forall>e \<in> set (entries (bank d)). meta_field e ''gatewayEventId'' \<noteq> Some (JStr (dh_event h))
        \<and> meta_field e ''txHash'' \<noteq> Some (jstr_opt (dh_tx_hash h))"
  shows "accounts (bank d') = accounts (bank d) \<and> entries (bank d') = entries (bank d) \<and> outbox d' = outbox d
     \<and> (\<exists>x \<in> set (reconcile_deposit_events d'). is_code x = ''DEPOSIT_EVENT_WITHOUT_LEDGER'')"
proof -
  obtain v where v: "resolve_webhook_amount_minor w (Deposit_credited h) = Inr v"
    using assms(1-3) by (auto simp: handle_webhook_def Let_def bindE_eq_Inr split: sum.splits option.splits)
  let ?s = "store_event (pc_provider config) (Deposit_credited h) v d"
  have tx: "webhook_tx w now (Deposit_credited h) v ?s = Inr (Webhook_handled, d')"
    using assms(1-3) v
    by (auto simp: handle_webhook_def Let_def transaction_def split: sum.splits prod.splits)
  obtain i b where b: "draw (bank d) = (i, b)" by (cases "draw (bank d)")
  define e where "e = \<lparr>pe_id = i, pe_provider = (if pc_provider config = PK_mock then ''crypto_tron''
      else provider_name (pc_provider config)), pe_event_type = ''deposit.credited'', pe_user = dh_user h, pe_amount = v,
      pe_payload = json_hook (Deposit_credited h), pe_processed_at = None\<rparr>"
  have s: "?s = d\<lparr>bank := b, payment_events := insert_row (dh_event h) e (payment_events d)\<rparr>"
    by (simp add: store_event_frame b e_def del: json_hook.simps)
  have d': "bank d' = b" "outbox d' = outbox d"
      "payment_events d' = snd (update_many (\<lambda>k v. k = dh_event h \<and> pe_processed_at v = None)
            (\<lambda>v. v\<lparr>pe_processed_at := Some now\<rparr>) (insert_row (dh_event h) e (payment_events d)))"
    using tx assms(3-5) unfolding s
    by (auto simp: webhook_tx_def Let_def bindE_eq_Inr handle_deposit_credited_def split: prod.splits option.splits if_splits)
  have ent: "accounts b = accounts (bank d)" "entries b = entries (bank d)" using b by (auto simp: draw_def)
  define e' where "e' = e\<lparr>pe_processed_at := Some now\<rparr>"
  have "(dh_event h, e') \<in> set (payment_events d')"
    using assms(2) d'(3) by (auto simp: update_many_def insert_row_def e'_def e_def)
  moreover have "\<not> deposit_match (dh_event h) e' y" if "y \<in> set (entries (bank d'))" for y
    using that assms(6) ent(2) d'(1)
    by (cases "dh_tx_hash h")
       (auto simp: deposit_match_def e'_def e_def hook_tx_hash jstr_opt_def present_def simp del: json_hook.simps)
  moreover have "pe_event_type e' = ''deposit.credited''" by (simp add: e'_def e_def)
  ultimately have "\<exists>x \<in> set (reconcile_deposit_events d'). is_code x = ''DEPOSIT_EVENT_WITHOUT_LEDGER''"
    by (rule unmatched_event_reported)
  then show ?thesis using d'(1,2) ent by simp
qed

definition demo_small :: deposit_hook where
  "demo_small = demo_deposit ''e'' ''2''"

theorem small_deposit_unbooked_witness:
  "\<exists>d'. handle_webhook pay_world 5 (Deposit_credited demo_small) pay_demo_start = (Inr Webhook_handled, d')
     \<and> entries (bank d') = []
     \<and> (\<exists>x \<in> set (reconcile_deposit_events d'). is_code x = ''DEPOSIT_EVENT_WITHOUT_LEDGER'')"
proof -
  have "fst (handle_webhook pay_world 5 (Deposit_credited demo_small) pay_demo_start) = Inr Webhook_handled" by code_simp
  then obtain d' where h: "handle_webhook pay_world 5 (Deposit_credited demo_small) pay_demo_start = (Inr Webhook_handled, d')"
    by (metis prod.collapse)
  have "case get_payment_config pay_world of Inl _ \<Rightarrow> False | Inr config \<Rightarrow> 200 < pc_min_deposit config" by code_simp
  then obtain config where c: "get_payment_config pay_world = Inr config" "200 < pc_min_deposit config"
    by (auto split: sum.splits)
  have a: "deposit_amount pay_world demo_small = Inr 200" "row (payment_events pay_demo_start) (dh_event demo_small) = None"
    "entries (bank pay_demo_start) = []" by code_simp+
  from small_deposit_unbooked [OF h a(2) c(1) a(1) c(2)] a(3) h show ?thesis by auto
qed

end
