(* ===== verification/GatewayState.thy ===== *)
theory GatewayState
  imports JsDate
begin

text \<open>
  The crypto gateway (\<^verbatim>\<open>crypto-gateway\<close>): its tables (\<^verbatim>\<open>prisma/schema.prisma\<close>), the amounts of
  \<^verbatim>\<open>shared/sun.ts\<close>, the status tables of \<^verbatim>\<open>shared/payment-state.ts\<close>, the address format of
  \<^verbatim>\<open>shared/bip44.ts\<close> and the settings of \<^verbatim>\<open>shared/config.ts\<close>. The gateway is a program of its own
  with its own database; it shares no state with the backend.

  Unlike a handler that is one transaction, the gateway's loops commit row by row and an exception
  ends them half way. Their results are pairs of a \<open>res\<close> and the state reached, sequenced by
  \<open>and_then\<close>.
\<close>

section \<open>Steps that keep their state when they throw\<close>

definition and_then :: "'a res \<times> 's \<Rightarrow> ('a \<Rightarrow> 's \<Rightarrow> 'b res \<times> 's) \<Rightarrow> 'b res \<times> 's" where
  "and_then r f = (case r of (Inl e, s) \<Rightarrow> (Inl e, s) | (Inr a, s) \<Rightarrow> f a s)"

lemma and_then_simps [simp]:
  "and_then (Inl e, s) f = (Inl e, s)"
  "and_then (Inr a, s) f = f a s"
  by (simp_all add: and_then_def)

lemma and_then_cases:
  assumes "and_then r f = (x, s')"
  obtains (thrown) e where "r = (Inl e, s')" "x = Inl e"
    | (returned) a s where "r = (Inr a, s)" "f a s = (x, s')"
proof (cases r)
  case (Pair y s)
  then show ?thesis using assms that by (cases y) auto
qed

text \<open>A loop that counts what its body reports.\<close>

fun count_each :: "('x \<Rightarrow> 's \<Rightarrow> nat res \<times> 's) \<Rightarrow> 'x list \<Rightarrow> 's \<Rightarrow> nat res \<times> 's" where
  "count_each f [] s = (Inr 0, s)"
| "count_each f (x # xs) s =
     and_then (f x s) (\<lambda>m s. and_then (count_each f xs s) (\<lambda>n s. (Inr (m + n), s)))"

lemma count_each_invariant:
  assumes "\<And>x s r s'. x \<in> set xs \<Longrightarrow> f x s = (r, s') \<Longrightarrow> P s \<Longrightarrow> P s'"
    and "count_each f xs s = (r, s')" and "P s"
  shows "P s'"
  using assms
proof (induction xs arbitrary: s r)
  case (Cons x xs)
  from Cons.prems(2)
  have "and_then (f x s) (\<lambda>m s. and_then (count_each f xs s) (\<lambda>n s. (Inr (m + n), s))) = (r, s')" by simp
  then show ?case
  proof (cases rule: and_then_cases)
    case thrown
    then show ?thesis using Cons.prems(1) [of x s] Cons.prems(3) by auto
  next
    case (returned m t)
    have "P t" using Cons.prems(1) [of x s "Inr m" t] Cons.prems(3) returned(1) by simp
    obtain y where "count_each f xs t = (y, s')"
      using returned(2) by (cases rule: and_then_cases) auto
    then show ?thesis using Cons.IH [of t y] Cons.prems(1) \<open>P t\<close> by auto
  qed
qed simp

text \<open>A text that is there and not empty, the truth value of a \<open>string | undefined\<close>.\<close>

definition filled :: "string option \<Rightarrow> bool" where
  "filled x \<longleftrightarrow> x \<noteq> None \<and> x \<noteq> Some []"

section \<open>Amounts\<close>

definition gateway_sun_per_usdt :: int where
  "gateway_sun_per_usdt = 1000000"

definition gateway_sun_per_usd_minor :: int where
  "gateway_sun_per_usd_minor = 10000"

definition gateway_sun_to_usd_minor :: "int \<Rightarrow> int res" where
  "gateway_sun_to_usd_minor amount =
     (if amount < 0 then Inl (PlainError ''amountSun must be non-negative'')
      else Inr (amount div gateway_sun_per_usd_minor))"

definition gateway_usd_minor_to_sun :: "int \<Rightarrow> int res" where
  "gateway_usd_minor_to_sun amount =
     (if amount < 0 then Inl (PlainError ''amountMinor must be non-negative'')
      else Inr (amount * gateway_sun_per_usd_minor))"

text \<open>The values a JSON body can carry as an amount: a string of digits or a number.\<close>

datatype sun_value = Sun_string string | Sun_number "int option"

definition parse_sun :: "world \<Rightarrow> sun_value \<Rightarrow> int res" where
  "parse_sun w v = (case v of
     Sun_number None \<Rightarrow> Inl (PlainError ''Invalid sun amount'')
   | Sun_number (Some n) \<Rightarrow> Inr n
   | Sun_string s \<Rightarrow>
       if s \<noteq> [] \<and> list_all is_digit s then Inr (digits_value s)
       else Inl (PlainError ''Invalid sun amount string''))"

text \<open>Division and remainder of BigInt round towards zero; the texts of both parts are put together.\<close>

definition format_usdt_from_sun :: "int \<Rightarrow> string" where
  "format_usdt_from_sun amount =
     (let whole = sgn amount * (\<bar>amount\<bar> div gateway_sun_per_usdt);
          fraction = pad 6 (sgn amount * (\<bar>amount\<bar> mod gateway_sun_per_usdt));
          fraction = rev (dropWhile (\<lambda>c. c = CHR ''0'') (rev fraction))
      in if fraction \<noteq> [] then show_int whole @ ''.'' @ fraction else show_int whole)"

section \<open>Status tables\<close>

datatype chain_payment_status = CP_detected | CP_held | CP_credited | CP_rejected

datatype payout_status = PO_pending | PO_processing | PO_paid | PO_failed

fun payment_transitions :: "chain_payment_status \<Rightarrow> chain_payment_status list" where
  "payment_transitions CP_detected = [CP_held, CP_rejected]"
| "payment_transitions CP_held = [CP_credited, CP_rejected]"
| "payment_transitions CP_credited = []"
| "payment_transitions CP_rejected = []"

fun payout_transitions :: "payout_status \<Rightarrow> payout_status list" where
  "payout_transitions PO_pending = [PO_processing, PO_failed]"
| "payout_transitions PO_processing = [PO_paid, PO_failed]"
| "payout_transitions PO_paid = []"
| "payout_transitions PO_failed = []"

definition can_transition_payment :: "chain_payment_status \<Rightarrow> chain_payment_status \<Rightarrow> bool" where
  "can_transition_payment s t \<longleftrightarrow> t \<in> set (payment_transitions s)"

definition can_transition_payout :: "payout_status \<Rightarrow> payout_status \<Rightarrow> bool" where
  "can_transition_payout s t \<longleftrightarrow> t \<in> set (payout_transitions s)"

text \<open>
  The minimum of confirmations is a JavaScript number: \<open>None\<close> is \<open>NaN\<close>, with which every
  comparison is false.
\<close>

definition enough_confirmations :: "int option \<Rightarrow> int \<Rightarrow> bool" where
  "enough_confirmations m n \<longleftrightarrow> (case m of None \<Rightarrow> False | Some k \<Rightarrow> k \<le> n)"

definition next_payment_status :: "chain_payment_status \<Rightarrow> int \<Rightarrow> int option \<Rightarrow> chain_payment_status option" where
  "next_payment_status current confirmations min_confirmations =
     (if current = CP_detected \<and> enough_confirmations min_confirmations confirmations then Some CP_held
      else if current = CP_held then Some CP_credited
      else None)"

section \<open>Addresses\<close>

text \<open>\<open>/^T[1-9A-HJ-NP-Za-km-z]{33}$/\<close>\<close>

definition is_base58 :: "char \<Rightarrow> bool" where
  "is_base58 c \<longleftrightarrow> (let n = of_char c :: nat in
     49 \<le> n \<and> n \<le> 57 \<or> 65 \<le> n \<and> n \<le> 72 \<or> 74 \<le> n \<and> n \<le> 78 \<or> 80 \<le> n \<and> n \<le> 90
     \<or> 97 \<le> n \<and> n \<le> 107 \<or> 109 \<le> n \<and> n \<le> 122)"

definition is_valid_tron_address :: "string \<Rightarrow> bool" where
  "is_valid_tron_address s \<longleftrightarrow>
     length s = 34 \<and> hd s = CHR ''T'' \<and> list_all is_base58 (tl s)"

section \<open>Settings\<close>

text \<open>\<open>Math.max(1, Number(process.env.X ?? d))\<close>; \<open>Math.max\<close> with \<open>NaN\<close> is \<open>NaN\<close>.\<close>

definition number_env :: "world \<Rightarrow> string \<Rightarrow> int \<Rightarrow> int option" where
  "number_env w n d = (case env w n of None \<Rightarrow> Some d | Some s \<Rightarrow> js_number w s)"

definition at_least_one :: "int option \<Rightarrow> int option" where
  "at_least_one = map_option (max 1)"

definition require_env :: "world \<Rightarrow> string \<Rightarrow> string res" where
  "require_env w n =
     (case env w n of
        Some s \<Rightarrow> if s = [] then Inl (PlainError (''Missing required env: '' @ n)) else Inr s
      | None \<Rightarrow> Inl (PlainError (''Missing required env: '' @ n)))"

definition optional_bigint :: "world \<Rightarrow> string \<Rightarrow> int \<Rightarrow> int res" where
  "optional_bigint w n d =
     (case env w n of
        None \<Rightarrow> Inr d
      | Some s \<Rightarrow> (case js_bigint w s of
          None \<Rightarrow> Inl (PlainError (''Cannot convert '' @ s @ '' to a BigInt'')) | Some v \<Rightarrow> Inr v))"

definition string_env :: "world \<Rightarrow> string \<Rightarrow> string \<Rightarrow> string" where
  "string_env w n d = (case env w n of None \<Rightarrow> d | Some s \<Rightarrow> s)"

record gateway_config =
  gc_port :: "int option"
  gc_api_key :: string
  gc_webhook_secret :: string
  gc_webhook_url :: string
  gc_usdt_contract :: string
  gc_min_confirmations :: "int option"
  gc_min_deposit :: int
  gc_hot_wallet :: string
  gc_sweep_hours :: "int option"
  gc_withdrawal_fee :: int
  gc_max_withdrawal :: int
  gc_mnemonic :: string
  gc_xpub :: string

definition load_config :: "world \<Rightarrow> gateway_config res" where
  "load_config w =
     bindE (require_env w ''API_KEY'') (\<lambda>api_key.
     bindE (require_env w ''WEBHOOK_SECRET'') (\<lambda>secret.
     bindE (require_env w ''WEBHOOK_URL'') (\<lambda>url.
     bindE (optional_bigint w ''MIN_DEPOSIT_SUN'' 1000000) (\<lambda>min_deposit.
     bindE (optional_bigint w ''WITHDRAWAL_FEE_SUN'' 0) (\<lambda>fee.
     bindE (optional_bigint w ''MAX_WITHDRAWAL_SUN'' 100000000000) (\<lambda>max_withdrawal.
     Inr \<lparr>gc_port = number_env w ''PORT'' 3100, gc_api_key = api_key, gc_webhook_secret = secret,
          gc_webhook_url = url,
          gc_usdt_contract = string_env w ''USDT_CONTRACT'' ''TR7NHqjeKQxGTCi8q8ZY4pL8otSzgjLj6t'',
          gc_min_confirmations = at_least_one (number_env w ''MIN_CONFIRMATIONS'' 19),
          gc_min_deposit = min_deposit,
          gc_hot_wallet = string_env w ''HOT_WALLET_ADDRESS'' [],
          gc_sweep_hours = at_least_one (number_env w ''SWEEP_INTERVAL_HOURS'' 6),
          gc_withdrawal_fee = fee, gc_max_withdrawal = max_withdrawal,
          gc_mnemonic = string_env w ''MNEMONIC'' [], gc_xpub = string_env w ''XPUB'' []\<rparr>))))))"

section \<open>Tables\<close>

text \<open>
  \<open>GatewayUser\<close> is keyed by its unique \<open>externalUserId\<close>, \<open>Payment\<close> by its unique \<open>txHash\<close>,
  \<open>WebhookDelivery\<close> by its unique \<open>eventId\<close>, \<open>WalletRegistry\<close> by the wallet index; only the
  identifier of a \<open>Withdrawal\<close> is seen outside, so only it is a row of its own identity. Columns
  nothing reads are left out.
\<close>

record gateway_user =
  gu_index :: int
  gu_address :: string
  gu_balance :: int
  gu_created_at :: int

record chain_payment =
  cp_user :: id
  cp_address :: string
  cp_amount :: int
  cp_confirmations :: int
  cp_status :: chain_payment_status
  cp_block :: int
  cp_credited_at :: "int option"
  cp_event :: "string option"
  cp_created_at :: int

text \<open>A transaction signed for the chain: its identifier, when it expires, and its bytes.\<close>

record signed_tx =
  tx_id :: string
  tx_expiration :: int
  tx_raw :: string

datatype debit_source = Gateway_balance | Backend_authorized

record payout =
  po_user :: id
  po_external :: "string option"
  po_source :: debit_source
  po_to :: string
  po_amount :: int
  po_fee :: int
  po_status :: payout_status
  po_tx_hash :: "string option"
  po_signed :: "signed_tx option"
  po_lease :: "int option"
  po_fail :: "string option"
  po_created_at :: int
  po_updated_at :: int

text \<open>\<^verbatim>\<open>webhook/sender.ts\<close>: what the gateway tells the platform.\<close>

datatype gateway_event =
    Ev_deposit_credited string id string string string string
      \<comment> \<open>event, user, transaction, amount, address, time\<close>
  | Ev_withdrawal_paid string id "string option" id string string string
      \<comment> \<open>event, withdrawal, external id, user, transaction, amount, fee\<close>
  | Ev_withdrawal_failed string id "string option" id string
      \<comment> \<open>event, withdrawal, external id, user, reason\<close>

record delivery =
  de_payload :: gateway_event
  de_delivered :: bool
  de_attempts :: nat
  de_next_retry :: "int option"
  de_error :: "string option"
  de_delivered_at :: "int option"

record gateway_state =
  g_users :: "(id, gateway_user) table"
  g_payments :: "(string, chain_payment) table"
  g_payouts :: "(id, payout) table"
  g_deliveries :: "(string, delivery) table"
  g_registry :: "(int, string) table"
  g_counter :: "int option"
  g_last_block :: "int option"
  g_ids :: "nat \<Rightarrow> id"
  g_next_id :: nat

definition empty_gateway :: "(nat \<Rightarrow> id) \<Rightarrow> gateway_state" where
  "empty_gateway f = \<lparr>g_users = [], g_payments = [], g_payouts = [], g_deliveries = [], g_registry = [],
     g_counter = None, g_last_block = None, g_ids = f, g_next_id = 0\<rparr>"

lemma min_confirmations_positive:
  "load_config w = Inr c \<Longrightarrow> gc_min_confirmations c = Some n \<Longrightarrow> 1 \<le> n"
  by (auto simp: load_config_def at_least_one_def bindE_eq_Inr)

end
