(* ===== verification/GatewayOutbox.thy ===== *)
theory GatewayOutbox
  imports GatewayState
begin

text \<open>
  The gateway's outbox, \<^verbatim>\<open>webhook/emitter.ts\<close> and \<^verbatim>\<open>webhook/sender.ts\<close>: events are stored in the
  transaction that causes them and posted to the platform later, again and again until it accepts
  them. The answer to a request and the clock are arguments; the signature of the body is left to
  the HTTP layer.
\<close>

section \<open>Events\<close>

fun event_id :: "gateway_event \<Rightarrow> string" where
  "event_id (Ev_deposit_credited e u t a addr at) = e"
| "event_id (Ev_withdrawal_paid e w x u t a f) = e"
| "event_id (Ev_withdrawal_failed e w x u r) = e"

fun event_type :: "gateway_event \<Rightarrow> string" where
  "event_type (Ev_deposit_credited e u t a addr at) = ''deposit.credited''"
| "event_type (Ev_withdrawal_paid e w x u t a f) = ''withdrawal.paid''"
| "event_type (Ev_withdrawal_failed e w x u r) = ''withdrawal.failed''"

text \<open>\<open>JSON.stringify\<close> leaves an undefined field out.\<close>

definition external_field :: "string option \<Rightarrow> (string \<times> json) list" where
  "external_field x = (case x of None \<Rightarrow> [] | Some s \<Rightarrow> [(''externalId'', JStr s)])"

fun event_json :: "gateway_event \<Rightarrow> json" where
  "event_json (Ev_deposit_credited e u t a addr at) = JObj
     [(''eventId'', JStr e), (''type'', JStr ''deposit.credited''), (''externalUserId'', JStr u),
      (''txHash'', JStr t), (''amountSun'', JStr a), (''address'', JStr addr), (''creditedAt'', JStr at)]"
| "event_json (Ev_withdrawal_paid e w x u t a f) = JObj
     ([(''eventId'', JStr e), (''type'', JStr ''withdrawal.paid''), (''withdrawalId'', JStr w)]
      @ external_field x
      @ [(''externalUserId'', JStr u), (''payoutTxHash'', JStr t), (''amountSun'', JStr a), (''feeSun'', JStr f)])"
| "event_json (Ev_withdrawal_failed e w x u r) = JObj
     ([(''eventId'', JStr e), (''type'', JStr ''withdrawal.failed''), (''withdrawalId'', JStr w)]
      @ external_field x @ [(''externalUserId'', JStr u), (''reason'', JStr r)])"

section \<open>Storing an event\<close>

definition enqueue_webhook :: "int \<Rightarrow> gateway_event \<Rightarrow> gateway_state \<Rightarrow> gateway_state" where
  "enqueue_webhook now event g =
     (case row (g_deliveries g) (event_id event) of
        Some _ \<Rightarrow> g
      | None \<Rightarrow> g\<lparr>g_deliveries := insert_row (event_id event)
          \<lparr>de_payload = event, de_delivered = False, de_attempts = 0, de_next_retry = Some now,
           de_error = None, de_delivered_at = None\<rparr> (g_deliveries g)\<rparr>)"

text \<open>The three helpers that make their own event identifier from a random one.\<close>

definition create_event_id :: "string \<Rightarrow> string \<Rightarrow> string" where
  "create_event_id p uuid = p @ ''_'' @ uuid"

definition emit_deposit_credited ::
    "int \<Rightarrow> string \<Rightarrow> id \<Rightarrow> string \<Rightarrow> int \<Rightarrow> string \<Rightarrow> int \<Rightarrow> gateway_state \<Rightarrow> string \<times> gateway_state" where
  "emit_deposit_credited now uuid user tx amount address credited_at g =
     (let e = create_event_id ''dep'' uuid
      in (e, enqueue_webhook now
               (Ev_deposit_credited e user tx (show_int amount) address (iso_string credited_at)) g))"

definition emit_withdrawal_paid ::
    "int \<Rightarrow> string \<Rightarrow> id \<Rightarrow> id \<Rightarrow> string \<Rightarrow> int \<Rightarrow> int \<Rightarrow> gateway_state \<Rightarrow> string \<times> gateway_state" where
  "emit_withdrawal_paid now uuid wid user tx amount fee g =
     (let e = create_event_id ''wdr'' uuid
      in (e, enqueue_webhook now (Ev_withdrawal_paid e wid None user tx (show_int amount) (show_int fee)) g))"

definition emit_withdrawal_failed ::
    "int \<Rightarrow> string \<Rightarrow> id \<Rightarrow> id \<Rightarrow> string \<Rightarrow> gateway_state \<Rightarrow> string \<times> gateway_state" where
  "emit_withdrawal_failed now uuid wid user reason g =
     (let e = create_event_id ''wdf'' uuid
      in (e, enqueue_webhook now (Ev_withdrawal_failed e wid None user reason) g))"

section \<open>Posting the events that are due\<close>

datatype fetch_answer = Response int | Request_failed "string option"

fun deliver_webhook :: "fetch_answer \<Rightarrow> string option" where
  "deliver_webhook (Response status) =
     (if 200 \<le> status \<and> status \<le> 299 then None else Some (''HTTP '' @ show_int status))"
| "deliver_webhook (Request_failed (Some m)) = Some m"
| "deliver_webhook (Request_failed None) = Some ''Webhook failed''"

definition delivery_due :: "int \<Rightarrow> delivery \<Rightarrow> bool" where
  "delivery_due now r \<longleftrightarrow> \<not> de_delivered r \<and> (case de_next_retry r of None \<Rightarrow> True | Some t \<Rightarrow> t \<le> now)"

definition retry_delay :: "nat \<Rightarrow> int" where
  "retry_delay attempts = min 3600000 (1000 * 2 ^ min attempts 12)"

text \<open>
  One row: it is leased for two minutes (unless somebody else has it), posted at the time
  \<open>t1\<close>, and settled at the time \<open>t2\<close> of the answer. The answer is judged against the row as it
  was read.
\<close>

definition lease_delivery :: "int \<Rightarrow> int \<Rightarrow> string \<Rightarrow> gateway_state \<Rightarrow> bool \<times> gateway_state" where
  "lease_delivery now t1 e g =
     (let (count, t) = update_many (\<lambda>k v. k = e \<and> delivery_due now v)
            (\<lambda>v. v\<lparr>de_next_retry := Some (t1 + 120000)\<rparr>) (g_deliveries g)
      in (count = 1, g\<lparr>g_deliveries := t\<rparr>))"

definition finish_delivery :: "int \<Rightarrow> fetch_answer \<Rightarrow> string \<Rightarrow> delivery \<Rightarrow> gateway_state \<Rightarrow> gateway_state res" where
  "finish_delivery t2 answer e r g =
     bindE (update_row e
       (\<lambda>v. case deliver_webhook answer of
              None \<Rightarrow> v\<lparr>de_delivered := True, de_delivered_at := Some t2, de_attempts := Suc (de_attempts v)\<rparr>
            | Some m \<Rightarrow> v\<lparr>de_delivered := False, de_attempts := Suc (de_attempts v), de_error := Some m,
                de_next_retry := Some (t2 + retry_delay (de_attempts r))\<rparr>)
       (g_deliveries g)) (\<lambda>t. Inr (g\<lparr>g_deliveries := t\<rparr>))"

text \<open>What the platform answered to an event, when, and which events were posted.\<close>

type_synonym postman = "string \<Rightarrow> int \<times> int \<times> fetch_answer"

definition flush_row ::
    "int \<Rightarrow> postman \<Rightarrow> string \<times> delivery \<Rightarrow> gateway_state \<times> gateway_event list
       \<Rightarrow> nat res \<times> (gateway_state \<times> gateway_event list)" where
  "flush_row now post = (\<lambda>(e, r) (g, sent).
     let (t1, t2, answer) = post e;
         (leased, g) = lease_delivery now t1 e g
     in if \<not> leased then (Inr 0, (g, sent))
        else let sent = sent @ [de_payload r]
             in (case finish_delivery t2 answer e r g of
                   Inl x \<Rightarrow> (Inl x, (g, sent))
                 | Inr g \<Rightarrow> (Inr 1, (g, sent))))"

definition due_deliveries :: "int \<Rightarrow> gateway_state \<Rightarrow> (string \<times> delivery) list" where
  "due_deliveries now g = take 50 (filter (\<lambda>(e, r). delivery_due now r) (g_deliveries g))"

definition flush_webhook_queue ::
    "int \<Rightarrow> postman \<Rightarrow> gateway_state \<Rightarrow> nat res \<times> (gateway_state \<times> gateway_event list)" where
  "flush_webhook_queue now post g = count_each (flush_row now post) (due_deliveries now g) (g, [])"

section \<open>Facts\<close>

lemma retry_delay_bounds: "1000 \<le> retry_delay n \<and> retry_delay n \<le> 3600000"
  by (simp add: retry_delay_def)

lemma retry_delay_mono: "m \<le> n \<Longrightarrow> retry_delay m \<le> retry_delay n"
proof -
  assume "m \<le> n"
  then have "(2 :: int) ^ min m 12 \<le> 2 ^ min n 12" by (intro power_increasing) auto
  then show ?thesis unfolding retry_delay_def by linarith
qed

lemma enqueue_frame [simp]:
  "g_users (enqueue_webhook now ev g) = g_users g"
  "g_payments (enqueue_webhook now ev g) = g_payments g"
  "g_payouts (enqueue_webhook now ev g) = g_payouts g"
  "g_registry (enqueue_webhook now ev g) = g_registry g"
  "g_counter (enqueue_webhook now ev g) = g_counter g"
  "g_last_block (enqueue_webhook now ev g) = g_last_block g"
  "g_ids (enqueue_webhook now ev g) = g_ids g"
  "g_next_id (enqueue_webhook now ev g) = g_next_id g"
  by (simp_all add: enqueue_webhook_def split: option.splits)

lemma row_enqueue:
  "row (g_deliveries (enqueue_webhook now ev g)) e =
     (if e = event_id ev \<and> row (g_deliveries g) e = None
      then Some \<lparr>de_payload = ev, de_delivered = False, de_attempts = 0, de_next_retry = Some now,
                 de_error = None, de_delivered_at = None\<rparr>
      else row (g_deliveries g) e)"
  by (auto simp: enqueue_webhook_def row_insert_row split: option.splits)

lemma enqueue_distinct:
  "distinct (keys (g_deliveries g)) \<Longrightarrow> distinct (keys (g_deliveries (enqueue_webhook now ev g)))"
  by (auto simp: enqueue_webhook_def row_None_iff split: option.splits)

end
