(* ===== verification/GatewayAccounts.thy ===== *)
theory GatewayAccounts
  imports GatewayOutbox
begin

text \<open>
  The users of the gateway and their withdrawals, \<^verbatim>\<open>services/user.service.ts\<close>, and the API in front of
  them, \<^verbatim>\<open>api/routes.ts\<close> and \<^verbatim>\<open>api/auth-middleware.ts\<close>. The derivation of addresses from a seed or
  from an extended key is a library the code calls: the record \<open>key_lib\<close>.

  \<open>create_gateway_withdrawal\<close> reads first and writes later, in a transaction of its own. The two halves are
  definitions of their own, so that other requests can be put between them.
\<close>

section \<open>Responses\<close>

record user_response =
  ur_external :: id
  ur_address :: string
  ur_index :: int
  ur_balance :: string
  ur_created_at :: string

definition to_user_response :: "id \<Rightarrow> gateway_user \<Rightarrow> user_response" where
  "to_user_response k u = \<lparr>ur_external = k, ur_address = gu_address u, ur_index = gu_index u,
     ur_balance = show_int (gu_balance u), ur_created_at = iso_string (gu_created_at u)\<rparr>"

fun show_payment_status :: "chain_payment_status \<Rightarrow> string" where
  "show_payment_status CP_detected = ''detected''"
| "show_payment_status CP_held = ''held''"
| "show_payment_status CP_credited = ''credited''"
| "show_payment_status CP_rejected = ''rejected''"

fun show_payout_status :: "payout_status \<Rightarrow> string" where
  "show_payout_status PO_pending = ''pending''"
| "show_payout_status PO_processing = ''processing''"
| "show_payout_status PO_paid = ''paid''"
| "show_payout_status PO_failed = ''failed''"

record payment_response =
  pr_tx_hash :: string
  pr_amount :: string
  pr_confirmations :: int
  pr_status :: string
  pr_address :: string
  pr_credited_at :: "string option"
  pr_created_at :: string

definition to_payment_response :: "string \<Rightarrow> chain_payment \<Rightarrow> payment_response" where
  "to_payment_response h p = \<lparr>pr_tx_hash = h, pr_amount = show_int (cp_amount p),
     pr_confirmations = cp_confirmations p, pr_status = show_payment_status (cp_status p),
     pr_address = cp_address p, pr_credited_at = map_option iso_string (cp_credited_at p),
     pr_created_at = iso_string (cp_created_at p)\<rparr>"

record payout_response =
  or_id :: id
  or_to :: string
  or_amount :: string
  or_fee :: string
  or_status :: string
  or_tx_hash :: "string option"
  or_fail :: "string option"
  or_created_at :: string
  or_updated_at :: string

definition to_withdrawal_response :: "id \<Rightarrow> payout \<Rightarrow> payout_response" where
  "to_withdrawal_response k p = \<lparr>or_id = k, or_to = po_to p, or_amount = show_int (po_amount p),
     or_fee = show_int (po_fee p), or_status = show_payout_status (po_status p),
     or_tx_hash = po_tx_hash p, or_fail = po_fail p, or_created_at = iso_string (po_created_at p),
     or_updated_at = iso_string (po_updated_at p)\<rparr>"

section \<open>Users and their deposit addresses\<close>

record key_lib =
  kl_mnemonic :: "string \<Rightarrow> int \<Rightarrow> string res"
  kl_xpub :: "string \<Rightarrow> int \<Rightarrow> string res"

definition derive_address :: "key_lib \<Rightarrow> string \<Rightarrow> string \<Rightarrow> int \<Rightarrow> string res" where
  "derive_address lib mnemonic xpub i =
     (if mnemonic \<noteq> [] then kl_mnemonic lib mnemonic i
      else if xpub \<noteq> [] then kl_xpub lib xpub i
      else Inl (PlainError ''MNEMONIC or XPUB required to derive deposit addresses''))"

text \<open>One transaction: the counter row is made if missing, incremented, and the old value is used.\<close>

definition allocate_wallet_index ::
    "key_lib \<Rightarrow> string \<Rightarrow> string \<Rightarrow> gateway_state \<Rightarrow> ((int \<times> string) \<times> gateway_state) res" where
  "allocate_wallet_index lib mnemonic xpub g =
     (let counter = (case g_counter g of None \<Rightarrow> 1 | Some n \<Rightarrow> n);
          allocated = counter + 1;
          index = allocated - 1
      in if index < 1 then Inl (PlainError ''DEPOSIT_INDEX_RESERVED'')
         else bindE (derive_address lib mnemonic xpub index) (\<lambda>address.
           if row (g_registry g) index \<noteq> None \<or> address \<in> snd ` set (g_registry g) then Inl UniqueViolation
           else Inr ((index, address),
                     g\<lparr>g_counter := Some allocated, g_registry := insert_row index address (g_registry g)\<rparr>)))"

definition create_user :: "int \<Rightarrow> id \<Rightarrow> int \<Rightarrow> string \<Rightarrow> gateway_state \<Rightarrow> (gateway_user \<times> gateway_state) res" where
  "create_user now external index address g =
     (if row (g_users g) external \<noteq> None
         \<or> (\<exists>(k, u) \<in> set (g_users g). gu_index u = index \<or> gu_address u = address) then Inl UniqueViolation
      else let u = \<lparr>gu_index = index, gu_address = address, gu_balance = 0, gu_created_at = now\<rparr>
           in Inr (u, g\<lparr>g_users := insert_row external u (g_users g)\<rparr>))"

definition legacy_hot_wallet :: error where
  "legacy_hot_wallet = PlainError ''LEGACY_HOT_WALLET_ADDRESS_REQUIRES_MIGRATION''"

definition ensure_gateway_user ::
    "key_lib \<Rightarrow> string \<Rightarrow> string \<Rightarrow> int \<Rightarrow> id \<Rightarrow> gateway_state \<Rightarrow> user_response res \<times> gateway_state" where
  "ensure_gateway_user lib mnemonic xpub now external g =
     (case row (g_users g) external of
        Some u \<Rightarrow>
          (if gu_index u = 0 then Inl legacy_hot_wallet else Inr (to_user_response external u), g)
      | None \<Rightarrow>
          and_then (transaction (allocate_wallet_index lib mnemonic xpub) g) (\<lambda>(index, address) g.
          and_then (transaction (create_user now external index address) g) (\<lambda>u g.
            (Inr (to_user_response external u), g))))"

definition get_gateway_user :: "id \<Rightarrow> gateway_state \<Rightarrow> user_response option res" where
  "get_gateway_user external g =
     (case row (g_users g) external of
        None \<Rightarrow> Inr None
      | Some u \<Rightarrow> if gu_index u = 0 then Inl legacy_hot_wallet else Inr (Some (to_user_response external u)))"

definition get_user_balance :: "id \<Rightarrow> gateway_state \<Rightarrow> string option" where
  "get_user_balance external g = map_option (\<lambda>u. show_int (gu_balance u)) (row (g_users g) external)"

definition list_user_payments :: "id \<Rightarrow> gateway_state \<Rightarrow> payment_response list" where
  "list_user_payments external g =
     (case row (g_users g) external of
        None \<Rightarrow> []
      | Some _ \<Rightarrow> List.map (\<lambda>(h, p). to_payment_response h p)
          (rev (filter (\<lambda>(h, p). cp_user p = external) (g_payments g))))"

section \<open>Withdrawals\<close>

record payout_order =
  ord_user :: id
  ord_to :: string
  ord_amount :: int
  ord_fee :: int
  ord_external :: string
  ord_source :: debit_source

definition payout_max :: "world \<Rightarrow> int res" where
  "payout_max w = optional_bigint w ''MAX_WITHDRAWAL_SUN'' 100000000000"

definition authorized_allowed :: "world \<Rightarrow> bool" where
  "authorized_allowed w \<longleftrightarrow> env w ''ALLOW_BACKEND_AUTHORIZED_WITHDRAWALS'' = Some ''true''"

text \<open>\<open>BigInt(NaN)\<close> throws.\<close>

definition authorized_max_open :: "world \<Rightarrow> int res" where
  "authorized_max_open w =
     (case number_env w ''BACKEND_AUTHORIZED_MAX_OPEN'' 20 of
        None \<Rightarrow> Inl (PlainError ''The number NaN cannot be converted to a BigInt because it is not an integer'')
      | Some n \<Rightarrow> Inr (max 1 n))"

definition is_open_payout :: "payout \<Rightarrow> bool" where
  "is_open_payout p \<longleftrightarrow> po_status p \<in> {PO_pending, PO_processing}"

definition open_authorized :: "gateway_state \<Rightarrow> int" where
  "open_authorized g =
     tsum (\<lambda>k p. if po_source p = Backend_authorized \<and> is_open_payout p then po_amount p else 0) (g_payouts g)"

definition same_order :: "payout_order \<Rightarrow> payout \<Rightarrow> bool" where
  "same_order r p \<longleftrightarrow> po_user p = ord_user r \<and> po_to p = ord_to r \<and> po_amount p = ord_amount r
     \<and> po_fee p = ord_fee r \<and> po_source p = ord_source r"

definition payout_by_external :: "string \<Rightarrow> gateway_state \<Rightarrow> (id \<times> payout) option" where
  "payout_by_external x g = find (\<lambda>(k, p). po_external p = Some x) (g_payouts g)"

text \<open>The reads: the payout made before under the same external identifier, or permission to go on.\<close>

definition check_withdrawal :: "world \<Rightarrow> payout_order \<Rightarrow> gateway_state \<Rightarrow> (id \<times> payout) option res" where
  "check_withdrawal w r g =
     (case row (g_users g) (ord_user r) of
        None \<Rightarrow> Inl (PlainError ''USER_NOT_FOUND'')
      | Some user \<Rightarrow>
          (case payout_by_external (ord_external r) g of
             Some (k, p) \<Rightarrow>
               if \<not> same_order r p then Inl (PlainError ''IDEMPOTENCY_CONFLICT'') else Inr (Some (k, p))
           | None \<Rightarrow>
               if ord_amount r \<le> 0 \<or> ord_fee r < 0 then Inl (PlainError ''INVALID_AMOUNT'')
               else bindE (payout_max w) (\<lambda>limit.
                 if limit < ord_amount r then Inl (PlainError ''AMOUNT_EXCEEDS_LIMIT'')
                 else bindE
                   (if ord_source r \<noteq> Backend_authorized then Inr ()
                    else if \<not> authorized_allowed w then Inl (PlainError ''BACKEND_AUTHORIZED_DISABLED'')
                    else bindE (authorized_max_open w) (\<lambda>n.
                      if limit * n < open_authorized g + ord_amount r
                      then Inl (PlainError ''BACKEND_AUTHORIZED_CAP_EXCEEDED'') else Inr ()))
                 (\<lambda>_. if ord_source r \<noteq> Backend_authorized \<and> gu_balance user < ord_amount r + ord_fee r
                      then Inl (PlainError ''INSUFFICIENT_BALANCE'') else Inr None))))"

text \<open>The transaction: the balance is taken if it is still there, and the payout is stored.\<close>

definition debit_user :: "payout_order \<Rightarrow> gateway_state \<Rightarrow> gateway_state res" where
  "debit_user r g =
     (if ord_source r = Backend_authorized then Inr g
      else let total = ord_amount r + ord_fee r;
               (count, t) = update_many (\<lambda>k u. k = ord_user r \<and> total \<le> gu_balance u)
                 (\<lambda>u. u\<lparr>gu_balance := gu_balance u - total\<rparr>) (g_users g)
           in if count \<noteq> 1 then Inl (PlainError ''INSUFFICIENT_BALANCE'') else Inr (g\<lparr>g_users := t\<rparr>))"

definition withdrawal_tx :: "int \<Rightarrow> payout_order \<Rightarrow> gateway_state \<Rightarrow> ((id \<times> payout) \<times> gateway_state) res" where
  "withdrawal_tx now r g =
     bindE (debit_user r g) (\<lambda>g.
       let k = g_ids g (g_next_id g);
           p = \<lparr>po_user = ord_user r, po_external = Some (ord_external r), po_source = ord_source r,
                po_to = ord_to r, po_amount = ord_amount r, po_fee = ord_fee r, po_status = PO_pending,
                po_tx_hash = None, po_signed = None, po_lease = None, po_fail = None,
                po_created_at = now, po_updated_at = now\<rparr>
       in if row (g_payouts g) k \<noteq> None \<or> payout_by_external (ord_external r) g \<noteq> None
          then Inl UniqueViolation
          else Inr ((k, p), g\<lparr>g_payouts := insert_row k p (g_payouts g), g_next_id := Suc (g_next_id g)\<rparr>))"

definition create_gateway_withdrawal ::
    "world \<Rightarrow> int \<Rightarrow> payout_order \<Rightarrow> gateway_state \<Rightarrow> payout_response res \<times> gateway_state" where
  "create_gateway_withdrawal w now r g =
     (case check_withdrawal w r g of
        Inl e \<Rightarrow> (Inl e, g)
      | Inr (Some (k, p)) \<Rightarrow> (Inr (to_withdrawal_response k p), g)
      | Inr None \<Rightarrow>
          and_then (transaction (withdrawal_tx now r) g) (\<lambda>(k, p) g. (Inr (to_withdrawal_response k p), g)))"

definition get_withdrawal :: "string \<Rightarrow> gateway_state \<Rightarrow> payout_response option" where
  "get_withdrawal x g =
     map_option (\<lambda>(k, p). to_withdrawal_response k p)
       (find (\<lambda>(k, p). k = x \<or> po_external p = Some x) (g_payouts g))"

section \<open>The API\<close>

text \<open>\<open>bearerAuth\<close>\<close>

definition bearer_auth :: "string \<Rightarrow> string option \<Rightarrow> bool" where
  "bearer_auth key header =
     (case header of
        None \<Rightarrow> False
      | Some h \<Rightarrow> prefix ''Bearer '' h \<and> js_trim (drop 7 h) = key)"

datatype 'a reply = Reply int 'a | Failure int string

definition field_text :: "string option \<Rightarrow> string" where
  "field_text x = (case x of None \<Rightarrow> [] | Some s \<Rightarrow> js_trim s)"

text \<open>\<open>error.message\<close>\<close>

fun message_of :: "error \<Rightarrow> string" where
  "message_of (PlainError m) = m"
| "message_of (BadRequest m) = m"
| "message_of (NotFound m) = m"
| "message_of (Forbidden m) = m"
| "message_of (AppException m) = m"
| "message_of RecordNotFound = ''Record to update not found.''"
| "message_of UniqueViolation = ''Unique constraint failed''"

definition post_users ::
    "key_lib \<Rightarrow> world \<Rightarrow> gateway_config \<Rightarrow> int \<Rightarrow> string option \<Rightarrow> gateway_state
       \<Rightarrow> user_response reply \<times> gateway_state" where
  "post_users lib w c now external g =
     (let external = field_text external in
      if external = [] then (Failure 400 ''externalUserId is required'', g)
      else case ensure_gateway_user lib (string_env w ''MNEMONIC'' []) (gc_xpub c) now external g of
             (Inr u, g) \<Rightarrow> (Reply 201 u, g)
           | (Inl e, g) \<Rightarrow> (Failure 500 (message_of e), g))"

record withdrawal_body =
  wb_user :: "string option"
  wb_to :: "string option"
  wb_amount :: "sun_value option"
  wb_external :: "string option"
  wb_source :: "string option"

definition failure_status :: "string \<Rightarrow> int" where
  "failure_status m =
     (if m = ''USER_NOT_FOUND'' then 404
      else if m = ''IDEMPOTENCY_CONFLICT'' then 409
      else if m = ''INSUFFICIENT_BALANCE'' then 400
      else if m = ''BACKEND_AUTHORIZED_DISABLED'' \<or> m = ''BACKEND_AUTHORIZED_CAP_EXCEEDED'' then 403
      else if m = ''AMOUNT_EXCEEDS_LIMIT'' then 400
      else 500)"

text \<open>The order a request asks for, or its refusal; the fee is read after the amount is accepted.\<close>

definition read_withdrawal_body :: "world \<Rightarrow> withdrawal_body \<Rightarrow> (payout_order res) reply" where
  "read_withdrawal_body w b =
     (let user = field_text (wb_user b); to = field_text (wb_to b); external = field_text (wb_external b);
          source = (if wb_source b = Some ''backend_authorized'' then Backend_authorized else Gateway_balance)
      in if external = [] \<or> 200 < length external then Failure 400 ''externalId required''
         else if source = Backend_authorized \<and> \<not> authorized_allowed w
         then Failure 403 ''BACKEND_AUTHORIZED_DISABLED''
         else if user = [] \<or> to = [] \<or> wb_amount b = None
         then Failure 400 ''externalUserId, toAddress, amountSun required''
         else if \<not> is_valid_tron_address to then Failure 400 ''INVALID_TRON_ADDRESS''
         else case parse_sun w (the (wb_amount b)) of
           Inl _ \<Rightarrow> Failure 400 ''INVALID_AMOUNT''
         | Inr amount \<Rightarrow>
             if amount \<le> 0 then Failure 400 ''AMOUNT_MUST_BE_POSITIVE''
             else Reply 201 (bindE (optional_bigint w ''WITHDRAWAL_FEE_SUN'' 0) (\<lambda>fee.
               Inr \<lparr>ord_user = user, ord_to = to, ord_amount = amount, ord_fee = fee,
                    ord_external = external, ord_source = source\<rparr>)))"

text \<open>An unreadable fee throws outside the handler's \<open>try\<close>: there is no reply.\<close>

definition post_withdrawals ::
    "world \<Rightarrow> int \<Rightarrow> withdrawal_body \<Rightarrow> gateway_state \<Rightarrow> payout_response reply res \<times> gateway_state" where
  "post_withdrawals w now b g =
     (case read_withdrawal_body w b of
        Failure s m \<Rightarrow> (Inr (Failure s m), g)
      | Reply _ (Inl e) \<Rightarrow> (Inl e, g)
      | Reply _ (Inr r) \<Rightarrow>
          (case create_gateway_withdrawal w now r g of
             (Inr p, g) \<Rightarrow> (Inr (Reply 201 p), g)
           | (Inl e, g) \<Rightarrow> (Inr (Failure (failure_status (message_of e)) (message_of e)), g)))"

definition reply_found :: "string \<Rightarrow> 'a option \<Rightarrow> 'a reply" where
  "reply_found m x = (case x of None \<Rightarrow> Failure 404 m | Some a \<Rightarrow> Reply 200 a)"

definition get_user_route :: "id \<Rightarrow> gateway_state \<Rightarrow> user_response reply res" where
  "get_user_route external g = bindE (get_gateway_user external g) (\<lambda>u. Inr (reply_found ''USER_NOT_FOUND'' u))"

definition get_balance_route :: "id \<Rightarrow> gateway_state \<Rightarrow> string reply" where
  "get_balance_route external g = reply_found ''USER_NOT_FOUND'' (get_user_balance external g)"

definition get_withdrawal_route :: "string \<Rightarrow> gateway_state \<Rightarrow> payout_response reply" where
  "get_withdrawal_route x g = reply_found ''WITHDRAWAL_NOT_FOUND'' (get_withdrawal x g)"

end
