(* ===== verification/GatewayPayouts.thy ===== *)
theory GatewayPayouts
  imports GatewayAccounts
begin

text \<open>
  The payouts of the gateway, \<^verbatim>\<open>signer/payout-engine.ts\<close> and \<^verbatim>\<open>signer/signer.ts\<close>. Between two database
  statements of \<open>processPayout\<close> the engine waits for the chain, and other workers may run. So the
  function is a small machine: \<open>payout_worker\<close> is what one call remembers, \<open>payout_step\<close> is what it
  does up to its next database statement or request, and \<open>process_payout\<close> runs one worker to its
  end. The answers of the chain are the record \<open>tron_node\<close>.
\<close>

section \<open>The chain\<close>

text \<open>A request answers or throws, an \<open>Error\<close> with a message or something else.\<close>

type_synonym 'a answer = "string option + 'a"

record tx_log =
  lo_address :: string
  lo_topics :: "string list"
  lo_data :: string

record tx_info =
  tx_info_id :: string
  tx_info_block :: "int option"
  tx_info_receipt :: "string option"
  tx_info_logs :: "tx_log list"

text \<open>
  \<open>tn_trigger\<close> builds a transfer to an address (\<open>None\<close>: the node refuses), \<open>tn_sign\<close> signs it,
  \<open>tn_info\<close>, \<open>tn_block\<close> and \<open>tn_confirmed\<close> read the chain, \<open>tn_send\<close> broadcasts, \<open>tn_hex\<close> is
  \<open>TronWeb.address.toHex\<close>.
\<close>

record tron_node =
  tn_trigger :: "string \<Rightarrow> string \<Rightarrow> string \<Rightarrow> string \<Rightarrow> string option answer"
  tn_sign :: "string \<Rightarrow> signed_tx answer"
  tn_info :: "string \<Rightarrow> tx_info option answer"
  tn_block :: "int answer"
  tn_confirmed :: "string \<Rightarrow> string option answer"
  tn_send :: "signed_tx \<Rightarrow> unit answer"
  tn_hex :: "string \<Rightarrow> string"

definition transfer_topic :: string where
  "transfer_topic = ''ddf252ad1be2c89b69c2b068fc378daa952ba7f163c4a11628f55a4df523b3ef''"

definition address_hex :: "tron_node \<Rightarrow> string \<Rightarrow> string" where
  "address_hex node a =
     (let h = tn_hex node a in to_lower (if prefix ''41'' h then drop 2 h else h))"

definition hex_digit :: "char \<Rightarrow> int" where
  "hex_digit c = (let n = of_char c :: nat in
     int (if n \<le> 57 then n - 48 else if n \<le> 70 then n - 55 else n - 87))"

definition hex_value :: "string \<Rightarrow> int" where
  "hex_value = foldl (\<lambda>n c. 16 * n + hex_digit c) 0"

text \<open>\<open>slice(-40)\<close>\<close>

definition last_chars :: "nat \<Rightarrow> string \<Rightarrow> string" where
  "last_chars n s = drop (length s - n) s"

definition topic_is :: "tx_log \<Rightarrow> nat \<Rightarrow> (string \<Rightarrow> string) \<Rightarrow> string \<Rightarrow> bool" where
  "topic_is l i f s \<longleftrightarrow> i < length (lo_topics l) \<and> to_lower (f (lo_topics l ! i)) = s"

text \<open>\<open>info.log?.some(...)\<close>; \<open>BigInt('0x' + data)\<close> throws unless the data are hexadecimal digits.\<close>

fun transfer_logged :: "gateway_config \<Rightarrow> tron_node \<Rightarrow> payout \<Rightarrow> tx_log list \<Rightarrow> bool answer" where
  "transfer_logged c node p [] = Inr False"
| "transfer_logged c node p (l # ls) =
     (if to_lower (lo_address l) = address_hex node (gc_usdt_contract c)
         \<and> topic_is l 0 id transfer_topic
         \<and> topic_is l 1 (last_chars 40) (address_hex node (gc_hot_wallet c))
         \<and> topic_is l 2 (last_chars 40) (address_hex node (po_to p))
      then if lo_data l = [] \<or> \<not> list_all is_hex (lo_data l)
           then Inl (Some (''Cannot convert 0x'' @ lo_data l @ '' to a BigInt''))
           else if hex_value (lo_data l) = po_amount p then Inr True
           else transfer_logged c node p ls
      else transfer_logged c node p ls)"

section \<open>What one call remembers\<close>

text \<open>
  Each constructor is a place of the function where it waits: before the claim, before the read,
  in the transaction that ends the payout, before building, before the signed transaction is
  stored, before the chain is asked, before the broadcast, in the \<open>catch\<close> and in the \<open>finally\<close>
  block. The number is the lease the call took, the payout is the row as it was read.
\<close>

datatype payout_worker =
    W_claim id
  | W_read id int
  | W_terminal id int payout "string option"
  | W_build id int payout
  | W_persist id int payout signed_tx
  | W_query id int payout "signed_tx option"
  | W_send id int signed_tx
  | W_catch id int string
  | W_release id int
  | W_done
  | W_thrown error

definition lease_time :: int where
  "lease_time = 120000"

section \<open>The database statements\<close>

definition claim_payout :: "int \<Rightarrow> id \<Rightarrow> gateway_state \<Rightarrow> bool \<times> gateway_state" where
  "claim_payout now i g =
     (let (count, t) = update_many
            (\<lambda>k p. k = i \<and> is_open_payout p \<and> (case po_lease p of None \<Rightarrow> True | Some l \<Rightarrow> l \<le> now))
            (\<lambda>p. p\<lparr>po_lease := Some (now + lease_time), po_updated_at := now\<rparr>) (g_payouts g)
      in (count = 1, g\<lparr>g_payouts := t\<rparr>))"

text \<open>\<open>terminal\<close>: \<open>reason\<close> is missing when the payout is paid; a reason that is \<open>undefined\<close> leaves the
  column as it is.\<close>

definition paid_event_id :: "id \<Rightarrow> string" where
  "paid_event_id i = ''paid:'' @ i"

definition failed_event_id :: "id \<Rightarrow> string" where
  "failed_event_id i = ''failed:'' @ i"

definition terminal_event :: "id \<Rightarrow> payout \<Rightarrow> string option \<Rightarrow> gateway_event" where
  "terminal_event i p reason =
     (case reason of
        None \<Rightarrow> Ev_withdrawal_paid (paid_event_id i) i (po_external p) (po_user p) (the (po_tx_hash p))
                  (show_int (po_amount p)) (show_int (po_fee p))
      | Some r \<Rightarrow> Ev_withdrawal_failed (failed_event_id i) i (po_external p) (po_user p) r)"

definition terminal_tx :: "int \<Rightarrow> id \<Rightarrow> payout \<Rightarrow> string option \<Rightarrow> gateway_state \<Rightarrow> gateway_state res" where
  "terminal_tx now i p reason g =
     (let (count, t) = update_many (\<lambda>k v. k = i \<and> is_open_payout v)
            (\<lambda>v. v\<lparr>po_status := (if reason = None then PO_paid else PO_failed),
                   po_fail := (case reason of None \<Rightarrow> po_fail v | Some r \<Rightarrow> Some r),
                   po_lease := None, po_updated_at := now\<rparr>) (g_payouts g);
          g = g\<lparr>g_payouts := t\<rparr>
      in if count \<noteq> 1 then Inr g
         else bindE (if reason \<noteq> None \<and> po_source p = Gateway_balance
                     then bindE (update_row (po_user p)
                            (\<lambda>u. u\<lparr>gu_balance := gu_balance u + (po_amount p + po_fee p)\<rparr>) (g_users g))
                          (\<lambda>us. Inr (g\<lparr>g_users := us\<rparr>))
                     else Inr g)
                (\<lambda>g. Inr (enqueue_webhook now (terminal_event i p reason) g)))"

text \<open>The claim of the transaction identifier: it is unique, and it is written at most once.\<close>

definition persist_signed :: "int \<Rightarrow> id \<Rightarrow> signed_tx \<Rightarrow> gateway_state \<Rightarrow> (bool \<times> gateway_state) res" where
  "persist_signed now i s g =
     (let p = (\<lambda>k v. k = i \<and> po_tx_hash v = None \<and> (case po_lease v of None \<Rightarrow> False | Some l \<Rightarrow> now < l));
          (count, t) = update_many p
            (\<lambda>v. v\<lparr>po_status := PO_processing, po_signed := Some s, po_tx_hash := Some (tx_id s),
                   po_updated_at := now\<rparr>) (g_payouts g)
      in if count = 1 \<and> (\<exists>(k, v) \<in> set (g_payouts g). po_tx_hash v = Some (tx_id s)) then Inl UniqueViolation
         else Inr (count = 1, g\<lparr>g_payouts := t\<rparr>))"

definition note_failure :: "int \<Rightarrow> id \<Rightarrow> string \<Rightarrow> gateway_state \<Rightarrow> gateway_state" where
  "note_failure now i m g = g\<lparr>g_payouts := snd (update_many (\<lambda>k v. k = i \<and> is_open_payout v)
     (\<lambda>v. v\<lparr>po_fail := Some (take 500 m), po_updated_at := now\<rparr>) (g_payouts g))\<rparr>"

definition release_lease :: "int \<Rightarrow> id \<Rightarrow> int \<Rightarrow> gateway_state \<Rightarrow> gateway_state" where
  "release_lease now i l g = g\<lparr>g_payouts := snd (update_many (\<lambda>k v. k = i \<and> po_lease v = Some l)
     (\<lambda>v. v\<lparr>po_lease := None, po_updated_at := now\<rparr>) (g_payouts g))\<rparr>"

section \<open>The decisions between them\<close>

text \<open>What the \<open>catch\<close> block stores for something thrown.\<close>

definition thrown_text :: "string option \<Rightarrow> string" where
  "thrown_text x = (case x of Some m \<Rightarrow> m | None \<Rightarrow> ''PAYOUT_RECONCILIATION_PENDING'')"

definition after_read :: "gateway_config \<Rightarrow> id \<Rightarrow> int \<Rightarrow> payout \<Rightarrow> payout_worker" where
  "after_read c i l p =
     (if po_status p = PO_pending \<and> gc_max_withdrawal c < po_amount p
      then W_terminal i l p (Some ''AMOUNT_EXCEEDS_LIMIT'')
      else if po_fail p = Some ''LEGACY_UNKNOWN_RESULT'' \<and> \<not> filled (po_tx_hash p) then W_release i l
      else if po_signed p = None \<and> \<not> filled (po_tx_hash p) then W_build i l p
      else W_query i l p (po_signed p))"

definition build_payout :: "gateway_config \<Rightarrow> tron_node \<Rightarrow> id \<Rightarrow> int \<Rightarrow> payout \<Rightarrow> payout_worker" where
  "build_payout c node i l p =
     (case tn_trigger node (gc_usdt_contract c) (po_to p) (show_int (po_amount p)) (gc_hot_wallet c) of
        Inl x \<Rightarrow> W_catch i l (thrown_text x)
      | Inr None \<Rightarrow> W_catch i l ''Unable to build payout''
      | Inr (Some raw) \<Rightarrow>
          (case tn_sign node raw of
             Inl x \<Rightarrow> W_catch i l (thrown_text x)
           | Inr s \<Rightarrow> W_persist i l p s))"

definition maybe_send :: "int \<Rightarrow> id \<Rightarrow> int \<Rightarrow> signed_tx option \<Rightarrow> payout_worker" where
  "maybe_send now i l s =
     (case s of None \<Rightarrow> W_release i l
      | Some tx \<Rightarrow> if now < tx_expiration tx then W_send i l tx else W_release i l)"

definition judge_included ::
    "gateway_config \<Rightarrow> tron_node \<Rightarrow> id \<Rightarrow> int \<Rightarrow> payout \<Rightarrow> string \<Rightarrow> int \<Rightarrow> tx_info \<Rightarrow> payout_worker" where
  "judge_included c node i l p h block info =
     (case tn_block node of
        Inl x \<Rightarrow> W_catch i l (thrown_text x)
      | Inr current \<Rightarrow>
          if (case gc_min_confirmations c of None \<Rightarrow> False | Some n \<Rightarrow> current - block + 1 < n) then W_release i l
          else case tn_confirmed node h of
            Inl x \<Rightarrow> W_catch i l (thrown_text x)
          | Inr confirmed \<Rightarrow>
              if confirmed \<noteq> Some h then W_release i l
              else if filled (tx_info_receipt info) \<and> tx_info_receipt info \<noteq> Some ''SUCCESS''
              then W_terminal i l p (Some (''CHAIN_'' @ the (tx_info_receipt info)))
              else case transfer_logged c node p (tx_info_logs info) of
                Inl x \<Rightarrow> W_catch i l (thrown_text x)
              | Inr logged \<Rightarrow>
                  if tx_info_receipt info = Some ''SUCCESS'' \<and> logged then W_terminal i l p None
                  else W_release i l)"

definition query_chain ::
    "gateway_config \<Rightarrow> tron_node \<Rightarrow> int \<Rightarrow> id \<Rightarrow> int \<Rightarrow> payout \<Rightarrow> signed_tx option \<Rightarrow> payout_worker" where
  "query_chain c node now i l p s =
     (let h = the (po_tx_hash p) in
      case tn_info node h of
        Inl x \<Rightarrow> W_catch i l (thrown_text x)
      | Inr info \<Rightarrow>
          (case info of
             None \<Rightarrow> maybe_send now i l s
           | Some v \<Rightarrow>
               (case tx_info_block v of
                  None \<Rightarrow> maybe_send now i l s
                | Some b \<Rightarrow>
                    if tx_info_id v = h then judge_included c node i l p h b v else maybe_send now i l s)))"

section \<open>One step of a call\<close>

fun payout_step ::
    "gateway_config \<Rightarrow> tron_node \<Rightarrow> int \<Rightarrow> payout_worker \<Rightarrow> gateway_state
       \<Rightarrow> payout_worker \<times> gateway_state \<times> (id \<times> signed_tx) list" where
  "payout_step c node now (W_claim i) g =
     (let (won, g) = claim_payout now i g in (if won then W_read i (now + lease_time) else W_done, g, []))"
| "payout_step c node now (W_read i l) g =
     (case row (g_payouts g) i of
        None \<Rightarrow> (W_thrown RecordNotFound, g, [])
      | Some p \<Rightarrow> (after_read c i l p, g, []))"
| "payout_step c node now (W_terminal i l p reason) g =
     (case terminal_tx now i p reason g of
        Inl e \<Rightarrow> (W_catch i l (message_of e), g, [])
      | Inr g' \<Rightarrow> (W_release i l, g', []))"
| "payout_step c node now (W_build i l p) g = (build_payout c node i l p, g, [])"
| "payout_step c node now (W_persist i l p s) g =
     (case persist_signed now i s g of
        Inl e \<Rightarrow> (W_catch i l (message_of e), g, [])
      | Inr (False, g') \<Rightarrow> (W_release i l, g', [])
      | Inr (True, g') \<Rightarrow> (W_query i l (p\<lparr>po_tx_hash := Some (tx_id s)\<rparr>) (Some s), g', []))"
| "payout_step c node now (W_query i l p s) g = (query_chain c node now i l p s, g, [])"
| "payout_step c node now (W_send i l s) g =
     (case tn_send node s of
        Inl x \<Rightarrow> (W_catch i l (thrown_text x), g, [(i, s)])
      | Inr _ \<Rightarrow> (W_release i l, g, [(i, s)]))"
| "payout_step c node now (W_catch i l m) g = (W_release i l, note_failure now i m g, [])"
| "payout_step c node now (W_release i l) g = (W_done, release_lease now i l g, [])"
| "payout_step c node now W_done g = (W_done, g, [])"
| "payout_step c node now (W_thrown e) g = (W_thrown e, g, [])"

text \<open>How many steps a call still has at most.\<close>

fun payout_rank :: "payout_worker \<Rightarrow> nat" where
  "payout_rank (W_claim i) = 9"
| "payout_rank (W_read i l) = 8"
| "payout_rank (W_build i l p) = 7"
| "payout_rank (W_persist i l p s) = 6"
| "payout_rank (W_query i l p s) = 5"
| "payout_rank (W_terminal i l p r) = 4"
| "payout_rank (W_send i l s) = 4"
| "payout_rank (W_catch i l m) = 3"
| "payout_rank (W_release i l) = 2"
| "payout_rank W_done = 0"
| "payout_rank (W_thrown e) = 0"

fun finished :: "payout_worker \<Rightarrow> bool" where
  "finished W_done = True"
| "finished (W_thrown e) = True"
| "finished _ = False"

lemma maybe_send_rank: "payout_rank (maybe_send now i l s) < 5"
  by (auto simp: maybe_send_def split: option.splits)

lemma judge_included_rank: "payout_rank (judge_included c node i l p h b v) < 5"
  by (auto simp: judge_included_def split: sum.splits option.splits)

lemma payout_step_rank:
  "\<not> finished w \<Longrightarrow> payout_step c node now w g = (w', g', sent) \<Longrightarrow> payout_rank w' < payout_rank w"
  by (cases w)
     (auto simp: Let_def after_read_def build_payout_def query_chain_def maybe_send_rank judge_included_rank
           split: prod.splits option.splits sum.splits bool.splits if_splits)

section \<open>A whole call\<close>

function run_payout ::
    "gateway_config \<Rightarrow> tron_node \<Rightarrow> (nat \<Rightarrow> int) \<Rightarrow> payout_worker \<Rightarrow> gateway_state
       \<Rightarrow> unit res \<times> gateway_state \<times> (id \<times> signed_tx) list" where
  "run_payout c node clock w g =
     (if finished w then ((case w of W_thrown e \<Rightarrow> Inl e | _ \<Rightarrow> Inr ()), g, [])
      else let (w', g', sent) = payout_step c node (clock 0) w g;
               (r, g'', sent') = run_payout c node (\<lambda>n. clock (Suc n)) w' g'
           in (r, g'', sent @ sent'))"
  by pat_completeness auto

termination run_payout
  by (relation "measure (\<lambda>(c, node, clock, w, g). payout_rank w)") (auto dest: payout_step_rank sym)

declare run_payout.simps [simp del]

definition process_payout ::
    "gateway_config \<Rightarrow> tron_node \<Rightarrow> (nat \<Rightarrow> int) \<Rightarrow> id \<Rightarrow> gateway_state
       \<Rightarrow> unit res \<times> gateway_state \<times> (id \<times> signed_tx) list" where
  "process_payout c node clock i g = run_payout c node clock (W_claim i) g"

section \<open>A tick of the signer\<close>

definition signer_rows :: "gateway_state \<Rightarrow> id list" where
  "signer_rows g =
     List.map fst (take 10 (sort_key (po_updated_at \<circ> snd) (filter (\<lambda>(k, p). is_open_payout p) (g_payouts g))))"

fun process_payouts ::
    "gateway_config \<Rightarrow> (id \<Rightarrow> tron_node \<times> (nat \<Rightarrow> int)) \<Rightarrow> id list \<Rightarrow> gateway_state
       \<Rightarrow> unit res \<times> gateway_state \<times> (id \<times> signed_tx) list" where
  "process_payouts c chain [] g = (Inr (), g, [])"
| "process_payouts c chain (i # is) g =
     (let (node, clock) = chain i in
      case process_payout c node clock i g of
        (Inl e, g, sent) \<Rightarrow> (Inl e, g, sent)
      | (Inr _, g, sent) \<Rightarrow> (let (r, g, sent') = process_payouts c chain is g in (r, g, sent @ sent')))"

text \<open>
  \<open>derive_key\<close> and \<open>address_of_key\<close> are the key derivation and the address of a private key. A tick
  that finds another one running in the same process does nothing.
\<close>

definition signer_tick ::
    "bool \<Rightarrow> world \<Rightarrow> (string \<Rightarrow> int \<Rightarrow> string res) \<Rightarrow> (string \<Rightarrow> string option) \<Rightarrow> postman \<Rightarrow> int
       \<Rightarrow> (id \<Rightarrow> tron_node \<times> (nat \<Rightarrow> int)) \<Rightarrow> gateway_state \<Rightarrow> unit res \<times> gateway_state \<times> (id \<times> signed_tx) list" where
  "signer_tick running w derive_key address_of_key post now chain g =
     (if running then (Inr (), g, [])
      else case bindE (load_config w) (\<lambda>c.
             if gc_mnemonic c = [] \<or> gc_hot_wallet c = []
             then Inl (PlainError ''Signer wallet configuration required'')
             else bindE (derive_key (gc_mnemonic c) 0) (\<lambda>key.
               if address_of_key key \<noteq> Some (gc_hot_wallet c)
               then Inl (PlainError ''Signer address does not match configured hot wallet'')
               else Inr c)) of
             Inl e \<Rightarrow> (Inl e, g, [])
           | Inr c \<Rightarrow>
               (case flush_webhook_queue now post g of
                  (Inl e, g, _) \<Rightarrow> (Inl e, g, [])
                | (Inr _, g, _) \<Rightarrow> process_payouts c chain (signer_rows g) g))"

end
