(* ===== verification/GatewayScanner.thy ===== *)
theory GatewayScanner
  imports GatewayOutbox
begin

text \<open>
  The deposit scanner of the gateway, \<^verbatim>\<open>scanner/scanner-logic.ts\<close>, and what \<^verbatim>\<open>scanner/trongrid.ts\<close> makes
  of TronGrid's answers. The client is the record \<open>tron_grid\<close>: each of its functions answers or
  throws, and the theorems hold for every client.
\<close>

section \<open>The TronGrid client\<close>

record transfer =
  tr_hash :: string
  tr_to :: string
  tr_from :: string
  tr_amount :: int
  tr_block :: int
  tr_confirmations :: int

text \<open>
  \<open>TronGridClient\<close>. The block number is read twice in a tick and may have grown in between.
\<close>

record tron_grid =
  tg_latest :: "int res"
  tg_latest_again :: "int res"
  tg_transfers :: "int \<Rightarrow> int \<Rightarrow> string \<Rightarrow> transfer list res"
  tg_confirmations :: "string \<Rightarrow> int \<Rightarrow> int res"

text \<open>One event of the answer; an absent field is \<open>None\<close>, a value is read by \<open>BigInt\<close>.\<close>

record chain_event =
  ce_tx :: "string option"
  ce_block :: "int option"
  ce_to :: "string option"
  ce_from :: "string option"
  ce_value :: "string option"

definition transfer_of_event :: "world \<Rightarrow> int \<Rightarrow> chain_event \<Rightarrow> transfer res" where
  "transfer_of_event w latest ev =
     (let block = (case ce_block ev of None \<Rightarrow> 0 | Some b \<Rightarrow> b) in
      case js_bigint w (the (ce_value ev)) of
        None \<Rightarrow> Inl (PlainError (''Cannot convert '' @ the (ce_value ev) @ '' to a BigInt''))
      | Some v \<Rightarrow> Inr \<lparr>tr_hash = the (ce_tx ev), tr_to = the (ce_to ev),
          tr_from = (case ce_from ev of None \<Rightarrow> [] | Some f \<Rightarrow> f), tr_amount = v, tr_block = block,
          tr_confirmations = latest - block + 1\<rparr>)"

fun each_transfer :: "world \<Rightarrow> int \<Rightarrow> chain_event list \<Rightarrow> transfer list res" where
  "each_transfer w latest [] = Inr []"
| "each_transfer w latest (ev # evs) =
     bindE (transfer_of_event w latest ev) (\<lambda>t. bindE (each_transfer w latest evs) (\<lambda>ts. Inr (t # ts)))"

definition transfers_of_events :: "world \<Rightarrow> int \<Rightarrow> chain_event list \<Rightarrow> transfer list res" where
  "transfers_of_events w latest evs =
     each_transfer w latest
       (filter (\<lambda>ev. filled (ce_tx ev) \<and> filled (ce_to ev) \<and> filled (ce_value ev)) evs)"

text \<open>
  The pages of an answer. \<open>fetch\<close> requests a path and answers with the events of the page and the
  link to the next one; \<open>resolve\<close> is \<open>new URL(next, baseUrl)\<close>: the origin of the link and its path
  with the query.
\<close>

partial_function (option) collect_pages ::
    "(string \<Rightarrow> (chain_event list \<times> string option) res) \<Rightarrow> (string \<Rightarrow> (string \<times> string) res) \<Rightarrow> string
      \<Rightarrow> string list \<Rightarrow> string \<Rightarrow> chain_event list \<Rightarrow> chain_event list res option" where
  [code]: "collect_pages fetch resolve origin seen path found =
     (if path \<in> set seen then Some (Inl (PlainError ''TronGrid pagination cycle''))
      else case fetch path of
        Inl e \<Rightarrow> Some (Inl e)
      | Inr (evs, next_link) \<Rightarrow>
          (if \<not> filled next_link then Some (Inr (found @ evs))
           else case resolve (the next_link) of
             Inl e \<Rightarrow> Some (Inl e)
           | Inr (o', p) \<Rightarrow>
               if o' \<noteq> origin then Some (Inl (PlainError ''Invalid pagination origin''))
               else if p = [] then Some (Inr (found @ evs))
               else collect_pages fetch resolve origin (path # seen) p (found @ evs)))"

text \<open>\<open>getTransactionConfirmations\<close>: a transaction without a block has none.\<close>

definition confirmations_of_block :: "int option \<Rightarrow> int \<Rightarrow> int" where
  "confirmations_of_block b latest =
     (case b of None \<Rightarrow> 0 | Some n \<Rightarrow> if n = 0 then 0 else latest - n + 1)"

text \<open>\<open>createMockTronGridClient\<close>\<close>

definition mock_tron_grid :: "transfer list \<Rightarrow> int \<Rightarrow> tron_grid" where
  "mock_tron_grid ts latest =
     \<lparr>tg_latest = Inr latest, tg_latest_again = Inr latest,
      tg_transfers = (\<lambda>lo hi to. Inr (filter (\<lambda>t. \<not> (tr_block t < lo \<or> hi < tr_block t)
          \<and> \<not> (to \<noteq> [] \<and> tr_to t \<noteq> to)) ts)),
      tg_confirmations = (\<lambda>h n. case find (\<lambda>t. tr_hash t = h) ts of
          None \<Rightarrow> Inr 0 | Some t \<Rightarrow> Inr (n - tr_block t + 1))\<rparr>"

section \<open>Crediting a payment\<close>

definition deposit_event_id :: "string \<Rightarrow> string" where
  "deposit_event_id h = ''dep:'' @ h"

definition credit_event :: "int \<Rightarrow> string \<Rightarrow> chain_payment \<Rightarrow> gateway_event" where
  "credit_event now h p =
     Ev_deposit_credited (deposit_event_id h) (cp_user p) h (show_int (cp_amount p)) (cp_address p)
       (iso_string now)"

text \<open>The transaction; \<open>p\<close> is the payment as it was read before.\<close>

definition credit_tx :: "int \<Rightarrow> string \<Rightarrow> chain_payment \<Rightarrow> gateway_state \<Rightarrow> gateway_state res" where
  "credit_tx now h p g =
     (let (count, t) = update_many (\<lambda>k v. k = h \<and> cp_status v = CP_held)
            (\<lambda>v. v\<lparr>cp_status := CP_credited, cp_credited_at := Some now,
                   cp_event := Some (deposit_event_id h)\<rparr>) (g_payments g)
      in if count \<noteq> 1 then Inr (g\<lparr>g_payments := t\<rparr>)
         else bindE (update_row (cp_user p) (\<lambda>u. u\<lparr>gu_balance := gu_balance u + cp_amount p\<rparr>) (g_users g))
           (\<lambda>us. Inr (enqueue_webhook now (credit_event now h p) (g\<lparr>g_payments := t, g_users := us\<rparr>))))"

definition credit_payment :: "int \<Rightarrow> string \<Rightarrow> gateway_state \<Rightarrow> gateway_state res" where
  "credit_payment now h g =
     (case row (g_payments g) h of
        None \<Rightarrow> Inr g
      | Some p \<Rightarrow> if cp_status p \<noteq> CP_held then Inr g else credit_tx now h p g)"

section \<open>Transfers found on the chain\<close>

definition user_at :: "string \<Rightarrow> gateway_state \<Rightarrow> (id \<times> gateway_user) option" where
  "user_at address g = find (\<lambda>(k, u). gu_address u = address) (g_users g)"

definition detect_transfer :: "gateway_config \<Rightarrow> int \<Rightarrow> transfer \<Rightarrow> gateway_state \<Rightarrow> nat res \<times> gateway_state" where
  "detect_transfer c now t g =
     (case user_at (tr_to t) g of
        None \<Rightarrow> (Inr 0, g)
      | Some (u, _) \<Rightarrow>
          if tr_amount t < gc_min_deposit c then (Inr 0, g)
          else if row (g_payments g) (tr_hash t) \<noteq> None then (Inr 0, g)
          else (Inr 1, g\<lparr>g_payments := insert_row (tr_hash t)
            \<lparr>cp_user = u, cp_address = tr_to t, cp_amount = tr_amount t,
             cp_confirmations = tr_confirmations t, cp_status = CP_detected, cp_block = tr_block t,
             cp_credited_at = None, cp_event = None, cp_created_at = now\<rparr> (g_payments g)\<rparr>))"

definition process_detected_transfers ::
    "gateway_config \<Rightarrow> int \<Rightarrow> transfer list \<Rightarrow> gateway_state \<Rightarrow> nat res \<times> gateway_state" where
  "process_detected_transfers c now = count_each (detect_transfer c now)"

section \<open>Confirmations\<close>

text \<open>A committed statement or transaction whose error ends the loop around it.\<close>

definition committed :: "nat \<Rightarrow> gateway_state res \<Rightarrow> gateway_state \<Rightarrow> nat res \<times> gateway_state" where
  "committed n r g = (case r of Inl e \<Rightarrow> (Inl e, g) | Inr g' \<Rightarrow> (Inr n, g'))"

definition set_payment ::
    "string \<Rightarrow> (chain_payment \<Rightarrow> chain_payment) \<Rightarrow> gateway_state \<Rightarrow> gateway_state res" where
  "set_payment h f g = bindE (update_row h f (g_payments g)) (\<lambda>t. Inr (g\<lparr>g_payments := t\<rparr>))"

definition advance_payment ::
    "gateway_config \<Rightarrow> tron_grid \<Rightarrow> int \<Rightarrow> int \<Rightarrow> string \<times> chain_payment \<Rightarrow> gateway_state \<Rightarrow> nat res \<times> gateway_state" where
  "advance_payment c tg now latest = (\<lambda>(h, p) g.
     case tg_confirmations tg h latest of
       Inl e \<Rightarrow> (Inl e, g)
     | Inr n \<Rightarrow>
         and_then (if n \<noteq> cp_confirmations p
                   then committed 0 (set_payment h (\<lambda>v. v\<lparr>cp_confirmations := n\<rparr>) g) g else (Inr 0, g))
         (\<lambda>_ g. case next_payment_status (cp_status p) n (gc_min_confirmations c) of
            None \<Rightarrow> (Inr 0, g)
          | Some s \<Rightarrow>
              if s = CP_credited \<and> enough_confirmations (gc_min_confirmations c) n
              then committed 1 (credit_payment now h g) g
              else if s = CP_held
              then and_then (committed 0 (set_payment h (\<lambda>v. v\<lparr>cp_status := CP_held\<rparr>) g) g)
                     (\<lambda>_ g. committed 1 (credit_payment now h g) g)
              else (Inr 0, g)))"

definition pending_payments :: "gateway_state \<Rightarrow> (string \<times> chain_payment) list" where
  "pending_payments g = take 200 (filter (\<lambda>(h, p). cp_status p \<in> {CP_detected, CP_held}) (g_payments g))"

definition advance_payment_confirmations ::
    "gateway_config \<Rightarrow> tron_grid \<Rightarrow> int \<Rightarrow> gateway_state \<Rightarrow> nat res \<times> gateway_state" where
  "advance_payment_confirmations c tg now g =
     (case tg_latest_again tg of
        Inl e \<Rightarrow> (Inl e, g)
      | Inr latest \<Rightarrow> count_each (advance_payment c tg now latest) (pending_payments g) g)"

section \<open>A tick\<close>

definition get_checkpoint :: "gateway_state \<Rightarrow> int \<times> gateway_state" where
  "get_checkpoint g = (case g_last_block g of Some b \<Rightarrow> (b, g) | None \<Rightarrow> (0, g\<lparr>g_last_block := Some 0\<rparr>))"

definition set_checkpoint :: "int \<Rightarrow> gateway_state \<Rightarrow> gateway_state" where
  "set_checkpoint b g = g\<lparr>g_last_block := Some b\<rparr>"

record tick_report =
  ti_scanned :: int
  ti_detected :: nat
  ti_advanced :: nat

definition scan_address ::
    "gateway_config \<Rightarrow> tron_grid \<Rightarrow> int \<Rightarrow> int \<Rightarrow> int \<Rightarrow> string \<Rightarrow> gateway_state \<Rightarrow> nat res \<times> gateway_state" where
  "scan_address c tg now from_block latest address g =
     (case tg_transfers tg from_block latest address of
        Inl e \<Rightarrow> (Inl e, g)
      | Inr ts \<Rightarrow> process_detected_transfers c now ts g)"

definition addresses :: "gateway_state \<Rightarrow> string list" where
  "addresses g = List.map (gu_address \<circ> snd) (g_users g)"

definition scanner_tick_locked ::
    "gateway_config \<Rightarrow> tron_grid \<Rightarrow> int \<Rightarrow> gateway_state \<Rightarrow> tick_report res \<times> gateway_state" where
  "scanner_tick_locked c tg now g =
     (case tg_latest tg of
        Inl e \<Rightarrow> (Inl e, g)
      | Inr latest \<Rightarrow>
          let (checkpoint, g) = get_checkpoint g;
              from_block = (if 0 < checkpoint then checkpoint + 1 else latest - 20)
          in if latest < from_block
             then and_then (advance_payment_confirmations c tg now g) (\<lambda>n g.
                    (Inr \<lparr>ti_scanned = 0, ti_detected = 0, ti_advanced = n\<rparr>, g))
             else and_then (count_each (scan_address c tg now from_block latest) (addresses g) g) (\<lambda>detected g.
                  and_then (advance_payment_confirmations c tg now (set_checkpoint latest g)) (\<lambda>n g.
                    (Inr \<lparr>ti_scanned = latest - from_block + 1, ti_detected = detected, ti_advanced = n\<rparr>, g))))"

text \<open>\<open>withScannerLock\<close>: the tick of a scanner that does not get the lock does nothing.\<close>

definition run_scanner_tick ::
    "bool \<Rightarrow> gateway_config \<Rightarrow> tron_grid \<Rightarrow> int \<Rightarrow> gateway_state \<Rightarrow> tick_report res \<times> gateway_state" where
  "run_scanner_tick locked c tg now g =
     (if locked then scanner_tick_locked c tg now g
      else (Inr \<lparr>ti_scanned = 0, ti_detected = 0, ti_advanced = 0\<rparr>, g))"

text \<open>\<^verbatim>\<open>scanner/scanner.ts\<close>: a tick of the scanner process posts the due events first.\<close>

definition scanner_process_tick ::
    "bool \<Rightarrow> gateway_config \<Rightarrow> tron_grid \<Rightarrow> postman \<Rightarrow> int \<Rightarrow> gateway_state \<Rightarrow> tick_report res \<times> gateway_state" where
  "scanner_process_tick locked c tg post now g =
     (case flush_webhook_queue now post g of
        (Inl e, (g, _)) \<Rightarrow> (Inl e, g)
      | (Inr _, (g, _)) \<Rightarrow> run_scanner_tick locked c tg now g)"

end
