(* ===== verification/GatewaySafety.thy ===== *)
theory GatewaySafety
  imports GatewayPayouts GatewayScanner
begin

text \<open>
  What protects a payout when workers interleave: any number of calls of \<open>processPayout\<close>, in any
  number of processes, stopped and resumed between any two statements, with any clock and any
  answers of the chain, while the API and the scanner change the same database. The only thing
  assumed of the chain is that the receipt of a transaction in a confirmed block does not change
  (\<open>honest\<close>).
\<close>

section \<open>The system\<close>

text \<open>The other calls of the gateway, each of their commits at any time.\<close>

inductive gateway_call :: "gateway_state \<Rightarrow> gateway_state \<Rightarrow> bool" where
  Register_user: "ensure_gateway_user lib mnemonic xpub now u g = (r, g') \<Longrightarrow> gateway_call g g'"
| Order_payout: "0 < ord_amount o' \<Longrightarrow> 0 \<le> ord_fee o' \<Longrightarrow> row (g_users g) (ord_user o') \<noteq> None \<Longrightarrow>
    withdrawal_tx now o' g = Inr (x, g') \<Longrightarrow> gateway_call g g'"
| Scan_chain: "0 \<le> gc_min_deposit c \<Longrightarrow> run_scanner_tick locked c tg now g = (r', g') \<Longrightarrow> gateway_call g g'"
| Lease_event: "lease_delivery now t1 e g = (b, g') \<Longrightarrow> gateway_call g g'"
| Settle_event: "finish_delivery t2 answer e d g = Inr g' \<Longrightarrow> gateway_call g g'"

definition honest :: "(string \<Rightarrow> string option) \<Rightarrow> tron_node \<Rightarrow> bool" where
  "honest outcome node \<longleftrightarrow> (\<forall>h v. tn_info node h = Inr (Some v) \<longrightarrow> tx_info_id v = h \<longrightarrow>
     tn_confirmed node h = Inr (Some h) \<longrightarrow> tx_info_receipt v = outcome h)"

record signer_system =
  sy_db :: gateway_state
  sy_workers :: "payout_worker list"
  sy_sent :: "(id \<times> signed_tx) list"

inductive signer_step :: "gateway_config \<Rightarrow> (string \<Rightarrow> string option) \<Rightarrow> signer_system \<Rightarrow> signer_system \<Rightarrow> bool"
  for c outcome where
  Start_worker: "signer_step c outcome s (s\<lparr>sy_workers := sy_workers s @ [W_claim i]\<rparr>)"
| Run_worker: "n < length (sy_workers s) \<Longrightarrow> honest outcome node \<Longrightarrow>
    payout_step c node now (sy_workers s ! n) (sy_db s) = (w', g', sent) \<Longrightarrow>
    signer_step c outcome s \<lparr>sy_db = g', sy_workers = (sy_workers s)[n := w'], sy_sent = sy_sent s @ sent\<rparr>"
| Other_call: "gateway_call (sy_db s) g' \<Longrightarrow> signer_step c outcome s (s\<lparr>sy_db := g'\<rparr>)"

definition signer_start :: "(nat \<Rightarrow> id) \<Rightarrow> signer_system" where
  "signer_start f = \<lparr>sy_db = empty_gateway f, sy_workers = [], sy_sent = []\<rparr>"

definition signer_reachable ::
    "gateway_config \<Rightarrow> (string \<Rightarrow> string option) \<Rightarrow> (nat \<Rightarrow> id) \<Rightarrow> signer_system \<Rightarrow> bool" where
  "signer_reachable c outcome f s \<longleftrightarrow> (signer_step c outcome)\<^sup>*\<^sup>* (signer_start f) s"

section \<open>How a payout may change\<close>

definition same_payout :: "payout \<Rightarrow> payout \<Rightarrow> bool" where
  "same_payout p q \<longleftrightarrow> po_user q = po_user p \<and> po_external q = po_external p \<and> po_source q = po_source p
     \<and> po_to q = po_to p \<and> po_amount q = po_amount p \<and> po_fee q = po_fee p"

definition keeps :: "payout \<Rightarrow> payout \<Rightarrow> bool" where
  "keeps p q \<longleftrightarrow> same_payout p q \<and> (po_tx_hash p \<noteq> None \<longrightarrow> po_tx_hash q = po_tx_hash p)
     \<and> (po_signed p \<noteq> None \<longrightarrow> po_signed q = po_signed p)
     \<and> (\<not> is_open_payout p \<longrightarrow> po_status q = po_status p \<and> po_fail q = po_fail p)"

definition payouts_keep :: "(id, payout) table \<Rightarrow> (id, payout) table \<Rightarrow> bool" where
  "payouts_keep t t' \<longleftrightarrow> (\<forall>i p. row t i = Some p \<longrightarrow> (\<exists>q. row t' i = Some q \<and> keeps p q))"

lemma same_payout_refl [simp]: "same_payout p p"
  by (simp add: same_payout_def)

lemma same_payout_trans: "same_payout p q \<Longrightarrow> same_payout q r \<Longrightarrow> same_payout p r"
  by (simp add: same_payout_def)

lemma keeps_refl [simp]: "keeps p p"
  by (simp add: keeps_def)

lemma keeps_same: "keeps p q \<Longrightarrow> same_payout p q"
  by (simp add: keeps_def)

lemma keeps_open: "keeps p q \<Longrightarrow> is_open_payout q \<Longrightarrow> is_open_payout p"
  by (auto simp: keeps_def is_open_payout_def)

lemma payouts_keep_refl [simp]: "payouts_keep t t"
  by (simp add: payouts_keep_def)

lemma payouts_keepD: "payouts_keep t t' \<Longrightarrow> row t i = Some p \<Longrightarrow> \<exists>q. row t' i = Some q \<and> keeps p q"
  by (simp add: payouts_keep_def)

lemma payouts_keep_update_many:
  "(\<And>i v. row t i = Some v \<Longrightarrow> p i v \<Longrightarrow> keeps v (f v)) \<Longrightarrow> payouts_keep t (snd (update_many p f t))"
  by (simp add: payouts_keep_def row_update_many)

lemma payouts_keep_insert: "row t k = None \<Longrightarrow> payouts_keep t (insert_row k v t)"
  by (auto simp: payouts_keep_def row_insert_row)

section \<open>The invariant of one payout\<close>

definition payout_ok :: "gateway_config \<Rightarrow> (string \<Rightarrow> string option) \<Rightarrow> payout \<Rightarrow> bool" where
  "payout_ok c outcome p \<longleftrightarrow>
     (po_tx_hash p = map_option tx_id (po_signed p))
     \<and> (po_status p = PO_pending \<longrightarrow> po_signed p = None)
     \<and> (po_status p = PO_processing \<longrightarrow> po_signed p \<noteq> None)
     \<and> (po_status p = PO_paid \<longrightarrow> (\<exists>x. po_signed p = Some x \<and> outcome (tx_id x) = Some ''SUCCESS''))
     \<and> (po_status p = PO_failed \<longrightarrow> (\<forall>x. po_signed p = Some x \<longrightarrow> outcome (tx_id x) \<noteq> Some ''SUCCESS''))
     \<and> (\<not> is_open_payout p \<longrightarrow> po_lease p = None)
     \<and> (po_signed p \<noteq> None \<longrightarrow> po_amount p \<le> gc_max_withdrawal c)"

definition payouts_ok :: "gateway_config \<Rightarrow> (string \<Rightarrow> string option) \<Rightarrow> (id, payout) table \<Rightarrow> bool" where
  "payouts_ok c outcome t \<longleftrightarrow> distinct (keys t) \<and> (\<forall>i p. row t i = Some p \<longrightarrow> payout_ok c outcome p)
     \<and> (\<forall>i j p q h. row t i = Some p \<longrightarrow> row t j = Some q \<longrightarrow> po_tx_hash p = Some h \<longrightarrow> po_tx_hash q = Some h \<longrightarrow> i = j)"

text \<open>What a call that waits may rely on.\<close>

fun worker_ok :: "gateway_config \<Rightarrow> (string \<Rightarrow> string option) \<Rightarrow> (id, payout) table \<Rightarrow> payout_worker \<Rightarrow> bool" where
  "worker_ok c outcome t (W_terminal i l p reason) =
     (\<exists>q. row t i = Some q \<and> same_payout p q \<and>
       (case reason of
          None \<Rightarrow> (\<exists>h. po_tx_hash q = Some h \<and> po_tx_hash p = Some h \<and> outcome h = Some ''SUCCESS'')
        | Some r \<Rightarrow> gc_max_withdrawal c < po_amount q
            \<or> (\<exists>h. po_tx_hash q = Some h \<and> outcome h \<noteq> Some ''SUCCESS'')))"
| "worker_ok c outcome t (W_build i l p) =
     (\<exists>q. row t i = Some q \<and> same_payout p q \<and> (po_amount q \<le> gc_max_withdrawal c \<or> \<not> is_open_payout q))"
| "worker_ok c outcome t (W_persist i l p s) =
     (\<exists>q. row t i = Some q \<and> same_payout p q \<and> (po_amount q \<le> gc_max_withdrawal c \<or> \<not> is_open_payout q))"
| "worker_ok c outcome t (W_query i l p s) =
     (\<exists>q h. row t i = Some q \<and> same_payout p q \<and> po_tx_hash q = Some h \<and> po_tx_hash p = Some h
       \<and> (s \<noteq> None \<longrightarrow> po_signed q = s))"
| "worker_ok c outcome t (W_send i l s) = (\<exists>q. row t i = Some q \<and> po_signed q = Some s)"
| "worker_ok c outcome t w = True"

lemma worker_ok_keep:
  assumes k: "payouts_keep t t'" and w: "worker_ok c outcome t w"
  shows "worker_ok c outcome t' w"
proof (cases w)
  case (W_terminal i l p reason)
  then obtain q where q: "row t i = Some q" "same_payout p q" using w by auto
  from payouts_keepD [OF k q(1)] obtain q' where "row t' i = Some q'" "keeps q q'" by blast
  then show ?thesis using W_terminal w q
    by (auto simp: keeps_def same_payout_def split: option.splits)
next
  case (W_build i l p)
  then obtain q where q: "row t i = Some q" "same_payout p q" "po_amount q \<le> gc_max_withdrawal c \<or> \<not> is_open_payout q"
    using w by auto
  from payouts_keepD [OF k q(1)] obtain q' where q': "row t' i = Some q'" "keeps q q'" by blast
  have "same_payout p q'" "po_amount q' = po_amount q"
    using same_payout_trans [OF q(2) keeps_same [OF q'(2)]] keeps_same [OF q'(2)] by (simp_all add: same_payout_def)
  then show ?thesis using W_build q(3) q' keeps_open [OF q'(2)] by auto
next
  case (W_persist i l p s)
  then obtain q where q: "row t i = Some q" "same_payout p q" "po_amount q \<le> gc_max_withdrawal c \<or> \<not> is_open_payout q"
    using w by auto
  from payouts_keepD [OF k q(1)] obtain q' where q': "row t' i = Some q'" "keeps q q'" by blast
  have "same_payout p q'" "po_amount q' = po_amount q"
    using same_payout_trans [OF q(2) keeps_same [OF q'(2)]] keeps_same [OF q'(2)] by (simp_all add: same_payout_def)
  then show ?thesis using W_persist q(3) q' keeps_open [OF q'(2)] by auto
next
  case (W_query i l p s)
  then obtain q where q: "row t i = Some q" using w by auto
  from payouts_keepD [OF k q] obtain q' where "row t' i = Some q'" "keeps q q'" by blast
  then show ?thesis using W_query w q by (auto simp: keeps_def same_payout_def)
next
  case (W_send i l s)
  then obtain q where q: "row t i = Some q" using w by auto
  from payouts_keepD [OF k q] obtain q' where "row t' i = Some q'" "keeps q q'" by blast
  then show ?thesis using W_send w q by (auto simp: keeps_def)
qed auto

section \<open>The statements keep it\<close>

lemma payouts_okD: "payouts_ok c outcome t \<Longrightarrow> row t i = Some p \<Longrightarrow> payout_ok c outcome p"
  by (simp add: payouts_ok_def)

lemma payouts_ok_update_many:
  assumes ok: "payouts_ok c outcome t"
    and f: "\<And>i v. row t i = Some v \<Longrightarrow> p i v \<Longrightarrow> payout_ok c outcome (f v) \<and> po_tx_hash (f v) = po_tx_hash v"
  shows "payouts_ok c outcome (snd (update_many p f t))"
proof -
  have r: "row (snd (update_many p f t)) i = Some q \<Longrightarrow>
      \<exists>v. row t i = Some v \<and> po_tx_hash q = po_tx_hash v \<and> payout_ok c outcome q" for i q
    using f payouts_okD [OF ok] by (fastforce simp: row_update_many split: if_splits)
  have u: "row t i = Some a \<Longrightarrow> row t j = Some b \<Longrightarrow> po_tx_hash a = Some h \<Longrightarrow> po_tx_hash b = Some h \<Longrightarrow> i = j" for i j a b h
    using ok by (auto simp: payouts_ok_def)
  show ?thesis unfolding payouts_ok_def
  proof (intro conjI allI impI)
    show "distinct (keys (snd (update_many p f t)))" using ok by (simp add: payouts_ok_def)
  qed (metis r u)+
qed

lemma payout_statement:
  assumes ok: "payouts_ok c outcome t"
    and f: "\<And>i v. row t i = Some v \<Longrightarrow> p i v \<Longrightarrow> payout_ok c outcome v \<Longrightarrow>
      payout_ok c outcome (f v) \<and> keeps v (f v) \<and> po_tx_hash (f v) = po_tx_hash v"
  shows "payouts_ok c outcome (snd (update_many p f t)) \<and> payouts_keep t (snd (update_many p f t))"
  using f payouts_okD [OF ok] by (intro conjI payouts_ok_update_many [OF ok] payouts_keep_update_many) blast+

lemmas payout_row_simps = payout_ok_def keeps_def same_payout_def is_open_payout_def

lemma claim_payout_ok:
  assumes "claim_payout now i g = (won, g')" and "payouts_ok c outcome (g_payouts g)"
  shows "payouts_ok c outcome (g_payouts g') \<and> payouts_keep (g_payouts g) (g_payouts g')"
proof -
  let ?p = "\<lambda>k p. k = i \<and> is_open_payout p \<and> (case po_lease p of None \<Rightarrow> True | Some l \<Rightarrow> l \<le> now)"
  let ?f = "\<lambda>p. p\<lparr>po_lease := Some (now + lease_time), po_updated_at := now\<rparr>"
  have g': "g_payouts g' = snd (update_many ?p ?f (g_payouts g))"
    using assms(1) by (auto simp: claim_payout_def split: prod.splits)
  show ?thesis unfolding g' by (rule payout_statement [OF assms(2)]) (simp add: payout_row_simps)
qed

lemma note_failure_ok:
  assumes "payouts_ok c outcome (g_payouts g)"
  shows "payouts_ok c outcome (g_payouts (note_failure now i m g)) \<and> payouts_keep (g_payouts g) (g_payouts (note_failure now i m g))"
proof -
  have e: "g_payouts (note_failure now i m g) = snd (update_many (\<lambda>k v. k = i \<and> is_open_payout v)
     (\<lambda>v. v\<lparr>po_fail := Some (take 500 m), po_updated_at := now\<rparr>) (g_payouts g))" by (simp add: note_failure_def)
  show ?thesis unfolding e by (rule payout_statement [OF assms]) (simp add: payout_row_simps)
qed

lemma release_lease_ok:
  assumes "payouts_ok c outcome (g_payouts g)"
  shows "payouts_ok c outcome (g_payouts (release_lease now i l g)) \<and> payouts_keep (g_payouts g) (g_payouts (release_lease now i l g))"
proof -
  have e: "g_payouts (release_lease now i l g) = snd (update_many (\<lambda>k v. k = i \<and> po_lease v = Some l)
     (\<lambda>v. v\<lparr>po_lease := None, po_updated_at := now\<rparr>) (g_payouts g))" by (simp add: release_lease_def)
  show ?thesis unfolding e by (rule payout_statement [OF assms]) (simp add: payout_row_simps)
qed

text \<open>Ending a payout: the reason agrees with what the chain decided.\<close>

lemma terminal_tx_payouts:
  assumes "terminal_tx now i p reason g = Inr g'"
  shows "g_payouts g' = snd (update_many (\<lambda>k v. k = i \<and> is_open_payout v)
     (\<lambda>v. v\<lparr>po_status := (if reason = None then PO_paid else PO_failed),
            po_fail := (case reason of None \<Rightarrow> po_fail v | Some r \<Rightarrow> Some r),
            po_lease := None, po_updated_at := now\<rparr>) (g_payouts g))"
  using assms by (auto simp: terminal_tx_def Let_def res_simps split: prod.splits if_splits)

lemma terminal_tx_ok:
  assumes "terminal_tx now i p reason g = Inr g'" and ok: "payouts_ok c outcome (g_payouts g)"
    and w: "worker_ok c outcome (g_payouts g) (W_terminal i l p reason)"
  shows "payouts_ok c outcome (g_payouts g') \<and> payouts_keep (g_payouts g) (g_payouts g')"
  unfolding terminal_tx_payouts [OF assms(1)]
proof (rule payout_statement [OF ok], goal_cases)
  case (1 k v)
  then show ?case using w by (cases reason) (auto simp: payout_row_simps)
qed

text \<open>Storing the signed transaction: the identifier is new, and the payout had none.\<close>

lemma persist_signed_ok:
  assumes r: "persist_signed now i s g = Inr (stored, g')" and ok: "payouts_ok c outcome (g_payouts g)"
    and w: "worker_ok c outcome (g_payouts g) (W_persist i l p s)"
  shows "payouts_ok c outcome (g_payouts g') \<and> payouts_keep (g_payouts g) (g_payouts g')
    \<and> (stored \<longrightarrow> worker_ok c outcome (g_payouts g') (W_query i l (p\<lparr>po_tx_hash := Some (tx_id s)\<rparr>) (Some s)))"
proof -
  let ?t = "g_payouts g"
  let ?p = "\<lambda>k v. k = i \<and> po_tx_hash v = None \<and> (case po_lease v of None \<Rightarrow> False | Some l \<Rightarrow> now < l)"
  let ?f = "\<lambda>v. v\<lparr>po_status := PO_processing, po_signed := Some s, po_tx_hash := Some (tx_id s), po_updated_at := now\<rparr>"
  obtain q where q: "row ?t i = Some q" "same_payout p q" "po_amount q \<le> gc_max_withdrawal c \<or> \<not> is_open_payout q"
    using w by auto
  have d: "distinct (keys ?t)" using ok by (simp add: payouts_ok_def)
  have qok: "payout_ok c outcome q" by (rule payouts_okD [OF ok q(1)])
  show ?thesis
  proof (cases rule: claim_cases [OF d, where p = ?p and f = ?f and k = i, case_names key claimed lost])
    case (claimed v)
    then have v: "v = q" "?p i q" "update_many ?p ?f ?t = (1, AList.update i (?f q) ?t)" using q(1) by auto
    have new: "row ?t k = Some u \<Longrightarrow> po_tx_hash u \<noteq> Some (tx_id s)" for k u
      using r v(3) by (auto simp: persist_signed_def Let_def dest: row_Some_mem split: if_splits)
    have st: "stored" "g_payouts g' = AList.update i (?f q) ?t"
      using r v(3) by (auto simp: persist_signed_def Let_def split: if_splits)
    have open_q: "is_open_payout q" using v(2) qok by (auto simp: payout_ok_def is_open_payout_def split: option.splits)
    have fok: "payout_ok c outcome (?f q)" "keeps q (?f q)"
      using qok q(3) open_q v(2) by (auto simp: payout_row_simps)
    have "payouts_ok c outcome (AList.update i (?f q) ?t)"
      unfolding payouts_ok_def
    proof (intro conjI allI impI)
      show "distinct (keys (AList.update i (?f q) ?t))" using d q(1) by simp
    next
      fix j u assume "row (AList.update i (?f q) ?t) j = Some u"
      then show "payout_ok c outcome u" using fok(1) payouts_okD [OF ok] by (auto simp: row_update split: if_splits)
    next
      fix j k a b h
      assume "row (AList.update i (?f q) ?t) j = Some a" "row (AList.update i (?f q) ?t) k = Some b"
        "po_tx_hash a = Some h" "po_tx_hash b = Some h"
      then show "j = k" using new ok
        by (auto simp: row_update payouts_ok_def simp del: map_of_eq_Some_iff split: if_splits)
    qed
    moreover have "payouts_keep ?t (AList.update i (?f q) ?t)"
      using fok(2) q(1) by (auto simp: payouts_keep_def row_update)
    ultimately show ?thesis using st q(2) by (auto simp: row_update same_payout_def)
  next
    case lost
    then have "\<not> stored" "g_payouts g' = ?t" using r by (auto simp: persist_signed_def Let_def)
    then show ?thesis using ok by simp
  qed simp
qed

text \<open>What a call knows after the read, after building and after the chain answered.\<close>

lemma after_read_ok:
  assumes "row t i = Some p" and "payout_ok c outcome p"
  shows "worker_ok c outcome t (after_read c i l p)"
  using assms
  by (auto simp: after_read_def filled_def payout_ok_def is_open_payout_def simp del: map_of_eq_Some_iff)

lemma build_payout_ok:
  "worker_ok c outcome t (W_build i l p) \<Longrightarrow> worker_ok c outcome t (build_payout c node i l p)"
  by (simp add: build_payout_def split: sum.splits option.splits)

lemma maybe_send_ok:
  "row t i = Some q \<Longrightarrow> (s \<noteq> None \<longrightarrow> po_signed q = s) \<Longrightarrow> worker_ok c outcome t (maybe_send now i l s)"
  by (auto simp: maybe_send_def split: option.splits)

lemma judge_included_ok:
  assumes q: "row t i = Some q" "same_payout p q" "po_tx_hash q = Some h" "po_tx_hash p = Some h"
    and hon: "honest outcome node" and v: "tn_info node h = Inr (Some v)" "tx_info_id v = h"
  shows "worker_ok c outcome t (judge_included c node i l p h b v)"
proof -
  have o: "tn_confirmed node h = Inr (Some h) \<Longrightarrow> tx_info_receipt v = outcome h"
    using hon v by (simp add: honest_def)
  show ?thesis using q o
    by (auto simp: judge_included_def filled_def simp del: map_of_eq_Some_iff split: sum.splits option.splits)
qed

lemma query_chain_ok:
  assumes w: "worker_ok c outcome t (W_query i l p s)" and hon: "honest outcome node"
  shows "worker_ok c outcome t (query_chain c node now i l p s)"
proof -
  obtain q h where q: "row t i = Some q" "same_payout p q" "po_tx_hash q = Some h" "po_tx_hash p = Some h"
      "s \<noteq> None \<longrightarrow> po_signed q = s"
    using w by auto
  show ?thesis
    using maybe_send_ok [OF q(1,5)] judge_included_ok [OF q(1-4) hon]
    by (simp add: query_chain_def q(4) split: sum.split option.split)
qed

lemma payout_step_ok:
  assumes r: "payout_step c node now w g = (w', g', sent)" and ok: "payouts_ok c outcome (g_payouts g)"
    and w: "worker_ok c outcome (g_payouts g) w" and hon: "honest outcome node"
  shows "payouts_ok c outcome (g_payouts g') \<and> payouts_keep (g_payouts g) (g_payouts g')
    \<and> worker_ok c outcome (g_payouts g') w'
    \<and> (\<forall>(i, s) \<in> set sent. \<exists>q. row (g_payouts g') i = Some q \<and> po_signed q = Some s)"
proof (cases w)
  case (W_claim i)
  then show ?thesis using r claim_payout_ok [OF _ ok] by (auto split: prod.splits if_splits)
next
  case (W_read i l)
  then show ?thesis using r ok after_read_ok [OF _ payouts_okD [OF ok]]
    by (auto split: option.splits simp del: map_of_eq_Some_iff)
next
  case (W_terminal i l p reason)
  then show ?thesis using r ok w terminal_tx_ok [OF _ ok] by (auto split: sum.splits)
next
  case (W_build i l p)
  then show ?thesis using r ok w build_payout_ok by auto
next
  case (W_persist i l p s)
  then show ?thesis using r ok w persist_signed_ok [OF _ ok] by (auto split: sum.splits bool.splits)
next
  case (W_query i l p s)
  then show ?thesis using r ok w query_chain_ok [OF _ hon] by auto
next
  case (W_send i l s)
  then show ?thesis using r ok w by (auto split: sum.splits)
next
  case (W_catch i l m)
  then show ?thesis using r note_failure_ok [OF ok] by auto
next
  case (W_release i l)
  then show ?thesis using r release_lease_ok [OF ok] by auto
qed (use r ok in auto)

end
