(* ===== verification/GatewayScans.thy ===== *)
theory GatewayScans
  imports GatewayScanner
begin

text \<open>
  What a tick of the scanner keeps. The interfaces \<open>advance_contract\<close> (the confirmations) and
  \<open>scan_contract\<close> (a whole tick) list its commits; a property they keep is kept by every tick, whatever the client answers and wherever an error ends
  it. Its point is the row that is set to \<open>held\<close> without looking: no earlier step of the same tick
  changed that payment, so it is still \<open>detected\<close>.
\<close>

section \<open>Rows\<close>

lemma set_payment_cases:
  assumes "set_payment h f g = Inr g'"
  obtains p where "row (g_payments g) h = Some p" "g' = g\<lparr>g_payments := AList.update h (f p) (g_payments g)\<rparr>"
  using assms by (auto simp only: set_payment_def bindE_eq_Inr update_row_eq_Inr sum.inject)

lemma committed_cases:
  assumes "committed n r g = (x, g')"
  obtains (failed) e where "r = Inl e" "g' = g" | (kept) g'' where "r = Inr g''" "g' = g''"
  using assms by (auto simp: committed_def split: sum.splits)

text \<open>A credit that returned either found nothing to do or did all of it.\<close>

definition credited :: "int \<Rightarrow> string \<Rightarrow> chain_payment \<Rightarrow> chain_payment" where
  "credited now h p = p\<lparr>cp_status := CP_credited, cp_credited_at := Some now, cp_event := Some (deposit_event_id h)\<rparr>"

lemma credit_payment_cases:
  assumes r: "credit_payment now h g = Inr g'" and d: "distinct (keys (g_payments g))"
  obtains (nothing) "g' = g"
    | (paid_in) p u where "row (g_payments g) h = Some p" "cp_status p = CP_held" "row (g_users g) (cp_user p) = Some u"
        "g' = enqueue_webhook now (credit_event now h p)
           (g\<lparr>g_payments := AList.update h (credited now h p) (g_payments g),
              g_users := AList.update (cp_user p) (u\<lparr>gu_balance := gu_balance u + cp_amount p\<rparr>) (g_users g)\<rparr>)"
proof (cases "row (g_payments g) h")
  case None
  then show ?thesis using r that(1) by (simp add: credit_payment_def)
next
  case (Some p)
  show ?thesis
  proof (cases "cp_status p = CP_held")
    case False
    then show ?thesis using r Some that(1) by (simp add: credit_payment_def)
  next
    case True
    let ?p = "\<lambda>k v. k = h \<and> cp_status v = CP_held"
    let ?f = "\<lambda>v. v\<lparr>cp_status := CP_credited, cp_credited_at := Some now, cp_event := Some (deposit_event_id h)\<rparr>"
    have "update_many ?p ?f (g_payments g) = (1, AList.update h (?f p) (g_payments g))"
      by (rule update_many_single [OF d Some]) (use True in auto)
    then have "bindE (update_row (cp_user p) (\<lambda>u. u\<lparr>gu_balance := gu_balance u + cp_amount p\<rparr>) (g_users g))
        (\<lambda>us. Inr (enqueue_webhook now (credit_event now h p)
           (g\<lparr>g_payments := AList.update h (credited now h p) (g_payments g), g_users := us\<rparr>))) = Inr g'"
      using r Some True by (simp add: credit_payment_def credit_tx_def credited_def)
    then show ?thesis using Some True that(2)
      by (auto simp only: bindE_eq_Inr update_row_eq_Inr sum.inject)
  qed
qed

lemma credit_payment_rows:
  assumes "credit_payment now h g = Inr g'" and "distinct (keys (g_payments g))" and "k \<noteq> h"
  shows "row (g_payments g') k = row (g_payments g) k"
  using credit_payment_cases [OF assms(1,2)] by cases (use assms(3) in \<open>simp_all add: row_update\<close>)

section \<open>The contract\<close>

locale advance_contract =
  fixes P :: "gateway_state \<Rightarrow> bool"
  assumes unique: "P g \<Longrightarrow> distinct (keys (g_payments g))"
    and confirm: "row (g_payments g) h = Some p \<Longrightarrow> P g \<Longrightarrow>
          P (g\<lparr>g_payments := AList.update h (p\<lparr>cp_confirmations := n\<rparr>) (g_payments g)\<rparr>)"
    and hold: "row (g_payments g) h = Some p \<Longrightarrow> cp_status p = CP_detected \<Longrightarrow> P g \<Longrightarrow>
          P (g\<lparr>g_payments := AList.update h (p\<lparr>cp_status := CP_held\<rparr>) (g_payments g)\<rparr>)"
    and credit: "credit_payment now h g = Inr g' \<Longrightarrow> P g \<Longrightarrow> P g'"
begin

text \<open>The rows a list promises to find as they were read, as far as their status goes.\<close>

definition as_read :: "(string \<times> chain_payment) list \<Rightarrow> gateway_state \<Rightarrow> bool" where
  "as_read ps g \<longleftrightarrow> (\<forall>(h, p) \<in> set ps. \<exists>v. row (g_payments g) h = Some v \<and> cp_status v = cp_status p)"

lemma credit_step:
  assumes "committed n (credit_payment now h g) g = (r, g')" and "P g"
  shows "P g' \<and> (\<forall>k. k \<noteq> h \<longrightarrow> row (g_payments g') k = row (g_payments g) k)"
  using assms(1)
proof (cases rule: committed_cases)
  case failed
  then show ?thesis using assms(2) by simp
next
  case (kept g'')
  then show ?thesis using credit assms(2) credit_payment_rows unique by blast
qed

lemma advance_step:
  assumes r: "advance_payment c tg now latest (h, p) g = (r, g')" and P: "P g"
    and v: "row (g_payments g) h = Some v" "cp_status v = cp_status p"
  shows "P g' \<and> (\<forall>k. k \<noteq> h \<longrightarrow> row (g_payments g') k = row (g_payments g) k)"
proof (cases "tg_confirmations tg h latest")
  case (Inl e)
  then show ?thesis using r P by (simp add: advance_payment_def)
next
  case (Inr n)
  obtain g1 v1 where first: "(if n \<noteq> cp_confirmations p
       then committed 0 (set_payment h (\<lambda>v. v\<lparr>cp_confirmations := n\<rparr>) g) g else (Inr 0, g)) = (Inr 0, g1)"
    and P1: "P g1" and v1: "row (g_payments g1) h = Some v1" "cp_status v1 = cp_status p"
    and f1: "\<forall>k. k \<noteq> h \<longrightarrow> row (g_payments g1) k = row (g_payments g) k"
  proof (cases "n = cp_confirmations p")
    case True
    show ?thesis by (rule that [of g v]) (use True P v in simp_all)
  next
    case False
    have e: "set_payment h (\<lambda>v. v\<lparr>cp_confirmations := n\<rparr>) g
        = Inr (g\<lparr>g_payments := AList.update h (v\<lparr>cp_confirmations := n\<rparr>) (g_payments g)\<rparr>)"
      by (simp only: set_payment_def update_row_def v(1) option.case bindE_Inr)
    show ?thesis
      by (rule that [of "g\<lparr>g_payments := AList.update h (v\<lparr>cp_confirmations := n\<rparr>) (g_payments g)\<rparr>" "v\<lparr>cp_confirmations := n\<rparr>"])
         (use False e confirm [OF v(1) P] v(2) in \<open>simp_all add: committed_def row_update del: map_of_eq_Some_iff\<close>)
  qed
  define g2 where "g2 = g1\<lparr>g_payments := AList.update h (v1\<lparr>cp_status := CP_held\<rparr>) (g_payments g1)\<rparr>"
  have f2: "\<forall>k. k \<noteq> h \<longrightarrow> row (g_payments g2) k = row (g_payments g) k" using f1 by (simp add: g2_def row_update)
  have second: "set_payment h (\<lambda>v. v\<lparr>cp_status := CP_held\<rparr>) g1 = Inr g2"
    by (simp only: set_payment_def update_row_def v1(1) option.case bindE_Inr g2_def)
  note r' = r [unfolded advance_payment_def prod.case Inr sum.case first and_then_simps]
  consider "next_payment_status (cp_status p) n (gc_min_confirmations c) = None"
    | "next_payment_status (cp_status p) n (gc_min_confirmations c) = Some CP_held" "cp_status p = CP_detected"
    | "next_payment_status (cp_status p) n (gc_min_confirmations c) = Some CP_credited"
    by (cases "cp_status p = CP_detected"; cases "cp_status p = CP_held"; cases "enough_confirmations (gc_min_confirmations c) n")
       (simp_all add: next_payment_status_def)
  then show ?thesis
  proof cases
    case 1
    then have "g' = g1" using r' by simp
    then show ?thesis using P1 f1 by simp
  next
    case 2
    have "committed 1 (credit_payment now h g2) g2 = (r, g')"
      using r' unfolding 2(1) second by (simp add: committed_def)
    moreover have "P g2" unfolding g2_def using hold [OF v1(1) _ P1] v1(2) 2(2) by simp
    ultimately show ?thesis using credit_step [of 1 now h g2 r g'] f2 by simp
  next
    case 3
    show ?thesis
    proof (cases "enough_confirmations (gc_min_confirmations c) n")
      case True
      with 3 have "committed 1 (credit_payment now h g1) g1 = (r, g')" using r' by simp
      then show ?thesis using P1 f1 credit_step [of 1 now h g1 r g'] by simp
    next
      case False
      with 3 have "g' = g1" using r' by simp
      then show ?thesis using P1 f1 by simp
    qed
  qed
qed

lemma advance_all:
  assumes "count_each (advance_payment c tg now latest) ps g = (r, g')" and "P g"
    and "distinct (keys ps)" and "as_read ps g"
  shows "P g'"
  using assms
proof (induction ps arbitrary: g r)
  case (Cons x ps)
  obtain h p where x: "x = (h, p)" by (cases x)
  obtain v where v: "row (g_payments g) h = Some v" "cp_status v = cp_status p"
    using Cons.prems(4) x by (auto simp: as_read_def)
  from Cons.prems(1)
  have "and_then (advance_payment c tg now latest x g)
      (\<lambda>m s. and_then (count_each (advance_payment c tg now latest) ps s) (\<lambda>n s. (Inr (m + n), s))) = (r, g')" by simp
  then show ?case
  proof (cases rule: and_then_cases)
    case thrown
    then show ?thesis using advance_step [OF _ Cons.prems(2) v] x by blast
  next
    case (returned m g1)
    have s: "P g1" "\<forall>k. k \<noteq> h \<longrightarrow> row (g_payments g1) k = row (g_payments g) k"
      using advance_step [OF _ Cons.prems(2) v] returned(1) x by blast+
    have "h \<notin> set (keys ps)" using Cons.prems(3) x by simp
    have "as_read ps g1" unfolding as_read_def
    proof (clarify)
      fix k q assume m: "(k, q) \<in> set ps"
      then have "k \<noteq> h" using \<open>h \<notin> set (keys ps)\<close> by (force simp: image_iff)
      moreover obtain u where "row (g_payments g) k = Some u" "cp_status u = cp_status q"
        using Cons.prems(4) m unfolding as_read_def by auto
      ultimately show "\<exists>v. row (g_payments g1) k = Some v \<and> cp_status v = cp_status q" using s(2) by simp
    qed
    moreover obtain y where "count_each (advance_payment c tg now latest) ps g1 = (y, g')"
      using returned(2) by (cases rule: and_then_cases) auto
    moreover have "distinct (keys ps)" using Cons.prems(3) by simp
    ultimately show ?thesis using Cons.IH s(1) by blast
  qed
qed simp

lemma confirmations:
  assumes "advance_payment_confirmations c tg now g = (r, g')" and P: "P g"
  shows "P g'"
proof -
  let ?ps = "filter (\<lambda>(h, p). cp_status p \<in> {CP_detected, CP_held}) (g_payments g)"
  have d: "distinct (keys ?ps)"
    using unique [OF P] by (rule distinct_map_filter)
  have "distinct (keys (pending_payments g))"
    unfolding pending_payments_def take_map [symmetric] using d by (rule distinct_take)
  moreover have "as_read (pending_payments g) g"
    using mem_row [OF unique [OF P]] by (fastforce simp: as_read_def pending_payments_def dest: in_set_takeD)
  ultimately show ?thesis using assms advance_all
    by (auto simp: advance_payment_confirmations_def split: sum.splits)
qed

end

text \<open>The whole tick: transfers are recorded and the checkpoint moves on.\<close>

locale scan_contract = advance_contract +
  fixes c :: gateway_config
  assumes detect: "detect_transfer c now t g = (r, g') \<Longrightarrow> P g \<Longrightarrow> P g'"
    and checkpoint: "P g \<Longrightarrow> P (g\<lparr>g_last_block := b\<rparr>)"
begin

lemma scan:
  assumes "count_each (scan_address c tg now b l) as g = (r, g')" and "P g"
  shows "P g'"
proof (rule count_each_invariant [where P = P, OF _ assms])
  fix x s r' s' assume "scan_address c tg now b l x s = (r', s')" "P s"
  then show "P s'"
    using count_each_invariant [where P = P and f = "detect_transfer c now"] detect
    by (auto simp: scan_address_def process_detected_transfers_def split: sum.splits)
qed

lemma tick:
  assumes r: "run_scanner_tick locked c tg now g = (r, g')" and P: "P g"
  shows "P g'"
proof -
  obtain b g1 where cp: "get_checkpoint g = (b, g1)" by (cases "get_checkpoint g")
  have P1: "P g1" using cp checkpoint [OF P] P by (auto simp: get_checkpoint_def split: option.splits)
  show ?thesis
  proof (cases "locked \<and> (\<exists>l. tg_latest tg = Inr l)")
    case False
    then show ?thesis using r P by (auto simp: run_scanner_tick_def scanner_tick_locked_def split: sum.splits if_splits)
  next
    case True
    then obtain l where l: "tg_latest tg = Inr l" "locked" by blast
    let ?from = "if 0 < b then b + 1 else l - 20"
    have r': "scanner_tick_locked c tg now g = (r, g')" using r l(2) by (simp add: run_scanner_tick_def)
    note r' = r' [unfolded scanner_tick_locked_def l(1) sum.case cp Let_def prod.case]
    show ?thesis
    proof (cases "l < ?from")
      case True
      with r' have "and_then (advance_payment_confirmations c tg now g1)
          (\<lambda>n g. (Inr \<lparr>ti_scanned = 0, ti_detected = 0, ti_advanced = n\<rparr>, g)) = (r, g')" by simp
      then show ?thesis by (cases rule: and_then_cases) (use confirmations P1 in auto)
    next
      case False
      with r' have "and_then (count_each (scan_address c tg now ?from l) (addresses g1) g1) (\<lambda>detected g.
          and_then (advance_payment_confirmations c tg now (set_checkpoint l g)) (\<lambda>n g.
            (Inr \<lparr>ti_scanned = l - ?from + 1, ti_detected = detected, ti_advanced = n\<rparr>, g))) = (r, g')" by simp
      then show ?thesis
      proof (cases rule: and_then_cases)
        case thrown
        then show ?thesis using scan P1 by blast
      next
        case (returned d g2)
        have "P (set_checkpoint l g2)" using scan [OF returned(1) P1] checkpoint by (simp add: set_checkpoint_def)
        with returned(2) show ?thesis by (cases rule: and_then_cases) (use confirmations in auto)
      qed
    qed
  qed
qed

end

end
