(* ===== verification/GatewayMoney.thy ===== *)
theory GatewayMoney
  imports GatewaySafety GatewayScans
begin

text \<open>
  The money of the gateway and its outbox. \<open>money_ok\<close>: the balance of a user is what was credited
  minus what was taken for payouts that did not fail, and it is not negative. \<open>outbox_ok\<close>: the
  stored events are exactly one per credited payment, per paid and per failed payout, with the
  data of that row.
\<close>

section \<open>Balances\<close>

definition credit_part :: "id \<Rightarrow> chain_payment \<Rightarrow> int" where
  "credit_part u p = (if cp_user p = u \<and> cp_status p = CP_credited then cp_amount p else 0)"

definition debit_part :: "id \<Rightarrow> payout \<Rightarrow> int" where
  "debit_part u p = (if po_user p = u \<and> po_source p = Gateway_balance \<and> po_status p \<noteq> PO_failed
                     then po_amount p + po_fee p else 0)"

definition credits_of :: "id \<Rightarrow> gateway_state \<Rightarrow> int" where
  "credits_of u g = tsum (\<lambda>h p. credit_part u p) (g_payments g)"

definition debits_of :: "id \<Rightarrow> gateway_state \<Rightarrow> int" where
  "debits_of u g = tsum (\<lambda>i p. debit_part u p) (g_payouts g)"

definition money_ok :: "gateway_state \<Rightarrow> bool" where
  "money_ok g \<longleftrightarrow>
     distinct (keys (g_users g)) \<and> distinct (keys (g_payments g)) \<and> distinct (keys (g_payouts g))
     \<and> (\<forall>u r. row (g_users g) u = Some r \<longrightarrow> gu_balance r = credits_of u g - debits_of u g \<and> debits_of u g \<le> credits_of u g)
     \<and> (\<forall>h p. row (g_payments g) h = Some p \<longrightarrow> row (g_users g) (cp_user p) \<noteq> None \<and> 0 \<le> cp_amount p)
     \<and> (\<forall>i p. row (g_payouts g) i = Some p \<longrightarrow> row (g_users g) (po_user p) \<noteq> None \<and> 0 < po_amount p \<and> 0 \<le> po_fee p)"

lemma money_okD:
  assumes "money_ok g"
  shows "distinct (keys (g_users g))" "distinct (keys (g_payments g))" "distinct (keys (g_payouts g))"
    and "row (g_users g) u = Some r \<Longrightarrow> gu_balance r = credits_of u g - debits_of u g"
    and "row (g_users g) u = Some r \<Longrightarrow> debits_of u g \<le> credits_of u g"
    and "row (g_payments g) h = Some p \<Longrightarrow> row (g_users g) (cp_user p) \<noteq> None"
    and "row (g_payments g) h = Some p \<Longrightarrow> 0 \<le> cp_amount p"
    and "row (g_payouts g) i = Some q \<Longrightarrow> row (g_users g) (po_user q) \<noteq> None"
    and "row (g_payouts g) i = Some q \<Longrightarrow> 0 < po_amount q \<and> 0 \<le> po_fee q"
  using assms unfolding money_ok_def by blast+

lemma money_okI:
  assumes "distinct (keys (g_users g))" "distinct (keys (g_payments g))" "distinct (keys (g_payouts g))"
    and "\<And>u r. row (g_users g) u = Some r \<Longrightarrow>
      gu_balance r = credits_of u g - debits_of u g \<and> debits_of u g \<le> credits_of u g"
    and "\<And>h p. row (g_payments g) h = Some p \<Longrightarrow> row (g_users g) (cp_user p) \<noteq> None \<and> 0 \<le> cp_amount p"
    and "\<And>i p. row (g_payouts g) i = Some p \<Longrightarrow> row (g_users g) (po_user p) \<noteq> None \<and> 0 < po_amount p \<and> 0 \<le> po_fee p"
  shows "money_ok g"
  using assms unfolding money_ok_def by blast

text \<open>A change that touches none of the three tables.\<close>

lemma money_ok_cong:
  "g_users g' = g_users g \<Longrightarrow> g_payments g' = g_payments g \<Longrightarrow> g_payouts g' = g_payouts g \<Longrightarrow>
     money_ok g' = money_ok g"
  by (simp add: money_ok_def credits_of_def debits_of_def)

lemma money_ok_enqueue [simp]: "money_ok (enqueue_webhook now ev g) = money_ok g"
  by (rule money_ok_cong) simp_all

text \<open>A payment row changes without becoming or ceasing to be credited.\<close>

lemma money_ok_payment:
  assumes m: "money_ok g" and p: "row (g_payments g) h = Some p"
    and q: "cp_user q = cp_user p" "cp_amount q = cp_amount p" "cp_status q = CP_credited \<longleftrightarrow> cp_status p = CP_credited"
  shows "money_ok (g\<lparr>g_payments := AList.update h q (g_payments g)\<rparr>)"
proof -
  have "credits_of u (g\<lparr>g_payments := AList.update h q (g_payments g)\<rparr>) = credits_of u g" for u
    using q by (simp add: credits_of_def tsum_update [OF money_okD(2) [OF m] p] credit_part_def)
  moreover have "debits_of u (g\<lparr>g_payments := AList.update h q (g_payments g)\<rparr>) = debits_of u g" for u
    by (simp add: debits_of_def)
  ultimately show ?thesis
    using money_okD [OF m] p q
    by (intro money_okI) (auto simp: row_update simp del: map_of_eq_Some_iff split: if_splits)
qed

text \<open>Payout rows change without failing and without changing their amounts.\<close>

lemma debits_update_many:
  assumes d: "distinct (keys t)" and f: "\<And>i v. row t i = Some v \<Longrightarrow> p i v \<Longrightarrow> debit_part u (f v) = debit_part u v"
  shows "tsum (\<lambda>i v. debit_part u v) (snd (update_many p f t)) = tsum (\<lambda>i v. debit_part u v) t"
  unfolding tsum_update_many by (rule tsum_cong) (use f mem_row [OF d] in auto)

lemma money_ok_payouts:
  assumes m: "money_ok g"
    and f: "\<And>i v. row (g_payouts g) i = Some v \<Longrightarrow> p i v \<Longrightarrow>
      same_payout v (f v) \<and> (po_status (f v) = PO_failed \<longleftrightarrow> po_status v = PO_failed)"
    and g': "g_users g' = g_users g" "g_payments g' = g_payments g"
      "g_payouts g' = snd (update_many p f (g_payouts g))"
  shows "money_ok g'"
proof -
  have "debits_of u g' = debits_of u g" for u
    unfolding debits_of_def g'(3)
    by (rule debits_update_many [OF money_okD(3) [OF m]]) (use f in \<open>auto simp: debit_part_def same_payout_def\<close>)
  moreover have "row (g_payouts g') i = Some q \<Longrightarrow> \<exists>v. row (g_payouts g) i = Some v \<and> same_payout v q" for i q
    using f by (auto simp: g'(3) row_update_many simp del: map_of_eq_Some_iff split: if_splits)
  moreover have "credits_of u g' = credits_of u g" for u by (simp add: credits_of_def g')
  ultimately show ?thesis using m g'
    unfolding money_ok_def by (fastforce simp: same_payout_def simp del: map_of_eq_Some_iff)
qed

section \<open>The calls keep the balances\<close>

lemma money_ok_new_user:
  assumes m: "money_ok g" and n: "row (g_users g) k = None" and u: "gu_balance u = 0"
  shows "money_ok (g\<lparr>g_users := insert_row k u (g_users g)\<rparr>)"
proof -
  have "tsum (\<lambda>h p. credit_part k p) (g_payments g) = tsum (\<lambda>h p. 0) (g_payments g)"
  proof (rule tsum_cong)
    fix h p assume "(h, p) \<in> set (g_payments g)"
    then have "cp_user p \<noteq> k" using money_okD(6) [OF m mem_row [OF money_okD(2) [OF m]]] n by metis
    then show "credit_part k p = 0" by (simp add: credit_part_def)
  qed
  moreover have "tsum (\<lambda>i p. debit_part k p) (g_payouts g) = tsum (\<lambda>i p. 0) (g_payouts g)"
  proof (rule tsum_cong)
    fix i p assume "(i, p) \<in> set (g_payouts g)"
    then have "po_user p \<noteq> k" using money_okD(8) [OF m mem_row [OF money_okD(3) [OF m]]] n by metis
    then show "debit_part k p = 0" by (simp add: debit_part_def)
  qed
  moreover have "tsum (\<lambda>_ _. 0) t = 0" for t :: "(string, 'a) table" by (induction t) auto
  ultimately have z: "credits_of k g = 0" "debits_of k g = 0" by (simp_all add: credits_of_def debits_of_def)
  have same: "credits_of v (g\<lparr>g_users := x\<rparr>) = credits_of v g" "debits_of v (g\<lparr>g_users := x\<rparr>) = debits_of v g" for v x
    by (simp_all add: credits_of_def debits_of_def)
  show ?thesis unfolding money_ok_def same using money_okD [OF m] n u z
    by (auto simp: row_insert_row row_None_iff [symmetric] simp del: map_of_eq_Some_iff split: if_splits)
qed

lemma money_ok_ensure:
  assumes r: "ensure_gateway_user lib mn xp now u g = (x, g')" and m: "money_ok g"
  shows "money_ok g'"
proof (cases "row (g_users g) u")
  case (Some v)
  then show ?thesis using r m by (simp add: ensure_gateway_user_def)
next
  case None
  have 1: "money_ok g1" "g_users g1 = g_users g" if "transaction (allocate_wallet_index lib mn xp) g = (y, g1)" for y g1
    using that m money_ok_cong [of g1 g]
    by (auto simp: transaction_def allocate_wallet_index_def Let_def bindE_eq_Inr split: sum.splits if_splits)
  have 2: "money_ok g2" if "transaction (create_user now u i a) g1 = (y, g2)" "money_ok g1" for y g1 g2 i a
    using that money_ok_new_user
    by (auto simp: transaction_def create_user_def Let_def split: sum.splits if_splits)
  from r None have "and_then (transaction (allocate_wallet_index lib mn xp) g) (\<lambda>(index, address) g.
      and_then (transaction (create_user now u index address) g) (\<lambda>v g. (Inr (to_user_response u v), g))) = (x, g')"
    by (simp add: ensure_gateway_user_def)
  then show ?thesis
  proof (cases rule: and_then_cases)
    case thrown
    then show ?thesis using 1 by blast
  next
    case (returned a g1)
    obtain i ad where a: "a = (i, ad)" by (cases a)
    from returned(2) have "and_then (transaction (create_user now u i ad) g1) (\<lambda>v g. (Inr (to_user_response u v), g)) = (x, g')"
      by (simp add: a)
    then show ?thesis by (cases rule: and_then_cases) (use 2 1(1) [OF returned(1)] in auto)
  qed
qed

text \<open>The balance of one user changes by what the tables say it should.\<close>

lemma money_ok_balance:
  assumes m: "money_ok g" and u: "row (g_users g) k = Some u"
    and g': "g_users g' = AList.update k (u\<lparr>gu_balance := gu_balance u + d\<rparr>) (g_users g)"
    and c: "\<And>v. credits_of v g' - debits_of v g' = credits_of v g - debits_of v g + (if v = k then d else 0)"
    and n: "0 \<le> gu_balance u + d"
    and pay: "distinct (keys (g_payments g'))"
      "\<And>h p. row (g_payments g') h = Some p \<Longrightarrow> row (g_users g) (cp_user p) \<noteq> None \<and> 0 \<le> cp_amount p"
    and out: "distinct (keys (g_payouts g'))"
      "\<And>i p. row (g_payouts g') i = Some p \<Longrightarrow> row (g_users g) (po_user p) \<noteq> None \<and> 0 < po_amount p \<and> 0 \<le> po_fee p"
  shows "money_ok g'"
proof (rule money_okI)
  show "distinct (keys (g_users g'))" using money_okD(1) [OF m] u by (simp add: g')
next
  fix v r assume r: "row (g_users g') v = Some r"
  note b = c [of v] money_okD(4,5) [OF m]
  show "gu_balance r = credits_of v g' - debits_of v g' \<and> debits_of v g' \<le> credits_of v g'"
  proof (cases "v = k")
    case True
    then have "gu_balance r = gu_balance u + d" using r by (auto simp: g' row_update)
    then show ?thesis using b(1) b(2) [OF u] True n by simp
  next
    case False
    then have "row (g_users g) v = Some r" using r by (simp add: g' row_update)
    then show ?thesis using b(1) b(2,3) [of v r] False by simp
  qed
qed (use pay out in \<open>simp_all add: g' row_update del: map_of_eq_Some_iff\<close>)

lemma debit_user_cases:
  assumes r: "debit_user o' g = Inr g'" and d: "distinct (keys (g_users g))"
  obtains (authorized) "ord_source o' = Backend_authorized" "g' = g"
    | (debited) u where "ord_source o' = Gateway_balance" "row (g_users g) (ord_user o') = Some u"
        "ord_amount o' + ord_fee o' \<le> gu_balance u"
        "g' = g\<lparr>g_users := AList.update (ord_user o')
                  (u\<lparr>gu_balance := gu_balance u - (ord_amount o' + ord_fee o')\<rparr>) (g_users g)\<rparr>"
proof (cases "ord_source o'")
  case Gateway_balance
  let ?p = "\<lambda>k u. k = ord_user o' \<and> ord_amount o' + ord_fee o' \<le> gu_balance u"
  let ?f = "\<lambda>u. u\<lparr>gu_balance := gu_balance u - (ord_amount o' + ord_fee o')\<rparr>"
  show ?thesis
  proof (cases rule: claim_cases [OF d, where p = ?p and f = ?f and k = "ord_user o'", case_names key claimed lost])
    case (claimed u)
    then show ?thesis using r Gateway_balance that(2) by (simp add: debit_user_def Let_def)
  next
    case lost
    then show ?thesis using r Gateway_balance by (simp add: debit_user_def Let_def)
  qed simp
next
  case Backend_authorized
  then show ?thesis using r that(1) by (simp add: debit_user_def)
qed

lemma withdrawal_tx_cases:
  assumes r: "withdrawal_tx now o' g = Inr ((k, p), g')"
  obtains g1 where "debit_user o' g = Inr g1" "row (g_payouts g1) k = None" "payout_by_external (ord_external o') g1 = None"
    "g' = g1\<lparr>g_payouts := insert_row k p (g_payouts g1), g_next_id := Suc (g_next_id g1)\<rparr>"
    "po_user p = ord_user o'" "po_source p = ord_source o'" "po_amount p = ord_amount o'" "po_fee p = ord_fee o'"
    "po_status p = PO_pending" "po_signed p = None" "po_tx_hash p = None" "po_external p = Some (ord_external o')"
proof -
  from r obtain g1 where 1: "debit_user o' g = Inr g1"
    and 2: "(let k = g_ids g1 (g_next_id g1);
       p = \<lparr>po_user = ord_user o', po_external = Some (ord_external o'), po_source = ord_source o',
            po_to = ord_to o', po_amount = ord_amount o', po_fee = ord_fee o', po_status = PO_pending,
            po_tx_hash = None, po_signed = None, po_lease = None, po_fail = None,
            po_created_at = now, po_updated_at = now\<rparr>
     in if row (g_payouts g1) k \<noteq> None \<or> payout_by_external (ord_external o') g1 \<noteq> None then Inl UniqueViolation
        else Inr ((k, p), g1\<lparr>g_payouts := insert_row k p (g_payouts g1), g_next_id := Suc (g_next_id g1)\<rparr>))
     = Inr ((k, p), g')"
    unfolding withdrawal_tx_def bindE_eq_Inr by blast
  show ?thesis using 2 unfolding Let_def if_Inl_eq_Inr
    by (intro that [OF 1]) (auto simp del: map_of_eq_Some_iff not_None_eq)
qed

lemma money_ok_order:
  assumes r: "withdrawal_tx now o' g = Inr ((k, p), g')" and m: "money_ok g"
    and a: "0 < ord_amount o'" "0 \<le> ord_fee o'" and u: "row (g_users g) (ord_user o') \<noteq> None"
  shows "money_ok g'"
proof -
  obtain g1 where 1: "debit_user o' g = Inr g1" "row (g_payouts g1) k = None"
    and g': "g' = g1\<lparr>g_payouts := insert_row k p (g_payouts g1), g_next_id := Suc (g_next_id g1)\<rparr>"
    and p: "po_user p = ord_user o'" "po_source p = ord_source o'" "po_amount p = ord_amount o'" "po_fee p = ord_fee o'"
      "po_status p = PO_pending"
    by (rule withdrawal_tx_cases [OF r])
  show ?thesis
  proof (cases rule: debit_user_cases [OF 1(1) money_okD(1) [OF m], case_names authorized debited])
    case authorized
    have k: "row (g_payouts g) k = None" using 1(2) authorized by simp
    have "debits_of v g' = debits_of v g" for v
      using authorized p by (simp add: debits_of_def g' tsum_insert_row debit_part_def)
    moreover have "credits_of v g' = credits_of v g" for v using authorized by (simp add: credits_of_def g')
    ultimately show ?thesis using money_okD [OF m] authorized u a p k
      by (intro money_okI) (auto simp: g' row_insert_row row_None_iff [symmetric] simp del: map_of_eq_Some_iff split: if_splits)
  next
    case (debited v)
    have k: "row (g_payouts g) k = None" using 1(2) debited(4) by simp
    show ?thesis
    proof (rule money_ok_balance [OF m debited(2), where d = "- (ord_amount o' + ord_fee o')"])
      show "credits_of w g' - debits_of w g' = credits_of w g - debits_of w g
          + (if w = ord_user o' then - (ord_amount o' + ord_fee o') else 0)" for w
        using p debited(1,4) by (simp add: credits_of_def debits_of_def g' tsum_insert_row debit_part_def)
      show "g_users g' = AList.update (ord_user o') (v\<lparr>gu_balance := gu_balance v + - (ord_amount o' + ord_fee o')\<rparr>) (g_users g)"
        unfolding diff_conv_add_uminus [symmetric] g' debited(4) by simp
      show "0 \<le> gu_balance v + - (ord_amount o' + ord_fee o')" using debited(3) by simp
    qed (use debited(4) money_okD(2,3,6-9) [OF m] u a p k in
        \<open>auto simp: g' row_insert_row row_None_iff [symmetric] simp del: map_of_eq_Some_iff split: if_splits\<close>)
  qed
qed

lemma money_ok_credit:
  assumes r: "credit_payment now h g = Inr g'" and m: "money_ok g"
  shows "money_ok g'"
proof (cases rule: credit_payment_cases [OF r money_okD(2) [OF m], case_names nothing paid_in])
  case nothing
  then show ?thesis using m by simp
next
  case (paid_in p u)
  let ?g = "g\<lparr>g_payments := AList.update h (credited now h p) (g_payments g),
              g_users := AList.update (cp_user p) (u\<lparr>gu_balance := gu_balance u + cp_amount p\<rparr>) (g_users g)\<rparr>"
  have "money_ok ?g"
  proof (rule money_ok_balance [OF m paid_in(3), where d = "cp_amount p"])
    show "credits_of v ?g - debits_of v ?g = credits_of v g - debits_of v g + (if v = cp_user p then cp_amount p else 0)" for v
      using paid_in(1,2) money_okD(2) [OF m]
      by (simp add: credits_of_def debits_of_def tsum_update credit_part_def credited_def)
    show "0 \<le> gu_balance u + cp_amount p"
      using money_okD(4,5) [OF m paid_in(3)] money_okD(7) [OF m paid_in(1)] by simp
  qed (use money_okD [OF m] paid_in(1) in
      \<open>auto simp: row_update credited_def simp del: map_of_eq_Some_iff split: if_splits\<close>)
  then show ?thesis using paid_in(4) by simp
qed

lemma money_ok_detect:
  assumes r: "detect_transfer c now t g = (x, g')" and m: "money_ok g" and c: "0 \<le> gc_min_deposit c"
  shows "money_ok g'"
proof -
  consider "g' = g"
    | u v p where "user_at (tr_to t) g = Some (u, v)" "row (g_payments g) (tr_hash t) = None" "cp_user p = u"
        "cp_status p = CP_detected" "cp_amount p = tr_amount t" "gc_min_deposit c \<le> tr_amount t"
        "g' = g\<lparr>g_payments := insert_row (tr_hash t) p (g_payments g)\<rparr>"
  proof (cases "user_at (tr_to t) g")
    case None
    then show ?thesis using r that(1) by (simp add: detect_transfer_def)
  next
    case (Some a)
    obtain u v where a: "a = (u, v)" by (cases a)
    show ?thesis
    proof (cases "tr_amount t < gc_min_deposit c \<or> row (g_payments g) (tr_hash t) \<noteq> None")
      case True
      then have "g' = g" using r Some a by (auto simp: detect_transfer_def simp del: map_of_eq_Some_iff split: if_splits)
      then show ?thesis by (rule that(1))
    next
      case False
      then show ?thesis using r Some a
        by (intro that(2) [of u v "\<lparr>cp_user = u, cp_address = tr_to t, cp_amount = tr_amount t,
             cp_confirmations = tr_confirmations t, cp_status = CP_detected, cp_block = tr_block t,
             cp_credited_at = None, cp_event = None, cp_created_at = now\<rparr>"])
           (auto simp: detect_transfer_def simp del: map_of_eq_Some_iff)
    qed
  qed
  then show ?thesis
  proof cases
    case (2 u v p)
    have "(u, v) \<in> set (g_users g)" using 2(1) by (auto simp: user_at_def find_Some_iff in_set_conv_nth)
    then have u: "row (g_users g) u \<noteq> None" using mem_row [OF money_okD(1) [OF m]] by fastforce
    have "credits_of w g' = credits_of w g" "debits_of w g' = debits_of w g" for w
      using 2(4) by (simp_all add: credits_of_def debits_of_def 2(7) tsum_insert_row credit_part_def)
    then show ?thesis using money_okD [OF m] 2 u c
      by (intro money_okI) (auto simp: row_insert_row row_None_iff [symmetric] simp del: map_of_eq_Some_iff split: if_splits)
  qed (use m in simp)
qed

text \<open>A step of a payout call: only the end of a failed payout moves money.\<close>

definition ended_payout :: "int \<Rightarrow> string option \<Rightarrow> payout \<Rightarrow> payout" where
  "ended_payout now reason v = v\<lparr>po_status := (if reason = None then PO_paid else PO_failed),
     po_fail := (case reason of None \<Rightarrow> po_fail v | Some r \<Rightarrow> Some r), po_lease := None, po_updated_at := now\<rparr>"

lemma terminal_tx_cases:
  assumes r: "terminal_tx now i p reason g = Inr g'" and d: "distinct (keys (g_payouts g))"
  obtains (lost) "g' = g"
    | (kept) v where "row (g_payouts g) i = Some v" "is_open_payout v" "reason = None \<or> po_source p \<noteq> Gateway_balance"
        "g' = enqueue_webhook now (terminal_event i p reason)
           (g\<lparr>g_payouts := AList.update i (ended_payout now reason v) (g_payouts g)\<rparr>)"
    | (refunded) v u where "row (g_payouts g) i = Some v" "is_open_payout v" "reason \<noteq> None" "po_source p = Gateway_balance"
        "row (g_users g) (po_user p) = Some u"
        "g' = enqueue_webhook now (terminal_event i p reason)
           (g\<lparr>g_payouts := AList.update i (ended_payout now reason v) (g_payouts g),
              g_users := AList.update (po_user p)
                (u\<lparr>gu_balance := gu_balance u + (po_amount p + po_fee p)\<rparr>) (g_users g)\<rparr>)"
proof -
  let ?p = "\<lambda>k v. k = i \<and> is_open_payout v"
  let ?f = "\<lambda>v. v\<lparr>po_status := (if reason = None then PO_paid else PO_failed),
                   po_fail := (case reason of None \<Rightarrow> po_fail v | Some r \<Rightarrow> Some r),
                   po_lease := None, po_updated_at := now\<rparr>"
  show ?thesis
  proof (cases rule: claim_cases [OF d, where p = ?p and f = ?f and k = i, case_names key claimed lost])
    case (claimed v)
    let ?g = "g\<lparr>g_payouts := AList.update i (ended_payout now reason v) (g_payouts g)\<rparr>"
    have r': "bindE (if reason \<noteq> None \<and> po_source p = Gateway_balance
        then bindE (update_row (po_user p) (\<lambda>u. u\<lparr>gu_balance := gu_balance u + (po_amount p + po_fee p)\<rparr>) (g_users g))
               (\<lambda>us. Inr (?g\<lparr>g_users := us\<rparr>)) else Inr ?g)
        (\<lambda>g. Inr (enqueue_webhook now (terminal_event i p reason) g)) = Inr g'"
      using r claimed(3) by (simp add: terminal_tx_def Let_def ended_payout_def cong: if_cong)
    show ?thesis
    proof (cases "reason \<noteq> None \<and> po_source p = Gateway_balance")
      case True
      with r' obtain u where u: "row (g_users g) (po_user p) = Some u"
        "g' = enqueue_webhook now (terminal_event i p reason)
           (?g\<lparr>g_users := AList.update (po_user p)
                (u\<lparr>gu_balance := gu_balance u + (po_amount p + po_fee p)\<rparr>) (g_users g)\<rparr>)"
        unfolding if_P [OF True] by (auto simp only: bindE_eq_Inr update_row_eq_Inr sum.inject)
      show ?thesis by (rule that(3) [of v u]) (use claimed True u in simp_all)
    next
      case False
      with r' have "g' = enqueue_webhook now (terminal_event i p reason) ?g" by auto
      then show ?thesis using False claimed by (intro that(2) [of v]) auto
    qed
  next
    case lost
    then show ?thesis using r that(1) by (simp add: terminal_tx_def Let_def)
  qed simp
qed

lemma money_ok_terminal:
  assumes r: "terminal_tx now i p reason g = Inr g'" and m: "money_ok g"
    and w: "worker_ok c outcome (g_payouts g) (W_terminal i l p reason)"
  shows "money_ok g'"
proof -
  note d = money_okD(3) [OF m]
  show ?thesis
  proof (cases rule: terminal_tx_cases [OF r d, case_names lost kept refunded])
    case lost
    then show ?thesis using m by simp
  next
    case (kept v)
    then have s: "same_payout p v" using w by auto
    have "debits_of u (g\<lparr>g_payouts := AList.update i (ended_payout now reason v) (g_payouts g)\<rparr>) = debits_of u g" for u
      using kept(2,3) s
      by (auto simp: debits_of_def tsum_update [OF d kept(1)] debit_part_def ended_payout_def same_payout_def is_open_payout_def)
    moreover have "credits_of u (g\<lparr>g_payouts := x\<rparr>) = credits_of u g" for u x by (simp add: credits_of_def)
    ultimately have "money_ok (g\<lparr>g_payouts := AList.update i (ended_payout now reason v) (g_payouts g)\<rparr>)"
      using money_okD [OF m] kept(1)
      by (intro money_okI) (auto simp: row_update ended_payout_def simp del: map_of_eq_Some_iff split: if_splits)
    then show ?thesis using kept(4) by simp
  next
    case (refunded v u)
    let ?g = "g\<lparr>g_payouts := AList.update i (ended_payout now reason v) (g_payouts g),
              g_users := AList.update (po_user p)
                (u\<lparr>gu_balance := gu_balance u + (po_amount p + po_fee p)\<rparr>) (g_users g)\<rparr>"
    have s: "same_payout p v" using w refunded(1) by auto
    have "money_ok ?g"
    proof (rule money_ok_balance [OF m refunded(5), where d = "po_amount p + po_fee p"])
      show "credits_of z ?g - debits_of z ?g = credits_of z g - debits_of z g + (if z = po_user p then po_amount p + po_fee p else 0)" for z
        using refunded(2,3,4) s
        by (auto simp: credits_of_def debits_of_def tsum_update [OF d refunded(1)] debit_part_def ended_payout_def
            same_payout_def is_open_payout_def)
      show "0 \<le> gu_balance u + (po_amount p + po_fee p)"
        using money_okD(4,5) [OF m refunded(5)] money_okD(9) [OF m refunded(1)] s by (simp add: same_payout_def)
    qed (use money_okD(2,3,6-9) [OF m] refunded(1) in
        \<open>auto simp: row_update ended_payout_def simp del: map_of_eq_Some_iff split: if_splits\<close>)
    then show ?thesis using refunded(6) by simp
  qed
qed

lemma money_ok_claim:
  assumes "claim_payout now i g = (won, g')" and m: "money_ok g"
  shows "money_ok g'"
  by (rule money_ok_payouts [OF m, where p = "\<lambda>k p. k = i \<and> is_open_payout p \<and> (case po_lease p of None \<Rightarrow> True | Some l \<Rightarrow> l \<le> now)"
        and f = "\<lambda>p. p\<lparr>po_lease := Some (now + lease_time), po_updated_at := now\<rparr>"])
     (use assms(1) in \<open>auto simp: claim_payout_def same_payout_def split: prod.splits\<close>)

lemma money_ok_persist:
  assumes r: "persist_signed now i s g = Inr (stored, g')" and m: "money_ok g" and ok: "payouts_ok c outcome (g_payouts g)"
  shows "money_ok g'"
proof (rule money_ok_payouts [OF m])
  let ?p = "\<lambda>k v. k = i \<and> po_tx_hash v = None \<and> (case po_lease v of None \<Rightarrow> False | Some l \<Rightarrow> now < l)"
  let ?f = "\<lambda>v. v\<lparr>po_status := PO_processing, po_signed := Some s, po_tx_hash := Some (tx_id s), po_updated_at := now\<rparr>"
  show "g_users g' = g_users g" "g_payments g' = g_payments g" "g_payouts g' = snd (update_many ?p ?f (g_payouts g))"
    using r by (auto simp: persist_signed_def Let_def split: prod.splits if_splits)
  fix k v assume "row (g_payouts g) k = Some v" "?p k v"
  then show "same_payout v (?f v) \<and> (po_status (?f v) = PO_failed \<longleftrightarrow> po_status v = PO_failed)"
    using payouts_okD [OF ok] by (auto simp: same_payout_def payout_ok_def is_open_payout_def split: option.splits)
qed

lemma money_ok_note: "money_ok g \<Longrightarrow> money_ok (note_failure now i m g)"
  by (rule money_ok_payouts [where p = "\<lambda>k v. k = i \<and> is_open_payout v" and f = "\<lambda>v. v\<lparr>po_fail := Some (take 500 m), po_updated_at := now\<rparr>"])
     (simp_all add: note_failure_def same_payout_def)

lemma money_ok_release: "money_ok g \<Longrightarrow> money_ok (release_lease now i l g)"
  by (rule money_ok_payouts [where p = "\<lambda>k v. k = i \<and> po_lease v = Some l" and f = "\<lambda>v. v\<lparr>po_lease := None, po_updated_at := now\<rparr>"])
     (simp_all add: release_lease_def same_payout_def)

lemma money_ok_payout_step:
  assumes r: "payout_step c node now w g = (w', g', sent)" and m: "money_ok g"
    and ok: "payouts_ok c outcome (g_payouts g)" and w: "worker_ok c outcome (g_payouts g) w"
  shows "money_ok g'"
proof (cases w)
  case (W_claim i)
  then show ?thesis using r money_ok_claim [OF _ m] by (auto split: prod.splits if_splits)
next
  case (W_terminal i l p reason)
  then show ?thesis using r m w money_ok_terminal [OF _ m] by (auto split: sum.splits)
next
  case (W_persist i l p s)
  then show ?thesis using r m money_ok_persist [OF _ m ok] by (auto split: sum.splits bool.splits)
qed (use r m money_ok_note [OF m] money_ok_release [OF m] in \<open>auto split: option.splits sum.splits\<close>)

section \<open>The scanner keeps them\<close>

definition scan_money :: "gateway_config \<Rightarrow> (id, payout) table \<Rightarrow> gateway_state \<Rightarrow> bool" where
  "scan_money c t g \<longleftrightarrow> 0 \<le> gc_min_deposit c \<and> money_ok g \<and> g_payouts g = t"

interpretation scanned_money: scan_contract "scan_money c t" c
proof
  show "scan_money c t g \<Longrightarrow> distinct (keys (g_payments g))" for g
    by (simp add: scan_money_def money_okD)
  show "detect_transfer c now tr g = (r, g') \<Longrightarrow> scan_money c t g \<Longrightarrow> scan_money c t g'" for now tr g r g'
    using money_ok_detect by (auto simp: scan_money_def detect_transfer_def split: option.splits if_splits)
  show "row (g_payments g) h = Some p \<Longrightarrow> scan_money c t g \<Longrightarrow>
      scan_money c t (g\<lparr>g_payments := AList.update h (p\<lparr>cp_confirmations := n\<rparr>) (g_payments g)\<rparr>)" for g h p n
    using money_ok_payment by (simp add: scan_money_def)
  show "row (g_payments g) h = Some p \<Longrightarrow> cp_status p = CP_detected \<Longrightarrow> scan_money c t g \<Longrightarrow>
      scan_money c t (g\<lparr>g_payments := AList.update h (p\<lparr>cp_status := CP_held\<rparr>) (g_payments g)\<rparr>)" for g h p
    using money_ok_payment by (simp add: scan_money_def)
  show "credit_payment now h g = Inr g' \<Longrightarrow> scan_money c t g \<Longrightarrow> scan_money c t g'" for now h g g'
    using money_ok_credit credit_payment_cases money_okD(2) by (fastforce simp: scan_money_def)
  show "scan_money c t g \<Longrightarrow> scan_money c t (g\<lparr>g_last_block := b\<rparr>)" for g b
    using money_ok_cong [of "g\<lparr>g_last_block := b\<rparr>" g] by (simp add: scan_money_def)
qed

lemma scan_keeps_money:
  "run_scanner_tick locked c tg now g = (r, g') \<Longrightarrow> 0 \<le> gc_min_deposit c \<Longrightarrow> money_ok g \<Longrightarrow>
     money_ok g' \<and> g_payouts g' = g_payouts g"
  using scanned_money.tick [of locked c tg now g r g' "g_payouts g"] by (simp add: scan_money_def)

section \<open>Every call of the gateway\<close>

lemma lease_frame:
  assumes "lease_delivery now t1 e g = (b, g')"
  shows "g_users g' = g_users g" "g_payments g' = g_payments g" "g_payouts g' = g_payouts g"
  using assms by (auto simp: lease_delivery_def split: prod.splits)

lemma finish_frame:
  assumes "finish_delivery t2 answer e d g = Inr g'"
  shows "g_users g' = g_users g" "g_payments g' = g_payments g" "g_payouts g' = g_payouts g"
  using assms by (auto simp: finish_delivery_def bindE_eq_Inr)

lemma gateway_call_money:
  assumes "gateway_call g g'" and "money_ok g"
  shows "money_ok g'"
  using assms
proof cases
  case (Order_payout o' now x)
  then show ?thesis using money_ok_order [OF _ assms(2)] by (cases x; cases "fst x") auto
next
  case Register_user
  then show ?thesis using money_ok_ensure assms(2) by blast
next
  case Scan_chain
  then show ?thesis using scan_keeps_money assms(2) by blast
next
  case Lease_event
  then show ?thesis using money_ok_cong [OF lease_frame] assms(2) by blast
next
  case Settle_event
  then show ?thesis using money_ok_cong [OF finish_frame] assms(2) by blast
qed

text \<open>The payouts that were there stay as they are; a new one is pending.\<close>

lemma ensure_frame:
  "ensure_gateway_user lib mn xp now u g = (x, g') \<Longrightarrow>
     g_payments g' = g_payments g \<and> g_payouts g' = g_payouts g \<and> g_deliveries g' = g_deliveries g"
  by (auto simp: ensure_gateway_user_def and_then_def transaction_def allocate_wallet_index_def create_user_def Let_def
      bindE_def split: option.splits sum.splits prod.splits if_splits)

lemma payouts_ok_insert:
  assumes ok: "payouts_ok c outcome t" and n: "row t k = None" and p: "payout_ok c outcome p" "po_tx_hash p = None"
  shows "payouts_ok c outcome (insert_row k p t)"
  using assms unfolding payouts_ok_def
  by (auto simp: row_insert_row row_None_iff [symmetric] simp del: map_of_eq_Some_iff split: if_splits)

lemma gateway_call_payouts:
  assumes "gateway_call g g'" and m: "money_ok g" and ok: "payouts_ok c outcome (g_payouts g)"
  shows "payouts_ok c outcome (g_payouts g') \<and> payouts_keep (g_payouts g) (g_payouts g')"
  using assms(1)
proof cases
  case (Order_payout o' now x)
  obtain k p where x: "x = (k, p)" by (cases x)
  obtain g1 where 1: "debit_user o' g = Inr g1" "row (g_payouts g1) k = None"
    and g': "g' = g1\<lparr>g_payouts := insert_row k p (g_payouts g1), g_next_id := Suc (g_next_id g1)\<rparr>"
    and p: "po_status p = PO_pending" "po_signed p = None" "po_tx_hash p = None"
    using withdrawal_tx_cases [OF Order_payout(4) [unfolded x]] by blast
  have "g_payouts g1 = g_payouts g"
    using debit_user_cases [OF 1(1) money_okD(1) [OF m]] by cases simp_all
  moreover have "payout_ok c outcome p" using p by (simp add: payout_ok_def is_open_payout_def)
  ultimately show ?thesis using payouts_ok_insert [OF ok] payouts_keep_insert 1(2) p by (simp add: g')
next
  case Register_user
  then show ?thesis using ensure_frame ok by simp
next
  case Scan_chain
  then show ?thesis using scan_keeps_money [OF _ _ m] ok by simp
next
  case Lease_event
  then show ?thesis using lease_frame(3) ok by simp
next
  case Settle_event
  then show ?thesis using finish_frame(3) ok by simp
qed

end
