(* ===== verification/GatewayEvents.thy ===== *)
theory GatewayEvents
  imports GatewayMoney
begin

text \<open>
  What the outbox of the gateway holds. \<open>credit_view\<close> and \<open>end_view\<close> are the events the tables call
  for: one for a credited payment, one for a payout that was paid or failed. \<open>outbox_ok\<close> says that
  the stored events are exactly these, each under its own identifier, and every call keeps it.
\<close>

section \<open>The events the tables call for\<close>

definition credit_of :: "string \<Rightarrow> chain_payment \<Rightarrow> gateway_event option" where
  "credit_of h p = (if cp_status p = CP_credited then Some (credit_event (the (cp_credited_at p)) h p) else None)"

definition end_of :: "id \<Rightarrow> payout \<Rightarrow> gateway_event option" where
  "end_of i q = (case po_status q of
     PO_paid \<Rightarrow> Some (terminal_event i q None)
   | PO_failed \<Rightarrow> Some (terminal_event i q (Some (the (po_fail q))))
   | _ \<Rightarrow> None)"

definition credit_view :: "gateway_state \<Rightarrow> string \<Rightarrow> gateway_event option" where
  "credit_view g h = (case row (g_payments g) h of None \<Rightarrow> None | Some p \<Rightarrow> credit_of h p)"

definition end_view :: "gateway_state \<Rightarrow> id \<Rightarrow> gateway_event option" where
  "end_view g i = (case row (g_payouts g) i of None \<Rightarrow> None | Some q \<Rightarrow> end_of i q)"

definition stored_event :: "gateway_state \<Rightarrow> string \<Rightarrow> gateway_event option" where
  "stored_event g e = map_option de_payload (row (g_deliveries g) e)"

definition called_for :: "gateway_state \<Rightarrow> gateway_event \<Rightarrow> bool" where
  "called_for g ev \<longleftrightarrow> (\<exists>h. credit_view g h = Some ev) \<or> (\<exists>i. end_view g i = Some ev)"

definition outbox_ok :: "gateway_state \<Rightarrow> bool" where
  "outbox_ok g \<longleftrightarrow> (\<forall>e ev. stored_event g e = Some ev \<longleftrightarrow> event_id ev = e \<and> called_for g ev)"

lemma credit_view_id: "credit_view g h = Some ev \<Longrightarrow> event_id ev = ''dep:'' @ h"
  by (auto simp: credit_view_def credit_of_def credit_event_def deposit_event_id_def split: option.splits if_splits)

lemma end_view_id: "end_view g i = Some ev \<Longrightarrow> event_id ev = ''paid:'' @ i \<or> event_id ev = ''failed:'' @ i"
  by (auto simp: end_view_def end_of_def terminal_event_def paid_event_id_def failed_event_id_def
      split: option.splits payout_status.splits)

lemma terminal_event_id:
  "event_id (terminal_event i p reason) = (if reason = None then ''paid:'' @ i else ''failed:'' @ i)"
  by (auto simp: terminal_event_def paid_event_id_def failed_event_id_def split: option.splits)

section \<open>Frames\<close>

lemma outbox_ok_cong:
  "stored_event g' = stored_event g \<Longrightarrow> credit_view g' = credit_view g \<Longrightarrow> end_view g' = end_view g \<Longrightarrow>
     outbox_ok g' = outbox_ok g"
  by (simp add: outbox_ok_def called_for_def)

lemma views_cong:
  "g_deliveries g' = g_deliveries g \<Longrightarrow> stored_event g' = stored_event g"
  "g_payments g' = g_payments g \<Longrightarrow> credit_view g' = credit_view g"
  "g_payouts g' = g_payouts g \<Longrightarrow> end_view g' = end_view g"
  by (simp_all add: fun_eq_iff stored_event_def credit_view_def end_view_def)

text \<open>A payment row that changes without changing its event; a new row without one.\<close>

lemma credit_view_update:
  "row (g_payments g) h = Some p \<Longrightarrow> credit_of h q = credit_of h p \<Longrightarrow>
     credit_view (g\<lparr>g_payments := AList.update h q (g_payments g)\<rparr>) = credit_view g"
  by (auto simp: fun_eq_iff credit_view_def row_update simp del: map_of_eq_Some_iff)

lemma credit_view_insert:
  "row (g_payments g) h = None \<Longrightarrow> credit_of h p = None \<Longrightarrow>
     credit_view (g\<lparr>g_payments := insert_row h p (g_payments g)\<rparr>) = credit_view g"
  by (auto simp: fun_eq_iff credit_view_def row_insert_row simp del: map_of_eq_Some_iff)

lemma end_view_insert:
  "row (g_payouts g) i = None \<Longrightarrow> po_status p = PO_pending \<Longrightarrow> g_payouts g' = insert_row i p (g_payouts g) \<Longrightarrow>
     end_view g' = end_view g"
  by (auto simp: fun_eq_iff end_view_def end_of_def row_insert_row simp del: map_of_eq_Some_iff)

lemma end_view_update_many:
  assumes g': "g_payouts g' = snd (update_many p f (g_payouts g))"
    and f: "\<And>i v. row (g_payouts g) i = Some v \<Longrightarrow> p i v \<Longrightarrow> end_of i (f v) = end_of i v"
  shows "end_view g' = end_view g"
  using f by (auto simp: fun_eq_iff end_view_def g' row_update_many split: option.split simp del: map_of_eq_Some_iff)

section \<open>A new event\<close>

lemma stored_enqueue:
  "stored_event g (event_id ev) = None \<Longrightarrow>
     stored_event (enqueue_webhook now ev g) = (stored_event g)(event_id ev := Some ev)"
  by (auto simp: fun_eq_iff stored_event_def row_enqueue simp del: map_of_eq_Some_iff)

lemma view_enqueue [simp]:
  "credit_view (enqueue_webhook now ev g) = credit_view g" "end_view (enqueue_webhook now ev g) = end_view g"
  by (simp_all add: fun_eq_iff credit_view_def end_view_def)

lemma outbox_ok_enqueue:
  assumes ok: "outbox_ok g" and st: "stored_event g' = stored_event g"
    and c: "\<And>x. called_for g' x \<longleftrightarrow> called_for g x \<or> x = ev"
    and n: "\<And>x. called_for g x \<Longrightarrow> event_id x \<noteq> event_id ev"
  shows "outbox_ok (enqueue_webhook now ev g')"
proof -
  have free: "stored_event g (event_id ev) = None"
    using ok n unfolding outbox_ok_def by (metis option.exhaust)
  have s: "stored_event (enqueue_webhook now ev g') = (stored_event g)(event_id ev := Some ev)"
    using stored_enqueue [of g' ev] free st by simp
  have k: "called_for (enqueue_webhook now ev g') x \<longleftrightarrow> called_for g x \<or> x = ev" for x
    using c [of x] by (simp add: called_for_def)
  show ?thesis unfolding outbox_ok_def s k
  proof (intro allI)
    fix e x
    show "((stored_event g)(event_id ev := Some ev)) e = Some x \<longleftrightarrow> event_id x = e \<and> (called_for g x \<or> x = ev)"
    proof (cases "e = event_id ev")
      case True
      then show ?thesis using n [of x] by auto
    next
      case False
      then show ?thesis using ok by (auto simp: outbox_ok_def)
    qed
  qed
qed

lemma view_new: "v h = None \<Longrightarrow> (\<exists>k. (v(h := Some ev)) k = Some x) \<longleftrightarrow> (\<exists>k. v k = Some x) \<or> x = ev"
  unfolding fun_upd_apply by (metis option.distinct(1) option.inject)

lemma outbox_ok_credit:
  assumes ok: "outbox_ok g" and st: "stored_event g' = stored_event g" and en: "end_view g' = end_view g"
    and n: "credit_view g h = None" and cr: "credit_view g' = (credit_view g)(h := Some ev)" and e: "event_id ev = ''dep:'' @ h"
  shows "outbox_ok (enqueue_webhook now ev g')"
proof (rule outbox_ok_enqueue [OF ok st])
  show "called_for g' x \<longleftrightarrow> called_for g x \<or> x = ev" for x
    unfolding called_for_def cr en view_new [of "credit_view g", OF n] by blast
  show "event_id x \<noteq> event_id ev" if x: "called_for g x" for x
  proof
    assume i: "event_id x = event_id ev"
    from x consider k where "credit_view g k = Some x" | k where "end_view g k = Some x" by (auto simp: called_for_def)
    then show False
    proof cases
      case (1 k)
      then have "k = h" using credit_view_id [OF 1] i e by simp
      then show False using 1 n by simp
    next
      case (2 k)
      then show False using end_view_id [OF 2] i e by simp
    qed
  qed
qed

lemma outbox_ok_end:
  assumes ok: "outbox_ok g" and st: "stored_event g' = stored_event g" and cr: "credit_view g' = credit_view g"
    and n: "end_view g i = None" and en: "end_view g' = (end_view g)(i := Some ev)"
    and e: "event_id ev = ''paid:'' @ i \<or> event_id ev = ''failed:'' @ i"
  shows "outbox_ok (enqueue_webhook now ev g')"
proof (rule outbox_ok_enqueue [OF ok st])
  show "called_for g' x \<longleftrightarrow> called_for g x \<or> x = ev" for x
    unfolding called_for_def cr en view_new [of "end_view g", OF n] by blast
  show "event_id x \<noteq> event_id ev" if x: "called_for g x" for x
  proof
    assume i: "event_id x = event_id ev"
    from x consider k where "credit_view g k = Some x" | k where "end_view g k = Some x" by (auto simp: called_for_def)
    then show False
    proof cases
      case (1 k)
      then show False using credit_view_id [OF 1] i e by auto
    next
      case (2 k)
      then have "k = i" using end_view_id [OF 2] i e by auto
      then show False using 2 n by simp
    qed
  qed
qed

section \<open>The calls keep the outbox\<close>

lemma outbox_ok_payment:
  assumes "row (g_payments g) h = Some p" and "credit_of h q = credit_of h p"
  shows "outbox_ok (g\<lparr>g_payments := AList.update h q (g_payments g)\<rparr>) = outbox_ok g"
  by (rule outbox_ok_cong [OF views_cong(1) credit_view_update [OF assms] views_cong(3)]) simp_all

lemma outbox_credit:
  assumes r: "credit_payment now h g = Inr g'" and d: "distinct (keys (g_payments g))" and ok: "outbox_ok g"
  shows "outbox_ok g'"
proof (cases rule: credit_payment_cases [OF r d, case_names nothing paid_in])
  case nothing
  then show ?thesis using ok by simp
next
  case (paid_in p u)
  have c: "credit_of h (credited now h p) = Some (credit_event now h p)"
    by (simp add: credit_of_def credited_def credit_event_def)
  let ?g = "g\<lparr>g_payments := AList.update h (credited now h p) (g_payments g),
              g_users := AList.update (cp_user p) (u\<lparr>gu_balance := gu_balance u + cp_amount p\<rparr>) (g_users g)\<rparr>"
  show ?thesis unfolding paid_in(4)
  proof (rule outbox_ok_credit [OF ok, where h = h])
    show "stored_event ?g = stored_event g" by (rule views_cong) simp
    show "end_view ?g = end_view g" by (rule views_cong) simp
    show "credit_view ?g = (credit_view g)(h := Some (credit_event now h p))"
      by (rule ext) (simp add: credit_view_def row_update c)
    show "credit_view g h = None" using paid_in(1,2) by (simp add: credit_view_def credit_of_def)
    show "event_id (credit_event now h p) = ''dep:'' @ h" by (simp add: credit_event_def deposit_event_id_def)
  qed
qed

lemma outbox_terminal:
  assumes r: "terminal_tx now i p reason g = Inr g'" and d: "distinct (keys (g_payouts g))" and ok: "outbox_ok g"
    and w: "worker_ok c outcome (g_payouts g) (W_terminal i l p reason)"
  shows "outbox_ok g'"
proof -
  have "outbox_ok (enqueue_webhook now (terminal_event i p reason) g1)"
    if v: "row (g_payouts g) i = Some v" "is_open_payout v"
      and g1: "g_deliveries g1 = g_deliveries g" "g_payments g1 = g_payments g"
        "g_payouts g1 = AList.update i (ended_payout now reason v) (g_payouts g)" for v g1
  proof (rule outbox_ok_end [OF ok, where i = i])
    have s: "same_payout p v" using w v(1) by auto
    have e: "end_of i (ended_payout now reason v) = Some (terminal_event i p reason)"
    proof (cases reason)
      case None
      then have "po_tx_hash v = po_tx_hash p" using w v(1) by auto
      then show ?thesis using None s by (simp add: end_of_def ended_payout_def terminal_event_def same_payout_def)
    next
      case (Some r)
      then show ?thesis using s by (simp add: end_of_def ended_payout_def terminal_event_def same_payout_def)
    qed
    show "end_view g i = None" using v by (auto simp: end_view_def end_of_def is_open_payout_def)
    show "end_view g1 = (end_view g)(i := Some (terminal_event i p reason))"
      by (rule ext) (simp add: end_view_def g1 row_update e)
    show "event_id (terminal_event i p reason) = ''paid:'' @ i \<or> event_id (terminal_event i p reason) = ''failed:'' @ i"
      by (simp add: terminal_event_id)
    show "stored_event g1 = stored_event g" by (rule views_cong) (rule g1)
    show "credit_view g1 = credit_view g" by (rule views_cong) (rule g1)
  qed
  note step = this
  show ?thesis
  proof (cases rule: terminal_tx_cases [OF r d, case_names lost kept refunded])
    case (kept v)
    show ?thesis unfolding kept(4) by (rule step [OF kept(1,2)]) simp_all
  next
    case (refunded v u)
    show ?thesis unfolding refunded(6) by (rule step [OF refunded(1,2)]) simp_all
  qed (use ok in simp)
qed

end
