(* ===== verification/GatewayRuns.thy ===== *)
theory GatewayRuns
  imports GatewayEvents
begin

text \<open>
  The gateway as a whole: every reachable state of the system of interleaved calls keeps the balances,
  the outbox and the payouts in order (\<open>system_ok\<close>). The properties of the gateway are read off it.
\<close>

section \<open>The remaining calls and the outbox\<close>

lemma outbox_frame:
  "g_deliveries g' = g_deliveries g \<Longrightarrow> g_payments g' = g_payments g \<Longrightarrow> end_view g' = end_view g \<Longrightarrow>
     outbox_ok g' = outbox_ok g"
  by (rule outbox_ok_cong [OF views_cong(1) views_cong(2)])

text \<open>A statement on the payouts that changes no payout's end.\<close>

lemma outbox_statement:
  assumes "outbox_ok g" and "g_deliveries g' = g_deliveries g" and "g_payments g' = g_payments g"
    and "g_payouts g' = snd (update_many p f (g_payouts g))"
    and "\<And>i v. row (g_payouts g) i = Some v \<Longrightarrow> p i v \<Longrightarrow> end_of i (f v) = end_of i v"
  shows "outbox_ok g'"
  using outbox_frame [OF assms(2,3) end_view_update_many [OF assms(4)]] assms(1,5) by blast

lemma end_of_open: "is_open_payout v \<Longrightarrow> end_of i v = None"
  by (auto simp: end_of_def is_open_payout_def)

lemma end_of_lease: "end_of i (v\<lparr>po_lease := l, po_updated_at := t\<rparr>) = end_of i v"
  by (simp add: end_of_def terminal_event_def split: payout_status.split option.split)

lemma outbox_claim:
  assumes "claim_payout now i g = (won, g')" and "outbox_ok g"
  shows "outbox_ok g'"
  by (rule outbox_statement [OF assms(2), where p = "\<lambda>k p. k = i \<and> is_open_payout p \<and> (case po_lease p of None \<Rightarrow> True | Some l \<Rightarrow> l \<le> now)"
        and f = "\<lambda>p. p\<lparr>po_lease := Some (now + lease_time), po_updated_at := now\<rparr>"])
     (use assms(1) in \<open>auto simp: claim_payout_def end_of_lease split: prod.splits\<close>)

lemma outbox_note: "outbox_ok g \<Longrightarrow> outbox_ok (note_failure now i m g)"
  by (rule outbox_statement [where p = "\<lambda>k v. k = i \<and> is_open_payout v" and f = "\<lambda>v. v\<lparr>po_fail := Some (take 500 m), po_updated_at := now\<rparr>"])
     (auto simp: note_failure_def end_of_def is_open_payout_def)

lemma outbox_release: "outbox_ok g \<Longrightarrow> outbox_ok (release_lease now i l g)"
  by (rule outbox_statement [where p = "\<lambda>k v. k = i \<and> po_lease v = Some l" and f = "\<lambda>v. v\<lparr>po_lease := None, po_updated_at := now\<rparr>"])
     (simp_all add: release_lease_def end_of_lease)

lemma outbox_persist:
  assumes r: "persist_signed now i s g = Inr (stored, g')" and o: "outbox_ok g" and ok: "payouts_ok c outcome (g_payouts g)"
  shows "outbox_ok g'"
proof (rule outbox_statement [OF o])
  let ?p = "\<lambda>k v. k = i \<and> po_tx_hash v = None \<and> (case po_lease v of None \<Rightarrow> False | Some l \<Rightarrow> now < l)"
  let ?f = "\<lambda>v. v\<lparr>po_status := PO_processing, po_signed := Some s, po_tx_hash := Some (tx_id s), po_updated_at := now\<rparr>"
  show "g_deliveries g' = g_deliveries g" "g_payments g' = g_payments g" "g_payouts g' = snd (update_many ?p ?f (g_payouts g))"
    using r by (auto simp: persist_signed_def Let_def split: prod.splits if_splits)
  fix k v assume "row (g_payouts g) k = Some v" "?p k v"
  then have "payout_ok c outcome v" "po_lease v \<noteq> None" using payouts_okD [OF ok] by (auto split: option.splits)
  then have "is_open_payout v" unfolding payout_ok_def by blast
  then show "end_of k (?f v) = end_of k v" by (simp add: end_of_open) (simp add: end_of_def)
qed

lemma outbox_payout_step:
  assumes r: "payout_step c node now w g = (w', g', sent)" and m: "money_ok g" and o: "outbox_ok g"
    and ok: "payouts_ok c outcome (g_payouts g)" and w: "worker_ok c outcome (g_payouts g) w"
  shows "outbox_ok g'"
proof (cases w)
  case (W_claim i)
  then show ?thesis using r outbox_claim [OF _ o] by (auto split: prod.splits if_splits)
next
  case (W_terminal i l p reason)
  then show ?thesis using r o w outbox_terminal [OF _ money_okD(3) [OF m] o] by (auto split: sum.splits)
next
  case (W_persist i l p s)
  then show ?thesis using r o outbox_persist [OF _ o ok] by (auto split: sum.splits bool.splits)
qed (use r o outbox_note [OF o] outbox_release [OF o] in \<open>auto split: option.splits sum.splits\<close>)

text \<open>A tick of the scanner.\<close>

definition scan_outbox :: "gateway_state \<Rightarrow> bool" where
  "scan_outbox g \<longleftrightarrow> distinct (keys (g_payments g)) \<and> outbox_ok g"

lemma detect_cases:
  assumes "detect_transfer c now t g = (r, g')"
  obtains (nothing) "g' = g"
    | (found) p where "row (g_payments g) (tr_hash t) = None" "cp_status p = CP_detected"
        "g' = g\<lparr>g_payments := insert_row (tr_hash t) p (g_payments g)\<rparr>"
proof (cases "user_at (tr_to t) g")
  case None
  then show ?thesis using assms that(1) by (simp add: detect_transfer_def)
next
  case (Some a)
  show ?thesis
  proof (cases "tr_amount t < gc_min_deposit c \<or> row (g_payments g) (tr_hash t) \<noteq> None")
    case True
    then have "g' = g" using assms Some
      by (auto simp: detect_transfer_def simp del: map_of_eq_Some_iff split: prod.splits if_splits)
    then show ?thesis by (rule that(1))
  next
    case False
    then show ?thesis using assms Some
      by (cases a) (auto simp: detect_transfer_def simp del: map_of_eq_Some_iff intro: that(2) [rotated 2])
  qed
qed

interpretation scanned_outbox: scan_contract scan_outbox c
proof
  show "scan_outbox g \<Longrightarrow> distinct (keys (g_payments g))" for g by (simp add: scan_outbox_def)
next
  fix now t g r g' assume r: "detect_transfer c now t g = (r, g')" and o: "scan_outbox g"
  from r show "scan_outbox g'"
  proof (cases rule: detect_cases)
    case (found p)
    have "outbox_ok (g\<lparr>g_payments := insert_row (tr_hash t) p (g_payments g)\<rparr>) = outbox_ok g"
      by (rule outbox_ok_cong [OF views_cong(1) credit_view_insert [OF found(1)] views_cong(3)])
         (simp_all add: credit_of_def found(2))
    then show ?thesis using o found by (simp add: scan_outbox_def row_None_iff)
  qed (use o in simp)
next
  fix g h p n assume p: "row (g_payments g) h = Some p" and o: "scan_outbox g"
  show "scan_outbox (g\<lparr>g_payments := AList.update h (p\<lparr>cp_confirmations := n\<rparr>) (g_payments g)\<rparr>)"
    using outbox_ok_payment [OF p, of "p\<lparr>cp_confirmations := n\<rparr>"] o p
    by (simp add: scan_outbox_def credit_of_def credit_event_def)
next
  fix g h p assume p: "row (g_payments g) h = Some p" "cp_status p = CP_detected" and o: "scan_outbox g"
  show "scan_outbox (g\<lparr>g_payments := AList.update h (p\<lparr>cp_status := CP_held\<rparr>) (g_payments g)\<rparr>)"
    using outbox_ok_payment [OF p(1), of "p\<lparr>cp_status := CP_held\<rparr>"] o p
    by (simp add: scan_outbox_def credit_of_def)
next
  fix now h g g' assume r: "credit_payment now h g = Inr g'" and o: "scan_outbox g"
  have d: "distinct (keys (g_payments g))" using o by (simp add: scan_outbox_def)
  have "keys (g_payments g') = keys (g_payments g)"
    by (cases rule: credit_payment_cases [OF r d, case_names nothing paid_in]) simp_all
  then show "scan_outbox g'" using outbox_credit [OF r d] o by (simp add: scan_outbox_def)
next
  fix g b assume o: "scan_outbox g"
  have "outbox_ok (g\<lparr>g_last_block := b\<rparr>) = outbox_ok g"
    by (rule outbox_frame [OF _ _ views_cong(3)]) simp_all
  then show "scan_outbox (g\<lparr>g_last_block := b\<rparr>)" using o by (simp add: scan_outbox_def)
qed

text \<open>Delivering events changes when they are posted, not what they say.\<close>

lemma lease_stored:
  assumes "lease_delivery now t1 e g = (b, g')"
  shows "stored_event g' = stored_event g"
proof -
  have "g_deliveries g' = snd (update_many (\<lambda>k v. k = e \<and> delivery_due now v)
      (\<lambda>v. v\<lparr>de_next_retry := Some (t1 + 120000)\<rparr>) (g_deliveries g))"
    using assms by (auto simp: lease_delivery_def split: prod.splits)
  then show ?thesis
    by (auto simp: fun_eq_iff stored_event_def row_update_many option.map_comp comp_def intro!: map_option_cong)
qed

lemma finish_stored:
  assumes "finish_delivery t2 answer e d g = Inr g'"
  shows "stored_event g' = stored_event g"
  using assms by (auto simp: finish_delivery_def bindE_eq_Inr update_row_eq_Inr stored_event_def row_update fun_eq_iff
      simp del: map_of_eq_Some_iff split: option.splits)

lemma gateway_call_outbox:
  assumes "gateway_call g g'" and m: "money_ok g" and o: "outbox_ok g"
  shows "outbox_ok g'"
  using assms(1)
proof cases
  case Register_user
  then show ?thesis using ensure_frame outbox_frame [OF _ _ views_cong(3)] o by metis
next
  case (Order_payout o' now x)
  obtain k p where x: "x = (k, p)" by (cases x)
  obtain g1 where 1: "debit_user o' g = Inr g1" "row (g_payouts g1) k = None"
    and g': "g' = g1\<lparr>g_payouts := insert_row k p (g_payouts g1), g_next_id := Suc (g_next_id g1)\<rparr>"
    and p: "po_status p = PO_pending"
    using withdrawal_tx_cases [OF Order_payout(4) [unfolded x]] by blast
  have e: "g_payouts g1 = g_payouts g" "g_deliveries g1 = g_deliveries g" "g_payments g1 = g_payments g"
    using debit_user_cases [OF 1(1) money_okD(1) [OF m]] by (cases; simp)+
  have "end_view g' = end_view g" by (rule end_view_insert) (use 1(2) p in \<open>simp_all add: g' e\<close>)
  then show ?thesis using outbox_frame [of g' g] o by (simp add: g' e)
next
  case Scan_chain
  then show ?thesis using scanned_outbox.tick o money_okD(2) [OF m] by (fastforce simp: scan_outbox_def)
next
  case Lease_event
  then show ?thesis
    using outbox_ok_cong [OF lease_stored views_cong(2) views_cong(3)] lease_frame o by metis
next
  case Settle_event
  then show ?thesis
    using outbox_ok_cong [OF finish_stored views_cong(2) views_cong(3)] finish_frame o by metis
qed

section \<open>Every reachable state\<close>

definition system_ok :: "gateway_config \<Rightarrow> (string \<Rightarrow> string option) \<Rightarrow> signer_system \<Rightarrow> bool" where
  "system_ok c outcome s \<longleftrightarrow> money_ok (sy_db s) \<and> outbox_ok (sy_db s) \<and> payouts_ok c outcome (g_payouts (sy_db s))
     \<and> (\<forall>w \<in> set (sy_workers s). worker_ok c outcome (g_payouts (sy_db s)) w)
     \<and> (\<forall>(i, x) \<in> set (sy_sent s). \<exists>q. row (g_payouts (sy_db s)) i = Some q \<and> po_signed q = Some x)"

lemma system_ok_start: "system_ok c outcome (signer_start f)"
  by (simp add: system_ok_def signer_start_def empty_gateway_def money_ok_def outbox_ok_def stored_event_def called_for_def
      credit_view_def end_view_def payouts_ok_def)

lemma sent_keep:
  assumes "payouts_keep t t'" and "\<exists>q. row t i = Some q \<and> po_signed q = Some x"
  shows "\<exists>q. row t' i = Some q \<and> po_signed q = Some x"
  using assms by (fastforce simp: payouts_keep_def keeps_def)

lemma system_ok_step:
  assumes "signer_step c outcome s s'" and ok: "system_ok c outcome s"
  shows "system_ok c outcome s'"
  using assms(1)
proof cases
  case (Start_worker i)
  then show ?thesis using ok by (simp add: system_ok_def)
next
  case (Run_worker n node now w' g' sent)
  let ?w = "sy_workers s ! n" let ?t = "g_payouts (sy_db s)"
  have parts: "money_ok (sy_db s)" "outbox_ok (sy_db s)" "payouts_ok c outcome ?t" "worker_ok c outcome ?t ?w"
    and ws: "\<And>w. w \<in> set (sy_workers s) \<Longrightarrow> worker_ok c outcome ?t w"
    and old: "\<forall>(i, x) \<in> set (sy_sent s). \<exists>q. row ?t i = Some q \<and> po_signed q = Some x"
    using ok Run_worker(2) unfolding system_ok_def by auto
  note st = payout_step_ok [OF Run_worker(4) parts(3,4) Run_worker(3)]
  have "worker_ok c outcome (g_payouts g') w" if "w \<in> set ((sy_workers s)[n := w'])" for w
    using set_update_subset_insert [of "sy_workers s" n w'] that st worker_ok_keep [of ?t "g_payouts g'"] ws by blast
  moreover have "\<forall>(i, x) \<in> set (sy_sent s @ sent). \<exists>q. row (g_payouts g') i = Some q \<and> po_signed q = Some x"
    using old st sent_keep [of ?t "g_payouts g'"] by (auto simp del: map_of_eq_Some_iff)
  ultimately show ?thesis
    using money_ok_payout_step [OF Run_worker(4) parts(1,3,4)] outbox_payout_step [OF Run_worker(4) parts] st
    by (simp add: system_ok_def Run_worker(1))
next
  case (Other_call g')
  have parts: "money_ok (sy_db s)" "outbox_ok (sy_db s)" "payouts_ok c outcome (g_payouts (sy_db s))"
    using ok by (simp_all add: system_ok_def)
  note k = gateway_call_payouts [OF Other_call(2) parts(1,3)]
  have "\<forall>(i, x) \<in> set (sy_sent s). \<exists>q. row (g_payouts g') i = Some q \<and> po_signed q = Some x"
    using ok k sent_keep [of "g_payouts (sy_db s)" "g_payouts g'"] by (auto simp: system_ok_def simp del: map_of_eq_Some_iff)
  moreover have "\<forall>w \<in> set (sy_workers s). worker_ok c outcome (g_payouts g') w"
    using ok k worker_ok_keep by (auto simp: system_ok_def)
  ultimately show ?thesis using k gateway_call_money [OF Other_call(2) parts(1)] gateway_call_outbox [OF Other_call(2) parts(1,2)]
    by (simp add: system_ok_def Other_call(1))
qed

lemma reachable_ok:
  assumes "signer_reachable c outcome f s"
  shows "system_ok c outcome s"
  using assms unfolding signer_reachable_def
  by (induction rule: rtranclp_induct) (auto intro: system_ok_start system_ok_step)

section \<open>Runs written as programs\<close>

definition do_start :: "id \<Rightarrow> signer_system \<Rightarrow> signer_system" where
  "do_start i s = s\<lparr>sy_workers := sy_workers s @ [W_claim i]\<rparr>"

definition do_worker :: "gateway_config \<Rightarrow> tron_node \<Rightarrow> int \<Rightarrow> nat \<Rightarrow> signer_system \<Rightarrow> signer_system" where
  "do_worker c node now n s =
     (if n < length (sy_workers s)
      then let (w', g', sent) = payout_step c node now (sy_workers s ! n) (sy_db s)
           in \<lparr>sy_db = g', sy_workers = (sy_workers s)[n := w'], sy_sent = sy_sent s @ sent\<rparr>
      else s)"

definition do_order :: "int \<Rightarrow> payout_order \<Rightarrow> signer_system \<Rightarrow> signer_system" where
  "do_order now o' s =
     (if 0 < ord_amount o' \<and> 0 \<le> ord_fee o' \<and> row (g_users (sy_db s)) (ord_user o') \<noteq> None
      then case withdrawal_tx now o' (sy_db s) of Inl _ \<Rightarrow> s | Inr (_, g) \<Rightarrow> s\<lparr>sy_db := g\<rparr>
      else s)"

definition do_register :: "key_lib \<Rightarrow> string \<Rightarrow> string \<Rightarrow> int \<Rightarrow> id \<Rightarrow> signer_system \<Rightarrow> signer_system" where
  "do_register lib mnemonic xpub now u s = s\<lparr>sy_db := snd (ensure_gateway_user lib mnemonic xpub now u (sy_db s))\<rparr>"

definition do_scan :: "gateway_config \<Rightarrow> tron_grid \<Rightarrow> int \<Rightarrow> signer_system \<Rightarrow> signer_system" where
  "do_scan c tg now s = (if 0 \<le> gc_min_deposit c then s\<lparr>sy_db := snd (run_scanner_tick True c tg now (sy_db s))\<rparr> else s)"

lemma reach_step: "signer_reachable c outcome f s \<Longrightarrow> signer_step c outcome s s' \<Longrightarrow> signer_reachable c outcome f s'"
  by (simp add: signer_reachable_def)

lemma reach_refl: "signer_reachable c outcome f (signer_start f)"
  by (simp add: signer_reachable_def)

lemma reach_do:
  assumes r: "signer_reachable c outcome f s"
  shows "signer_reachable c outcome f (do_start i s)"
    and "honest outcome node \<Longrightarrow> signer_reachable c outcome f (do_worker c node now n s)"
    and "signer_reachable c outcome f (do_order now o' s)"
    and "signer_reachable c outcome f (do_register lib mn xp now u s)"
    and "signer_reachable c outcome f (do_scan c' tg now s)"
proof -
  show "signer_reachable c outcome f (do_start i s)"
    unfolding do_start_def by (rule reach_step [OF r Start_worker])
  show "honest outcome node \<Longrightarrow> signer_reachable c outcome f (do_worker c node now n s)"
    using r reach_step [OF r Run_worker] by (auto simp: do_worker_def split: prod.split)
  show "signer_reachable c outcome f (do_order now o' s)"
    using r reach_step [OF r Other_call [OF Order_payout]] by (auto simp: do_order_def split: sum.split)
  show "signer_reachable c outcome f (do_register lib mn xp now u s)"
    unfolding do_register_def by (rule reach_step [OF r Other_call [OF Register_user]]) (rule surjective_pairing)
  show "signer_reachable c outcome f (do_scan c' tg now s)"
    using r reach_step [OF r Other_call [OF Scan_chain [OF _ surjective_pairing]]] by (simp add: do_scan_def)
qed

definition do_run :: "gateway_config \<Rightarrow> tron_node \<Rightarrow> nat \<Rightarrow> int list \<Rightarrow> signer_system \<Rightarrow> signer_system" where
  "do_run c node n ts s = fold (\<lambda>t s. do_worker c node t n s) ts s"

lemma reach_run:
  "honest outcome node \<Longrightarrow> signer_reachable c outcome f s \<Longrightarrow> signer_reachable c outcome f (do_run c node n ts s)"
  by (induction ts arbitrary: s) (auto simp: do_run_def intro: reach_do)

text \<open>
  A run: a user pays in 100 and asks for a payout of 60 with a fee of 1. One call builds, stores and
  broadcasts the transaction; a second one finds it confirmed and ends the payout.
\<close>

definition demo_gateway :: gateway_config where
  "demo_gateway = \<lparr>gc_port = Some 3100, gc_api_key = ''k'', gc_webhook_secret = ''s'', gc_webhook_url = ''u'',
     gc_usdt_contract = ''c'', gc_min_confirmations = Some 2, gc_min_deposit = 10, gc_hot_wallet = ''h'',
     gc_sweep_hours = Some 6, gc_withdrawal_fee = 1, gc_max_withdrawal = 1000, gc_mnemonic = ''m'', gc_xpub = ''x''\<rparr>"

definition demo_keys :: key_lib where
  "demo_keys = \<lparr>kl_mnemonic = (\<lambda>m i. Inr ''a''), kl_xpub = (\<lambda>x i. Inr ''a'')\<rparr>"

definition demo_grid :: tron_grid where
  "demo_grid = mock_tron_grid [\<lparr>tr_hash = ''d'', tr_to = ''a'', tr_from = ''z'', tr_amount = 100, tr_block = 5,
     tr_confirmations = 1\<rparr>] 10"

definition demo_order :: payout_order where
  "demo_order = \<lparr>ord_user = ''u'', ord_to = ''b'', ord_amount = 60, ord_fee = 1, ord_external = ''e'',
     ord_source = Gateway_balance\<rparr>"

definition demo_tx :: signed_tx where
  "demo_tx = \<lparr>tx_id = ''t'', tx_expiration = 1000, tx_raw = ''r''\<rparr>"

definition demo_node :: "bool \<Rightarrow> tron_node" where
  "demo_node included = \<lparr>tn_trigger = (\<lambda>c to a h. Inr (Some ''r'')), tn_sign = (\<lambda>r. Inr demo_tx),
     tn_info = (\<lambda>h. Inr (if included \<and> h = ''t'' then Some \<lparr>tx_info_id = ''t'', tx_info_block = Some 20,
       tx_info_receipt = Some ''SUCCESS'',
       tx_info_logs = [\<lparr>lo_address = ''c'', lo_topics = [transfer_topic, ''h'', ''b''], lo_data = ''3c''\<rparr>]\<rparr> else None)),
     tn_block = Inr 30, tn_confirmed = (\<lambda>h. Inr (Some h)), tn_send = (\<lambda>x. Inr ()), tn_hex = id\<rparr>"

definition demo_outcome :: "string \<Rightarrow> string option" where
  "demo_outcome h = (if h = ''t'' then Some ''SUCCESS'' else None)"

definition demo_sent :: signer_system where
  "demo_sent = do_run demo_gateway (demo_node False) 0 [1, 2, 3, 4, 5, 6, 7]
     (do_start ''w'' (do_order 0 demo_order (do_scan demo_gateway demo_grid 0
       (do_register demo_keys ''m'' ''x'' 0 ''u'' (signer_start (\<lambda>n. ''w''))))))"

definition demo_paid :: signer_system where
  "demo_paid = do_run demo_gateway (demo_node True) 1 [8, 9, 10, 11, 12] (do_start ''w'' demo_sent)"

lemma demo_honest: "honest demo_outcome (demo_node b)"
  by (auto simp: honest_def demo_node_def demo_outcome_def split: if_splits)

lemma demo_paid_reachable: "signer_reachable demo_gateway demo_outcome (\<lambda>n. ''w'') demo_paid"
  unfolding demo_paid_def demo_sent_def by (intro reach_run reach_do reach_refl demo_honest)

lemma demo_paid_facts:
  "let s = demo_paid; g = sy_db s in
     sy_sent s = [(''w'', demo_tx)]
     \<and> List.map (\<lambda>(i, p). (i, po_status p, po_tx_hash p, po_lease p)) (g_payouts g) = [(''w'', PO_paid, Some ''t'', None)]
     \<and> List.map (\<lambda>(k, u). (k, gu_balance u)) (g_users g) = [(''u'', 39)]
     \<and> keys (g_deliveries g) = [''dep:d'', ''paid:w'']"
  by code_simp

section \<open>Properties\<close>

lemma payouts_ok_unique:
  "payouts_ok c outcome t \<Longrightarrow> row t i = Some p \<Longrightarrow> row t j = Some q \<Longrightarrow> po_tx_hash p = Some h \<Longrightarrow>
     po_tx_hash q = Some h \<Longrightarrow> i = j"
  unfolding payouts_ok_def by blast

text \<open>
  C7: However calls of \<open>processPayout\<close> interleave, with each other and with the rest of the gateway,
  all broadcasts of a withdrawal are the one transaction stored in its row, no transaction serves
  two withdrawals, none exceeds the limit, and a withdrawal whose transaction succeeded on the chain
  is never failed (and refunded), one that is marked as paid has succeeded.
\<close>

theorem payout_sent_once:
  assumes "signer_reachable c outcome f s" and "(i, x) \<in> set (sy_sent s)"
  shows "(\<exists>q. row (g_payouts (sy_db s)) i = Some q \<and> po_signed q = Some x \<and> po_tx_hash q = Some (tx_id x)
             \<and> po_amount q \<le> gc_max_withdrawal c
             \<and> (po_status q = PO_failed \<longrightarrow> outcome (tx_id x) \<noteq> Some ''SUCCESS'')
             \<and> (po_status q = PO_paid \<longrightarrow> outcome (tx_id x) = Some ''SUCCESS''))
    \<and> (\<forall>j y. (j, y) \<in> set (sy_sent s) \<longrightarrow> (j = i \<longleftrightarrow> tx_id y = tx_id x) \<and> (j = i \<longrightarrow> y = x))"
proof -
  have ok: "payouts_ok c outcome (g_payouts (sy_db s))"
    and sent: "\<And>j y. (j, y) \<in> set (sy_sent s) \<Longrightarrow> \<exists>q. row (g_payouts (sy_db s)) j = Some q \<and> po_signed q = Some y"
    using reachable_ok [OF assms(1)] unfolding system_ok_def by blast+
  obtain q where q: "row (g_payouts (sy_db s)) i = Some q" "po_signed q = Some x" using sent [OF assms(2)] by blast
  have qok: "payout_ok c outcome q" by (rule payouts_okD [OF ok q(1)])
  have "(j = i \<longleftrightarrow> tx_id y = tx_id x) \<and> (j = i \<longrightarrow> y = x)" if m: "(j, y) \<in> set (sy_sent s)" for j y
  proof -
    obtain r where r: "row (g_payouts (sy_db s)) j = Some r" "po_signed r = Some y" using sent [OF m] by blast
    have h: "po_tx_hash r = Some (tx_id y)" "po_tx_hash q = Some (tx_id x)"
      using payouts_okD [OF ok r(1), unfolded payout_ok_def] qok [unfolded payout_ok_def] r(2) q(2) by simp_all
    have "j = i" if "tx_id y = tx_id x"
      using payouts_ok_unique [OF ok r(1) q(1) h(1)] h(2) that by simp
    moreover have "y = x" if "j = i" using q r that by simp
    ultimately show ?thesis by blast
  qed
  then have rest: "\<forall>j y. (j, y) \<in> set (sy_sent s) \<longrightarrow> (j = i \<longleftrightarrow> tx_id y = tx_id x) \<and> (j = i \<longrightarrow> y = x)" by blast
  have "po_tx_hash q = Some (tx_id x) \<and> po_amount q \<le> gc_max_withdrawal c
      \<and> (po_status q = PO_failed \<longrightarrow> outcome (tx_id x) \<noteq> Some ''SUCCESS'')
      \<and> (po_status q = PO_paid \<longrightarrow> outcome (tx_id x) = Some ''SUCCESS'')"
    using qok q(2) by (simp add: payout_ok_def)
  with q rest show ?thesis by blast
qed

theorem payout_sent_once_witness:
  "(''w'', demo_tx) \<in> set (sy_sent demo_paid)
   \<and> (\<exists>q. row (g_payouts (sy_db demo_paid)) ''w'' = Some q \<and> po_signed q = Some demo_tx)"
proof -
  have m: "(''w'', demo_tx) \<in> set (sy_sent demo_paid)" using demo_paid_facts by (simp add: Let_def)
  show ?thesis using m payout_sent_once [OF demo_paid_reachable m] by blast
qed

text \<open>
  C8: In every reachable state of the gateway the balance of a user is the sum of the user's credited
  payments minus the amounts and fees of the withdrawals taken from it that did not fail, and it is
  not negative: a deposit is credited once, a failed withdrawal is refunded once.
\<close>

theorem gateway_balances_exact:
  assumes "signer_reachable c outcome f s" and "row (g_users (sy_db s)) u = Some r"
  shows "gu_balance r =
      (\<Sum>(h, p) \<leftarrow> g_payments (sy_db s). if cp_user p = u \<and> cp_status p = CP_credited then cp_amount p else 0)
      - (\<Sum>(i, p) \<leftarrow> g_payouts (sy_db s).
           if po_user p = u \<and> po_source p = Gateway_balance \<and> po_status p \<noteq> PO_failed then po_amount p + po_fee p else 0)
    \<and> 0 \<le> gu_balance r"
proof -
  have "money_ok (sy_db s)" using reachable_ok [OF assms(1)] by (simp add: system_ok_def)
  from money_okD(4,5) [OF this assms(2)] show ?thesis
    by (simp add: credits_of_def debits_of_def credit_part_def debit_part_def tsum_def)
qed

theorem gateway_balances_exact_witness: "map_option gu_balance (row (g_users (sy_db demo_paid)) ''u'') = Some 39"
proof -
  have "List.map (\<lambda>(k, u). (k, gu_balance u)) (g_users (sy_db demo_paid)) = [(''u'', 39)]"
    using demo_paid_facts by (simp add: Let_def)
  then obtain r where r: "row (g_users (sy_db demo_paid)) ''u'' = Some r" "gu_balance r = 39" by auto
  from gateway_balances_exact [OF demo_paid_reachable r(1)] r show ?thesis by simp
qed

text \<open>
  C13: The outbox of the gateway is exact: in every reachable state the stored events are one per
  credited payment, per paid and per failed withdrawal, each under its own identifier and with the
  data of that row, and there are no others.
\<close>

theorem outbox_exact:
  assumes "signer_reachable c outcome f s"
  shows "(\<exists>d. row (g_deliveries (sy_db s)) e = Some d \<and> de_payload d = ev) \<longleftrightarrow>
     event_id ev = e
     \<and> ((\<exists>h p. row (g_payments (sy_db s)) h = Some p \<and> cp_status p = CP_credited
           \<and> ev = credit_event (the (cp_credited_at p)) h p)
        \<or> (\<exists>i q. row (g_payouts (sy_db s)) i = Some q \<and> po_status q = PO_paid \<and> ev = terminal_event i q None)
        \<or> (\<exists>i q. row (g_payouts (sy_db s)) i = Some q \<and> po_status q = PO_failed
             \<and> ev = terminal_event i q (Some (the (po_fail q)))))"
proof -
  let ?g = "sy_db s"
  have ok: "outbox_ok ?g" using reachable_ok [OF assms] by (simp add: system_ok_def)
  have 1: "(\<exists>h. credit_view ?g h = Some ev) \<longleftrightarrow>
      (\<exists>h p. row (g_payments ?g) h = Some p \<and> cp_status p = CP_credited \<and> ev = credit_event (the (cp_credited_at p)) h p)"
    by (auto simp: credit_view_def credit_of_def simp del: map_of_eq_Some_iff split: option.splits if_splits)
  have 2: "end_of i q = Some ev \<longleftrightarrow> po_status q = PO_paid \<and> ev = terminal_event i q None
      \<or> po_status q = PO_failed \<and> ev = terminal_event i q (Some (the (po_fail q)))" for i q
    by (cases "po_status q") (auto simp: end_of_def)
  have 3: "(\<exists>i. end_view ?g i = Some ev) \<longleftrightarrow> (\<exists>i q. row (g_payouts ?g) i = Some q \<and> end_of i q = Some ev)"
    by (auto simp: end_view_def simp del: map_of_eq_Some_iff split: option.splits)
  have 4: "(\<exists>d. row (g_deliveries ?g) e = Some d \<and> de_payload d = ev) \<longleftrightarrow> stored_event ?g e = Some ev"
    by (auto simp: stored_event_def simp del: map_of_eq_Some_iff)
  have "stored_event ?g e = Some ev \<longleftrightarrow> event_id ev = e \<and> called_for ?g ev" using ok by (simp add: outbox_ok_def)
  then show ?thesis unfolding 4 called_for_def 1 3 2 by blast
qed

theorem outbox_exact_witness:
  "(\<exists>d. row (g_deliveries (sy_db demo_paid)) ''paid:w'' = Some d)
   \<and> (\<exists>q. row (g_payouts (sy_db demo_paid)) ''w'' = Some q \<and> po_status q = PO_paid)"
proof -
  have "keys (g_deliveries (sy_db demo_paid)) = [''dep:d'', ''paid:w'']"
    and p: "List.map (\<lambda>(i, p). (i, po_status p, po_tx_hash p, po_lease p)) (g_payouts (sy_db demo_paid))
      = [(''w'', PO_paid, Some ''t'', None)]"
    using demo_paid_facts by (simp_all add: Let_def)
  from p obtain q where q: "row (g_payouts (sy_db demo_paid)) ''w'' = Some q" "po_status q = PO_paid" by auto
  have "event_id (terminal_event ''w'' q None) = ''paid:w''" by (simp add: terminal_event_id)
  then show ?thesis
    using outbox_exact [OF demo_paid_reachable, of "''paid:w''" "terminal_event ''w'' q None"] q by blast
qed

end
