(* ===== verification/GatewayDeposits.thy ===== *)
theory GatewayDeposits
  imports GatewayScans
begin

text \<open>
  What the scanner books and what it misses. A booked transaction keeps its user, its address and
  its amount for good. A deposit that is not yet among the answers when its block is scanned is
  never found: the checkpoint has passed it.
\<close>

section \<open>Runs of the scanner\<close>

definition run_ticks :: "gateway_config \<Rightarrow> (tron_grid \<times> int) list \<Rightarrow> gateway_state \<Rightarrow> gateway_state" where
  "run_ticks c ticks g = fold (\<lambda>(tg, now) g. snd (run_scanner_tick True c tg now g)) ticks g"

lemma run_ticks_invariant:
  assumes "\<And>tg now g. (tg, now) \<in> set ticks \<Longrightarrow> P g \<Longrightarrow> P (snd (run_scanner_tick True c tg now g))" and "P g"
  shows "P (run_ticks c ticks g)"
  using assms by (induction ticks arbitrary: g) (auto simp: run_ticks_def)

section \<open>A booked transaction\<close>

definition booked_as :: "string \<Rightarrow> id \<Rightarrow> string \<Rightarrow> int \<Rightarrow> gateway_state \<Rightarrow> bool" where
  "booked_as h u a n g \<longleftrightarrow> distinct (keys (g_payments g))
     \<and> (\<exists>p. row (g_payments g) h = Some p \<and> cp_user p = u \<and> cp_address p = a \<and> cp_amount p = n)"

lemma detect_rows:
  assumes "detect_transfer c now t g = (r, g')" and "distinct (keys (g_payments g))"
  shows "distinct (keys (g_payments g')) \<and> (\<forall>h p. row (g_payments g) h = Some p \<longrightarrow> row (g_payments g') h = Some p)
    \<and> (\<forall>h. row (g_payments g') h \<noteq> None \<longrightarrow> row (g_payments g) h \<noteq> None \<or> h = tr_hash t)
    \<and> g_last_block g' = g_last_block g"
proof (cases "user_at (tr_to t) g")
  case None
  then show ?thesis using assms by (simp add: detect_transfer_def)
next
  case (Some a)
  show ?thesis
  proof (cases "tr_amount t < gc_min_deposit c \<or> row (g_payments g) (tr_hash t) \<noteq> None")
    case True
    then have "g' = g" using assms Some
      by (auto simp: detect_transfer_def simp del: map_of_eq_Some_iff split: prod.splits if_splits)
    then show ?thesis using assms(2) by simp
  next
    case False
    then show ?thesis using assms Some
      by (cases a) (auto simp: detect_transfer_def row_insert_row row_None_iff [symmetric] simp del: map_of_eq_Some_iff)
  qed
qed

interpretation booked: scan_contract "booked_as h u a n" c
proof
  show "booked_as h u a n g \<Longrightarrow> distinct (keys (g_payments g))" for g by (simp add: booked_as_def)
  show "detect_transfer c now t g = (r, g') \<Longrightarrow> booked_as h u a n g \<Longrightarrow> booked_as h u a n g'" for now t g r g'
    using detect_rows unfolding booked_as_def by blast
  show "row (g_payments g) k = Some p \<Longrightarrow> booked_as h u a n g \<Longrightarrow>
      booked_as h u a n (g\<lparr>g_payments := AList.update k (p\<lparr>cp_confirmations := m\<rparr>) (g_payments g)\<rparr>)" for g k p m
    by (auto simp: booked_as_def row_update simp del: map_of_eq_Some_iff)
  show "row (g_payments g) k = Some p \<Longrightarrow> cp_status p = CP_detected \<Longrightarrow> booked_as h u a n g \<Longrightarrow>
      booked_as h u a n (g\<lparr>g_payments := AList.update k (p\<lparr>cp_status := CP_held\<rparr>) (g_payments g)\<rparr>)" for g k p
    by (auto simp: booked_as_def row_update simp del: map_of_eq_Some_iff)
  show "booked_as h u a n g'" if r: "credit_payment now k g = Inr g'" and b: "booked_as h u a n g" for now k g g'
  proof -
    have d: "distinct (keys (g_payments g))" using b by (simp add: booked_as_def)
    show ?thesis
    proof (cases rule: credit_payment_cases [OF r d, case_names nothing paid_in])
      case (paid_in p v)
      have "distinct (keys (g_payments g'))" using d paid_in(1) by (simp add: paid_in(4))
      moreover obtain q where "row (g_payments g) h = Some q" "cp_user q = u" "cp_address q = a" "cp_amount q = n"
        using b unfolding booked_as_def by blast
      ultimately show ?thesis using paid_in(1) unfolding booked_as_def
        by (auto simp: paid_in(4) row_update credited_def simp del: map_of_eq_Some_iff)
    qed (use b in simp)
  qed
  show "booked_as h u a n g \<Longrightarrow> booked_as h u a n (g\<lparr>g_last_block := b\<rparr>)" for g b by (simp add: booked_as_def del: map_of_eq_Some_iff)
qed

lemma booked_stays:
  assumes "booked_as h u a n g"
  shows "booked_as h u a n (run_ticks c ticks g)"
  by (rule run_ticks_invariant [where P = "booked_as h u a n", OF _ assms]) (rule booked.tick [OF surjective_pairing])

section \<open>A deposit the checkpoint has passed\<close>

definition unseen :: "string \<Rightarrow> int option \<Rightarrow> gateway_state \<Rightarrow> bool" where
  "unseen h b g \<longleftrightarrow> distinct (keys (g_payments g)) \<and> row (g_payments g) h = None \<and> g_last_block g = b"

interpretation unseen: advance_contract "unseen h b"
proof
  show "unseen h b g \<Longrightarrow> distinct (keys (g_payments g))" for g by (simp add: unseen_def)
  show "row (g_payments g) k = Some p \<Longrightarrow> unseen h b g \<Longrightarrow>
      unseen h b (g\<lparr>g_payments := AList.update k (p\<lparr>cp_confirmations := m\<rparr>) (g_payments g)\<rparr>)" for g k p m
    by (auto simp: unseen_def row_update simp del: map_of_eq_Some_iff)
  show "row (g_payments g) k = Some p \<Longrightarrow> cp_status p = CP_detected \<Longrightarrow> unseen h b g \<Longrightarrow>
      unseen h b (g\<lparr>g_payments := AList.update k (p\<lparr>cp_status := CP_held\<rparr>) (g_payments g)\<rparr>)" for g k p
    by (auto simp: unseen_def row_update simp del: map_of_eq_Some_iff)
  show "unseen h b g'" if r: "credit_payment now k g = Inr g'" and u: "unseen h b g" for now k g g'
  proof -
    have d: "distinct (keys (g_payments g))" using u by (simp add: unseen_def)
    show ?thesis
      by (cases rule: credit_payment_cases [OF r d, case_names nothing paid_in])
         (use u in \<open>auto simp: unseen_def row_update credited_def simp del: map_of_eq_Some_iff\<close>)
  qed
qed

text \<open>The answers of a client to a range of blocks.\<close>

definition answered :: "tron_grid \<Rightarrow> int \<Rightarrow> int \<Rightarrow> transfer \<Rightarrow> bool" where
  "answered tg lo hi t \<longleftrightarrow> (\<exists>a ts. tg_transfers tg lo hi a = Inr ts \<and> t \<in> set ts)"

lemma scan_unseen:
  assumes r: "count_each (scan_address c tg now lo hi) as g = (r, g')" and u: "unseen h b g"
    and no: "\<And>t. answered tg lo hi t \<Longrightarrow> tr_hash t \<noteq> h"
  shows "unseen h b g'"
proof (rule count_each_invariant [where P = "unseen h b", OF _ r u])
  fix x s r' s' assume s: "scan_address c tg now lo hi x s = (r', s')" and us: "unseen h b s"
  show "unseen h b s'"
  proof (cases "tg_transfers tg lo hi x")
    case (Inl e)
    then show ?thesis using s us by (simp add: scan_address_def)
  next
    case (Inr ts)
    then have p: "count_each (detect_transfer c now) ts s = (r', s')"
      using s by (simp add: scan_address_def process_detected_transfers_def)
    show ?thesis
    proof (rule count_each_invariant [where P = "unseen h b", OF _ p us])
      fix t s r s' assume t: "t \<in> set ts" and d: "detect_transfer c now t s = (r, s')" and u: "unseen h b s"
      have n: "tr_hash t \<noteq> h" using no Inr t by (auto simp: answered_def)
      show "unseen h b s'" using detect_rows [OF d] u n unfolding unseen_def by metis
    qed
  qed
qed

definition start_block :: "int \<Rightarrow> int \<Rightarrow> int" where
  "start_block checkpoint latest = (if 0 < checkpoint then checkpoint + 1 else latest - 20)"

text \<open>One tick: nothing in the range it asks for has the hash, so nothing is booked under it.\<close>

lemma tick_unseen:
  assumes r: "run_scanner_tick True c tg now g = (r, g')" and u: "unseen h (Some cp) g"
    and no: "\<And>latest t. tg_latest tg = Inr latest \<Longrightarrow> answered tg (start_block cp latest) latest t \<Longrightarrow> tr_hash t \<noteq> h"
  shows "\<exists>cp'. unseen h (Some cp') g' \<and> (0 < cp \<longrightarrow> cp \<le> cp')
    \<and> (\<forall>rep latest. r = Inr rep \<longrightarrow> tg_latest tg = Inr latest \<longrightarrow> 0 < cp \<longrightarrow> latest \<le> cp')"
proof (cases "tg_latest tg")
  case (Inl e)
  then show ?thesis using r u by (auto simp: run_scanner_tick_def scanner_tick_locked_def)
next
  case (Inr latest)
  have cp: "get_checkpoint g = (cp, g)" using u by (simp add: get_checkpoint_def unseen_def)
  have r': "scanner_tick_locked c tg now g = (r, g')" using r by (simp add: run_scanner_tick_def)
  note r' = r' [unfolded scanner_tick_locked_def Inr sum.case cp Let_def prod.case, folded start_block_def]
  show ?thesis
  proof (cases "latest < start_block cp latest")
    case True
    with r' have "and_then (advance_payment_confirmations c tg now g)
        (\<lambda>n g. (Inr \<lparr>ti_scanned = 0, ti_detected = 0, ti_advanced = n\<rparr>, g)) = (r, g')" by simp
    then have "unseen h (Some cp) g'"
      by (cases rule: and_then_cases) (use unseen.confirmations u in auto)
    then show ?thesis using True Inr by (auto simp: start_block_def split: if_splits)
  next
    case False
    with r' have "and_then (count_each (scan_address c tg now (start_block cp latest) latest) (addresses g) g) (\<lambda>detected g.
        and_then (advance_payment_confirmations c tg now (set_checkpoint latest g)) (\<lambda>n g.
          (Inr \<lparr>ti_scanned = latest - start_block cp latest + 1, ti_detected = detected, ti_advanced = n\<rparr>, g))) = (r, g')" by simp
    then show ?thesis
    proof (cases rule: and_then_cases)
      case thrown
      then have "unseen h (Some cp) g'" using scan_unseen [OF _ u no [OF Inr]] by blast
      then show ?thesis using thrown by auto
    next
      case (returned d g2)
      have "unseen h (Some cp) g2" by (rule scan_unseen [OF returned(1) u no [OF Inr]])
      then have "unseen h (Some latest) (set_checkpoint latest g2)" by (simp add: unseen_def set_checkpoint_def)
      with returned(2) have "unseen h (Some latest) g'"
        by (cases rule: and_then_cases) (use unseen.confirmations in auto)
      then show ?thesis using False Inr by (auto simp: start_block_def split: if_splits)
    qed
  qed
qed

lemma ticks_unseen:
  assumes u: "unseen h (Some cp) g" and cp: "0 < cp" "b \<le> cp"
    and later: "\<And>tg now lo hi t. (tg, now) \<in> set ticks \<Longrightarrow> answered tg lo hi t \<Longrightarrow> tr_hash t = h \<Longrightarrow> lo \<le> b"
  shows "row (g_payments (run_ticks c ticks g)) h = None"
proof -
  let ?P = "\<lambda>g. \<exists>cp. unseen h (Some cp) g \<and> 0 < cp \<and> b \<le> cp"
  have "?P (run_ticks c ticks g)"
  proof (rule run_ticks_invariant [where P = ?P])
    show "?P g" using u cp by blast
  next
    fix tg now s assume t: "(tg, now) \<in> set ticks" and "?P s"
    then obtain k where k: "unseen h (Some k) s" "0 < k" "b \<le> k" by blast
    obtain r s' where r: "run_scanner_tick True c tg now s = (r, s')" by (cases "run_scanner_tick True c tg now s")
    have "tr_hash x \<noteq> h" if "answered tg (start_block k latest) latest x" for latest x
      using later [OF t that] k by (auto simp: start_block_def)
    then obtain k' where "unseen h (Some k') s'" "k \<le> k'" using tick_unseen [OF r k(1)] k(2) by blast
    then show "?P (snd (run_scanner_tick True c tg now s))" using r k(2,3) by force
  qed
  then show ?thesis by (auto simp: unseen_def)
qed

section \<open>Properties\<close>

text \<open>
  C18: A deposit can be missed for good. The scanner asks for the transfers of the blocks up to the
  latest one and only gets those that are already confirmed, but then moves its checkpoint to the
  latest block. If a deposit in one of these blocks is not yet among the answers of the tick that
  passes its block, no later tick asks for that block again, and the deposit is never booked.
\<close>

theorem unconfirmed_deposit_lost:
  assumes tick: "run_scanner_tick True c tg now g = (Inr rep, g1)"
    and latest: "tg_latest tg = Inr latest" "b \<le> latest"
    and checkpoint: "g_last_block g = Some cp" "0 < cp"
    and new: "distinct (keys (g_payments g))" "row (g_payments g) h = None"
    and early: "\<And>lo hi t. answered tg lo hi t \<Longrightarrow> tr_hash t \<noteq> h"
    and later: "\<And>tg' now' lo hi t. (tg', now') \<in> set ticks \<Longrightarrow> answered tg' lo hi t \<Longrightarrow> tr_hash t = h \<Longrightarrow> lo \<le> b"
  shows "row (g_payments (run_ticks c ticks g1)) h = None"
proof -
  have "unseen h (Some cp) g" using new checkpoint by (simp add: unseen_def)
  from tick_unseen [OF tick this early] latest checkpoint(2)
  obtain k where "unseen h (Some k) g1" "0 < k" "b \<le> k" by force
  then show ?thesis by (rule ticks_unseen) (rule later)
qed

text \<open>A user, a checkpoint at block 5, and a deposit in block 8 that is confirmed later.\<close>

definition demo_watch :: gateway_state where
  "demo_watch = (empty_gateway (\<lambda>n. []))\<lparr>g_last_block := Some 5,
     g_users := [(''u'', \<lparr>gu_index = 1, gu_address = ''a'', gu_balance = 0, gu_created_at = 0\<rparr>)]\<rparr>"

definition demo_scan_config :: gateway_config where
  "demo_scan_config = \<lparr>gc_port = None, gc_api_key = ''k'', gc_webhook_secret = ''s'', gc_webhook_url = ''u'',
     gc_usdt_contract = ''c'', gc_min_confirmations = Some 19, gc_min_deposit = 10, gc_hot_wallet = ''h'',
     gc_sweep_hours = None, gc_withdrawal_fee = 0, gc_max_withdrawal = 1000, gc_mnemonic = [], gc_xpub = ''x''\<rparr>"

definition demo_transfer :: transfer where
  "demo_transfer = \<lparr>tr_hash = ''d'', tr_to = ''a'', tr_from = ''z'', tr_amount = 100, tr_block = 8, tr_confirmations = 1\<rparr>"

lemma answered_mock: "answered (mock_tron_grid ts l) lo hi t \<Longrightarrow> t \<in> set ts \<and> lo \<le> tr_block t"
  by (auto simp: answered_def mock_tron_grid_def)

lemma demo_first_tick:
  "case run_scanner_tick True demo_scan_config (mock_tron_grid [] 10) 0 demo_watch of
     (Inl e, g) \<Rightarrow> False | (Inr r, g) \<Rightarrow> g_last_block g = Some 10"
  by code_simp

theorem unconfirmed_deposit_lost_witness:
  "\<exists>r g1. run_scanner_tick True demo_scan_config (mock_tron_grid [] 10) 0 demo_watch = (Inr r, g1)
     \<and> row (g_payments (run_ticks demo_scan_config [(mock_tron_grid [demo_transfer] 40, 1)] g1)) ''d'' = None"
proof -
  obtain r g1 where t: "run_scanner_tick True demo_scan_config (mock_tron_grid [] 10) 0 demo_watch = (Inr r, g1)"
    using demo_first_tick by (auto split: prod.splits sum.splits)
  have "row (g_payments (run_ticks demo_scan_config [(mock_tron_grid [demo_transfer] 40, 1)] g1)) ''d'' = None"
  proof (rule unconfirmed_deposit_lost [OF t, where b = 8 and latest = 10 and cp = 5])
    show "lo \<le> 8" if "(tg', now') \<in> set [(mock_tron_grid [demo_transfer] 40, 1)]" "answered tg' lo hi x" "tr_hash x = ''d''"
      for tg' now' lo hi x using that answered_mock by (force simp: demo_transfer_def)
    show "tr_hash x \<noteq> ''d''" if "answered (mock_tron_grid [] 10) lo hi x" for lo hi x
      using answered_mock [OF that] by simp
  qed (simp_all add: demo_watch_def empty_gateway_def mock_tron_grid_def)
  with t show ?thesis by blast
qed

text \<open>Nothing is wrong with the deposit: scanned from the same checkpoint once it is confirmed, it is booked.\<close>

lemma confirmed_deposit_booked:
  "case run_scanner_tick True demo_scan_config (mock_tron_grid [demo_transfer] 40) 0 demo_watch of
     (Inl e, g) \<Rightarrow> False
   | (Inr r, g) \<Rightarrow> List.map (\<lambda>(k, u). gu_balance u) (g_users g) = [100]"
  by code_simp

text \<open>
  Two transfers in one transaction: the second one, to another user, is never booked, because the
  transaction identifier stands for one payment.
\<close>

lemma second_transfer_unbooked:
  assumes "distinct (keys (g_payments g))" and "row (g_payments g) h = Some p"
  shows "\<exists>q. row (g_payments (run_ticks c ticks g)) h = Some q \<and> cp_user q = cp_user p
    \<and> cp_address q = cp_address p \<and> cp_amount q = cp_amount p"
  using booked_stays [of h "cp_user p" "cp_address p" "cp_amount p" g c ticks] assms unfolding booked_as_def by blast

section \<open>Pages\<close>

text \<open>
  Following the pages of an answer ends when the server has finitely many of them: a page that was
  read before is an error.
\<close>

lemma collect_pages_ends:
  assumes "finite S" and "path \<in> S" and "set seen \<subseteq> S"
    and closed: "\<And>p evs l o' p'. p \<in> S \<Longrightarrow> fetch p = Inr (evs, Some l) \<Longrightarrow> resolve l = Inr (o', p') \<Longrightarrow> p' \<in> S"
  shows "\<exists>r. collect_pages fetch resolve origin seen path found = Some r"
  using assms(2,3)
proof (induction "card (S - set seen)" arbitrary: seen path found rule: less_induct)
  case less
  show ?case
  proof (cases "path \<in> set seen")
    case True
    then show ?thesis by (simp add: collect_pages.simps [of fetch resolve origin seen])
  next
    case False
    have "\<exists>r. collect_pages fetch resolve origin (path # seen) p' (found @ evs) = Some r"
      if "fetch path = Inr (evs, Some l)" "resolve l = Inr (o', p')" for evs l o' p'
    proof (rule less.hyps)
      show "card (S - set (path # seen)) < card (S - set seen)"
        using False less.prems(1) assms(1) by (intro psubset_card_mono) auto
      show "p' \<in> S" by (rule closed [OF less.prems(1) that])
      show "set (path # seen) \<subseteq> S" using less.prems by simp
    qed
    then show ?thesis using False
      by (subst collect_pages.simps) (auto simp: filled_def split: sum.split)
  qed
qed

end
