(* ===== verification/GatewayLimits.thy ===== *)
theory GatewayLimits
  imports GatewayMoney
begin

text \<open>
  The bound on the withdrawals the backend authorizes: what is open at a time stays below the largest
  withdrawal times \<^verbatim>\<open>BACKEND_AUTHORIZED_MAX_OPEN\<close>, as long as requests do not overlap. The check reads
  the sum before the transaction, so two requests at the same time can both pass it.
\<close>

lemma open_authorized_order:
  assumes "withdrawal_tx now r g = Inr ((k, p), g')" and "distinct (keys (g_users g))"
  shows "open_authorized g' = open_authorized g + (if ord_source r = Backend_authorized then ord_amount r else 0)"
proof -
  obtain g1 where 1: "debit_user r g = Inr g1"
    and g': "g' = g1\<lparr>g_payouts := insert_row k p (g_payouts g1), g_next_id := Suc (g_next_id g1)\<rparr>"
    and p: "po_source p = ord_source r" "po_amount p = ord_amount r" "po_status p = PO_pending"
    using withdrawal_tx_cases [OF assms(1)] by blast
  have "g_payouts g1 = g_payouts g" using debit_user_cases [OF 1 assms(2)] by cases simp_all
  then show ?thesis using p by (simp add: open_authorized_def g' tsum_insert_row is_open_payout_def)
qed

lemma check_authorized:
  assumes "check_withdrawal w r g = Inr None" and "ord_source r = Backend_authorized"
    and "payout_max w = Inr limit" and "authorized_max_open w = Inr n"
  shows "open_authorized g + ord_amount r \<le> limit * n"
  using assms
  by (auto simp: check_withdrawal_def bindE_eq_Inr simp del: map_of_eq_Some_iff split: option.splits if_splits)

text \<open>
  C38: Requests that do not overlap keep the open withdrawals authorized by the backend within the cap
  the settings give, whatever they ask for.
\<close>

theorem authorized_cap_kept:
  assumes "create_gateway_withdrawal w now r g = (x, g')" and "distinct (keys (g_users g))"
    and "payout_max w = Inr limit" and "authorized_max_open w = Inr n"
    and "open_authorized g \<le> limit * n"
  shows "open_authorized g' \<le> limit * n"
proof (cases "check_withdrawal w r g")
  case (Inl e)
  then show ?thesis using assms by (simp add: create_gateway_withdrawal_def)
next
  case (Inr y)
  show ?thesis
  proof (cases y)
    case (Some a)
    then show ?thesis using assms Inr by (cases a) (simp add: create_gateway_withdrawal_def)
  next
    case None
    show ?thesis
    proof (cases "withdrawal_tx now r g")
      case (Inl e)
      then show ?thesis using assms Inr None by (simp add: create_gateway_withdrawal_def transaction_def \<open>check_withdrawal w r g = Inr y\<close>)
    next
      case (Inr z)
      obtain k p g2 where z: "z = ((k, p), g2)" by (metis surj_pair)
      have "g' = g2" using assms(1) \<open>check_withdrawal w r g = Inr y\<close> None Inr z
        by (simp add: create_gateway_withdrawal_def transaction_def)
      then show ?thesis
        using open_authorized_order [of now r g k p g2] check_authorized [of w r g limit n] assms(2-5)
          \<open>check_withdrawal w r g = Inr y\<close> None Inr z
        by (cases "ord_source r = Backend_authorized") simp_all
    qed
  qed
qed

text \<open>The backend may have 100 open at a time, and there is one user.\<close>

definition cap_world :: world where
  "cap_world = demo_world
     \<lparr>env := (\<lambda>k. map_of [(''ALLOW_BACKEND_AUTHORIZED_WITHDRAWALS'', ''true''), (''MAX_WITHDRAWAL_SUN'', ''100''),
        (''BACKEND_AUTHORIZED_MAX_OPEN'', ''1'')] k),
      js_bigint := (\<lambda>s. if s = ''100'' then Some 100 else None),
      js_number := (\<lambda>s. if s = ''1'' then Some 1 else None)\<rparr>"

definition cap_state :: gateway_state where
  "cap_state = (empty_gateway (\<lambda>n. replicate n CHR ''w''))\<lparr>
     g_users := [(''u'', \<lparr>gu_index = 1, gu_address = ''a'', gu_balance = 0, gu_created_at = 0\<rparr>)]\<rparr>"

definition cap_order :: "string \<Rightarrow> payout_order" where
  "cap_order x = \<lparr>ord_user = ''u'', ord_to = ''b'', ord_amount = 60, ord_fee = 0, ord_external = x,
     ord_source = Backend_authorized\<rparr>"

lemma cap_limits: "payout_max cap_world = Inr 100 \<and> authorized_max_open cap_world = Inr 1"
  by code_simp

theorem authorized_cap_kept_witness:
  "open_authorized (snd (create_gateway_withdrawal cap_world 0 (cap_order ''x'') cap_state)) \<le> 100 * 1
   \<and> open_authorized (snd (create_gateway_withdrawal cap_world 0 (cap_order ''x'') cap_state)) = 60"
proof (rule conjI)
  obtain x g' where c: "create_gateway_withdrawal cap_world 0 (cap_order ''x'') cap_state = (x, g')" by (metis surj_pair)
  have "distinct (keys (g_users cap_state))" "open_authorized cap_state \<le> 100 * 1" by code_simp+
  from authorized_cap_kept [OF c this(1)] cap_limits this(2)
  show "open_authorized (snd (create_gateway_withdrawal cap_world 0 (cap_order ''x'') cap_state)) \<le> 100 * 1"
    by (simp add: c)
  show "open_authorized (snd (create_gateway_withdrawal cap_world 0 (cap_order ''x'') cap_state)) = 60" by code_simp
qed

text \<open>Two requests that both read before one of them writes pass the cap together.\<close>

lemma authorized_cap_race:
  "check_withdrawal cap_world (cap_order ''x'') cap_state = Inr None
   \<and> check_withdrawal cap_world (cap_order ''y'') cap_state = Inr None
   \<and> (case bindE (withdrawal_tx 0 (cap_order ''x'') cap_state) (\<lambda>(_, g). withdrawal_tx 0 (cap_order ''y'') g) of
        Inl e \<Rightarrow> False | Inr (_, g) \<Rightarrow> open_authorized g = 120)"
  by code_simp

end
