(* ===== verification/SteamReceipts.thy ===== *)
theory SteamReceipts
  imports Accounts
begin

text \<open>
  What counts as Steam's word about a trade offer: the reader of offers and receipts
  (\<^verbatim>\<open>providers/trade/steam-trade.provider.ts\<close>), the comparison of an answer with the order
  (\<^verbatim>\<open>steam-delivery-proof.ts\<close>), the owner of an access token (\<^verbatim>\<open>steam-token-owner.ts\<close>), the reading
  with a token (\<^verbatim>\<open>steam-token-read.ts\<close>) and the credential of a request
  (\<^verbatim>\<open>steam-request-credential.ts\<close>).

  The answers of Steam are values of \<open>steam_value\<close>, the result of \<open>JSON.parse\<close>: numbers are whole and
  the members of an object have different names. A missing member is \<open>None\<close>. The requests themselves
  are the parameter \<open>steam_api\<close>.
\<close>

section \<open>Answers of Steam\<close>

datatype steam_value =
    SvNull
  | SvBool bool
  | SvNum int
  | SvStr string
  | SvArr "steam_value list"
  | SvObj "(string \<times> steam_value) list"

text \<open>A member of a value; only objects have the members the code asks for.\<close>

fun member :: "steam_value \<Rightarrow> string \<Rightarrow> steam_value option" where
  "member (SvObj fs) k = map_of fs k"
| "member _ k = None"

definition member_of :: "steam_value option \<Rightarrow> string \<Rightarrow> steam_value option" where
  "member_of v k = (case v of None \<Rightarrow> None | Some x \<Rightarrow> member x k)"

fun is_record :: "steam_value \<Rightarrow> bool" where
  "is_record (SvObj _) = True"
| "is_record _ = False"

fun value_truthy :: "steam_value \<Rightarrow> bool" where
  "value_truthy SvNull = False"
| "value_truthy (SvBool b) = b"
| "value_truthy (SvNum n) = (n \<noteq> 0)"
| "value_truthy (SvStr s) = (s \<noteq> [])"
| "value_truthy (SvArr _) = True"
| "value_truthy (SvObj _) = True"

text \<open>The name a value has as a key of an object.\<close>

fun join_commas :: "string list \<Rightarrow> string" where
  "join_commas [] = []"
| "join_commas [s] = s"
| "join_commas (s # ss) = s @ '','' @ join_commas ss"

fun value_key :: "steam_value \<Rightarrow> string" where
  "value_key SvNull = ''null''"
| "value_key (SvBool b) = (if b then ''true'' else ''false'')"
| "value_key (SvNum n) = show_int n"
| "value_key (SvStr s) = s"
| "value_key (SvArr vs) = join_commas (map (\<lambda>v. if v = SvNull then [] else value_key v) vs)"
| "value_key (SvObj _) = ''[object Object]''"

definition has_rollback :: "steam_value \<Rightarrow> bool" where
  "has_rollback v = (case v of SvObj fs \<Rightarrow> list_ex (\<lambda>(k, _). starts_with ''rollback'' k) fs | _ \<Rightarrow> False)"

section \<open>The order an answer is compared with\<close>

text \<open>\<open>TradeVerificationContext\<close>.\<close>

record trade_context =
  tc_binding :: "string option"
  tc_seller :: "string option"
  tc_buyer :: "string option"
  tc_asset :: string

definition is_steam_number :: "string \<Rightarrow> bool" where
  "is_steam_number s \<longleftrightarrow> s \<noteq> [] \<and> list_all is_digit s \<and> hd s \<noteq> CHR ''0''"

definition is_trade_number :: "string \<Rightarrow> bool" where
  "is_trade_number s \<longleftrightarrow> is_steam_number s \<and> length s \<le> 20"

definition is_trade_id :: "steam_value \<Rightarrow> bool" where
  "is_trade_id v \<longleftrightarrow> (case v of SvStr s \<Rightarrow> is_trade_number s | _ \<Rightarrow> False)"

definition individual_steam_id :: "string \<Rightarrow> bool" where
  "individual_steam_id s \<longleftrightarrow> is_trade_number s \<and> steam_id64_base < digits_value s
     \<and> digits_value s \<le> 76561202255233023"

definition nonempty_text :: "string option \<Rightarrow> bool" where
  "nonempty_text s \<longleftrightarrow> s \<noteq> None \<and> s \<noteq> Some []"

definition matches_item :: "steam_value \<Rightarrow> string \<Rightarrow> bool \<Rightarrow> bool" where
  "matches_item v aid allow_missing \<longleftrightarrow>
     is_record v \<and> member v ''appid'' = Some (SvNum 730) \<and> member v ''contextid'' = Some (SvStr ''2'')
     \<and> member v ''assetid'' = Some (SvStr aid) \<and> member v ''amount'' = Some (SvStr ''1'')
     \<and> (member v ''missing'' \<noteq> Some (SvBool True) \<or> allow_missing)"

text \<open>Exactly one item is given and nothing is taken in return.\<close>

definition only_item :: "steam_value option \<Rightarrow> steam_value option" where
  "only_item given = (case given of Some (SvArr [v]) \<Rightarrow> Some v | _ \<Rightarrow> None)"

definition takes_nothing :: "steam_value option \<Rightarrow> bool" where
  "takes_nothing received \<longleftrightarrow> received = None \<or> received = Some (SvArr [])"

definition buyer_account :: "trade_context \<Rightarrow> int" where
  "buyer_account ctx = digits_value (the (tc_buyer ctx)) - steam_id64_base"

definition steam_offer_matches_order :: "steam_value \<Rightarrow> trade_context \<Rightarrow> string option \<Rightarrow> bool" where
  "steam_offer_matches_order offer ctx owner =
     (if \<not> is_record offer \<or> \<not> nonempty_text (tc_seller ctx) \<or> \<not> nonempty_text (tc_buyer ctx)
         \<or> \<not> individual_steam_id (the (tc_seller ctx)) \<or> \<not> individual_steam_id (the (tc_buyer ctx))
         \<or> tc_seller ctx = tc_buyer ctx \<or> \<not> is_trade_number (tc_asset ctx)
      then False
      else if owner \<noteq> tc_seller ctx then False
      else if nonempty_text (tc_binding ctx) \<and> member offer ''message'' \<noteq> map_option SvStr (tc_binding ctx) then False
      else if buyer_account ctx \<le> 0 \<or> 4294967295 < buyer_account ctx
              \<or> member offer ''is_our_offer'' \<noteq> Some (SvBool True)
              \<or> member offer ''accountid_other'' \<noteq> Some (SvNum (buyer_account ctx))
      then False
      else case only_item (member offer ''items_to_give'') of
        None \<Rightarrow> False
      | Some item \<Rightarrow> takes_nothing (member offer ''items_to_receive'')
          \<and> matches_item item (tc_asset ctx) (member offer ''trade_offer_state'' = Some (SvNum 3)))"

definition steam_receipt_complete :: "steam_value \<Rightarrow> steam_value \<Rightarrow> trade_context \<Rightarrow> bool" where
  "steam_receipt_complete v tid ctx =
     (if \<not> is_record v \<or> \<not> is_trade_id tid \<or> member v ''tradeid'' \<noteq> Some tid
         \<or> member v ''status'' \<noteq> Some (SvNum 3)
         \<or> member v ''steamid_other'' \<noteq> Some (case tc_buyer ctx of Some b \<Rightarrow> SvStr b | None \<Rightarrow> SvNull)
      then False
      else case only_item (member v ''assets_given'') of
        None \<Rightarrow> False
      | Some item \<Rightarrow> takes_nothing (member v ''assets_received'') \<and> matches_item item (tc_asset ctx) False
          \<and> \<not> has_rollback item \<and> \<not> has_rollback v)"

definition received_asset_from_steam_receipt :: "steam_value \<Rightarrow> steam_value \<Rightarrow> trade_context \<Rightarrow> string option" where
  "received_asset_from_steam_receipt v tid ctx =
     (if \<not> steam_receipt_complete v tid ctx then None
      else case only_item (member v ''assets_given'') of
        None \<Rightarrow> None
      | Some item \<Rightarrow>
          (case (member item ''new_contextid'', member item ''new_assetid'') of
             (Some (SvStr c), Some (SvStr a)) \<Rightarrow> if (c = ''2'' \<or> c = ''16'') \<and> is_trade_number a then Some a else None
           | _ \<Rightarrow> None))"

definition reversal_statuses :: "int list" where
  "reversal_statuses = [4, 5, 6, 7, 8, 9, 11]"

definition steam_receipt_reversed :: "steam_value \<Rightarrow> steam_value \<Rightarrow> trade_context \<Rightarrow> bool" where
  "steam_receipt_reversed v tid ctx =
     (if \<not> is_record v \<or> member v ''tradeid'' \<noteq> Some tid
         \<or> member v ''steamid_other'' \<noteq> Some (case tc_buyer ctx of Some b \<Rightarrow> SvStr b | None \<Rightarrow> SvNull)
      then False
      else let given = (case member v ''assets_given'' of Some (SvArr vs) \<Rightarrow> vs | _ \<Rightarrow> []) in
        (case member v ''status'' of Some (SvNum n) \<Rightarrow> n \<in> set reversal_statuses | _ \<Rightarrow> False)
        \<or> has_rollback v \<or> list_ex has_rollback given)"

section \<open>Requests\<close>

text \<open>
  \<open>steam_api\<close>: the requests with the key of the web API, which throw or answer with a status and the
  parsed body (\<open>None\<close> when the body is no JSON), and the request with a token, which throws or
  answers with a status, the size of the body (\<open>None\<close> without a body) and the parsed body.
\<close>

datatype token_method = GetTokenDetails | GetTradeOffer | GetTradeStatus

record steam_api =
  api_offer :: "string \<Rightarrow> string \<Rightarrow> (int \<times> steam_value option) option"
  api_trade :: "string \<Rightarrow> string \<Rightarrow> (int \<times> steam_value option) option"
  api_token :: "token_method \<Rightarrow> string \<Rightarrow> string \<Rightarrow> (int \<times> nat option \<times> steam_value option) option"

definition status_ok :: "int \<Rightarrow> bool" where
  "status_ok s \<longleftrightarrow> 200 \<le> s \<and> s \<le> 299"

definition steam_token_read :: "steam_api \<Rightarrow> token_method \<Rightarrow> string \<Rightarrow> string \<Rightarrow> int \<times> steam_value" where
  "steam_token_read api meth token arg =
     (case api_token api meth token arg of
        None \<Rightarrow> (0, SvNull)
      | Some (status, bytes, body) \<Rightarrow>
          if \<not> status_ok status then (status, SvNull)
          else case bytes of
            None \<Rightarrow> (status, SvNull)
          | Some n \<Rightarrow>
              if 262144 < n then (status, SvNull)
              else case body of None \<Rightarrow> (0, SvNull) | Some v \<Rightarrow> (status, v))"

section \<open>Who a token belongs to\<close>

definition is_steam_id_text :: "steam_value \<Rightarrow> bool" where
  "is_steam_id_text v = (case v of SvStr s \<Rightarrow> is_steam_number s \<and> length s = 17 | _ \<Rightarrow> False)"

definition steam_token_owner :: "steam_value \<Rightarrow> string option" where
  "steam_token_owner v =
     (if \<not> is_record v then None
      else
        let nested = (case member v ''response'' of Some r \<Rightarrow> if is_record r then Some r else None | None \<Rightarrow> None) in
        if member v ''error'' \<noteq> None \<or> member v ''success'' = Some (SvBool False)
           \<or> member_of nested ''error'' \<noteq> None \<or> member_of nested ''success'' = Some (SvBool False)
        then None
        else
          let values = List.map_filter id [member v ''steamid'', member_of nested ''steamid''] in
          case values of
            [] \<Rightarrow> None
          | x # xs \<Rightarrow>
              if list_ex (\<lambda>y. \<not> is_steam_id_text y) values \<or> list_ex (\<lambda>y. y \<noteq> x) values then None
              else (case x of SvStr s \<Rightarrow> Some s | _ \<Rightarrow> None))"

text \<open>The credential a request carries for one offer and its parties.\<close>

record steam_credential =
  sc_token :: "string option"
  sc_offer :: string
  sc_context :: trade_context

definition request_credential :: "steam_credential option \<Rightarrow> string \<Rightarrow> trade_context option \<Rightarrow> string option" where
  "request_credential cred offer ctx_opt =
     (case (ctx_opt, cred) of
        (Some ctx, Some c) \<Rightarrow>
          if sc_offer c \<noteq> offer \<or> tc_seller (sc_context c) \<noteq> tc_seller ctx
             \<or> tc_buyer (sc_context c) \<noteq> tc_buyer ctx \<or> tc_asset (sc_context c) \<noteq> tc_asset ctx
          then None else sc_token c
      | _ \<Rightarrow> None)"

section \<open>The trade provider of Steam\<close>

definition state_map :: "(int \<times> offer_status) list" where
  "state_map =
     [(2, Offer_pending), (9, Offer_needs_confirmation), (11, Offer_pending), (3, Offer_accepted),
      (7, Offer_declined), (5, Offer_expired), (6, Offer_expired), (10, Offer_expired)]"

definition map_state :: "steam_value option \<Rightarrow> offer_status" where
  "map_state v =
     (case v of
        None \<Rightarrow> Offer_unknown
      | Some x \<Rightarrow> (case map_of (map (\<lambda>(n, s). (show_int n, s)) state_map) (value_key x) of
                    Some s \<Rightarrow> s | None \<Rightarrow> Offer_unknown))"

definition plain_result :: "offer_status \<Rightarrow> string option \<Rightarrow> receipt" where
  "plain_result s reason =
     \<lparr>rc_status = s, rc_reason = reason, rc_receipt_verified = False, rc_offer_accepted = False,
      rc_binding_verified = False, rc_trade_id = None, rc_identity_conflict = False, rc_reversal = False,
      rc_received_asset = None, rc_received_context = None\<rparr>"

definition unknown_result :: "string \<Rightarrow> receipt" where
  "unknown_result reason = plain_result Offer_unknown (Some reason)"

definition conflict_result :: "string \<Rightarrow> bool \<Rightarrow> receipt" where
  "conflict_result reason conflict = (unknown_result reason)\<lparr>rc_identity_conflict := conflict\<rparr>"

datatype credential = By_token string | By_key string

definition text_of :: "steam_value option \<Rightarrow> string option" where
  "text_of v = (case v of Some (SvStr s) \<Rightarrow> Some s | _ \<Rightarrow> None)"

text \<open>The single trade of an answer.\<close>

definition one_trade :: "steam_value \<Rightarrow> steam_value option" where
  "one_trade data = only_item (member_of (member data ''response'') ''trades'')"

definition judge_trade :: "int \<Rightarrow> steam_value \<Rightarrow> steam_value \<Rightarrow> trade_context \<Rightarrow> offer_failure + receipt" where
  "judge_trade status data tid ctx =
     (if status = 429 then Inl Offer_rate_limited
      else if status \<noteq> 200 then Inr (unknown_result ''STEAM_RECEIPT_UNAVAILABLE'')
      else case one_trade data of
        None \<Rightarrow> Inr (unknown_result ''STEAM_RECEIPT_UNAVAILABLE'')
      | Some v \<Rightarrow>
          if steam_receipt_reversed v tid ctx
          then Inr ((unknown_result ''STEAM_TRADE_REVERSAL'')\<lparr>rc_reversal := True\<rparr>)
          else if \<not> steam_receipt_complete v tid ctx then Inr (conflict_result ''STEAM_RECEIPT_CONFLICT'' True)
          else let asset = received_asset_from_steam_receipt v tid ctx in
            Inr \<lparr>rc_status = Offer_accepted, rc_reason = Some ''STEAM_RECEIPT_VERIFIED'', rc_receipt_verified = True,
                 rc_offer_accepted = False, rc_binding_verified = False, rc_trade_id = text_of (Some tid),
                 rc_identity_conflict = False, rc_reversal = False, rc_received_asset = asset,
                 rc_received_context = (if asset \<noteq> None
                   then text_of (member_of (only_item (member v ''assets_given'')) ''new_contextid'') else None)\<rparr>)"

definition read_receipt ::
    "steam_api \<Rightarrow> steam_value \<Rightarrow> trade_context \<Rightarrow> credential \<Rightarrow> offer_failure + receipt" where
  "read_receipt api tid ctx cred =
     (case cred of
        By_token token \<Rightarrow> let (status, data) = steam_token_read api GetTradeStatus token (value_key tid)
          in judge_trade status data tid ctx
      | By_key key \<Rightarrow>
          (case api_trade api key (value_key tid) of
             None \<Rightarrow> Inl Offer_request_failed
           | Some (status, body) \<Rightarrow>
               if \<not> status_ok status then judge_trade status SvNull tid ctx
               else case body of
                 None \<Rightarrow> Inl Offer_request_failed
               | Some data \<Rightarrow> judge_trade status data tid ctx))"

text \<open>An accepted offer of the order is settled by the receipt of its trade.\<close>

definition binding_verified :: "steam_value \<Rightarrow> trade_context \<Rightarrow> bool" where
  "binding_verified offer ctx \<longleftrightarrow> nonempty_text (tc_binding ctx) \<and> member offer ''message'' = map_option SvStr (tc_binding ctx)"

definition settle_by_receipt ::
    "steam_api \<Rightarrow> steam_value \<Rightarrow> trade_context \<Rightarrow> credential \<Rightarrow> receipt \<Rightarrow> offer_failure + receipt" where
  "settle_by_receipt api offer ctx cred no_trade =
     (case member offer ''tradeid'' of
        None \<Rightarrow> Inr no_trade
      | Some tid \<Rightarrow>
          if \<not> value_truthy tid \<or> \<not> is_trade_number (value_key tid) then Inr no_trade
          else bindE (read_receipt api tid ctx cred) (\<lambda>r.
                 Inr (r\<lparr>rc_offer_accepted := True, rc_binding_verified := binding_verified offer ctx\<rparr>)))"

text \<open>The offer in an answer, when it is there at all.\<close>

definition answered_offer :: "steam_value \<Rightarrow> steam_value option" where
  "answered_offer data =
     (case member_of (member data ''response'') ''offer'' of
        Some v \<Rightarrow> if value_truthy v then Some v else None
      | None \<Rightarrow> None)"

definition explicit_owner :: "steam_value \<Rightarrow> bool" where
  "explicit_owner data \<longleftrightarrow> member data ''steamid'' \<noteq> None \<or> member_of (member data ''response'') ''steamid'' \<noteq> None"

definition verify_with_token ::
    "steam_api \<Rightarrow> string \<Rightarrow> trade_context \<Rightarrow> string \<Rightarrow> offer_failure + receipt" where
  "verify_with_token api offer_id ctx token =
     (let (id_status, identity) = steam_token_read api GetTokenDetails token [] in
      if explicit_owner identity \<and> (id_status \<noteq> 200 \<or> steam_token_owner identity \<noteq> tc_seller ctx)
      then Inr (conflict_result ''STEAM_IDENTITY_CONFLICT'' True)
      else
        let (status, data) = steam_token_read api GetTradeOffer token offer_id in
        if status = 429 then Inl Offer_rate_limited
        else if status \<noteq> 200 then Inr (unknown_result ''STEAM_TOKEN_READ_UNAVAILABLE'')
        else case answered_offer data of
          None \<Rightarrow> Inr (conflict_result ''STEAM_OFFER_UNAVAILABLE'' False)
        | Some offer \<Rightarrow>
            if member offer ''tradeofferid'' \<noteq> Some (SvStr offer_id)
            then Inr (conflict_result ''STEAM_OFFER_UNAVAILABLE'' (member offer ''tradeofferid'' \<noteq> None))
            else if \<not> steam_offer_matches_order offer ctx (tc_seller ctx)
            then Inr (conflict_result ''STEAM_OFFER_ORDER_MISMATCH'' True)
            else let st = map_state (member offer ''trade_offer_state'') in
              if st \<noteq> Offer_accepted then Inr (plain_result st None)
              else settle_by_receipt api offer ctx (By_token token)
                     (unknown_result ''STEAM_RECEIPT_MAPPING_UNAVAILABLE''))"

definition key_owner :: "world \<Rightarrow> string option" where
  "key_owner w = env w ''STEAM_WEB_API_KEY_OWNER_STEAM_ID''"

text \<open>An answer to a request with the key. Without a context an accepted offer proves nothing.\<close>

definition judge_offer ::
    "steam_api \<Rightarrow> world \<Rightarrow> string \<Rightarrow> string \<Rightarrow> trade_context option \<Rightarrow> steam_value \<Rightarrow> offer_failure + receipt" where
  "judge_offer api w key offer_id ctx_opt data =
     (case answered_offer data of
        None \<Rightarrow> Inr (conflict_result ''STEAM_OFFER_UNAVAILABLE'' False)
      | Some offer \<Rightarrow>
          if member offer ''tradeofferid'' \<noteq> Some (SvStr offer_id)
          then Inr (conflict_result ''STEAM_OFFER_UNAVAILABLE'' (member offer ''tradeofferid'' \<noteq> None))
          else let st = map_state (member offer ''trade_offer_state'') in
            case ctx_opt of
              None \<Rightarrow> Inr (plain_result (if st = Offer_accepted then Offer_unknown else st) None)
            | Some ctx \<Rightarrow>
                if \<not> steam_offer_matches_order offer ctx (key_owner w)
                then Inr (conflict_result
                       (if key_owner w = None \<or> key_owner w \<noteq> tc_seller ctx then ''STEAM_KEY_OWNER_UNVERIFIED'' else ''STEAM_OFFER_ORDER_MISMATCH'')
                       (key_owner w \<noteq> None \<and> key_owner w = tc_seller ctx))
                else if st = Offer_accepted
                then settle_by_receipt api offer ctx (By_key key) (plain_result Offer_unknown None)
                else Inr (plain_result st None))"

definition steam_verify_offer ::
    "steam_api \<Rightarrow> steam_credential option \<Rightarrow> world \<Rightarrow> string \<Rightarrow> trade_context option \<Rightarrow> offer_failure + receipt" where
  "steam_verify_offer api cred w offer_id ctx_opt =
     (if \<not> is_steam_number offer_id then Inr (plain_result Offer_unknown None)
      else case (request_credential cred offer_id ctx_opt, ctx_opt) of
        (Some (c # token), Some ctx) \<Rightarrow> verify_with_token api offer_id ctx (c # token)
      | _ \<Rightarrow>
          (case env w ''STEAM_WEB_API_KEY'' of
             Some (c # key) \<Rightarrow>
               (case api_offer api (c # key) offer_id of
                  None \<Rightarrow> Inl Offer_request_failed
                | Some (status, body) \<Rightarrow>
                    if status = 429 then Inl Offer_rate_limited
                    else if \<not> status_ok status then Inl Offer_request_failed
                    else case body of
                      None \<Rightarrow> Inl Offer_request_failed
                    | Some data \<Rightarrow> judge_offer api w (c # key) offer_id ctx_opt data)
           | _ \<Rightarrow> Inr (unknown_result ''STEAM_API_KEY_MISSING'')))"

definition steam_verify_receipt ::
    "steam_api \<Rightarrow> steam_credential option \<Rightarrow> world \<Rightarrow> string \<Rightarrow> string \<Rightarrow> trade_context \<Rightarrow> offer_failure + receipt" where
  "steam_verify_receipt api cred w tid offer_id ctx =
     (if \<not> is_trade_number tid \<or> \<not> nonempty_text (tc_seller ctx) \<or> \<not> nonempty_text (tc_buyer ctx)
      then Inr (unknown_result ''STEAM_RECEIPT_UNAVAILABLE'')
      else case request_credential cred offer_id (Some ctx) of
        Some (c # token) \<Rightarrow>
          (let (status, identity) = steam_token_read api GetTokenDetails (c # token) [] in
           if status \<noteq> 200 \<or> steam_token_owner identity \<noteq> tc_seller ctx
           then Inr (unknown_result ''STEAM_RECEIPT_UNAVAILABLE'')
           else read_receipt api (SvStr tid) ctx (By_token (c # token)))
      | _ \<Rightarrow>
          (case env w ''STEAM_WEB_API_KEY'' of
             Some (c # key) \<Rightarrow>
               if key_owner w \<noteq> tc_seller ctx then Inr (unknown_result ''STEAM_RECEIPT_UNAVAILABLE'')
               else read_receipt api (SvStr tid) ctx (By_key (c # key))
           | _ \<Rightarrow> Inr (unknown_result ''STEAM_RECEIPT_UNAVAILABLE'')))"

text \<open>The provider as the rest of the backend sees it.\<close>

definition offer_context :: "offer_query \<Rightarrow> trade_context" where
  "offer_context q = \<lparr>tc_binding = oq_binding q, tc_seller = oq_seller q, tc_buyer = oq_buyer q, tc_asset = oq_asset q\<rparr>"

definition receipt_context :: "receipt_query \<Rightarrow> trade_context" where
  "receipt_context q = \<lparr>tc_binding = rq_binding q, tc_seller = rq_seller q, tc_buyer = rq_buyer q, tc_asset = rq_asset q\<rparr>"

definition steam_world :: "steam_api \<Rightarrow> steam_credential option \<Rightarrow> world \<Rightarrow> world" where
  "steam_world api cred w = w\<lparr>
     verify_trade_offer := (\<lambda>q. steam_verify_offer api cred w (oq_offer q) (Some (offer_context q))),
     verify_receipt := Some (\<lambda>q.
       (case steam_verify_receipt api cred w (rq_trade q) (rq_offer q) (receipt_context q) of
          Inl _ \<Rightarrow> Inl () | Inr r \<Rightarrow> Inr r))\<rparr>"

section \<open>What a verified receipt says\<close>

text \<open>The item of the order, one piece of it.\<close>

definition names_item :: "steam_value \<Rightarrow> string \<Rightarrow> bool" where
  "names_item v aid \<longleftrightarrow>
     member v ''appid'' = Some (SvNum 730) \<and> member v ''contextid'' = Some (SvStr ''2'')
     \<and> member v ''assetid'' = Some (SvStr aid) \<and> member v ''amount'' = Some (SvStr ''1'')"

text \<open>An offer that gives the item of the order, and nothing but it, from the asked account to the buyer.\<close>

definition offers_order :: "steam_value \<Rightarrow> trade_context \<Rightarrow> bool" where
  "offers_order v ctx \<longleftrightarrow>
     member v ''is_our_offer'' = Some (SvBool True)
     \<and> member v ''accountid_other'' = Some (SvNum (buyer_account ctx)) \<and> tc_seller ctx \<noteq> tc_buyer ctx
     \<and> (\<exists>item. member v ''items_to_give'' = Some (SvArr [item]) \<and> names_item item (tc_asset ctx))
     \<and> member v ''items_to_receive'' \<in> {None, Some (SvArr [])}
     \<and> (nonempty_text (tc_binding ctx) \<longrightarrow> member v ''message'' = map_option SvStr (tc_binding ctx))"

text \<open>A completed trade that gave the item of the order, and nothing but it, to the buyer, for good.\<close>

definition delivers_order :: "steam_value \<Rightarrow> string \<Rightarrow> trade_context \<Rightarrow> bool" where
  "delivers_order v tid ctx \<longleftrightarrow>
     member v ''tradeid'' = Some (SvStr tid) \<and> member v ''status'' = Some (SvNum 3)
     \<and> member v ''steamid_other'' = map_option SvStr (tc_buyer ctx)
     \<and> (\<exists>item. member v ''assets_given'' = Some (SvArr [item]) \<and> names_item item (tc_asset ctx)
              \<and> \<not> has_rollback item)
     \<and> member v ''assets_received'' \<in> {None, Some (SvArr [])} \<and> \<not> has_rollback v"

text \<open>Steam gave this answer to a request with a credential: the seller's token, or the key of the
  web API.\<close>

definition offer_told :: "steam_api \<Rightarrow> credential \<Rightarrow> string \<Rightarrow> steam_value \<Rightarrow> bool" where
  "offer_told api cr oid v \<longleftrightarrow>
     (case cr of
        By_token token \<Rightarrow> \<exists>data. steam_token_read api GetTradeOffer token oid = (200, data) \<and> answered_offer data = Some v
      | By_key key \<Rightarrow> \<exists>st data. api_offer api key oid = Some (st, Some data) \<and> status_ok st \<and> answered_offer data = Some v)"

definition trade_told :: "steam_api \<Rightarrow> credential \<Rightarrow> string \<Rightarrow> steam_value \<Rightarrow> bool" where
  "trade_told api cr tid v \<longleftrightarrow>
     (case cr of
        By_token token \<Rightarrow> \<exists>data. steam_token_read api GetTradeStatus token tid = (200, data) \<and> one_trade data = Some v
      | By_key key \<Rightarrow> \<exists>data. api_trade api key tid = Some (200, Some data) \<and> one_trade data = Some v)"

text \<open>The credential speaks for the seller: a token handed over for this very offer, which Steam does
  not attribute to somebody else, or the configured key of the seller.\<close>

definition speaks_for_seller ::
    "steam_api \<Rightarrow> steam_credential option \<Rightarrow> world \<Rightarrow> credential \<Rightarrow> string \<Rightarrow> trade_context \<Rightarrow> bool" where
  "speaks_for_seller api cred w cr oid ctx \<longleftrightarrow>
     (case cr of
        By_token token \<Rightarrow> request_credential cred oid (Some ctx) = Some token
          \<and> (let identity = snd (steam_token_read api GetTokenDetails token [])
             in explicit_owner identity \<longrightarrow> steam_token_owner identity = tc_seller ctx)
      | By_key key \<Rightarrow> env w ''STEAM_WEB_API_KEY'' = Some key \<and> key_owner w = tc_seller ctx)"

lemma only_item_Some [simp]: "only_item v = Some x \<longleftrightarrow> v = Some (SvArr [x])"
  by (auto simp: only_item_def split: option.splits steam_value.splits list.splits)

lemma matches_item_names: "matches_item v aid m \<Longrightarrow> names_item v aid"
  by (simp add: matches_item_def names_item_def)

lemma offer_matches:
  assumes "steam_offer_matches_order v ctx owner"
  shows "offers_order v ctx" "owner = tc_seller ctx" "nonempty_text (tc_seller ctx)" "nonempty_text (tc_buyer ctx)"
  using assms
  by (auto simp: steam_offer_matches_order_def offers_order_def takes_nothing_def
      split: if_splits option.splits dest: matches_item_names)

lemma receipt_complete:
  assumes "steam_receipt_complete v (SvStr tid) ctx" and "nonempty_text (tc_buyer ctx)"
  shows "delivers_order v tid ctx"
  using assms
  by (auto simp: steam_receipt_complete_def delivers_order_def takes_nothing_def nonempty_text_def
      split: if_splits option.splits dest: matches_item_names)

text \<open>The results that carry no receipt.\<close>

lemma plain_results [simp]:
  "rc_receipt_verified (plain_result s r) = False" "rc_status (plain_result s r) = s"
  "rc_reversal (plain_result s r) = False" "rc_identity_conflict (plain_result s r) = False"
  "rc_receipt_verified (unknown_result reason) = False" "rc_receipt_verified (conflict_result reason b) = False"
  "rc_status (unknown_result reason) = Offer_unknown" "rc_status (conflict_result reason b) = Offer_unknown"
  by (simp_all add: plain_result_def unknown_result_def conflict_result_def)

lemma judge_trade_verified:
  assumes "judge_trade status data tid ctx = Inr r" and "rc_receipt_verified r"
  shows "status = 200 \<and> (\<exists>v. one_trade data = Some v \<and> steam_receipt_complete v tid ctx \<and> \<not> steam_receipt_reversed v tid ctx)
    \<and> rc_status r = Offer_accepted \<and> rc_trade_id r = text_of (Some tid) \<and> \<not> rc_identity_conflict r \<and> \<not> rc_reversal r"
  using assms by (auto simp: judge_trade_def Let_def split: if_splits option.splits)

lemma read_receipt_verified:
  assumes "read_receipt api tid ctx cr = Inr r" and "rc_receipt_verified r" and buyer: "nonempty_text (tc_buyer ctx)"
  shows "\<exists>t v. tid = SvStr t \<and> trade_told api cr t v \<and> delivers_order v t ctx
    \<and> rc_status r = Offer_accepted \<and> rc_trade_id r = Some t \<and> \<not> rc_identity_conflict r \<and> \<not> rc_reversal r"
proof -
  obtain data where d: "judge_trade 200 data tid ctx = Inr r"
    "(case cr of By_token token \<Rightarrow> steam_token_read api GetTradeStatus token (value_key tid) = (200, data)
      | By_key key \<Rightarrow> api_trade api key (value_key tid) = Some (200, Some data))"
  proof (cases cr)
    case (By_token token)
    obtain status data where "steam_token_read api GetTradeStatus token (value_key tid) = (status, data)" by fastforce
    with assms(1) By_token judge_trade_verified [OF _ assms(2)] show ?thesis
      by (intro that [of data]) (auto simp: read_receipt_def)
  next
    case (By_key key)
    with assms(1) obtain status body where a: "api_trade api key (value_key tid) = Some (status, body)"
      by (auto simp: read_receipt_def split: option.splits)
    have "status_ok status"
      using assms(1,2) By_key a judge_trade_verified [of status SvNull tid ctx r]
      by (auto simp: read_receipt_def one_trade_def member_of_def split: if_splits)
    with assms(1) By_key a obtain data where "body = Some data" "judge_trade status data tid ctx = Inr r"
      by (auto simp: read_receipt_def split: option.splits)
    with By_key a judge_trade_verified [OF _ assms(2)] show ?thesis by (intro that [of data]) auto
  qed
  from judge_trade_verified [OF d(1) assms(2)] obtain v where
    v: "one_trade data = Some v" "steam_receipt_complete v tid ctx" and
    r: "rc_status r = Offer_accepted" "rc_trade_id r = text_of (Some tid)" "\<not> rc_identity_conflict r" "\<not> rc_reversal r"
    by auto
  then obtain t where t: "tid = SvStr t"
    by (auto simp: steam_receipt_complete_def is_trade_id_def split: if_splits steam_value.splits)
  have "trade_told api cr t v" using d(2) v(1) t by (auto simp: trade_told_def split: credential.splits)
  with receipt_complete [of v t ctx] v r t buyer show ?thesis by (auto simp: text_of_def)
qed

lemma settle_by_receipt_verified:
  assumes "settle_by_receipt api offer ctx cr no_trade = Inr r" and "rc_receipt_verified r"
    and "\<not> rc_receipt_verified no_trade" and "nonempty_text (tc_buyer ctx)"
  shows "\<exists>t v. member offer ''tradeid'' = Some (SvStr t) \<and> trade_told api cr t v \<and> delivers_order v t ctx
    \<and> rc_status r = Offer_accepted \<and> rc_trade_id r = Some t \<and> \<not> rc_identity_conflict r \<and> \<not> rc_reversal r
    \<and> rc_binding_verified r = binding_verified offer ctx"
proof -
  from assms(1-3) obtain tid r0 where
    0: "member offer ''tradeid'' = Some tid" "read_receipt api tid ctx cr = Inr r0" and
    r: "r = r0\<lparr>rc_offer_accepted := True, rc_binding_verified := binding_verified offer ctx\<rparr>"
    by (auto simp: settle_by_receipt_def bindE_eq_Inr split: option.splits if_splits)
  with assms(2) have "rc_receipt_verified r0" by simp
  from read_receipt_verified [OF 0(2) this assms(4)] 0(1) r show ?thesis by auto
qed

text \<open>What an answer must say for a verified result, on both ways of asking.\<close>

definition answer_settles ::
    "steam_api \<Rightarrow> steam_credential option \<Rightarrow> world \<Rightarrow> string \<Rightarrow> trade_context \<Rightarrow> receipt \<Rightarrow> bool" where
  "answer_settles api cred w oid ctx r \<longleftrightarrow>
     (\<exists>cr offer tid trade. speaks_for_seller api cred w cr oid ctx
        \<and> offer_told api cr oid offer \<and> member offer ''tradeofferid'' = Some (SvStr oid) \<and> offers_order offer ctx
        \<and> member offer ''tradeid'' = Some (SvStr tid) \<and> trade_told api cr tid trade \<and> delivers_order trade tid ctx
        \<and> rc_status r = Offer_accepted \<and> rc_trade_id r = Some tid \<and> \<not> rc_identity_conflict r \<and> \<not> rc_reversal r
        \<and> rc_binding_verified r = nonempty_text (tc_binding ctx))"

lemma binding_verified_offer: "offers_order offer ctx \<Longrightarrow> binding_verified offer ctx = nonempty_text (tc_binding ctx)"
  by (auto simp: binding_verified_def offers_order_def)

lemma answer_settles_offer:
  assumes match: "steam_offer_matches_order offer ctx owner" and oid: "member offer ''tradeofferid'' = Some (SvStr oid)"
    and "settle_by_receipt api offer ctx cr no_trade = Inr r" "rc_receipt_verified r" "\<not> rc_receipt_verified no_trade"
    and "speaks_for_seller api cred w cr oid ctx" "offer_told api cr oid offer"
  shows "answer_settles api cred w oid ctx r"
  using settle_by_receipt_verified [OF assms(3-5) offer_matches(4) [OF match]] offer_matches(1) [OF match] assms
  by (auto simp: answer_settles_def binding_verified_offer)

lemma verify_with_token_settles:
  assumes "verify_with_token api oid ctx token = Inr r" and "rc_receipt_verified r"
    and "request_credential cred oid (Some ctx) = Some token"
  shows "answer_settles api cred w oid ctx r"
proof -
  obtain ids identity where i: "steam_token_read api GetTokenDetails token [] = (ids, identity)" by fastforce
  obtain st data where a: "steam_token_read api GetTradeOffer token oid = (st, data)" by fastforce
  from assms(1,2) i a obtain offer where o: "answered_offer data = Some offer" "st = 200"
      "\<not> (explicit_owner identity \<and> (ids \<noteq> 200 \<or> steam_token_owner identity \<noteq> tc_seller ctx))"
      "member offer ''tradeofferid'' = Some (SvStr oid)" "steam_offer_matches_order offer ctx (tc_seller ctx)" and
    s: "settle_by_receipt api offer ctx (By_token token) (unknown_result ''STEAM_RECEIPT_MAPPING_UNAVAILABLE'') = Inr r"
    by (auto simp: verify_with_token_def Let_def split: if_splits option.splits)
  show ?thesis
    by (rule answer_settles_offer [OF o(5,4) s assms(2)])
       (use a i o assms(3) in \<open>auto simp: speaks_for_seller_def offer_told_def\<close>)
qed

lemma judge_offer_settles:
  assumes "judge_offer api w key oid (Some ctx) data = Inr r" and "rc_receipt_verified r"
    and "env w ''STEAM_WEB_API_KEY'' = Some key" "api_offer api key oid = Some (st, Some data)" "status_ok st"
  shows "answer_settles api cred w oid ctx r"
proof -
  from assms(1,2) obtain offer where o: "answered_offer data = Some offer"
      "member offer ''tradeofferid'' = Some (SvStr oid)" "steam_offer_matches_order offer ctx (key_owner w)" and
    s: "settle_by_receipt api offer ctx (By_key key) (plain_result Offer_unknown None) = Inr r"
    by (auto simp: judge_offer_def Let_def split: if_splits option.splits)
  show ?thesis
    by (rule answer_settles_offer [OF o(3,2) s assms(2)])
       (use assms o offer_matches(2) [OF o(3)] in \<open>auto simp: speaks_for_seller_def offer_told_def\<close>)
qed

lemma verified_offer_settles:
  assumes "steam_verify_offer api cred w oid (Some ctx) = Inr r" and "rc_receipt_verified r"
  shows "answer_settles api cred w oid ctx r"
proof (cases "request_credential cred oid (Some ctx) \<in> {None, Some []}")
  case True
  with assms obtain c k st data where "env w ''STEAM_WEB_API_KEY'' = Some (c # k)" "status_ok st"
    "api_offer api (c # k) oid = Some (st, Some data)" "judge_offer api w (c # k) oid (Some ctx) data = Inr r"
    by (auto simp: steam_verify_offer_def split: if_splits option.splits list.splits)
  with assms(2) show ?thesis by (intro judge_offer_settles)
next
  case False
  then obtain c k where t: "request_credential cred oid (Some ctx) = Some (c # k)"
    by (auto simp: neq_Nil_conv)
  with assms have "verify_with_token api oid ctx (c # k) = Inr r"
    by (auto simp: steam_verify_offer_def split: if_splits)
  then show ?thesis by (rule verify_with_token_settles [OF _ assms(2) t])
qed

text \<open>
  C9: A verified receipt is Steam's own word about this order. When the provider reports a verified
  receipt for an offer, it asked with a credential of the seller; Steam answered with this very offer,
  which gives the item of the order (one piece, and nothing else) to the buyer's account and takes
  nothing in return, and with the completed trade of the offer, which did just that and was not rolled
  back. The offer's message then is the binding of the order, if there is one.
\<close>

theorem verified_receipt_authentic:
  assumes "steam_verify_offer api cred w oid (Some ctx) = Inr r" and "rc_receipt_verified r"
  shows "\<exists>cr offer tid trade. speaks_for_seller api cred w cr oid ctx
     \<and> offer_told api cr oid offer \<and> member offer ''tradeofferid'' = Some (SvStr oid) \<and> offers_order offer ctx
     \<and> member offer ''tradeid'' = Some (SvStr tid) \<and> trade_told api cr tid trade \<and> delivers_order trade tid ctx
     \<and> rc_status r = Offer_accepted \<and> rc_trade_id r = Some tid \<and> \<not> rc_identity_conflict r \<and> \<not> rc_reversal r
     \<and> rc_binding_verified r = nonempty_text (tc_binding ctx)"
  using verified_offer_settles [OF assms] by (simp add: answer_settles_def)

text \<open>Steam knows one accepted offer and its completed trade; the key belongs to the seller.\<close>

definition receipt_item :: steam_value where
  "receipt_item = SvObj [(''appid'', SvNum 730), (''contextid'', SvStr ''2''), (''assetid'', SvStr ''456''),
     (''amount'', SvStr ''1''), (''new_assetid'', SvStr ''789''), (''new_contextid'', SvStr ''16'')]"

definition demo_offer :: steam_value where
  "demo_offer = SvObj [(''tradeofferid'', SvStr ''900''), (''trade_offer_state'', SvNum 3), (''tradeid'', SvStr ''700''),
     (''message'', SvStr ''p2pcs:1''), (''is_our_offer'', SvBool True), (''accountid_other'', SvNum 39734274),
     (''items_to_give'', SvArr [receipt_item])]"

definition demo_trade :: steam_value where
  "demo_trade = SvObj [(''tradeid'', SvStr ''700''), (''status'', SvNum 3), (''steamid_other'', SvStr ''76561198000000002''),
     (''assets_given'', SvArr [receipt_item])]"

definition demo_api :: steam_api where
  "demo_api = \<lparr>
     api_offer = (\<lambda>_ i. if i = ''900''
       then Some (200, Some (SvObj [(''response'', SvObj [(''offer'', demo_offer)])])) else None),
     api_trade = (\<lambda>_ i. if i = ''700''
       then Some (200, Some (SvObj [(''response'', SvObj [(''trades'', SvArr [demo_trade])])])) else None),
     api_token = (\<lambda>_ _ _. None)\<rparr>"

definition demo_context :: trade_context where
  "demo_context = \<lparr>tc_binding = Some ''p2pcs:1'', tc_seller = Some ''76561198000000001'',
     tc_buyer = Some ''76561198000000002'', tc_asset = ''456''\<rparr>"

definition keyed_world :: world where
  "keyed_world = demo_world\<lparr>env := (\<lambda>k. if k = ''STEAM_WEB_API_KEY'' then Some ''key''
     else if k = ''STEAM_WEB_API_KEY_OWNER_STEAM_ID'' then Some ''76561198000000001'' else env demo_world k)\<rparr>"

definition demo_receipt :: receipt where
  "demo_receipt = \<lparr>rc_status = Offer_accepted, rc_reason = Some ''STEAM_RECEIPT_VERIFIED'', rc_receipt_verified = True,
     rc_offer_accepted = True, rc_binding_verified = True, rc_trade_id = Some ''700'', rc_identity_conflict = False,
     rc_reversal = False, rc_received_asset = Some ''789'', rc_received_context = Some ''16''\<rparr>"

lemma demo_offer_verified:
  "steam_verify_offer demo_api None keyed_world ''900'' (Some demo_context) = Inr demo_receipt"
  by code_simp

theorem verified_receipt_authentic_witness:
  "\<exists>cr offer tid trade. speaks_for_seller demo_api None keyed_world cr ''900'' demo_context
     \<and> offer_told demo_api cr ''900'' offer \<and> member offer ''tradeofferid'' = Some (SvStr ''900'')
     \<and> offers_order offer demo_context
     \<and> member offer ''tradeid'' = Some (SvStr tid) \<and> trade_told demo_api cr tid trade
     \<and> delivers_order trade tid demo_context
     \<and> rc_status demo_receipt = Offer_accepted \<and> rc_trade_id demo_receipt = Some tid
     \<and> \<not> rc_identity_conflict demo_receipt \<and> \<not> rc_reversal demo_receipt
     \<and> rc_binding_verified demo_receipt = nonempty_text (tc_binding demo_context)"
  by (rule verified_receipt_authentic [OF demo_offer_verified]) (simp add: demo_receipt_def)

end
