(* ===== verification/SteamInventory.thy ===== *)
theory SteamInventory
  imports SteamReceipts MarketNames DeliveryDecision
begin

text \<open>
  Reading an inventory from Steam: the pages (\<^verbatim>\<open>providers/inventory/steam-inventory.client.ts\<close>), the
  parser of their rows (\<^verbatim>\<open>steam-inventory.parser.ts\<close>, \<^verbatim>\<open>sticker-parser.util.ts\<close>), the complete
  observation before a trade and the comparison of two observations
  (\<^verbatim>\<open>trades/inventory-observation.ts\<close>). The columns for inspect links are left out.
\<close>

section \<open>Pages\<close>

text \<open>An error thrown while reading: its code, if it has one, and its message.\<close>

datatype read_error = Read_error "string option" string

definition nonzero :: "int option \<Rightarrow> bool" where
  "nonzero n \<longleftrightarrow> n \<noteq> None \<and> n \<noteq> Some 0"

definition is_private_response :: "inventory_page \<Rightarrow> bool" where
  "is_private_response pg \<longleftrightarrow> pg_success pg = Some 15"

definition fetch_inventory_page ::
    "world \<Rightarrow> string \<Rightarrow> string \<Rightarrow> string option \<Rightarrow> read_error + inventory_page" where
  "fetch_inventory_page w steam_id ctx start =
     (case fetch_page w steam_id ctx (if nonempty_text start then start else None) of
        Inl (code, msg) \<Rightarrow> Inl (Read_error code msg)
      | Inr (status, pg) \<Rightarrow>
          if status = 429
          then Inl (Read_error (Some ''STEAM_RATE_LIMITED'')
                 ''Steam inventory API rate-limited (429). Wait 1-2 minutes and force-refresh again.'')
          else if status = 403 \<and> \<not> is_private_response pg
          then Inl (Read_error (Some ''STEAM_BLOCKED'')
                 ''Steam temporarily blocked this server IP (403). Inventory cache is still available; try again later.'')
          else if is_private_response pg
          then Inl (Read_error (Some ''STEAM_PROFILE_PRIVATE'') ''Steam inventory is private'')
          else if 400 \<le> status then Inl (Read_error None (''Steam inventory API returned '' @ show_int status))
          else Inr pg)"

text \<open>The pages read so far; \<open>more_items\<close> of the merged answer says whether pages are missing.\<close>

record merged_inventory =
  mg_assets :: "raw_asset list"
  mg_texts :: "item_text list"
  mg_properties :: "(string \<times> item_property list option) list"
  mg_more :: bool

definition empty_inventory :: merged_inventory where
  "empty_inventory = \<lparr>mg_assets = [], mg_texts = [], mg_properties = [], mg_more = False\<rparr>"

definition merge_page :: "inventory_page \<Rightarrow> merged_inventory \<Rightarrow> merged_inventory" where
  "merge_page pg m =
     \<lparr>mg_assets = mg_assets m @ (case pg_assets pg of Some x \<Rightarrow> x | None \<Rightarrow> []),
      mg_texts = mg_texts m @ (case pg_texts pg of Some x \<Rightarrow> x | None \<Rightarrow> []),
      mg_properties = mg_properties m @ (case pg_properties pg of Some x \<Rightarrow> x | None \<Rightarrow> []),
      mg_more = mg_more m\<rparr>"

definition max_inventory_pages :: nat where
  "max_inventory_pages = 20"

text \<open>\<open>n\<close> pages may still be read.\<close>

fun fetch_pages ::
    "world \<Rightarrow> string \<Rightarrow> string \<Rightarrow> nat \<Rightarrow> string option \<Rightarrow> merged_inventory \<Rightarrow> read_error + merged_inventory" where
  "fetch_pages w steam_id ctx 0 start m = Inr (m\<lparr>mg_more := nonempty_text start\<rparr>)"
| "fetch_pages w steam_id ctx (Suc n) start m =
     bindE (fetch_inventory_page w steam_id ctx start) (\<lambda>pg.
       if pg_success pg \<noteq> Some 1 \<or> nonzero (pg_more pg) \<and> (\<not> nonempty_text (pg_last pg) \<or> pg_last pg = start)
       then Inl (Read_error None ''STEAM_INVENTORY_INCOMPLETE'')
       else if \<not> nonzero (pg_more pg) \<or> \<not> nonempty_text (pg_last pg)
       then Inr ((merge_page pg m)\<lparr>mg_more := False\<rparr>)
       else fetch_pages w steam_id ctx n (pg_last pg) (merge_page pg m))"

definition fetch_all_pages :: "world \<Rightarrow> string \<Rightarrow> string \<Rightarrow> read_error + merged_inventory" where
  "fetch_all_pages w steam_id ctx = fetch_pages w steam_id ctx max_inventory_pages None empty_inventory"

section \<open>Stickers\<close>

text \<open>What may follow the name: a wear in percent in parentheses, then spaces.\<close>

definition sticker_tail :: "string \<Rightarrow> int option option" where
  "sticker_tail s =
     (case dropWhile is_space s of
        [] \<Rightarrow> Some None
      | c # cs \<Rightarrow>
          let ds = takeWhile is_digit cs; rest = dropWhile is_digit cs in
          if c = CHR ''('' \<and> ds \<noteq> [] \<and> take 2 rest = ''%)'' \<and> list_all is_space (drop 2 rest)
          then Some (Some (digits_value ds)) else None)"

definition sticker_name_at :: "string \<Rightarrow> nat \<Rightarrow> bool" where
  "sticker_name_at s k \<longleftrightarrow> \<not> list_ex is_line_end (take k s) \<and> sticker_tail (drop k s) \<noteq> None"

text \<open>\<open>/^Sticker:\s*(.+?)(?:\s*\((\d+)%\))?\s*$/i\<close>: the shortest name that leaves a tail.\<close>

definition sticker_line :: "string \<Rightarrow> (string \<times> int option) option" where
  "sticker_line v =
     (let t = js_trim v; s = dropWhile is_space (drop 8 t) in
      if to_lower (take 8 t) \<noteq> ''sticker:'' then None
      else case find (sticker_name_at s) [1..<Suc (length s)] of
        None \<Rightarrow> None
      | Some k \<Rightarrow> Some (js_trim (take k s), the (sticker_tail (drop k s))))"

definition json_sticker :: "string \<times> int option \<Rightarrow> json" where
  "json_sticker x = JObj [(''name'', JStr (fst x)), (''wearPercent'', case snd x of Some n \<Rightarrow> JNum n | None \<Rightarrow> JNull)]"

definition parse_stickers :: "string option list option \<Rightarrow> json list" where
  "parse_stickers ls =
     List.map_filter (\<lambda>l. map_option json_sticker (case l of Some v \<Rightarrow> sticker_line v | None \<Rightarrow> None))
       (case ls of Some xs \<Rightarrow> xs | None \<Rightarrow> [])"

section \<open>Rows\<close>

record parsed_asset =
  pa_asset :: string
  pa_name :: string
  pa_weapon :: "string option"
  pa_rarity :: "string option"
  pa_icon :: "string option"
  pa_tradable :: bool
  pa_marketable :: bool
  pa_lock_until :: "int option"
  pa_float :: "string option"
  pa_seed :: "int option"
  pa_wear :: "string option"
  pa_stickers :: "json list"
  pa_class :: string
  pa_instance :: string

definition item_text_key :: "string \<Rightarrow> string \<Rightarrow> string" where
  "item_text_key cls inst = cls @ ''_'' @ inst"

text \<open>\<open>/\(([^)]+)\)\s*$/\<close> on the name as it is: the text in the last parentheses, if the name ends with them.\<close>

definition parse_wear :: "string \<Rightarrow> string option" where
  "parse_wear name =
     (let t = rev (dropWhile is_space (rev name)) in
      if t = [] \<or> last t \<noteq> CHR '')'' then None
      else
        let segment = rev (takeWhile (\<lambda>c. c \<noteq> CHR '')'') (rev (butlast t)))
        in case dropWhile (\<lambda>c. c \<noteq> CHR ''('') segment of
             [] \<Rightarrow> None
           | _ # captured \<Rightarrow>
               if captured = [] then None
               else (case map_of wear_suffix_to_code (to_lower captured) of Some c \<Rightarrow> Some c | None \<Rightarrow> Some captured))"

definition find_tag :: "string \<Rightarrow> item_text \<Rightarrow> string option" where
  "find_tag category it =
     (case find (\<lambda>(c, _). c = category) (case it_tags it of Some ts \<Rightarrow> ts | None \<Rightarrow> []) of
        Some (_, name) \<Rightarrow> name | None \<Rightarrow> None)"

definition find_property :: "int \<Rightarrow> item_property list \<Rightarrow> item_property option" where
  "find_property n = find (\<lambda>p. ip_id p = n)"

definition parse_asset :: "world \<Rightarrow> merged_inventory \<Rightarrow> raw_asset \<Rightarrow> parsed_asset option" where
  "parse_asset w m a =
     (case map_of (rev (map (\<lambda>it. (item_text_key (it_class it) (it_instance it), it)) (mg_texts m)))
             (item_text_key (ra_class a) (ra_instance a)) of
        None \<Rightarrow> None
      | Some it \<Rightarrow>
          (case it_market_hash_name it of
             None \<Rightarrow> None
           | Some name \<Rightarrow>
               if name = [] then None
               else
                 let props = (case map_of (rev (mg_properties m)) (ra_asset a) of Some (Some ps) \<Rightarrow> ps | _ \<Rightarrow> [])
                 in Some
                   \<lparr>pa_asset = ra_asset a, pa_name = name, pa_weapon = find_tag ''Weapon'' it,
                    pa_rarity = find_tag ''Rarity'' it,
                    pa_icon = (case it_icon_large it of Some u \<Rightarrow> Some u | None \<Rightarrow> it_icon it),
                    pa_tradable = (it_tradable it = Some 1),
                    pa_marketable = (case it_marketable it of None \<Rightarrow> it_tradable it = Some 1 | Some n \<Rightarrow> n = 1),
                    pa_lock_until = (case it_cache_expiration it of
                       Some s \<Rightarrow> if s = [] then None else date_parse w s | None \<Rightarrow> None),
                    pa_float = Option.bind (find_property 1 props) ip_float,
                    pa_seed = (case Option.bind (find_property 2 props) ip_int of
                       Some s \<Rightarrow> if s = [] then None else js_number w s | None \<Rightarrow> None),
                    pa_wear = parse_wear name, pa_stickers = parse_stickers (it_lines it),
                    pa_class = ra_class a, pa_instance = ra_instance a\<rparr>))"

definition parse_inventory :: "world \<Rightarrow> merged_inventory \<Rightarrow> parsed_asset list" where
  "parse_inventory w m = List.map_filter (parse_asset w m) (mg_assets m)"

section \<open>Observations\<close>

definition observed_asset :: "string \<Rightarrow> parsed_asset \<Rightarrow> asset_observation" where
  "observed_asset ctx p =
     \<lparr>oa_asset_id = pa_asset p, oa_context = ctx, oa_app = 730, oa_class = pa_class p, oa_instance = pa_instance p,
      oa_name = pa_name p, oa_float = pa_float p, oa_seed = pa_seed p, oa_stickers = pa_stickers p\<rparr>"

text \<open>The rows of one context; every raw row must have been understood and belong to the context.\<close>

definition observe_context :: "world \<Rightarrow> string \<Rightarrow> string \<Rightarrow> read_error + asset_observation list" where
  "observe_context w steam_id ctx =
     bindE (fetch_all_pages w steam_id ctx) (\<lambda>m.
       let parsed = parse_inventory w m in
       if mg_more m then Inl (Read_error None ''INVENTORY_INCOMPLETE'')
       else if length parsed \<noteq> length (mg_assets m) then Inl (Read_error None ''INVENTORY_METADATA_INCOMPLETE'')
       else if list_ex (\<lambda>a. ra_appid a \<noteq> 730 \<or> ra_context a \<noteq> ctx \<or> \<not> is_steam_number (ra_asset a)) (mg_assets m)
       then Inl (Read_error None ''INVENTORY_CONTEXT_INVALID'')
       else Inr (map (observed_asset ctx) parsed))"

definition observe_inventory :: "world \<Rightarrow> int \<Rightarrow> string \<Rightarrow> read_error + inventory_observation" where
  "observe_inventory w now steam_id =
     bindE (observe_context w steam_id ''2'') (\<lambda>xs.
     bindE (observe_context w steam_id ''16'') (\<lambda>ys.
       let assets = xs @ ys in
       if \<not> distinct (map (\<lambda>a. oa_context a @ '':'' @ oa_asset_id a) assets)
       then Inl (Read_error None ''INVENTORY_DUPLICATE'')
       else Inr \<lparr>io_fetched_at = now, io_assets = assets\<rparr>))"

section \<open>An observation is complete\<close>

text \<open>The pages Steam gives one after the other, up to one that announces no further page.\<close>

inductive inventory_chain :: "world \<Rightarrow> string \<Rightarrow> string \<Rightarrow> string option \<Rightarrow> inventory_page list \<Rightarrow> bool"
  for w steam_id ctx where
  final: "fetch_inventory_page w steam_id ctx start = Inr pg \<Longrightarrow> pg_success pg = Some 1 \<Longrightarrow> \<not> nonzero (pg_more pg) \<Longrightarrow>
    inventory_chain w steam_id ctx start [pg]"
| more: "fetch_inventory_page w steam_id ctx start = Inr pg \<Longrightarrow> pg_success pg = Some 1 \<Longrightarrow> nonzero (pg_more pg) \<Longrightarrow>
    nonempty_text (pg_last pg) \<Longrightarrow> inventory_chain w steam_id ctx (pg_last pg) pgs \<Longrightarrow>
    inventory_chain w steam_id ctx start (pg # pgs)"

definition page_rows :: "inventory_page \<Rightarrow> raw_asset list" where
  "page_rows pg = (case pg_assets pg of Some x \<Rightarrow> x | None \<Rightarrow> [])"

lemma merge_page_rows [simp]: "mg_assets (merge_page pg m) = mg_assets m @ page_rows pg"
  by (simp add: merge_page_def page_rows_def)

lemma fetch_pages_chain:
  assumes "fetch_pages w steam_id ctx n start m = Inr r" and "\<not> mg_more r" and "0 < n \<or> nonempty_text start"
  shows "\<exists>pgs. inventory_chain w steam_id ctx start pgs \<and> mg_assets r = mg_assets m @ concat (map page_rows pgs)
    \<and> length pgs \<le> n"
  using assms
proof (induction w steam_id ctx n start m rule: fetch_pages.induct)
  case (1 w steam_id ctx start m)
  then show ?case by auto
next
  case (2 w steam_id ctx n start m)
  from "2.prems"(1) obtain pg where pg: "fetch_inventory_page w steam_id ctx start = Inr pg" "pg_success pg = Some 1"
    by (auto simp: bindE_eq_Inr split: if_splits)
  show ?case
  proof (cases "nonzero (pg_more pg)")
    case False
    with "2.prems"(1) pg have "r = (merge_page pg m)\<lparr>mg_more := False\<rparr>" by auto
    with pg False show ?thesis by (intro exI [of _ "[pg]"]) (auto intro: inventory_chain.final)
  next
    case True
    with "2.prems"(1) pg have nxt: "nonempty_text (pg_last pg)" "pg_last pg \<noteq> start"
      "fetch_pages w steam_id ctx n (pg_last pg) (merge_page pg m) = Inr r"
      by (auto split: if_splits)
    have "\<exists>pgs. inventory_chain w steam_id ctx (pg_last pg) pgs
        \<and> mg_assets r = mg_assets (merge_page pg m) @ concat (map page_rows pgs) \<and> length pgs \<le> n"
      by (rule "2.IH") (use pg True nxt "2.prems"(2) in simp_all)
    then obtain pgs where
      "inventory_chain w steam_id ctx (pg_last pg) pgs" "length pgs \<le> n"
      "mg_assets r = mg_assets (merge_page pg m) @ concat (map page_rows pgs)"
      by auto
    with pg True nxt show ?thesis by (intro exI [of _ "pg # pgs"]) (auto intro: inventory_chain.more)
  qed
qed

text \<open>Every row that was parsed at all keeps its place.\<close>

lemma map_filter_total:
  assumes "length (List.map_filter f xs) = length xs" and "\<And>x y. f x = Some y \<Longrightarrow> g y = h x"
  shows "map g (List.map_filter f xs) = map h xs"
  using assms(1)
proof (induction xs)
  case (Cons x xs)
  have "length (List.map_filter f xs) \<le> length xs" by (simp add: map_filter_def)
  with Cons assms(2) show ?case by (cases "f x") (auto simp: map_filter_simps)
qed (simp add: map_filter_simps)

lemma parse_asset_id: "parse_asset w m a = Some p \<Longrightarrow> pa_asset p = ra_asset a"
  by (auto simp: parse_asset_def Let_def split: option.splits if_splits)

lemma observe_context_complete:
  assumes "observe_context w steam_id ctx = Inr xs"
  shows "\<exists>pgs. inventory_chain w steam_id ctx None pgs \<and> length pgs \<le> max_inventory_pages
    \<and> map (\<lambda>a. (oa_context a, oa_asset_id a)) xs = map (\<lambda>a. (ra_context a, ra_asset a)) (concat (map page_rows pgs))"
proof -
  from assms obtain m where m: "fetch_all_pages w steam_id ctx = Inr m" "\<not> mg_more m"
      "length (parse_inventory w m) = length (mg_assets m)"
      "\<forall>a \<in> set (mg_assets m). ra_context a = ctx" "xs = map (observed_asset ctx) (parse_inventory w m)"
    by (auto simp: observe_context_def bindE_eq_Inr Let_def list_ex_iff split: if_splits)
  from m(1) obtain pgs where p: "inventory_chain w steam_id ctx None pgs" "mg_assets m = concat (map page_rows pgs)"
      "length pgs \<le> max_inventory_pages"
    using fetch_pages_chain [OF _ m(2)]
    by (fastforce simp: fetch_all_pages_def empty_inventory_def max_inventory_pages_def)
  have "map pa_asset (parse_inventory w m) = map ra_asset (mg_assets m)"
    unfolding parse_inventory_def
    by (rule map_filter_total) (use m(3) in \<open>auto simp: parse_inventory_def parse_asset_id\<close>)
  moreover have "map (\<lambda>a. (oa_context a, oa_asset_id a)) xs = map (\<lambda>i. (ctx, i)) (map pa_asset (parse_inventory w m))"
    by (simp add: m(5) observed_asset_def)
  ultimately have "map (\<lambda>a. (oa_context a, oa_asset_id a)) xs = map (\<lambda>i. (ctx, i)) (map ra_asset (mg_assets m))"
    by (simp only:)
  also have "\<dots> = map (\<lambda>a. (ra_context a, ra_asset a)) (mg_assets m)" using m(4) by simp
  finally show ?thesis using p by auto
qed

text \<open>
  C14: An observation of an inventory is complete. When \<open>observeSteamInventory\<close> returns, it read the
  chain of pages of both contexts of the account to its end, at most twenty pages each; the observed
  items are exactly the rows of these pages, in their order, and no item occurs twice.
\<close>

theorem observation_complete:
  assumes "observe_inventory w now steam_id = Inr obs"
  shows "\<exists>ps qs. inventory_chain w steam_id ''2'' None ps \<and> inventory_chain w steam_id ''16'' None qs
     \<and> length ps \<le> 20 \<and> length qs \<le> 20 \<and> io_fetched_at obs = now
     \<and> map (\<lambda>a. (oa_context a, oa_asset_id a)) (io_assets obs)
         = map (\<lambda>a. (ra_context a, ra_asset a)) (concat (map page_rows (ps @ qs)))
     \<and> distinct (map (\<lambda>a. (oa_context a, oa_asset_id a)) (io_assets obs))"
proof -
  let ?id = "\<lambda>a. (oa_context a, oa_asset_id a)" and ?raw = "\<lambda>a. (ra_context a, ra_asset a)"
  let ?key = "\<lambda>(c, i). c @ '':'' @ i :: string"
  obtain xs where x: "observe_context w steam_id ''2'' = Inr xs"
    using assms by (auto simp: observe_inventory_def bindE_eq_Inr)
  obtain ys where y: "observe_context w steam_id ''16'' = Inr ys"
    using assms by (auto simp: observe_inventory_def bindE_eq_Inr)
  have d: "distinct (map (\<lambda>a. oa_context a @ '':'' @ oa_asset_id a) (xs @ ys))"
    and o: "obs = \<lparr>io_fetched_at = now, io_assets = xs @ ys\<rparr>"
    using assms x y by (auto simp: observe_inventory_def Let_def simp del: map_append distinct_append split: if_splits)
  have "map (\<lambda>a. oa_context a @ '':'' @ oa_asset_id a) (xs @ ys) = map ?key (map ?id (xs @ ys))"
    unfolding map_map comp_def prod.case by (rule refl)
  with d have "distinct (map ?key (map ?id (xs @ ys)))" by (simp only:)
  then have 1: "distinct (map ?id (xs @ ys))" by (rule conjunct1 [OF iffD1 [OF distinct_map]])
  from observe_context_complete [OF x] obtain ps where 2: "inventory_chain w steam_id ''2'' None ps"
    "length ps \<le> 20" "map ?id xs = map ?raw (concat (map page_rows ps))"
    unfolding max_inventory_pages_def by (elim exE conjE)
  from observe_context_complete [OF y] obtain qs where 3: "inventory_chain w steam_id ''16'' None qs"
    "length qs \<le> 20" "map ?id ys = map ?raw (concat (map page_rows qs))"
    unfolding max_inventory_pages_def by (elim exE conjE)
  have "map ?id (xs @ ys) = map ?raw (concat (map page_rows (ps @ qs)))"
    by (simp only: map_append concat_append 2 3)
  with 1 2 3 o show ?thesis
    by (intro exI [of _ ps] exI [of _ qs]) (simp only: inventory_observation.simps simp_thms)
qed

text \<open>The seller's inventory: two pages in context 2, none of the items in context 16.\<close>

definition demo_row :: "string \<Rightarrow> raw_asset" where
  "demo_row i = \<lparr>ra_appid = 730, ra_context = ''2'', ra_asset = i, ra_class = ''7'', ra_instance = ''0''\<rparr>"

definition demo_text :: item_text where
  "demo_text = \<lparr>it_class = ''7'', it_instance = ''0'', it_market_hash_name = Some ''AK-47 | Redline (Field-Tested)'',
     it_icon = None, it_icon_large = None, it_tradable = Some 1, it_marketable = None, it_cache_expiration = None,
     it_tags = None, it_lines = Some [Some ''Sticker: Titan (12%)'']\<rparr>"

definition demo_page :: "raw_asset list \<Rightarrow> string option \<Rightarrow> inventory_page" where
  "demo_page rows nxt = \<lparr>pg_success = Some 1, pg_assets = Some rows, pg_texts = Some [demo_text], pg_properties = None,
     pg_more = (if nxt = None then None else Some 1), pg_last = nxt\<rparr>"

definition stocked_world :: "string \<Rightarrow> world" where
  "stocked_world i = keyed_world\<lparr>fetch_page := (\<lambda>_ ctx start.
     if ctx = ''16'' then Inr (200, demo_page [] None)
     else if start = None then Inr (200, demo_page [demo_row i] (Some i))
     else Inr (200, demo_page [demo_row ''8''] None))\<rparr>"

definition demo_observed :: "string \<Rightarrow> asset_observation" where
  "demo_observed i = \<lparr>oa_asset_id = i, oa_context = ''2'', oa_app = 730, oa_class = ''7'', oa_instance = ''0'',
     oa_name = ''AK-47 | Redline (Field-Tested)'', oa_float = None, oa_seed = None,
     oa_stickers = [JObj [(''name'', JStr ''Titan''), (''wearPercent'', JNum 12)]]\<rparr>"

lemma demo_observation:
  "observe_inventory (stocked_world ''456'') 5 ''76561198000000001''
     = Inr \<lparr>io_fetched_at = 5, io_assets = [demo_observed ''456'', demo_observed ''8'']\<rparr>"
  by code_simp

theorem observation_complete_witness:
  "\<exists>ps qs. inventory_chain (stocked_world ''456'') ''76561198000000001'' ''2'' None ps
     \<and> inventory_chain (stocked_world ''456'') ''76561198000000001'' ''16'' None qs
     \<and> map (\<lambda>a. (ra_context a, ra_asset a)) (concat (map page_rows (ps @ qs))) = [(''2'', ''456''), (''2'', ''8'')]"
proof -
  have "map (\<lambda>a. (oa_context a, oa_asset_id a)) [demo_observed ''456'', demo_observed ''8''] = [(''2'', ''456''), (''2'', ''8'')]"
    by (simp add: demo_observed_def)
  with observation_complete [OF demo_observation] show ?thesis
    by (simp only: inventory_observation.simps) metis
qed

end
