(* ===== verification/InventorySync.thy ===== *)
theory InventorySync
  imports SteamInventory BuyRequests SettlementGuard
begin

text \<open>
  The synchronisation of an inventory: the record of its runs
  (\<^verbatim>\<open>providers/inventory/inventory-sync-cache.service.ts\<close>), the provider that reads Steam
  (\<^verbatim>\<open>steam-inventory.provider.ts\<close>), the provider with three fixed items
  (\<^verbatim>\<open>mock-inventory.provider.ts\<close>) and the removal of unused item definitions
  (\<^verbatim>\<open>item-definitions/cleanup-orphan-item-definitions.util.ts\<close>). A synchronisation commits statement
  by statement, so its state is returned with its error.

  A call runs at one instant \<open>now\<close> and alone: calls for the same account that share one run are not
  modelled. The warning texts, the columns for inspect links and icons per wear are left out. Two runs
  of the same instant are ordered as the table is.
\<close>

section \<open>Runs\<close>

definition sync_ttl_ms :: "world \<Rightarrow> int" where
  "sync_ttl_ms w = positive_setting w ''INVENTORY_SYNC_TTL_SECONDS'' 300 * 1000"

definition sync_min_interval_ms :: "world \<Rightarrow> int" where
  "sync_min_interval_ms w = positive_setting w ''INVENTORY_SYNC_MIN_INTERVAL_MS'' 60000"

definition stale_grace_ms :: "world \<Rightarrow> int" where
  "stale_grace_ms w =
     (let configured = positive_setting w ''INVENTORY_STALE_GRACE_SECONDS'' 0
      in if 0 < configured then configured * 1000 else max (sync_ttl_ms w * 6) (30 * 60 * 1000))"

definition newer_run :: "sync_run \<Rightarrow> sync_run option \<Rightarrow> sync_run option" where
  "newer_run r best = (case best of None \<Rightarrow> Some r | Some b \<Rightarrow> if sr_fetched_at b \<le> sr_fetched_at r then Some r else Some b)"

definition latest_run :: "id \<Rightarrow> db \<Rightarrow> sync_run option" where
  "latest_run owner d = fold newer_run (filter (\<lambda>r. sr_user r = owner) (map snd (sync_runs d))) None"

definition record_run ::
    "world \<Rightarrow> int \<Rightarrow> id \<Rightarrow> string \<Rightarrow> sync_status \<Rightarrow> int \<Rightarrow> string option \<Rightarrow> db \<Rightarrow> sync_run \<times> db" where
  "record_run w now owner steam_id status count code d =
     (let (i, d) = draw_db d;
          r = \<lparr>sr_user = owner, sr_steam_id = steam_id, sr_status = status, sr_item_count = count,
               sr_fetched_at = now, sr_expires_at = now + sync_ttl_ms w, sr_error_code = code\<rparr>
      in (r, d\<lparr>sync_runs := insert_row i r (sync_runs d)\<rparr>))"

definition is_cache_valid :: "int \<Rightarrow> sync_run \<Rightarrow> bool" where
  "is_cache_valid now r \<longleftrightarrow> sr_status r = SY_SUCCESS \<and> now < sr_expires_at r"

definition clear_runs :: "id \<Rightarrow> db \<Rightarrow> db" where
  "clear_runs owner d = d\<lparr>sync_runs := filter (\<lambda>(_, r). sr_user r \<noteq> owner) (sync_runs d)\<rparr>"

definition is_within_rate_limit :: "world \<Rightarrow> int \<Rightarrow> sync_run \<Rightarrow> bool" where
  "is_within_rate_limit w now r \<longleftrightarrow> now - sr_fetched_at r < sync_min_interval_ms w"

section \<open>Results\<close>

datatype sync_outcome = Sync_success | Sync_failed | Sync_partial | Sync_cache_hit

record sync_result =
  sy_outcome :: sync_outcome
  sy_count :: int
  sy_observed :: "string list option"
  sy_fetched_at :: int
  sy_expires_at :: int
  sy_cache_hit :: bool
  sy_stale :: bool
  sy_error :: "string option"

text \<open>The exception of a synchronisation: its code and the code in its details; any other error has
  none of the codes the callers look for.\<close>

datatype sync_failure = Sync_failure string "string option" | Sync_crash error

definition to_sync_result :: "sync_run \<Rightarrow> bool \<Rightarrow> bool \<Rightarrow> sync_result" where
  "to_sync_result r hit stale =
     \<lparr>sy_outcome = (if hit \<and> sr_status r = SY_SUCCESS then Sync_cache_hit
                    else case sr_status r of SY_SUCCESS \<Rightarrow> Sync_success | SY_FAILED \<Rightarrow> Sync_failed | SY_PARTIAL \<Rightarrow> Sync_partial),
      sy_count = sr_item_count r, sy_observed = None, sy_fetched_at = sr_fetched_at r,
      sy_expires_at = sr_expires_at r, sy_cache_hit = hit, sy_stale = stale, sy_error = sr_error_code r\<rparr>"

section \<open>Item definitions and assets\<close>

text \<open>The name and the slug of a definition are unique columns.\<close>

definition slug_taken :: "id \<Rightarrow> item_definition \<Rightarrow> db \<Rightarrow> bool" where
  "slug_taken i item d \<longleftrightarrow> i_slug item \<noteq> None \<and> (\<exists>(j, x) \<in> set (items d). j \<noteq> i \<and> i_slug x = i_slug item)"

definition upsert_definition ::
    "string \<Rightarrow> item_definition \<Rightarrow> (item_definition \<Rightarrow> item_definition) \<Rightarrow> db \<Rightarrow> (id \<times> db) res" where
  "upsert_definition name created renew d =
     (case find (\<lambda>(_, x). i_market_hash_name x = name) (items d) of
        None \<Rightarrow>
          (let (i, d) = draw_db d in
           if slug_taken i created d then Inl UniqueViolation
           else Inr (i, d\<lparr>items := insert_row i created (items d)\<rparr>))
      | Some (i, old) \<Rightarrow>
          if slug_taken i (renew old) d then Inl UniqueViolation
          else Inr (i, d\<lparr>items := AList.update i (renew old) (items d)\<rparr>))"

definition or_else :: "'a option \<Rightarrow> 'a option \<Rightarrow> 'a option" where
  "or_else x y = (case x of Some _ \<Rightarrow> x | None \<Rightarrow> y)"

definition upsert_parsed_definition :: "parsed_asset \<Rightarrow> db \<Rightarrow> (id \<times> db) res" where
  "upsert_parsed_definition p d =
     (let base_name = derive_base_name (pa_name p); slug = slugify (pa_name p) in
      upsert_definition (pa_name p)
        \<lparr>i_market_hash_name = pa_name p, i_slug = Some slug, i_base_market_hash_name = Some base_name,
         i_catalog_seeded = False, i_available_wears = [], i_weapon = pa_weapon p, i_rarity = pa_rarity p,
         i_icon_url = pa_icon p\<rparr>
        (\<lambda>old. old\<lparr>i_base_market_hash_name := Some base_name, i_slug := Some slug,
           i_weapon := or_else (pa_weapon p) (i_weapon old), i_rarity := or_else (pa_rarity p) (i_rarity old),
           i_icon_url := (case pa_icon p of
               None \<Rightarrow> i_icon_url old
             | Some u \<Rightarrow> if js_trim u = [] then i_icon_url old else Some (js_trim u))\<rparr>) d)"

definition find_asset :: "id \<Rightarrow> string \<Rightarrow> db \<Rightarrow> (id \<times> asset) option" where
  "find_asset owner ext d = find (\<lambda>(_, a). a_owner a = owner \<and> a_external_id a = ext) (assets d)"

text \<open>The statuses of the owner's assets before the loop; a listed, reserved or sold one keeps its status.\<close>

type_synonym known_statuses = "(string \<times> asset_status) list"

definition known_statuses :: "id \<Rightarrow> db \<Rightarrow> known_statuses" where
  "known_statuses owner d =
     rev (map (\<lambda>(_, a). (a_external_id a, a_status a)) (filter (\<lambda>(_, a). a_owner a = owner) (assets d)))"

definition preserved_statuses :: "asset_status list" where
  "preserved_statuses = [IA_LISTED, IA_RESERVED, IA_SOLD]"

definition preserves_status :: "known_statuses \<Rightarrow> string \<Rightarrow> bool" where
  "preserves_status known ext =
     (case map_of known ext of None \<Rightarrow> False | Some s \<Rightarrow> s \<in> set preserved_statuses)"

definition upsert_asset :: "id \<Rightarrow> known_statuses \<Rightarrow> parsed_asset \<Rightarrow> id \<Rightarrow> db \<Rightarrow> db" where
  "upsert_asset owner known p item d =
     (let listable = is_listable (pa_name p); marketable = (pa_marketable p \<and> listable);
          tradable = (pa_tradable p \<and> listable)
      in case find_asset owner (pa_asset p) d of
           None \<Rightarrow>
             (let (i, d) = draw_db d in
              d\<lparr>assets := insert_row i
                \<lparr>a_owner = owner, a_item = item, a_external_id = pa_asset p, a_status = IA_AVAILABLE,
                 a_tradable = tradable, a_marketable = marketable, a_trade_lock_until = pa_lock_until p,
                 a_float_value = pa_float p, a_paint_seed = pa_seed p, a_wear = pa_wear p,
                 a_stickers = Some (pa_stickers p)\<rparr> (assets d)\<rparr>)
         | Some (i, a) \<Rightarrow>
             d\<lparr>assets := AList.update i
               (a\<lparr>a_item := item, a_tradable := tradable, a_marketable := marketable,
                  a_trade_lock_until := pa_lock_until p, a_float_value := or_else (pa_float p) (a_float_value a),
                  a_paint_seed := or_else (pa_seed p) (a_paint_seed a), a_wear := pa_wear p,
                  a_stickers := Some (pa_stickers p),
                  a_status := (if preserves_status known (pa_asset p) then a_status a else IA_AVAILABLE)\<rparr>)
               (assets d)\<rparr>)"

fun upsert_parsed_assets :: "id \<Rightarrow> known_statuses \<Rightarrow> parsed_asset list \<Rightarrow> db \<Rightarrow> unit res \<times> db" where
  "upsert_parsed_assets owner known [] d = (Inr (), d)"
| "upsert_parsed_assets owner known (p # ps) d =
     (case upsert_parsed_definition p d of
        Inl e \<Rightarrow> (Inl e, d)
      | Inr (item, d) \<Rightarrow> upsert_parsed_assets owner known ps (upsert_asset owner known p item d))"

definition mark_missing_removed :: "id \<Rightarrow> string list \<Rightarrow> db \<Rightarrow> db" where
  "mark_missing_removed owner active d =
     d\<lparr>assets := snd (update_many
        (\<lambda>_ a. a_owner a = owner \<and> a_status a = IA_AVAILABLE \<and> a_external_id a \<notin> set active)
        (\<lambda>a. a\<lparr>a_status := IA_REMOVED\<rparr>) (assets d))\<rparr>"

definition is_orphan :: "id \<Rightarrow> item_definition \<Rightarrow> db \<Rightarrow> bool" where
  "is_orphan i item d \<longleftrightarrow> \<not> i_catalog_seeded item
     \<and> list_all (\<lambda>(_, a). a_item a \<noteq> i) (assets d) \<and> list_all (\<lambda>(_, r). br_item r \<noteq> i) (buy_requests d)"

definition cleanup_orphans :: "db \<Rightarrow> db" where
  "cleanup_orphans d = d\<lparr>items := filter (\<lambda>(i, x). \<not> is_orphan i x d) (items d)\<rparr>"

definition has_cached_assets :: "id \<Rightarrow> db \<Rightarrow> bool" where
  "has_cached_assets owner d \<longleftrightarrow> list_ex (\<lambda>(_, a). a_owner a = owner \<and> a_status a \<noteq> IA_REMOVED) (assets d)"

section \<open>The provider that reads Steam\<close>

text \<open>Storing a complete or a partial list of items; the code of the error when a statement throws.\<close>

definition store_items :: "id \<Rightarrow> bool \<Rightarrow> parsed_asset list \<Rightarrow> db \<Rightarrow> unit res \<times> db" where
  "store_items owner complete ps d =
     (case upsert_parsed_assets owner (known_statuses owner d) ps d of
        (Inl e, d) \<Rightarrow> (Inl e, d)
      | (Inr _, d) \<Rightarrow>
          (Inr (), if complete then cleanup_orphans (mark_missing_removed owner (map pa_asset ps) d) else d))"

definition sync_failed ::
    "world \<Rightarrow> int \<Rightarrow> id \<Rightarrow> string \<Rightarrow> sync_run option \<Rightarrow> string \<Rightarrow> db \<Rightarrow> (sync_failure + sync_result) \<times> db" where
  "sync_failed w now owner steam_id latest code d =
     (if latest \<noteq> None \<or> has_cached_assets owner d
      then let (r, d) = record_run w now owner steam_id SY_FAILED
                          (case latest of Some l \<Rightarrow> sr_item_count l | None \<Rightarrow> 0) (Some code) d
           in (Inr (to_sync_result r True True), d)
      else let (_, d) = record_run w now owner steam_id SY_FAILED 0 (Some code) d
           in (Inl (if code = ''STEAM_PROFILE_PRIVATE'' then Sync_failure ''STEAM_PROFILE_PRIVATE'' None
                    else Sync_failure ''INVENTORY_STALE'' (Some code)), d))"

definition changed_account :: "int \<Rightarrow> sync_result" where
  "changed_account now =
     \<lparr>sy_outcome = Sync_failed, sy_count = 0, sy_observed = None, sy_fetched_at = now, sy_expires_at = now,
      sy_cache_hit = False, sy_stale = True, sy_error = Some ''STEAM_ACCOUNT_CHANGED''\<rparr>"

definition read_error_code :: "read_error \<Rightarrow> string" where
  "read_error_code e = (case e of Read_error (Some code) _ \<Rightarrow> code | Read_error None _ \<Rightarrow> ''INVENTORY_STALE'')"

definition sync_live ::
    "world \<Rightarrow> int \<Rightarrow> id \<Rightarrow> string \<Rightarrow> sync_run option \<Rightarrow> db \<Rightarrow> (sync_failure + sync_result) \<times> db" where
  "sync_live w now owner steam_id latest d =
     (case fetch_all_pages w steam_id ''2'' of
        Inl e \<Rightarrow> sync_failed w now owner steam_id latest (read_error_code e) d
      | Inr m \<Rightarrow>
          let ps = parse_inventory w m in
          if steam_id_of owner d \<noteq> Some steam_id then (Inr (changed_account now), d)
          else case store_items owner (\<not> mg_more m) ps d of
            (Inl e, d) \<Rightarrow> sync_failed w now owner steam_id latest ''P2002'' d
          | (Inr _, d) \<Rightarrow>
              let (r, d) = record_run w now owner steam_id (if mg_more m then SY_PARTIAL else SY_SUCCESS)
                             (int (length ps)) None d
              in (Inr ((to_sync_result r False False)\<lparr>sy_observed := Some (map pa_asset ps)\<rparr>), d))"

text \<open>The answer from the last run while it is valid, or too young for another request.\<close>

definition cached_answer :: "world \<Rightarrow> int \<Rightarrow> sync_run option \<Rightarrow> sync_result option" where
  "cached_answer w now latest =
     (case latest of
        None \<Rightarrow> None
      | Some r \<Rightarrow>
          if is_cache_valid now r then Some (to_sync_result r True False)
          else if is_within_rate_limit w now r
          then Some (to_sync_result r True
                 (\<not> (sr_status r = SY_SUCCESS \<and> now - sr_fetched_at r < stale_grace_ms w)
                  \<and> (sr_status r \<noteq> SY_SUCCESS \<or> sr_expires_at r \<le> now)))
          else None)"

definition steam_sync ::
    "world \<Rightarrow> int \<Rightarrow> id \<Rightarrow> string option \<Rightarrow> bool \<Rightarrow> db \<Rightarrow> (sync_failure + sync_result) \<times> db" where
  "steam_sync w now owner steam_opt force d =
     (if \<not> is_real_steam_id steam_opt then (Inl (Sync_failure ''STEAM_NOT_LINKED'' None), d)
      else
        let steam_id = the steam_opt;
            d = (case latest_run owner d of
                   Some r \<Rightarrow> if sr_steam_id r \<noteq> steam_id then clear_runs owner d else d
                 | None \<Rightarrow> d);
            latest = latest_run owner d
        in case (if force then None else cached_answer w now latest) of
             Some res \<Rightarrow> (Inr res, d)
           | None \<Rightarrow> sync_live w now owner steam_id latest d)"

text \<open>A snapshot the seller's browser took (\<open>applyBrowserAssistAssets\<close>). An error of a statement is not caught.\<close>

definition apply_browser_assist ::
    "world \<Rightarrow> int \<Rightarrow> id \<Rightarrow> string \<Rightarrow> parsed_asset list \<Rightarrow> bool \<Rightarrow> db \<Rightarrow> (sync_failure + sync_result) \<times> db" where
  "apply_browser_assist w now owner steam_id ps complete d =
     (if \<not> is_real_steam_id (Some steam_id) then (Inl (Sync_failure ''STEAM_NOT_LINKED'' None), d)
      else if ps = [] then (Inl (Sync_failure ''VALIDATION_ERROR'' None), d)
      else case store_items owner complete ps d of
        (Inl e, d) \<Rightarrow> (Inl (Sync_crash e), d)
      | (Inr _, d) \<Rightarrow>
          let (r, d) = record_run w now owner steam_id (if complete then SY_SUCCESS else SY_PARTIAL) (int (length ps)) None d
          in (Inr (to_sync_result r False False), d))"

section \<open>The provider with fixed items\<close>

record mock_item =
  mk_name :: string
  mk_weapon :: string
  mk_rarity :: string
  mk_wear :: string
  mk_icon :: string
  mk_stickers :: "(string \<times> int option) list"
  mk_float :: string
  mk_seed :: int

definition icon_redline :: string where
  "icon_redline = ''https://community.akamai.steamstatic.com/economy/image/i0CoZ81Ui0m-9KwlBY1L_18myuGuq1wfhWSaZgMttyVfPaERSR0Wqmu7LAocGIGz3UqlXOLrxM-vMGmW8VNxu5Dx60noTyLwlcK3wiFO0POlPPNSI_-RHGavzedxuPUnFniykEtzsWWBzoyuIiifaAchDZUjTOZe4RC_w4buM-6z7wzbgokUyzK-0H08hRGDMA''"

definition icon_asiimov :: string where
  "icon_asiimov = ''https://community.akamai.steamstatic.com/economy/image/-9a81dlWLwJ2UUGcVs_nsVtzdOEdtWwKGZZLQHTxDZ7I56KU0Zwwo4NUX4oFJZEHLbXH5ApeO4YmlhxYQknCRvCo04DEVlxkKgpot621FAR17PLfYQJD_9W7m5a0n_L1JbTZk2pH7JYj2O2T9I-i0ALtrUVqY2GhLdSccgM6aAvQ_FW8xOfug5G-vM7XiSw0abc''"

definition icon_printstream :: string where
  "icon_printstream = ''https://community.akamai.steamstatic.com/economy/image/-9a81dlWLwJ2UUGcVs_nsVtzdOEdtWwKGZZLQHTxDZ7I56KU0Zwwo4NUX4oFJZEHLbXH5ApeO4YmlhxYQknCRvCo04DEVlxkKgpou-6kejhz2v_Nfz5H_uO1gb-Gw_alDL_UlW8u5MKji7-TpN-s2wTm-0o5Ym-lddSWdQY5N1_S-le_xui605e76J_Kz3J9r_M''"

text \<open>The items with the float and the seed their position gives them.\<close>

definition mock_items :: "mock_item list" where
  "mock_items =
     [\<lparr>mk_name = ''AK-47 | Redline (Field-Tested)'', mk_weapon = ''AK-47'', mk_rarity = ''Classified'', mk_wear = ''FT'',
       mk_icon = icon_redline,
       mk_stickers = [(''Sticker | Titan (Holo) | Katowice 2014'', Some 12), (''Sticker | Crown (Foil)'', Some 0)],
       mk_float = ''0.050000'', mk_seed = 100\<rparr>,
      \<lparr>mk_name = ''AWP | Asiimov (Battle-Scarred)'', mk_weapon = ''AWP'', mk_rarity = ''Covert'', mk_wear = ''BS'',
       mk_icon = icon_asiimov, mk_stickers = [], mk_float = ''0.070000'', mk_seed = 101\<rparr>,
      \<lparr>mk_name = ''M4A1-S | Printstream (Minimal Wear)'', mk_weapon = ''M4A1-S'', mk_rarity = ''Covert'', mk_wear = ''MW'',
       mk_icon = icon_printstream, mk_stickers = [], mk_float = ''0.090000'', mk_seed = 102\<rparr>]"

definition catalog_card :: "mock_item \<Rightarrow> item_definition \<Rightarrow> item_definition" where
  "catalog_card m old =
     (let base_name = derive_base_name (mk_name m) in
      old\<lparr>i_slug := Some (slugify base_name), i_base_market_hash_name := Some base_name, i_catalog_seeded := True,
          i_available_wears := [mk_wear m], i_weapon := Some (mk_weapon m), i_rarity := Some (mk_rarity m),
          i_icon_url := Some (mk_icon m)\<rparr>)"

definition blank_definition :: "string \<Rightarrow> item_definition" where
  "blank_definition name =
     \<lparr>i_market_hash_name = name, i_slug = None, i_base_market_hash_name = None, i_catalog_seeded = False,
      i_available_wears = [], i_weapon = None, i_rarity = None, i_icon_url = None\<rparr>"

fun ensure_catalog_cards :: "mock_item list \<Rightarrow> db \<Rightarrow> unit res \<times> db" where
  "ensure_catalog_cards [] d = (Inr (), d)"
| "ensure_catalog_cards (m # ms) d =
     (let base_name = derive_base_name (mk_name m) in
      case upsert_definition base_name (catalog_card m (blank_definition base_name)) (catalog_card m) d of
        Inl e \<Rightarrow> (Inl e, d)
      | Inr (_, d) \<Rightarrow> ensure_catalog_cards ms d)"

definition mock_definition :: "mock_item \<Rightarrow> item_definition \<Rightarrow> item_definition" where
  "mock_definition m old =
     old\<lparr>i_slug := Some (slugify (mk_name m)), i_base_market_hash_name := Some (derive_base_name (mk_name m)),
         i_weapon := Some (mk_weapon m), i_rarity := Some (mk_rarity m), i_icon_url := Some (mk_icon m)\<rparr>"

definition mock_asset :: "id \<Rightarrow> nat \<Rightarrow> mock_item \<Rightarrow> id \<Rightarrow> asset" where
  "mock_asset owner n m item =
     \<lparr>a_owner = owner, a_item = item, a_external_id = ''mock-'' @ owner @ ''-'' @ show_nat n, a_status = IA_AVAILABLE,
      a_tradable = True, a_marketable = True, a_trade_lock_until = None, a_float_value = Some (mk_float m),
      a_paint_seed = Some (mk_seed m), a_wear = Some (mk_wear m), a_stickers = Some (map json_sticker (mk_stickers m))\<rparr>"

fun create_mock_assets :: "id \<Rightarrow> nat \<Rightarrow> mock_item list \<Rightarrow> db \<Rightarrow> unit res \<times> db" where
  "create_mock_assets owner n [] d = (Inr (), d)"
| "create_mock_assets owner n (m # ms) d =
     (case upsert_definition (mk_name m) (mock_definition m (blank_definition (mk_name m))) (mock_definition m) d of
        Inl e \<Rightarrow> (Inl e, d)
      | Inr (item, d) \<Rightarrow>
          (let a = mock_asset owner n m item; (i, d') = draw_db d in
           if find_asset owner (a_external_id a) d \<noteq> None then (Inl UniqueViolation, d)
           else create_mock_assets owner (Suc n) ms (d'\<lparr>assets := insert_row i a (assets d')\<rparr>)))"

definition backfill_icon :: "mock_item \<Rightarrow> db \<Rightarrow> db" where
  "backfill_icon m d =
     d\<lparr>items := snd (update_many (\<lambda>_ x. i_market_hash_name x = mk_name m \<and> i_icon_url x \<in> {None, Some []})
        (\<lambda>x. x\<lparr>i_icon_url := Some (mk_icon m), i_weapon := Some (mk_weapon m), i_rarity := Some (mk_rarity m)\<rparr>)
        (items d))\<rparr>"

definition kept_count :: "id \<Rightarrow> db \<Rightarrow> nat" where
  "kept_count owner d = length (filter (\<lambda>(_, a). a_owner a = owner \<and> a_status a \<noteq> IA_REMOVED) (assets d))"

text \<open>With mock trades the owner's assets become available again, whatever became of them.\<close>

definition reset_mock_statuses :: "world \<Rightarrow> id \<Rightarrow> db \<Rightarrow> db" where
  "reset_mock_statuses w owner d =
     (if flag w ''ENABLE_MOCK_TRADE''
      then d\<lparr>assets := snd (update_many
             (\<lambda>_ a. a_owner a = owner \<and> a_status a \<in> {IA_SOLD, IA_LISTED, IA_RESERVED, IA_BLOCKED})
             (\<lambda>a. a\<lparr>a_status := IA_AVAILABLE\<rparr>) (assets d))\<rparr>
      else d)"

definition mock_stock :: "id \<Rightarrow> nat \<Rightarrow> db \<Rightarrow> unit res \<times> db" where
  "mock_stock owner existing d =
     (case ensure_catalog_cards mock_items d of
        (Inl e, d) \<Rightarrow> (Inl e, d)
      | (Inr _, d) \<Rightarrow>
          if existing = 0 then create_mock_assets owner 1 mock_items d
          else (Inr (), fold backfill_icon mock_items d))"

definition mock_sync ::
    "world \<Rightarrow> int \<Rightarrow> id \<Rightarrow> string option \<Rightarrow> bool \<Rightarrow> db \<Rightarrow> (sync_failure + sync_result) \<times> db" where
  "mock_sync w now owner steam_opt force d =
     (case (if force then None else Option.bind (latest_run owner d) (\<lambda>r. if is_cache_valid now r then Some r else None)) of
        Some r \<Rightarrow> (Inr (to_sync_result r True False), d)
      | None \<Rightarrow>
          let existing = kept_count owner d in
          case mock_stock owner existing d of
            (Inl e, d) \<Rightarrow> (Inl (Sync_crash e), d)
          | (Inr _, d) \<Rightarrow>
              let count = int (kept_count owner d);
                  (r, d) = record_run w now owner (case steam_opt of Some s \<Rightarrow> s | None \<Rightarrow> ''mock-'' @ owner)
                             SY_SUCCESS count None (reset_mock_statuses w owner d)
              in (Inr \<lparr>sy_outcome = (if 0 < existing \<and> \<not> force then Sync_cache_hit else Sync_success), sy_count = count,
                       sy_observed = None, sy_fetched_at = sr_fetched_at r, sy_expires_at = sr_expires_at r,
                       sy_cache_hit = (0 < existing \<and> \<not> force), sy_stale = False, sy_error = None\<rparr>, d))"

text \<open>The provider the module chooses.\<close>

definition sync_inventory ::
    "world \<Rightarrow> int \<Rightarrow> id \<Rightarrow> string option \<Rightarrow> bool \<Rightarrow> db \<Rightarrow> (sync_failure + sync_result) \<times> db" where
  "sync_inventory w now = (if steam_provider w ''INVENTORY_PROVIDER'' then steam_sync w now else mock_sync w now)"

section \<open>What a synchronisation leaves alone\<close>

text \<open>It draws identifiers and writes definitions, assets and runs; no other table, no money.\<close>

definition synced :: "db \<Rightarrow> nat \<Rightarrow> (id, item_definition) table \<Rightarrow> (id, asset) table \<Rightarrow> (id, sync_run) table \<Rightarrow> db" where
  "synced d n xs ys rs = d\<lparr>bank := (bank d)\<lparr>uuid_next := n\<rparr>, items := xs, assets := ys, sync_runs := rs\<rparr>"

definition sync_frame :: "db \<Rightarrow> db \<Rightarrow> bool" where
  "sync_frame d d' \<longleftrightarrow> (\<exists>n xs ys rs. uuid_next (bank d) \<le> n \<and> d' = synced d n xs ys rs)"

lemma synced_synced [simp]: "synced (synced d n xs ys rs) n' xs' ys' rs' = synced d n' xs' ys' rs'"
  by (simp add: synced_def)

lemma synced_self: "synced d (uuid_next (bank d)) (items d) (assets d) (sync_runs d) = d"
  by (simp add: synced_def)

lemma sync_frameI: "d' = synced d n xs ys rs \<Longrightarrow> uuid_next (bank d) \<le> n \<Longrightarrow> sync_frame d d'"
  by (auto simp: sync_frame_def)

lemma sync_frame_refl [simp]: "sync_frame d d"
  by (rule sync_frameI [OF synced_self [symmetric]]) simp

lemma synced_next [simp]: "uuid_next (bank (synced d n xs ys rs)) = n"
  by (simp add: synced_def)

lemma sync_frame_trans:
  assumes "sync_frame d1 d2" and "sync_frame d2 d3"
  shows "sync_frame d1 d3"
proof -
  from assms obtain n xs ys rs n' xs' ys' rs' where
    2: "uuid_next (bank d1) \<le> n" "d2 = synced d1 n xs ys rs" and
    3: "uuid_next (bank d2) \<le> n'" "d3 = synced d2 n' xs' ys' rs'"
    unfolding sync_frame_def by blast
  have "d3 = synced d1 n' xs' ys' rs'" by (simp only: 2(2) 3(2) synced_synced)
  then show ?thesis by (rule sync_frameI) (use 2 3 in simp)
qed

text \<open>The single statements.\<close>

lemma sync_frame_draw: "draw_db d = (i, d') \<Longrightarrow> sync_frame d d'"
  by (rule sync_frameI [of _ d "Suc (uuid_next (bank d))" "items d" "assets d" "sync_runs d"])
     (auto simp: draw_db_def draw_def synced_def Let_def)

lemma sync_frame_writes [simp]:
  "sync_frame d (d\<lparr>items := xs\<rparr>)" "sync_frame d (d\<lparr>assets := ys\<rparr>)" "sync_frame d (d\<lparr>sync_runs := rs\<rparr>)"
proof -
  have "d\<lparr>items := xs\<rparr> = synced d (uuid_next (bank d)) xs (assets d) (sync_runs d)"
    "d\<lparr>assets := ys\<rparr> = synced d (uuid_next (bank d)) (items d) ys (sync_runs d)"
    "d\<lparr>sync_runs := rs\<rparr> = synced d (uuid_next (bank d)) (items d) (assets d) rs"
    by (simp_all add: synced_def)
  then show "sync_frame d (d\<lparr>items := xs\<rparr>)" "sync_frame d (d\<lparr>assets := ys\<rparr>)" "sync_frame d (d\<lparr>sync_runs := rs\<rparr>)"
    by (auto intro: sync_frameI)
qed

lemma sync_frame_draw_items: "draw_db d = (i, d1) \<Longrightarrow> sync_frame d (d1\<lparr>items := xs\<rparr>)"
  by (rule sync_frame_trans [OF sync_frame_draw]) auto

lemma sync_frame_draw_assets: "draw_db d = (i, d1) \<Longrightarrow> sync_frame d (d1\<lparr>assets := xs\<rparr>)"
  by (rule sync_frame_trans [OF sync_frame_draw]) auto

lemma upsert_definition_frame: "upsert_definition name c f d = Inr (i, d') \<Longrightarrow> sync_frame d d'"
  by (auto simp: upsert_definition_def Let_def split: option.splits prod.splits if_splits dest: sync_frame_draw_items)

lemma upsert_asset_frame: "sync_frame d (upsert_asset owner known p item d)"
  by (auto simp: upsert_asset_def Let_def split: option.splits prod.splits intro: sync_frame_draw_assets)

lemma upsert_parsed_assets_frame: "upsert_parsed_assets owner known ps d = (r, d') \<Longrightarrow> sync_frame d d'"
proof (induction ps arbitrary: d)
  case (Cons p ps)
  show ?case
  proof (cases "upsert_parsed_definition p d")
    case (Inl e)
    with Cons.prems show ?thesis by simp
  next
    case (Inr x)
    obtain item d1 where x: "x = (item, d1)" by fastforce
    have "sync_frame d d1" using Inr x by (auto simp: upsert_parsed_definition_def Let_def dest: upsert_definition_frame)
    moreover have "sync_frame (upsert_asset owner known p item d1) d'" using Cons Inr x by simp
    ultimately show ?thesis using upsert_asset_frame sync_frame_trans by blast
  qed
qed simp

lemma mark_missing_frame: "sync_frame d (mark_missing_removed owner active d)"
  by (simp add: mark_missing_removed_def)

lemma cleanup_frame: "sync_frame d (cleanup_orphans d)"
  by (simp add: cleanup_orphans_def)

lemma store_items_frame:
  assumes "store_items owner complete ps d = (r, d')"
  shows "sync_frame d d'"
proof -
  obtain r1 d1 where 1: "upsert_parsed_assets owner (known_statuses owner d) ps d = (r1, d1)" by fastforce
  note f = upsert_parsed_assets_frame [OF 1]
  have "sync_frame d1 (cleanup_orphans (mark_missing_removed owner (map pa_asset ps) d1))"
    by (rule sync_frame_trans [OF mark_missing_frame cleanup_frame])
  with f 1 assms show ?thesis by (auto simp: store_items_def split: sum.splits if_splits dest: sync_frame_trans)
qed

lemma record_run_frame: "record_run w now owner sid st n code d = (r, d') \<Longrightarrow> sync_frame d d'"
  by (auto simp: record_run_def Let_def split: prod.splits dest: sync_frame_draw intro: sync_frame_trans)

lemma sync_failed_frame: "sync_failed w now owner sid latest code d = (r, d') \<Longrightarrow> sync_frame d d'"
  by (auto simp: sync_failed_def Let_def split: prod.splits if_splits dest: record_run_frame)

lemma sync_live_frame: "sync_live w now owner sid latest d = (r, d') \<Longrightarrow> sync_frame d d'"
  by (auto simp: sync_live_def Let_def split: prod.splits sum.splits if_splits
      dest!: record_run_frame sync_failed_frame store_items_frame intro: sync_frame_trans)

lemma steam_sync_frame:
  assumes "steam_sync w now owner steam_opt force d = (r, d')"
  shows "sync_frame d d'"
proof -
  let ?d1 = "case latest_run owner d of Some r \<Rightarrow> if sr_steam_id r \<noteq> the steam_opt then clear_runs owner d else d | None \<Rightarrow> d"
  have "sync_frame d ?d1" by (simp add: clear_runs_def split: option.splits)
  moreover have "d' = d \<or> sync_frame ?d1 d'"
    using assms by (auto simp: steam_sync_def Let_def split: if_splits option.splits dest!: sync_live_frame)
  ultimately show ?thesis using sync_frame_trans sync_frame_refl by blast
qed

lemma ensure_catalog_cards_frame: "ensure_catalog_cards ms d = (r, d') \<Longrightarrow> sync_frame d d'"
proof (induction ms arbitrary: d)
  case (Cons m ms)
  then show ?case
    by (auto simp: Let_def split: sum.splits prod.splits dest!: upsert_definition_frame intro: sync_frame_trans)
qed simp

lemma create_mock_assets_frame: "create_mock_assets owner n ms d = (r, d') \<Longrightarrow> sync_frame d d'"
proof (induction owner n ms d rule: create_mock_assets.induct)
  case (2 owner n m ms d)
  show ?case
  proof (cases "upsert_definition (mk_name m) (mock_definition m (blank_definition (mk_name m))) (mock_definition m) d")
    case (Inl e)
    with "2.prems" show ?thesis by simp
  next
    case (Inr x)
    obtain item d1 where x: "x = (item, d1)" by fastforce
    obtain i d2 where dr: "draw_db d1 = (i, d2)" by fastforce
    have 1: "sync_frame d d1" using Inr x by (auto dest: upsert_definition_frame)
    show ?thesis
    proof (cases "find_asset owner (a_external_id (mock_asset owner n m item)) d1 = None")
      case True
      let ?d3 = "d2\<lparr>assets := insert_row i (mock_asset owner n m item) (assets d2)\<rparr>"
      have "sync_frame d1 ?d3" by (rule sync_frame_draw_assets [OF dr])
      moreover have "sync_frame ?d3 d'" using 2 Inr x dr True by (simp add: Let_def)
      ultimately show ?thesis using 1 sync_frame_trans by blast
    next
      case False
      with "2.prems" Inr x dr 1 show ?thesis by (simp add: Let_def)
    qed
  qed
qed simp

lemma backfill_frame: "sync_frame d (fold backfill_icon ms d)"
proof (induction ms arbitrary: d)
  case (Cons m ms)
  have "sync_frame d (backfill_icon m d)" by (simp add: backfill_icon_def)
  with Cons show ?case by (auto intro: sync_frame_trans)
qed simp

lemma mock_stock_frame: "mock_stock owner n d = (r, d') \<Longrightarrow> sync_frame d d'"
  by (auto simp: mock_stock_def split: prod.splits sum.splits if_splits
      dest!: ensure_catalog_cards_frame create_mock_assets_frame intro: sync_frame_trans backfill_frame)

lemma reset_mock_frame: "sync_frame d (reset_mock_statuses w owner d)"
  by (simp add: reset_mock_statuses_def)

lemma mock_sync_frame:
  assumes "mock_sync w now owner steam_opt force d = (r, d')"
  shows "sync_frame d d'"
proof (cases "if force then None else Option.bind (latest_run owner d) (\<lambda>r. if is_cache_valid now r then Some r else None)")
  case (Some x)
  with assms show ?thesis by (simp add: mock_sync_def)
next
  case None
  obtain r1 d1 where 1: "mock_stock owner (kept_count owner d) d = (r1, d1)" by fastforce
  note f = mock_stock_frame [OF 1]
  show ?thesis
  proof (cases r1)
    case (Inl e)
    with None 1 assms f show ?thesis by (simp add: mock_sync_def)
  next
    case (Inr u)
    obtain run d2 where 2: "record_run w now owner (case steam_opt of Some s \<Rightarrow> s | None \<Rightarrow> ''mock-'' @ owner) SY_SUCCESS
        (int (kept_count owner d1)) None (reset_mock_statuses w owner d1) = (run, d2)" by fastforce
    have "d' = d2" using None 1 Inr 2 assms by (simp add: mock_sync_def Let_def)
    with sync_frame_trans [OF f sync_frame_trans [OF reset_mock_frame record_run_frame [OF 2]]] show ?thesis by simp
  qed
qed

lemma browser_assist_frame: "apply_browser_assist w now owner sid ps complete d = (r, d') \<Longrightarrow> sync_frame d d'"
  by (auto simp: apply_browser_assist_def Let_def split: prod.splits sum.splits if_splits
      dest!: record_run_frame store_items_frame intro: sync_frame_trans)

section \<open>The interface of a provider\<close>

text \<open>\<open>InventoryProvider\<close>: what its clients rely on. A synchronisation touches nothing of the market, and
  the assets it claims to have seen come from an answer that was complete unless it says partial.\<close>

locale inventory_provider =
  fixes sync :: "id \<Rightarrow> string option \<Rightarrow> bool \<Rightarrow> db \<Rightarrow> (sync_failure + sync_result) \<times> db"
  assumes frame: "sync owner steam_opt force d = (r, d') \<Longrightarrow> sync_frame d d'"
    and fresh: "sync owner steam_opt force d = (Inr res, d') \<Longrightarrow> sy_observed res \<noteq> None \<Longrightarrow>
      \<not> sy_cache_hit res \<and> sy_error res = None"

lemma sync_failed_blind: "sync_failed w now owner sid latest code d = (Inr res, d') \<Longrightarrow> sy_observed res = None"
  by (auto simp: sync_failed_def to_sync_result_def Let_def split: prod.splits if_splits)

lemma cached_answer_blind: "cached_answer w now latest = Some res \<Longrightarrow> sy_observed res = None"
  by (auto simp: cached_answer_def to_sync_result_def split: option.splits if_splits)

lemma steam_sync_observed:
  assumes "steam_sync w now owner steam_opt force d = (Inr res, d')" and "sy_observed res = Some ids"
  shows "\<exists>sid m d1 d2 r. steam_opt = Some sid \<and> is_real_steam_id (Some sid) \<and> fetch_all_pages w sid ''2'' = Inr m
     \<and> steam_id_of owner d1 = Some sid \<and> sync_frame d d1 \<and> assets d1 = assets d
     \<and> store_items owner (\<not> mg_more m) (parse_inventory w m) d1 = (Inr (), d2)
     \<and> ids = map pa_asset (parse_inventory w m)
     \<and> record_run w now owner sid (if mg_more m then SY_PARTIAL else SY_SUCCESS) (int (length ids)) None d2 = (r, d')
     \<and> res = (to_sync_result r False False)\<lparr>sy_observed := Some ids\<rparr>"
proof -
  from assms(1) obtain sid where sid: "steam_opt = Some sid" "is_real_steam_id (Some sid)"
    by (auto simp: steam_sync_def is_real_steam_id_def split: if_splits option.splits)
  let ?d1 = "case latest_run owner d of Some r \<Rightarrow> if sr_steam_id r \<noteq> sid then clear_runs owner d else d | None \<Rightarrow> d"
  have f: "sync_frame d ?d1" "assets ?d1 = assets d" by (simp_all add: clear_runs_def split: option.splits)
  have l: "sync_live w now owner sid (latest_run owner ?d1) ?d1 = (Inr res, d')"
    using assms sid cached_answer_blind by (auto simp: steam_sync_def Let_def split: if_splits option.splits)
  obtain m where m: "fetch_all_pages w sid ''2'' = Inr m"
    using l assms(2) sync_failed_blind by (fastforce simp: sync_live_def split: sum.splits)
  have u: "steam_id_of owner ?d1 = Some sid"
    using l m assms(2) by (auto simp: sync_live_def changed_account_def Let_def split: if_splits)
  obtain d2 where st: "store_items owner (\<not> mg_more m) (parse_inventory w m) ?d1 = (Inr (), d2)"
    using l m u assms(2) sync_failed_blind
    by (cases "store_items owner (\<not> mg_more m) (parse_inventory w m) ?d1")
       (fastforce simp: sync_live_def Let_def split: sum.splits)
  obtain r d3 where rr: "record_run w now owner sid (if mg_more m then SY_PARTIAL else SY_SUCCESS)
      (int (length (parse_inventory w m))) None d2 = (r, d3)" by fastforce
  with l m u st assms(2) show ?thesis
    using f sid by (intro exI [of _ sid] exI [of _ m] exI [of _ ?d1] exI [of _ d2] exI [of _ r])
      (auto simp: sync_live_def Let_def)
qed

lemma record_run_assets: "record_run w now owner sid st n code d = (r, d') \<Longrightarrow> assets d' = assets d"
  by (auto simp: record_run_def draw_db_def Let_def split: prod.splits)

lemma record_run_row:
  "record_run w now owner sid st n code d = (r, d') \<Longrightarrow>
     r = \<lparr>sr_user = owner, sr_steam_id = sid, sr_status = st, sr_item_count = n,
          sr_fetched_at = now, sr_expires_at = now + sync_ttl_ms w, sr_error_code = code\<rparr>"
  by (cases "draw_db d") (auto simp: record_run_def Let_def)

lemma steam_sync_fresh:
  assumes "steam_sync w now owner steam_opt force d = (Inr res, d')" and "sy_observed res \<noteq> None"
  shows "\<not> sy_cache_hit res \<and> sy_error res = None"
proof -
  from assms(2) obtain ids where "sy_observed res = Some ids" by auto
  from steam_sync_observed [OF assms(1) this] show ?thesis
    by (auto simp: to_sync_result_def dest: record_run_row)
qed

lemma mock_sync_blind: "mock_sync w now owner steam_opt force d = (Inr res, d') \<Longrightarrow> sy_observed res = None"
  by (auto simp: mock_sync_def to_sync_result_def Let_def
      split: if_splits option.splits sum.splits prod.splits )

interpretation steam_inventory: inventory_provider "steam_sync w now"
  by unfold_locales (rule steam_sync_frame, assumption, rule steam_sync_fresh)

interpretation mock_inventory: inventory_provider "mock_sync w now"
  by unfold_locales (rule mock_sync_frame, assumption, auto dest: mock_sync_blind)

interpretation chosen_inventory: inventory_provider "sync_inventory w now"
  using steam_inventory.inventory_provider_axioms mock_inventory.inventory_provider_axioms
  by (simp add: sync_inventory_def)

end
