(* ===== verification/AssetStatus.thy ===== *)
theory AssetStatus
  imports InventorySync
begin

text \<open>
  What a synchronisation with Steam does to the statuses of the assets
  (\<^verbatim>\<open>providers/inventory/steam-inventory.provider.ts\<close>), exactly.
\<close>

section \<open>Well-formed asset tables\<close>

text \<open>The primary key, the unique pair of owner and asset number, and identifiers that will be new.\<close>

definition assets_ok :: "db \<Rightarrow> bool" where
  "assets_ok d \<longleftrightarrow> distinct (keys (assets d)) \<and> inj (uuid_seq (bank d))
     \<and> (\<forall>n. uuid_next (bank d) \<le> n \<longrightarrow> uuid_seq (bank d) n \<notin> set (keys (assets d)))
     \<and> (\<forall>i j a b. row (assets d) i = Some a \<longrightarrow> row (assets d) j = Some b \<longrightarrow>
          a_owner a = a_owner b \<longrightarrow> a_external_id a = a_external_id b \<longrightarrow> i = j)"

lemma find_asset_Some:
  assumes "distinct (keys (assets d))" and "find_asset owner x d = Some (i, a)"
  shows "row (assets d) i = Some a \<and> a_owner a = owner \<and> a_external_id a = x"
proof -
  have "(i, a) \<in> set (assets d) \<and> a_owner a = owner \<and> a_external_id a = x"
    using assms(2) by (auto simp: find_asset_def find_Some_iff in_set_conv_nth)
  with assms(1) show ?thesis by (simp add: mem_row del: map_of_eq_Some_iff)
qed

lemma find_asset_row: "row (assets d) i = Some a \<Longrightarrow> find_asset (a_owner a) (a_external_id a) d \<noteq> None"
  by (auto simp: find_asset_def find_None_iff dest: row_Some_mem)

lemma assets_ok_unique:
  "assets_ok d \<Longrightarrow> row (assets d) i = Some a \<Longrightarrow> row (assets d) j = Some b \<Longrightarrow> a_owner a = a_owner b \<Longrightarrow>
     a_external_id a = a_external_id b \<Longrightarrow> i = j"
  unfolding assets_ok_def by metis

lemma assets_ok_same:
  assumes "assets_ok d" and "sync_frame d d'" and "assets d' = assets d"
  shows "assets_ok d'"
proof -
  have "uuid_next (bank d) \<le> uuid_next (bank d') \<and> uuid_seq (bank d') = uuid_seq (bank d)"
    using assms(2) by (auto simp: sync_frame_def synced_def)
  with assms(1,3) show ?thesis unfolding assets_ok_def by (metis order_trans)
qed

lemma upsert_definition_assets: "upsert_definition name c f d = Inr (i, d') \<Longrightarrow> assets d' = assets d"
  by (auto simp: upsert_definition_def draw_db_def Let_def split: option.splits prod.splits if_splits)

section \<open>One item\<close>

definition renewed_status :: "id \<Rightarrow> known_statuses \<Rightarrow> string set \<Rightarrow> asset \<Rightarrow> asset_status" where
  "renewed_status owner known seen a =
     (if a_owner a = owner \<and> a_external_id a \<in> seen \<and> \<not> preserves_status known (a_external_id a)
      then IA_AVAILABLE else a_status a)"

definition asset_follows :: "id \<Rightarrow> known_statuses \<Rightarrow> string set \<Rightarrow> asset \<Rightarrow> asset \<Rightarrow> bool" where
  "asset_follows owner known seen a a' \<longleftrightarrow> a_owner a' = a_owner a \<and> a_external_id a' = a_external_id a
     \<and> a_status a' = renewed_status owner known seen a \<and> (a_owner a \<noteq> owner \<longrightarrow> a' = a)"

lemma asset_follows_trans:
  "asset_follows owner known s a b \<Longrightarrow> asset_follows owner known t b c \<Longrightarrow> asset_follows owner known (s \<union> t) a c"
  by (auto simp: asset_follows_def renewed_status_def)

lemma asset_follows_none: "asset_follows owner known {} a a"
  by (simp add: asset_follows_def renewed_status_def)

lemma upsert_asset_effect:
  assumes ok: "assets_ok d"
  shows "assets_ok (upsert_asset owner known p item d)"
    and "row (assets d) i = Some a \<Longrightarrow>
      \<exists>a'. row (assets (upsert_asset owner known p item d)) i = Some a' \<and> asset_follows owner known {pa_asset p} a a'"
    and "find_asset owner (pa_asset p) (upsert_asset owner known p item d) \<noteq> None"
proof -
  have dist: "distinct (keys (assets d))" using ok by (simp add: assets_ok_def)
  let ?d' = "upsert_asset owner known p item d"
  have "assets_ok ?d' \<and> (\<forall>i a. row (assets d) i = Some a \<longrightarrow>
      (\<exists>a'. row (assets ?d') i = Some a' \<and> asset_follows owner known {pa_asset p} a a'))
      \<and> (\<exists>i a. row (assets ?d') i = Some a \<and> a_owner a = owner \<and> a_external_id a = pa_asset p)"
  proof (cases "find_asset owner (pa_asset p) d")
    case None
    define k where "k = uuid_seq (bank d) (uuid_next (bank d))"
    have new: "row (assets d) k = None" using ok by (auto simp: assets_ok_def k_def row_None_iff)
    obtain x where x: "assets ?d' = insert_row k x (assets d)" "a_owner x = owner" "a_external_id x = pa_asset p"
      "bank ?d' = (bank d)\<lparr>uuid_next := Suc (uuid_next (bank d))\<rparr>"
      using None by (auto simp: upsert_asset_def draw_db_def draw_def Let_def k_def)
    have other: "a_owner a \<noteq> owner \<or> a_external_id a \<noteq> pa_asset p" if "row (assets d) j = Some a" for j a
      using find_asset_row [OF that] None by auto
    have keep: "row (assets ?d') j = (if j = k then Some x else row (assets d) j)" for j
      using new x(1) by (simp add: row_insert_row)
    have ids: "uuid_seq (bank d) n \<noteq> k" if "Suc (uuid_next (bank d)) \<le> n" for n
      using ok that by (auto simp: assets_ok_def k_def inj_eq)
    have "assets_ok ?d'"
      unfolding assets_ok_def
    proof (intro conjI allI impI)
      show "distinct (keys (assets ?d'))" using dist new x(1) by (simp add: row_None_iff)
      show "inj (uuid_seq (bank ?d'))" using ok x(4) by (simp add: assets_ok_def)
      show "uuid_seq (bank ?d') n \<notin> set (keys (assets ?d'))" if "uuid_next (bank ?d') \<le> n" for n
        using ok ids [of n] that x(1,4) by (auto simp: assets_ok_def)
      show "i = j" if "row (assets ?d') i = Some a" "row (assets ?d') j = Some b" "a_owner a = a_owner b"
          "a_external_id a = a_external_id b" for i j a b
        using that other [of i] other [of j] assets_ok_unique [OF ok, of i a j b] x(2,3) unfolding keep
        by (auto split: if_splits)
    qed
    moreover have "asset_follows owner known {pa_asset p} a a" if "row (assets d) j = Some a" for j a
      using other [OF that] by (auto simp: asset_follows_def renewed_status_def)
    ultimately show ?thesis using keep new x by (metis option.distinct(1))
  next
    case (Some q)
    obtain k b where q: "q = (k, b)" by fastforce
    note b = find_asset_Some [OF dist Some [unfolded q]]
    obtain b' where x: "assets ?d' = AList.update k b' (assets d)" "a_owner b' = a_owner b"
      "a_external_id b' = a_external_id b" "a_status b' = renewed_status owner known {pa_asset p} b" "bank ?d' = bank d"
      using Some q b by (auto simp: upsert_asset_def Let_def renewed_status_def)
    have keep: "row (assets ?d') j = (if j = k then Some b' else row (assets d) j)" for j
      using x(1) by (simp add: row_update)
    have "assets_ok ?d'"
      unfolding assets_ok_def
    proof (intro conjI allI impI)
      show "distinct (keys (assets ?d'))" using dist x(1) by (simp add: distinct_update)
      show "inj (uuid_seq (bank ?d'))" using ok x(5) by (simp add: assets_ok_def)
      show "uuid_seq (bank ?d') n \<notin> set (keys (assets ?d'))" if "uuid_next (bank ?d') \<le> n" for n
        using ok b that x(1,5) by (simp add: assets_ok_def del: map_of_eq_Some_iff)
      show "i = j" if "row (assets ?d') i = Some a" "row (assets ?d') j = Some c" "a_owner a = a_owner c"
          "a_external_id a = a_external_id c" for i j a c
        using that assets_ok_unique [OF ok] b x(2,3) unfolding keep by (auto split: if_splits)
    qed
    moreover have "asset_follows owner known {pa_asset p} b b'"
      using b x by (simp add: asset_follows_def)
    moreover have "asset_follows owner known {pa_asset p} a a" if "row (assets d) j = Some a" "j \<noteq> k" for j a
      using assets_ok_unique [OF ok that(1), of k b] that(2) b by (auto simp: asset_follows_def renewed_status_def)
    ultimately show ?thesis using keep b x(2,3) by (metis option.inject)
  qed
  note r3 = this
  from r3 have r: "assets_ok ?d'" "\<forall>i a. row (assets d) i = Some a \<longrightarrow>
      (\<exists>a'. row (assets ?d') i = Some a' \<and> asset_follows owner known {pa_asset p} a a')"
    and e: "\<exists>i a. row (assets ?d') i = Some a \<and> a_owner a = owner \<and> a_external_id a = pa_asset p"
    by (rule conjunct1, rule conjunct1 [OF conjunct2], rule conjunct2 [OF conjunct2])
  from r show "assets_ok ?d'" "row (assets d) i = Some a \<Longrightarrow>
      \<exists>a'. row (assets ?d') i = Some a' \<and> asset_follows owner known {pa_asset p} a a'"
    by blast+
  from e find_asset_row [of ?d'] show "find_asset owner (pa_asset p) ?d' \<noteq> None" by fastforce
qed

section \<open>The whole loop\<close>

lemma upsert_parsed_assets_effect:
  assumes "upsert_parsed_assets owner known ps d = (Inr u, d')" and "assets_ok d"
  shows "assets_ok d' \<and> (\<forall>i a. row (assets d) i = Some a \<longrightarrow>
      (\<exists>a'. row (assets d') i = Some a' \<and> asset_follows owner known (pa_asset ` set ps) a a'))
    \<and> (\<forall>p \<in> set ps. find_asset owner (pa_asset p) d' \<noteq> None)"
  using assms
proof (induction ps arbitrary: d)
  case Nil
  then show ?case by (auto intro: asset_follows_none)
next
  case (Cons p ps)
  from Cons.prems(1) obtain item d1 where 1: "upsert_parsed_definition p d = Inr (item, d1)"
    "upsert_parsed_assets owner known ps (upsert_asset owner known p item d1) = (Inr u, d')"
    by (auto split: sum.splits)
  let ?d2 = "upsert_asset owner known p item d1"
  have a1: "assets d1 = assets d" and f1: "sync_frame d d1"
    using 1(1) by (auto simp: upsert_parsed_definition_def Let_def dest: upsert_definition_assets upsert_definition_frame)
  note ok1 = assets_ok_same [OF Cons.prems(2) f1 a1]
  note e = upsert_asset_effect [OF ok1, where owner = owner and known = known and p = p and item = item]
  note ih = Cons.IH [OF 1(2) e(1)]
  show ?case
  proof (intro conjI allI impI ballI)
    show "assets_ok d'" using ih by blast
  next
    fix i a
    assume "row (assets d) i = Some a"
    with e(2) a1 obtain a1 where a1: "row (assets ?d2) i = Some a1" "asset_follows owner known {pa_asset p} a a1" by metis
    with ih obtain a2 where a2: "row (assets d') i = Some a2" "asset_follows owner known (pa_asset ` set ps) a1 a2" by blast
    from asset_follows_trans [OF a1(2) a2(2)] a2(1)
    show "\<exists>a'. row (assets d') i = Some a' \<and> asset_follows owner known (pa_asset ` set (p # ps)) a a'" by auto
  next
    fix q
    assume q: "q \<in> set (p # ps)"
    show "find_asset owner (pa_asset q) d' \<noteq> None"
    proof (cases "q \<in> set ps")
      case True
      with ih show ?thesis by blast
    next
      case False
      with q e(3) obtain k b where "find_asset owner (pa_asset q) ?d2 = Some (k, b)" by auto
      with find_asset_Some e(1) have b: "row (assets ?d2) k = Some b" "a_owner b = owner" "a_external_id b = pa_asset q"
        unfolding assets_ok_def by blast+
      with ih obtain b' where "row (assets d') k = Some b'" "asset_follows owner known (pa_asset ` set ps) b b'" by blast
      with b find_asset_row [of d' k b'] show ?thesis by (simp add: asset_follows_def)
    qed
  qed
qed

lemma known_statuses_row:
  assumes ok: "assets_ok d" and a: "row (assets d) i = Some a"
  shows "map_of (known_statuses (a_owner a) d) (a_external_id a) = Some (a_status a)"
proof -
  let ?k = "known_statuses (a_owner a) d"
  have dist: "distinct (keys (assets d))" using ok by (simp add: assets_ok_def)
  have "(x, s) \<in> set ?k \<longleftrightarrow> (\<exists>j b. (j, b) \<in> set (assets d) \<and> a_owner b = a_owner a \<and> a_external_id b = x \<and> a_status b = s)"
    for x s
    by (auto simp: known_statuses_def)
  then have mem: "(x, s) \<in> set ?k \<longleftrightarrow>
      (\<exists>j b. row (assets d) j = Some b \<and> a_owner b = a_owner a \<and> a_external_id b = x \<and> a_status b = s)" for x s
    using mem_row [OF dist] row_Some_mem [of "assets d"] by blast
  from a mem have "(a_external_id a, a_status a) \<in> set ?k" by blast
  then obtain s where s: "map_of ?k (a_external_id a) = Some s" by (metis map_of_eq_None_iff fst_conv image_eqI not_None_eq)
  then have "(a_external_id a, s) \<in> set ?k" by (rule map_of_SomeD)
  with mem obtain j b where "row (assets d) j = Some b" "a_owner b = a_owner a" "a_external_id b = a_external_id a" "a_status b = s"
    by blast
  with assets_ok_unique [OF ok a] a s show ?thesis by fastforce
qed

text \<open>The status of an asset after a synchronisation that read the given items.\<close>

definition status_after :: "id \<Rightarrow> bool \<Rightarrow> string list \<Rightarrow> asset \<Rightarrow> asset_status" where
  "status_after owner complete ids a =
     (if a_owner a \<noteq> owner \<or> a_status a \<in> set preserved_statuses then a_status a
      else if a_external_id a \<in> set ids then IA_AVAILABLE
      else if complete \<and> a_status a = IA_AVAILABLE then IA_REMOVED
      else a_status a)"

lemma store_items_effect:
  assumes st: "store_items owner complete ps d = (Inr u, d')" and ok: "assets_ok d" and a: "row (assets d) i = Some a"
  shows "\<exists>a'. row (assets d') i = Some a' \<and> a_owner a' = a_owner a \<and> a_external_id a' = a_external_id a
    \<and> a_status a' = status_after owner complete (map pa_asset ps) a \<and> (a_owner a \<noteq> owner \<longrightarrow> a' = a)"
proof -
  let ?k = "known_statuses owner d"
  obtain d1 where 1: "upsert_parsed_assets owner ?k ps d = (Inr (), d1)" and
    2: "d' = (if complete then cleanup_orphans (mark_missing_removed owner (map pa_asset ps) d1) else d1)"
    using st by (auto simp: store_items_def split: sum.splits prod.splits)
  from upsert_parsed_assets_effect [OF 1 ok] a obtain a1 where
    a1: "row (assets d1) i = Some a1" "asset_follows owner ?k (pa_asset ` set ps) a a1" by blast
  have pres: "preserves_status ?k (a_external_id a) = (a_status a \<in> set preserved_statuses)" if "a_owner a = owner"
    using known_statuses_row [OF ok a] that by (simp add: preserves_status_def)
  let ?a' = "if complete \<and> a_owner a1 = owner \<and> a_status a1 = IA_AVAILABLE \<and> a_external_id a1 \<notin> set (map pa_asset ps)
      then a1\<lparr>a_status := IA_REMOVED\<rparr> else a1"
  have "row (assets d') i = Some ?a'"
    using 2 a1(1) by (simp add: cleanup_orphans_def mark_missing_removed_def row_update_many del: map_of_eq_Some_iff)
  moreover have "a_status ?a' = status_after owner complete (map pa_asset ps) a"
    using a1(2) pres by (auto simp: asset_follows_def renewed_status_def status_after_def preserved_statuses_def)
  ultimately show ?thesis using a1(2) by (auto simp: asset_follows_def)
qed

lemma store_items_present:
  assumes st: "store_items owner complete ps d = (Inr u, d')" and ok: "assets_ok d"
  shows "\<forall>x \<in> set (map pa_asset ps). find_asset owner x d' \<noteq> None"
proof -
  obtain d1 where 1: "upsert_parsed_assets owner (known_statuses owner d) ps d = (Inr (), d1)" and
    2: "d' = (if complete then cleanup_orphans (mark_missing_removed owner (map pa_asset ps) d1) else d1)"
    using st by (auto simp: store_items_def split: sum.splits prod.splits)
  note e = upsert_parsed_assets_effect [OF 1 ok]
  have "find_asset owner (pa_asset p) d' \<noteq> None" if p: "p \<in> set ps" for p
  proof -
    from e p obtain k b where "find_asset owner (pa_asset p) d1 = Some (k, b)" by auto
    with find_asset_Some e have b: "row (assets d1) k = Some b" "a_owner b = owner" "a_external_id b = pa_asset p"
      unfolding assets_ok_def by blast+
    have "\<exists>b'. row (assets (mark_missing_removed owner act d1)) k = Some b' \<and> a_owner b' = owner \<and> a_external_id b' = pa_asset p"
      for act
      using b by (simp add: mark_missing_removed_def row_update_many del: map_of_eq_Some_iff)
    with b 2 obtain b' where "row (assets d') k = Some b'" "a_owner b' = owner" "a_external_id b' = pa_asset p"
      by (cases complete) (auto simp: cleanup_orphans_def simp del: map_of_eq_Some_iff)
    with find_asset_row [of d' k b'] show ?thesis by simp
  qed
  then show ?thesis by simp
qed

text \<open>
  C26: What a synchronisation with Steam does to the assets. When it reports the items it has seen, an
  asset of the owner that is listed, reserved or sold keeps its status, any other one that was seen is
  available now, and one that was available and is missing from a complete answer is removed; every
  seen item has an asset of the owner, and the assets of others are as they were. In particular an
  asset that was blocked because of a dispute becomes available as soon as Steam shows it again.
\<close>

theorem sync_statuses_exact:
  assumes "steam_sync w now owner steam_opt force d = (Inr res, d')" and "sy_observed res = Some ids"
    and "assets_ok d"
  shows "(\<forall>i a. row (assets d) i = Some a \<longrightarrow> (\<exists>a'. row (assets d') i = Some a'
      \<and> a_owner a' = a_owner a \<and> a_external_id a' = a_external_id a
      \<and> a_status a' = status_after owner (sy_outcome res = Sync_success) ids a \<and> (a_owner a \<noteq> owner \<longrightarrow> a' = a)))
    \<and> (\<forall>x \<in> set ids. find_asset owner x d' \<noteq> None)"
proof -
  from steam_sync_observed [OF assms(1,2)] obtain sid m d1 d2 r where
    1: "sync_frame d d1" "assets d1 = assets d" "store_items owner (\<not> mg_more m) (parse_inventory w m) d1 = (Inr (), d2)"
      "ids = map pa_asset (parse_inventory w m)" and
    2: "record_run w now owner sid (if mg_more m then SY_PARTIAL else SY_SUCCESS) (int (length ids)) None d2 = (r, d')"
      "res = (to_sync_result r False False)\<lparr>sy_observed := Some ids\<rparr>"
    by blast
  have out: "(sy_outcome res = Sync_success) = (\<not> mg_more m)"
    using 2(2) record_run_row [OF 2(1)] by (simp add: to_sync_result_def)
  have ok1: "assets_ok d1" by (rule assets_ok_same [OF assms(3) 1(1,2)])
  show ?thesis
    using store_items_effect [OF 1(3) ok1] store_items_present [OF 1(3) ok1] 1(2,4) record_run_assets [OF 2(1)] out
    by (simp add: find_asset_def)
qed

text \<open>The seller's asset was blocked, another one is gone.\<close>

definition demo_owned :: "string \<Rightarrow> asset_status \<Rightarrow> asset" where
  "demo_owned x st = \<lparr>a_owner = ''seller'', a_item = ''item'', a_external_id = x, a_status = st, a_tradable = True,
     a_marketable = True, a_trade_lock_until = None, a_float_value = None, a_paint_seed = None, a_wear = None,
     a_stickers = None\<rparr>"

definition demo_seller :: user where
  "demo_seller = \<lparr>u_steam_id = Some ''76561198000000001'', u_username = ''s'', u_role = UR_SELLER, u_status = US_ACTIVE,
     u_trade_url = None\<rparr>"

definition demo_inventory :: db where
  "demo_inventory = (empty_db demo_ids)\<lparr>bank := (empty_bank demo_ids)\<lparr>users := [(''seller'', demo_seller)]\<rparr>,
     assets := [(''a1'', demo_owned ''456'' IA_BLOCKED), (''a2'', demo_owned ''9'' IA_AVAILABLE)]\<rparr>"

definition demo_sync :: "(sync_failure + sync_result) \<times> db" where
  "demo_sync = steam_sync (stocked_world ''456'') 5 ''seller'' (Some ''76561198000000001'') True demo_inventory"

definition demo_sync_result :: sync_result where
  "demo_sync_result = \<lparr>sy_outcome = Sync_success, sy_count = 2, sy_observed = Some [''456'', ''8''], sy_fetched_at = 5,
     sy_expires_at = 300005, sy_cache_hit = False, sy_stale = False, sy_error = None\<rparr>"

lemma demo_sync_reached: "fst demo_sync = Inr demo_sync_result"
  by code_simp

lemma demo_inventory_ok: "assets_ok demo_inventory"
proof -
  have "demo_ids n \<noteq> ''a1''" "demo_ids n \<noteq> ''a2''" for n
    by (cases n; simp add: demo_ids_def)+
  then show ?thesis
    using demo_ids_inj
    by (auto simp: assets_ok_def demo_inventory_def empty_db_def empty_bank_def demo_owned_def split: if_splits)
qed

theorem sync_statuses_exact_witness:
  "map_option a_status (row (assets (snd demo_sync)) ''a1'') = Some IA_AVAILABLE
   \<and> map_option a_status (row (assets (snd demo_sync)) ''a2'') = Some IA_REMOVED
   \<and> find_asset ''seller'' ''8'' (snd demo_sync) \<noteq> None"
proof -
  have 1: "steam_sync (stocked_world ''456'') 5 ''seller'' (Some ''76561198000000001'') True demo_inventory
      = (Inr demo_sync_result, snd demo_sync)"
    using demo_sync_reached by (metis demo_sync_def prod.collapse)
  have 2: "sy_observed demo_sync_result = Some [''456'', ''8'']" "sy_outcome demo_sync_result = Sync_success"
    by (simp_all add: demo_sync_result_def)
  have 3: "row (assets demo_inventory) ''a1'' = Some (demo_owned ''456'' IA_BLOCKED)"
    "row (assets demo_inventory) ''a2'' = Some (demo_owned ''9'' IA_AVAILABLE)"
    by (simp_all add: demo_inventory_def)
  note s = sync_statuses_exact [OF 1 2(1) demo_inventory_ok]
  from s [THEN conjunct1, rule_format, OF 3(1)] s [THEN conjunct1, rule_format, OF 3(2)] s [THEN conjunct2] 2(2)
  show ?thesis by (auto simp: status_after_def demo_owned_def preserved_statuses_def)
qed

end
