(* ===== verification/Instants.thy ===== *)
theory Instants
  imports JsDate
begin

text \<open>
  The texts of \<open>Date.prototype.toISOString\<close> have the form of an instant, for every time from the
  epoch up to \<open>2 ^ 47\<close> milliseconds (the year 6429).
\<close>

lemma show_nat_length: "list_all is_digit (show_nat n) \<and> (\<forall>k. n < 10 ^ Suc k \<longrightarrow> length (show_nat n) \<le> Suc k)"
proof (induction n rule: show_nat.induct)
  case (1 n)
  have d: "is_digit (digit_char m)" if "m < 10" for m
    using that by (simp add: is_digit_def digit_char_def Let_def)
  show ?case
  proof (cases "n < 10")
    case True
    then show ?thesis using d by (simp add: show_nat.simps [of n])
  next
    case False
    have "length (show_nat n) \<le> Suc k" if "n < 10 ^ Suc k" for k
    proof (cases k)
      case 0
      with that False show ?thesis by simp
    next
      case (Suc j)
      with that have "n div 10 < 10 ^ Suc j" by simp
      with 1 False have "length (show_nat (n div 10)) \<le> Suc j" by blast
      with False Suc show ?thesis by (simp add: show_nat.simps [of n])
    qed
    with 1 False d [of "n mod 10"] show ?thesis by (simp add: show_nat.simps [of n])
  qed
qed

lemma pad_digits:
  assumes "0 \<le> v" and "v < 10 ^ Suc k"
  shows "list_all is_digit (pad (Suc k) v) \<and> length (pad (Suc k) v) = Suc k"
proof -
  have "nat v < 10 ^ Suc k" using assms by (simp add: nat_less_iff)
  with show_nat_length [of "nat v"] have "list_all is_digit (show_nat (nat v))" "length (show_nat (nat v)) \<le> Suc k" by blast+
  moreover have "is_digit CHR ''0''" by (simp add: is_digit_def)
  ultimately show ?thesis using assms(1) by (auto simp: pad_def show_int_def Let_def list_all_iff)
qed

lemma pad2: "0 \<le> v \<Longrightarrow> v < 100 \<Longrightarrow> \<exists>a b. pad 2 v = [a, b] \<and> is_digit a \<and> is_digit b"
  using pad_digits [of v 1] by (auto simp: numeral_2_eq_2 length_Suc_conv)

lemma pad3: "0 \<le> v \<Longrightarrow> v < 1000 \<Longrightarrow> \<exists>a b c. pad 3 v = [a, b, c] \<and> is_digit a \<and> is_digit b \<and> is_digit c"
  using pad_digits [of v 2] by (auto simp: numeral_3_eq_3 numeral_2_eq_2 length_Suc_conv)

lemma pad4: "0 \<le> v \<Longrightarrow> v < 10000 \<Longrightarrow>
    \<exists>a b c d. pad 4 v = [a, b, c, d] \<and> is_digit a \<and> is_digit b \<and> is_digit c \<and> is_digit d"
  using pad_digits [of v 3] by (auto simp: eval_nat_numeral length_Suc_conv)

text \<open>The day of a month fits in two digits whatever the day of the year is.\<close>

lemma div_bounds: "0 < k \<Longrightarrow> k * (x div k) \<le> x \<and> x < k * (x div k) + k" for k x :: int
  using pos_mod_sign [of k x] pos_mod_bound [of k x] mult_div_mod_eq [of k x] by linarith

lemma day_bounds:
  fixes doy :: int
  defines "mp \<equiv> (5 * doy + 2) div 153"
  shows "0 \<le> doy - (153 * mp + 2) div 5" "doy - (153 * mp + 2) div 5 < 31"
  using div_bounds [of 153 "5 * doy + 2"] div_bounds [of 5 "153 * mp + 2"] unfolding mp_def by linarith+

lemma year_bounds:
  fixes doe :: int
  assumes "0 \<le> doe" and "doe < 146097"
  defines "yoe \<equiv> (doe - doe div 1460 + doe div 36524 - doe div 146096) div 365"
  defines "doy \<equiv> doe - (365 * yoe + yoe div 4 - yoe div 100)"
  shows "0 \<le> yoe \<and> yoe \<le> 400 \<and> - 10 \<le> doy \<and> doy \<le> 400"
proof -
  define a where "a = doe div 1460"
  define b where "b = doe div 36524"
  define c where "c = doe div 146096"
  define e where "e = yoe div 4"
  define f where "f = yoe div 100"
  have q: "1460 * a \<le> doe" "doe < 1460 * a + 1460" "36524 * b \<le> doe" "doe < 36524 * b + 36524"
    "146096 * c \<le> doe" "doe < 146096 * c + 146096"
    using div_bounds [of 1460 doe] div_bounds [of 36524 doe] div_bounds [of 146096 doe] by (simp_all add: a_def b_def c_def)
  have y: "365 * yoe \<le> doe - a + b - c" "doe - a + b - c < 365 * yoe + 365"
    using div_bounds [of 365 "doe - a + b - c"] by (simp_all add: yoe_def a_def b_def c_def)
  have e: "4 * e \<le> yoe" "yoe < 4 * e + 4" "100 * f \<le> yoe" "yoe < 100 * f + 100"
    using div_bounds [of 4 yoe] div_bounds [of 100 yoe] by (simp_all add: e_def f_def)
  have "doy = doe - (365 * yoe + e - f)" by (simp add: doy_def e_def f_def)
  with q y e assms(1,2) show ?thesis by linarith
qed

lemma civil_bounds:
  assumes "0 \<le> days" and "days \<le> 1628906" and "civil_from_days days = (y, m, d)"
  shows "0 \<le> y \<and> y < 10000 \<and> 0 \<le> m \<and> m < 100 \<and> 0 \<le> d \<and> d < 100"
proof -
  define z where "z = days + 719468"
  define era where "era = z div 146097"
  define doe where "doe = z mod 146097"
  define yoe where "yoe = (doe - doe div 1460 + doe div 36524 - doe div 146096) div 365"
  define doy where "doy = doe - (365 * yoe + yoe div 4 - yoe div 100)"
  define mp where "mp = (5 * doy + 2) div 153"
  have "0 \<le> doe" "doe < 146097" by (simp_all add: doe_def)
  note yb = year_bounds [OF this, folded yoe_def, folded doy_def]
  have era: "0 \<le> era" "era \<le> 16"
    using div_bounds [of 146097 z] assms(1,2) by (simp_all add: era_def z_def)
  have mp: "- 2 < mp" "mp < 20" using div_bounds [of 153 "5 * doy + 2"] yb by (simp_all add: mp_def)
  define mm where "mm = (if mp < 10 then mp + 3 else mp - 9)"
  have "civil_from_days days = (yoe + era * 400 + (if mm \<le> 2 then 1 else 0), mm, doy - (153 * mp + 2) div 5 + 1)"
    unfolding civil_from_days_def Let_def mm_def mp_def doy_def yoe_def doe_def era_def z_def by (rule refl)
  with assms(3) have e: "y = yoe + era * 400 + (if mm \<le> 2 then 1 else 0)" "m = mm" "d = doy - (153 * mp + 2) div 5 + 1"
    by auto
  have "0 \<le> mm" "mm < 100" using mp by (simp_all add: mm_def)
  moreover have "0 \<le> (if mm \<le> 2 then 1 else 0 :: int)" "(if mm \<le> 2 then 1 else 0 :: int) \<le> 1" by simp_all
  ultimately show ?thesis
    unfolding e using day_bounds [of doy, folded mp_def] yb era by linarith
qed

lemma is_instant_iso:
  assumes "0 \<le> t" and "t < 2 ^ 47"
  shows "is_instant (iso_string t)"
proof -
  obtain y m d where c: "civil_from_days (t div 86400000) = (y, m, d)" by (cases "civil_from_days (t div 86400000)")
  have "0 \<le> t div 86400000" "t div 86400000 \<le> 1628906"
    using assms div_bounds [of 86400000 t] by simp_all
  note b = civil_bounds [OF this c]
  define r where "r = t mod 86400000"
  have r: "0 \<le> r" "r < 86400000" by (simp_all add: r_def)
  then have h: "0 \<le> r div 3600000" "r div 3600000 < 100"
    using div_bounds [of 3600000 r] by simp_all
  have lo: "0 \<le> x mod 60" "x mod 60 < 100" for x :: int
    using pos_mod_bound [of 60 x] by simp_all
  have ms: "0 \<le> r mod 1000" "r mod 1000 < 1000" by simp_all
  show ?thesis
    using pad4 [of y] pad2 [of m] pad2 [of d] pad2 [OF h] pad2 [OF lo, of "r div 60000"] pad2 [OF lo, of "r div 1000"]
      pad3 [OF ms] b c
    by (auto simp: iso_string_def is_instant_def instant_pattern_def Let_def r_def [symmetric])
qed

end
