(* ===== verification/DeliveryWorkflow.thy ===== *)
theory DeliveryWorkflow
  imports SteamInventory SettlementGuard DeliveryProof Instants
begin

text \<open>
  The delivery workflow (\<^verbatim>\<open>trades/delivery-workflow.service.ts\<close>): \<open>prepare\<close> records both inventories
  before an offer may be sent, while the two accounts are reserved for the order; \<open>verify\<close> turns a
  verified receipt of Steam into the durable proof of the delivery.

  \<open>prepare\<close> reads Steam between its statements, so it is split there: \<open>prepare_start\<close> ends with the
  reservation, \<open>prepare_finish\<close> stores what was observed meanwhile, and other calls may come between.
  The lease's own deadline is only ever written and is left out; the two accounts are reserved in one
  transaction, so their order does not matter.
\<close>

section \<open>Reserving the two accounts\<close>

definition lease_settled :: "id \<Rightarrow> db \<Rightarrow> bool" where
  "lease_settled oid d \<longleftrightarrow>
     (case (row (orders d) oid, trade_of oid d) of
        (Some ord, Some (_, t)) \<Rightarrow> t_delivery_proof t \<noteq> JNull \<or> o_status ord = OS_CANCELED \<and> t_offer_id t = None
      | _ \<Rightarrow> False)"

definition purge_leases :: "db \<Rightarrow> db" where
  "purge_leases d = d\<lparr>mapping_leases := filter (\<lambda>(_, oid). \<not> lease_settled oid d) (mapping_leases d)\<rparr>"

definition take_lease :: "id \<Rightarrow> string \<Rightarrow> db \<Rightarrow> db res" where
  "take_lease oid account d =
     (case row (mapping_leases d) account of
        None \<Rightarrow> Inr (d\<lparr>mapping_leases := insert_row account oid (mapping_leases d)\<rparr>)
      | Some holder \<Rightarrow> if holder = oid then Inr d else Inl (PlainError ''MAPPING_WINDOW_BUSY''))"

definition take_leases :: "id \<Rightarrow> string \<Rightarrow> string \<Rightarrow> db \<Rightarrow> (unit \<times> db) res" where
  "take_leases oid seller buyer d =
     bindE (take_lease oid seller (purge_leases d)) (\<lambda>d. bindE (take_lease oid buyer d) (\<lambda>d. Inr ((), d)))"

definition release_leases :: "id \<Rightarrow> db \<Rightarrow> db" where
  "release_leases oid d = d\<lparr>mapping_leases := filter (\<lambda>(_, o_id). o_id \<noteq> oid) (mapping_leases d)\<rparr>"

section \<open>Before an offer is sent\<close>

text \<open>An update of the trade operation that still waits.\<close>

definition update_waiting :: "id \<Rightarrow> (trade_op \<Rightarrow> trade_op) \<Rightarrow> db \<Rightarrow> db" where
  "update_waiting tid f d =
     d\<lparr>trade_ops := snd (update_many (\<lambda>i t. i = tid \<and> t_status t = TS_WAITING) f (trade_ops d))\<rparr>"

definition baseline_max_age_ms :: int where
  "baseline_max_age_ms = 30 * 60000"

datatype preparation =
    Prepared bool
  | Observe id string string "string option"

definition prepare_start :: "world \<Rightarrow> int \<Rightarrow> id \<Rightarrow> db \<Rightarrow> preparation \<times> db" where
  "prepare_start w now oid d =
     (case (row (orders d) oid, trade_of oid d) of
        (Some ord, Some (tid, t)) \<Rightarrow>
          if o_status ord \<noteq> OS_WAITING_TRADE \<or> t_stage t = ''MANUAL_REVIEW'' then (Prepared False, d)
          else if (case t_next_preparation t of None \<Rightarrow> False | Some u \<Rightarrow> now < u) then (Prepared False, d)
          else
            (case t_baseline t of
               Some b \<Rightarrow>
                 if \<not> present (t_offer_id t) \<and> baseline_max_age_ms < now - io_fetched_at (ib_buyer b)
                 then (Prepared False, update_waiting tid
                         (\<lambda>t. t\<lparr>t_stage := ''MANUAL_REVIEW'', t_fail_reason := Some ''BASELINE_EXPIRED''\<rparr>) d)
                 else (Prepared True, d)
             | None \<Rightarrow>
                 let seller = steam_id_of (o_seller ord) d; buyer = steam_id_of (o_buyer ord) d in
                 if present (t_offer_id t) \<or> \<not> present seller \<or> \<not> present buyer then (Prepared False, d)
                 else if list_ex (\<lambda>(_, k). k_order k = oid \<and> k_send_started_at k \<noteq> None) (trade_tasks d)
                 then (Prepared False, d)
                 else case transaction (take_leases oid (the seller) (the buyer)) d of
                   (Inl _, d) \<Rightarrow>
                     (Prepared False, update_waiting tid (\<lambda>t. t\<lparr>t_fail_reason := Some ''MAPPING_WINDOW_BUSY''\<rparr>) d)
                 | (Inr _, d) \<Rightarrow> (Observe tid (the seller) (the buyer) (t_expected_asset t), d))
      | _ \<Rightarrow> (Prepared False, d))"

text \<open>Both inventories, and the item of the order in the seller's.\<close>

definition observe_baseline ::
    "world \<Rightarrow> int \<Rightarrow> string \<Rightarrow> string \<Rightarrow> string option \<Rightarrow> string + inventory_baseline" where
  "observe_baseline w now seller buyer expected =
     (case observe_inventory w now seller of
        Inl _ \<Rightarrow> Inl ''BASELINE_UNAVAILABLE''
      | Inr s \<Rightarrow>
          (case observe_inventory w now buyer of
             Inl _ \<Rightarrow> Inl ''BASELINE_UNAVAILABLE''
           | Inr b \<Rightarrow>
               (case find (\<lambda>a. Some (oa_asset_id a) = expected \<and> oa_context a = ''2'') (io_assets s) of
                  None \<Rightarrow> Inl ''BASELINE_ORIGINAL_MISSING''
                | Some a \<Rightarrow> Inr \<lparr>ib_seller = s, ib_buyer = b, ib_original = a\<rparr>)))"

definition store_baseline :: "id \<Rightarrow> id \<Rightarrow> inventory_baseline \<Rightarrow> db \<Rightarrow> bool \<times> db" where
  "store_baseline oid tid b d =
     (let (u, d) = draw_db d;
          (n, t) = update_many
            (\<lambda>i t. i = tid \<and> t_baseline t = None \<and> t_offer_id t = None \<and> t_status t = TS_WAITING)
            (\<lambda>t. t\<lparr>t_baseline := Some b, t_trade_binding := Some (''p2pcs:'' @ u), t_stage := ''OFFER_CREATED'',
                   t_fail_reason := None, t_next_preparation := None\<rparr>) (trade_ops d);
          d = d\<lparr>trade_ops := t\<rparr>
      in (n = 1 \<or> (case trade_of oid d of Some (_, t) \<Rightarrow> t_baseline t \<noteq> None | None \<Rightarrow> False), d))"

text \<open>Random pauses: \<open>random_tenths w (10 * n)\<close> is \<open>Math.floor(Math.random() * n)\<close>.\<close>

definition abandon_preparation :: "world \<Rightarrow> int \<Rightarrow> id \<Rightarrow> id \<Rightarrow> string \<Rightarrow> db \<Rightarrow> db" where
  "abandon_preparation w now oid tid reason d =
     (let d = (case trade_of oid d of
                 Some (_, t) \<Rightarrow> if t_baseline t \<noteq> None \<or> t_offer_id t \<noteq> None then d else release_leases oid d
               | None \<Rightarrow> release_leases oid d)
      in update_waiting tid (\<lambda>t. t\<lparr>t_next_preparation := Some (now + 120000 + random_tenths w 300000),
                                   t_fail_reason := Some reason\<rparr>) d)"

definition prepare_finish ::
    "world \<Rightarrow> int \<Rightarrow> id \<Rightarrow> id \<Rightarrow> string \<Rightarrow> string \<Rightarrow> string option \<Rightarrow> db \<Rightarrow> bool \<times> db" where
  "prepare_finish w now oid tid seller buyer expected d =
     (case observe_baseline w now seller buyer expected of
        Inl reason \<Rightarrow> (False, abandon_preparation w now oid tid reason d)
      | Inr b \<Rightarrow> store_baseline oid tid b d)"

definition prepare :: "world \<Rightarrow> int \<Rightarrow> id \<Rightarrow> db \<Rightarrow> bool \<times> db" where
  "prepare w now oid d =
     (case prepare_start w now oid d of
        (Prepared r, d) \<Rightarrow> (r, d)
      | (Observe tid seller buyer expected, d) \<Rightarrow> prepare_finish w now oid tid seller buyer expected d)"

section \<open>From a receipt to the proof\<close>

datatype verification_outcome = Proof_unknown | Proof_conflict | Proof_persisted

definition blocking_statuses :: "offer_status list" where
  "blocking_statuses = [Offer_declined, Offer_expired, Offer_pending, Offer_needs_confirmation]"

text \<open>A verification that contradicts the stored proof.\<close>

definition contradicts_proof :: "json \<Rightarrow> string option \<Rightarrow> receipt option \<Rightarrow> bool" where
  "contradicts_proof prior binding v =
     (case v of
        None \<Rightarrow> False
      | Some r \<Rightarrow> rc_status r \<in> set blocking_statuses
          \<or> present (rc_trade_id r) \<and> json_get prior ''tradeId'' \<noteq> map_option JStr (rc_trade_id r)
          \<or> rc_receipt_verified r \<and> present binding \<and> \<not> rc_binding_verified r)"

definition usable_receipt :: "receipt option \<Rightarrow> string option \<Rightarrow> receipt option" where
  "usable_receipt v binding =
     (case v of
        None \<Rightarrow> None
      | Some r \<Rightarrow>
          if rc_status r \<noteq> Offer_accepted \<or> \<not> rc_receipt_verified r
             \<or> \<not> steam_numeric_id (map_option JStr (rc_trade_id r)) \<or> present binding \<and> \<not> rc_binding_verified r
          then None else Some r)"

definition baseline_fits :: "inventory_baseline option \<Rightarrow> string \<Rightarrow> bool" where
  "baseline_fits b asset =
     (case b of
        None \<Rightarrow> False
      | Some b \<Rightarrow> oa_asset_id (ib_original b) = asset \<and> oa_context (ib_original b) = ''2'' \<and> oa_app (ib_original b) = 730)"

definition destination_mapped :: "receipt \<Rightarrow> bool" where
  "destination_mapped r \<longleftrightarrow> steam_numeric_id (map_option JStr (rc_received_asset r))
     \<and> rc_received_context r \<in> {Some ''2'', Some ''16''}"

definition receipt_proof :: "world \<Rightarrow> int \<Rightarrow> proof_anchors \<Rightarrow> receipt \<Rightarrow> json" where
  "receipt_proof w now an r = JObj (
     [(''version'', JNum 3), (''authority'', JStr ''STEAM_RECEIPT''), (''orderId'', JStr (an_order an)),
      (''offerId'', JStr (an_offer an)), (''tradeId'', jstr_opt (rc_trade_id r)),
      (''sellerSteamId'', JStr (an_seller an)), (''buyerSteamId'', JStr (an_buyer an)),
      (''originalAssetId'', JStr (an_asset an)), (''receiptStatus'', JNum 3), (''offerState'', JNum 3),
      (''bindingVerified'', JBool (rc_binding_verified r))]
     @ (if present (an_binding an) then [(''tradeBinding'', jstr_opt (an_binding an))] else [])
     @ [(''verifiedAt'', JStr (iso_string now)), (''protectionUntil'', JStr (iso_string (now + steam_protection_ms w)))]
     @ (if destination_mapped r
        then [(''destinationAssetId'', jstr_opt (rc_received_asset r)),
              (''destinationContextId'', jstr_opt (rc_received_context r)), (''mappingMethod'', JStr ''STEAM_RECEIPT'')]
        else []))"

definition store_proof :: "id \<Rightarrow> json \<Rightarrow> db \<Rightarrow> db" where
  "store_proof tid p d =
     d\<lparr>trade_ops := snd (update_many (\<lambda>i t. i = tid \<and> t_delivery_proof t = JNull \<and> t_status t = TS_WAITING)
        (\<lambda>t. t\<lparr>t_delivery_proof := p, t_stage := ''DELIVERY_VERIFIED''\<rparr>) (trade_ops d))\<rparr>"

definition stored_proof_agrees :: "world \<Rightarrow> id \<Rightarrow> proof_anchors \<Rightarrow> json \<Rightarrow> db \<Rightarrow> bool" where
  "stored_proof_agrees w tid an p d =
     (case bound_delivery_proof w (map_option t_delivery_proof (row (trade_ops d) tid)) an of
        None \<Rightarrow> False
      | Some saved \<Rightarrow> json_get saved ''tradeId'' = json_get p ''tradeId'')"

definition delivery_anchors :: "id \<Rightarrow> trade_op \<Rightarrow> string \<Rightarrow> string \<Rightarrow> proof_anchors" where
  "delivery_anchors oid t seller buyer =
     \<lparr>an_order = oid, an_offer = the (t_offer_id t), an_asset = the (t_expected_asset t), an_seller = seller,
      an_buyer = buyer, an_binding = t_trade_binding t\<rparr>"

definition verify_delivery :: "world \<Rightarrow> int \<Rightarrow> id \<Rightarrow> receipt option \<Rightarrow> db \<Rightarrow> verification_outcome \<times> db" where
  "verify_delivery w now oid v d =
     (case (row (orders d) oid, trade_of oid d) of
        (Some ord, Some (tid, t)) \<Rightarrow>
          let seller = steam_id_of (o_seller ord) d; buyer = steam_id_of (o_buyer ord) d in
          if \<not> present (t_expected_asset t) \<or> \<not> present (t_offer_id t) \<or> \<not> present seller \<or> \<not> present buyer
          then (Proof_unknown, d)
          else
            let an = delivery_anchors oid t (the seller) (the buyer)
            in if (case v of Some r \<Rightarrow> rc_identity_conflict r \<or> rc_reversal r | None \<Rightarrow> False) then (Proof_conflict, d)
            else if json_truthy (Some (t_delivery_proof t))
            then (case bound_delivery_proof w (Some (t_delivery_proof t)) an of
                    None \<Rightarrow> (Proof_conflict, d)
                  | Some prior \<Rightarrow>
                      if contradicts_proof prior (t_trade_binding t) v then (Proof_conflict, d)
                      else (Proof_persisted, release_leases oid d))
            else (case usable_receipt v (t_trade_binding t) of
                    None \<Rightarrow> (Proof_unknown, d)
                  | Some r \<Rightarrow>
                      if \<not> baseline_fits (t_baseline t) (the (t_expected_asset t)) then (Proof_conflict, d)
                      else
                        let p = receipt_proof w now an r; d = store_proof tid p d in
                        if stored_proof_agrees w tid an p d then (Proof_persisted, release_leases oid d)
                        else (Proof_conflict, d))
      | _ \<Rightarrow> (Proof_unknown, d))"

section \<open>The reservation is exclusive\<close>

lemma row_filter_value: "distinct (keys t) \<Longrightarrow> row (filter (\<lambda>(_, v). P v) t) k =
    (case row t k of Some v \<Rightarrow> if P v then Some v else None | None \<Rightarrow> None)"
proof (induction t)
  case (Cons p t)
  obtain a b where p: "p = (a, b)" by fastforce
  have "row (filter (\<lambda>(_, v). P v) t) a = None" using Cons.prems p by (auto simp: row_None_iff)
  moreover have "row t a = None" using Cons.prems p by (simp add: row_None_iff)
  ultimately show ?case using Cons p by (auto split: option.splits)
qed simp

lemma take_lease_effect:
  assumes "take_lease oid account d = Inr d'"
  shows "row (mapping_leases d') account = Some oid"
    "row (mapping_leases d) a = Some other \<Longrightarrow> row (mapping_leases d') a = Some other \<and> (other \<noteq> oid \<longrightarrow> a \<noteq> account)"
  using assms by (auto simp: take_lease_def row_insert_row split: option.splits if_splits)


section \<open>What the proof is worth\<close>

lemma trade_of_row: "distinct (keys (trade_ops d)) \<Longrightarrow> trade_of oid d = Some (tid, t) \<Longrightarrow> row (trade_ops d) tid = Some t"
  by (auto simp: trade_of_def find_Some_iff in_set_conv_nth intro!: mem_row)

lemma release_leases_ops [simp]: "trade_ops (release_leases oid d) = trade_ops d"
  by (simp add: release_leases_def)

text \<open>A receipt that became the proof was stored in the waiting trade operation.\<close>

lemma verify_delivery_stores:
  assumes "verify_delivery w now oid (Some r) d = (Proof_persisted, d')"
    and t: "trade_of oid d = Some (tid, t)" and ord: "row (orders d) oid = Some ord" and "t_delivery_proof t = JNull"
    and dist: "distinct (keys (trade_ops d))"
  shows "\<exists>seller buyer. steam_id_of (o_seller ord) d = Some seller \<and> steam_id_of (o_buyer ord) d = Some buyer
    \<and> (let an = delivery_anchors oid t seller buyer; p = receipt_proof w now an r in
        bound_delivery_proof w (Some p) an = Some p \<and> usable_receipt (Some r) (t_trade_binding t) = Some r
        \<and> t_status t = TS_WAITING \<and> baseline_fits (t_baseline t) (the (t_expected_asset t))
        \<and> row (trade_ops d') tid = Some (t\<lparr>t_delivery_proof := p, t_stage := ''DELIVERY_VERIFIED''\<rparr>))"
proof -
  from assms(1) t ord obtain seller buyer where sb: "steam_id_of (o_seller ord) d = Some seller" "steam_id_of (o_buyer ord) d = Some buyer"
    by (auto simp: verify_delivery_def Let_def present_def split: if_splits)
  define an where "an = delivery_anchors oid t seller buyer"
  define p where "p = receipt_proof w now an r"
  have untruthy: "\<not> json_truthy (Some JNull)" by (simp add: json_truthy_def)
  from assms(1) t ord sb assms(4) untruthy
  have u: "usable_receipt (Some r) (t_trade_binding t) = Some r" and b: "baseline_fits (t_baseline t) (the (t_expected_asset t))"
    and st: "stored_proof_agrees w tid an p (store_proof tid p d)" and d': "d' = release_leases oid (store_proof tid p d)"
    by (auto simp: verify_delivery_def Let_def an_def p_def usable_receipt_def split: if_splits option.splits)
  have row: "row (trade_ops (store_proof tid p d)) tid =
      Some (if t_status t = TS_WAITING then t\<lparr>t_delivery_proof := p, t_stage := ''DELIVERY_VERIFIED''\<rparr> else t)"
    using trade_of_row [OF dist t] assms(4) by (simp add: store_proof_def row_update_many del: map_of_eq_Some_iff)
  have "t_status t = TS_WAITING"
  proof (rule ccontr)
    assume "t_status t \<noteq> TS_WAITING"
    with row st assms(4) show False by (simp add: stored_proof_agrees_def bound_delivery_proof_def)
  qed
  moreover from this row st have "bound_delivery_proof w (Some p) an = Some p"
    by (auto simp: stored_proof_agrees_def bound_delivery_proof_def split: option.splits json.splits if_splits)
  ultimately show ?thesis using sb u b row d' by (auto simp: an_def p_def Let_def)
qed


section \<open>Two preparations at once\<close>

lemma trade_of_update_many:
  assumes "\<And>t. t_order (f t) = t_order t"
  shows "trade_of oid (d\<lparr>trade_ops := snd (update_many p f (trade_ops d))\<rparr>)
    = map_option (\<lambda>(i, t). (i, if p i t then f t else t)) (trade_of oid d)"
proof -
  have "find (\<lambda>(_, t). t_order t = oid) (snd (update_many p f ts))
      = map_option (\<lambda>(i, t). (i, if p i t then f t else t)) (find (\<lambda>(_, t). t_order t = oid) ts)" for ts
    by (induction ts) (auto simp: update_many_def assms)
  then show ?thesis by (simp add: trade_of_def)
qed

lemma trade_of_other [simp]:
  "trade_of oid (d\<lparr>bank := b\<rparr>) = trade_of oid d" "trade_of oid (d\<lparr>mapping_leases := l\<rparr>) = trade_of oid d"
  by (simp_all add: trade_of_def)

lemma draw_db_ops: "draw_db d = (i, d') \<Longrightarrow> trade_ops d' = trade_ops d \<and> mapping_leases d' = mapping_leases d \<and> orders d' = orders d"
  by (auto simp: draw_db_def Let_def split: prod.splits)

lemma store_baseline_effect:
  assumes "trade_of oid d = Some (tid, t)" and "t_baseline t = None" "t_offer_id t = None" "t_status t = TS_WAITING"
    and "store_baseline oid tid b d = (ok, d')"
  shows "ok \<and> (\<exists>u. trade_of oid d' = Some (tid, t\<lparr>t_baseline := Some b, t_trade_binding := Some (''p2pcs:'' @ u),
    t_stage := ''OFFER_CREATED'', t_fail_reason := None, t_next_preparation := None\<rparr>))"
proof -
  obtain u d0 where u: "draw_db d = (u, d0)" by fastforce
  note o = draw_db_ops [OF u]
  let ?p = "\<lambda>i t. i = tid \<and> t_baseline t = None \<and> t_offer_id t = None \<and> t_status t = TS_WAITING"
  let ?f = "\<lambda>t. t\<lparr>t_baseline := Some b, t_trade_binding := Some (''p2pcs:'' @ u), t_stage := ''OFFER_CREATED'',
    t_fail_reason := None, t_next_preparation := None\<rparr>"
  have "trade_of oid d0 = Some (tid, t)" using assms(1) o by (simp add: trade_of_def)
  with trade_of_update_many [where f = ?f and p = ?p and d = d0 and oid = oid] assms(2-4)
  have t': "trade_of oid (d0\<lparr>trade_ops := snd (update_many ?p ?f (trade_ops d0))\<rparr>) = Some (tid, ?f t)" by simp
  obtain n ts where um: "update_many ?p ?f (trade_ops d0) = (n, ts)" by fastforce
  with t' have t2: "trade_of oid (d0\<lparr>trade_ops := ts\<rparr>) = Some (tid, ?f t)" by simp
  have "(ok, d') = (n = 1 \<or> (case trade_of oid (d0\<lparr>trade_ops := ts\<rparr>) of Some (_, t) \<Rightarrow> t_baseline t \<noteq> None | None \<Rightarrow> False),
      d0\<lparr>trade_ops := ts\<rparr>)"
    unfolding assms(5) [symmetric] store_baseline_def Let_def u um prod.case by (rule refl)
  with t2 have "ok" "trade_of oid d' = Some (tid, ?f t)" by simp_all
  then show ?thesis by blast
qed

lemma abandon_preparation_effect:
  assumes "trade_of oid d = Some (tid, t)" and "t_status t = TS_WAITING"
  shows "trade_of oid (abandon_preparation w now oid tid reason d)
    = Some (tid, t\<lparr>t_next_preparation := Some (now + 120000 + random_tenths w 300000), t_fail_reason := Some reason\<rparr>)"
proof -
  let ?d = "if t_baseline t \<noteq> None \<or> t_offer_id t \<noteq> None then d else release_leases oid d"
  have "trade_of oid ?d = Some (tid, t)" using assms(1) by (simp add: release_leases_def)
  with assms show ?thesis by (simp add: abandon_preparation_def update_waiting_def trade_of_update_many Let_def)
qed

lemma observe_baseline_reason:
  "observe_baseline w now s b e = Inl reason \<Longrightarrow> reason \<in> {''BASELINE_UNAVAILABLE'', ''BASELINE_ORIGINAL_MISSING''}"
  by (auto simp: observe_baseline_def split: sum.splits option.splits)

text \<open>
  C19: A late preparation spoils an earlier one. Two preparations of the same order may both be reading
  the inventories. When the first one stores its baseline and the second one then fails to read Steam,
  the offer goes ahead with the baseline, but the trade operation keeps the failure as its reason, and
  the settlement guard refuses every release of the order that has such a reason, at any later time:
  the seller is not paid before a person intervenes.
\<close>

theorem late_preparation_blocks_settlement:
  assumes "prepare_finish w1 now1 oid tid s1 b1 e1 d = (ok1, d1)" and "observe_baseline w1 now1 s1 b1 e1 = Inr base"
    and "prepare_finish w2 now2 oid tid s2 b2 e2 d1 = (ok2, d2)" and "observe_baseline w2 now2 s2 b2 e2 = Inl reason"
    and t: "trade_of oid d = Some (tid, t)" "t_status t = TS_WAITING" "t_baseline t = None" "t_offer_id t = None"
  shows "ok1 \<and> \<not> ok2
     \<and> (\<exists>t'. trade_of oid d2 = Some (tid, t') \<and> t_baseline t' = Some base \<and> t_stage t' = ''OFFER_CREATED''
           \<and> t_fail_reason t' = Some reason)
     \<and> {d3. map_option (t_fail_reason \<circ> snd) (trade_of oid d3) = map_option (t_fail_reason \<circ> snd) (trade_of oid d2)}
         \<subseteq> {d3. \<forall>w now so. so_id so \<noteq> oid \<or> protection_guard w now so d3 = Blocked ''SETTLEMENT_REVIEW_REQUIRED''}"
proof -
  have "store_baseline oid tid base d = (ok1, d1)" using assms(1,2) by (simp add: prepare_finish_def)
  from store_baseline_effect [OF t(1,3,4,2) this] obtain t1 where
    1: ok1 "trade_of oid d1 = Some (tid, t1)" "t_status t1 = TS_WAITING" "t_baseline t1 = Some base" "t_stage t1 = ''OFFER_CREATED''"
    using t(2) by auto
  have "\<not> ok2" "d2 = abandon_preparation w2 now2 oid tid reason d1" using assms(3,4) by (auto simp: prepare_finish_def)
  with abandon_preparation_effect [OF 1(2,3)] 1 obtain t' where
    2: "\<not> ok2" "trade_of oid d2 = Some (tid, t')" "t_baseline t' = Some base" "t_stage t' = ''OFFER_CREATED''"
      "t_fail_reason t' = Some reason" by auto
  have r: "present (Some reason) \<and> Some reason \<noteq> Some ''STEAM_RECHECK_UNAVAILABLE''"
    using observe_baseline_reason [OF assms(4)] by (auto simp: present_def)
  have "protection_guard w now so d3 = Blocked ''SETTLEMENT_REVIEW_REQUIRED''"
    if "map_option (t_fail_reason \<circ> snd) (trade_of oid d3) = map_option (t_fail_reason \<circ> snd) (trade_of oid d2)" "so_id so = oid"
    for d3 w now so
    using that 2(2,5) r by (auto simp: protection_guard_def Let_def)
  with 1(1) 2 show ?thesis by blast
qed

section \<open>A concrete order\<close>

definition demo_trader :: "string \<Rightarrow> user" where
  "demo_trader steam = \<lparr>u_steam_id = Some steam, u_username = ''u'', u_role = UR_SELLER, u_status = US_ACTIVE,
     u_trade_url = None\<rparr>"

definition demo_trade_op :: trade_op where
  "demo_trade_op = \<lparr>t_order = ''o1'', t_status = TS_WAITING, t_provider_ref = None, t_fail_reason = None, t_offer_id = None,
     t_expected_asset = Some ''456'', t_mode = Some ''STEAM_POLL'', t_stage = ''WAITING'', t_next_verification = None,
     t_delivery_proof = JNull, t_trade_binding = None, t_baseline = None, t_last_checked = None, t_check_count = 0,
     t_next_preparation = None, t_lease_until = None, t_lease_token = None\<rparr>"

definition demo_delivery :: "trade_op \<Rightarrow> db" where
  "demo_delivery t = (empty_db demo_ids)\<lparr>
     bank := (empty_bank demo_ids)\<lparr>users := [(''seller'', demo_trader ''76561198000000001''),
                                          (''buyer'', demo_trader ''76561198000000002'')]\<rparr>,
     orders := [(''o1'', \<lparr>o_lot = ''l1'', o_buyer = ''buyer'', o_seller = ''seller'', o_status = OS_WAITING_TRADE,
                          o_amount = 100, o_hold_amount = 100, o_created_at = 0\<rparr>)],
     trade_ops := [(''t1'', t)]\<rparr>"

definition demo_baseline :: inventory_baseline where
  "demo_baseline =
     (let seen = \<lparr>io_fetched_at = 5, io_assets = [demo_observed ''456'', demo_observed ''8'']\<rparr>
      in \<lparr>ib_seller = seen, ib_buyer = seen, ib_original = demo_observed ''456''\<rparr>)"

lemma demo_baseline_observed:
  "observe_baseline (stocked_world ''456'') 5 ''76561198000000001'' ''76561198000000002'' (Some ''456'') = Inr demo_baseline"
  by code_simp

lemma demo_baseline_failed:
  "observe_baseline demo_world 5 ''76561198000000001'' ''76561198000000002'' (Some ''456'') = Inl ''BASELINE_UNAVAILABLE''"
  by code_simp

lemma demo_prepare_start:
  "prepare_start demo_world 5 ''o1'' (demo_delivery demo_trade_op)
     = (Observe ''t1'' ''76561198000000001'' ''76561198000000002'' (Some ''456''),
        (demo_delivery demo_trade_op)\<lparr>mapping_leases := [(''76561198000000001'', ''o1''), (''76561198000000002'', ''o1'')]\<rparr>)"
  by (simp add: prepare_start_def demo_delivery_def empty_db_def empty_bank_def trade_of_def demo_trade_op_def Let_def
      steam_id_of_def demo_trader_def present_def transaction_def take_leases_def take_lease_def purge_leases_def insert_row_def)


definition demo_first :: "bool \<times> db" where
  "demo_first = prepare_finish (stocked_world ''456'') 5 ''o1'' ''t1'' ''76561198000000001'' ''76561198000000002'' (Some ''456'')
     (demo_delivery demo_trade_op)"

definition demo_second :: "bool \<times> db" where
  "demo_second = prepare_finish demo_world 5 ''o1'' ''t1'' ''76561198000000001'' ''76561198000000002'' (Some ''456'')
     (snd demo_first)"

lemma demo_delivery_op [simp]: "trade_of ''o1'' (demo_delivery t) = (if t_order t = ''o1'' then Some (''t1'', t) else None)"
  by (simp add: demo_delivery_def trade_of_def)

theorem late_preparation_blocks_settlement_witness:
  "fst demo_first \<and> \<not> fst demo_second
   \<and> (\<forall>w now so. protection_guard w now (so\<lparr>so_id := ''o1''\<rparr>) (snd demo_second) = Blocked ''SETTLEMENT_REVIEW_REQUIRED'')"
proof -
  have p1: "prepare_finish (stocked_world ''456'') 5 ''o1'' ''t1'' ''76561198000000001'' ''76561198000000002'' (Some ''456'')
     (demo_delivery demo_trade_op) = (fst demo_first, snd demo_first)"
    unfolding demo_first_def by (rule prod.collapse [symmetric])
  have p2: "prepare_finish demo_world 5 ''o1'' ''t1'' ''76561198000000001'' ''76561198000000002'' (Some ''456'')
     (snd demo_first) = (fst demo_second, snd demo_second)"
    unfolding demo_second_def by (rule prod.collapse [symmetric])
  have "trade_of ''o1'' (demo_delivery demo_trade_op) = Some (''t1'', demo_trade_op)" "t_status demo_trade_op = TS_WAITING"
    "t_baseline demo_trade_op = None" "t_offer_id demo_trade_op = None"
    by (simp_all add: demo_trade_op_def)
  note r = late_preparation_blocks_settlement [OF p1 demo_baseline_observed p2 demo_baseline_failed this]
  have "snd demo_second \<in> {d3. \<forall>w now so. so_id so \<noteq> ''o1'' \<or> protection_guard w now so d3 = Blocked ''SETTLEMENT_REVIEW_REQUIRED''}"
    by (rule subsetD [OF conjunct2 [OF conjunct2 [OF conjunct2 [OF r]]]]) simp
  then have "protection_guard w now (so\<lparr>so_id := ''o1''\<rparr>) (snd demo_second) = Blocked ''SETTLEMENT_REVIEW_REQUIRED''"
    for w now so by auto
  with r show ?thesis by simp
qed

definition demo_bound_op :: trade_op where
  "demo_bound_op = demo_trade_op\<lparr>t_offer_id := Some ''900'', t_trade_binding := Some ''p2pcs:1'', t_baseline := Some demo_baseline\<rparr>"

definition demo_proven :: "verification_outcome \<times> db" where
  "demo_proven = verify_delivery keyed_world 0 ''o1'' (Some demo_receipt) (demo_delivery demo_bound_op)"

lemma demo_proven_reached: "fst demo_proven = Proof_persisted"
  by code_simp


end
